(* ===== verification/Prelude.thy ===== *)
theory Prelude
  imports Complex_Main "HOL-Library.AList" "HOL-Library.Char_ord" "HOL-Library.List_Lexorder" "HOL-Library.Product_Lexorder"
begin

text \<open>
  Shared vocabulary of the development: the Python values the code validates at run time, Python
  floats, strings and decimal rendering, results with exceptions, dictionaries as association
  lists, and the collections of rewrite rules the component theories use.

  Strings are lists of 8-bit characters, read as code points below 256; \<open>str.strip\<close> removes the
  white space of that range. Floats are exact rationals with the two infinities and NaN: rounding
  of a subtraction is not modelled, the order and the NaN behaviour of comparisons are.
\<close>

named_theorems wf_intros
named_theorems dict_simps
named_theorems redis_laws
named_theorems key_simps

subsection \<open>Results with exceptions\<close>

datatype pyexn = ValueError | TypeError | OverflowError

definition rbind :: "'e + 'a \<Rightarrow> ('a \<Rightarrow> 'e + 'b) \<Rightarrow> 'e + 'b" where
  "rbind m f = (case m of Inl e \<Rightarrow> Inl e | Inr x \<Rightarrow> f x)"

lemma rbind_simps [simp]: "rbind (Inl e) f = Inl e" "rbind (Inr x) f = f x"
  by (simp_all add: rbind_def)

lemma rbind_Inr_iff: "rbind m f = Inr y \<longleftrightarrow> (\<exists>x. m = Inr x \<and> f x = Inr y)"
  by (cases m) auto

lemma if_Inl_iff: "(if c then Inl e else m) = Inr x \<longleftrightarrow> \<not> c \<and> m = Inr x"
  by simp

lemmas Inr_iffs = rbind_Inr_iff if_Inl_iff not_not sum.inject prod.case

lemma filter_singleton: "filter P xs = [x] \<Longrightarrow> x \<in> set xs \<and> P x"
  by (metis filter_eq_Cons_iff in_set_conv_decomp)

lemma rbind_cong [fundef_cong]:
  "m = m' \<Longrightarrow> (\<And>x. m' = Inr x \<Longrightarrow> f x = f' x) \<Longrightarrow> rbind m f = rbind m' f'"
  by (cases m') auto

definition map_exn :: "('e \<Rightarrow> 'f) \<Rightarrow> 'e + 'a \<Rightarrow> 'f + 'a" where
  "map_exn g m = (case m of Inl e \<Rightarrow> Inl (g e) | Inr x \<Rightarrow> Inr x)"

lemma map_exn_simps [simp]: "map_exn g (Inl e) = Inl (g e)" "map_exn g (Inr x) = Inr x"
  by (simp_all add: map_exn_def)

lemma map_exn_Inr_iff [simp]: "map_exn g m = Inr x \<longleftrightarrow> m = Inr x"
  by (cases m) auto

definition require :: "bool \<Rightarrow> 'e \<Rightarrow> 'e + unit" where
  "require b e = (if b then Inr () else Inl e)"

lemma require_simps [simp]: "require True e = Inr ()" "require False e = Inl e"
  by (simp_all add: require_def)

lemma require_Inr_iff [simp]: "require b e = Inr u \<longleftrightarrow> b"
  by (simp add: require_def)

subsection \<open>Python floats\<close>

datatype pyfloat = Fin rat | PInf | NInf | NaN

fun flt :: "pyfloat \<Rightarrow> pyfloat \<Rightarrow> bool" where
  "flt (Fin a) (Fin b) = (a < b)"
| "flt NInf (Fin _) = True"
| "flt NInf PInf = True"
| "flt (Fin _) PInf = True"
| "flt _ _ = False"

fun fle :: "pyfloat \<Rightarrow> pyfloat \<Rightarrow> bool" where
  "fle (Fin a) (Fin b) = (a \<le> b)"
| "fle NInf (Fin _) = True"
| "fle NInf PInf = True"
| "fle NInf NInf = True"
| "fle (Fin _) PInf = True"
| "fle PInf PInf = True"
| "fle _ _ = False"

fun fsub :: "pyfloat \<Rightarrow> pyfloat \<Rightarrow> pyfloat" where
  "fsub (Fin a) (Fin b) = Fin (a - b)"
| "fsub (Fin _) PInf = NInf"
| "fsub (Fin _) NInf = PInf"
| "fsub PInf (Fin _) = PInf"
| "fsub PInf NInf = PInf"
| "fsub NInf (Fin _) = NInf"
| "fsub NInf PInf = NInf"
| "fsub _ _ = NaN"

abbreviation fint :: "int \<Rightarrow> pyfloat" where
  "fint n \<equiv> Fin (of_int n)"

text \<open>\<open>max(0.0, x)\<close> keeps its first argument unless the second compares greater, so NaN gives 0.\<close>

definition fmax0 :: "pyfloat \<Rightarrow> pyfloat" where
  "fmax0 x = (if flt (Fin 0) x then x else Fin 0)"

text \<open>\<open>int(x)\<close> truncates towards zero; it raises on NaN and on the infinities.\<close>

fun int_of_float :: "pyfloat \<Rightarrow> pyexn + int" where
  "int_of_float (Fin q) = Inr (if q < 0 then - \<lfloor>- q\<rfloor> else \<lfloor>q\<rfloor>)"
| "int_of_float NaN = Inl ValueError"
| "int_of_float _ = Inl OverflowError"

text \<open>\<open>float(n)\<close> of an integer raises when the integer rounds beyond the largest double.\<close>

definition float_of_int :: "int \<Rightarrow> pyexn + pyfloat" where
  "float_of_int n = (if \<bar>n\<bar> < 2 ^ 1024 - 2 ^ 970 then Inr (fint n) else Inl OverflowError)"

lemma flt_irrefl [simp]: "\<not> flt x x"
  by (cases x) auto

lemma fle_trans: "fle x y \<Longrightarrow> fle y z \<Longrightarrow> fle x z"
  by (cases x; cases y; cases z) auto

lemma fle_not_flt: "fle x y \<Longrightarrow> \<not> flt y x"
  by (cases x; cases y) auto

subsection \<open>Run-time values\<close>

text \<open>What \<open>json.loads\<close> returns and what callers pass: \<open>PTuple\<close> occurs only as a mapping key.\<close>

datatype pyval =
    PNone
  | PBool bool
  | PInt int
  | PFloat pyfloat
  | PStr string
  | PList "pyval list"
  | PTuple "pyval list"
  | PDict "(string \<times> pyval) list"

text \<open>\<open>isinstance(v, int) and not isinstance(v, bool)\<close> with a lower bound.\<close>

fun int_at_least :: "int \<Rightarrow> pyval \<Rightarrow> bool" where
  "int_at_least lo (PInt n) = (lo \<le> n)"
| "int_at_least lo _ = False"

fun int_value :: "pyval \<Rightarrow> int" where
  "int_value (PInt n) = n"
| "int_value _ = 0"

lemma int_at_least_value: "int_at_least lo v \<Longrightarrow> v = PInt (int_value v) \<and> lo \<le> int_value v"
  by (cases v) auto

text \<open>\<open>v == k\<close> for an integer \<open>k\<close>: equality across \<open>int\<close>, \<open>bool\<close> and \<open>float\<close>.\<close>

fun equals_int :: "pyval \<Rightarrow> int \<Rightarrow> bool" where
  "equals_int (PInt n) k = (n = k)"
| "equals_int (PBool b) k = ((if b then 1 else 0) = k)"
| "equals_int (PFloat (Fin q)) k = (q = of_int k)"
| "equals_int _ k = False"

subsection \<open>Strings\<close>

definition py_space :: "char \<Rightarrow> bool" where
  "py_space c \<longleftrightarrow> (of_char c :: nat) \<in> {9, 10, 11, 12, 13, 28, 29, 30, 31, 32, 133, 160}"

definition strip :: "string \<Rightarrow> string" where
  "strip s = rev (dropWhile py_space (rev (dropWhile py_space s)))"

lemma dropWhile_rev_dropWhile:
  assumes "x = rev (dropWhile P (rev (dropWhile P s)))"
  shows "dropWhile P x = x" "dropWhile P (rev x) = rev x"
proof -
  let ?d = "dropWhile P s"
  have rx: "rev x = dropWhile P (rev ?d)" using assms by simp
  show "dropWhile P (rev x) = rev x" by (simp add: rx)
  show "dropWhile P x = x"
  proof (cases x)
    case (Cons a as)
    have "rev ?d = takeWhile P (rev ?d) @ dropWhile P (rev ?d)" by simp
    then have "?d = rev (dropWhile P (rev ?d)) @ rev (takeWhile P (rev ?d))"
      by (metis rev_append rev_rev_ident)
    then have "?d = x @ rev (takeWhile P (rev ?d))" using assms by simp
    then have d: "?d = a # (as @ rev (takeWhile P (rev ?d)))" using Cons by simp
    then have "hd ?d = a" and "?d \<noteq> []" by (metis list.sel(1)) (use d in force)
    then have "\<not> P a" using hd_dropWhile by metis
    then show ?thesis using Cons by simp
  qed simp
qed

lemma strip_idem [simp]: "strip (strip s) = strip s"
  using dropWhile_rev_dropWhile[OF strip_def[of s]] by (simp add: strip_def[of "strip s"])

definition hex_digit :: "char \<Rightarrow> bool" where
  "hex_digit c \<longleftrightarrow> c \<in> set ''0123456789abcdef''"

text \<open>\<open>re.fullmatch(r"[0-9a-f]{n}", s)\<close>\<close>

definition hex_string :: "nat \<Rightarrow> string \<Rightarrow> bool" where
  "hex_string n s \<longleftrightarrow> length s = n \<and> list_all hex_digit s"

text \<open>\<open>str(UUID(s)) == s\<close>: 32 lower-case hexadecimal digits in groups of 8, 4, 4, 4 and 12.\<close>

fun hex_groups :: "nat list \<Rightarrow> string \<Rightarrow> bool" where
  "hex_groups [] s = (s = [])"
| "hex_groups [n] s = hex_string n s"
| "hex_groups (n # ns) s =
     (hex_string n (take n s) \<and> (case drop n s of c # r \<Rightarrow> c = CHR ''-'' \<and> hex_groups ns r | [] \<Rightarrow> False))"

definition canonical_uuid :: "string \<Rightarrow> bool" where
  "canonical_uuid s \<longleftrightarrow> hex_groups [8, 4, 4, 4, 12] s"

subsection \<open>Decimal rendering of integers\<close>

definition digit_char :: "nat \<Rightarrow> char" where
  "digit_char d = char_of (48 + d)"

fun dec_nat :: "nat \<Rightarrow> string" where
  "dec_nat n = (if n < 10 then [digit_char n] else dec_nat (n div 10) @ [digit_char (n mod 10)])"

declare dec_nat.simps [simp del]

definition dec :: "int \<Rightarrow> string" where
  "dec i = (if i < 0 then CHR ''-'' # dec_nat (nat (- i)) else dec_nat (nat i))"

definition digit_value :: "char \<Rightarrow> nat" where
  "digit_value c = of_char c - 48"

definition undec_nat :: "string \<Rightarrow> nat" where
  "undec_nat s = foldl (\<lambda>n c. 10 * n + digit_value c) 0 s"

text \<open>The inverse accepts canonical renderings only.\<close>

definition undec :: "string \<Rightarrow> int option" where
  "undec s =
     (let i = (case s of c # r \<Rightarrow> if c = CHR ''-'' then - int (undec_nat r) else int (undec_nat s)
                       | [] \<Rightarrow> 0)
      in if dec i = s then Some i else None)"

lemma digit_value_char: "d < 10 \<Longrightarrow> digit_value (digit_char d) = d"
  by (simp add: digit_value_def digit_char_def)

lemma undec_dec_nat: "undec_nat (dec_nat n) = n"
proof (induction n rule: dec_nat.induct)
  case (1 n)
  show ?case
  proof (cases "n < 10")
    case True
    then show ?thesis by (subst dec_nat.simps) (simp add: undec_nat_def digit_value_char)
  next
    case False
    with 1 have "undec_nat (dec_nat (n div 10)) = n div 10" by simp
    with False show ?thesis
      by (subst dec_nat.simps) (simp add: undec_nat_def digit_value_char)
  qed
qed

lemma dec_nat_nonempty [simp]: "dec_nat n \<noteq> []"
  by (subst dec_nat.simps) simp

lemma digit_char_not_minus: "d < 10 \<Longrightarrow> digit_char d \<noteq> CHR ''-''"
proof
  assume "d < 10" and "digit_char d = CHR ''-''"
  then have "(of_char (digit_char d) :: nat) = of_char (CHR ''-'')" by simp
  with \<open>d < 10\<close> show False by (simp add: digit_char_def)
qed

lemma hd_dec_nat: "hd (dec_nat n) \<noteq> CHR ''-''"
proof (induction n rule: dec_nat.induct)
  case (1 n)
  then show ?case
    by (subst dec_nat.simps) (simp add: digit_char_not_minus)
qed

lemma undec_dec [simp]: "undec (dec i) = Some i"
proof (cases "i < 0")
  case True
  then show ?thesis by (simp add: undec_def dec_def undec_dec_nat)
next
  case False
  then have d: "dec i = dec_nat (nat i)" by (simp add: dec_def)
  obtain c r where c: "dec_nat (nat i) = c # r" using dec_nat_nonempty by (meson neq_Nil_conv)
  then have "c \<noteq> CHR ''-''" using hd_dec_nat[of "nat i"] by simp
  moreover have "undec_nat (c # r) = nat i" using c undec_dec_nat by metis
  ultimately show ?thesis using False c d by (simp add: undec_def Let_def dec_def)
qed

lemma dec_inject [simp]: "dec i = dec j \<longleftrightarrow> i = j"
  by (metis option.inject undec_dec)

lemma undec_SomeD: "undec s = Some i \<Longrightarrow> s = dec i"
  by (auto simp: undec_def Let_def split: if_splits)

lemma undec_Nil [simp]: "undec [] = None"
proof -
  have "dec 0 \<noteq> []" by (simp add: dec_def)
  then show ?thesis by (simp add: undec_def)
qed

lemma digit_chars:
  "list_all (\<lambda>d. digit_char d \<in> set ''0123456789'') [0..<10]"
  "list_all (\<lambda>d. digit_char d \<in> set ''123456789'') [1..<10]"
  by code_simp+

lemma digit_char_digits: "d < 10 \<Longrightarrow> digit_char d \<in> set ''0123456789''"
  using digit_chars(1) unfolding list_all_iff by simp

lemma digit_char_positive: "0 < d \<Longrightarrow> d < 10 \<Longrightarrow> digit_char d \<in> set ''123456789''"
  using digit_chars(2) unfolding list_all_iff by simp

lemma dec_nat_shape:
  "0 < n \<Longrightarrow> \<exists>c cs. dec_nat n = c # cs \<and> c \<in> set ''123456789'' \<and> list_all (\<lambda>d. d \<in> set ''0123456789'') cs"
proof (induction n rule: dec_nat.induct)
  case (1 n)
  show ?case
  proof (cases "n < 10")
    case True
    with 1 digit_char_positive[of n] show ?thesis by (subst dec_nat.simps) simp
  next
    case False
    then have "0 < n div 10" by (simp add: div_greater_zero_iff)
    with 1(1)[OF False] obtain c cs where "dec_nat (n div 10) = c # cs" "c \<in> set ''123456789''"
        "list_all (\<lambda>d. d \<in> set ''0123456789'') cs"
      by blast
    with False digit_char_digits[of "n mod 10"] show ?thesis by (subst dec_nat.simps) simp
  qed
qed

lemma dec_nat_digits: "list_all (\<lambda>d. d \<in> set ''0123456789'') (dec_nat n)"
proof (induction n rule: dec_nat.induct)
  case (1 n)
  show ?case
  proof (cases "n < 10")
    case True
    with digit_char_digits[of n] show ?thesis by (subst dec_nat.simps) simp
  next
    case False
    with 1(1)[OF False] digit_char_digits[of "n mod 10"] show ?thesis by (subst dec_nat.simps) simp
  qed
qed

lemma dec_no_colon: "CHR '':'' \<notin> set (dec n)"
proof -
  have "CHR '':'' \<notin> set (dec_nat m)" for m
  proof
    assume "CHR '':'' \<in> set (dec_nat m)"
    with dec_nat_digits[of m] have "CHR '':'' \<in> set ''0123456789''" unfolding list_all_iff by (rule bspec)
    then show False by simp
  qed
  then show ?thesis by (simp add: dec_def)
qed

text \<open>\<open>int(s)\<close>: white space, an optional sign and decimal digits with single underscores between them.\<close>

fun underscored_digits :: "bool \<Rightarrow> string \<Rightarrow> bool" where
  "underscored_digits after [] = after"
| "underscored_digits after (c # cs) =
     (if c \<in> set ''0123456789'' then underscored_digits True cs
      else c = CHR ''_'' \<and> after \<and> underscored_digits False cs)"

definition py_int_of_string :: "string \<Rightarrow> int option" where
  "py_int_of_string s =
     (let t = strip s;
          (neg, body) = (case t of c # r \<Rightarrow> if c = CHR ''-'' then (True, r)
                            else if c = CHR ''+'' then (False, r) else (False, t) | [] \<Rightarrow> (False, []));
          n = int (undec_nat (filter (\<lambda>c. c \<noteq> CHR ''_'') body))
      in if underscored_digits False body then Some (if neg then - n else n) else None)"

subsection \<open>Dictionaries\<close>

text \<open>
  A \<open>dict\<close> is an association list in insertion order with distinct keys: reading is \<open>map_of\<close>,
  assignment \<open>AList.update\<close> (an existing key keeps its place), \<open>pop\<close> is \<open>AList.delete\<close>.
\<close>

lemma dict_get_set [dict_simps]: "map_of (AList.update k v d) = (map_of d)(k \<mapsto> v)"
  by (rule AList.update_conv')

lemma dict_get_del [dict_simps]: "map_of (AList.delete k d) = (map_of d)(k := None)"
  by (rule AList.delete_conv')

lemma dict_distinct [dict_simps]:
  "distinct (map fst d) \<Longrightarrow> distinct (map fst (AList.update k v d))"
  "distinct (map fst d) \<Longrightarrow> distinct (map fst (AList.delete k d))"
  by (simp_all add: AList.distinct_update AList.distinct_delete)

lemma set_dict_set:
  "distinct (map fst d) \<Longrightarrow> set (AList.update k v d) = {p \<in> set d. fst p \<noteq> k} \<union> {(k, v)}"
  by (induction d) (auto simp: rev_image_eqI)

lemma set_dict_del: "set (AList.delete k d) = {p \<in> set d. fst p \<noteq> k}"
  by (auto simp: AList.delete_eq)

lemma distinct_map_fst_filter: "distinct (map fst d) \<Longrightarrow> distinct (map fst (filter P d))"
  by (induction d) auto

lemma map_of_filter_fst:
  "distinct (map fst d) \<Longrightarrow>
   map_of (filter P d) k = (case map_of d k of None \<Rightarrow> None | Some v \<Rightarrow> if P (k, v) then Some v else None)"
  by (induction d) (auto simp: map_of_eq_None_iff rev_image_eqI split: option.splits)

lemma dict_set_fresh: "k \<notin> fst ` set d \<Longrightarrow> AList.update k v d = d @ [(k, v)]"
  by (induction d) auto

text \<open>\<open>json.dump(..., sort_keys=True)\<close> writes every object in key order.\<close>

definition sorted_items :: "(string \<times> 'v) list \<Rightarrow> (string \<times> 'v) list" where
  "sorted_items d = sort_key fst d"

lemma sorted_items_set [simp]: "set (sorted_items d) = set d"
  by (simp add: sorted_items_def)

lemma sorted_items_distinct:
  "distinct (map fst d) \<Longrightarrow> distinct (map fst (sorted_items d))"
  unfolding sorted_items_def by (metis distinct_map distinct_sort set_sort)

lemma sorted_items_map_of:
  "distinct (map fst d) \<Longrightarrow> map_of (sorted_items d) = map_of d"
  by (rule map_of_eqI) (auto simp: sorted_items_distinct intro: map_of_is_SomeI dest: map_of_SomeD)

subsection \<open>The content of a state file\<close>

text \<open>
  A durable state file as its readers see it: absent, present but unreadable (an I/O error or text
  that is not JSON), or a JSON document. Writers replace the whole file atomically
  (\<open>os.replace\<close> of a temporary file), so a write is a new document.
\<close>

datatype state_file = Absent | Unreadable | Document pyval

subsection \<open>Reading the fields of a document\<close>

text \<open>\<open>d.get(k)\<close>, \<open>d.get(k, v)\<close> and the JSON form of an optional text.\<close>

definition dict_default :: "(string \<times> pyval) list \<Rightarrow> string \<Rightarrow> pyval \<Rightarrow> pyval" where
  "dict_default d k v = (case map_of d k of None \<Rightarrow> v | Some x \<Rightarrow> x)"

abbreviation dict_value :: "(string \<times> pyval) list \<Rightarrow> string \<Rightarrow> pyval" where
  "dict_value d k \<equiv> dict_default d k PNone"

fun optional_json :: "string option \<Rightarrow> pyval" where
  "optional_json None = PNone"
| "optional_json (Some s) = PStr s"


text \<open>
  Computations that change a state and may fail: the requests of the portal and of the Sports service. A
  failure keeps the state reached so far, as a raise or an early return in the middle of a handler does.
\<close>

type_synonym ('s, 'e, 'a) exn_state = "'s \<Rightarrow> ('e + 'a) \<times> 's"

definition pbind :: "('s, 'e, 'a) exn_state \<Rightarrow> ('a \<Rightarrow> ('s, 'e, 'b) exn_state) \<Rightarrow> ('s, 'e, 'b) exn_state" where
  "pbind m f s = (case m s of (Inl e, s') \<Rightarrow> (Inl e, s') | (Inr x, s') \<Rightarrow> f x s')"

definition preturn :: "'a \<Rightarrow> ('s, 'e, 'a) exn_state" where
  "preturn x s = (Inr x, s)"

definition pfail :: "'e \<Rightarrow> ('s, 'e, 'a) exn_state" where
  "pfail e s = (Inl e, s)"

text \<open>\<open>try: m except: h\<close>, and a handler that cleans up and raises again.\<close>

definition pcatch :: "('s, 'e, 'a) exn_state \<Rightarrow> ('e \<Rightarrow> ('s, 'e, 'a) exn_state) \<Rightarrow> ('s, 'e, 'a) exn_state" where
  "pcatch m h s = (case m s of (Inl e, s') \<Rightarrow> h e s' | (Inr x, s') \<Rightarrow> (Inr x, s'))"

definition failing_after :: "('s, 'e, 'b) exn_state \<Rightarrow> 'e \<Rightarrow> ('s, 'e, 'a) exn_state" where
  "failing_after cleanup e = pbind cleanup (\<lambda>_. pfail e)"

definition pure_play :: "'e + 'a \<Rightarrow> ('s, 'e, 'a) exn_state" where
  "pure_play r s = (r, s)"

lemma pbind_cases:
  assumes "pbind m f s = (res, s')"
  obtains (failed) e where "m s = (Inl e, s')" "res = Inl e"
  | (went_on) x s1 where "m s = (Inr x, s1)" "f x s1 = (res, s')"
  using assms by (auto simp: pbind_def split: prod.splits sum.splits)

lemma pcatch_cases:
  assumes "pcatch m h s = (res, s')"
  obtains (handled) e s1 where "m s = (Inl e, s1)" "h e s1 = (res, s')"
  | (fine) x where "m s = (Inr x, s')" "res = Inr x"
  using assms by (auto simp: pcatch_def split: prod.splits sum.splits)

lemma failing_after_cases:
  assumes "failing_after c e s = (res, s')"
  obtains x where "c s = (x, s')" "res = (case x of Inl e' \<Rightarrow> Inl e' | Inr _ \<Rightarrow> Inl e)"
  using assms by (auto simp: failing_after_def pbind_def pfail_def split: prod.splits sum.splits)

end
