(* ===== verification/Durable_State.thy ===== *)
theory Durable_State
  imports Prelude
begin

text \<open>
  The contract between a component and its durable state file, shared by the Sports resource pool
  and the Sports session registry: what is read back is well formed, what is written in well-formed
  shape can be read again, and it reads as the written state up to the key order \<open>norm\<close> that
  \<open>sort_keys=True\<close> imposes. The lemmas say what a sequence of transactions, each a read, a change
  of the state and an atomic write, keeps.
\<close>

locale durable_state =
  fixes read_doc :: "state_file \<Rightarrow> 'e + 's"
    and write_doc :: "'s \<Rightarrow> state_file"
    and wf :: "'s \<Rightarrow> bool"
    and norm :: "'s \<Rightarrow> 's"
  assumes read_wf: "read_doc f = Inr s \<Longrightarrow> wf s"
    and read_absent: "\<exists>s. read_doc Absent = Inr s"
    and read_write: "wf s \<Longrightarrow> read_doc (write_doc s) = Inr (norm s)"
    and norm_norm: "wf s \<Longrightarrow> norm (norm s) = norm s"
begin

definition readable :: "state_file \<Rightarrow> bool" where
  "readable f \<longleftrightarrow> (\<exists>s. read_doc f = Inr s)"

text \<open>One transaction: a change \<open>g\<close> of the state that was read, written back; a read error leaves the file.\<close>

definition transact :: "('s \<Rightarrow> 's) \<Rightarrow> state_file \<Rightarrow> state_file" where
  "transact g f = (case read_doc f of Inl _ \<Rightarrow> f | Inr s \<Rightarrow> write_doc (g s))"

lemma readable_absent: "readable Absent"
  using read_absent by (simp add: readable_def)

lemma readable_write: "wf s \<Longrightarrow> readable (write_doc s)"
  by (auto simp: readable_def read_write)

lemma norm_wf: "wf s \<Longrightarrow> wf (norm s)"
  using read_write read_wf by blast

lemma transact_read:
  assumes "read_doc f = Inr s" and "wf (g s)"
  shows "read_doc (transact g f) = Inr (norm (g s))"
  using assms by (simp add: transact_def read_write)

lemma transact_readable:
  assumes "readable f" and "\<And>s. wf s \<Longrightarrow> wf (g s)"
  shows "readable (transact g f)"
proof -
  obtain s where s: "read_doc f = Inr s" using assms(1) by (auto simp: readable_def)
  then have "wf (g s)" by (intro assms(2) read_wf)
  with s show ?thesis by (auto simp: readable_def transact_read)
qed

lemma transacts_readable:
  assumes "readable f" and "\<And>g s. g \<in> set gs \<Longrightarrow> wf s \<Longrightarrow> wf (g s)"
  shows "readable (fold transact gs f)"
  using assms by (induction gs arbitrary: f) (auto intro: transact_readable)

text \<open>Writing what was read is a fixed point: the second rewrite changes nothing.\<close>

lemma rewrite_stable:
  assumes "wf s"
  shows "read_doc (write_doc (norm s)) = Inr (norm s)"
  using assms by (simp add: read_write norm_wf norm_norm)

end

end
