(* ===== verification/Resource_Pool.thy ===== *)
theory Resource_Pool
  imports Durable_State
begin

text \<open>
  The Sports upstream-resource pool (\<open>atlas/sports_resource_pool.py\<close>): leases of upstream
  connection slots kept in one JSON file that several API processes share under a file lock.
  An operation holds the lock from its read to its write, so it is modelled as one step on the
  file; the clock and the lease-id factory are arguments.
\<close>

subsection \<open>Data\<close>

datatype pool_exn = PoolBuiltin pyexn | PoolExhausted | UserLimitExceeded | LeaseNotFound | PoolStateError

record lease =
  lease_id :: string
  user_id :: string
  target_id :: string
  source_id :: string
  created_at :: pyfloat
  last_seen_at :: pyfloat
  sharing_fingerprint :: "string option"

text \<open>A row of the stored \<open>leases\<close> object: the lease without its identifier, which is the key.\<close>

record row =
  row_user :: string
  row_target :: string
  row_source :: string
  row_created :: pyfloat
  row_seen :: pyfloat
  row_fingerprint :: "string option"

record pool_state =
  pool_version :: int
  pool_leases :: "(string \<times> row) list"

record pool =
  ttl_seconds :: int
  sharing_bindings :: "((string \<times> string) \<times> string) list"

definition SPORTS_RESOURCE_POOL_VERSION :: int where
  "SPORTS_RESOURCE_POOL_VERSION = 1"

definition SPORTS_SHARED_RESOURCE_POOL_VERSION :: int where
  "SPORTS_SHARED_RESOURCE_POOL_VERSION = 2"

lemmas pool_versions = SPORTS_RESOURCE_POOL_VERSION_def SPORTS_SHARED_RESOURCE_POOL_VERSION_def

subsection \<open>Validation of arguments\<close>

fun required_identifier :: "pyval \<Rightarrow> pyexn + string" where
  "required_identifier (PStr value) =
     (let normalized = strip value
      in if normalized = [] \<or> length normalized > 256
            \<or> list_ex (\<lambda>c. (of_char c :: nat) < 32) normalized
         then Inl ValueError else Inr normalized)"
| "required_identifier _ = Inl ValueError"

fun required_timestamp :: "pyval \<Rightarrow> pool_exn + pyfloat" where
  "required_timestamp (PInt n) = map_exn PoolBuiltin (float_of_int n)"
| "required_timestamp (PFloat x) = Inr x"
| "required_timestamp _ = Inl PoolStateError"

fun candidates_loop :: "pyval list \<Rightarrow> string list \<Rightarrow> pyexn + string list" where
  "candidates_loop [] result = Inr result"
| "candidates_loop (value # values) result =
     rbind (required_identifier value) (\<lambda>normalized.
       if normalized \<in> set result then candidates_loop values result
       else candidates_loop values (result @ [normalized]))"

definition normalized_candidates :: "pyval list \<Rightarrow> pyexn + string list" where
  "normalized_candidates values = candidates_loop values []"

fun capacities_loop :: "(pyval \<times> pyval) list \<Rightarrow> (string \<times> int) list \<Rightarrow> pyexn + (string \<times> int) list" where
  "capacities_loop [] normalized = Inr normalized"
| "capacities_loop ((source, capacity) # rest) normalized =
     rbind (required_identifier source) (\<lambda>key.
       if int_at_least 0 capacity
       then capacities_loop rest (AList.update key (int_value capacity) normalized)
       else Inl ValueError)"

definition normalized_capacities :: "(pyval \<times> pyval) list \<Rightarrow> pyexn + (string \<times> int) list" where
  "normalized_capacities capacities = capacities_loop capacities []"

text \<open>The constructor: a positive integer TTL, and sharing bindings copied after validation.\<close>

fun bindings_loop ::
  "(pyval \<times> pyval) list \<Rightarrow> ((string \<times> string) \<times> string) list
   \<Rightarrow> pyexn + ((string \<times> string) \<times> string) list" where
  "bindings_loop [] acc = Inr acc"
| "bindings_loop ((identity, fingerprint) # rest) acc =
     (case identity of
        PTuple [t, s] \<Rightarrow>
          rbind (required_identifier t) (\<lambda>target.
          rbind (required_identifier s) (\<lambda>source.
            case fingerprint of
              PStr fp \<Rightarrow>
                if hex_string 64 fp then bindings_loop rest (AList.update (target, source) fp acc)
                else Inl ValueError
            | _ \<Rightarrow> Inl ValueError))
      | _ \<Rightarrow> Inl ValueError)"

definition new_pool :: "pyval \<Rightarrow> (pyval \<times> pyval) list \<Rightarrow> pyexn + pool" where
  "new_pool ttl bindings =
     (if \<not> int_at_least 1 ttl then Inl ValueError
      else rbind (bindings_loop bindings []) (\<lambda>bs.
        Inr \<lparr>ttl_seconds = int_value ttl, sharing_bindings = bs\<rparr>))"

subsection \<open>The state file\<close>

definition binding :: "pool \<Rightarrow> string \<Rightarrow> string \<Rightarrow> string option" where
  "binding P target source = map_of (sharing_bindings P) (target, source)"

definition lease_keys :: "string list" where
  "lease_keys = [''user_id'', ''target_id'', ''source_id'', ''created_at'', ''last_seen_at'']"

text \<open>\<open>fingerprint = lease.get(...)\<close>, checked when the key is present, and the schema check.\<close>

definition read_fingerprint :: "int \<Rightarrow> (string \<times> pyval) list \<Rightarrow> pool_exn + string option" where
  "read_fingerprint version entry =
     (case map_of entry ''sharing_fingerprint'' of
        None \<Rightarrow>
          if set (map fst entry) \<noteq> set lease_keys then Inl PoolStateError else Inr None
      | Some (PStr fp) \<Rightarrow>
          if version \<noteq> SPORTS_SHARED_RESOURCE_POOL_VERSION \<or> \<not> hex_string 64 fp
             \<or> set (map fst entry) \<noteq> insert ''sharing_fingerprint'' (set lease_keys)
          then Inl PoolStateError else Inr (Some fp)
      | Some _ \<Rightarrow> Inl PoolStateError)"

definition field :: "(string \<times> pyval) list \<Rightarrow> string \<Rightarrow> pyval" where
  "field entry k = (case map_of entry k of None \<Rightarrow> PNone | Some v \<Rightarrow> v)"

definition read_row :: "int \<Rightarrow> pyval \<Rightarrow> pool_exn + row" where
  "read_row version entry =
     (case entry of
        PDict e \<Rightarrow>
          rbind (read_fingerprint version e) (\<lambda>fingerprint.
          rbind (map_exn PoolBuiltin (required_identifier (field e ''user_id''))) (\<lambda>user.
          rbind (map_exn PoolBuiltin (required_identifier (field e ''target_id''))) (\<lambda>target.
          rbind (map_exn PoolBuiltin (required_identifier (field e ''source_id''))) (\<lambda>source.
          rbind (required_timestamp (field e ''created_at'')) (\<lambda>created.
          rbind (required_timestamp (field e ''last_seen_at'')) (\<lambda>seen.
            if flt seen created then Inl PoolStateError
            else Inr \<lparr>row_user = user, row_target = target, row_source = source,
                      row_created = created, row_seen = seen, row_fingerprint = fingerprint\<rparr>))))))
      | _ \<Rightarrow> Inl PoolStateError)"

fun read_leases :: "int \<Rightarrow> (string \<times> pyval) list \<Rightarrow> (string \<times> row) list
    \<Rightarrow> pool_exn + (string \<times> row) list" where
  "read_leases version [] validated = Inr validated"
| "read_leases version ((lid, entry) # rest) validated =
     rbind (map_exn PoolBuiltin (required_identifier (PStr lid))) (\<lambda>normalized.
     rbind (read_row version entry) (\<lambda>row.
       read_leases version rest (AList.update normalized row validated)))"

fun read_state :: "state_file \<Rightarrow> pool_exn + pool_state" where
  "read_state Absent =
     Inr \<lparr>pool_version = SPORTS_RESOURCE_POOL_VERSION, pool_leases = []\<rparr>"
| "read_state Unreadable = Inl PoolStateError"
| "read_state (Document (PDict payload)) =
     (case map_of payload ''version'' of
        Some (PInt v) \<Rightarrow>
          if v \<notin> {SPORTS_RESOURCE_POOL_VERSION, SPORTS_SHARED_RESOURCE_POOL_VERSION}
          then Inl PoolStateError
          else (case map_of payload ''leases'' of
                  Some (PDict leases) \<Rightarrow>
                    rbind (read_leases v leases []) (\<lambda>validated.
                      Inr \<lparr>pool_version = v, pool_leases = validated\<rparr>)
                | _ \<Rightarrow> Inl PoolStateError)
      | _ \<Rightarrow> Inl PoolStateError)"
| "read_state (Document _) = Inl PoolStateError"

text \<open>The written document, every object in key order.\<close>

definition encode_row :: "row \<Rightarrow> pyval" where
  "encode_row r =
     PDict ([(''created_at'', PFloat (row_created r)), (''last_seen_at'', PFloat (row_seen r))]
       @ (case row_fingerprint r of None \<Rightarrow> [] | Some fp \<Rightarrow> [(''sharing_fingerprint'', PStr fp)])
       @ [(''source_id'', PStr (row_source r)), (''target_id'', PStr (row_target r)),
          (''user_id'', PStr (row_user r))])"

definition write_state :: "pool_state \<Rightarrow> state_file" where
  "write_state st =
     Document (PDict
       [(''leases'', PDict (map (\<lambda>(k, r). (k, encode_row r)) (sorted_items (pool_leases st)))),
        (''version'', PInt (pool_version st))])"

definition lease_payload :: "lease \<Rightarrow> row" where
  "lease_payload l =
     \<lparr>row_user = user_id l, row_target = target_id l, row_source = source_id l,
      row_created = created_at l, row_seen = last_seen_at l, row_fingerprint = sharing_fingerprint l\<rparr>"

definition lease_from_payload :: "string \<Rightarrow> row \<Rightarrow> lease" where
  "lease_from_payload lid r =
     \<lparr>lease_id = lid, user_id = row_user r, target_id = row_target r, source_id = row_source r,
      created_at = row_created r, last_seen_at = row_seen r, sharing_fingerprint = row_fingerprint r\<rparr>"

subsection \<open>Expiry and accounting\<close>

definition expired :: "pool \<Rightarrow> pyfloat \<Rightarrow> row \<Rightarrow> bool" where
  "expired P now r \<longleftrightarrow> fle (fint (ttl_seconds P)) (fsub now (row_seen r))"

definition prune_stale :: "pool \<Rightarrow> (string \<times> row) list \<Rightarrow> pyfloat \<Rightarrow> (string \<times> row) list" where
  "prune_stale P leases now =
     filter (\<lambda>(lid, r). row_fingerprint r \<noteq> None
       \<or> flt (fsub now (row_seen r)) (fint (ttl_seconds P))) leases"

datatype allocation = Shared string string | Exclusive string

definition allocation_identity :: "string \<times> row \<Rightarrow> allocation" where
  "allocation_identity = (\<lambda>(lid, r). case row_fingerprint r of
     Some fp \<Rightarrow> if fp \<noteq> [] then Shared (row_target r) fp else Exclusive lid
   | None \<Rightarrow> Exclusive lid)"

definition add_allocation ::
  "(string \<times> allocation list) list \<Rightarrow> string \<times> row \<Rightarrow> (string \<times> allocation list) list" where
  "add_allocation acc item =
     (let source = row_source (snd item);
          groups = (case map_of acc source of None \<Rightarrow> [] | Some g \<Rightarrow> g)
      in AList.update source (List.insert (allocation_identity item) groups) acc)"

definition allocation_counts :: "(string \<times> row) list \<Rightarrow> (string \<times> int) list" where
  "allocation_counts leases =
     map (\<lambda>(source, groups). (source, int (length groups))) (foldl add_allocation [] leases)"

definition count_for :: "(string \<times> int) list \<Rightarrow> string \<Rightarrow> int" where
  "count_for counts source = (case map_of counts source of None \<Rightarrow> 0 | Some n \<Rightarrow> n)"

subsection \<open>Operations\<close>

definition active_for_user :: "(string \<times> row) list \<Rightarrow> string \<Rightarrow> int" where
  "active_for_user leases user = int (length (filter (\<lambda>(_, r). row_user r = user) leases))"

definition is_joining :: "pool \<Rightarrow> (string \<times> row) list \<Rightarrow> string \<Rightarrow> string \<Rightarrow> bool" where
  "is_joining P leases target source =
     (case binding P target source of
        None \<Rightarrow> False
      | Some fp \<Rightarrow> list_ex (\<lambda>(_, r). row_target r = target \<and> row_source r = source
                                  \<and> row_fingerprint r = Some fp) leases)"

definition needs_reconciliation :: "pool \<Rightarrow> pyfloat \<Rightarrow> (string \<times> row) list \<Rightarrow> string \<Rightarrow> bool" where
  "needs_reconciliation P now leases source =
     list_ex (\<lambda>(_, r). row_source r = source \<and> row_fingerprint r \<noteq> None \<and> expired P now r) leases"

fun select_source ::
  "pool \<Rightarrow> pyfloat \<Rightarrow> (string \<times> row) list \<Rightarrow> (string \<times> int) list \<Rightarrow> string \<Rightarrow> string list
   \<Rightarrow> pool_exn + string option" where
  "select_source P now leases capacities target [] = Inr None"
| "select_source P now leases capacities target (source # rest) =
     (let capacity = count_for capacities source;
          joining = is_joining P leases target source;
          used = count_for (allocation_counts leases) source
      in if capacity \<le> 0 then select_source P now leases capacities target rest
         else if joining \<and> needs_reconciliation P now leases source then Inl PoolStateError
         else if joining \<and> used \<le> capacity \<or> used < capacity then Inr (Some source)
         else select_source P now leases capacities target rest)"

record acquire_args =
  arg_user :: string
  arg_target :: string
  arg_candidates :: "string list"
  arg_capacities :: "(string \<times> int) list"
  arg_limit :: "int option"

definition acquire_args_of ::
  "pyval \<Rightarrow> pyval \<Rightarrow> pyval list \<Rightarrow> (pyval \<times> pyval) list \<Rightarrow> pyval \<Rightarrow> pool_exn + acquire_args" where
  "acquire_args_of user target candidates capacities user_limit =
     rbind (map_exn PoolBuiltin (required_identifier user)) (\<lambda>u.
     rbind (map_exn PoolBuiltin (required_identifier target)) (\<lambda>t.
     rbind (map_exn PoolBuiltin (normalized_candidates candidates)) (\<lambda>cs.
     rbind (map_exn PoolBuiltin (normalized_capacities capacities)) (\<lambda>caps.
     rbind (require (user_limit = PNone \<or> int_at_least 1 user_limit) (PoolBuiltin ValueError)) (\<lambda>_.
       if cs = [] then Inl PoolExhausted
       else Inr \<lparr>arg_user = u, arg_target = t, arg_candidates = cs, arg_capacities = caps,
                 arg_limit = (if user_limit = PNone then None else Some (int_value user_limit))\<rparr>)))))"

definition limit_reached :: "int option \<Rightarrow> (string \<times> row) list \<Rightarrow> string \<Rightarrow> bool" where
  "limit_reached limit leases user =
     (case limit of None \<Rightarrow> False | Some n \<Rightarrow> active_for_user leases user \<ge> n)"

text \<open>The locked section of \<open>acquire\<close>: the new lease and the state to write, or the exception.\<close>

definition acquire_core ::
  "pool \<Rightarrow> pyfloat \<Rightarrow> pyval \<Rightarrow> acquire_args \<Rightarrow> pool_state \<Rightarrow> pool_exn + lease \<times> pool_state" where
  "acquire_core P now fresh a st =
     (let leases = prune_stale P (pool_leases st) now in
      if limit_reached (arg_limit a) leases (arg_user a) then Inl UserLimitExceeded
      else rbind (select_source P now leases (arg_capacities a) (arg_target a) (arg_candidates a)) (\<lambda>sel.
        case sel of
          None \<Rightarrow> Inl PoolExhausted
        | Some source \<Rightarrow>
            rbind (map_exn PoolBuiltin (required_identifier fresh)) (\<lambda>lid.
              if lid \<in> set (map fst leases) then Inl PoolStateError
              else
                let fp = binding P (arg_target a) source;
                    l = \<lparr>lease_id = lid, user_id = arg_user a, target_id = arg_target a,
                         source_id = source, created_at = now, last_seen_at = now,
                         sharing_fingerprint = fp\<rparr>;
                    v = (if fp \<noteq> None then SPORTS_SHARED_RESOURCE_POOL_VERSION else pool_version st)
                in Inr (l, \<lparr>pool_version = v,
                            pool_leases = AList.update lid (lease_payload l) leases\<rparr>))))"

definition acquire ::
  "pool \<Rightarrow> pyfloat \<Rightarrow> pyval \<Rightarrow> pyval \<Rightarrow> pyval \<Rightarrow> pyval list \<Rightarrow> (pyval \<times> pyval) list \<Rightarrow> pyval
   \<Rightarrow> state_file \<Rightarrow> (pool_exn + lease) \<times> state_file" where
  "acquire P now fresh user target candidates capacities user_limit f =
     (case rbind (acquire_args_of user target candidates capacities user_limit) (\<lambda>a.
           rbind (read_state f) (acquire_core P now fresh a))
      of Inl e \<Rightarrow> (Inl e, f)
       | Inr (l, st) \<Rightarrow> (Inr l, write_state st))"

text \<open>
  The owner check of \<open>heartbeat\<close> and \<open>release\<close>: the row of an unexpired (or shared) lease held by
  the caller. The pruned table is written back even when the lease is not found.
\<close>

definition owned_row :: "(string \<times> row) list \<Rightarrow> string \<Rightarrow> string \<Rightarrow> row option" where
  "owned_row leases lid user =
     (case map_of leases lid of
        None \<Rightarrow> None
      | Some r \<Rightarrow> if row_user r \<noteq> user then None else Some r)"

definition owner_args :: "pyval \<Rightarrow> pyval \<Rightarrow> pool_exn + string \<times> string" where
  "owner_args lid user =
     rbind (map_exn PoolBuiltin (required_identifier lid)) (\<lambda>l.
     rbind (map_exn PoolBuiltin (required_identifier user)) (\<lambda>u. Inr (l, u)))"

definition heartbeat ::
  "pool \<Rightarrow> pyfloat \<Rightarrow> pyval \<Rightarrow> pyval \<Rightarrow> state_file \<Rightarrow> (pool_exn + lease) \<times> state_file" where
  "heartbeat P now lid_arg user_arg f =
     (case rbind (owner_args lid_arg user_arg) (\<lambda>a. rbind (read_state f) (\<lambda>st. Inr (a, st)))
      of Inl e \<Rightarrow> (Inl e, f)
       | Inr ((lid, user), st) \<Rightarrow>
           let leases = prune_stale P (pool_leases st) now in
           (case owned_row leases lid user of
              None \<Rightarrow> (Inl LeaseNotFound,
                       write_state \<lparr>pool_version = pool_version st, pool_leases = leases\<rparr>)
            | Some r \<Rightarrow>
                if row_fingerprint r \<noteq> None \<and> expired P now r then (Inl PoolStateError, f)
                else
                  let refreshed = lease_from_payload lid (r\<lparr>row_seen := now\<rparr>)
                  in (Inr refreshed,
                      write_state \<lparr>pool_version = pool_version st,
                        pool_leases = AList.update lid (lease_payload refreshed) leases\<rparr>)))"

definition release ::
  "pool \<Rightarrow> pyfloat \<Rightarrow> pyval \<Rightarrow> pyval \<Rightarrow> state_file \<Rightarrow> (pool_exn + bool) \<times> state_file" where
  "release P now lid_arg user_arg f =
     (case rbind (owner_args lid_arg user_arg) (\<lambda>a. rbind (read_state f) (\<lambda>st. Inr (a, st)))
      of Inl e \<Rightarrow> (Inl e, f)
       | Inr ((lid, user), st) \<Rightarrow>
           let leases = prune_stale P (pool_leases st) now in
           (case owned_row leases lid user of
              None \<Rightarrow> (Inr False,
                       write_state \<lparr>pool_version = pool_version st, pool_leases = leases\<rparr>)
            | Some r \<Rightarrow> (Inr True,
                       write_state \<lparr>pool_version = pool_version st,
                         pool_leases = AList.delete lid leases\<rparr>)))"

record source_snapshot =
  snap_source :: string
  snap_capacity :: int
  snap_active :: int
  snap_available :: int

record pool_snapshot =
  total_capacity :: int
  total_active :: int
  total_available :: int
  snap_sources :: "source_snapshot list"
  snap_leases :: "lease list"

definition source_snapshot_of :: "(string \<times> int) list \<Rightarrow> string \<times> int \<Rightarrow> source_snapshot" where
  "source_snapshot_of counts = (\<lambda>(source, capacity).
     \<lparr>snap_source = source, snap_capacity = capacity, snap_active = count_for counts source,
      snap_available = max 0 (capacity - count_for counts source)\<rparr>)"

definition snapshot_of :: "(string \<times> int) list \<Rightarrow> (string \<times> row) list \<Rightarrow> pool_snapshot" where
  "snapshot_of capacities leases =
     (let sources = map (source_snapshot_of (allocation_counts leases)) (sorted_items capacities);
          total = sum_list (map snap_capacity sources);
          active = sum_list (map snap_active sources)
      in \<lparr>total_capacity = total, total_active = active, total_available = max 0 (total - active),
          snap_sources = sources,
          snap_leases = sort_key (\<lambda>l. (source_id l, user_id l, lease_id l))
            (map (\<lambda>(lid, r). lease_from_payload lid r) leases)\<rparr>)"

definition snapshot ::
  "pool \<Rightarrow> pyfloat \<Rightarrow> (pyval \<times> pyval) list \<Rightarrow> state_file \<Rightarrow> (pool_exn + pool_snapshot) \<times> state_file" where
  "snapshot P now capacities f =
     (case rbind (map_exn PoolBuiltin (normalized_capacities capacities)) (\<lambda>caps.
           rbind (read_state f) (\<lambda>st. Inr (caps, st)))
      of Inl e \<Rightarrow> (Inl e, f)
       | Inr (caps, st) \<Rightarrow>
           let leases = prune_stale P (pool_leases st) now
           in (Inr (snapshot_of caps leases),
               write_state \<lparr>pool_version = pool_version st, pool_leases = leases\<rparr>))"

subsection \<open>Validation lemmas\<close>

definition is_identifier :: "string \<Rightarrow> bool" where
  "is_identifier s \<longleftrightarrow> required_identifier (PStr s) = Inr s"

lemma required_identifier_sound: "required_identifier v = Inr s \<Longrightarrow> is_identifier s"
  by (cases v) (auto simp: is_identifier_def required_identifier.simps Let_def split: if_splits)

declare required_identifier.simps [simp del]

lemma required_identifier_id [simp]: "is_identifier s \<Longrightarrow> required_identifier (PStr s) = Inr s"
  by (simp add: is_identifier_def)

lemma required_timestamp_float [simp]: "required_timestamp (PFloat x) = Inr x"
  by simp

lemma candidates_loop_sound:
  "candidates_loop vals acc = Inr cs \<Longrightarrow> list_all is_identifier acc \<Longrightarrow> distinct acc
   \<Longrightarrow> list_all is_identifier cs \<and> distinct cs"
  by (induction vals acc rule: candidates_loop.induct)
     (auto simp: rbind_Inr_iff dest: required_identifier_sound split: if_splits)

lemma capacities_loop_sound:
  "capacities_loop items acc = Inr caps \<Longrightarrow> distinct (map fst acc)
   \<Longrightarrow> (\<forall>(s, n) \<in> set acc. is_identifier s \<and> 0 \<le> n)
   \<Longrightarrow> distinct (map fst caps) \<and> (\<forall>(s, n) \<in> set caps. is_identifier s \<and> 0 \<le> n)"
proof (induction items acc rule: capacities_loop.induct)
  case (2 source capacity rest normalized)
  then obtain key where key: "required_identifier source = Inr key" "int_at_least 0 capacity"
    by (auto simp: rbind_Inr_iff split: if_splits)
  show ?case
  proof (rule "2.IH"[OF key])
    show "capacities_loop rest (AList.update key (int_value capacity) normalized) = Inr caps"
      using "2.prems"(1) key by simp
    show "distinct (map fst (AList.update key (int_value capacity) normalized))"
      using "2.prems"(2) by (rule dict_distinct)
    show "\<forall>(s, n) \<in> set (AList.update key (int_value capacity) normalized). is_identifier s \<and> 0 \<le> n"
      using "2.prems"(2,3) key int_at_least_value[OF key(2)]
      by (auto simp: set_dict_set dest: required_identifier_sound)
  qed
qed simp

subsection \<open>Well-formed state and the durable-state contract\<close>

definition wf_row :: "int \<Rightarrow> row \<Rightarrow> bool" where
  "wf_row v r \<longleftrightarrow>
     is_identifier (row_user r) \<and> is_identifier (row_target r) \<and> is_identifier (row_source r)
     \<and> \<not> flt (row_seen r) (row_created r)
     \<and> (\<forall>fp. row_fingerprint r = Some fp \<longrightarrow> v = SPORTS_SHARED_RESOURCE_POOL_VERSION \<and> hex_string 64 fp)"

definition wf_leases :: "int \<Rightarrow> (string \<times> row) list \<Rightarrow> bool" where
  "wf_leases v leases \<longleftrightarrow>
     distinct (map fst leases) \<and> (\<forall>(lid, r) \<in> set leases. is_identifier lid \<and> wf_row v r)"

definition wf_state :: "pool_state \<Rightarrow> bool" where
  "wf_state st \<longleftrightarrow>
     pool_version st \<in> {SPORTS_RESOURCE_POOL_VERSION, SPORTS_SHARED_RESOURCE_POOL_VERSION}
     \<and> wf_leases (pool_version st) (pool_leases st)"

definition norm_state :: "pool_state \<Rightarrow> pool_state" where
  "norm_state st = st\<lparr>pool_leases := sorted_items (pool_leases st)\<rparr>"

lemma wf_leases_set [wf_intros]:
  "wf_leases v leases \<Longrightarrow> is_identifier lid \<Longrightarrow> wf_row v r \<Longrightarrow> wf_leases v (AList.update lid r leases)"
  by (auto simp: wf_leases_def set_dict_set dict_simps)

lemma wf_leases_del [wf_intros]: "wf_leases v leases \<Longrightarrow> wf_leases v (AList.delete lid leases)"
  by (auto simp: wf_leases_def set_dict_del dict_simps)

lemma wf_leases_prune [wf_intros]: "wf_leases v leases \<Longrightarrow> wf_leases v (prune_stale P leases now)"
  by (auto simp: wf_leases_def prune_stale_def distinct_map_fst_filter)

lemma wf_leases_sorted [wf_intros]: "wf_leases v leases \<Longrightarrow> wf_leases v (sorted_items leases)"
  by (auto simp: wf_leases_def sorted_items_distinct)

lemma wf_leases_upgrade [wf_intros]:
  "wf_leases v leases \<Longrightarrow> wf_leases SPORTS_SHARED_RESOURCE_POOL_VERSION leases"
  by (auto simp: wf_leases_def wf_row_def)

lemma read_fingerprint_sound:
  "read_fingerprint v e = Inr (Some fp) \<Longrightarrow> v = SPORTS_SHARED_RESOURCE_POOL_VERSION \<and> hex_string 64 fp"
  by (auto simp: read_fingerprint_def split: option.splits pyval.splits if_splits)

lemma read_row_sound: "read_row v e = Inr r \<Longrightarrow> wf_row v r"
  unfolding read_row_def wf_row_def
  by (auto simp: rbind_Inr_iff split: pyval.splits if_splits
      dest: required_identifier_sound read_fingerprint_sound)

lemma read_leases_sound:
  "read_leases v items acc = Inr leases \<Longrightarrow> wf_leases v acc \<Longrightarrow> wf_leases v leases"
  by (induction v items acc rule: read_leases.induct)
     (auto simp: rbind_Inr_iff intro!: wf_leases_set dest: required_identifier_sound read_row_sound)

lemma wf_leases_Nil [simp]: "wf_leases v []"
  by (simp add: wf_leases_def)

lemma read_state_sound: "read_state f = Inr st \<Longrightarrow> wf_state st"
  by (cases f rule: read_state.cases)
     (auto simp: wf_state_def rbind_Inr_iff read_leases_sound
       split: option.splits pyval.splits if_splits)

lemma read_encode_row:
  assumes "wf_row v r"
  shows "read_row v (encode_row r) = Inr r"
proof (cases "row_fingerprint r")
  case None
  with assms show ?thesis
    by (simp add: read_row_def encode_row_def read_fingerprint_def lease_keys_def field_def wf_row_def
        insert_commute)
next
  case (Some fp)
  with assms show ?thesis
    by (simp add: read_row_def encode_row_def read_fingerprint_def lease_keys_def field_def wf_row_def
        insert_commute)
qed

lemma read_encode_leases:
  assumes "wf_leases v leases" "distinct (map fst acc @ map fst leases)"
  shows "read_leases v (map (\<lambda>(k, r). (k, encode_row r)) leases) acc = Inr (acc @ leases)"
  using assms
proof (induction leases arbitrary: acc)
  case (Cons kr leases)
  obtain k r where kr: "kr = (k, r)" by force
  with Cons.prems have wf: "is_identifier k" "wf_row v r" "wf_leases v leases"
    by (auto simp: wf_leases_def)
  from Cons.prems kr have "k \<notin> fst ` set acc" by auto
  then have upd: "AList.update k r acc = acc @ [(k, r)]" by (rule dict_set_fresh)
  have "read_leases v (map (\<lambda>(k, r). (k, encode_row r)) leases) (acc @ [(k, r)])
      = Inr ((acc @ [(k, r)]) @ leases)"
    using Cons.prems(2) kr by (intro Cons.IH wf(3)) auto
  then show ?case using kr wf upd by (simp add: read_encode_row)
qed simp

lemma read_write_state: "wf_state st \<Longrightarrow> read_state (write_state st) = Inr (norm_state st)"
proof -
  assume wf: "wf_state st"
  then have w: "wf_leases (pool_version st) (sorted_items (pool_leases st))"
    by (simp add: wf_state_def wf_leases_sorted)
  then have "distinct (map fst (sorted_items (pool_leases st)))" by (simp add: wf_leases_def)
  then have "read_leases (pool_version st)
      (map (\<lambda>(k, r). (k, encode_row r)) (sorted_items (pool_leases st))) []
      = Inr (sorted_items (pool_leases st))"
    using read_encode_leases[OF w, of "[]"] by simp
  with wf show ?thesis by (auto simp: write_state_def wf_state_def norm_state_def)
qed

lemma norm_state_norm: "norm_state (norm_state st) = norm_state st"
  by (simp add: norm_state_def sorted_items_def sort_key_id_if_sorted)

interpretation pool_file: durable_state read_state write_state wf_state norm_state
proof unfold_locales
  show "\<exists>s. read_state Absent = Inr s" by simp
qed (auto intro: read_state_sound read_write_state simp: norm_state_norm)

end
