(* ===== verification/Pool_Correct.thy ===== *)
theory Pool_Correct
  imports Resource_Pool
begin

text \<open>
  Correctness of the Sports resource pool: the accounting of allocations is the number of distinct
  upstream identities, admission never exceeds the capacity the caller gave nor the user limit and
  takes the best-ranked source it may, every operation keeps the state file readable while the
  clock does not step back, and what happens when it does.
\<close>

subsection \<open>Accounting\<close>

definition identities :: "(string \<times> row) list \<Rightarrow> string \<Rightarrow> allocation set" where
  "identities leases source = allocation_identity ` {x \<in> set leases. row_source (snd x) = source}"

lemma add_allocation_lookup:
  "map_of (add_allocation acc item) s =
     (if s = row_source (snd item)
      then Some (List.insert (allocation_identity item) (case map_of acc s of None \<Rightarrow> [] | Some g \<Rightarrow> g))
      else map_of acc s)"
  by (simp add: add_allocation_def Let_def dict_simps)

lemma foldl_add_allocation:
  "case map_of (foldl add_allocation [] leases) s of
     None \<Rightarrow> identities leases s = {}
   | Some g \<Rightarrow> distinct g \<and> set g = identities leases s"
proof (induction leases rule: rev_induct)
  case Nil
  then show ?case by (simp add: identities_def)
next
  case (snoc item leases)
  have "identities (leases @ [item]) s =
      (if s = row_source (snd item) then insert (allocation_identity item) (identities leases s)
       else identities leases s)"
    by (auto simp: identities_def)
  with snoc show ?case
    by (auto simp: add_allocation_lookup split: option.splits)
qed

lemma finite_identities [simp]: "finite (identities leases s)"
  by (simp add: identities_def)

lemma count_allocations:
  "count_for (allocation_counts leases) s = int (card (identities leases s))"
proof -
  have "map_of (allocation_counts leases) s
      = map_option (\<lambda>g. int (length g)) (map_of (foldl add_allocation [] leases) s)"
    by (simp add: allocation_counts_def map_of_map)
  moreover have "distinct g \<Longrightarrow> set g = identities leases s \<Longrightarrow> length g = card (identities leases s)" for g
    by (metis distinct_card)
  ultimately show ?thesis
    using foldl_add_allocation[of leases s] by (auto simp: count_for_def split: option.splits)
qed

lemma identities_cong: "set xs = set ys \<Longrightarrow> identities xs s = identities ys s"
  by (simp add: identities_def)

lemma identities_snoc:
  "identities (leases @ [(lid, r)]) s =
     (if row_source r = s then insert (allocation_identity (lid, r)) (identities leases s)
      else identities leases s)"
  by (auto simp: identities_def)

lemma joining_identity:
  assumes "is_joining P leases target source" and "binding P target source = Some fp"
    and "row_target r = target" and "row_source r = source" and "row_fingerprint r = Some fp" and "fp \<noteq> []"
  shows "allocation_identity (lid, r) \<in> identities leases source"
proof -
  from assms(1,2) obtain l' r' where "(l', r') \<in> set leases" "row_target r' = target"
      "row_source r' = source" "row_fingerprint r' = Some fp"
    by (auto simp: is_joining_def list_ex_iff)
  then have "allocation_identity (l', r') = allocation_identity (lid, r)"
    using assms by (simp add: allocation_identity_def)
  with \<open>(l', r') \<in> set leases\<close> \<open>row_source r' = source\<close> show ?thesis
    unfolding identities_def by (intro image_eqI[of _ _ "(l', r')"]) auto
qed

subsection \<open>Selection of a source\<close>

definition admissible ::
  "pool \<Rightarrow> (string \<times> row) list \<Rightarrow> (string \<times> int) list \<Rightarrow> string \<Rightarrow> string \<Rightarrow> bool" where
  "admissible P leases capacities target source \<longleftrightarrow>
     0 < count_for capacities source
     \<and> (is_joining P leases target source
          \<and> count_for (allocation_counts leases) source \<le> count_for capacities source
        \<or> count_for (allocation_counts leases) source < count_for capacities source)"

lemma select_source_Some:
  assumes "select_source P now leases caps target cs = Inr (Some s)"
  shows "\<exists>i < length cs. cs ! i = s \<and> admissible P leases caps target s
           \<and> (\<forall>j < i. \<not> admissible P leases caps target (cs ! j))"
  using assms
proof (induction P now leases caps target cs rule: select_source.induct)
  case (2 P now leases caps target c rest)
  show ?case
  proof (cases "admissible P leases caps target c")
    case True
    with "2.prems" have "s = c" by (auto simp: admissible_def Let_def split: if_splits)
    with True show ?thesis by (intro exI[of _ 0]) simp
  next
    case False
    with "2.prems" have sel: "select_source P now leases caps target rest = Inr (Some s)"
      by (auto simp: admissible_def Let_def split: if_splits)
    have "\<exists>i < length rest. rest ! i = s \<and> admissible P leases caps target s
           \<and> (\<forall>j < i. \<not> admissible P leases caps target (rest ! j))"
      using "2.IH" "2.prems" False sel by (auto simp: admissible_def Let_def split: if_splits)
    then obtain i where "i < length rest" "rest ! i = s" "admissible P leases caps target s"
        "\<forall>j < i. \<not> admissible P leases caps target (rest ! j)" by blast
    with False show ?thesis
      by (intro exI[of _ "Suc i"]) (auto simp: less_Suc_eq_0_disj)
  qed
qed simp

lemma select_source_None:
  "select_source P now leases caps target cs = Inr None
   \<Longrightarrow> s \<in> set cs \<Longrightarrow> \<not> admissible P leases caps target s"
  by (induction P now leases caps target cs rule: select_source.induct)
     (auto simp: admissible_def Let_def split: if_splits)

subsection \<open>What a successful acquisition did\<close>

definition new_row :: "pool \<Rightarrow> pyfloat \<Rightarrow> acquire_args \<Rightarrow> string \<Rightarrow> row" where
  "new_row P now a source =
     \<lparr>row_user = arg_user a, row_target = arg_target a, row_source = source,
      row_created = now, row_seen = now, row_fingerprint = binding P (arg_target a) source\<rparr>"

lemma acquire_core_Inr:
  assumes "acquire_core P now fresh a st = Inr (l, st')"
  defines "leases \<equiv> prune_stale P (pool_leases st) now"
  shows "\<not> limit_reached (arg_limit a) leases (arg_user a)"
    and "select_source P now leases (arg_capacities a) (arg_target a) (arg_candidates a)
           = Inr (Some (source_id l))"
    and "required_identifier fresh = Inr (lease_id l)"
    and "lease_id l \<notin> fst ` set leases"
    and "pool_leases st' = leases @ [(lease_id l, new_row P now a (source_id l))]"
    and "pool_version st' =
           (if binding P (arg_target a) (source_id l) \<noteq> None
            then SPORTS_SHARED_RESOURCE_POOL_VERSION else pool_version st)"
    and "l = lease_from_payload (lease_id l) (new_row P now a (source_id l))"
  using assms(1) unfolding leases_def
  by (auto simp: acquire_core_def Let_def rbind_Inr_iff lease_payload_def new_row_def
      lease_from_payload_def dict_set_fresh image_iff split: if_splits option.splits)

lemma acquire_Inr:
  assumes "acquire P now fresh user target cands caps limit f = (Inr l, f')"
  obtains a st st' where "acquire_args_of user target cands caps limit = Inr a"
    "read_state f = Inr st" "acquire_core P now fresh a st = Inr (l, st')" "f' = write_state st'"
  using assms by (auto simp: acquire_def rbind_Inr_iff split: sum.splits prod.splits)

lemma acquire_Inl: "acquire P now fresh user target cands caps limit f = (Inl e, f') \<Longrightarrow> f' = f"
  by (auto simp: acquire_def split: sum.splits prod.splits)

lemma acquire_args_sound:
  assumes "acquire_args_of user target cands caps limit = Inr a"
  shows "is_identifier (arg_user a)" "is_identifier (arg_target a)"
    "list_all is_identifier (arg_candidates a)"
    "normalized_capacities caps = Inr (arg_capacities a)"
    "required_identifier user = Inr (arg_user a)"
    "normalized_candidates cands = Inr (arg_candidates a)"
    "limit = PInt n \<Longrightarrow> arg_limit a = Some n"
  using assms candidates_loop_sound[of cands "[]" "arg_candidates a"]
  by (auto simp: acquire_args_of_def rbind_Inr_iff normalized_candidates_def
      dest: required_identifier_sound split: if_splits)

text \<open>A pool is built by its constructor, so every binding is a 64-digit fingerprint.\<close>

definition wf_pool :: "pool \<Rightarrow> bool" where
  "wf_pool P \<longleftrightarrow> 0 < ttl_seconds P \<and> (\<forall>(k, fp) \<in> set (sharing_bindings P). hex_string 64 fp)"

lemma bindings_loop_sound:
  "bindings_loop items acc = Inr bs \<Longrightarrow> (\<forall>(k, fp) \<in> set acc. hex_string 64 fp) \<Longrightarrow>
   (\<forall>(k, fp) \<in> set bs. hex_string 64 fp)"
proof (induction items acc rule: bindings_loop.induct)
  case (2 identity fingerprint rest acc)
  from "2.prems"(1) obtain t s fp target source where eqs: "identity = PTuple [t, s]"
      "fingerprint = PStr fp" "hex_string 64 fp" "required_identifier t = Inr target"
      "required_identifier s = Inr source"
      "bindings_loop rest (AList.update (target, source) fp acc) = Inr bs"
    by (cases fingerprint) (auto simp: rbind_Inr_iff split: pyval.splits list.splits if_splits)
  have "set (AList.update (target, source) fp acc) \<subseteq> insert ((target, source), fp) (set acc)"
    by (induction acc) auto
  then have "\<forall>(k, fp') \<in> set (AList.update (target, source) fp acc). hex_string 64 fp'"
    using "2.prems"(2) eqs(3) by blast
  then show ?case by (rule "2.IH"[OF eqs(1) refl refl refl eqs(4,5,2,3,6)])
qed simp

lemma new_pool_wf: "new_pool ttl bindings = Inr P \<Longrightarrow> wf_pool P"
  using bindings_loop_sound[of bindings "[]"] int_at_least_value[of 1 ttl]
  by (auto simp: new_pool_def wf_pool_def rbind_Inr_iff split: if_splits)

lemma wf_pool_binding: "wf_pool P \<Longrightarrow> binding P t s = Some fp \<Longrightarrow> hex_string 64 fp \<and> fp \<noteq> []"
  by (auto simp: wf_pool_def binding_def hex_string_def dest!: map_of_SomeD)

lemma acquire_core_wf:
  assumes wf: "wf_state st" and wfP: "wf_pool P"
    and args: "acquire_args_of user target cands caps limit = Inr a"
    and core: "acquire_core P now fresh a st = Inr (l, st')"
  shows "wf_state st'"
proof -
  let ?leases = "prune_stale P (pool_leases st) now"
  note c = acquire_core_Inr[OF core]
  note args_ok = acquire_args_sound[OF args]
  have v: "pool_version st' = SPORTS_SHARED_RESOURCE_POOL_VERSION \<or> pool_version st' = pool_version st"
    by (simp add: c(6))
  have pruned: "wf_leases (pool_version st') ?leases"
    using wf v wf_leases_upgrade by (auto simp: wf_state_def intro!: wf_leases_prune)
  have "source_id l \<in> set (arg_candidates a)"
    using select_source_Some[OF c(2)] nth_mem by metis
  then have "is_identifier (source_id l)" using args_ok(3) by (simp add: list_all_iff)
  then have "wf_row (pool_version st') (new_row P now a (source_id l))"
    using args_ok(1,2) wf_pool_binding[OF wfP] by (auto simp: wf_row_def new_row_def c(6))
  moreover have "is_identifier (lease_id l)" using c(3) by (rule required_identifier_sound)
  ultimately have "wf_leases (pool_version st') (pool_leases st')"
    using pruned c(4,5) by (auto simp: wf_leases_def image_iff split: prod.splits)
  then show ?thesis using wf v by (auto simp: wf_state_def)
qed

text \<open>What the file holds after a successful acquisition.\<close>

lemma acquire_file:
  assumes "acquire P now fresh user target cands caps limit f = (Inr l, f')" and "wf_pool P"
  obtains a st st' where "acquire_args_of user target cands caps limit = Inr a"
    "read_state f = Inr st" "acquire_core P now fresh a st = Inr (l, st')"
    "read_state f' = Inr (norm_state st')" "set (pool_leases (norm_state st')) = set (pool_leases st')"
proof -
  obtain a st st' where "acquire_args_of user target cands caps limit = Inr a"
      "read_state f = Inr st" "acquire_core P now fresh a st = Inr (l, st')" "f' = write_state st'"
    by (rule acquire_Inr[OF assms(1)])
  then show thesis
    using that acquire_core_wf[OF read_state_sound assms(2)] read_write_state
    by (simp add: norm_state_def)
qed

subsection \<open>Properties of admission\<close>

text \<open>
  C21. Capacity safety: after a successful acquisition the stored state can be read, and the number
  of distinct upstream allocations of the chosen source is at most the capacity the caller gave
  for it; joining a shared upstream does not count a second time.
\<close>

theorem acquire_within_capacity:
  assumes "acquire P now fresh user target cands caps limit f = (Inr l, f')" and "wf_pool P"
  shows "\<exists>st' capacities. read_state f' = Inr st' \<and> normalized_capacities caps = Inr capacities
    \<and> count_for (allocation_counts (pool_leases st')) (source_id l) \<le> count_for capacities (source_id l)"
proof -
  obtain a st st' where a: "acquire_args_of user target cands caps limit = Inr a"
      and st: "read_state f = Inr st" and core: "acquire_core P now fresh a st = Inr (l, st')"
      and f': "read_state f' = Inr (norm_state st')"
      and set_eq: "set (pool_leases (norm_state st')) = set (pool_leases st')"
    by (rule acquire_file[OF assms])
  let ?leases = "prune_stale P (pool_leases st) now" and ?s = "source_id l"
  let ?new = "(lease_id l, new_row P now a ?s)"
  note c = acquire_core_Inr[OF core]
  have adm: "admissible P ?leases (arg_capacities a) (arg_target a) ?s"
    using select_source_Some[OF c(2)] by blast
  have new: "identities (pool_leases st') ?s = insert (allocation_identity ?new) (identities ?leases ?s)"
    by (simp add: c(5) identities_snoc new_row_def)
  have "card (identities (pool_leases st') ?s) \<le> count_for (arg_capacities a) ?s"
  proof (cases "count_for (allocation_counts ?leases) ?s < count_for (arg_capacities a) ?s")
    case True
    then show ?thesis
      by (simp add: new count_allocations card_insert_if)
  next
    case False
    with adm have join: "is_joining P ?leases (arg_target a) ?s"
      and le: "count_for (allocation_counts ?leases) ?s \<le> count_for (arg_capacities a) ?s"
      by (auto simp: admissible_def)
    then obtain fp where "binding P (arg_target a) ?s = Some fp"
      by (auto simp: is_joining_def split: option.splits)
    then have "allocation_identity ?new \<in> identities ?leases ?s"
      using join wf_pool_binding[OF assms(2)]
      by (intro joining_identity[OF join]) (auto simp: new_row_def)
    with le show ?thesis by (simp add: new count_allocations insert_absorb)
  qed
  then show ?thesis
    using f' acquire_args_sound(4)[OF a] identities_cong[OF set_eq] by (simp add: count_allocations)
qed

text \<open>
  Ranking: the lease is for a candidate that was admissible (positive capacity, and a free slot
  or a joinable shared upstream), and no candidate ranked before it was.
\<close>

theorem acquire_takes_best_candidate:
  assumes "acquire P now fresh user target cands caps limit f = (Inr l, f')" and "wf_pool P"
  shows "\<exists>st candidates capacities t i. read_state f = Inr st
    \<and> normalized_candidates cands = Inr candidates \<and> normalized_capacities caps = Inr capacities
    \<and> required_identifier target = Inr t \<and> target_id l = t
    \<and> i < length candidates \<and> candidates ! i = source_id l
    \<and> admissible P (prune_stale P (pool_leases st) now) capacities t (source_id l)
    \<and> (\<forall>j < i. \<not> admissible P (prune_stale P (pool_leases st) now) capacities t (candidates ! j))"
proof -
  obtain a st st' where a: "acquire_args_of user target cands caps limit = Inr a"
      and st: "read_state f = Inr st" and core: "acquire_core P now fresh a st = Inr (l, st')"
      and f': "read_state f' = Inr (norm_state st')"
      and set_eq: "set (pool_leases (norm_state st')) = set (pool_leases st')"
    by (rule acquire_file[OF assms])
  note c = acquire_core_Inr[OF core]
  have "target_id l = arg_target a"
    by (subst c(7)) (simp add: lease_from_payload_def new_row_def)
  moreover have "required_identifier target = Inr (arg_target a)"
    using a by (auto simp: acquire_args_of_def rbind_Inr_iff split: if_splits)
  ultimately show ?thesis
    using select_source_Some[OF c(2)] st acquire_args_sound(4,6)[OF a] by metis
qed

text \<open>
  The user limit: with a limit given, a successful acquisition leaves the user with at most
  that many leases in the stored state, the new one among them.
\<close>

theorem acquire_respects_user_limit:
  assumes "acquire P now fresh user target cands caps (PInt n) f = (Inr l, f')" and "wf_pool P"
  shows "\<exists>st'. read_state f' = Inr st' \<and> map_of (pool_leases st') (lease_id l) = Some (lease_payload l)
    \<and> active_for_user (pool_leases st') (user_id l) \<le> n"
proof -
  obtain a st st' where a: "acquire_args_of user target cands caps (PInt n) = Inr a"
      and st: "read_state f = Inr st" and core: "acquire_core P now fresh a st = Inr (l, st')"
      and f': "read_state f' = Inr (norm_state st')"
      and set_eq: "set (pool_leases (norm_state st')) = set (pool_leases st')"
    by (rule acquire_file[OF assms])
  let ?leases = "prune_stale P (pool_leases st) now"
  note c = acquire_core_Inr[OF core]
  have wf': "wf_state st'" by (rule acquire_core_wf[OF read_state_sound[OF st] assms(2) a core])
  have payload: "lease_payload l = new_row P now a (source_id l)"
    by (subst c(7)) (simp add: lease_from_payload_def lease_payload_def)
  have user: "user_id l = arg_user a"
    by (subst c(7)) (simp add: lease_from_payload_def new_row_def)
  have "active_for_user ?leases (arg_user a) < n"
    using c(1) acquire_args_sound(7)[OF a] by (auto simp: limit_reached_def)
  then have count: "active_for_user (pool_leases st') (arg_user a) \<le> n"
    by (simp add: c(5) active_for_user_def new_row_def)
  have dist: "distinct (map fst (pool_leases st'))" using wf' by (simp add: wf_state_def wf_leases_def)
  have "active_for_user (sorted_items (pool_leases st')) u = active_for_user (pool_leases st') u" for u
    by (simp add: active_for_user_def sorted_items_def filter_sort)
  moreover have "map_of (sorted_items (pool_leases st')) (lease_id l) = Some (lease_payload l)"
    using dist by (simp add: sorted_items_map_of payload) (simp add: c(5) map_add_def c(4) map_of_eq_None_iff)
  ultimately show ?thesis using f' count user by (simp add: norm_state_def)
qed

end
