(* ===== verification/Pool_Lifecycle.thy ===== *)
theory Pool_Lifecycle
  imports Pool_Correct "HOL-Library.Multiset"
begin

text \<open>
  The resource pool over time: the effect of heartbeats and releases on the stored leases, runs of
  operations by any number of processes, and the two lifetimes of a lease (exclusive leases expire,
  shared leases are kept until their owner releases them).
\<close>

subsection \<open>Effects on the stored leases\<close>

lemma norm_state_map_of:
  "wf_state st \<Longrightarrow> map_of (pool_leases (norm_state st)) = map_of (pool_leases st)"
  by (simp add: norm_state_def wf_state_def wf_leases_def sorted_items_map_of)

lemma wf_state_prune:
  "wf_state st \<Longrightarrow> wf_state \<lparr>pool_version = pool_version st, pool_leases = prune_stale P (pool_leases st) now\<rparr>"
  by (auto simp: wf_state_def intro: wf_leases_prune)

lemma wf_state_release:
  "wf_state st \<Longrightarrow> wf_state \<lparr>pool_version = pool_version st,
     pool_leases = AList.delete lid (prune_stale P (pool_leases st) now)\<rparr>"
  by (auto simp: wf_state_def intro!: wf_leases_prune wf_leases_del)

definition refresh :: "pyfloat \<Rightarrow> row \<Rightarrow> row" where
  "refresh now r = r\<lparr>row_seen := now\<rparr>"

lemma payload_of_lease [simp]: "lease_payload (lease_from_payload lid r) = r"
  by (simp add: lease_payload_def lease_from_payload_def)

lemma pruned_row_wf:
  assumes "wf_state st" "map_of (prune_stale P (pool_leases st) now) lid = Some r"
  shows "is_identifier lid" "wf_row (pool_version st) r"
  using wf_leases_prune[of "pool_version st" "pool_leases st" P now] assms map_of_SomeD
  by (fastforce simp: wf_state_def wf_leases_def)+

lemma wf_state_refresh:
  assumes "wf_state st" and "map_of (prune_stale P (pool_leases st) now) lid = Some r"
    and "\<not> flt now (row_created r)"
  shows "wf_state \<lparr>pool_version = pool_version st,
     pool_leases = AList.update lid (refresh now r) (prune_stale P (pool_leases st) now)\<rparr>"
proof -
  have "wf_row (pool_version st) (refresh now r)"
    using pruned_row_wf[OF assms(1,2)] assms(3) by (simp add: wf_row_def refresh_def)
  then show ?thesis
    using assms(1) pruned_row_wf(1)[OF assms(1,2)]
    by (auto simp: wf_state_def intro!: wf_leases_set wf_leases_prune)
qed

text \<open>Case analysis of a heartbeat and of a release on a readable file.\<close>

lemma owned_row_Some: "owned_row leases lid user = Some r \<longleftrightarrow> map_of leases lid = Some r \<and> row_user r = user"
  by (auto simp: owned_row_def split: option.splits if_splits)

lemma heartbeat_Inr:
  assumes "heartbeat P now lv uv f = (Inr l, f')"
  obtains lid user st r where "owner_args lv uv = Inr (lid, user)" "read_state f = Inr st"
    "map_of (prune_stale P (pool_leases st) now) lid = Some r" "row_user r = user"
    "row_fingerprint r = None \<or> \<not> expired P now r"
    "l = lease_from_payload lid (refresh now r)"
    "f' = write_state \<lparr>pool_version = pool_version st,
       pool_leases = AList.update lid (refresh now r) (prune_stale P (pool_leases st) now)\<rparr>"
  using assms
  by (auto simp: heartbeat_def rbind_Inr_iff Let_def owned_row_Some refresh_def[symmetric]
      split: sum.splits prod.splits option.splits if_splits)

lemma release_Inr:
  assumes "release P now lv uv f = (Inr b, f')"
  obtains lid user st where "owner_args lv uv = Inr (lid, user)" "read_state f = Inr st"
    "b = (owned_row (prune_stale P (pool_leases st) now) lid user \<noteq> None)"
    "f' = write_state \<lparr>pool_version = pool_version st,
       pool_leases = (if b then AList.delete lid (prune_stale P (pool_leases st) now)
                      else prune_stale P (pool_leases st) now)\<rparr>"
  using assms
  by (auto simp: release_def rbind_Inr_iff Let_def
      split: sum.splits prod.splits option.splits if_splits)

text \<open>
  A heartbeat refreshes exactly the caller's lease: the stored table is the pruned one with the
  heartbeat time of that row replaced, the row belongs to the caller and keeps its target, source,
  creation time and fingerprint.
\<close>

theorem heartbeat_effect:
  assumes "heartbeat P now lv uv f = (Inr l, f')" and "\<not> flt now (created_at l)"
  shows "\<exists>st st' r. read_state f = Inr st \<and> read_state f' = Inr st'
    \<and> required_identifier uv = Inr (row_user r)
    \<and> map_of (prune_stale P (pool_leases st) now) (lease_id l) = Some r
    \<and> map_of (pool_leases st') =
        (map_of (prune_stale P (pool_leases st) now))(lease_id l \<mapsto> r\<lparr>row_seen := now\<rparr>)"
proof -
  obtain lid user st r where h: "owner_args lv uv = Inr (lid, user)" "read_state f = Inr st"
      "map_of (prune_stale P (pool_leases st) now) lid = Some r" "row_user r = user"
      "row_fingerprint r = None \<or> \<not> expired P now r"
      "l = lease_from_payload lid (refresh now r)"
      "f' = write_state \<lparr>pool_version = pool_version st,
         pool_leases = AList.update lid (refresh now r) (prune_stale P (pool_leases st) now)\<rparr>"
    by (rule heartbeat_Inr[OF assms(1)])
  let ?st = "\<lparr>pool_version = pool_version st,
         pool_leases = AList.update lid (refresh now r) (prune_stale P (pool_leases st) now)\<rparr>"
  have "\<not> flt now (row_created r)"
    using assms(2) h(6) by (simp add: lease_from_payload_def refresh_def)
  then have "wf_state ?st" by (rule wf_state_refresh[OF read_state_sound[OF h(2)] h(3)])
  then have "read_state f' = Inr (norm_state ?st)"
    and "map_of (pool_leases (norm_state ?st)) = map_of (pool_leases ?st)"
    by (simp_all add: h(7) read_write_state norm_state_map_of)
  moreover have "required_identifier uv = Inr (row_user r)"
    using h(1,4) by (auto simp: owner_args_def rbind_Inr_iff)
  moreover have "lease_id l = lid" by (simp add: h(6) lease_from_payload_def)
  ultimately show ?thesis
    using h(2,3) by (intro exI[of _ st] exI[of _ "norm_state ?st"] exI[of _ r])
      (simp add: dict_simps refresh_def)
qed

text \<open>
  A release gives the slot back once: when it reports success the caller's row is gone and every
  other unexpired row is as before, and repeating it at once reports that there is nothing to
  release and changes no row.
\<close>

theorem release_once:
  assumes "release P now lv uv f = (Inr True, f')"
  shows "\<exists>st lid r st'. read_state f = Inr st \<and> required_identifier lv = Inr lid
    \<and> map_of (prune_stale P (pool_leases st) now) lid = Some r
    \<and> required_identifier uv = Inr (row_user r) \<and> read_state f' = Inr st'
    \<and> map_of (pool_leases st') = (map_of (prune_stale P (pool_leases st) now))(lid := None)
    \<and> fst (release P now lv uv f') = Inr False
    \<and> (\<exists>st''. read_state (snd (release P now lv uv f')) = Inr st''
             \<and> map_of (pool_leases st'') = map_of (prune_stale P (pool_leases st') now))"
proof -
  obtain lid user st where h: "owner_args lv uv = Inr (lid, user)" "read_state f = Inr st"
      "True = (owned_row (prune_stale P (pool_leases st) now) lid user \<noteq> None)"
      "f' = write_state \<lparr>pool_version = pool_version st,
         pool_leases = (if True then AList.delete lid (prune_stale P (pool_leases st) now)
                        else prune_stale P (pool_leases st) now)\<rparr>"
    by (rule release_Inr[OF assms])
  let ?st = "\<lparr>pool_version = pool_version st,
         pool_leases = AList.delete lid (prune_stale P (pool_leases st) now)\<rparr>"
  obtain r where r: "map_of (prune_stale P (pool_leases st) now) lid = Some r" "row_user r = user"
    using h(3) owned_row_Some[of "prune_stale P (pool_leases st) now" lid user] by auto
  have args: "required_identifier lv = Inr lid" "required_identifier uv = Inr user"
    using h(1) by (auto simp: owner_args_def rbind_Inr_iff)
  have wf: "wf_state ?st" by (rule wf_state_release[OF read_state_sound[OF h(2)]])
  let ?n = "norm_state ?st"
  have f': "read_state f' = Inr ?n" using wf by (simp add: h(4) read_write_state)
  have tab: "map_of (pool_leases ?n) = (map_of (prune_stale P (pool_leases st) now))(lid := None)"
    using wf by (simp add: norm_state_map_of dict_simps)
  have "lid \<notin> fst ` set (pool_leases ?n)" using tab map_of_eq_None_iff by (metis fun_upd_same)
  then have gone: "map_of (prune_stale P (pool_leases ?n) now) lid = None"
    by (auto simp: map_of_eq_None_iff prune_stale_def)
  have again: "release P now lv uv f' = (Inr False,
      write_state \<lparr>pool_version = pool_version ?n, pool_leases = prune_stale P (pool_leases ?n) now\<rparr>)"
    by (simp add: release_def h(1) f' owned_row_def gone)
  have "wf_state \<lparr>pool_version = pool_version ?n, pool_leases = prune_stale P (pool_leases ?n) now\<rparr>"
    by (rule wf_state_prune[OF read_state_sound[OF f']])
  then show ?thesis
    using h(2) args r f' tab again
    by (intro exI[of _ st] exI[of _ lid] exI[of _ r] exI[of _ ?n])
       (auto simp: read_write_state norm_state_map_of)
qed

subsection \<open>Runs\<close>

datatype pool_op =
    Acquire pyval pyval pyval "pyval list" "(pyval \<times> pyval) list" pyval
  | Heartbeat pyval pyval
  | Release pyval pyval
  | Snapshot "(pyval \<times> pyval) list"

fun apply_op :: "pool \<Rightarrow> pyfloat \<Rightarrow> pool_op \<Rightarrow> state_file \<Rightarrow> state_file" where
  "apply_op P now (Acquire fresh user target cands caps limit) f =
     snd (acquire P now fresh user target cands caps limit f)"
| "apply_op P now (Heartbeat lv uv) f = snd (heartbeat P now lv uv f)"
| "apply_op P now (Release lv uv) f = snd (release P now lv uv f)"
| "apply_op P now (Snapshot caps) f = snd (snapshot P now caps f)"

text \<open>Every stored lease was created no later than \<open>t\<close> (a real time, not NaN).\<close>

definition created_by :: "pyfloat \<Rightarrow> pool_state \<Rightarrow> bool" where
  "created_by t st \<longleftrightarrow> (\<forall>(lid, r) \<in> set (pool_leases st). fle (row_created r) t)"

lemma created_by_mono: "created_by t st \<Longrightarrow> fle t t' \<Longrightarrow> created_by t' st"
  unfolding created_by_def using fle_trans by blast

lemma created_by_norm [simp]: "created_by t (norm_state st) = created_by t st"
  by (simp add: created_by_def norm_state_def)

lemma created_by_pruned:
  "created_by t st \<Longrightarrow> set leases \<subseteq> set (prune_stale P (pool_leases st) now)
   \<Longrightarrow> created_by t \<lparr>pool_version = v, pool_leases = leases\<rparr>"
  by (auto simp: created_by_def prune_stale_def)

text \<open>
  A stored state that a later operation at \<open>now\<close> may write back: well formed, with every lease
  created by \<open>now\<close>. Written and read back it is in the same shape.
\<close>

definition sound_file :: "pyfloat \<Rightarrow> state_file \<Rightarrow> bool" where
  "sound_file t f \<longleftrightarrow> (\<exists>st. read_state f = Inr st \<and> created_by t st)"

lemma sound_file_write: "wf_state st \<Longrightarrow> created_by t st \<Longrightarrow> sound_file t (write_state st)"
  by (auto simp: sound_file_def read_write_state)

lemma sound_file_pruned:
  "read_state f = Inr st \<Longrightarrow> created_by t st \<Longrightarrow>
   sound_file t (write_state \<lparr>pool_version = pool_version st, pool_leases = prune_stale P (pool_leases st) now\<rparr>)"
  by (intro sound_file_write wf_state_prune created_by_pruned read_state_sound) auto

lemma sound_file_acquire:
  assumes "wf_pool P" "sound_file now f" "fle now now"
  shows "sound_file now (snd (acquire P now fresh user target cands caps limit f))"
proof (cases "acquire P now fresh user target cands caps limit f")
  case (Pair res f')
  show ?thesis
  proof (cases res)
    case (Inl e)
    with assms Pair acquire_Inl show ?thesis by force
  next
    case (Inr l)
    obtain a st st' where a: "acquire_args_of user target cands caps limit = Inr a"
        and st: "read_state f = Inr st" and core: "acquire_core P now fresh a st = Inr (l, st')"
        and f': "f' = write_state st'"
      by (rule acquire_Inr[OF Pair[unfolded Inr]])
    note c = acquire_core_Inr[OF core]
    have "created_by now st" using assms(2) st by (simp add: sound_file_def)
    then have "created_by now st'"
      using assms(3) by (auto simp: created_by_def c(5) new_row_def prune_stale_def)
    moreover have "wf_state st'" by (rule acquire_core_wf[OF read_state_sound[OF st] assms(1) a core])
    ultimately show ?thesis using Pair f' by (simp add: sound_file_write)
  qed
qed

lemma sound_file_heartbeat:
  assumes "sound_file now f"
  shows "sound_file now (snd (heartbeat P now lv uv f))"
proof -
  obtain st where st: "read_state f = Inr st" "created_by now st"
    using assms by (auto simp: sound_file_def)
  let ?leases = "prune_stale P (pool_leases st) now"
  have keep: "sound_file now (write_state \<lparr>pool_version = pool_version st,
      pool_leases = AList.update lid (refresh now r) ?leases\<rparr>)" if r: "map_of ?leases lid = Some r" for lid r
  proof (rule sound_file_write)
    have "(lid, r) \<in> set (pool_leases st)" using r by (auto simp: prune_stale_def dest: map_of_SomeD)
    then have le: "fle (row_created r) now" using st(2) by (auto simp: created_by_def)
    then have "\<not> flt now (row_created r)" by (rule fle_not_flt)
    then show "wf_state \<lparr>pool_version = pool_version st,
        pool_leases = AList.update lid (refresh now r) ?leases\<rparr>"
      by (rule wf_state_refresh[OF read_state_sound[OF st(1)] r])
    have "distinct (map fst ?leases)"
      using read_state_sound[OF st(1)] wf_leases_prune by (auto simp: wf_state_def wf_leases_def)
    then show "created_by now \<lparr>pool_version = pool_version st,
        pool_leases = AList.update lid (refresh now r) ?leases\<rparr>"
      using st(2) le by (auto simp: created_by_def set_dict_set refresh_def prune_stale_def)
  qed
  show ?thesis
    using assms st keep sound_file_pruned[OF st, of P now]
    by (auto simp: heartbeat_def Let_def rbind_Inr_iff owned_row_Some refresh_def[symmetric]
        split: sum.splits prod.splits option.splits)
qed

lemma sound_file_release:
  assumes "sound_file now f"
  shows "sound_file now (snd (release P now lv uv f))"
proof -
  obtain st where st: "read_state f = Inr st" "created_by now st"
    using assms by (auto simp: sound_file_def)
  have "sound_file now (write_state \<lparr>pool_version = pool_version st,
      pool_leases = AList.delete lid (prune_stale P (pool_leases st) now)\<rparr>)" for lid
    by (intro sound_file_write wf_state_release read_state_sound[OF st(1)] created_by_pruned[OF st(2)])
       (auto simp: set_dict_del)
  then show ?thesis
    using assms st sound_file_pruned[OF st, of P now]
    by (auto simp: release_def Let_def rbind_Inr_iff split: sum.splits prod.splits option.splits)
qed

lemma sound_file_snapshot:
  assumes "sound_file now f"
  shows "sound_file now (snd (snapshot P now caps f))"
  using assms sound_file_pruned[of f _ now P now]
  by (auto simp: snapshot_def Let_def rbind_def sound_file_def split: sum.splits prod.splits)

lemma sound_file_op:
  "wf_pool P \<Longrightarrow> sound_file now f \<Longrightarrow> fle now now \<Longrightarrow> sound_file now (apply_op P now op f)"
  by (cases op) (auto intro: sound_file_acquire sound_file_heartbeat sound_file_release sound_file_snapshot)

text \<open>The states of the file under any interleaving of operations while the clock does not step back.\<close>

inductive pool_reachable :: "pool \<Rightarrow> pyfloat \<Rightarrow> state_file \<Rightarrow> bool" for P where
  start: "fle t t \<Longrightarrow> pool_reachable P t Absent"
| step: "pool_reachable P t f \<Longrightarrow> fle t t' \<Longrightarrow> fle t' t' \<Longrightarrow> pool_reachable P t' (apply_op P t' op f)"

lemma pool_reachable_sound: "pool_reachable P t f \<Longrightarrow> wf_pool P \<Longrightarrow> sound_file t f"
proof (induction rule: pool_reachable.induct)
  case (start t)
  then show ?case by (simp add: sound_file_def created_by_def)
next
  case (step t f t' op)
  then have "sound_file t' f" using created_by_mono by (auto simp: sound_file_def)
  then show ?case using step by (intro sound_file_op)
qed

text \<open>
  C33. The pool never corrupts its own file: from an absent file, any sequence of acquisitions,
  heartbeats, releases and snapshots, with any arguments and at non-decreasing times, leaves a file
  that the next operation reads as a well-formed state.
\<close>

theorem pool_file_stays_readable:
  assumes "pool_reachable P t f" and "new_pool ttl bindings = Inr P"
  shows "\<exists>st. read_state f = Inr st \<and> wf_state st"
  using pool_reachable_sound[OF assms(1) new_pool_wf[OF assms(2)]] read_state_sound
  by (auto simp: sound_file_def)

subsection \<open>When the clock steps back\<close>

lemma read_row_inconsistent:
  "wf_row v r \<Longrightarrow> flt now (row_created r) \<Longrightarrow> read_row v (encode_row (refresh now r)) = Inl PoolStateError"
  by (cases "row_fingerprint r")
     (simp_all add: read_row_def encode_row_def read_fingerprint_def lease_keys_def field_def wf_row_def
       refresh_def insert_commute)

lemma read_leases_bad:
  assumes "(lid, bad) \<in> set leases" "distinct (map fst leases)"
    and "\<And>k r. (k, r) \<in> set leases \<Longrightarrow> is_identifier k"
    and "\<And>k r. (k, r) \<in> set leases \<Longrightarrow> (k, r) \<noteq> (lid, bad) \<Longrightarrow> wf_row v r"
    and "read_row v (encode_row bad) = Inl PoolStateError"
  shows "read_leases v (map (\<lambda>(k, r). (k, encode_row r)) leases) acc = Inl PoolStateError"
  using assms
proof (induction leases arbitrary: acc)
  case (Cons kr leases)
  obtain k r where kr: "kr = (k, r)" by force
  have id: "is_identifier k" using Cons.prems(3)[of k r] kr by simp
  show ?case
  proof (cases "(k, r) = (lid, bad)")
    case True
    then show ?thesis using kr id Cons.prems(5) by simp
  next
    case False
    then have "(lid, bad) \<in> set leases" using Cons.prems(1) kr by auto
    then have "read_leases v (map (\<lambda>(k, r). (k, encode_row r)) leases) (AList.update k r acc)
        = Inl PoolStateError"
      using Cons.prems by (intro Cons.IH) auto
    moreover have "wf_row v r" using Cons.prems(4)[of k r] False kr by auto
    ultimately show ?thesis using kr id by (simp add: read_encode_row)
  qed
qed simp


subsection \<open>Shared leases outlive their heartbeat\<close>

definition shared_at :: "string \<Rightarrow> string \<Rightarrow> string \<Rightarrow> state_file \<Rightarrow> bool" where
  "shared_at lid user fp f \<longleftrightarrow>
     (\<exists>st r. read_state f = Inr st \<and> map_of (pool_leases st) lid = Some r
        \<and> row_user r = user \<and> row_fingerprint r = Some fp)"

lemma shared_at_write:
  "wf_state st \<Longrightarrow> map_of (pool_leases st) lid = Some r \<Longrightarrow> row_user r = user
   \<Longrightarrow> row_fingerprint r = Some fp \<Longrightarrow> shared_at lid user fp (write_state st)"
  unfolding shared_at_def by (simp add: read_write_state norm_state_map_of)

lemma pruned_shared:
  assumes "wf_state st" "map_of (pool_leases st) lid = Some r" "row_fingerprint r = Some fp"
  shows "map_of (prune_stale P (pool_leases st) now) lid = Some r"
  using assms by (simp add: prune_stale_def map_of_filter_fst wf_state_def wf_leases_def)

definition releases :: "pool_op \<Rightarrow> string \<Rightarrow> string \<Rightarrow> bool" where
  "releases op lid user \<longleftrightarrow> (\<exists>lv uv. op = Release lv uv \<and> owner_args lv uv = Inr (lid, user))"

text \<open>The pruned state still has the lease, and rewriting it changes nothing about it.\<close>

lemma shared_at_pruned:
  assumes "wf_pool P" and "shared_at lid user fp f"
  obtains st r where "read_state f = Inr st" and "wf_state st" and "row_user r = user"
    and "row_fingerprint r = Some fp" and "map_of (prune_stale P (pool_leases st) now) lid = Some r"
    and "shared_at lid user fp
           (write_state \<lparr>pool_version = pool_version st, pool_leases = prune_stale P (pool_leases st) now\<rparr>)"
proof -
  obtain st r where st: "read_state f = Inr st" and r: "map_of (pool_leases st) lid = Some r"
      and user: "row_user r = user" and fp: "row_fingerprint r = Some fp"
    using assms(2) by (auto simp: shared_at_def)
  have wf: "wf_state st" by (rule read_state_sound[OF st])
  have kept: "map_of (prune_stale P (pool_leases st) now) lid = Some r" by (rule pruned_shared[OF wf r fp])
  show ?thesis
    by (rule that[OF st wf user fp kept], rule shared_at_write[OF wf_state_prune[OF wf] _ user fp])
       (simp add: kept)
qed

lemma shared_at_acquire:
  assumes "wf_pool P" and "shared_at lid user fp f"
    and eq: "acquire P now fresh u t cs caps limit f = (res, f')"
  shows "shared_at lid user fp f'"
proof (cases res)
  case (Inl e)
  with eq assms(2) show ?thesis by (auto dest: acquire_Inl)
next
  case (Inr l)
  obtain st r where st: "read_state f = Inr st" and wf: "wf_state st" and user: "row_user r = user"
      and fp: "row_fingerprint r = Some fp" and kept: "map_of (prune_stale P (pool_leases st) now) lid = Some r"
    by (rule shared_at_pruned[OF assms(1,2)])
  obtain a st2 st' where a: "acquire_args_of u t cs caps limit = Inr a"
      and st2: "read_state f = Inr st2" and core: "acquire_core P now fresh a st2 = Inr (l, st')"
      and f': "f' = write_state st'"
    by (rule acquire_Inr[OF eq[unfolded Inr]])
  have "st2 = st" using st st2 by simp
  note c = acquire_core_Inr[OF core, unfolded \<open>st2 = st\<close>]
  have "lid \<noteq> lease_id l" using c(4) kept map_of_SomeD by force
  then have "map_of (pool_leases st') lid = Some r" using kept by (simp add: c(5) map_add_def)
  moreover have "wf_state st'" by (rule acquire_core_wf[OF wf assms(1) a core[unfolded \<open>st2 = st\<close>]])
  ultimately show ?thesis using f' user fp by (simp add: shared_at_write)
qed

lemma shared_at_heartbeat:
  assumes "wf_pool P" and "sound_file now f" and "fle now now" and "shared_at lid user fp f"
  shows "shared_at lid user fp (snd (heartbeat P now lv uv f))"
proof -
  obtain st r where st: "read_state f = Inr st" and wf: "wf_state st" and user: "row_user r = user"
      and fp: "row_fingerprint r = Some fp" and kept: "map_of (prune_stale P (pool_leases st) now) lid = Some r"
      and written: "shared_at lid user fp
        (write_state \<lparr>pool_version = pool_version st, pool_leases = prune_stale P (pool_leases st) now\<rparr>)"
    by (rule shared_at_pruned[OF assms(1,4)])
  let ?leases = "prune_stale P (pool_leases st) now"
  have "shared_at lid user fp (write_state \<lparr>pool_version = pool_version st,
      pool_leases = AList.update k (refresh now r') ?leases\<rparr>)" if r': "map_of ?leases k = Some r'" for k r'
  proof (rule shared_at_write)
    have "(k, r') \<in> set (pool_leases st)" using r' by (auto simp: prune_stale_def dest: map_of_SomeD)
    then have "fle (row_created r') now" using assms(2) st by (auto simp: sound_file_def created_by_def)
    then have "\<not> flt now (row_created r')" by (rule fle_not_flt)
    then show "wf_state \<lparr>pool_version = pool_version st, pool_leases = AList.update k (refresh now r') ?leases\<rparr>"
      by (rule wf_state_refresh[OF wf r'])
    show "map_of (pool_leases \<lparr>pool_version = pool_version st,
        pool_leases = AList.update k (refresh now r') ?leases\<rparr>) lid = Some (if k = lid then refresh now r else r)"
      using kept r' by (auto simp: dict_simps)
  qed (auto simp: user fp refresh_def)
  then show ?thesis
    using st written assms(4)
    by (auto simp: heartbeat_def Let_def rbind_Inr_iff owned_row_Some refresh_def[symmetric]
        split: sum.splits prod.splits option.splits)
qed

lemma shared_at_release:
  assumes "wf_pool P" and "shared_at lid user fp f" and "owner_args lv uv \<noteq> Inr (lid, user)"
  shows "shared_at lid user fp (snd (release P now lv uv f))"
proof -
  obtain st r where st: "read_state f = Inr st" and wf: "wf_state st" and user: "row_user r = user"
      and fp: "row_fingerprint r = Some fp" and kept: "map_of (prune_stale P (pool_leases st) now) lid = Some r"
      and written: "shared_at lid user fp
        (write_state \<lparr>pool_version = pool_version st, pool_leases = prune_stale P (pool_leases st) now\<rparr>)"
    by (rule shared_at_pruned[OF assms(1,2)])
  let ?leases = "prune_stale P (pool_leases st) now"
  have "shared_at lid user fp (write_state \<lparr>pool_version = pool_version st,
      pool_leases = AList.delete k ?leases\<rparr>)" if "k \<noteq> lid" for k
    by (rule shared_at_write[OF wf_state_release[OF wf] _ user fp]) (simp add: dict_simps that[symmetric] kept)
  moreover have "owned_row ?leases k u = Some r' \<Longrightarrow> u \<noteq> user \<Longrightarrow> k \<noteq> lid" for k u r'
    using kept user by (auto simp: owned_row_Some)
  ultimately show ?thesis
    using st written assms(2,3)
    by (auto simp: release_def Let_def rbind_Inr_iff split: sum.splits prod.splits option.splits)
qed

text \<open>
  Elapsed time alone never frees a shared upstream: a stored shared lease is still stored, for
  the same user and with the same fingerprint, after any operation at any time that the clock
  allows, unless that operation is the release of this lease by its owner.
\<close>

theorem shared_lease_kept_until_released:
  assumes "wf_pool P" and "sound_file now f" and "fle now now"
    and "shared_at lid user fp f" and "\<not> releases op lid user"
  shows "shared_at lid user fp (apply_op P now op f)"
proof (cases op)
  case (Acquire fresh u t cs caps limit)
  obtain res f' where eq: "acquire P now fresh u t cs caps limit f = (res, f')" by force
  from shared_at_acquire[OF assms(1,4) eq] show ?thesis by (simp add: Acquire eq)
next
  case (Heartbeat lv uv)
  with shared_at_heartbeat[OF assms(1-4)] show ?thesis by simp
next
  case (Release lv uv)
  with assms(5) have "owner_args lv uv \<noteq> Inr (lid, user)" by (simp add: releases_def)
  with shared_at_release[OF assms(1,4)] Release show ?thesis by simp
next
  case (Snapshot caps)
  obtain st where "read_state f = Inr st" "shared_at lid user fp
      (write_state \<lparr>pool_version = pool_version st, pool_leases = prune_stale P (pool_leases st) now\<rparr>)"
    using shared_at_pruned[OF assms(1,4)] by metis
  with Snapshot assms(4) show ?thesis
    by (auto simp: snapshot_def Let_def rbind_Inr_iff split: sum.splits prod.splits)
qed

subsection \<open>Snapshots\<close>

text \<open>
  A snapshot reports the truth: one entry per capacity the caller gave, in source order, whose
  active count is the number of distinct upstream allocations of that source among the unexpired
  leases and whose availability is what the capacity leaves, never negative; and it lists exactly
  the unexpired leases.
\<close>

theorem snapshot_accounts:
  assumes "snapshot P now caps f = (Inr s, f')"
  shows "\<exists>st capacities leases. read_state f = Inr st \<and> normalized_capacities caps = Inr capacities
    \<and> leases = prune_stale P (pool_leases st) now
    \<and> map snap_source (snap_sources s) = sort (map fst capacities)
    \<and> (\<forall>x \<in> set (snap_sources s).
         snap_active x = int (card (identities leases (snap_source x)))
         \<and> map_of capacities (snap_source x) = Some (snap_capacity x)
         \<and> snap_available x = max 0 (snap_capacity x - snap_active x))
    \<and> total_active s = sum_list (map (\<lambda>x. int (card (identities leases (snap_source x)))) (snap_sources s))
    \<and> set (snap_leases s) = (\<lambda>(lid, r). lease_from_payload lid r) ` set leases"
proof -
  obtain st capacities where st: "read_state f = Inr st"
      and caps: "normalized_capacities caps = Inr capacities"
      and s: "s = snapshot_of capacities (prune_stale P (pool_leases st) now)"
    using assms by (auto simp: snapshot_def Let_def rbind_Inr_iff split: sum.splits prod.splits)
  have dist: "distinct (map fst capacities)"
    using capacities_loop_sound[OF caps[unfolded normalized_capacities_def]] by simp
  have "sort (map fst capacities) = map fst (sort_key fst capacities)"
    by (rule properties_for_sort) simp_all
  then have names: "map snap_source (snap_sources s) = sort (map fst capacities)"
    by (simp add: s snapshot_of_def Let_def comp_def source_snapshot_of_def case_prod_beta sorted_items_def)
  show ?thesis
    using st caps names dist
    by (intro exI[of _ st] exI[of _ capacities])
       (auto simp: s snapshot_of_def Let_def source_snapshot_of_def count_allocations comp_def
          case_prod_beta intro: map_of_is_SomeI)
qed

subsection \<open>Witnesses\<close>

text \<open>
  A pool with one sharing binding, two sources with capacities 0 and 1, and the files that one
  acquisition leaves: an exclusive lease of \<open>ann\<close>, and a shared one of \<open>bob\<close>.
\<close>

definition demo_fp :: string where
  "demo_fp = replicate 64 (CHR ''a'')"

definition demo_pool :: pool where
  "demo_pool = \<lparr>ttl_seconds = 90, sharing_bindings = [((''final'', ''b''), demo_fp)]\<rparr>"

definition demo_caps :: "(pyval \<times> pyval) list" where
  "demo_caps = [(PStr ''b'', PInt 1), (PStr ''a'', PInt 0)]"

definition demo_row :: row where
  "demo_row = \<lparr>row_user = ''ann'', row_target = ''match'', row_source = ''b'',
     row_created = Fin 100, row_seen = Fin 100, row_fingerprint = None\<rparr>"

definition demo_file :: state_file where
  "demo_file = write_state \<lparr>pool_version = 1, pool_leases = [(''l1'', demo_row)]\<rparr>"

definition demo_shared_row :: row where
  "demo_shared_row = \<lparr>row_user = ''bob'', row_target = ''final'', row_source = ''b'',
     row_created = Fin 100, row_seen = Fin 100, row_fingerprint = Some demo_fp\<rparr>"

definition demo_shared_file :: state_file where
  "demo_shared_file = write_state \<lparr>pool_version = 2, pool_leases = [(''l2'', demo_shared_row)]\<rparr>"

lemma demo_new_pool: "new_pool (PInt 90) [(PTuple [PStr ''final'', PStr ''b''], PStr demo_fp)] = Inr demo_pool"
  by code_simp

lemma demo_pool_wf: "wf_pool demo_pool"
  by (rule new_pool_wf[OF demo_new_pool])

lemma demo_acquire:
  "acquire demo_pool (Fin 100) (PStr ''l1'') (PStr ''ann'') (PStr ''match'') [PStr ''a'', PStr ''b'']
     demo_caps (PInt 1) Absent = (Inr (lease_from_payload ''l1'' demo_row), demo_file)"
  by code_simp

lemma demo_acquire_shared:
  "acquire demo_pool (Fin 100) (PStr ''l2'') (PStr ''bob'') (PStr ''final'') [PStr ''b'']
     demo_caps PNone Absent = (Inr (lease_from_payload ''l2'' demo_shared_row), demo_shared_file)"
  by code_simp

lemma demo_sound: "sound_file (Fin 110) demo_file"
proof -
  have "read_state demo_file = Inr \<lparr>pool_version = 1, pool_leases = [(''l1'', demo_row)]\<rparr>" by code_simp
  then show ?thesis by (auto simp: sound_file_def created_by_def demo_row_def)
qed

lemma demo_shared_sound:
  "sound_file (Fin 1000) demo_shared_file" "shared_at ''l2'' ''bob'' demo_fp demo_shared_file"
proof -
  have "read_state demo_shared_file = Inr \<lparr>pool_version = 2, pool_leases = [(''l2'', demo_shared_row)]\<rparr>"
    by code_simp
  then show "sound_file (Fin 1000) demo_shared_file" "shared_at ''l2'' ''bob'' demo_fp demo_shared_file"
    by (auto simp: sound_file_def created_by_def shared_at_def demo_shared_row_def)
qed

theorem acquire_within_capacity_witness:
  "\<exists>st' capacities. read_state demo_file = Inr st' \<and> normalized_capacities demo_caps = Inr capacities
    \<and> count_for (allocation_counts (pool_leases st')) ''b'' \<le> count_for capacities ''b''"
  using acquire_within_capacity[OF demo_acquire demo_pool_wf]
  by (simp add: lease_from_payload_def demo_row_def)

theorem acquire_takes_best_candidate_witness:
  "\<exists>st candidates capacities t i. read_state Absent = Inr st
    \<and> normalized_candidates [PStr ''a'', PStr ''b''] = Inr candidates
    \<and> normalized_capacities demo_caps = Inr capacities
    \<and> required_identifier (PStr ''match'') = Inr t \<and> ''match'' = t
    \<and> i < length candidates \<and> candidates ! i = ''b''
    \<and> admissible demo_pool (prune_stale demo_pool (pool_leases st) (Fin 100)) capacities t ''b''
    \<and> (\<forall>j < i. \<not> admissible demo_pool (prune_stale demo_pool (pool_leases st) (Fin 100)) capacities t (candidates ! j))"
  using acquire_takes_best_candidate[OF demo_acquire demo_pool_wf]
  by (simp add: lease_from_payload_def demo_row_def)

theorem acquire_respects_user_limit_witness:
  "\<exists>st'. read_state demo_file = Inr st' \<and> map_of (pool_leases st') ''l1'' = Some demo_row
    \<and> active_for_user (pool_leases st') ''ann'' \<le> 1"
  using acquire_respects_user_limit[OF demo_acquire demo_pool_wf]
  by (simp add: lease_from_payload_def demo_row_def lease_payload_def)

lemma demo_heartbeat:
  "heartbeat demo_pool (Fin 110) (PStr ''l1'') (PStr ''ann'') demo_file
     = (Inr (lease_from_payload ''l1'' (refresh (Fin 110) demo_row)),
        write_state \<lparr>pool_version = 1, pool_leases = [(''l1'', refresh (Fin 110) demo_row)]\<rparr>)"
  by code_simp

theorem heartbeat_effect_witness:
  "\<exists>st st' r. read_state demo_file = Inr st
    \<and> read_state (write_state \<lparr>pool_version = 1, pool_leases = [(''l1'', refresh (Fin 110) demo_row)]\<rparr>) = Inr st'
    \<and> required_identifier (PStr ''ann'') = Inr (row_user r)
    \<and> map_of (prune_stale demo_pool (pool_leases st) (Fin 110)) ''l1'' = Some r
    \<and> map_of (pool_leases st') =
        (map_of (prune_stale demo_pool (pool_leases st) (Fin 110)))(''l1'' \<mapsto> r\<lparr>row_seen := Fin 110\<rparr>)"
  using heartbeat_effect[OF demo_heartbeat]
  by (simp add: lease_from_payload_def demo_row_def refresh_def)

lemma demo_release:
  "release demo_pool (Fin 110) (PStr ''l1'') (PStr ''ann'') demo_file
     = (Inr True, write_state \<lparr>pool_version = 1, pool_leases = []\<rparr>)"
  by code_simp

theorem release_once_witness:
  "fst (release demo_pool (Fin 110) (PStr ''l1'') (PStr ''ann'')
     (write_state \<lparr>pool_version = 1, pool_leases = []\<rparr>)) = Inr False"
  using release_once[OF demo_release] by blast

theorem pool_file_stays_readable_witness:
  "\<exists>st. read_state demo_file = Inr st \<and> wf_state st"
proof -
  have "pool_reachable demo_pool (Fin 100) (apply_op demo_pool (Fin 100)
      (Acquire (PStr ''l1'') (PStr ''ann'') (PStr ''match'') [PStr ''a'', PStr ''b''] demo_caps (PInt 1)) Absent)"
    by (rule pool_reachable.step[OF pool_reachable.start[of "Fin 0"]]) simp_all
  then have "pool_reachable demo_pool (Fin 100) demo_file" by (simp add: demo_acquire)
  then show ?thesis by (rule pool_file_stays_readable[OF _ demo_new_pool])
qed

lemma demo_heartbeat_early:
  "heartbeat demo_pool (Fin 99) (PStr ''l1'') (PStr ''ann'') demo_file
     = (Inr (lease_from_payload ''l1'' (refresh (Fin 99) demo_row)),
        write_state \<lparr>pool_version = 1, pool_leases = [(''l1'', refresh (Fin 99) demo_row)]\<rparr>)"
  by code_simp


theorem shared_lease_kept_until_released_witness:
  "shared_at ''l2'' ''bob'' demo_fp
     (apply_op demo_pool (Fin 1000) (Heartbeat (PStr ''l2'') (PStr ''bob'')) demo_shared_file)"
  by (rule shared_lease_kept_until_released[OF demo_pool_wf demo_shared_sound(1) _ demo_shared_sound(2)])
     (simp_all add: releases_def)

lemma demo_snapshot:
  "snapshot demo_pool (Fin 110) demo_caps demo_file
     = (Inr (snapshot_of [(''b'', 1), (''a'', 0)] [(''l1'', demo_row)]), demo_file)"
  by code_simp

theorem snapshot_accounts_witness:
  "\<exists>st capacities leases. read_state demo_file = Inr st \<and> normalized_capacities demo_caps = Inr capacities
    \<and> leases = prune_stale demo_pool (pool_leases st) (Fin 110)
    \<and> map snap_source (snap_sources (snapshot_of [(''b'', 1), (''a'', 0)] [(''l1'', demo_row)])) = sort (map fst capacities)"
  using snapshot_accounts[OF demo_snapshot] by blast

end
