(* ===== verification/Session_Registry.thy ===== *)
theory Session_Registry
  imports Durable_State
begin

text \<open>
  The Sports Live session registry (\<open>atlas/sports_session_registry.py\<close>): which user holds which
  viewing session, with the resource lease behind it, in one JSON file shared under a file lock.
  As in the pool an operation is one step on the file, with the clock and the identifier factory as
  arguments; here an operation writes only when it changed something.
\<close>

subsection \<open>Data\<close>

datatype reg_exn = RegBuiltin pyexn | SessionLimitExceeded | SessionNotFound | SessionStateError

record session_record =
  session_id :: string
  session_user :: string
  session_target :: string
  session_created :: pyfloat
  session_seen :: pyfloat
  session_lease :: "string option"

record session_snapshot =
  snap_session :: string
  snap_user :: string
  snap_target :: string
  age_seconds :: int
  heartbeat_age_seconds :: int

record retained_observation =
  observed_at :: pyfloat
  state_sha256 :: string
  observed_sessions :: "session_snapshot list"

record session_row =
  srow_user :: string
  srow_target :: string
  srow_created :: pyfloat
  srow_seen :: pyfloat
  srow_lease :: "string option"

type_synonym sessions = "(string \<times> session_row) list"

subsection \<open>Validation\<close>

definition new_registry :: "pyval \<Rightarrow> pyexn + int" where
  "new_registry ttl = (if int_at_least 1 ttl then Inr (int_value ttl) else Inl ValueError)"

fun session_identifier :: "pyval \<Rightarrow> pyexn + string" where
  "session_identifier (PStr value) =
     (let normalized = strip value
      in if normalized = [] \<or> length normalized > 256
            \<or> list_ex (\<lambda>c. (of_char c :: nat) < 32) normalized
         then Inl ValueError else Inr normalized)"
| "session_identifier _ = Inl ValueError"

definition required_state_identifier :: "pyval \<Rightarrow> reg_exn + string" where
  "required_state_identifier v = map_exn (\<lambda>_. SessionStateError) (session_identifier v)"

definition nonnegative_timestamp :: "pyfloat \<Rightarrow> reg_exn + pyfloat" where
  "nonnegative_timestamp x = (if flt x (Fin 0) then Inl SessionStateError else Inr x)"

fun session_timestamp :: "pyval \<Rightarrow> reg_exn + pyfloat" where
  "session_timestamp (PInt n) = rbind (map_exn RegBuiltin (float_of_int n)) nonnegative_timestamp"
| "session_timestamp (PFloat x) = nonnegative_timestamp x"
| "session_timestamp _ = Inl SessionStateError"

subsection \<open>Reading the state\<close>

definition LEGACY_STATE_VERSION :: int where
  "LEGACY_STATE_VERSION = 1"

definition STATE_VERSION :: int where
  "STATE_VERSION = 2"

text \<open>
  \<open>version in {1, 2}\<close> compares by equality across \<open>int\<close>, \<open>bool\<close> and \<open>float\<close>, and hashing a list or a
  dictionary raises.
\<close>

fun unhashable :: "pyval \<Rightarrow> bool" where
  "unhashable (PList _) = True"
| "unhashable (PDict _) = True"
| "unhashable _ = False"

definition check_version :: "pyval \<Rightarrow> reg_exn + bool" where
  "check_version v =
     (if unhashable v then Inl (RegBuiltin TypeError)
      else if equals_int v LEGACY_STATE_VERSION \<or> equals_int v STATE_VERSION
           then Inr (equals_int v STATE_VERSION)
           else Inl SessionStateError)"

definition session_keys :: "bool \<Rightarrow> string list" where
  "session_keys current =
     [''user_id'', ''target_id'', ''created_at'', ''last_seen_at'']
       @ (if current then [''resource_lease_id''] else [])"

definition sfield :: "(string \<times> pyval) list \<Rightarrow> string \<Rightarrow> pyval" where
  "sfield entry k = (case map_of entry k of None \<Rightarrow> PNone | Some v \<Rightarrow> v)"

definition session_lease_field :: "pyval \<Rightarrow> reg_exn + string option" where
  "session_lease_field v =
     (if v = PNone then Inr None else rbind (required_state_identifier v) (\<lambda>s. Inr (Some s)))"

definition read_session :: "bool \<Rightarrow> pyval \<Rightarrow> reg_exn + session_row" where
  "read_session current raw =
     (case raw of
        PDict e \<Rightarrow>
          if set (map fst e) \<noteq> set (session_keys current) then Inl SessionStateError
          else
            rbind (required_state_identifier (sfield e ''user_id'')) (\<lambda>user.
            rbind (required_state_identifier (sfield e ''target_id'')) (\<lambda>target.
            rbind (session_timestamp (sfield e ''created_at'')) (\<lambda>created.
            rbind (session_timestamp (sfield e ''last_seen_at'')) (\<lambda>seen.
            rbind (session_lease_field (if current then sfield e ''resource_lease_id'' else PNone)) (\<lambda>lease.
              if flt seen created then Inl SessionStateError
              else Inr \<lparr>srow_user = user, srow_target = target, srow_created = created,
                        srow_seen = seen, srow_lease = lease\<rparr>)))))
      | _ \<Rightarrow> Inl SessionStateError)"

fun read_sessions :: "bool \<Rightarrow> (string \<times> pyval) list \<Rightarrow> sessions \<Rightarrow> reg_exn + sessions" where
  "read_sessions current [] normalized = Inr normalized"
| "read_sessions current ((sid, raw) # rest) normalized =
     rbind (required_state_identifier (PStr sid)) (\<lambda>s.
     rbind (read_session current raw) (\<lambda>row.
       read_sessions current rest (AList.update s row normalized)))"

definition normalize_state :: "pyval \<Rightarrow> reg_exn + sessions" where
  "normalize_state payload =
     (case payload of
        PDict p \<Rightarrow>
          if set (map fst p) \<noteq> {''version'', ''sessions''} then Inl SessionStateError
          else rbind (check_version (sfield p ''version'')) (\<lambda>current.
            case sfield p ''sessions'' of
              PDict items \<Rightarrow> read_sessions current items []
            | _ \<Rightarrow> Inl SessionStateError)
      | _ \<Rightarrow> Inl SessionStateError)"

fun read_registry :: "state_file \<Rightarrow> reg_exn + sessions" where
  "read_registry Absent = Inr []"
| "read_registry Unreadable = Inl SessionStateError"
| "read_registry (Document payload) = normalize_state payload"

definition encode_session :: "session_row \<Rightarrow> pyval" where
  "encode_session r =
     PDict [(''created_at'', PFloat (srow_created r)), (''last_seen_at'', PFloat (srow_seen r)),
            (''resource_lease_id'', (case srow_lease r of None \<Rightarrow> PNone | Some l \<Rightarrow> PStr l)),
            (''target_id'', PStr (srow_target r)), (''user_id'', PStr (srow_user r))]"

definition write_registry :: "sessions \<Rightarrow> state_file" where
  "write_registry ss =
     Document (PDict
       [(''sessions'', PDict (map (\<lambda>(k, r). (k, encode_session r)) (sorted_items ss))),
        (''version'', PInt STATE_VERSION)])"

subsection \<open>Operations\<close>

definition stale_session :: "int \<Rightarrow> pyfloat \<Rightarrow> session_row \<Rightarrow> bool" where
  "stale_session ttl now r \<longleftrightarrow> fle (fint ttl) (fsub now (srow_seen r))"

definition prune_sessions :: "int \<Rightarrow> pyfloat \<Rightarrow> sessions \<Rightarrow> sessions \<times> bool" where
  "prune_sessions ttl now ss =
     (filter (\<lambda>(_, r). \<not> stale_session ttl now r) ss, list_ex (\<lambda>(_, r). stale_session ttl now r) ss)"

definition record_of :: "string \<Rightarrow> session_row \<Rightarrow> session_record" where
  "record_of sid r =
     \<lparr>session_id = sid, session_user = srow_user r, session_target = srow_target r,
      session_created = srow_created r, session_seen = srow_seen r, session_lease = srow_lease r\<rparr>"

definition user_sessions :: "sessions \<Rightarrow> string \<Rightarrow> sessions" where
  "user_sessions ss user = filter (\<lambda>(_, r). srow_user r = user) ss"

definition reg_arg :: "pyval \<Rightarrow> reg_exn + string" where
  "reg_arg v = map_exn RegBuiltin (session_identifier v)"

definition admit_args ::
  "pyval \<Rightarrow> pyval \<Rightarrow> pyval \<Rightarrow> pyval \<Rightarrow> reg_exn + string \<times> string \<times> int \<times> string option" where
  "admit_args user target limit lease =
     rbind (reg_arg user) (\<lambda>u.
     rbind (reg_arg target) (\<lambda>t.
     rbind (if lease = PNone then Inr None else rbind (reg_arg lease) (\<lambda>l. Inr (Some l))) (\<lambda>l.
       if int_at_least 1 limit then Inr (u, t, int_value limit, l)
       else Inl (RegBuiltin ValueError))))"

definition admit ::
  "int \<Rightarrow> pyfloat \<Rightarrow> pyval \<Rightarrow> pyval \<Rightarrow> pyval \<Rightarrow> pyval \<Rightarrow> pyval \<Rightarrow> state_file
   \<Rightarrow> (reg_exn + session_record) \<times> state_file" where
  "admit ttl now fresh user target limit lease f =
     (case rbind (admit_args user target limit lease) (\<lambda>(u, t, n, l).
           rbind (read_registry f) (\<lambda>all.
             let ss = fst (prune_sessions ttl now all) in
             if int (length (user_sessions ss u)) \<ge> n then Inl SessionLimitExceeded
             else rbind (reg_arg fresh) (\<lambda>sid.
               if sid \<in> set (map fst ss) then Inl SessionStateError
               else
                 let row = \<lparr>srow_user = u, srow_target = t, srow_created = now, srow_seen = now,
                            srow_lease = l\<rparr>
                 in Inr (record_of sid row, AList.update sid row ss))))
      of Inl e \<Rightarrow> (Inl e, f)
       | Inr (r, ss) \<Rightarrow> (Inr r, write_registry ss))"

definition owned_session :: "sessions \<Rightarrow> string \<Rightarrow> string \<Rightarrow> session_row option" where
  "owned_session ss sid user =
     (case map_of ss sid of None \<Rightarrow> None
      | Some r \<Rightarrow> if srow_user r \<noteq> user then None else Some r)"

definition session_args :: "pyval \<Rightarrow> pyval \<Rightarrow> reg_exn + string \<times> string" where
  "session_args sid user = rbind (reg_arg sid) (\<lambda>s. rbind (reg_arg user) (\<lambda>u. Inr (s, u)))"

definition written_if_changed :: "bool \<Rightarrow> sessions \<Rightarrow> state_file \<Rightarrow> state_file" where
  "written_if_changed changed ss f = (if changed then write_registry ss else f)"

definition session_heartbeat ::
  "int \<Rightarrow> pyfloat \<Rightarrow> pyval \<Rightarrow> pyval \<Rightarrow> state_file \<Rightarrow> (reg_exn + session_record) \<times> state_file" where
  "session_heartbeat ttl now sid_arg user_arg f =
     (case rbind (session_args sid_arg user_arg) (\<lambda>a. rbind (read_registry f) (\<lambda>ss. Inr (a, ss)))
      of Inl e \<Rightarrow> (Inl e, f)
       | Inr ((sid, user), all) \<Rightarrow>
           let (ss, changed) = prune_sessions ttl now all in
           (case owned_session ss sid user of
              None \<Rightarrow> (Inl SessionNotFound, written_if_changed changed ss f)
            | Some r \<Rightarrow>
                let row = r\<lparr>srow_seen := now\<rparr>
                in (Inr (record_of sid row), write_registry (AList.update sid row ss))))"

definition read_owned_record ::
  "pyval \<Rightarrow> pyval \<Rightarrow> state_file \<Rightarrow> reg_exn + session_record option" where
  "read_owned_record sid_arg user_arg f =
     rbind (session_args sid_arg user_arg) (\<lambda>(sid, user).
     rbind (read_registry f) (\<lambda>ss. Inr (map_option (record_of sid) (owned_session ss sid user))))"

definition release_record ::
  "pyval \<Rightarrow> pyval \<Rightarrow> state_file \<Rightarrow> (reg_exn + session_record option) \<times> state_file" where
  "release_record sid_arg user_arg f =
     (case rbind (session_args sid_arg user_arg) (\<lambda>a. rbind (read_registry f) (\<lambda>ss. Inr (a, ss)))
      of Inl e \<Rightarrow> (Inl e, f)
       | Inr ((sid, user), ss) \<Rightarrow>
           (case owned_session ss sid user of
              None \<Rightarrow> (Inr None, f)
            | Some r \<Rightarrow> (Inr (Some (record_of sid r)), write_registry (AList.delete sid ss))))"

definition release_session :: "pyval \<Rightarrow> pyval \<Rightarrow> state_file \<Rightarrow> (reg_exn + bool) \<times> state_file" where
  "release_session sid user f =
     (case release_record sid user f of
        (Inl e, f') \<Rightarrow> (Inl e, f')
      | (Inr r, f') \<Rightarrow> (Inr (r \<noteq> None), f'))"

text \<open>The read operations prune first and write the pruned table back when something was stale.\<close>

definition pruned_read ::
  "int \<Rightarrow> pyfloat \<Rightarrow> state_file \<Rightarrow> (sessions \<Rightarrow> reg_exn + 'a) \<Rightarrow> (reg_exn + 'a) \<times> state_file" where
  "pruned_read ttl now f k =
     (case read_registry f of
        Inl e \<Rightarrow> (Inl e, f)
      | Inr all \<Rightarrow>
          let (ss, changed) = prune_sessions ttl now all
          in (k ss, written_if_changed changed ss f))"

definition active_count_for_user ::
  "int \<Rightarrow> pyfloat \<Rightarrow> pyval \<Rightarrow> state_file \<Rightarrow> (reg_exn + int) \<times> state_file" where
  "active_count_for_user ttl now user_arg f =
     (case reg_arg user_arg of
        Inl e \<Rightarrow> (Inl e, f)
      | Inr user \<Rightarrow> pruned_read ttl now f (\<lambda>ss. Inr (int (length (user_sessions ss user)))))"

definition list_active_for_user ::
  "int \<Rightarrow> pyfloat \<Rightarrow> pyval \<Rightarrow> state_file \<Rightarrow> (reg_exn + session_record list) \<times> state_file" where
  "list_active_for_user ttl now user_arg f =
     (case reg_arg user_arg of
        Inl e \<Rightarrow> (Inl e, f)
      | Inr user \<Rightarrow> pruned_read ttl now f (\<lambda>ss.
          Inr (sort_key session_id (map (\<lambda>(sid, r). record_of sid r) (user_sessions ss user)))))"

definition seconds_since :: "pyfloat \<Rightarrow> pyfloat \<Rightarrow> reg_exn + int" where
  "seconds_since now x = map_exn RegBuiltin (int_of_float (fmax0 (fsub now x)))"

definition snapshot_row :: "pyfloat \<Rightarrow> string \<times> session_row \<Rightarrow> reg_exn + session_snapshot" where
  "snapshot_row now = (\<lambda>(sid, r).
     rbind (seconds_since now (srow_created r)) (\<lambda>age.
     rbind (seconds_since now (srow_seen r)) (\<lambda>heartbeat_age.
       Inr \<lparr>snap_session = sid, snap_user = srow_user r, snap_target = srow_target r,
            age_seconds = age, heartbeat_age_seconds = heartbeat_age\<rparr>)))"

fun snapshot_rows :: "pyfloat \<Rightarrow> sessions \<Rightarrow> reg_exn + session_snapshot list" where
  "snapshot_rows now [] = Inr []"
| "snapshot_rows now (x # xs) =
     rbind (snapshot_row now x) (\<lambda>s. rbind (snapshot_rows now xs) (\<lambda>ss. Inr (s # ss)))"

definition snapshot_active ::
  "int \<Rightarrow> pyfloat \<Rightarrow> state_file \<Rightarrow> (reg_exn + session_snapshot list) \<times> state_file" where
  "snapshot_active ttl now f =
     pruned_read ttl now f (\<lambda>ss.
       snapshot_rows now (sort_key (\<lambda>(sid, r). (srow_user r, sid)) ss))"

text \<open>
  The read-only observation. \<open>regular\<close> and \<open>raw_size\<close> are what \<open>fstat\<close> and the bounded read say of the
  file, \<open>digest\<close> the SHA-256 of its bytes; an absent file, I/O errors and text that is not JSON
  become the state error.
\<close>

definition observe_retained ::
  "pyfloat \<Rightarrow> bool \<Rightarrow> int \<Rightarrow> string \<Rightarrow> state_file \<Rightarrow> reg_exn + retained_observation" where
  "observe_retained now regular raw_size digest f =
     (case f of
        Document payload \<Rightarrow>
          if \<not> regular \<or> raw_size > 8 * 1024 ^ 2 then Inl SessionStateError
          else rbind (case normalize_state payload of
                        Inl (RegBuiltin ValueError) \<Rightarrow> Inl SessionStateError | r \<Rightarrow> r) (\<lambda>ss.
               rbind (snapshot_rows now (sorted_items ss)) (\<lambda>snaps.
                 Inr \<lparr>observed_at = now, state_sha256 = digest, observed_sessions = snaps\<rparr>))
      | _ \<Rightarrow> Inl SessionStateError)"

end
