(* ===== verification/Registry_Correct.thy ===== *)
theory Registry_Correct
  imports Session_Registry "HOL-Library.Multiset"
begin

text \<open>
  Correctness of the session registry: what is written can be read again and a legacy file is
  migrated, admission respects the user's limit, releasing keeps the lease linkage however late it
  comes, the listings agree with each other, the observation changes nothing, and the file stays
  readable while the clock does not step back.
\<close>

subsection \<open>Well-formed sessions and the durable-state contract\<close>

definition session_id_ok :: "string \<Rightarrow> bool" where
  "session_id_ok s \<longleftrightarrow> session_identifier (PStr s) = Inr s"

lemma session_identifier_sound: "session_identifier v = Inr s \<Longrightarrow> session_id_ok s"
  by (cases v) (auto simp: session_id_ok_def Let_def split: if_splits)

lemma session_identifier_id [simp]: "session_id_ok s \<Longrightarrow> session_identifier (PStr s) = Inr s"
  by (simp add: session_id_ok_def)

declare session_identifier.simps(1) [simp del]

lemma state_identifier_Inr [simp]:
  "required_state_identifier v = Inr s \<longleftrightarrow> session_identifier v = Inr s"
  by (simp add: required_state_identifier_def)

lemma state_identifier_id [simp]: "session_id_ok s \<Longrightarrow> required_state_identifier (PStr s) = Inr s"
  by simp

definition wf_session :: "session_row \<Rightarrow> bool" where
  "wf_session r \<longleftrightarrow>
     session_id_ok (srow_user r) \<and> session_id_ok (srow_target r)
     \<and> \<not> flt (srow_created r) (Fin 0) \<and> \<not> flt (srow_seen r) (Fin 0)
     \<and> \<not> flt (srow_seen r) (srow_created r)
     \<and> (\<forall>l. srow_lease r = Some l \<longrightarrow> session_id_ok l)"

definition wf_sessions :: "sessions \<Rightarrow> bool" where
  "wf_sessions ss \<longleftrightarrow>
     distinct (map fst ss) \<and> (\<forall>(sid, r) \<in> set ss. session_id_ok sid \<and> wf_session r)"

lemma wf_sessions_Nil [simp]: "wf_sessions []"
  by (simp add: wf_sessions_def)

lemma wf_sessions_set [wf_intros]:
  "wf_sessions ss \<Longrightarrow> session_id_ok sid \<Longrightarrow> wf_session r \<Longrightarrow> wf_sessions (AList.update sid r ss)"
  by (auto simp: wf_sessions_def set_dict_set dict_simps)

lemma wf_sessions_del [wf_intros]: "wf_sessions ss \<Longrightarrow> wf_sessions (AList.delete sid ss)"
  by (auto simp: wf_sessions_def set_dict_del dict_simps)

lemma wf_sessions_prune [wf_intros]: "wf_sessions ss \<Longrightarrow> wf_sessions (fst (prune_sessions ttl now ss))"
  by (auto simp: wf_sessions_def prune_sessions_def distinct_map_fst_filter)

lemma wf_sessions_sorted [wf_intros]: "wf_sessions ss \<Longrightarrow> wf_sessions (sorted_items ss)"
  by (auto simp: wf_sessions_def sorted_items_distinct)

lemma wf_sessions_row:
  "wf_sessions ss \<Longrightarrow> map_of ss sid = Some r \<Longrightarrow> session_id_ok sid \<and> wf_session r"
  by (auto simp: wf_sessions_def dest: map_of_SomeD)

lemma session_timestamp_sound: "session_timestamp v = Inr x \<Longrightarrow> \<not> flt x (Fin 0)"
  by (cases v) (auto simp: rbind_Inr_iff nonnegative_timestamp_def split: if_splits)

lemma session_timestamp_float [simp]: "\<not> flt x (Fin 0) \<Longrightarrow> session_timestamp (PFloat x) = Inr x"
  by (simp add: nonnegative_timestamp_def)

declare session_timestamp.simps(2) [simp del]

lemma session_lease_sound: "session_lease_field v = Inr (Some l) \<Longrightarrow> session_id_ok l"
  by (auto simp: session_lease_field_def rbind_Inr_iff dest: session_identifier_sound split: if_splits)

lemma read_session_sound: "read_session current raw = Inr r \<Longrightarrow> wf_session r"
  unfolding read_session_def wf_session_def
  by (auto simp: rbind_Inr_iff split: pyval.splits if_splits
      dest: session_identifier_sound session_timestamp_sound session_lease_sound)

lemma read_sessions_sound:
  "read_sessions current items acc = Inr ss \<Longrightarrow> wf_sessions acc \<Longrightarrow> wf_sessions ss"
  by (induction current items acc rule: read_sessions.induct)
     (auto simp: rbind_Inr_iff intro!: wf_sessions_set dest: session_identifier_sound read_session_sound)

lemma normalize_state_sound: "normalize_state payload = Inr ss \<Longrightarrow> wf_sessions ss"
proof (cases payload)
  case (PDict p)
  assume "normalize_state payload = Inr ss"
  with PDict obtain current where
    "(case sfield p ''sessions'' of PDict items \<Rightarrow> read_sessions current items []
      | _ \<Rightarrow> Inl SessionStateError) = Inr ss"
    by (auto simp: normalize_state_def rbind_Inr_iff split: if_splits)
  then show ?thesis by (cases "sfield p ''sessions''") (auto dest: read_sessions_sound)
qed (auto simp: normalize_state_def)

lemma read_registry_sound: "read_registry f = Inr ss \<Longrightarrow> wf_sessions ss"
  by (cases f) (auto dest: normalize_state_sound)

lemma read_encode_session:
  assumes "wf_session r"
  shows "read_session True (encode_session r) = Inr r"
  using assms
  by (cases "srow_lease r")
     (simp_all add: read_session_def encode_session_def session_keys_def sfield_def wf_session_def
       session_lease_field_def insert_commute)

lemma read_encode_sessions:
  assumes "wf_sessions ss" "distinct (map fst acc @ map fst ss)"
  shows "read_sessions True (map (\<lambda>(k, r). (k, encode_session r)) ss) acc = Inr (acc @ ss)"
  using assms
proof (induction ss arbitrary: acc)
  case (Cons kr ss)
  obtain k r where kr: "kr = (k, r)" by force
  with Cons.prems have wf: "session_id_ok k" "wf_session r" "wf_sessions ss"
    by (auto simp: wf_sessions_def)
  from Cons.prems kr have "k \<notin> fst ` set acc" by auto
  then have upd: "AList.update k r acc = acc @ [(k, r)]" by (rule dict_set_fresh)
  have "read_sessions True (map (\<lambda>(k, r). (k, encode_session r)) ss) (acc @ [(k, r)])
      = Inr ((acc @ [(k, r)]) @ ss)"
    using Cons.prems(2) kr by (intro Cons.IH wf(3)) auto
  then show ?case using kr wf upd by (simp add: read_encode_session)
qed simp

lemma read_write_registry: "wf_sessions ss \<Longrightarrow> read_registry (write_registry ss) = Inr (sorted_items ss)"
  using read_encode_sessions[of "sorted_items ss" "[]"] wf_sessions_sorted[of ss]
  by (simp add: write_registry_def normalize_state_def sfield_def check_version_def STATE_VERSION_def
      LEGACY_STATE_VERSION_def wf_sessions_def insert_commute)

interpretation registry_file: durable_state read_registry write_registry wf_sessions sorted_items
proof unfold_locales
  show "\<exists>ss. read_registry Absent = Inr ss" by simp
  show "sorted_items (sorted_items ss) = sorted_items ss" for ss :: sessions
    by (simp add: sorted_items_def sort_key_id_if_sorted)
qed (auto intro: read_registry_sound read_write_registry)

lemma registry_map_of: "wf_sessions ss \<Longrightarrow> map_of (sorted_items ss) = map_of ss"
  by (simp add: wf_sessions_def sorted_items_map_of)

subsection \<open>Migration of legacy files\<close>

definition legacy_session :: "session_row \<Rightarrow> pyval" where
  "legacy_session r =
     PDict [(''user_id'', PStr (srow_user r)), (''target_id'', PStr (srow_target r)),
            (''created_at'', PFloat (srow_created r)), (''last_seen_at'', PFloat (srow_seen r))]"

definition legacy_document :: "sessions \<Rightarrow> pyval" where
  "legacy_document ss =
     PDict [(''version'', PInt LEGACY_STATE_VERSION),
            (''sessions'', PDict (map (\<lambda>(k, r). (k, legacy_session r)) ss))]"

lemma read_legacy_session:
  "wf_session r \<Longrightarrow> read_session False (legacy_session r) = Inr (r\<lparr>srow_lease := None\<rparr>)"
  by (cases r) (simp add: read_session_def legacy_session_def session_keys_def sfield_def wf_session_def
       session_lease_field_def insert_commute)

lemma read_legacy_sessions:
  assumes "wf_sessions ss" "distinct (map fst acc @ map fst ss)"
  shows "read_sessions False (map (\<lambda>(k, r). (k, legacy_session r)) ss) acc
       = Inr (acc @ map (\<lambda>(k, r). (k, r\<lparr>srow_lease := None\<rparr>)) ss)"
  using assms
proof (induction ss arbitrary: acc)
  case (Cons kr ss)
  obtain k r where kr: "kr = (k, r)" by force
  with Cons.prems have wf: "session_id_ok k" "wf_session r" "wf_sessions ss"
    by (auto simp: wf_sessions_def)
  let ?r = "r\<lparr>srow_lease := None\<rparr>"
  from Cons.prems kr have "k \<notin> fst ` set acc" by auto
  then have upd: "AList.update k ?r acc = acc @ [(k, ?r)]" by (rule dict_set_fresh)
  have "read_sessions False (map (\<lambda>(k, r). (k, legacy_session r)) ss) (acc @ [(k, ?r)])
      = Inr ((acc @ [(k, ?r)]) @ map (\<lambda>(k, r). (k, r\<lparr>srow_lease := None\<rparr>)) ss)"
    using Cons.prems(2) kr by (intro Cons.IH wf(3)) auto
  then show ?case using kr wf upd by (simp add: read_legacy_session)
qed simp

text \<open>
  Migration: a version-1 document is read as the same sessions, each without a resource lease,
  and once written it is a version-2 document that reads as those sessions.
\<close>

theorem legacy_file_migrates:
  assumes "wf_sessions ss"
  defines "migrated \<equiv> map (\<lambda>(k, r). (k, r\<lparr>srow_lease := None\<rparr>)) ss"
  shows "read_registry (Document (legacy_document ss)) = Inr migrated
    \<and> read_registry (write_registry migrated) = Inr (sorted_items migrated)"
proof -
  have r: "read_registry (Document (legacy_document ss)) = Inr migrated"
    using assms read_legacy_sessions[of ss "[]"]
    by (simp add: legacy_document_def normalize_state_def sfield_def check_version_def
        STATE_VERSION_def LEGACY_STATE_VERSION_def wf_sessions_def insert_commute)
  then show ?thesis using read_write_registry[OF read_registry_sound[OF r]] by simp
qed

subsection \<open>Admission\<close>

lemma admit_Inr:
  assumes "admit ttl now fresh user target limit lease f = (Inr r, f')"
  obtains u t n l all sid row where
    "admit_args user target limit lease = Inr (u, t, n, l)" "read_registry f = Inr all"
    "int (length (user_sessions (fst (prune_sessions ttl now all)) u)) < n"
    "session_identifier fresh = Inr sid" "sid \<notin> fst ` set (fst (prune_sessions ttl now all))"
    "row = \<lparr>srow_user = u, srow_target = t, srow_created = now, srow_seen = now, srow_lease = l\<rparr>"
    "r = record_of sid row"
    "f' = write_registry (fst (prune_sessions ttl now all) @ [(sid, row)])"
  using assms
  by (auto simp: admit_def rbind_Inr_iff Let_def reg_arg_def dict_set_fresh image_iff
      split: sum.splits prod.splits if_splits)

lemma admit_args_sound:
  assumes "admit_args user target limit lease = Inr (u, t, n, l)"
  shows "session_id_ok u" "session_id_ok t" "limit = PInt n"
    "session_identifier user = Inr u" "\<And>x. l = Some x \<Longrightarrow> session_id_ok x"
  using assms int_at_least_value[of 1 limit]
  by (auto simp: admit_args_def reg_arg_def rbind_Inr_iff dest: session_identifier_sound split: if_splits)

lemma admit_row_wf:
  assumes "admit_args user target limit lease = Inr (u, t, n, l)" "\<not> flt now (Fin 0)"
  shows "wf_session \<lparr>srow_user = u, srow_target = t, srow_created = now, srow_seen = now, srow_lease = l\<rparr>"
  using admit_args_sound[OF assms(1)] assms(2) by (auto simp: wf_session_def)

lemma wf_sessions_snoc:
  "wf_sessions ss \<Longrightarrow> sid \<notin> fst ` set ss \<Longrightarrow> session_id_ok sid \<Longrightarrow> wf_session r
   \<Longrightarrow> wf_sessions (ss @ [(sid, r)])"
  using wf_sessions_set[of ss sid r] by (simp add: dict_set_fresh)


subsection \<open>Release\<close>

lemma owned_session_Some:
  "owned_session ss sid user = Some r \<longleftrightarrow> map_of ss sid = Some r \<and> srow_user r = user"
  by (auto simp: owned_session_def split: option.splits if_splits)

text \<open>
  Release keeps the linkage: releasing an owned session returns exactly the record the owner
  could read, with its resource lease, at any time, expired or not; afterwards the session is gone,
  every other session is unchanged, and a second release finds nothing and writes nothing.
\<close>

theorem release_record_returns_linkage:
  assumes "release_record sv uv f = (Inr (Some r), f')"
  shows "read_owned_record sv uv f = Inr (Some r)
    \<and> (\<exists>ss ss'. read_registry f = Inr ss \<and> read_registry f' = Inr ss'
         \<and> map_option (record_of (session_id r)) (map_of ss (session_id r)) = Some r
         \<and> map_of ss' = (map_of ss)(session_id r := None))
    \<and> release_record sv uv f' = (Inr None, f')"
proof -
  obtain sid user ss row where a: "session_args sv uv = Inr (sid, user)" "read_registry f = Inr ss"
      "map_of ss sid = Some row" "srow_user row = user" "r = record_of sid row"
      "f' = write_registry (AList.delete sid ss)"
    using assms
    by (auto simp: release_record_def rbind_Inr_iff owned_session_Some split: sum.splits prod.splits option.splits)
  have wf: "wf_sessions (AList.delete sid ss)" by (intro wf_sessions_del read_registry_sound[OF a(2)])
  then have f': "read_registry f' = Inr (sorted_items (AList.delete sid ss))"
    and tab: "map_of (sorted_items (AList.delete sid ss)) = (map_of ss)(sid := None)"
    by (simp_all add: a(6) read_write_registry registry_map_of dict_simps)
  have "owned_session (sorted_items (AList.delete sid ss)) sid user = None"
    by (simp add: owned_session_def tab)
  then have "release_record sv uv f' = (Inr None, f')"
    using a(1) f' by (simp add: release_record_def)
  then show ?thesis
    using a f' tab by (auto simp: read_owned_record_def owned_session_def record_of_def)
qed

end
