(* ===== verification/Registry_Lifecycle.thy ===== *)
theory Registry_Lifecycle
  imports Registry_Correct
begin

text \<open>
  The session registry over time: listings and observations, runs of operations from an absent
  file, and the two time stamps that break expiry (a clock that steps back, a NaN heartbeat).
\<close>

subsection \<open>Listings\<close>

lemma pruned_read_Inr:
  assumes "pruned_read ttl now f k = (Inr x, f')"
  obtains all where "read_registry f = Inr all" "k (fst (prune_sessions ttl now all)) = Inr x"
    "f' = written_if_changed (snd (prune_sessions ttl now all)) (fst (prune_sessions ttl now all)) f"
  using assms by (auto simp: pruned_read_def case_prod_beta Let_def split: sum.splits)

lemma prune_unchanged: "\<not> snd (prune_sessions ttl now ss) \<Longrightarrow> fst (prune_sessions ttl now ss) = ss"
  by (auto simp: prune_sessions_def list_ex_iff filter_id_conv)

lemma written_if_changed_read:
  assumes "read_registry f = Inr all"
  shows "\<exists>ss. read_registry (written_if_changed (snd (prune_sessions ttl now all))
           (fst (prune_sessions ttl now all)) f) = Inr ss
         \<and> map_of ss = map_of (fst (prune_sessions ttl now all)) \<and> set ss = set (fst (prune_sessions ttl now all))"
proof (cases "snd (prune_sessions ttl now all)")
  case True
  have "wf_sessions (fst (prune_sessions ttl now all))"
    by (intro wf_sessions_prune read_registry_sound[OF assms])
  then show ?thesis
    by (simp add: written_if_changed_def True read_write_registry registry_map_of)
next
  case False
  then show ?thesis by (simp add: written_if_changed_def assms prune_unchanged)
qed

text \<open>
  The listings agree: the list of a user's active sessions is sorted by session identifier, holds
  exactly the user's stored sessions that are not stale at that time, each once, and its length is
  what \<open>active_count_for_user\<close> reports; the file keeps exactly the sessions of all users that are not
  stale.
\<close>

theorem list_active_exact:
  assumes "list_active_for_user ttl now uv f = (Inr rs, f')"
  shows "\<exists>user all ss. session_identifier uv = Inr user \<and> read_registry f = Inr all
    \<and> sorted (map session_id rs) \<and> distinct (map session_id rs)
    \<and> set rs = {record_of sid r |sid r. map_of all sid = Some r \<and> srow_user r = user
                                       \<and> \<not> stale_session ttl now r}
    \<and> fst (active_count_for_user ttl now uv f) = Inr (int (length rs))
    \<and> read_registry f' = Inr ss
    \<and> (\<forall>sid. map_of ss sid = (case map_of all sid of None \<Rightarrow> None
          | Some r \<Rightarrow> if stale_session ttl now r then None else Some r))"
proof -
  obtain user where user: "session_identifier uv = Inr user"
    and pr: "pruned_read ttl now f (\<lambda>ss. Inr (sort_key session_id
        (map (\<lambda>(sid, r). record_of sid r) (user_sessions ss user)))) = (Inr rs, f')"
    using assms by (auto simp: list_active_for_user_def reg_arg_def split: sum.splits)
  obtain all where all: "read_registry f = Inr all"
    and "Inr (sort_key session_id (map (\<lambda>(sid, r). record_of sid r)
        (user_sessions (fst (prune_sessions ttl now all)) user))) = (Inr rs :: reg_exn + session_record list)"
    and f': "f' = written_if_changed (snd (prune_sessions ttl now all)) (fst (prune_sessions ttl now all)) f"
    by (rule pruned_read_Inr[OF pr])
  let ?live = "fst (prune_sessions ttl now all)"
  let ?recs = "map (\<lambda>(sid, r). record_of sid r) (user_sessions ?live user)"
  have rs: "rs = sort_key session_id ?recs" using \<open>Inr _ = Inr rs\<close> by simp
  have dist: "distinct (map fst all)"
    using read_registry_sound[OF all] by (simp add: wf_sessions_def)
  have ids: "map session_id ?recs = map fst (user_sessions ?live user)"
    by (simp add: comp_def case_prod_beta record_of_def)
  have "distinct (map fst (user_sessions ?live user))"
    using dist by (simp add: user_sessions_def prune_sessions_def distinct_map_fst_filter)
  then have "distinct (map session_id rs)"
    unfolding rs by (metis ids distinct_map distinct_sort set_sort)
  moreover have "set rs = {record_of sid r |sid r. map_of all sid = Some r \<and> srow_user r = user
      \<and> \<not> stale_session ttl now r}"
    using dist by (force simp: rs user_sessions_def prune_sessions_def)
  moreover have "fst (active_count_for_user ttl now uv f) = Inr (int (length rs))"
    by (simp add: active_count_for_user_def reg_arg_def user pruned_read_def all case_prod_beta rs)
  moreover have live: "map_of ?live sid = (case map_of all sid of None \<Rightarrow> None
      | Some r \<Rightarrow> if stale_session ttl now r then None else Some r)" for sid
    using dist by (auto simp: prune_sessions_def map_of_filter_fst split: option.splits)
  moreover have "sorted (map session_id rs)" by (simp add: rs)
  moreover obtain ss where "read_registry f' = Inr ss" "map_of ss = map_of ?live"
    using written_if_changed_read[OF all, of ttl now] f' by auto
  ultimately show ?thesis
    using user all by (intro exI[of _ user] exI[of _ all] exI[of _ ss]) simp
qed

text \<open>
  Observing is not pruning: the retained observation lists every stored session in identifier
  order, the stale ones included, and where it succeeds the ordinary reader sees the same
  sessions; a missing file, which the ordinary reader takes for an empty registry, is unavailable
  to it.
\<close>

lemma snapshot_rows_ids: "snapshot_rows now ss = Inr snaps \<Longrightarrow> map snap_session snaps = map fst ss"
  by (induction ss arbitrary: snaps) (auto simp: rbind_Inr_iff snapshot_row_def)

theorem observation_complete:
  assumes "observe_retained now regular raw_size digest f = Inr obs"
  shows "\<exists>ss. read_registry f = Inr ss \<and> f \<noteq> Absent
    \<and> map snap_session (observed_sessions obs) = sort (map fst ss)
    \<and> state_sha256 obs = digest \<and> raw_size \<le> 8 * 1024 ^ 2"
proof (cases f)
  case (Document payload)
  with assms obtain ss snaps where ss: "normalize_state payload = Inr ss"
      and snaps: "snapshot_rows now (sorted_items ss) = Inr snaps" and size: "raw_size \<le> 8 * 1024 ^ 2"
      and obs: "obs = \<lparr>observed_at = now, state_sha256 = digest, observed_sessions = snaps\<rparr>"
    by (auto simp: observe_retained_def rbind_Inr_iff split: if_splits sum.splits reg_exn.splits pyexn.splits)
  have "map fst (sorted_items ss) = sort (map fst ss)"
    unfolding sorted_items_def by (rule sym, rule properties_for_sort) simp_all
  then show ?thesis using Document ss size snapshot_rows_ids[OF snaps] by (simp add: obs)
qed (use assms in \<open>auto simp: observe_retained_def\<close>)

subsection \<open>Runs\<close>

datatype registry_op =
    Admit pyval pyval pyval pyval pyval
  | SessionHeartbeat pyval pyval
  | ReleaseRecord pyval pyval
  | CountActive pyval
  | ListActive pyval
  | SnapshotActive

fun registry_step :: "int \<Rightarrow> pyfloat \<Rightarrow> registry_op \<Rightarrow> state_file \<Rightarrow> state_file" where
  "registry_step ttl now (Admit fresh user target limit lease) f =
     snd (admit ttl now fresh user target limit lease f)"
| "registry_step ttl now (SessionHeartbeat sv uv) f = snd (session_heartbeat ttl now sv uv f)"
| "registry_step ttl now (ReleaseRecord sv uv) f = snd (release_record sv uv f)"
| "registry_step ttl now (CountActive uv) f = snd (active_count_for_user ttl now uv f)"
| "registry_step ttl now (ListActive uv) f = snd (list_active_for_user ttl now uv f)"
| "registry_step ttl now SnapshotActive f = snd (snapshot_active ttl now f)"

definition sessions_by :: "pyfloat \<Rightarrow> sessions \<Rightarrow> bool" where
  "sessions_by t ss \<longleftrightarrow> (\<forall>(sid, r) \<in> set ss. fle (srow_created r) t)"

definition sound_registry :: "pyfloat \<Rightarrow> state_file \<Rightarrow> bool" where
  "sound_registry t f \<longleftrightarrow> (\<exists>ss. read_registry f = Inr ss \<and> sessions_by t ss)"

lemma sound_registry_write: "wf_sessions ss \<Longrightarrow> sessions_by t ss \<Longrightarrow> sound_registry t (write_registry ss)"
  by (auto simp: sound_registry_def read_write_registry sessions_by_def)

lemma sessions_by_pruned: "sessions_by t ss \<Longrightarrow> sessions_by t (fst (prune_sessions ttl now ss))"
  by (auto simp: sessions_by_def prune_sessions_def)

lemma sound_registry_pruned:
  assumes "read_registry f = Inr all" "sessions_by t all"
  shows "sound_registry t (written_if_changed changed (fst (prune_sessions ttl now all)) f)"
  using assms sound_registry_write[OF wf_sessions_prune[OF read_registry_sound[OF assms(1)]]
    sessions_by_pruned[OF assms(2)]]
  by (auto simp: written_if_changed_def sound_registry_def[of t f])

lemma sound_registry_pruned_read:
  "sound_registry t f \<Longrightarrow> sound_registry t (snd (pruned_read ttl now f k))"
  using sound_registry_pruned
  by (fastforce simp: pruned_read_def case_prod_beta Let_def sound_registry_def split: sum.splits)

lemma sound_registry_admit:
  assumes "sound_registry now f" "fle now now" "\<not> flt now (Fin 0)"
  shows "sound_registry now (snd (admit ttl now fresh user target limit lease f))"
proof (cases "admit ttl now fresh user target limit lease f")
  case (Pair res f')
  show ?thesis
  proof (cases res)
    case (Inl e)
    with Pair have "f' = f" by (auto simp: admit_def split: sum.splits prod.splits)
    with Pair assms(1) show ?thesis by simp
  next
    case (Inr r)
    obtain u t m l all sid row where a: "admit_args user target limit lease = Inr (u, t, m, l)"
        "read_registry f = Inr all"
        "int (length (user_sessions (fst (prune_sessions ttl now all)) u)) < m"
        "session_identifier fresh = Inr sid" "sid \<notin> fst ` set (fst (prune_sessions ttl now all))"
        "row = \<lparr>srow_user = u, srow_target = t, srow_created = now, srow_seen = now, srow_lease = l\<rparr>"
        "r = record_of sid row"
        "f' = write_registry (fst (prune_sessions ttl now all) @ [(sid, row)])"
      by (rule admit_Inr[OF Pair[unfolded Inr]])
    have by_now: "sessions_by now all" using assms(1) a(2) by (simp add: sound_registry_def)
    have "sound_registry now f'" unfolding a(8)
    proof (rule sound_registry_write)
      show "wf_sessions (fst (prune_sessions ttl now all) @ [(sid, row)])"
        using admit_row_wf[OF a(1) assms(3)]
        by (intro wf_sessions_snoc wf_sessions_prune read_registry_sound[OF a(2)] a(5)
            session_identifier_sound[OF a(4)]) (simp add: a(6))
      show "sessions_by now (fst (prune_sessions ttl now all) @ [(sid, row)])"
        using sessions_by_pruned[OF by_now, of ttl now] assms(2) by (auto simp: sessions_by_def a(6))
    qed
    with Pair show ?thesis by simp
  qed
qed

lemma sound_registry_heartbeat:
  assumes "sound_registry now f" "\<not> flt now (Fin 0)"
  shows "sound_registry now (snd (session_heartbeat ttl now sv uv f))"
proof -
  obtain all where all: "read_registry f = Inr all" "sessions_by now all"
    using assms(1) by (auto simp: sound_registry_def)
  let ?live = "fst (prune_sessions ttl now all)"
  have live: "wf_sessions ?live" by (intro wf_sessions_prune read_registry_sound[OF all(1)])
  have refreshed: "sound_registry now (write_registry (AList.update sid (r\<lparr>srow_seen := now\<rparr>) ?live))"
    if r: "map_of ?live sid = Some r" for sid r
  proof (rule sound_registry_write)
    have "fle (srow_created r) now"
      using sessions_by_pruned[OF all(2), of ttl now] map_of_SomeD[OF r] by (auto simp: sessions_by_def)
    moreover from this have "\<not> flt now (srow_created r)" by (rule fle_not_flt)
    ultimately have "wf_session (r\<lparr>srow_seen := now\<rparr>)" and le: "fle (srow_created r) now"
      using wf_sessions_row[OF live r] assms(2) by (auto simp: wf_session_def)
    then show "wf_sessions (AList.update sid (r\<lparr>srow_seen := now\<rparr>) ?live)"
      using wf_sessions_row[OF live r] live by (intro wf_sessions_set) auto
    have "distinct (map fst ?live)" using live by (simp add: wf_sessions_def)
    then show "sessions_by now (AList.update sid (r\<lparr>srow_seen := now\<rparr>) ?live)"
      using sessions_by_pruned[OF all(2), of ttl now] le by (auto simp: sessions_by_def set_dict_set)
  qed
  show ?thesis
    using assms(1) refreshed sound_registry_pruned[OF all]
    by (auto simp: session_heartbeat_def rbind_Inr_iff all case_prod_beta Let_def owned_session_Some
        split: sum.splits prod.splits option.splits)
qed

lemma sound_registry_release:
  assumes "sound_registry t f"
  shows "sound_registry t (snd (release_record sv uv f))"
proof -
  obtain ss where ss: "read_registry f = Inr ss" "sessions_by t ss"
    using assms by (auto simp: sound_registry_def)
  have "sound_registry t (write_registry (AList.delete sid ss))" for sid
    using ss by (intro sound_registry_write wf_sessions_del read_registry_sound[OF ss(1)])
      (auto simp: sessions_by_def set_dict_del)
  then show ?thesis
    using assms by (auto simp: release_record_def rbind_Inr_iff ss split: sum.splits prod.splits option.splits)
qed

lemma sound_registry_step:
  assumes "sound_registry now f" "fle now now" "\<not> flt now (Fin 0)"
  shows "sound_registry now (registry_step ttl now op f)"
proof (cases op)
  case (Admit fresh user target limit lease)
  then show ?thesis using sound_registry_admit[OF assms] by simp
next
  case (SessionHeartbeat sv uv)
  then show ?thesis using sound_registry_heartbeat[OF assms(1,3)] by simp
qed (use assms in \<open>auto simp: active_count_for_user_def list_active_for_user_def snapshot_active_def
      intro: sound_registry_release sound_registry_pruned_read split: sum.splits\<close>)

inductive registry_reachable :: "int \<Rightarrow> pyfloat \<Rightarrow> state_file \<Rightarrow> bool" for ttl where
  start: "fle (Fin 0) t \<Longrightarrow> registry_reachable ttl t Absent"
| step: "registry_reachable ttl t f \<Longrightarrow> fle t t' \<Longrightarrow> registry_reachable ttl t' (registry_step ttl t' op f)"

lemma fle_right_refl: "fle x y \<Longrightarrow> fle y y"
  by (cases x; cases y) auto

lemma registry_reachable_sound:
  "registry_reachable ttl t f \<Longrightarrow> sound_registry t f \<and> fle (Fin 0) t"
proof (induction rule: registry_reachable.induct)
  case (start t)
  then show ?case by (simp add: sound_registry_def sessions_by_def)
next
  case (step t f t' op)
  then have le: "fle (Fin 0) t'" using fle_trans by blast
  have "sound_registry t' f"
    using step fle_trans unfolding sound_registry_def sessions_by_def by blast
  then have "sound_registry t' (registry_step ttl t' op f)"
    by (rule sound_registry_step[OF _ fle_right_refl[OF le] fle_not_flt[OF le]])
  with le show ?case by simp
qed

text \<open>
  The registry never corrupts its own file: from an absent file, any sequence of operations with
  any arguments, at non-decreasing non-negative times, leaves a file the next operation can read.
\<close>

theorem registry_file_stays_readable:
  assumes "registry_reachable ttl t f"
  shows "\<exists>ss. read_registry f = Inr ss \<and> wf_sessions ss"
  using registry_reachable_sound[OF assms] read_registry_sound by (auto simp: sound_registry_def)

subsection \<open>Time stamps that break expiry\<close>

text \<open>
  A session whose stored heartbeat is NaN, which \<open>json.loads\<close> accepts and the reader does not
  reject, is never stale: no sequence of prunings at any times removes it, so it counts against
  its user's limit until it is released.
\<close>

theorem nan_heartbeat_never_expires:
  assumes "read_registry f = Inr all" and "map_of all sid = Some r" and "srow_seen r = NaN"
  shows "map_of (fold (\<lambda>now ss. fst (prune_sessions ttl now ss)) clock all) sid = Some r"
proof -
  have keep: "\<not> stale_session ttl now r" for now
    using assms(3) by (cases now) (auto simp: stale_session_def)
  have "distinct (map fst all)" using read_registry_sound[OF assms(1)] by (simp add: wf_sessions_def)
  then show ?thesis using assms(2)
  proof (induction clock arbitrary: all)
    case (Cons now clock)
    have "map_of (fst (prune_sessions ttl now all)) sid = Some r"
      using Cons.prems keep by (simp add: prune_sessions_def map_of_filter_fst)
    then show ?case
      using Cons.prems(1) Cons.IH[of "fst (prune_sessions ttl now all)"]
      by (simp add: prune_sessions_def distinct_map_fst_filter)
  qed simp
qed

subsection \<open>Witnesses\<close>

definition demo_session :: session_row where
  "demo_session = \<lparr>srow_user = ''ann'', srow_target = ''match'', srow_created = Fin 100,
     srow_seen = Fin 100, srow_lease = Some ''l1''\<rparr>"

definition demo_registry :: state_file where
  "demo_registry = write_registry [(''s1'', demo_session)]"

lemma demo_admit:
  "admit 90 (Fin 100) (PStr ''s1'') (PStr '' ann'') (PStr ''match'') (PInt 2) (PStr ''l1'') Absent
     = (Inr (record_of ''s1'' demo_session), demo_registry)"
  by code_simp

lemma demo_sessions_wf: "wf_sessions [(''s1'', demo_session)]"
proof -
  have "read_registry demo_registry = Inr [(''s1'', demo_session)]" by code_simp
  then show ?thesis by (rule read_registry_sound)
qed

theorem legacy_file_migrates_witness:
  "read_registry (Document (legacy_document [(''s1'', demo_session)]))
     = Inr [(''s1'', demo_session\<lparr>srow_lease := None\<rparr>)]"
  using legacy_file_migrates[OF demo_sessions_wf] by simp


lemma demo_release_record:
  "release_record (PStr ''s1'') (PStr ''ann'') demo_registry
     = (Inr (Some (record_of ''s1'' demo_session)), write_registry [])"
  by code_simp

theorem release_record_returns_linkage_witness:
  "read_owned_record (PStr ''s1'') (PStr ''ann'') demo_registry = Inr (Some (record_of ''s1'' demo_session))
   \<and> release_record (PStr ''s1'') (PStr ''ann'') (write_registry []) = (Inr None, write_registry [])"
  using release_record_returns_linkage[OF demo_release_record] by blast

lemma demo_list_active:
  "list_active_for_user 90 (Fin 110) (PStr ''ann'') demo_registry
     = (Inr [record_of ''s1'' demo_session], demo_registry)"
  by code_simp

theorem list_active_exact_witness:
  "fst (active_count_for_user 90 (Fin 110) (PStr ''ann'') demo_registry) = Inr (int (length [()]))"
  using list_active_exact[OF demo_list_active] by auto

lemma demo_observe:
  "observe_retained (Fin 500) True 120 ''d'' demo_registry
     = Inr \<lparr>observed_at = Fin 500, state_sha256 = ''d'', observed_sessions =
         [\<lparr>snap_session = ''s1'', snap_user = ''ann'', snap_target = ''match'',
           age_seconds = 400, heartbeat_age_seconds = 400\<rparr>]\<rparr>"
  by code_simp

theorem observation_complete_witness:
  "\<exists>ss. read_registry demo_registry = Inr ss \<and> [''s1''] = sort (map fst ss)"
  using observation_complete[OF demo_observe] by auto

theorem registry_file_stays_readable_witness:
  "\<exists>ss. read_registry demo_registry = Inr ss \<and> wf_sessions ss"
proof -
  have "registry_reachable 90 (Fin 100) (registry_step 90 (Fin 100)
      (Admit (PStr ''s1'') (PStr '' ann'') (PStr ''match'') (PInt 2) (PStr ''l1'')) Absent)"
    by (rule registry_reachable.step[OF registry_reachable.start[of "Fin 0"]]) simp_all
  then have "registry_reachable 90 (Fin 100) demo_registry" by (simp add: demo_admit)
  then show ?thesis by (rule registry_file_stays_readable)
qed

definition demo_nan_document :: pyval where
  "demo_nan_document = PDict [(''version'', PInt 2), (''sessions'', PDict [(''s1'', PDict
     [(''user_id'', PStr ''ann''), (''target_id'', PStr ''match''), (''created_at'', PFloat NaN),
      (''last_seen_at'', PFloat NaN), (''resource_lease_id'', PNone)])])]"

lemma demo_nan_read:
  "read_registry (Document demo_nan_document) = Inr [(''s1'', \<lparr>srow_user = ''ann'', srow_target = ''match'',
     srow_created = NaN, srow_seen = NaN, srow_lease = None\<rparr>)]"
  by code_simp

theorem nan_heartbeat_never_expires_witness:
  "map_of (fold (\<lambda>now ss. fst (prune_sessions 90 now ss)) [Fin 1000, Fin 2000]
     [(''s1'', \<lparr>srow_user = ''ann'', srow_target = ''match'', srow_created = NaN, srow_seen = NaN,
        srow_lease = None\<rparr>)]) ''s1''
     = Some \<lparr>srow_user = ''ann'', srow_target = ''match'', srow_created = NaN, srow_seen = NaN,
        srow_lease = None\<rparr>"
  by (rule nan_heartbeat_never_expires[OF demo_nan_read]) simp_all

text \<open>
  A heartbeat taken before the session's creation time is stored and makes the registry
  unreadable, as in the pool.
\<close>

lemma demo_session_clock_step_back:
  "read_registry (snd (session_heartbeat 90 (Fin 99) (PStr ''s1'') (PStr ''ann'') demo_registry))
     = Inl SessionStateError"
  by code_simp

end
