(* ===== verification/Redis_Server.thy ===== *)
theory Redis_Server
  imports Prelude
begin

text \<open>
  The Redis side of the reservation ledger and of the generation authority. Redis and its Lua
  interpreter are not part of the repository: the server is a record of functions (the command
  interpreter, \<open>tonumber\<close>, \<open>tostring\<close> of an integer, the conversion of Lua numbers to integer replies,
  and SHA-256), and the locale states
  the documented behaviour of the commands the scripts use, on the documented data
  model of a keyspace of strings and hashes. \<open>reference_server\<close> is an executable server with that
  behaviour: it interprets the locale and evaluates the witnesses.

  Time to live is not part of the keyspace: a key with a TTL may vanish at any moment, which the
  step relations of the components allow as steps of the environment.
\<close>

subsection \<open>Keyspace and commands\<close>

datatype rval = RStr string | RHash "(string \<times> string) list"

type_synonym keyspace = "string \<Rightarrow> rval option"

datatype command =
    GET string
  | SET string string
  | SETEX string int string
  | EXISTS string
  | EXPIRE string int
  | INCR string
  | DECR string
  | DEL "string list"
  | HGET string string
  | HEXISTS string string
  | HSET string "(string \<times> string) list"
  | HDEL string "string list"
  | HINCRBY string string int
  | HMGET string "string list"
  | HGETALL string

datatype reply = RNil | ROk | RBulk string | RInt int | RError | RArray "reply list"

record server =
  redis_call :: "keyspace \<Rightarrow> command \<Rightarrow> reply \<times> keyspace"
  lua_tonumber :: "string \<Rightarrow> pyfloat option"
  lua_to_int :: "pyfloat \<Rightarrow> int"
  lua_tostring :: "int \<Rightarrow> string"
  sha256_hex :: "string \<Rightarrow> string"

definition hash_at :: "keyspace \<Rightarrow> string \<Rightarrow> (string \<times> string) list option" where
  "hash_at db k = (case db k of None \<Rightarrow> Some [] | Some (RHash h) \<Rightarrow> Some h | Some (RStr _) \<Rightarrow> None)"

definition hfield :: "keyspace \<Rightarrow> string \<Rightarrow> string \<Rightarrow> string option" where
  "hfield db k f = (case db k of Some (RHash h) \<Rightarrow> map_of h f | _ \<Rightarrow> None)"

definition sval :: "keyspace \<Rightarrow> string \<Rightarrow> string option" where
  "sval db k = (case db k of Some (RStr s) \<Rightarrow> Some s | _ \<Rightarrow> None)"

text \<open>The integer a counter command sees: absent is 0, anything but a canonical integer is an error.\<close>

definition counter_at :: "keyspace \<Rightarrow> string \<Rightarrow> int option" where
  "counter_at db k = (case db k of None \<Rightarrow> Some 0 | Some (RStr s) \<Rightarrow> undec s | Some (RHash _) \<Rightarrow> None)"

definition field_counter :: "(string \<times> string) list \<Rightarrow> string \<Rightarrow> int option" where
  "field_counter h f = (case map_of h f of None \<Rightarrow> Some 0 | Some s \<Rightarrow> undec s)"

definition int64 :: "int \<Rightarrow> bool" where
  "int64 n \<longleftrightarrow> - (2 ^ 63) \<le> n \<and> n < 2 ^ 63"

definition hset_all :: "(string \<times> string) list \<Rightarrow> (string \<times> string) list \<Rightarrow> (string \<times> string) list" where
  "hset_all fs h = fold (\<lambda>(f, v). AList.update f v) fs h"

definition hdel_all :: "string list \<Rightarrow> (string \<times> string) list \<Rightarrow> (string \<times> string) list" where
  "hdel_all fs h = filter (\<lambda>(f, _). f \<notin> set fs) h"

definition put_hash :: "string \<Rightarrow> (string \<times> string) list \<Rightarrow> keyspace \<Rightarrow> keyspace" where
  "put_hash k h db = db(k := (if h = [] then None else Some (RHash h)))"

definition del_keys :: "string list \<Rightarrow> keyspace \<Rightarrow> keyspace" where
  "del_keys ks db = (\<lambda>k. if k \<in> set ks then None else db k)"

definition optional_bulk :: "string option \<Rightarrow> reply" where
  "optional_bulk v = (case v of None \<Rightarrow> RNil | Some s \<Rightarrow> RBulk s)"

lemma hset_all_lookup:
  "map_of (hset_all fs h) = map_of h ++ map_of (rev fs)"
proof (induction fs arbitrary: h)
  case (Cons x fs)
  obtain f v where x: "x = (f, v)" by force
  have "map_of (hset_all (x # fs) h) = map_of (hset_all fs (AList.update f v h))"
    by (simp add: x hset_all_def)
  also have "\<dots> = (map_of h)(f \<mapsto> v) ++ map_of (rev fs)" by (simp add: Cons dict_simps fun_upd_def)
  finally show ?case by (simp add: x map_add_upd_left fun_eq_iff map_add_def split: option.splits)
qed (simp add: hset_all_def)

lemma hdel_all_lookup: "map_of (hdel_all fs h) f = (if f \<in> set fs then None else map_of h f)"
  by (induction h) (auto simp: hdel_all_def)

lemma hset_all_nonempty: "fs \<noteq> [] \<Longrightarrow> hset_all fs h \<noteq> []"
proof
  assume "fs \<noteq> []" "hset_all fs h = []"
  moreover obtain f v fs' where "fs = fs' @ [(f, v)]"
    using \<open>fs \<noteq> []\<close> by (metis append_butlast_last_id surj_pair)
  ultimately have "map_of (hset_all fs h) f = None" "map_of (rev fs) f = Some v" by auto
  then show False by (simp add: hset_all_lookup map_add_def)
qed

subsection \<open>Documented behaviour\<close>

locale redis_server =
  fixes S :: server
  assumes call_get: "redis_call S db (GET k) =
      ((case db k of None \<Rightarrow> RNil | Some (RStr s) \<Rightarrow> RBulk s | Some (RHash _) \<Rightarrow> RError), db)"
    and call_set: "redis_call S db (SET k v) = (ROk, db(k \<mapsto> RStr v))"
    and call_setex: "0 < t \<Longrightarrow> redis_call S db (SETEX k t v) = (ROk, db(k \<mapsto> RStr v))"
    and call_exists: "redis_call S db (EXISTS k) = (RInt (if db k = None then 0 else 1), db)"
    and call_expire: "0 < t \<Longrightarrow> redis_call S db (EXPIRE k t) = (RInt (if db k = None then 0 else 1), db)"
    and call_incr: "counter_at db k = Some n \<Longrightarrow> int64 n \<Longrightarrow> int64 (n + 1) \<Longrightarrow>
      redis_call S db (INCR k) = (RInt (n + 1), db(k \<mapsto> RStr (dec (n + 1))))"
    and call_incr_error: "(\<And>n. counter_at db k = Some n \<Longrightarrow> \<not> (int64 n \<and> int64 (n + 1))) \<Longrightarrow>
      redis_call S db (INCR k) = (RError, db)"
    and call_decr: "counter_at db k = Some n \<Longrightarrow> int64 n \<Longrightarrow> int64 (n - 1) \<Longrightarrow>
      redis_call S db (DECR k) = (RInt (n - 1), db(k \<mapsto> RStr (dec (n - 1))))"
    and call_decr_error: "counter_at db k = None \<Longrightarrow> redis_call S db (DECR k) = (RError, db)"
    and call_del: "redis_call S db (DEL ks) =
      (RInt (int (card {k \<in> set ks. db k \<noteq> None})), del_keys ks db)"
    and call_hget: "redis_call S db (HGET k f) =
      ((case hash_at db k of None \<Rightarrow> RError | Some h \<Rightarrow> optional_bulk (map_of h f)), db)"
    and call_hexists: "redis_call S db (HEXISTS k f) =
      ((case hash_at db k of None \<Rightarrow> RError | Some h \<Rightarrow> RInt (if map_of h f = None then 0 else 1)), db)"
    and call_hset: "hash_at db k = Some h \<Longrightarrow> \<exists>n. redis_call S db (HSET k fs) = (RInt n, put_hash k (hset_all fs h) db)"
    and call_hset_error: "hash_at db k = None \<Longrightarrow> redis_call S db (HSET k fs) = (RError, db)"
    and call_hdel: "hash_at db k = Some h \<Longrightarrow> \<exists>n. redis_call S db (HDEL k gs) = (RInt n, put_hash k (hdel_all gs h) db)"
    and call_hdel_error: "hash_at db k = None \<Longrightarrow> redis_call S db (HDEL k gs) = (RError, db)"
    and call_hincrby: "hash_at db k = Some h \<Longrightarrow> field_counter h f = Some n \<Longrightarrow> int64 n \<Longrightarrow> int64 (n + d) \<Longrightarrow>
      redis_call S db (HINCRBY k f d) = (RInt (n + d), put_hash k (AList.update f (dec (n + d)) h) db)"
    and call_hincrby_error: "(\<And>h n. hash_at db k = Some h \<Longrightarrow> field_counter h f = Some n \<Longrightarrow>
        \<not> (int64 n \<and> int64 (n + d))) \<Longrightarrow> redis_call S db (HINCRBY k f d) = (RError, db)"
    and call_hmget: "redis_call S db (HMGET k gs) =
      ((case hash_at db k of None \<Rightarrow> RError
        | Some h \<Rightarrow> RArray (map (\<lambda>f. optional_bulk (map_of h f)) gs)), db)"
    and call_hgetall: "redis_call S db (HGETALL k) =
      ((case hash_at db k of None \<Rightarrow> RError
        | Some h \<Rightarrow> RArray (concat (map (\<lambda>(f, v). [RBulk f, RBulk v]) h))), db)"
    and tonumber_dec: "\<bar>n\<bar> \<le> 2 ^ 53 \<Longrightarrow> lua_tonumber S (dec n) = Some (fint n)"
    and tonumber_empty: "lua_tonumber S [] = None"
    and to_int_fint: "\<bar>n\<bar> \<le> 2 ^ 53 \<Longrightarrow> lua_to_int S (fint n) = n"
    and tostring_dec: "\<bar>n\<bar> < 10 ^ 14 \<Longrightarrow> lua_tostring S n = dec n"

subsection \<open>A reference server\<close>

definition set_counter :: "string \<Rightarrow> int option \<Rightarrow> int \<Rightarrow> keyspace \<Rightarrow> reply \<times> keyspace" where
  "set_counter k old d db =
     (case old of
        None \<Rightarrow> (RError, db)
      | Some n \<Rightarrow> if int64 n \<and> int64 (n + d) then (RInt (n + d), db(k \<mapsto> RStr (dec (n + d)))) else (RError, db))"

definition on_hash ::
  "keyspace \<Rightarrow> string \<Rightarrow> ((string \<times> string) list \<Rightarrow> reply \<times> keyspace) \<Rightarrow> reply \<times> keyspace" where
  "on_hash db k f = (case hash_at db k of None \<Rightarrow> (RError, db) | Some h \<Rightarrow> f h)"

fun reference_call :: "keyspace \<Rightarrow> command \<Rightarrow> reply \<times> keyspace" where
  "reference_call db (GET k) =
     ((case db k of None \<Rightarrow> RNil | Some (RStr s) \<Rightarrow> RBulk s | Some (RHash _) \<Rightarrow> RError), db)"
| "reference_call db (SET k v) = (ROk, db(k \<mapsto> RStr v))"
| "reference_call db (SETEX k t v) = (if 0 < t then (ROk, db(k \<mapsto> RStr v)) else (RError, db))"
| "reference_call db (EXISTS k) = (RInt (if db k = None then 0 else 1), db)"
| "reference_call db (EXPIRE k t) =
     (RInt (if db k = None then 0 else 1), if 0 < t then db else db(k := None))"
| "reference_call db (INCR k) = set_counter k (counter_at db k) 1 db"
| "reference_call db (DECR k) = set_counter k (counter_at db k) (- 1) db"
| "reference_call db (DEL ks) =
     (RInt (int (length (filter (\<lambda>k. db k \<noteq> None) (remdups ks)))), del_keys ks db)"
| "reference_call db (HGET k f) = on_hash db k (\<lambda>h. (optional_bulk (map_of h f), db))"
| "reference_call db (HEXISTS k f) = on_hash db k (\<lambda>h. (RInt (if map_of h f = None then 0 else 1), db))"
| "reference_call db (HSET k fs) =
     on_hash db k (\<lambda>h. (RInt (int (length (filter (\<lambda>f. map_of h f = None) (remdups (map fst fs))))),
                        put_hash k (hset_all fs h) db))"
| "reference_call db (HDEL k fs) =
     on_hash db k (\<lambda>h. (RInt (int (length (filter (\<lambda>f. map_of h f \<noteq> None) (remdups fs)))),
                        put_hash k (hdel_all fs h) db))"
| "reference_call db (HINCRBY k f d) =
     on_hash db k (\<lambda>h. case field_counter h f of
        None \<Rightarrow> (RError, db)
      | Some n \<Rightarrow> if int64 n \<and> int64 (n + d)
                  then (RInt (n + d), put_hash k (AList.update f (dec (n + d)) h) db) else (RError, db))"
| "reference_call db (HMGET k fs) =
     on_hash db k (\<lambda>h. (RArray (map (\<lambda>f. optional_bulk (map_of h f)) fs), db))"
| "reference_call db (HGETALL k) =
     on_hash db k (\<lambda>h. (RArray (concat (map (\<lambda>(f, v). [RBulk f, RBulk v]) h)), db))"

definition reference_to_int :: "pyfloat \<Rightarrow> int" where
  "reference_to_int x = (case int_of_float x of Inr n \<Rightarrow> n | Inl _ \<Rightarrow> - (2 ^ 63))"

definition reference_server :: server where
  "reference_server =
     \<lparr>redis_call = reference_call,
      lua_tonumber = (\<lambda>s. map_option fint (undec s)),
      lua_to_int = reference_to_int,
      lua_tostring = dec,
      sha256_hex = (\<lambda>s. s)\<rparr>"

lemma int_of_float_fint [simp]: "int_of_float (fint n) = Inr n"
proof -
  have "- (of_int n :: rat) = of_int (- n)" by simp
  then have "\<lfloor>- (of_int n :: rat)\<rfloor> = - n" by (metis floor_of_int)
  then show ?thesis by simp
qed

interpretation reference: redis_server reference_server
proof unfold_locales
  fix db :: keyspace and ks :: "string list"
  have "int (length (filter (\<lambda>k. db k \<noteq> None) (remdups ks))) = int (card {k \<in> set ks. db k \<noteq> None})"
    by (metis distinct_card distinct_filter distinct_remdups set_filter set_remdups)
  then show "redis_call reference_server db (DEL ks) =
      (RInt (int (card {k \<in> set ks. db k \<noteq> None})), del_keys ks db)"
    by (simp add: reference_server_def)
qed (simp_all add: reference_server_def set_counter_def on_hash_def reference_to_int_def split: option.splits,
    blast+)

subsection \<open>Lua scripts\<close>

text \<open>
  A script runs atomically on the keyspace. A failing \<open>redis.call\<close> aborts it (\<open>Inl ()\<close>) and keeps
  the writes made before.
\<close>

type_synonym 'a lua = "keyspace \<Rightarrow> (unit + 'a) \<times> keyspace"

definition lua_ret :: "'a \<Rightarrow> 'a lua" where
  "lua_ret x = (\<lambda>db. (Inr x, db))"

definition lua_fail :: "'a lua" where
  "lua_fail = (\<lambda>db. (Inl (), db))"

definition lua_bind :: "'a lua \<Rightarrow> ('a \<Rightarrow> 'b lua) \<Rightarrow> 'b lua" where
  "lua_bind m f = (\<lambda>db. case m db of (Inl u, db') \<Rightarrow> (Inl u, db') | (Inr x, db') \<Rightarrow> f x db')"

definition lua_call :: "server \<Rightarrow> command \<Rightarrow> reply lua" where
  "lua_call S c = (\<lambda>db. case redis_call S db c of (r, db') \<Rightarrow> (if r = RError then Inl () else Inr r, db'))"

text \<open>A reply as a Lua value: a nil reply is \<open>false\<close>.\<close>

datatype lval = LFalse | LStr string | LInt int | LOther

fun lua_value :: "reply \<Rightarrow> lval" where
  "lua_value RNil = LFalse"
| "lua_value (RBulk s) = LStr s"
| "lua_value (RInt n) = LInt n"
| "lua_value _ = LOther"

definition lua_read :: "server \<Rightarrow> command \<Rightarrow> lval lua" where
  "lua_read S c = lua_bind (lua_call S c) (\<lambda>r. lua_ret (lua_value r))"

definition differs :: "server \<Rightarrow> command \<Rightarrow> lval \<Rightarrow> bool lua" where
  "differs S c v = lua_bind (lua_read S c) (\<lambda>w. lua_ret (w \<noteq> v))"

definition differ :: "server \<Rightarrow> command \<Rightarrow> command \<Rightarrow> bool lua" where
  "differ S c c' = lua_bind (lua_read S c) (\<lambda>v. lua_bind (lua_read S c') (\<lambda>w. lua_ret (v \<noteq> w)))"

definition equals :: "server \<Rightarrow> command \<Rightarrow> lval \<Rightarrow> bool lua" where
  "equals S c v = lua_bind (lua_read S c) (\<lambda>w. lua_ret (w = v))"

text \<open>\<open>c1 or c2 or ...\<close> and \<open>c1 and c2\<close>, left to right, stopping at the first decision.\<close>

fun any_of :: "bool lua list \<Rightarrow> bool lua" where
  "any_of [] = lua_ret False"
| "any_of (c # cs) = lua_bind c (\<lambda>b. if b then lua_ret True else any_of cs)"

definition both :: "bool lua \<Rightarrow> bool lua \<Rightarrow> bool lua" where
  "both c d = lua_bind c (\<lambda>b. if b then d else lua_ret False)"

text \<open>\<open>if c1 or c2 ... then return r end\<close>, then the rest.\<close>

definition guard :: "bool lua list \<Rightarrow> 'a \<Rightarrow> 'a lua \<Rightarrow> 'a lua" where
  "guard cs r k = lua_bind (any_of cs) (\<lambda>b. if b then lua_ret r else k)"

fun writes :: "server \<Rightarrow> command list \<Rightarrow> 'a lua \<Rightarrow> 'a lua" where
  "writes S [] k = k"
| "writes S (c # cs) k = lua_bind (lua_call S c) (\<lambda>_. writes S cs k)"

text \<open>\<open>tonumber(redis.call('GET', key) or default)\<close> and the tests on the result.\<close>

definition number_or :: "server \<Rightarrow> string \<Rightarrow> lval \<Rightarrow> pyfloat option" where
  "number_or S dflt v = (case v of LStr s \<Rightarrow> lua_tonumber S s | LInt n \<Rightarrow> Some (fint n)
     | LFalse \<Rightarrow> lua_tonumber S dflt | LOther \<Rightarrow> None)"

fun not_integral :: "pyfloat \<Rightarrow> bool" where
  "not_integral (Fin q) = (q \<noteq> of_int \<lfloor>q\<rfloor>)"
| "not_integral NaN = True"
| "not_integral _ = False"

text \<open>\<open>not count or count < lo or count ~= math.floor(count)\<close> and \<open>not limit or limit < 1\<close>\<close>

definition bad_count :: "int \<Rightarrow> pyfloat option \<Rightarrow> bool" where
  "bad_count lo x = (case x of None \<Rightarrow> True | Some c \<Rightarrow> flt c (fint lo) \<or> not_integral c)"

definition bad_limit :: "pyfloat option \<Rightarrow> bool" where
  "bad_limit x = (case x of None \<Rightarrow> True | Some c \<Rightarrow> flt c (Fin 1))"

fun counters_positive :: "server \<Rightarrow> string list \<Rightarrow> 'a \<Rightarrow> 'a lua \<Rightarrow> 'a lua" where
  "counters_positive S [] bad k = k"
| "counters_positive S (c # cs) bad k =
     lua_bind (lua_read S (GET c)) (\<lambda>v.
       if bad_count 1 (number_or S [] v) then lua_ret bad else counters_positive S cs bad k)"

end
