(* ===== verification/Ledger_Scripts.thy ===== *)
theory Ledger_Scripts
  imports Redis_Server
begin

text \<open>
  The Lua scripts of the reservation ledger
  (\<open>modules/sports-backend/dispatcharr-live-image/overlay/apps/m3u/reservation_ledger.py\<close>), first
  group: reserving, releasing and switching a reservation, and the live-channel scripts. A script's
  parameters \<open>k1, k2, ...\<close> and \<open>a1, a2, ...\<close> are its \<open>KEYS\<close> and \<open>ARGV\<close>; \<open>guard\<close> is an
  \<open>if ... then return ... end\<close>.
\<close>

text \<open>\<open>'r strN\<close>: a function of N string parameters.\<close>

type_synonym 'r str1 = "string \<Rightarrow> 'r"
type_synonym 'r str2 = "string \<Rightarrow> 'r str1"
type_synonym 'r str3 = "string \<Rightarrow> 'r str2"
type_synonym 'r str4 = "string \<Rightarrow> 'r str3"
type_synonym 'r str5 = "string \<Rightarrow> 'r str4"
type_synonym 'r str6 = "string \<Rightarrow> 'r str5"
type_synonym 'r str7 = "string \<Rightarrow> 'r str6"
type_synonym 'r str8 = "string \<Rightarrow> 'r str7"
type_synonym 'r str9 = "string \<Rightarrow> 'r str8"
type_synonym 'r str10 = "string \<Rightarrow> 'r str9"
type_synonym 'r str11 = "string \<Rightarrow> 'r str10"
type_synonym 'r str12 = "string \<Rightarrow> 'r str11"
type_synonym 'r str13 = "string \<Rightarrow> 'r str12"
type_synonym 'r str14 = "string \<Rightarrow> 'r str13"
type_synonym 'r str15 = "string \<Rightarrow> 'r str14"
type_synonym 'r str16 = "string \<Rightarrow> 'r str15"
type_synonym 'r str17 = "string \<Rightarrow> 'r str16"
type_synonym 'r str18 = "string \<Rightarrow> 'r str17"
type_synonym 'r str19 = "string \<Rightarrow> 'r str18"
type_synonym 'r str20 = "string \<Rightarrow> 'r str19"
type_synonym 'r str21 = "string \<Rightarrow> 'r str20"
type_synonym 'r str22 = "string \<Rightarrow> 'r str21"
type_synonym 'r str23 = "string \<Rightarrow> 'r str22"
type_synonym 'r str24 = "string \<Rightarrow> 'r str23"

abbreviation arr2 :: "int \<Rightarrow> int \<Rightarrow> reply" where
  "arr2 a b \<equiv> RArray [RInt a, RInt b]"

abbreviation ledger_off :: "server \<Rightarrow> string \<Rightarrow> bool lua" where
  "ledger_off S k1 \<equiv> differs S (GET k1) (LStr ''ledger'')"

text \<open>
  The capacity loop over counter keys and limits: a malformed counter or limit is \<open>-2\<close>, a full
  counter \<open>-1\<close> with its value.
\<close>

fun capacity_free :: "server \<Rightarrow> (string \<times> string) list \<Rightarrow> reply lua \<Rightarrow> reply lua" where
  "capacity_free S [] k = k"
| "capacity_free S ((c, bound) # rest) k =
     lua_bind (lua_read S (GET c)) (\<lambda>v.
       case (number_or S ''0'' v, lua_tonumber S bound) of
         (Some count, Some limit) \<Rightarrow>
           if bad_count 0 (Some count) \<or> bad_limit (Some limit) then lua_ret (arr2 (- 2) 0)
           else if fle limit count then lua_ret (arr2 (- 1) (lua_to_int S count))
           else capacity_free S rest k
       | _ \<Rightarrow> lua_ret (arr2 (- 2) 0))"

text \<open>\<open>return {1, tonumber(redis.call('GET', key))}\<close>; a nil second element ends the table.\<close>

definition count_reply :: "server \<Rightarrow> string \<Rightarrow> reply lua" where
  "count_reply S k =
     lua_bind (lua_read S (GET k)) (\<lambda>v.
       lua_ret (case v of
           LStr s \<Rightarrow> (case lua_tonumber S s of
               None \<Rightarrow> RArray [RInt 1]
             | Some x \<Rightarrow> arr2 1 (lua_to_int S x))
         | _ \<Rightarrow> RArray [RInt 1]))"

subsection \<open>Reserve and release\<close>

definition reserve_script ::
  "server \<Rightarrow> reply lua str14" where
  "reserve_script S k1 k2 k3 k4 k5 k6 a1 a2 a3 a4 a5 a6 a7 a8 =
     guard [ledger_off S k1] (arr2 (- 3) 0) (
     guard [differs S (EXISTS k2) (LInt 0), differs S (EXISTS k3) (LInt 0)] (arr2 0 0) (
     capacity_free S [(k4, a2), (k5, a3), (k6, a4)] (
     writes S
       [INCR k4, INCR k5, INCR k6,
        HSET k3 [(''token'', a1), (''owner'', k2), (''stream'', a5), (''profile'', k4),
                 (''account'', k5), (''credential'', k6), (''mode'', a6), (''state'', ''pending''),
                 (''profile_id'', a7), (''account_id'', a8)],
        SET k2 a1]
     (count_reply S k4))))"

definition reserve_live_channel_script ::
  "server \<Rightarrow> reply lua str17" where
  "reserve_live_channel_script S k1 k2 k3 k4 k5 k6 k7 k8 a1 a2 a3 a4 a5 a6 a7 a8 a9 =
     guard [ledger_off S k1] (arr2 (- 3) 0) (
     guard [differs S (GET k8) (LStr a9)] (arr2 0 0) (
     guard [differs S (EXISTS k2) (LInt 0), differs S (EXISTS k3) (LInt 0),
            differs S (EXISTS k7) (LInt 0)] (arr2 0 0) (
     capacity_free S [(k4, a2), (k5, a3), (k6, a4)] (
     writes S
       [INCR k4, INCR k5, INCR k6,
        HSET k3 [(''token'', a1), (''owner'', k2), (''stream'', a5), (''profile'', k4),
                 (''account'', k5), (''credential'', k6), (''mode'', ''live''), (''state'', ''pending''),
                 (''profile_id'', a7), (''account_id'', a8), (''channel_alias'', k7)],
        SET k2 a1,
        HSET k7 [(''token'', a1), (''owner_lease'', a9), (''stream_id'', a5),
                 (''profile_id'', a7), (''account_id'', a8)]]
     (count_reply S k4)))))"

definition release_pending_live_channel_script ::
  "server \<Rightarrow> reply lua str13" where
  "release_pending_live_channel_script S k1 k2 k3 k4 k5 k6 k7 k8 a1 a2 a3 a4 a5 =
     guard [ledger_off S k1] (arr2 (- 3) 0) (
     guard [differs S (GET k8) (LStr a2),
            differs S (GET k2) (LStr a1),
            differs S (HGET k3 ''token'') (LStr a1),
            differs S (HGET k3 ''owner'') (LStr k2),
            differs S (HGET k3 ''mode'') (LStr ''live''),
            differs S (HGET k3 ''state'') (LStr ''pending''),
            differs S (HGET k3 ''profile'') (LStr k4),
            differs S (HGET k3 ''account'') (LStr k5),
            differs S (HGET k3 ''credential'') (LStr k6),
            differs S (HGET k7 ''token'') (LStr a1),
            differs S (HGET k7 ''owner_lease'') (LStr a2),
            differs S (HGET k7 ''stream_id'') (LStr a3),
            differs S (HGET k7 ''profile_id'') (LStr a4),
            differs S (HGET k7 ''account_id'') (LStr a5),
            differs S (HGET k3 ''stream'') (LStr a3),
            differs S (HGET k3 ''profile_id'') (LStr a4),
            differs S (HGET k3 ''account_id'') (LStr a5),
            differs S (HGET k3 ''channel_alias'') (LStr k7)] (arr2 0 0) (
     counters_positive S [k4, k5, k6] (arr2 (- 2) 0) (
     writes S [DECR k4, DECR k5, DECR k6, DEL [k7, k3, k2]] (lua_ret (arr2 1 0)))))"

text \<open>The checks \<open>_RELEASE\<close> and \<open>_SWITCH\<close> share: the token owns the record, which has no channel alias.\<close>

definition record_checks ::
  "server \<Rightarrow> (reply lua \<Rightarrow> reply lua) str7" where
  "record_checks S k1 k2 k3 k4 k5 k6 a1 k =
     guard [ledger_off S k1] (arr2 (- 3) 0) (
     guard [differs S (GET k2) (LStr a1), differs S (HGET k3 ''token'') (LStr a1)] (arr2 0 0) (
     guard [differs S (HEXISTS k3 ''channel_alias'') (LInt 0)] (arr2 (- 2) 0) (
     guard [differs S (HGET k3 ''owner'') (LStr k2),
            differs S (HGET k3 ''profile'') (LStr k4),
            differs S (HGET k3 ''account'') (LStr k5),
            differs S (HGET k3 ''credential'') (LStr k6)] (arr2 (- 2) 0) (
     guard [both (equals S (HGET k3 ''state'') (LStr ''active''))
                 (differs S (HGET k3 ''mode'') (LStr ''live''))] (arr2 (- 2) 0) (
     counters_positive S [k4, k5, k6] (arr2 (- 2) 0) k)))))"

definition release_script ::
  "server \<Rightarrow> reply lua str7" where
  "release_script S k1 k2 k3 k4 k5 k6 a1 =
     record_checks S k1 k2 k3 k4 k5 k6 a1 (
     writes S [DECR k4, DECR k5, DECR k6, DEL [k3, k2]] (lua_ret (arr2 1 0)))"

subsection \<open>Switching\<close>

text \<open>Only a destination key that differs from the current one is checked and counted.\<close>

definition moved :: "(string \<times> string) list \<Rightarrow> (string \<times> string) list" where
  "moved pairs = filter (\<lambda>(new, old). new \<noteq> old) pairs"

definition move_counters :: "(string \<times> string) list \<Rightarrow> command list" where
  "move_counters pairs = concat (map (\<lambda>(new, old). [INCR new, DECR old]) (moved pairs))"

definition destination_limits :: "(string \<times> string \<times> string) list \<Rightarrow> (string \<times> string) list" where
  "destination_limits ds = map (\<lambda>(new, old, bound). (new, bound)) (filter (\<lambda>(new, old, bound). new \<noteq> old) ds)"

definition switch_script ::
  "server \<Rightarrow> reply lua str16" where
  "switch_script S k1 k2 k3 k4 k5 k6 k7 k8 k9 a1 a2 a3 a4 a5 a6 a7 =
     record_checks S k1 k2 k3 k4 k5 k6 a1 (
     capacity_free S (destination_limits [(k7, k4, a2), (k8, k5, a3), (k9, k6, a4)]) (
     writes S (move_counters [(k7, k4), (k8, k5), (k9, k6)]) (
     lua_bind (lua_read S (HGET k3 ''grant_epoch'')) (\<lambda>old_epoch.
     lua_bind (lua_read S (HGET k3 ''generation'')) (\<lambda>old_generation.
     writes S
       ((case (old_epoch, old_generation) of
           (LStr e, LStr g) \<Rightarrow> [HSET k3 [(''fenced_epoch'', e), (''fenced_generation'', g)]]
         | _ \<Rightarrow> [])
        @ [HSET k3 [(''stream'', a5), (''profile'', k7), (''account'', k8), (''credential'', k9),
                    (''state'', ''pending''), (''profile_id'', a6), (''account_id'', a7)],
           HDEL k3 [''grant_epoch'', ''generation'', ''worker'', ''grant_token'']])
     (count_reply S k7))))))"

subsection \<open>Live activation and join\<close>

text \<open>
  The alias check of activation and join: a record with a channel alias needs that alias to name
  this channel's hash, with the same token, lease and selected identity and no stop marker.
\<close>

definition alias_stale :: "server \<Rightarrow> string \<Rightarrow> string \<Rightarrow> string \<Rightarrow> lval \<Rightarrow> lval \<Rightarrow> bool lua" where
  "alias_stale S k3 k9 a1 lease alias =
     (if alias = LFalse then lua_ret False
      else any_of
        [lua_ret (alias \<noteq> LStr k9),
         differs S (HGET k9 ''token'') (LStr a1),
         differs S (HEXISTS k9 ''stopped_epoch'') (LInt 0),
         differs S (HGET k9 ''owner_lease'') lease,
         differ S (HGET k9 ''stream_id'') (HGET k3 ''stream''),
         differ S (HGET k9 ''profile_id'') (HGET k3 ''profile_id''),
         differ S (HGET k9 ''account_id'') (HGET k3 ''account_id'')])"

text \<open>The loop that reads each counter key from the record and requires a positive count.\<close>

fun record_counters_positive :: "server \<Rightarrow> string \<Rightarrow> string list \<Rightarrow> reply \<Rightarrow> reply lua \<Rightarrow> reply lua" where
  "record_counters_positive S k3 [] bad k = k"
| "record_counters_positive S k3 (f # fs) bad k =
     lua_bind (lua_read S (HGET k3 f)) (\<lambda>v.
       case v of
         LStr c \<Rightarrow> counters_positive S [c] bad (record_counters_positive S k3 fs bad k)
       | _ \<Rightarrow> lua_ret bad)"

definition activate_live_script ::
  "server \<Rightarrow> reply lua str14" where
  "activate_live_script S k1 k2 k3 k4 k5 k6 k7 k8 k9 a1 a2 a3 a4 a5 =
     guard [ledger_off S k1] (RInt (- 3)) (
     guard [differs S (GET k2) (LStr a1), differs S (HGET k3 ''token'') (LStr a1)] (RInt 0) (
     guard [differs S (HGET k3 ''owner'') (LStr k2),
            differs S (HGET k3 ''mode'') (LStr ''live''),
            differs S (HGET k3 ''state'') (LStr ''pending'')] (RInt (- 2)) (
     lua_bind (lua_read S (HGET k3 ''channel_alias'')) (\<lambda>alias.
     guard [alias_stale S k3 k9 a1 (LStr a5) alias] (RInt 0) (
     guard [both (equals S (HGET k3 ''fenced_epoch'') (LStr a3))
                 (equals S (HGET k3 ''fenced_generation'') (LStr a4))] (RInt 0) (
     guard [differs S (HGET k4 ''token'') (LStr a2),
            differs S (HGET k4 ''epoch'') (LStr a3),
            differs S (HGET k4 ''worker'') (LStr a5),
            differs S (GET k5) (LStr a4),
            differs S (GET k6) (LStr a5),
            differs S (GET k8) (LStr (a3 @ '':'' @ a4)),
            differs S (EXISTS k7) (LInt 1)] (RInt 0) (
     record_counters_positive S k3 [''profile'', ''account'', ''credential''] (RInt (- 2)) (
     writes S [HSET k3 [(''state'', ''active''), (''grant_epoch'', a3), (''generation'', a4),
                        (''worker'', a5), (''grant_token'', a2)]]
     (lua_ret (RInt 1))))))))))"

text \<open>\<open>redis.call('GET', key) ~= a .. ':' .. b\<close>; concatenating a nil fails.\<close>

definition concat_differs :: "server \<Rightarrow> string \<Rightarrow> lval \<Rightarrow> lval \<Rightarrow> bool lua" where
  "concat_differs S k a b =
     lua_bind (lua_read S (GET k)) (\<lambda>v.
       case (a, b) of (LStr x, LStr y) \<Rightarrow> lua_ret (v \<noteq> LStr (x @ '':'' @ y)) | _ \<Rightarrow> lua_fail)"

text \<open>The identity loop of the join: each field present and a number of at least 1.\<close>

fun positive_fields :: "server \<Rightarrow> string \<Rightarrow> string list \<Rightarrow> reply list \<Rightarrow> (reply list \<Rightarrow> reply lua) \<Rightarrow> reply lua" where
  "positive_fields S k3 [] ids k = k ids"
| "positive_fields S k3 (f # fs) ids k =
     lua_bind (lua_read S (HGET k3 f)) (\<lambda>v.
       case v of
         LStr s \<Rightarrow> if bad_limit (lua_tonumber S s) then lua_ret (RArray [RInt (- 2)])
                   else positive_fields S k3 fs (ids @ [RBulk s]) k
       | _ \<Rightarrow> lua_ret (RArray [RInt (- 2)]))"

text \<open>The bounded counter loop: \<open>count < 1\<close>, a malformed limit and \<open>count > limit\<close> are refused.\<close>

fun counters_bounded :: "server \<Rightarrow> (string \<times> string) list \<Rightarrow> bool \<Rightarrow> reply \<Rightarrow> reply lua \<Rightarrow> reply lua" where
  "counters_bounded S [] check_limit bad k = k"
| "counters_bounded S ((c, bound) # rest) check_limit bad k =
     lua_bind (lua_read S (GET c)) (\<lambda>v.
       case (number_or S [] v, lua_tonumber S bound) of
         (Some count, Some limit) \<Rightarrow>
           if bad_count 1 (Some count) \<or> (check_limit \<and> bad_limit (Some limit)) \<or> flt limit count
           then lua_ret bad else counters_bounded S rest check_limit bad k
       | _ \<Rightarrow> lua_ret bad)"

definition attest_live_join_script ::
  "server \<Rightarrow> reply lua str18" where
  "attest_live_join_script S k1 k2 k3 k4 k5 k6 k7 k8 k9 k10 k11 k12 a1 a2 a3 a4 a5 a6 =
     guard [ledger_off S k1] (RArray [RInt (- 3)]) (
     guard [differs S (GET k2) (LStr a1), differs S (HGET k3 ''token'') (LStr a1)] (RArray [RInt 0]) (
     guard [differs S (HGET k3 ''owner'') (LStr k2),
            differs S (HGET k3 ''mode'') (LStr ''live''),
            differs S (HGET k3 ''state'') (LStr ''active''),
            differs S (HGET k3 ''profile'') (LStr k10),
            differs S (HGET k3 ''account'') (LStr k11),
            differs S (HGET k3 ''credential'') (LStr k12)] (RArray [RInt (- 2)]) (
     lua_bind (lua_read S (HGET k3 ''grant_epoch'')) (\<lambda>epoch.
     lua_bind (lua_read S (HGET k3 ''generation'')) (\<lambda>generation.
     lua_bind (lua_read S (HGET k3 ''worker'')) (\<lambda>worker.
     lua_bind (lua_read S (HGET k3 ''channel_alias'')) (\<lambda>alias.
     guard [alias_stale S k3 k9 a1 worker alias] (RArray [RInt 0]) (
     guard [lua_ret (epoch \<noteq> LStr a2), lua_ret (generation \<noteq> LStr a3),
            differ S (HGET k3 ''grant_token'') (HGET k4 ''token''),
            differs S (HGET k4 ''epoch'') epoch,
            differs S (HGET k4 ''worker'') worker,
            differs S (GET k5) generation,
            differs S (GET k6) worker,
            concat_differs S k8 epoch generation,
            differs S (EXISTS k7) (LInt 1)] (RArray [RInt 0]) (
     positive_fields S k3 [''stream'', ''profile_id'', ''account_id''] [] (\<lambda>ids.
     counters_bounded S [(k10, a4), (k11, a5), (k12, a6)] True (RArray [RInt (- 2)])
       (lua_ret (RArray (RInt 1 # ids)))))))))))))"

subsection \<open>Stopping and switching a live channel\<close>

text \<open>The ownership checks of the stop attestation and of the final release, in script order.\<close>

definition active_live_checks ::
  "server \<Rightarrow> bool lua list str15" where
  "active_live_checks S k2 k3 k4 k5 k6 k7 k8 a1 a2 a3 a4 a5 a6 a7 a8 =
     [differs S (GET k2) (LStr a1),
      differs S (GET k8) (LStr a2),
      differs S (HGET k3 ''token'') (LStr a1),
      differs S (HGET k3 ''owner'') (LStr k2),
      differs S (HGET k3 ''mode'') (LStr ''live''),
      differs S (HGET k3 ''state'') (LStr ''active''),
      differs S (HGET k3 ''channel_alias'') (LStr k7),
      differs S (HGET k3 ''stream'') (LStr a3),
      differs S (HGET k3 ''profile_id'') (LStr a4),
      differs S (HGET k3 ''account_id'') (LStr a5),
      differs S (HGET k3 ''profile'') (LStr k4),
      differs S (HGET k3 ''account'') (LStr k5),
      differs S (HGET k3 ''credential'') (LStr k6),
      differs S (HGET k3 ''worker'') (LStr a2),
      differs S (HGET k3 ''grant_token'') (LStr a6),
      differs S (HGET k3 ''grant_epoch'') (LStr a7),
      differs S (HGET k3 ''generation'') (LStr a8),
      differs S (HGET k7 ''token'') (LStr a1),
      differs S (HGET k7 ''owner_lease'') (LStr a2),
      differs S (HGET k7 ''stream_id'') (LStr a3),
      differs S (HGET k7 ''profile_id'') (LStr a4),
      differs S (HGET k7 ''account_id'') (LStr a5)]"

definition grant_checks ::
  "server \<Rightarrow> bool lua list str6" where
  "grant_checks S k9 k10 a2 a6 a7 a8 =
     [differs S (HGET k9 ''token'') (LStr a6),
      differs S (HGET k9 ''epoch'') (LStr a7),
      differs S (HGET k9 ''worker'') (LStr a2),
      differs S (GET k10) (LStr a8)]"

definition ack_live_stop_script ::
  "server \<Rightarrow> reply lua str18" where
  "ack_live_stop_script S k1 k2 k3 k4 k5 k6 k7 k8 k9 k10 a1 a2 a3 a4 a5 a6 a7 a8 =
     guard [ledger_off S k1] (RInt (- 3)) (
     guard (active_live_checks S k2 k3 k4 k5 k6 k7 k8 a1 a2 a3 a4 a5 a6 a7 a8
            @ grant_checks S k9 k10 a2 a6 a7 a8) (RInt 0) (
     counters_positive S [k4, k5, k6] (RInt (- 2)) (
     writes S [HSET k7 [(''stopped_epoch'', a7), (''stopped_generation'', a8)]] (lua_ret (RInt 1)))))"

definition release_active_live_script ::
  "server \<Rightarrow> reply lua str18" where
  "release_active_live_script S k1 k2 k3 k4 k5 k6 k7 k8 k9 k10 a1 a2 a3 a4 a5 a6 a7 a8 =
     guard [ledger_off S k1] (RInt (- 3)) (
     guard (active_live_checks S k2 k3 k4 k5 k6 k7 k8 a1 a2 a3 a4 a5 a6 a7 a8
            @ [differs S (HGET k7 ''stopped_epoch'') (LStr a7),
               differs S (HGET k7 ''stopped_generation'') (LStr a8)]
            @ grant_checks S k9 k10 a2 a6 a7 a8) (RInt 0) (
     counters_positive S [k4, k5, k6] (RInt (- 2)) (
     writes S [DECR k4, DECR k5, DECR k6, DEL [k7, k3, k2]] (lua_ret (RInt 1)))))"

definition switch_live_channel_script ::
  "server \<Rightarrow> reply lua str24" where
  "switch_live_channel_script S k1 k2 k3 k4 k5 k6 k7 k8 k9 k10 k11 k12 k13
      a1 a2 a3 a4 a5 a6 a7 a8 a9 a10 a11 =
     guard [ledger_off S k1] (arr2 (- 3) 0) (
     guard [differs S (GET k2) (LStr a1),
            differs S (GET k11) (LStr a2),
            differs S (HGET k3 ''token'') (LStr a1),
            differs S (HGET k3 ''owner'') (LStr k2),
            differs S (HGET k3 ''mode'') (LStr ''live''),
            differs S (HGET k3 ''channel_alias'') (LStr k10),
            differs S (HGET k3 ''profile'') (LStr k4),
            differs S (HGET k3 ''account'') (LStr k5),
            differs S (HGET k3 ''credential'') (LStr k6),
            differs S (HGET k10 ''token'') (LStr a1),
            differs S (HGET k10 ''owner_lease'') (LStr a2),
            differ S (HGET k10 ''stream_id'') (HGET k3 ''stream''),
            differ S (HGET k10 ''profile_id'') (HGET k3 ''profile_id''),
            differ S (HGET k10 ''account_id'') (HGET k3 ''account_id'')] (arr2 0 0) (
     lua_bind (lua_read S (HGET k3 ''state'')) (\<lambda>state.
     (if state = LStr ''active'' then
        guard [differs S (HGET k3 ''worker'') (LStr a2),
               differs S (HGET k3 ''grant_token'') (LStr a9),
               differs S (HGET k3 ''grant_epoch'') (LStr a10),
               differs S (HGET k3 ''generation'') (LStr a11),
               differs S (HGET k10 ''stopped_epoch'') (LStr a10),
               differs S (HGET k10 ''stopped_generation'') (LStr a11),
               differs S (HGET k12 ''token'') (LStr a9),
               differs S (HGET k12 ''epoch'') (LStr a10),
               differs S (HGET k12 ''worker'') (LStr a2),
               differs S (GET k13) (LStr a11)] (arr2 0 0)
      else if state = LStr ''pending'' then
        guard [differs S (HEXISTS k10 ''stopped_epoch'') (LInt 0),
               lua_ret (a9 \<noteq> []), lua_ret (a10 \<noteq> []), lua_ret (a11 \<noteq> [])] (arr2 0 0)
      else (\<lambda>_. lua_ret (arr2 (- 2) 0)))
     (counters_positive S [k4, k5, k6] (arr2 (- 2) 0) (
     capacity_free S (destination_limits [(k7, k4, a3), (k8, k5, a4), (k9, k6, a5)]) (
     writes S
       (move_counters [(k7, k4), (k8, k5), (k9, k6)]
        @ (if state = LStr ''active''
           then [HSET k3 [(''fenced_epoch'', a10), (''fenced_generation'', a11)]] else [])
        @ [HSET k3 [(''stream'', a6), (''profile'', k7), (''account'', k8), (''credential'', k9),
                    (''profile_id'', a7), (''account_id'', a8), (''state'', ''pending'')],
           HDEL k3 [''grant_token'', ''grant_epoch'', ''generation'', ''worker''],
           HSET k10 [(''stream_id'', a6), (''profile_id'', a7), (''account_id'', a8)],
           HDEL k10 [''stopped_epoch'', ''stopped_generation'']])
     (count_reply S k7)))))))"

end
