(* ===== verification/Ledger_Sessions.thy ===== *)
theory Ledger_Sessions
  imports Ledger_Scripts
begin

text \<open>
  The Lua scripts of the reservation ledger, second group: binding a reservation to a VOD session
  or to a timeshift pool entry and the life of that binding (viewers joining and leaving, playback
  generations, stop attestation, hand-over, cleanup).
\<close>

subsection \<open>VOD sessions\<close>

definition bind_vod_script ::
  "server \<Rightarrow> reply lua str11" where
  "bind_vod_script S k1 k2 k3 k4 a1 a2 a3 a4 a5 a6 a7 =
     guard [ledger_off S k1] (RInt (- 3)) (
     guard [differs S (GET k2) (LStr a1), differs S (HGET k3 ''token'') (LStr a1)] (RInt 0) (
     guard [differs S (HGET k3 ''owner'') (LStr k2),
            differs S (HGET k3 ''mode'') (LStr ''vod''),
            differs S (HGET k3 ''state'') (LStr ''pending''),
            differs S (HGET k3 ''stream'') (LStr a4),
            differs S (HGET k3 ''profile_id'') (LStr a3),
            differs S (HGET k3 ''account_id'') (LStr a5)] (RInt (- 2)) (
     guard [differs S (EXISTS k4) (LInt 1),
            differs S (HGET k4 ''m3u_profile_id'') (LStr a3),
            differs S (HGET k4 ''user_id'') (LStr a6),
            differs S (HGET k4 ''content_uuid'') (LStr a7),
            differs S (HGET k4 ''active_streams'') (LStr ''0''),
            differs S (HEXISTS k4 ''atlas_reservation_token'') (LInt 0),
            differs S (HEXISTS k4 ''atlas_reservation_generation'') (LInt 0)] (RInt 0) (
     record_counters_positive S k3 [''profile'', ''account'', ''credential''] (RInt (- 2)) (
     writes S
       [HSET k4 [(''atlas_reservation_token'', a1), (''atlas_reservation_generation'', a2)],
        HSET k3 [(''state'', ''active'')]]
     (lua_ret (RInt 1)))))))"

text \<open>The checks join, leave and cleanup share: the bound session of this viewer and content.\<close>

definition vod_session_checks ::
  "server \<Rightarrow> bool lua list str7" where
  "vod_session_checks S k2 k3 k4 a1 a2 a3 a4 =
     [differs S (GET k2) (LStr a1),
      differs S (HGET k3 ''token'') (LStr a1),
      differs S (HGET k3 ''owner'') (LStr k2),
      differs S (HGET k3 ''mode'') (LStr ''vod''),
      differs S (HGET k3 ''state'') (LStr ''active''),
      differs S (HGET k4 ''atlas_reservation_token'') (LStr a1),
      differs S (HGET k4 ''atlas_reservation_generation'') (LStr a2),
      differ S (HGET k4 ''m3u_profile_id'') (HGET k3 ''profile_id''),
      differs S (HGET k4 ''user_id'') (LStr a3),
      differs S (HGET k4 ''content_uuid'') (LStr a4)]"

definition viewers_at_least :: "server \<Rightarrow> string \<Rightarrow> int \<Rightarrow> reply \<Rightarrow> reply lua \<Rightarrow> reply lua" where
  "viewers_at_least S k4 lo bad k =
     lua_bind (lua_read S (HGET k4 ''active_streams'')) (\<lambda>v.
       if bad_count lo (number_or S [] v) then lua_ret bad else k)"

definition bump_viewers :: "server \<Rightarrow> string \<Rightarrow> int \<Rightarrow> reply lua" where
  "bump_viewers S k4 d =
     lua_bind (lua_call S (HINCRBY k4 ''active_streams'' d)) (\<lambda>r. lua_ret (RArray [RInt 1, r]))"

definition vod_join_script ::
  "server \<Rightarrow> reply lua str8" where
  "vod_join_script S k1 k2 k3 k4 a1 a2 a3 a4 =
     guard [ledger_off S k1] (arr2 (- 3) 0) (
     guard (vod_session_checks S k2 k3 k4 a1 a2 a3 a4) (arr2 0 0) (
     viewers_at_least S k4 0 (arr2 (- 2) 0) (
     record_counters_positive S k3 [''profile'', ''account'', ''credential''] (arr2 (- 2) 0) (
     bump_viewers S k4 1))))"

definition vod_leave_script ::
  "server \<Rightarrow> reply lua str8" where
  "vod_leave_script S k1 k2 k3 k4 a1 a2 a3 a4 =
     guard [ledger_off S k1] (arr2 (- 3) 0) (
     guard (vod_session_checks S k2 k3 k4 a1 a2 a3 a4) (arr2 0 0) (
     viewers_at_least S k4 1 (arr2 (- 2) 0) (
     bump_viewers S k4 (- 1))))"

text \<open>The loop of the cleanups: the record's counter keys are the expected ones and positive.\<close>

fun matching_counters :: "server \<Rightarrow> string \<Rightarrow> (string \<times> string) list \<Rightarrow> reply \<Rightarrow> reply lua \<Rightarrow> reply lua" where
  "matching_counters S k3 [] bad k = k"
| "matching_counters S k3 ((f, c) # rest) bad k =
     guard [differs S (HGET k3 f) (LStr c)] bad (
     counters_positive S [c] bad (matching_counters S k3 rest bad k))"

definition vod_cleanup_script ::
  "server \<Rightarrow> reply lua str11" where
  "vod_cleanup_script S k1 k2 k3 k4 k5 k6 k7 a1 a2 a3 a4 =
     guard [ledger_off S k1] (arr2 (- 3) 0) (
     guard (vod_session_checks S k2 k3 k4 a1 a2 a3 a4) (arr2 0 0) (
     guard [differs S (HGET k4 ''active_streams'') (LStr ''0'')] (arr2 0 0) (
     matching_counters S k3 [(''profile'', k5), (''account'', k6), (''credential'', k7)] (arr2 (- 2) 0) (
     writes S [DECR k5, DECR k6, DECR k7, DEL [k4, k3, k2]] (lua_ret (arr2 1 0))))))"

definition vod_resume_script ::
  "server \<Rightarrow> reply lua str14" where
  "vod_resume_script S k1 k2 k3 k4 k5 k6 k7 a1 a2 a3 a4 a5 a6 a7 =
     guard [ledger_off S k1] (RInt (- 3)) (
     guard [differs S (GET k2) (LStr a1),
            differs S (HGET k3 ''token'') (LStr a1),
            differs S (HGET k3 ''owner'') (LStr k2),
            differs S (HGET k3 ''mode'') (LStr ''vod''),
            differs S (HGET k3 ''state'') (LStr ''active''),
            differs S (HGET k3 ''stream'') (LStr a5),
            differs S (HGET k3 ''profile_id'') (LStr a6),
            differs S (HGET k3 ''account_id'') (LStr a7),
            differs S (HGET k3 ''profile'') (LStr k5),
            differs S (HGET k3 ''account'') (LStr k6),
            differs S (HGET k3 ''credential'') (LStr k7),
            differs S (HGET k4 ''atlas_reservation_token'') (LStr a1),
            differs S (HGET k4 ''atlas_reservation_generation'') (LStr a2),
            differs S (HGET k4 ''user_id'') (LStr a3),
            differs S (HGET k4 ''content_uuid'') (LStr a4),
            differs S (HGET k4 ''m3u_profile_id'') (LStr a6)] (RInt 0) (
     viewers_at_least S k4 0 (RInt (- 2)) (
     counters_positive S [k5, k6, k7] (RInt (- 2)) (lua_ret (RInt 1)))))"

subsection \<open>Timeshift pool entries\<close>

definition bind_timeshift_script ::
  "server \<Rightarrow> reply lua str14" where
  "bind_timeshift_script S k1 k2 k3 k4 k5 k6 k7 a1 a2 a3 a4 a5 a6 a7 =
     guard [ledger_off S k1] (RInt (- 3)) (
     guard [differs S (GET k2) (LStr a1), differs S (HGET k3 ''token'') (LStr a1)] (RInt 0) (
     guard [differs S (HGET k3 ''owner'') (LStr k2),
            differs S (HGET k3 ''mode'') (LStr ''timeshift''),
            differs S (HGET k3 ''state'') (LStr ''pending''),
            differs S (HGET k3 ''stream'') (LStr a5),
            differs S (HGET k3 ''profile_id'') (LStr a6),
            differs S (HGET k3 ''account_id'') (LStr a7),
            differs S (HGET k3 ''profile'') (LStr k5),
            differs S (HGET k3 ''account'') (LStr k6),
            differs S (HGET k3 ''credential'') (LStr k7)] (RInt (- 2)) (
     guard [differs S (EXISTS k4) (LInt 1),
            differs S (HGET k4 ''busy'') (LStr ''1''),
            differs S (HGET k4 ''user_id'') (LStr a4),
            differs S (HGET k4 ''dispatcharr_stream_id'') (LStr a5),
            differs S (HGET k4 ''profile_id'') (LStr a6),
            differs S (HGET k4 ''account_id'') (LStr a7),
            differs S (HEXISTS k4 ''atlas_reservation_token'') (LInt 0),
            differs S (HEXISTS k4 ''atlas_reservation_generation'') (LInt 0)] (RInt 0) (
     counters_positive S [k5, k6, k7] (RInt (- 2)) (
     writes S
       [HSET k4 [(''atlas_reservation_token'', a1), (''atlas_reservation_generation'', a2),
                 (''atlas_playback_generation'', a3)],
        HSET k3 [(''state'', ''active'')]]
     (lua_ret (RInt 1)))))))"

text \<open>The record half of the checks of claim, idle, resume and supersede.\<close>

definition timeshift_record_checks ::
  "server \<Rightarrow> bool lua list str9" where
  "timeshift_record_checks S k2 k3 k5 k6 k7 a1 stream profile account =
     [differs S (GET k2) (LStr a1),
      differs S (HGET k3 ''token'') (LStr a1),
      differs S (HGET k3 ''owner'') (LStr k2),
      differs S (HGET k3 ''mode'') (LStr ''timeshift''),
      differs S (HGET k3 ''state'') (LStr ''active''),
      differs S (HGET k3 ''stream'') (LStr stream),
      differs S (HGET k3 ''profile_id'') (LStr profile),
      differs S (HGET k3 ''account_id'') (LStr account),
      differs S (HGET k3 ''profile'') (LStr k5),
      differs S (HGET k3 ''account'') (LStr k6),
      differs S (HGET k3 ''credential'') (LStr k7)]"

definition timeshift_identity_checks ::
  "server \<Rightarrow> bool lua list str5" where
  "timeshift_identity_checks S k4 user stream profile account =
     [differs S (HGET k4 ''user_id'') (LStr user),
      differs S (HGET k4 ''dispatcharr_stream_id'') (LStr stream),
      differs S (HGET k4 ''profile_id'') (LStr profile),
      differs S (HGET k4 ''account_id'') (LStr account)]"

definition timeshift_token_checks :: "server \<Rightarrow> string \<Rightarrow> string \<Rightarrow> string \<Rightarrow> bool lua list" where
  "timeshift_token_checks S k4 a1 a2 =
     [differs S (HGET k4 ''atlas_reservation_token'') (LStr a1),
      differs S (HGET k4 ''atlas_reservation_generation'') (LStr a2)]"

definition claim_timeshift_script ::
  "server \<Rightarrow> reply lua str14" where
  "claim_timeshift_script S k1 k2 k3 k4 k5 k6 k7 a1 a2 a3 a4 a5 a6 a7 =
     guard [ledger_off S k1] (RInt (- 3)) (
     guard (timeshift_record_checks S k2 k3 k5 k6 k7 a1 a5 a6 a7
            @ timeshift_token_checks S k4 a1 a2
            @ timeshift_identity_checks S k4 a4 a5 a6 a7
            @ [differs S (HGET k4 ''busy'') (LStr ''0''),
               equals S (HGET k4 ''atlas_playback_generation'') (LStr a3)]) (RInt 0) (
     counters_positive S [k5, k6, k7] (RInt (- 2)) (
     writes S
       [HSET k4 [(''busy'', ''1''), (''atlas_playback_generation'', a3)],
        HDEL k4 [''atlas_stopped_generation'']]
     (lua_ret (RInt 1)))))"

definition idle_timeshift_script ::
  "server \<Rightarrow> reply lua str14" where
  "idle_timeshift_script S k1 k2 k3 k4 k5 k6 k7 a1 a2 a3 a4 a5 a6 a7 =
     guard [ledger_off S k1] (RInt (- 3)) (
     guard (timeshift_record_checks S k2 k3 k5 k6 k7 a1 a5 a6 a7
            @ timeshift_token_checks S k4 a1 a2
            @ [differs S (HGET k4 ''atlas_playback_generation'') (LStr a3)]
            @ timeshift_identity_checks S k4 a4 a5 a6 a7
            @ [differs S (HGET k4 ''busy'') (LStr ''1'')]) (RInt 0) (
     counters_positive S [k5, k6, k7] (RInt (- 2)) (
     writes S
       [HSET k4 [(''busy'', ''0'')], HDEL k4 [''atlas_stopped_generation'']]
     (lua_ret (RInt 1)))))"

definition ack_timeshift_stop_script ::
  "server \<Rightarrow> reply lua str8" where
  "ack_timeshift_stop_script S k1 k2 k3 k4 a1 a2 a3 a4 =
     guard [ledger_off S k1] (RInt (- 3)) (
     guard ([differs S (GET k2) (LStr a1),
             differs S (HGET k3 ''token'') (LStr a1),
             differs S (HGET k3 ''owner'') (LStr k2),
             differs S (HGET k3 ''mode'') (LStr ''timeshift''),
             differs S (HGET k3 ''state'') (LStr ''active'')]
            @ timeshift_token_checks S k4 a1 a2
            @ [differs S (HGET k4 ''atlas_playback_generation'') (LStr a3),
               differs S (HGET k4 ''user_id'') (LStr a4),
               differs S (HGET k4 ''busy'') (LStr ''1'')]) (RInt 0) (
     writes S [HSET k4 [(''atlas_stopped_generation'', a3)]] (lua_ret (RInt 1))))"

definition resume_timeshift_script ::
  "server \<Rightarrow> reply lua str17" where
  "resume_timeshift_script S k1 k2 k3 k4 k5 k6 k7 a1 a2 a3 a4 a5 a6 a7 a8 a9 a10 =
     guard [ledger_off S k1] (RInt (- 3)) (
     guard (timeshift_record_checks S k2 k3 k5 k6 k7 a1 a5 a6 a7
            @ timeshift_token_checks S k4 a1 a2
            @ [differs S (HGET k4 ''atlas_playback_generation'') (LStr a3)]
            @ timeshift_identity_checks S k4 a4 a5 a6 a7
            @ [both (differs S (HGET k4 ''busy'') (LStr ''0''))
                    (differs S (HGET k4 ''busy'') (LStr ''1''))]) (RInt 0) (
     counters_bounded S [(k5, a8), (k6, a9), (k7, a10)] False (RInt (- 2)) (lua_ret (RInt 1))))"

definition supersede_timeshift_script ::
  "server \<Rightarrow> reply lua str15" where
  "supersede_timeshift_script S k1 k2 k3 k4 k5 k6 k7 a1 a2 a3 a4 a5 a6 a7 a8 =
     guard [ledger_off S k1] (RInt (- 3)) (
     guard (timeshift_record_checks S k2 k3 k5 k6 k7 a1 a6 a7 a8
            @ timeshift_token_checks S k4 a1 a2
            @ [differs S (HGET k4 ''atlas_playback_generation'') (LStr a3),
               differs S (HGET k4 ''atlas_stopped_generation'') (LStr a3)]
            @ timeshift_identity_checks S k4 a5 a6 a7 a8
            @ [differs S (HGET k4 ''busy'') (LStr ''1''), lua_ret (a3 = a4)]) (RInt 0) (
     counters_positive S [k5, k6, k7] (RInt (- 2)) (
     writes S
       [HSET k4 [(''atlas_playback_generation'', a4)], HDEL k4 [''atlas_stopped_generation'']]
     (lua_ret (RInt 1)))))"

definition cleanup_timeshift_script ::
  "server \<Rightarrow> reply lua str13" where
  "cleanup_timeshift_script S k1 k2 k3 k4 k5 k6 k7 a1 a2 a3 a4 a5 a6 =
     guard [ledger_off S k1] (RInt (- 3)) (
     guard ([differs S (GET k2) (LStr a1),
             differs S (HGET k3 ''token'') (LStr a1),
             differs S (HGET k3 ''owner'') (LStr k2),
             differs S (HGET k3 ''mode'') (LStr ''timeshift''),
             differs S (HGET k3 ''state'') (LStr ''active''),
             differs S (HGET k3 ''stream'') (LStr a4),
             differs S (HGET k3 ''profile_id'') (LStr a5),
             differs S (HGET k3 ''account_id'') (LStr a6)]
            @ timeshift_token_checks S k4 a1 a2
            @ timeshift_identity_checks S k4 a3 a4 a5 a6
            @ [differs S (HGET k4 ''busy'') (LStr ''0'')]) (RInt 0) (
     matching_counters S k3 [(''profile'', k5), (''account'', k6), (''credential'', k7)] (RInt (- 2)) (
     writes S [DECR k5, DECR k6, DECR k7, DEL [k4, k3, k2]] (lua_ret (RInt 1)))))"

end
