(* ===== verification/Reservation_Ledger.thy ===== *)
theory Reservation_Ledger
  imports Ledger_Sessions
begin

text \<open>
  The Python half of the reservation ledger: the reservation specification, the key names, the
  validation before a script is run and the reading of its reply. Parameters that the code types as
  \<open>str\<close> and \<open>int\<close> are \<open>string\<close> and \<open>int\<close>; the fields of a specification, which the constructor
  checks one by one, arrive as run-time values. A function that reads Redis before it runs its
  script takes the keyspace of each read separately: other clients may act in between.
\<close>

datatype ledger_exn =
    LedgerValueError
  | LedgerTypeError
  | ReservationError
  | ReservationBusy
  | ReservationFull
  | RedisError

subsection \<open>Specifications and keys\<close>

record spec =
  mode :: string
  owner_id :: string
  stream_id :: int
  profile_id :: int
  account_id :: int
  credential_scope :: string
  profile_capacity :: int
  account_capacity :: int
  credential_capacity :: int

definition reservation_modes :: "string list" where
  "reservation_modes = [''live'', ''vod'', ''timeshift'']"

text \<open>\<open>ReservationSpec.__post_init__\<close>: the checks in order.\<close>

type_synonym 'r pyval3 = "pyval \<Rightarrow> pyval \<Rightarrow> pyval \<Rightarrow> 'r"
type_synonym 'r pyval9 = "'r pyval3 pyval3 pyval3"

definition new_spec ::
  "(ledger_exn + spec) pyval9" where
  "new_spec m owner stream profile account scope pcap acap ccap =
     (case m of
        PList _ \<Rightarrow> Inl LedgerTypeError
      | PDict _ \<Rightarrow> Inl LedgerTypeError
      | PStr md \<Rightarrow>
          if md \<notin> set reservation_modes then Inl LedgerValueError
          else (case owner of
            PStr ow \<Rightarrow>
              if strip ow = [] then Inl LedgerValueError
              else if \<not> list_all (int_at_least 1) [stream, profile, account, pcap, acap, ccap]
                then Inl LedgerValueError
              else (case scope of
                PStr sc \<Rightarrow>
                  if \<not> hex_string 64 sc then Inl LedgerValueError
                  else Inr \<lparr>mode = md, owner_id = ow, stream_id = int_value stream,
                            profile_id = int_value profile, account_id = int_value account,
                            credential_scope = sc, profile_capacity = int_value pcap,
                            account_capacity = int_value acap, credential_capacity = int_value ccap\<rparr>
              | _ \<Rightarrow> Inl LedgerValueError)
          | _ \<Rightarrow> Inl LedgerValueError)
      | _ \<Rightarrow> Inl LedgerValueError)"

definition CUTOVER_KEY :: string where
  "CUTOVER_KEY = ''atlas:reservation:v1:cutover''"

definition owner_key_of :: "server \<Rightarrow> string \<Rightarrow> string \<Rightarrow> string" where
  "owner_key_of S md owner = ''atlas:reservation:v1:owner:'' @ md @ '':'' @ sha256_hex S owner"

definition owner_key :: "server \<Rightarrow> spec \<Rightarrow> string" where
  "owner_key S sp = owner_key_of S (mode sp) (owner_id sp)"

definition profile_key :: "spec \<Rightarrow> string" where
  "profile_key sp = ''profile_connections:'' @ dec (profile_id sp)"

definition account_key :: "spec \<Rightarrow> string" where
  "account_key sp = ''atlas:reservation:v1:account:'' @ dec (account_id sp)"

definition credential_key :: "spec \<Rightarrow> string" where
  "credential_key sp = ''atlas:reservation:v1:credential:'' @ credential_scope sp"

definition record_key :: "string \<Rightarrow> string" where
  "record_key token = ''atlas:reservation:v1:record:'' @ token"

definition record_key_arg :: "string \<Rightarrow> ledger_exn + string" where
  "record_key_arg token = (if hex_string 32 token then Inr (record_key token) else Inl LedgerValueError)"

definition channel_alias_key :: "string \<Rightarrow> string" where
  "channel_alias_key channel = ''atlas:reservation:v1:live:channel:'' @ channel"

definition attestation_key :: "string \<Rightarrow> string \<Rightarrow> string" where
  "attestation_key channel part = ''atlas:dispatcharr:attestation:'' @ channel @ part"

definition channel_owner_key :: "string \<Rightarrow> string" where
  "channel_owner_key channel = ''live:channel:'' @ channel @ '':owner''"

definition chunk_key :: "string \<Rightarrow> int \<Rightarrow> string" where
  "chunk_key channel index = ''live:channel:'' @ channel @ '':input:buffer:chunk:'' @ dec index"

definition vod_session_key :: "string \<Rightarrow> string" where
  "vod_session_key session = ''vod_persistent_connection:'' @ session"

definition timeshift_pool_key :: "string \<Rightarrow> string" where
  "timeshift_pool_key session = ''timeshift:pool:'' @ session"

definition lifecycle_owner :: "string \<Rightarrow> string \<Rightarrow> string" where
  "lifecycle_owner a b = a @ ''|'' @ b"

definition valid_live :: "spec \<Rightarrow> string \<Rightarrow> string \<Rightarrow> bool" where
  "valid_live sp channel worker \<longleftrightarrow>
     mode sp = ''live'' \<and> canonical_uuid channel \<and> strip worker \<noteq> []
     \<and> owner_id sp = lifecycle_owner channel worker"

definition valid_session :: "string \<Rightarrow> spec \<Rightarrow> string \<Rightarrow> string \<Rightarrow> bool" where
  "valid_session md sp session generation \<longleftrightarrow>
     mode sp = md \<and> session \<noteq> [] \<and> CHR ''|'' \<notin> set session \<and> session = strip session
     \<and> hex_string 32 generation \<and> owner_id sp = lifecycle_owner session generation"

definition required_text :: "string \<Rightarrow> ledger_exn + string" where
  "required_text s = (if s = [] \<or> s \<noteq> strip s then Inl LedgerValueError else Inr s)"

subsection \<open>Running scripts\<close>

type_synonym 'a client = "keyspace \<Rightarrow> (ledger_exn + 'a) \<times> keyspace"

text \<open>\<open>redis_client.eval\<close>: an aborted script raises; otherwise \<open>f\<close> reads the reply.\<close>

definition eval_script :: "reply lua \<Rightarrow> (reply \<Rightarrow> ledger_exn + 'a) \<Rightarrow> 'a client" where
  "eval_script m f = (\<lambda>db. case m db of
      (Inl _, db') \<Rightarrow> (Inl RedisError, db')
    | (Inr r, db') \<Rightarrow> (f r, db'))"

definition checked :: "ledger_exn + 'b \<Rightarrow> ('b \<Rightarrow> 'a client) \<Rightarrow> 'a client" where
  "checked m k = (case m of Inl e \<Rightarrow> (\<lambda>db. (Inl e, db)) | Inr x \<Rightarrow> k x)"

text \<open>\<open>int(value)\<close> on a reply: integers and numerals.\<close>

fun reply_int :: "reply \<Rightarrow> ledger_exn + int" where
  "reply_int (RInt n) = Inr n"
| "reply_int (RBulk s) =
     (case py_int_of_string s of Some n \<Rightarrow> Inr n | None \<Rightarrow> Inl LedgerValueError)"
| "reply_int _ = Inl LedgerTypeError"

text \<open>\<open>_outcome\<close>: a pair of status and count.\<close>

definition outcome :: "reply \<Rightarrow> ledger_exn + int" where
  "outcome r =
     (case r of
        RArray [a, b] \<Rightarrow>
          (case (reply_int a, reply_int b) of
             (Inr status, Inr count) \<Rightarrow>
               if status = 1 then Inr count
               else if status = 0 then Inl ReservationBusy
               else if status = - 1 then Inl ReservationFull
               else Inl ReservationError
           | _ \<Rightarrow> Inl ReservationError)
      | _ \<Rightarrow> Inl ReservationError)"

text \<open>\<open>int(result)\<close> with 1 for yes, 0 for no.\<close>

definition yes_no :: "reply \<Rightarrow> ledger_exn + bool" where
  "yes_no r = rbind (reply_int r) (\<lambda>n.
     if n = 1 then Inr True else if n = 0 then Inr False else Inl ReservationError)"

text \<open>\<open>try: _outcome(...) except ReservationBusy: return False\<close>\<close>

definition false_if_busy :: "ledger_exn + int \<Rightarrow> ledger_exn + bool" where
  "false_if_busy r = (case r of
      Inr _ \<Rightarrow> Inr True
    | Inl e \<Rightarrow> if e = ReservationBusy then Inr False else Inl e)"

subsection \<open>Reserving and releasing\<close>

definition reserve :: "server \<Rightarrow> string \<Rightarrow> spec \<Rightarrow> (string \<times> int) client" where
  "reserve S token sp =
     checked (record_key_arg token) (\<lambda>rk.
     eval_script
       (reserve_script S CUTOVER_KEY (owner_key S sp) rk (profile_key sp) (account_key sp)
          (credential_key sp) token (dec (profile_capacity sp)) (dec (account_capacity sp))
          (dec (credential_capacity sp)) (dec (stream_id sp)) (mode sp) (dec (profile_id sp))
          (dec (account_id sp)))
       (\<lambda>r. rbind (outcome r) (\<lambda>count. Inr (token, count))))"

text \<open>\<open>_live_channel_reservation_keys\<close>: the checks, and the record key of the token.\<close>

definition live_reservation_keys :: "spec \<Rightarrow> string \<Rightarrow> string \<Rightarrow> string \<Rightarrow> ledger_exn + string" where
  "live_reservation_keys sp token channel lease =
     (if \<not> valid_live sp channel lease then Inl LedgerValueError else record_key_arg token)"

definition reserve_live_channel ::
  "server \<Rightarrow> string \<Rightarrow> spec \<Rightarrow> string \<Rightarrow> string \<Rightarrow> (string \<times> int) client" where
  "reserve_live_channel S token sp channel lease =
     checked (live_reservation_keys sp token channel lease) (\<lambda>rk.
     eval_script
       (reserve_live_channel_script S CUTOVER_KEY (owner_key S sp) rk (profile_key sp) (account_key sp)
          (credential_key sp) (channel_alias_key channel) (channel_owner_key channel)
          token (dec (profile_capacity sp)) (dec (account_capacity sp)) (dec (credential_capacity sp))
          (dec (stream_id sp)) ''live'' (dec (profile_id sp)) (dec (account_id sp)) lease)
       (\<lambda>r. rbind (outcome r) (\<lambda>count. Inr (token, count))))"

definition release_pending_live_channel ::
  "server \<Rightarrow> spec \<Rightarrow> string \<Rightarrow> string \<Rightarrow> string \<Rightarrow> bool client" where
  "release_pending_live_channel S sp token channel lease =
     checked (live_reservation_keys sp token channel lease) (\<lambda>rk.
     eval_script
       (release_pending_live_channel_script S CUTOVER_KEY (owner_key S sp) rk (profile_key sp)
          (account_key sp) (credential_key sp) (channel_alias_key channel) (channel_owner_key channel)
          token lease (dec (stream_id sp)) (dec (profile_id sp)) (dec (account_id sp)))
       (\<lambda>r. false_if_busy (outcome r)))"

definition release :: "server \<Rightarrow> spec \<Rightarrow> string \<Rightarrow> bool client" where
  "release S sp token =
     checked (record_key_arg token) (\<lambda>rk.
     eval_script
       (release_script S CUTOVER_KEY (owner_key S sp) rk (profile_key sp) (account_key sp)
          (credential_key sp) token)
       (\<lambda>r. false_if_busy (outcome r)))"

definition switch :: "server \<Rightarrow> spec \<Rightarrow> spec \<Rightarrow> string \<Rightarrow> int client" where
  "switch S previous destination token =
     (if (mode previous, owner_id previous) \<noteq> (mode destination, owner_id destination)
      then (\<lambda>db. (Inl LedgerValueError, db))
      else checked (record_key_arg token) (\<lambda>rk.
        eval_script
          (switch_script S CUTOVER_KEY (owner_key S previous) rk (profile_key previous)
             (account_key previous) (credential_key previous) (profile_key destination)
             (account_key destination) (credential_key destination) token
             (dec (profile_capacity destination)) (dec (account_capacity destination))
             (dec (credential_capacity destination)) (dec (stream_id destination))
             (dec (profile_id destination)) (dec (account_id destination)))
          outcome))"

subsection \<open>Operations on the current identity\<close>

definition decimal_suffix :: "string \<Rightarrow> string \<Rightarrow> bool" where
  "decimal_suffix p k \<longleftrightarrow>
     take (length p) k = p \<and>
     (case drop (length p) k of
        [] \<Rightarrow> False
      | c # cs \<Rightarrow> c \<in> set ''123456789'' \<and> list_all (\<lambda>d. d \<in> set ''0123456789'') cs)"

definition hex_suffix :: "string \<Rightarrow> nat \<Rightarrow> string \<Rightarrow> bool" where
  "hex_suffix p n k \<longleftrightarrow> take (length p) k = p \<and> hex_string n (drop (length p) k)"

definition counter_keys_ok :: "string \<Rightarrow> string \<Rightarrow> string \<Rightarrow> bool" where
  "counter_keys_ok p a c \<longleftrightarrow>
     decimal_suffix ''profile_connections:'' p
     \<and> decimal_suffix ''atlas:reservation:v1:account:'' a
     \<and> hex_suffix ''atlas:reservation:v1:credential:'' 64 c"

fun pair_up :: "reply list \<Rightarrow> (string \<times> string) list" where
  "pair_up (RBulk f # RBulk v # rest) = (f, v) # pair_up rest"
| "pair_up _ = []"

definition hgetall :: "server \<Rightarrow> keyspace \<Rightarrow> string \<Rightarrow> ledger_exn + (string \<times> string) list" where
  "hgetall S db k =
     (case fst (redis_call S db (HGETALL k)) of RArray xs \<Rightarrow> Inr (pair_up xs) | _ \<Rightarrow> Inl RedisError)"

definition py_get :: "server \<Rightarrow> keyspace \<Rightarrow> string \<Rightarrow> ledger_exn + string option" where
  "py_get S db k =
     (case fst (redis_call S db (GET k)) of
        RNil \<Rightarrow> Inr None | RBulk s \<Rightarrow> Inr (Some s) | _ \<Rightarrow> Inl RedisError)"

text \<open>
  \<open>_current_counter_keys\<close>, reading the record in keyspace \<open>db0\<close> and, when it is absent, the owner
  alias in \<open>db1\<close>.
\<close>

definition owner_key_arg :: "server \<Rightarrow> string \<Rightarrow> string \<Rightarrow> ledger_exn + string" where
  "owner_key_arg S md owner =
     (if md \<notin> set reservation_modes \<or> owner = [] then Inl LedgerValueError
      else Inr (owner_key_of S md owner))"

definition current_counter_keys ::
  "server \<Rightarrow> string \<Rightarrow> string \<Rightarrow> string \<Rightarrow> keyspace \<Rightarrow> keyspace \<Rightarrow> ledger_exn + (string \<times> string \<times> string) option" where
  "current_counter_keys S md owner token db0 db1 =
     rbind (record_key_arg token) (\<lambda>rk.
     rbind (hgetall S db0 rk) (\<lambda>fields.
       if fields = [] then
         rbind (owner_key_arg S md owner) (\<lambda>ok.
         rbind (py_get S db1 ok) (\<lambda>v.
           if v = Some token then Inl ReservationError else Inr None))
       else if map_of fields ''token'' \<noteq> Some token then Inl ReservationBusy
       else rbind (owner_key_arg S md owner) (\<lambda>ok.
         if map_of fields ''owner'' \<noteq> Some ok then Inl ReservationBusy
         else (case (map_of fields ''profile'', map_of fields ''account'', map_of fields ''credential'') of
             (Some p, Some a, Some c) \<Rightarrow>
               if counter_keys_ok p a c then Inr (Some (p, a, c)) else Inl ReservationError
           | _ \<Rightarrow> Inl ReservationError))))"

definition release_current ::
  "server \<Rightarrow> string \<Rightarrow> string \<Rightarrow> string \<Rightarrow> keyspace \<Rightarrow> keyspace \<Rightarrow> bool client" where
  "release_current S md owner token db0 db1 =
     checked (current_counter_keys S md owner token db0 db1) (\<lambda>keys.
       case keys of
         None \<Rightarrow> (\<lambda>db. (Inr False, db))
       | Some (p, a, c) \<Rightarrow>
           checked (owner_key_arg S md owner) (\<lambda>ok.
           checked (record_key_arg token) (\<lambda>rk.
           eval_script (release_script S CUTOVER_KEY ok rk p a c token)
             (\<lambda>r. false_if_busy (outcome r)))))"

definition switch_current ::
  "server \<Rightarrow> spec \<Rightarrow> string \<Rightarrow> keyspace \<Rightarrow> keyspace \<Rightarrow> int client" where
  "switch_current S destination token db0 db1 =
     checked (current_counter_keys S (mode destination) (owner_id destination) token db0 db1) (\<lambda>keys.
       case keys of
         None \<Rightarrow> (\<lambda>db. (Inl ReservationBusy, db))
       | Some (p, a, c) \<Rightarrow>
           checked (record_key_arg token) (\<lambda>rk.
           eval_script
             (switch_script S CUTOVER_KEY (owner_key S destination) rk p a c (profile_key destination)
                (account_key destination) (credential_key destination) token
                (dec (profile_capacity destination)) (dec (account_capacity destination))
                (dec (credential_capacity destination)) (dec (stream_id destination))
                (dec (profile_id destination)) (dec (account_id destination)))
             outcome))"

subsection \<open>Live activation, join and stop\<close>

definition live_keys_ok :: "spec \<Rightarrow> string \<Rightarrow> string \<Rightarrow> string \<Rightarrow> int \<Rightarrow> ledger_exn + string" where
  "live_keys_ok sp token channel worker index =
     (if \<not> valid_live sp channel worker \<or> index < 1 then Inl LedgerValueError
      else record_key_arg token)"

definition activate_verified_live ::
  "server \<Rightarrow> spec \<Rightarrow> string \<Rightarrow> string \<Rightarrow> string \<Rightarrow> string \<Rightarrow> int \<Rightarrow> string \<Rightarrow> int \<Rightarrow> bool client" where
  "activate_verified_live S sp token channel worker grant_token epoch generation index =
     checked (require (1 \<le> epoch) LedgerValueError) (\<lambda>_.
     checked (live_keys_ok sp token channel worker index) (\<lambda>rk.
     checked (required_text grant_token) (\<lambda>gt.
     checked (required_text generation) (\<lambda>gen.
     eval_script
       (activate_live_script S CUTOVER_KEY (owner_key S sp) rk (attestation_key channel '':grant'')
          (attestation_key channel '':generation'') (channel_owner_key channel) (chunk_key channel index)
          (chunk_key channel index @ '':provenance'') (channel_alias_key channel)
          token gt (dec epoch) gen worker)
       yes_no))))"

definition join_reply :: "reply \<Rightarrow> ledger_exn + (int \<times> int \<times> int) option" where
  "join_reply r =
     (case r of
        RArray [s, a, b, c] \<Rightarrow>
          (case reply_int s of
             Inl _ \<Rightarrow> Inl ReservationError
           | Inr status \<Rightarrow>
               if status = 1 then
                 (case (reply_int a, reply_int b, reply_int c) of
                    (Inr x, Inr y, Inr z) \<Rightarrow>
                      if 0 < x \<and> 0 < y \<and> 0 < z then Inr (Some (x, y, z)) else Inl ReservationError
                  | _ \<Rightarrow> Inl ReservationError)
               else Inl ReservationError)
      | RArray [s] \<Rightarrow> if reply_int s = Inr 0 then Inr None else Inl ReservationError
      | _ \<Rightarrow> Inl ReservationError)"

definition attest_live_join ::
  "server \<Rightarrow> spec \<Rightarrow> string \<Rightarrow> string \<Rightarrow> string \<Rightarrow> int \<Rightarrow> string \<Rightarrow> int \<Rightarrow> (int \<times> int \<times> int) option client" where
  "attest_live_join S sp token channel worker epoch generation index =
     checked (require (1 \<le> epoch) LedgerValueError) (\<lambda>_.
     checked (live_keys_ok sp token channel worker index) (\<lambda>rk.
     checked (required_text generation) (\<lambda>gen.
     eval_script
       (attest_live_join_script S CUTOVER_KEY (owner_key S sp) rk (attestation_key channel '':grant'')
          (attestation_key channel '':generation'') (channel_owner_key channel) (chunk_key channel index)
          (chunk_key channel index @ '':provenance'') (channel_alias_key channel)
          (profile_key sp) (account_key sp) (credential_key sp)
          token (dec epoch) gen (dec (profile_capacity sp)) (dec (account_capacity sp))
          (dec (credential_capacity sp)))
       join_reply)))"

definition active_live_arguments ::
  "spec \<Rightarrow> string \<Rightarrow> string \<Rightarrow> string \<Rightarrow> string \<Rightarrow> int \<Rightarrow> string \<Rightarrow> ledger_exn + string \<times> string \<times> string" where
  "active_live_arguments sp token channel lease grant_token epoch generation =
     rbind (live_reservation_keys sp token channel lease) (\<lambda>rk.
     rbind (require (1 \<le> epoch) LedgerValueError) (\<lambda>_.
     rbind (required_text grant_token) (\<lambda>gt.
     rbind (required_text generation) (\<lambda>gen. Inr (rk, gt, gen)))))"

definition mark_live_upstream_closed ::
  "server \<Rightarrow> spec \<Rightarrow> string \<Rightarrow> string \<Rightarrow> string \<Rightarrow> string \<Rightarrow> int \<Rightarrow> string \<Rightarrow> bool \<Rightarrow> bool client" where
  "mark_live_upstream_closed S sp token channel lease grant_token epoch generation upstream_closed =
     checked (require upstream_closed LedgerValueError) (\<lambda>_.
     checked (active_live_arguments sp token channel lease grant_token epoch generation) (\<lambda>(rk, gt, gen).
     eval_script
       (ack_live_stop_script S CUTOVER_KEY (owner_key S sp) rk (profile_key sp) (account_key sp)
          (credential_key sp) (channel_alias_key channel) (channel_owner_key channel)
          (attestation_key channel '':grant'') (attestation_key channel '':generation'')
          token lease (dec (stream_id sp)) (dec (profile_id sp)) (dec (account_id sp)) gt (dec epoch) gen)
       yes_no))"

definition release_active_live_channel ::
  "server \<Rightarrow> spec \<Rightarrow> string \<Rightarrow> string \<Rightarrow> string \<Rightarrow> string \<Rightarrow> int \<Rightarrow> string \<Rightarrow> bool client" where
  "release_active_live_channel S sp token channel lease grant_token epoch generation =
     checked (active_live_arguments sp token channel lease grant_token epoch generation) (\<lambda>(rk, gt, gen).
     eval_script
       (release_active_live_script S CUTOVER_KEY (owner_key S sp) rk (profile_key sp) (account_key sp)
          (credential_key sp) (channel_alias_key channel) (channel_owner_key channel)
          (attestation_key channel '':grant'') (attestation_key channel '':generation'')
          token lease (dec (stream_id sp)) (dec (profile_id sp)) (dec (account_id sp)) gt (dec epoch) gen)
       yes_no)"

text \<open>
  \<open>switch_live_channel\<close>: the stopped identity is all absent (a pending channel, empty arguments) or
  checked field by field; an absent field among present ones fails its check.
\<close>

definition stopped_arguments ::
  "string option \<Rightarrow> int option \<Rightarrow> string option \<Rightarrow> ledger_exn + string \<times> string \<times> string" where
  "stopped_arguments grant_token epoch generation =
     (if grant_token = None \<and> epoch = None \<and> generation = None then Inr ([], [], [])
      else case epoch of
        None \<Rightarrow> Inl LedgerValueError
      | Some e \<Rightarrow>
          if e < 1 then Inl LedgerValueError
          else rbind (case grant_token of None \<Rightarrow> Inl LedgerValueError | Some g \<Rightarrow> required_text g) (\<lambda>gt.
               rbind (case generation of None \<Rightarrow> Inl LedgerValueError | Some g \<Rightarrow> required_text g) (\<lambda>gen.
                 Inr (gt, dec e, gen))))"

definition switch_live_channel ::
  "server \<Rightarrow> spec \<Rightarrow> spec \<Rightarrow> string \<Rightarrow> string \<Rightarrow> string \<Rightarrow> string option \<Rightarrow> int option \<Rightarrow> string option
   \<Rightarrow> int client" where
  "switch_live_channel S previous destination token channel lease grant_token epoch generation =
     checked (require (mode previous = ''live'' \<and> mode destination = ''live'') LedgerValueError) (\<lambda>_.
     checked (require (owner_id previous = owner_id destination) LedgerValueError) (\<lambda>_.
     checked (live_reservation_keys previous token channel lease) (\<lambda>rk.
     checked (stopped_arguments grant_token epoch generation) (\<lambda>(gt, ep, gen).
     eval_script
       (switch_live_channel_script S CUTOVER_KEY (owner_key S previous) rk (profile_key previous)
          (account_key previous) (credential_key previous) (profile_key destination)
          (account_key destination) (credential_key destination) (channel_alias_key channel)
          (channel_owner_key channel) (attestation_key channel '':grant'')
          (attestation_key channel '':generation'')
          token lease (dec (profile_capacity destination)) (dec (account_capacity destination))
          (dec (credential_capacity destination)) (dec (stream_id destination))
          (dec (profile_id destination)) (dec (account_id destination)) gt ep gen)
       outcome))))"

subsection \<open>VOD sessions\<close>

definition vod_viewer_ok :: "int \<Rightarrow> string \<Rightarrow> ledger_exn + unit" where
  "vod_viewer_ok user content = require (1 \<le> user \<and> canonical_uuid content) LedgerValueError"

definition vod_keys :: "spec \<Rightarrow> string \<Rightarrow> string \<Rightarrow> string \<Rightarrow> ledger_exn + string" where
  "vod_keys sp token session generation =
     (if \<not> valid_session ''vod'' sp session generation then Inl LedgerValueError
      else record_key_arg token)"

definition bind_vod_session ::
  "server \<Rightarrow> spec \<Rightarrow> string \<Rightarrow> string \<Rightarrow> string \<Rightarrow> int \<Rightarrow> string \<Rightarrow> bool client" where
  "bind_vod_session S sp token session generation user content =
     checked (vod_viewer_ok user content) (\<lambda>_.
     checked (vod_keys sp token session generation) (\<lambda>rk.
     eval_script
       (bind_vod_script S CUTOVER_KEY (owner_key S sp) rk (vod_session_key session)
          token generation (dec (profile_id sp)) (dec (stream_id sp)) (dec (account_id sp))
          (dec user) content)
       yes_no))"

text \<open>The reply of join and leave: the viewer count, or none when the session is not this one.\<close>

definition activity_reply :: "reply \<Rightarrow> ledger_exn + int option" where
  "activity_reply r =
     (case r of
        RArray [a, b] \<Rightarrow>
          rbind (reply_int a) (\<lambda>status.
          rbind (reply_int b) (\<lambda>count.
            if status = 1 \<and> 0 \<le> count then Inr (Some count)
            else if status = 0 then Inr None else Inl ReservationError))
      | _ \<Rightarrow> Inl ReservationError)"

type_synonym vod_script =
  "server \<Rightarrow> reply lua str8"

definition vod_activity ::
  "vod_script \<Rightarrow> server \<Rightarrow> spec \<Rightarrow> string \<Rightarrow> string \<Rightarrow> string \<Rightarrow> int \<Rightarrow> string \<Rightarrow> int option client" where
  "vod_activity script S sp token session generation user content =
     checked (vod_viewer_ok user content) (\<lambda>_.
     checked (vod_keys sp token session generation) (\<lambda>rk.
     eval_script
       (script S CUTOVER_KEY (owner_key S sp) rk (vod_session_key session) token generation
          (dec user) content)
       activity_reply))"

definition join_vod_session ::
  "server \<Rightarrow> spec \<Rightarrow> string \<Rightarrow> string \<Rightarrow> string \<Rightarrow> int \<Rightarrow> string \<Rightarrow> int option client" where
  "join_vod_session = vod_activity vod_join_script"

definition leave_vod_session ::
  "server \<Rightarrow> spec \<Rightarrow> string \<Rightarrow> string \<Rightarrow> string \<Rightarrow> int \<Rightarrow> string \<Rightarrow> int option client" where
  "leave_vod_session = vod_activity vod_leave_script"

definition cleanup_reply :: "reply \<Rightarrow> ledger_exn + bool" where
  "cleanup_reply r =
     (case r of
        RArray [a, b] \<Rightarrow>
          rbind (reply_int a) (\<lambda>status. rbind (reply_int b) (\<lambda>_.
            if status = 1 then Inr True else if status = 0 then Inr False else Inl ReservationError))
      | _ \<Rightarrow> Inl ReservationError)"

definition cleanup_vod_session ::
  "server \<Rightarrow> spec \<Rightarrow> string \<Rightarrow> string \<Rightarrow> string \<Rightarrow> int \<Rightarrow> string \<Rightarrow> bool client" where
  "cleanup_vod_session S sp token session generation user content =
     checked (vod_viewer_ok user content) (\<lambda>_.
     checked (vod_keys sp token session generation) (\<lambda>rk.
     eval_script
       (vod_cleanup_script S CUTOVER_KEY (owner_key S sp) rk (vod_session_key session) (profile_key sp)
          (account_key sp) (credential_key sp) token generation (dec user) content)
       cleanup_reply))"

record vod_session_lease =
  vod_spec :: spec
  vod_token :: string
  vod_session :: string
  vod_generation :: string

definition handle_fields :: "server \<Rightarrow> keyspace \<Rightarrow> string \<Rightarrow> string list \<Rightarrow> ledger_exn + string option list" where
  "handle_fields S db k fs =
     (case fst (redis_call S db (HMGET k fs)) of
        RArray rs \<Rightarrow> Inr (map (\<lambda>r. case r of RBulk s \<Rightarrow> Some s | _ \<Rightarrow> None) rs)
      | _ \<Rightarrow> Inl RedisError)"

text \<open>
  \<open>resume_vod_session\<close>: the handle is read from keyspace \<open>db0\<close>; the trusted policy \<open>build\<close> turns the
  generation into the expected specification.
\<close>

definition resume_vod_session ::
  "server \<Rightarrow> string \<Rightarrow> int \<Rightarrow> string \<Rightarrow> (string \<Rightarrow> ledger_exn + spec) \<Rightarrow> keyspace
   \<Rightarrow> vod_session_lease option client" where
  "resume_vod_session S session user content build db0 =
     checked (vod_viewer_ok user content) (\<lambda>_.
     checked (require (session \<noteq> [] \<and> CHR ''|'' \<notin> set session) LedgerValueError) (\<lambda>_.
     checked (handle_fields S db0 (vod_session_key session)
        [''atlas_reservation_token'', ''atlas_reservation_generation'']) (\<lambda>raw.
       case raw of
         [Some token, Some generation] \<Rightarrow>
           if token = [] \<or> generation = [] then (\<lambda>db. (Inr None, db))
           else if \<not> hex_string 32 token \<or> \<not> hex_string 32 generation
           then (\<lambda>db. (Inl ReservationError, db))
           else
             checked (build generation) (\<lambda>sp.
             checked (vod_keys sp token session generation) (\<lambda>rk.
             eval_script
               (vod_resume_script S CUTOVER_KEY (owner_key S sp) rk (vod_session_key session)
                  (profile_key sp) (account_key sp) (credential_key sp) token generation (dec user)
                  content (dec (stream_id sp)) (dec (profile_id sp)) (dec (account_id sp)))
               (\<lambda>r. rbind (yes_no r) (\<lambda>b. Inr (if b
                  then Some \<lparr>vod_spec = sp, vod_token = token, vod_session = session,
                             vod_generation = generation\<rparr> else None)))))
       | _ \<Rightarrow> (\<lambda>db. (Inr None, db)))))"

subsection \<open>Timeshift pool sessions\<close>

definition timeshift_keys :: "spec \<Rightarrow> string \<Rightarrow> string \<Rightarrow> string \<Rightarrow> ledger_exn + string" where
  "timeshift_keys sp token session generation =
     (if \<not> valid_session ''timeshift'' sp session generation then Inl LedgerValueError
      else record_key_arg token)"

definition playback_id :: "string \<Rightarrow> ledger_exn + string" where
  "playback_id playback = (if hex_string 32 playback then Inr playback else Inl LedgerValueError)"

record timeshift_playback_lease =
  ts_spec :: spec
  ts_token :: string
  ts_session :: string
  ts_generation :: string
  ts_playback :: string
  ts_user :: int

text \<open>\<open>TimeshiftPlaybackLease.__post_init__\<close>\<close>

definition new_timeshift_lease ::
  "spec \<Rightarrow> string \<Rightarrow> string \<Rightarrow> string \<Rightarrow> string \<Rightarrow> int \<Rightarrow> ledger_exn + timeshift_playback_lease" where
  "new_timeshift_lease sp token session generation playback user =
     rbind (timeshift_keys sp token session generation) (\<lambda>_.
     rbind (playback_id playback) (\<lambda>_.
     rbind (require (1 \<le> user) LedgerValueError) (\<lambda>_.
       Inr \<lparr>ts_spec = sp, ts_token = token, ts_session = session, ts_generation = generation,
            ts_playback = playback, ts_user = user\<rparr>)))"

text \<open>
  \<open>_timeshift_eval\<close>: the checks, then the script on the four session keys and the three counter keys.
\<close>

type_synonym session_script =
  "reply lua str7"

definition timeshift_eval ::
  "server \<Rightarrow> spec \<Rightarrow> string \<Rightarrow> string \<Rightarrow> string \<Rightarrow> int \<Rightarrow> string option \<Rightarrow> session_script \<Rightarrow> bool client" where
  "timeshift_eval S sp token session generation user playback script =
     checked (require (1 \<le> user) LedgerValueError) (\<lambda>_.
     checked (timeshift_keys sp token session generation) (\<lambda>rk.
     checked (case playback of None \<Rightarrow> Inr [] | Some p \<Rightarrow> playback_id p) (\<lambda>_.
     eval_script
       (script CUTOVER_KEY (owner_key S sp) rk (timeshift_pool_key session) (profile_key sp)
          (account_key sp) (credential_key sp))
       yes_no)))"

definition bind_timeshift_pool ::
  "server \<Rightarrow> spec \<Rightarrow> string \<Rightarrow> string \<Rightarrow> string \<Rightarrow> string \<Rightarrow> int \<Rightarrow> bool client" where
  "bind_timeshift_pool S sp token session generation playback user =
     timeshift_eval S sp token session generation user (Some playback)
       (\<lambda>k1 k2 k3 k4 k5 k6 k7. bind_timeshift_script S k1 k2 k3 k4 k5 k6 k7 token generation playback
          (dec user) (dec (stream_id sp)) (dec (profile_id sp)) (dec (account_id sp)))"

definition claim_timeshift_idle_pool ::
  "server \<Rightarrow> spec \<Rightarrow> string \<Rightarrow> string \<Rightarrow> string \<Rightarrow> string \<Rightarrow> int \<Rightarrow> bool client" where
  "claim_timeshift_idle_pool S sp token session generation playback user =
     timeshift_eval S sp token session generation user (Some playback)
       (\<lambda>k1 k2 k3 k4 k5 k6 k7. claim_timeshift_script S k1 k2 k3 k4 k5 k6 k7 token generation playback
          (dec user) (dec (stream_id sp)) (dec (profile_id sp)) (dec (account_id sp)))"

definition idle_timeshift_pool ::
  "server \<Rightarrow> spec \<Rightarrow> string \<Rightarrow> string \<Rightarrow> string \<Rightarrow> string \<Rightarrow> int \<Rightarrow> bool client" where
  "idle_timeshift_pool S sp token session generation playback user =
     timeshift_eval S sp token session generation user (Some playback)
       (\<lambda>k1 k2 k3 k4 k5 k6 k7. idle_timeshift_script S k1 k2 k3 k4 k5 k6 k7 token generation playback
          (dec user) (dec (stream_id sp)) (dec (profile_id sp)) (dec (account_id sp)))"

definition cleanup_timeshift_pool ::
  "server \<Rightarrow> spec \<Rightarrow> string \<Rightarrow> string \<Rightarrow> string \<Rightarrow> int \<Rightarrow> bool client" where
  "cleanup_timeshift_pool S sp token session generation user =
     timeshift_eval S sp token session generation user None
       (\<lambda>k1 k2 k3 k4 k5 k6 k7. cleanup_timeshift_script S k1 k2 k3 k4 k5 k6 k7 token generation
          (dec user) (dec (stream_id sp)) (dec (profile_id sp)) (dec (account_id sp)))"

definition supersede_timeshift_busy_pool ::
  "server \<Rightarrow> spec \<Rightarrow> (int \<Rightarrow> bool client) str5" where
  "supersede_timeshift_busy_pool S sp token session generation previous_playback new_playback user =
     checked (require (1 \<le> user) LedgerValueError) (\<lambda>_.
     checked (timeshift_keys sp token session generation) (\<lambda>rk.
     checked (playback_id previous_playback) (\<lambda>p0.
     checked (playback_id new_playback) (\<lambda>p1.
     eval_script
       (supersede_timeshift_script S CUTOVER_KEY (owner_key S sp) rk (timeshift_pool_key session)
          (profile_key sp) (account_key sp) (credential_key sp) token generation p0 p1 (dec user)
          (dec (stream_id sp)) (dec (profile_id sp)) (dec (account_id sp)))
       yes_no))))"

definition ack_timeshift_upstream_stopped ::
  "server \<Rightarrow> spec \<Rightarrow> string \<Rightarrow> string \<Rightarrow> string \<Rightarrow> string \<Rightarrow> int \<Rightarrow> bool client" where
  "ack_timeshift_upstream_stopped S sp token session generation playback user =
     checked (require (1 \<le> user) LedgerValueError) (\<lambda>_.
     checked (timeshift_keys sp token session generation) (\<lambda>rk.
     checked (playback_id playback) (\<lambda>p.
     eval_script
       (ack_timeshift_stop_script S CUTOVER_KEY (owner_key S sp) rk (timeshift_pool_key session)
          token generation p (dec user))
       yes_no)))"

text \<open>\<open>resume_timeshift_pool\<close>: like the VOD handle, with the playback generation and bounded counters.\<close>

definition resume_timeshift_pool ::
  "server \<Rightarrow> string \<Rightarrow> int \<Rightarrow> (string \<Rightarrow> ledger_exn + spec) \<Rightarrow> keyspace
   \<Rightarrow> timeshift_playback_lease option client" where
  "resume_timeshift_pool S session user build db0 =
     checked (require (1 \<le> user) LedgerValueError) (\<lambda>_.
     checked (require (session \<noteq> [] \<and> CHR ''|'' \<notin> set session \<and> session = strip session)
        LedgerValueError) (\<lambda>_.
     checked (handle_fields S db0 (timeshift_pool_key session)
        [''atlas_reservation_token'', ''atlas_reservation_generation'',
         ''atlas_playback_generation'']) (\<lambda>raw.
       case raw of
         [Some token, Some generation, Some playback] \<Rightarrow>
           if token = [] \<or> generation = [] \<or> playback = [] then (\<lambda>db. (Inr None, db))
           else if \<not> list_all (hex_string 32) [token, generation, playback]
           then (\<lambda>db. (Inl ReservationError, db))
           else
             checked (build generation) (\<lambda>sp.
             checked (timeshift_keys sp token session generation) (\<lambda>rk.
             eval_script
               (resume_timeshift_script S CUTOVER_KEY (owner_key S sp) rk (timeshift_pool_key session)
                  (profile_key sp) (account_key sp) (credential_key sp) token generation playback
                  (dec user) (dec (stream_id sp)) (dec (profile_id sp)) (dec (account_id sp))
                  (dec (profile_capacity sp)) (dec (account_capacity sp)) (dec (credential_capacity sp)))
               (\<lambda>r. rbind (yes_no r) (\<lambda>b.
                  if b then map_sum id Some (new_timeshift_lease sp token session generation playback user)
                  else Inr None))))
       | _ \<Rightarrow> (\<lambda>db. (Inr None, db)))))"

subsection \<open>Attesting the current live channel\<close>

definition identity_field :: "(string \<times> string) list \<Rightarrow> string \<Rightarrow> ledger_exn + string" where
  "identity_field row name =
     (case map_of row name of
        Some v \<Rightarrow> if v = [] \<or> 256 < length v then Inl ReservationError else Inr v
      | None \<Rightarrow> Inl ReservationError)"

definition identity_number :: "(string \<times> string) list \<Rightarrow> string \<Rightarrow> ledger_exn + int" where
  "identity_number row name =
     rbind (identity_field row name) (\<lambda>v.
       case py_int_of_string v of None \<Rightarrow> Inl ReservationError | Some n \<Rightarrow> Inr n)"

record live_identity =
  li_token :: string
  li_lease :: string
  li_stream :: int
  li_profile :: int
  li_account :: int
  li_epoch :: int

definition read_live_identity ::
  "(string \<times> string) list \<Rightarrow> (string \<times> string) list \<Rightarrow> ledger_exn + live_identity" where
  "read_live_identity alias grant =
     rbind (identity_field alias ''token'') (\<lambda>token.
     rbind (identity_field alias ''owner_lease'') (\<lambda>lease.
     rbind (require (hex_string 32 token) ReservationError) (\<lambda>_.
     rbind (identity_number alias ''stream_id'') (\<lambda>stream.
     rbind (identity_number alias ''profile_id'') (\<lambda>profile.
     rbind (identity_number alias ''account_id'') (\<lambda>account.
     rbind (identity_number grant ''epoch'') (\<lambda>epoch.
     rbind (require (1 \<le> Min {stream, profile, account, epoch}) ReservationError) (\<lambda>_.
       Inr \<lparr>li_token = token, li_lease = lease, li_stream = stream, li_profile = profile,
            li_account = account, li_epoch = epoch\<rparr>))))))))"

text \<open>The policy's answer must be about this channel, lease and selection.\<close>

definition policy_matches :: "string \<Rightarrow> live_identity \<Rightarrow> spec \<Rightarrow> bool" where
  "policy_matches channel li sp \<longleftrightarrow>
     mode sp = ''live'' \<and> owner_id sp = lifecycle_owner channel (li_lease li)
     \<and> (stream_id sp, profile_id sp, account_id sp) = (li_stream li, li_profile li, li_account li)"

text \<open>
  The alias is read in \<open>db0\<close>, the grant in \<open>db1\<close> and the generation in \<open>db2\<close>; the join script runs on
  the keyspace of the client action itself.
\<close>

definition attest_current_live_channel ::
  "server \<Rightarrow> string \<Rightarrow> int \<Rightarrow> (int \<Rightarrow> int \<Rightarrow> int \<Rightarrow> string \<Rightarrow> ledger_exn + spec) \<Rightarrow> int option \<Rightarrow> string option
   \<Rightarrow> keyspace \<Rightarrow> keyspace \<Rightarrow> keyspace \<Rightarrow> (int \<times> int \<times> int) option client" where
  "attest_current_live_channel S channel index build expected_epoch expected_generation db0 db1 db2 =
     checked (require (canonical_uuid channel \<and> 1 \<le> index) LedgerValueError) (\<lambda>_.
     checked (require ((expected_epoch = None) = (expected_generation = None)) LedgerValueError) (\<lambda>_.
     checked (require (case (expected_epoch, expected_generation) of
         (Some e, Some g) \<Rightarrow> 1 \<le> e \<and> g \<noteq> [] | _ \<Rightarrow> True) LedgerValueError) (\<lambda>_.
     checked (hgetall S db0 (channel_alias_key channel)) (\<lambda>alias.
       if alias = [] then (\<lambda>db. (Inr None, db))
       else
     checked (hgetall S db1 (attestation_key channel '':grant'')) (\<lambda>grant.
       if grant = [] then (\<lambda>db. (Inr None, db))
       else
     checked (read_live_identity alias grant) (\<lambda>li.
     checked (identity_field grant ''worker'') (\<lambda>worker.
       if worker \<noteq> li_lease li then (\<lambda>db. (Inr None, db))
       else
     checked (py_get S db2 (attestation_key channel '':generation'')) (\<lambda>g.
       case g of
         None \<Rightarrow> (\<lambda>db. (Inr None, db))
       | Some generation \<Rightarrow>
           if generation = [] \<or> 256 < length generation then (\<lambda>db. (Inr None, db))
           else if expected_epoch \<noteq> None
                   \<and> (expected_epoch \<noteq> Some (li_epoch li) \<or> expected_generation \<noteq> Some generation)
           then (\<lambda>db. (Inr None, db))
           else
     checked (build (li_stream li) (li_profile li) (li_account li) (li_lease li)) (\<lambda>sp.
     checked (require (policy_matches channel li sp) ReservationError) (\<lambda>_.
       attest_live_join S sp (li_token li) channel (li_lease li) (li_epoch li) generation index))))))))))"

end
