(* ===== verification/Lua_Rules.thy ===== *)
theory Lua_Rules
  imports Redis_Server
begin

text \<open>
  Rules for the Lua scripts, proved once from the documented behaviour of the server: what a read
  sees, what a passed list of checks says of the keyspace, and what a list of writes does to it.
  \<open>runs db R Q m\<close> is the contract of a script started on \<open>db\<close>: either it refuses, leaving the keyspace
  as it was and (unless a command failed) answering with a reply in \<open>R\<close>, or \<open>Q\<close> holds of its result.
\<close>

subsection \<open>What reads see\<close>

fun is_read :: "command \<Rightarrow> bool" where
  "is_read (GET _) = True"
| "is_read (EXISTS _) = True"
| "is_read (HGET _ _) = True"
| "is_read (HEXISTS _ _) = True"
| "is_read _ = False"

fun read_val :: "keyspace \<Rightarrow> command \<Rightarrow> lval option" where
  "read_val db (GET k) =
     (case db k of None \<Rightarrow> Some LFalse | Some (RStr s) \<Rightarrow> Some (LStr s) | Some (RHash _) \<Rightarrow> None)"
| "read_val db (EXISTS k) = Some (LInt (if db k = None then 0 else 1))"
| "read_val db (HGET k f) =
     map_option (\<lambda>h. case map_of h f of None \<Rightarrow> LFalse | Some s \<Rightarrow> LStr s) (hash_at db k)"
| "read_val db (HEXISTS k f) = map_option (\<lambda>h. LInt (if map_of h f = None then 0 else 1)) (hash_at db k)"
| "read_val db _ = None"

named_theorems read_facts

lemma read_get [read_facts]: "read_val db (GET k) = Some (LStr s) \<longleftrightarrow> db k = Some (RStr s)"
  by (simp split: option.splits rval.splits)

lemma read_exists [read_facts]:
  "read_val db (EXISTS k) = Some (LInt 0) \<longleftrightarrow> db k = None"
  "read_val db (EXISTS k) = Some (LInt 1) \<longleftrightarrow> db k \<noteq> None"
  by simp_all

lemma read_hget [read_facts]: "read_val db (HGET k f) = Some (LStr s) \<longleftrightarrow> hfield db k f = Some s"
  by (cases "db k"; cases "the (db k)") (simp_all add: hash_at_def hfield_def split: option.split)

lemma read_hget_none [read_facts]:
  "read_val db (HGET k f) = Some LFalse \<longleftrightarrow> hash_at db k \<noteq> None \<and> hfield db k f = None"
  by (cases "db k"; cases "the (db k)") (simp_all add: hash_at_def hfield_def split: option.split)

lemma read_hget_not [read_facts]:
  "(\<exists>w. read_val db (HGET k f) = Some w \<and> w \<noteq> LStr s) \<longleftrightarrow> hash_at db k \<noteq> None \<and> hfield db k f \<noteq> Some s"
  by (cases "db k"; cases "the (db k)") (simp_all add: hash_at_def hfield_def split: option.split)

lemma read_hexists [read_facts]:
  "read_val db (HEXISTS k f) = Some (LInt 0) \<longleftrightarrow> hash_at db k \<noteq> None \<and> hfield db k f = None"
  by (cases "db k"; cases "the (db k)") (simp_all add: hash_at_def hfield_def split: option.split)

subsection \<open>What writes do\<close>

text \<open>The keyspace after a list of writes; none when a command of it fails.\<close>

fun exec1 :: "command \<Rightarrow> keyspace \<Rightarrow> keyspace option" where
  "exec1 (SET k v) db = Some (db(k \<mapsto> RStr v))"
| "exec1 (SETEX k t v) db = (if 0 < t then Some (db(k \<mapsto> RStr v)) else None)"
| "exec1 (EXPIRE k t) db = (if 0 < t then Some db else None)"
| "exec1 (INCR k) db =
     (case counter_at db k of
        Some n \<Rightarrow> if int64 n \<and> int64 (n + 1) then Some (db(k \<mapsto> RStr (dec (n + 1)))) else None
      | None \<Rightarrow> None)"
| "exec1 (DECR k) db =
     (case counter_at db k of
        Some n \<Rightarrow> if int64 n \<and> int64 (n - 1) then Some (db(k \<mapsto> RStr (dec (n - 1)))) else None
      | None \<Rightarrow> None)"
| "exec1 (DEL ks) db = Some (del_keys ks db)"
| "exec1 (HSET k fs) db = map_option (\<lambda>h. put_hash k (hset_all fs h) db) (hash_at db k)"
| "exec1 (HDEL k fs) db = map_option (\<lambda>h. put_hash k (hdel_all fs h) db) (hash_at db k)"
| "exec1 _ db = None"

fun exec :: "command list \<Rightarrow> keyspace \<Rightarrow> keyspace option" where
  "exec [] db = Some db"
| "exec (c # cs) db = Option.bind (exec1 c db) (exec cs)"

lemma exec_append: "exec (cs @ ds) db = Option.bind (exec cs db) (exec ds)"
proof (induction cs arbitrary: db)
  case (Cons c cs)
  then show ?case by (cases "exec1 c db") simp_all
qed simp

definition probe :: "'a lua \<Rightarrow> bool" where
  "probe m \<longleftrightarrow> (\<forall>db. snd (m db) = db)"

definition passes :: "bool lua list \<Rightarrow> keyspace \<Rightarrow> bool" where
  "passes cs db \<longleftrightarrow> any_of cs db = (Inr False, db)"

definition runs ::
  "keyspace \<Rightarrow> ('a \<Rightarrow> bool) \<Rightarrow> (unit + 'a \<Rightarrow> keyspace \<Rightarrow> bool) \<Rightarrow> 'a lua \<Rightarrow> bool" where
  "runs db R Q m \<longleftrightarrow>
     (\<forall>x db'. m db = (x, db') \<longrightarrow> (db' = db \<and> (\<forall>r. x = Inr r \<longrightarrow> R r)) \<or> Q x db')"

lemma probe_ret [intro, simp]: "probe (lua_ret x)"
  by (simp add: probe_def lua_ret_def)

lemma probe_fail [intro, simp]: "probe lua_fail"
  by (simp add: probe_def lua_fail_def)

lemma probe_bind [intro]:
  assumes m: "probe m" and f: "\<And>x. probe (f x)"
  shows "probe (lua_bind m f)"
proof -
  have "snd (lua_bind m f db) = db" for db
    using m[unfolded probe_def, rule_format, of db] f[unfolded probe_def, rule_format]
    by (cases "m db") (auto simp: lua_bind_def split: sum.split)
  then show ?thesis by (simp add: probe_def)
qed

lemma probe_any_of: "list_all probe cs \<Longrightarrow> probe (any_of cs)"
  by (induction cs) (auto intro!: probe_bind split: if_splits)

lemma passes_Nil [simp]: "passes [] db"
  by (simp add: passes_def lua_ret_def)

lemma passes_Cons:
  assumes "probe c"
  shows "passes (c # cs) db \<longleftrightarrow> c db = (Inr False, db) \<and> passes cs db"
  using assms[unfolded probe_def, rule_format, of db]
  by (cases "c db") (auto simp: passes_def lua_bind_def lua_ret_def split: sum.splits)

lemma passes_append:
  "list_all probe cs \<Longrightarrow> passes (cs @ ds) db \<longleftrightarrow> passes cs db \<and> passes ds db"
  by (induction cs) (auto simp: passes_Cons)

lemma runsD:
  assumes "runs db R Q m" "m db = (x, db')"
  shows "(db' = db \<and> (\<forall>r. x = Inr r \<longrightarrow> R r)) \<or> Q x db'"
  using assms by (auto simp: runs_def)

lemma runs_mono:
  assumes "runs db R Q m" "\<And>r. R r \<Longrightarrow> R' r" "\<And>x db'. Q x db' \<Longrightarrow> Q' x db'"
  shows "runs db R' Q' m"
  using assms unfolding runs_def by blast

lemma runs_fact: "P \<Longrightarrow> runs db R Q m \<Longrightarrow> runs db R (\<lambda>x db'. P \<and> Q x db') m"
  by (simp add: runs_def)

lemma runs_ret: "R r \<Longrightarrow> runs db R Q (lua_ret r)"
  by (simp add: runs_def lua_ret_def)

lemma runs_done: "Q (Inr r) db \<Longrightarrow> runs db R Q (lua_ret r)"
  by (simp add: runs_def lua_ret_def)

lemma runs_guard:
  assumes cs: "list_all probe cs" and r: "R r" and k: "passes cs db \<Longrightarrow> runs db R Q k"
  shows "runs db R Q (guard cs r k)"
proof -
  have snd: "snd (any_of cs db) = db" using probe_any_of[OF cs] by (simp add: probe_def)
  show ?thesis
  proof (cases "fst (any_of cs db)")
    case (Inl u)
    with snd have "any_of cs db = (Inl u, db)" by (metis prod.collapse)
    then show ?thesis by (simp add: runs_def guard_def lua_bind_def)
  next
    case (Inr b)
    with snd have eq: "any_of cs db = (Inr b, db)" by (metis prod.collapse)
    show ?thesis
    proof (cases b)
      case True
      with eq r show ?thesis by (simp add: runs_def guard_def lua_bind_def lua_ret_def)
    next
      case False
      with eq have "passes cs db" by (simp add: passes_def)
      from k[OF this] False eq show ?thesis by (simp add: runs_def guard_def lua_bind_def)
    qed
  qed
qed

lemma guard_pass: "passes cs db \<Longrightarrow> guard cs r k db = k db"
  by (simp add: guard_def passes_def lua_bind_def)

lemma runs_bind_probe:
  assumes m: "probe m" and f: "\<And>x. m db = (Inr x, db) \<Longrightarrow> runs db R Q (f x)"
  shows "runs db R Q (lua_bind m f)"
proof -
  have snd: "snd (m db) = db" using m by (simp add: probe_def)
  then obtain y where y: "m db = (y, db)" by (metis prod.collapse)
  show ?thesis using f y by (cases y) (auto simp: runs_def lua_bind_def)
qed

subsection \<open>Rules from the server's laws\<close>

context redis_server
begin

lemma lua_read_eq:
  "is_read c \<Longrightarrow> lua_read S c db = (case read_val db c of None \<Rightarrow> Inl () | Some v \<Rightarrow> Inr v, db)"
  by (cases c)
    (auto simp: lua_read_def lua_call_def lua_bind_def lua_ret_def call_get call_exists call_hget
      call_hexists hash_at_def optional_bulk_def split: option.splits rval.splits)

lemma probe_read [intro]: "is_read c \<Longrightarrow> probe (lua_read S c)"
  by (simp add: probe_def lua_read_eq)

lemma probe_checks [intro, simp]:
  "is_read c \<Longrightarrow> probe (differs S c v)"
  "is_read c \<Longrightarrow> probe (equals S c v)"
  "is_read c \<Longrightarrow> is_read d \<Longrightarrow> probe (differ S c d)"
  "probe p \<Longrightarrow> probe q \<Longrightarrow> probe (both p q)"
  by (auto simp: differs_def equals_def differ_def both_def)

lemma differs_False: "is_read c \<Longrightarrow> differs S c v db = (Inr False, db) \<longleftrightarrow> read_val db c = Some v"
  by (auto simp: differs_def lua_bind_def lua_ret_def lua_read_eq split: option.splits)

lemma differ_False:
  "is_read c \<Longrightarrow> is_read d \<Longrightarrow>
   differ S c d db = (Inr False, db) \<longleftrightarrow> read_val db c \<noteq> None \<and> read_val db d = read_val db c"
  by (auto simp: differ_def lua_bind_def lua_ret_def lua_read_eq split: option.splits)

lemma equals_False:
  "is_read c \<Longrightarrow> equals S c v db = (Inr False, db) \<longleftrightarrow> (\<exists>w. read_val db c = Some w \<and> w \<noteq> v)"
  by (auto simp: equals_def lua_bind_def lua_ret_def lua_read_eq split: option.splits)

lemma passes_differs [read_facts]:
  "is_read c \<Longrightarrow> passes (differs S c v # cs) db \<longleftrightarrow> read_val db c = Some v \<and> passes cs db"
  by (simp add: passes_Cons differs_False)

lemma passes_differ [read_facts]:
  "is_read c \<Longrightarrow> is_read d \<Longrightarrow>
   passes (differ S c d # cs) db \<longleftrightarrow> (\<exists>v. read_val db c = Some v \<and> read_val db d = Some v) \<and> passes cs db"
  by (auto simp: passes_Cons differ_False)

lemma passes_equals [read_facts]:
  "is_read c \<Longrightarrow>
   passes (equals S c v # cs) db \<longleftrightarrow> (\<exists>w. read_val db c = Some w \<and> w \<noteq> v) \<and> passes cs db"
  by (simp add: passes_Cons equals_False)

lemma passes_ret [read_facts]: "passes (lua_ret b # cs) db \<longleftrightarrow> \<not> b \<and> passes cs db"
  by (simp add: passes_Cons) (simp add: lua_ret_def)

lemma runs_read:
  assumes c: "is_read c" and f: "\<And>v. read_val db c = Some v \<Longrightarrow> runs db R Q (f v)"
  shows "runs db R Q (lua_bind (lua_read S c) f)"
  using f by (auto intro!: runs_bind_probe probe_read c simp: lua_read_eq c split: option.splits)

lemma lua_call_exec1:
  assumes "exec1 c db = Some db'"
  shows "\<exists>r. lua_call S c db = (Inr r, db')"
proof (cases c)
  case (HSET k fs)
  with assms obtain h where h: "hash_at db k = Some h" by auto
  obtain n where "redis_call S db (HSET k fs) = (RInt n, put_hash k (hset_all fs h) db)"
    using call_hset[OF h] by blast
  with h HSET assms show ?thesis by (simp add: lua_call_def)
next
  case (HDEL k fs)
  with assms obtain h where h: "hash_at db k = Some h" by auto
  obtain n where "redis_call S db (HDEL k fs) = (RInt n, put_hash k (hdel_all fs h) db)"
    using call_hdel[OF h] by blast
  with h HDEL assms show ?thesis by (simp add: lua_call_def)
qed (use assms in \<open>auto simp: lua_call_def call_set call_setex call_expire call_incr call_decr call_del
       split: option.splits if_splits\<close>)

lemma writes_exec: "exec cs db = Some db' \<Longrightarrow> writes S cs k db = k db'"
proof (induction cs arbitrary: db)
  case (Cons c cs)
  then obtain db1 where 1: "exec1 c db = Some db1" "exec cs db1 = Some db'"
    by (auto simp: bind_eq_Some_conv)
  obtain r where "lua_call S c db = (Inr r, db1)" using lua_call_exec1[OF 1(1)] by blast
  with Cons.IH[OF 1(2)] show ?case by (simp add: lua_bind_def)
qed simp

lemma runs_writes:
  assumes "exec cs db = Some db1" and "\<And>x db2. k db1 = (x, db2) \<Longrightarrow> Q x db2"
  shows "runs db R Q (writes S cs k)"
  using assms by (simp add: runs_def writes_exec)

lemma probe_counters_positive:
  "probe k \<Longrightarrow> probe (counters_positive S cs bad k)"
  by (induction cs) (auto intro!: probe_bind probe_read split: if_splits)

lemma runs_counters_positive:
  assumes "R bad" "runs db R Q k"
  shows "runs db R Q (counters_positive S cs bad k)"
  using assms(2) by (induction cs) (auto intro!: runs_read runs_ret assms(1))

text \<open>Canonical counters: absent is 0, otherwise a decimal integer within the exact range.\<close>

lemma dec_zero: "dec 0 = ''0''"
  by code_simp

lemma number_of_counter:
  assumes "counter_at db c = Some n" "\<bar>n\<bar> \<le> 2 ^ 53"
  shows "\<exists>v. read_val db (GET c) = Some v \<and> number_or S ''0'' v = Some (fint n)"
proof -
  have zero: "lua_tonumber S ''0'' = Some (fint 0)" using tonumber_dec[of 0] by (simp add: dec_zero)
  from assms show ?thesis
    by (auto simp: counter_at_def number_or_def zero undec_SomeD tonumber_dec
        split: option.splits rval.splits dest!: undec_SomeD)
qed

lemma number_of_present:
  assumes "counter_at db c = Some n" "\<bar>n\<bar> \<le> 2 ^ 53" "n \<noteq> 0"
  shows "\<exists>v. read_val db (GET c) = Some v \<and> number_or S [] v = Some (fint n)"
  using assms by (auto simp: counter_at_def number_or_def tonumber_dec
      split: option.splits rval.splits dest!: undec_SomeD)

lemma counters_positive_eval:
  assumes "counter_at db c = Some n" "0 < n" "n \<le> 2 ^ 53"
  shows "counters_positive S (c # cs) bad k db = counters_positive S cs bad k db"
proof -
  obtain v where "read_val db (GET c) = Some v" "number_or S [] v = Some (fint n)"
    using number_of_present[OF assms(1)] assms by auto
  with assms show ?thesis by (simp add: lua_bind_def lua_read_eq bad_count_def)
qed

end

declare read_val.simps [simp del]

end
