(* ===== verification/Ledger_Model.thy ===== *)
theory Ledger_Model
  imports Reservation_Ledger Lua_Rules
begin

text \<open>
  The contract of the reservation ledger: a finite map from tokens to entries (the owner alias and
  the three capacity counters a reservation holds), and the relation \<open>represents\<close> between a keyspace
  and such a map. A represented keyspace has one record per token, one owner alias per record, and
  every counter equal to the number of records that hold it. The lemmas say how the writes of the
  scripts move a represented keyspace: adding, removing, switching and touching a record.
\<close>

subsection \<open>Entries\<close>

record entry =
  e_owner :: string
  e_profile :: string
  e_account :: string
  e_credential :: string

type_synonym ledger = "string \<Rightarrow> entry option"

definition counters :: "entry \<Rightarrow> string set" where
  "counters e = {e_profile e, e_account e, e_credential e}"

definition held :: "ledger \<Rightarrow> string \<Rightarrow> nat" where
  "held L k = card {t. \<exists>e. L t = Some e \<and> k \<in> counters e}"

definition owner_taken :: "ledger \<Rightarrow> string \<Rightarrow> bool" where
  "owner_taken L ow \<longleftrightarrow> (\<exists>t e. L t = Some e \<and> e_owner e = ow)"

lemma finite_holders: "finite (dom L) \<Longrightarrow> finite {t. \<exists>e. L t = Some e \<and> k \<in> counters e}"
  by (rule finite_subset[of _ "dom L"]) auto

lemma held_add:
  assumes "finite (dom L)" "L t = None"
  shows "held (L(t \<mapsto> e)) k = held L k + (if k \<in> counters e then 1 else 0)"
proof -
  have "{u. \<exists>x. (L(t \<mapsto> e)) u = Some x \<and> k \<in> counters x}
      = {u. \<exists>x. L u = Some x \<and> k \<in> counters x} \<union> (if k \<in> counters e then {t} else {})"
    using assms(2) by auto
  then show ?thesis using finite_holders[OF assms(1), of k] assms(2) by (simp add: held_def)
qed

lemma held_remove:
  assumes "finite (dom L)" "L t = Some e"
  shows "held L k = held (L(t := None)) k + (if k \<in> counters e then 1 else 0)"
proof -
  have "held ((L(t := None))(t \<mapsto> e)) k = held (L(t := None)) k + (if k \<in> counters e then 1 else 0)"
    by (rule held_add) (use assms in \<open>auto simp: finite_subset\<close>)
  then show ?thesis using assms(2) by (simp add: fun_upd_idem)
qed

lemma held_pos: "finite (dom L) \<Longrightarrow> L t = Some e \<Longrightarrow> k \<in> counters e \<Longrightarrow> 0 < held L k"
  using held_remove by simp

subsection \<open>Key families\<close>

definition is_record_key :: "string \<Rightarrow> bool" where
  "is_record_key k \<longleftrightarrow> (\<exists>t. k = record_key t)"

definition is_owner_key :: "string \<Rightarrow> bool" where
  "is_owner_key k \<longleftrightarrow> (\<exists>x. k = ''atlas:reservation:v1:owner:'' @ x)"

definition is_profile_key :: "string \<Rightarrow> bool" where
  "is_profile_key k \<longleftrightarrow> (\<exists>x. k = ''profile_connections:'' @ x)"

definition is_account_key :: "string \<Rightarrow> bool" where
  "is_account_key k \<longleftrightarrow> (\<exists>x. k = ''atlas:reservation:v1:account:'' @ x)"

definition is_credential_key :: "string \<Rightarrow> bool" where
  "is_credential_key k \<longleftrightarrow> (\<exists>x. k = ''atlas:reservation:v1:credential:'' @ x)"

definition is_counter_key :: "string \<Rightarrow> bool" where
  "is_counter_key k \<longleftrightarrow> is_profile_key k \<or> is_account_key k \<or> is_credential_key k"

definition is_ledger_key :: "string \<Rightarrow> bool" where
  "is_ledger_key k \<longleftrightarrow> is_record_key k \<or> is_owner_key k \<or> is_counter_key k"

lemmas family_defs =
  is_record_key_def is_owner_key_def is_profile_key_def is_account_key_def is_credential_key_def
  is_counter_key_def is_ledger_key_def record_key_def

definition wf_entry :: "entry \<Rightarrow> bool" where
  "wf_entry e \<longleftrightarrow> is_owner_key (e_owner e) \<and> is_profile_key (e_profile e)
     \<and> is_account_key (e_account e) \<and> is_credential_key (e_credential e)"

lemma record_key_inject [simp]: "record_key t = record_key u \<longleftrightarrow> t = u"
  by (simp add: record_key_def)

lemma families_disjoint [key_simps]:
  "is_owner_key k \<Longrightarrow> k \<noteq> record_key t"
  "is_counter_key k \<Longrightarrow> k \<noteq> record_key t"
  "is_owner_key k \<Longrightarrow> \<not> is_counter_key k"
  "is_profile_key k \<Longrightarrow> is_account_key k' \<Longrightarrow> k \<noteq> k'"
  "is_profile_key k \<Longrightarrow> is_credential_key k' \<Longrightarrow> k \<noteq> k'"
  "is_account_key k \<Longrightarrow> is_credential_key k' \<Longrightarrow> k \<noteq> k'"
  by (auto simp: family_defs)

lemma ledger_keys [simp]:
  "is_ledger_key (record_key t)" "is_owner_key k \<Longrightarrow> is_ledger_key k"
  "is_counter_key k \<Longrightarrow> is_ledger_key k"
  by (auto simp: is_ledger_key_def is_record_key_def)

lemma foreign_keys [simp]:
  "\<not> is_ledger_key (channel_alias_key c)" "\<not> is_ledger_key (channel_owner_key c)"
  "\<not> is_ledger_key (vod_session_key s)" "\<not> is_ledger_key (timeshift_pool_key s)"
  "\<not> is_ledger_key CUTOVER_KEY"
  by (auto simp: family_defs channel_alias_key_def channel_owner_key_def vod_session_key_def
      timeshift_pool_key_def CUTOVER_KEY_def)

lemma counters_distinct:
  assumes "wf_entry e"
  shows "distinct [e_profile e, e_account e, e_credential e]"
  using assms by (auto simp: wf_entry_def dest: families_disjoint(4-6))

lemma counters_wf: "wf_entry e \<Longrightarrow> k \<in> counters e \<Longrightarrow> is_counter_key k"
  by (auto simp: wf_entry_def counters_def is_counter_key_def)

definition entry_of :: "server \<Rightarrow> spec \<Rightarrow> entry" where
  "entry_of S sp = \<lparr>e_owner = owner_key S sp, e_profile = profile_key sp,
     e_account = account_key sp, e_credential = credential_key sp\<rparr>"

lemma spec_key_families [simp]:
  "is_owner_key (owner_key_of S md ow)" "is_owner_key (owner_key S sp)" "is_profile_key (profile_key sp)"
  "is_account_key (account_key sp)" "is_credential_key (credential_key sp)"
  by (auto simp: owner_key_def owner_key_of_def profile_key_def account_key_def credential_key_def
      is_owner_key_def is_profile_key_def is_account_key_def is_credential_key_def)

lemma wf_entry_of [simp]: "wf_entry (entry_of S sp)"
  by (simp add: wf_entry_def entry_of_def)

lemma entry_of_simps [simp]:
  "e_owner (entry_of S sp) = owner_key S sp" "e_profile (entry_of S sp) = profile_key sp"
  "e_account (entry_of S sp) = account_key sp" "e_credential (entry_of S sp) = credential_key sp"
  by (simp_all add: entry_of_def)

subsection \<open>Represented keyspaces\<close>

definition record_matches :: "(string \<times> string) list \<Rightarrow> string \<Rightarrow> entry \<Rightarrow> bool" where
  "record_matches h t e \<longleftrightarrow>
     map_of h ''token'' = Some t \<and> map_of h ''owner'' = Some (e_owner e)
     \<and> map_of h ''profile'' = Some (e_profile e) \<and> map_of h ''account'' = Some (e_account e)
     \<and> map_of h ''credential'' = Some (e_credential e)"

definition record_at :: "keyspace \<Rightarrow> string \<Rightarrow> entry \<Rightarrow> bool" where
  "record_at db t e \<longleftrightarrow>
     wf_entry e \<and> (\<exists>h. db (record_key t) = Some (RHash h) \<and> record_matches h t e)
     \<and> db (e_owner e) = Some (RStr t)"

definition counter_right :: "keyspace \<Rightarrow> ledger \<Rightarrow> string \<Rightarrow> bool" where
  "counter_right db L k \<longleftrightarrow> counter_at db k = Some (int (held L k)) \<and> held L k \<le> 2 ^ 53"

definition represents :: "keyspace \<Rightarrow> ledger \<Rightarrow> bool" where
  "represents db L \<longleftrightarrow>
     finite (dom L)
     \<and> (\<forall>t. L t = None \<longrightarrow> db (record_key t) = None)
     \<and> (\<forall>t e. L t = Some e \<longrightarrow> record_at db t e)
     \<and> (\<forall>ow. is_owner_key ow \<longrightarrow> db ow \<noteq> None \<longrightarrow> owner_taken L ow)
     \<and> (\<forall>k. is_counter_key k \<longrightarrow> counter_right db L k)"

lemma represents_at:
  assumes "represents db L" "L t = Some e"
  shows "record_at db t e"
  using assms unfolding represents_def by blast

lemma represents_hash:
  assumes "represents db L" "L t = Some e"
  obtains h where "db (record_key t) = Some (RHash h)" "record_matches h t e"
  using represents_at[OF assms] unfolding record_at_def by blast

lemma represents_record:
  assumes "represents db L" "L t = Some e"
  shows "wf_entry e" "db (e_owner e) = Some (RStr t)"
    "hfield db (record_key t) ''token'' = Some t" "hfield db (record_key t) ''owner'' = Some (e_owner e)"
    "hfield db (record_key t) ''profile'' = Some (e_profile e)"
    "hfield db (record_key t) ''account'' = Some (e_account e)"
    "hfield db (record_key t) ''credential'' = Some (e_credential e)"
  using represents_at[OF assms] by (auto simp: record_at_def record_matches_def hfield_def)

lemma represents_simps:
  assumes "represents db L"
  shows "finite (dom L)" "L t = None \<longleftrightarrow> db (record_key t) = None"
    "is_owner_key ow \<Longrightarrow> db ow = None \<longleftrightarrow> \<not> owner_taken L ow"
    "is_counter_key k \<Longrightarrow> counter_at db k = Some (int (held L k))"
    "is_counter_key k \<Longrightarrow> held L k \<le> 2 ^ 53"
proof -
  have "L t = None \<Longrightarrow> db (record_key t) = None"
    using assms unfolding represents_def by blast
  moreover have "L t = Some e \<Longrightarrow> db (record_key t) \<noteq> None" for e
    using represents_at[OF assms, of t e] by (auto simp: record_at_def)
  ultimately show "L t = None \<longleftrightarrow> db (record_key t) = None" by (cases "L t") auto
  show "is_owner_key ow \<Longrightarrow> db ow = None \<longleftrightarrow> \<not> owner_taken L ow"
    using assms represents_record(2)[OF assms] unfolding represents_def owner_taken_def by fastforce
qed (use assms in \<open>simp_all add: represents_def counter_right_def\<close>)

text \<open>A passed ownership check names an entry of the ledger.\<close>

lemma represents_found:
  assumes "represents db L" "hfield db (record_key t) f = Some v"
  obtains e where "L t = Some e"
  using assms represents_simps(2)[OF assms(1), of t] by (cases "L t") (auto simp: hfield_def)

lemma represents_owner_unique:
  assumes "represents db L" "L t = Some e" "L u = Some e'" "e_owner e = e_owner e'"
  shows "t = u"
  using represents_record(2)[OF assms(1,2)] represents_record(2)[OF assms(1,3)] assms(4) by simp

lemma represents_frame:
  assumes "represents db L" "\<And>k. is_ledger_key k \<Longrightarrow> db' k = db k"
  shows "represents db' L"
proof -
  have eq: "db' (record_key t) = db (record_key t)" "is_owner_key k \<Longrightarrow> db' k = db k"
    "is_counter_key k \<Longrightarrow> counter_at db' k = counter_at db k" for t k
    using assms(2) by (simp_all add: counter_at_def)
  have "record_at db' t e \<longleftrightarrow> record_at db t e" for t e
    using eq(1) eq(2)[of "e_owner e"] by (auto simp: record_at_def wf_entry_def)
  with assms(1) eq show ?thesis by (simp add: represents_def counter_right_def)
qed

text \<open>The general update of one token.\<close>

lemma represents_update:
  assumes rep: "represents db L"
    and frame: "\<And>k. is_record_key k \<or> is_owner_key k \<Longrightarrow> k \<notin> touched \<Longrightarrow> db' k = db k"
    and touched: "touched \<subseteq> {record_key t, ow}"
    and old: "\<And>e. L t = Some e \<Longrightarrow> e_owner e = ow"
    and free: "L t = None \<Longrightarrow> \<not> owner_taken L ow"
    and owner: "is_owner_key ow"
    and new: "case x of None \<Rightarrow> db' (record_key t) = None \<and> db' ow = None
                | Some e \<Rightarrow> e_owner e = ow \<and> record_at db' t e"
    and count: "\<And>k. is_counter_key k \<Longrightarrow> counter_right db' (L(t := x)) k"
  shows "represents db' (L(t := x))"
proof -
  have other: "db' (record_key u) = db (record_key u)" if "u \<noteq> t" for u
  proof -
    have "record_key u \<notin> touched" using that touched families_disjoint(1)[OF owner, of u] by auto
    then show ?thesis using frame[of "record_key u"] by (auto simp: is_record_key_def)
  qed
  have aliases: "db' k = db k" if "is_owner_key k" "k \<noteq> ow" for k
  proof -
    have "k \<notin> touched" using that touched families_disjoint(1)[OF that(1), of t] by auto
    then show ?thesis using frame[of k] that(1) by simp
  qed
  have alone: "e_owner e \<noteq> ow" if u: "L u = Some e" "u \<noteq> t" for u e
  proof
    assume ow: "e_owner e = ow"
    show False
    proof (cases "L t")
      case None
      from free[OF None] u ow show False by (auto simp: owner_taken_def)
    next
      case (Some e')
      from old[OF Some] ow represents_owner_unique[OF rep u(1) Some] u(2) show False by simp
    qed
  qed
  have keep: "record_at db' u e" if u: "L u = Some e" "u \<noteq> t" for u e
  proof -
    have rec: "record_at db u e" using rep u(1) by (simp add: represents_def)
    then have "is_owner_key (e_owner e)" by (simp add: record_at_def wf_entry_def)
    with rec show ?thesis
      using other[OF u(2)] aliases[of "e_owner e"] alone[OF u] by (simp add: record_at_def)
  qed
  have taken: "owner_taken (L(t := x)) k" if k: "is_owner_key k" "db' k \<noteq> None" for k
  proof (cases "k = ow")
    case True
    with k new show ?thesis by (cases x) (auto simp: owner_taken_def)
  next
    case False
    with k have "db k \<noteq> None" by (simp add: aliases)
    then obtain u e where u: "L u = Some e" "e_owner e = k"
      using represents_simps(3)[OF rep k(1)] by (auto simp: owner_taken_def)
    with False old have "u \<noteq> t" by auto
    with u show ?thesis by (auto simp: owner_taken_def)
  qed
  show ?thesis
    unfolding represents_def
  proof (intro conjI allI impI)
    show "finite (dom (L(t := x)))" using represents_simps(1)[OF rep] by simp
  next
    fix u assume "(L(t := x)) u = None"
    then show "db' (record_key u) = None"
      using new other[of u] represents_simps(2)[OF rep, of u] by (cases "u = t") auto
  next
    fix u e assume "(L(t := x)) u = Some e"
    then show "record_at db' u e" using new keep by (cases "u = t") auto
  qed (use taken count in blast)+
qed

end
