(* ===== verification/Ledger_Effects.thy ===== *)
theory Ledger_Effects
  imports Ledger_Model
begin

text \<open>
  What the writes of the ledger scripts do to a represented keyspace: a batch of counter moves, and
  the four changes of a record - added with its owner alias, removed with it, switched to other
  counters, or touched outside its identity fields.
\<close>

subsection \<open>Batches of counter moves\<close>

definition bump_cmds :: "(string \<times> int) list \<Rightarrow> command list" where
  "bump_cmds kds = map (\<lambda>(k, d). if d = 1 then INCR k else DECR k) kds"

definition tally :: "(string \<times> int) list \<Rightarrow> string \<Rightarrow> int" where
  "tally kds k = (case map_of kds k of None \<Rightarrow> 0 | Some d \<Rightarrow> d)"

definition movable :: "keyspace \<Rightarrow> string \<times> int \<Rightarrow> bool" where
  "movable db = (\<lambda>(k, d). (d = 1 \<or> d = - 1) \<and> (\<exists>n. counter_at db k = Some n \<and> \<bar>n\<bar> \<le> 2 ^ 53))"

lemma counter_at_upd:
  "counter_at (db(k \<mapsto> RStr s)) k' = (if k' = k then undec s else counter_at db k')"
  by (simp add: counter_at_def)

lemma exec_bumps:
  assumes "distinct (map fst kds)" "list_all (movable db) kds"
  shows "\<exists>db1. exec (bump_cmds kds) db = Some db1 \<and> (\<forall>k. k \<notin> fst ` set kds \<longrightarrow> db1 k = db k)
    \<and> (\<forall>k n. counter_at db k = Some n \<longrightarrow> counter_at db1 k = Some (n + tally kds k))"
  using assms
proof (induction kds arbitrary: db)
  case Nil
  show ?case by (simp add: bump_cmds_def tally_def)
next
  case (Cons kd kds)
  obtain k d where kd: "kd = (k, d)" by force
  from Cons.prems(2) kd obtain n where d: "d = 1 \<or> d = - 1" and n: "counter_at db k = Some n" "\<bar>n\<bar> \<le> 2 ^ 53"
    by (auto simp: movable_def)
  let ?db = "db(k \<mapsto> RStr (dec (n + d)))"
  have bounds: "int64 n" "int64 (n + d)" using n(2) d by (auto simp: int64_def)
  have first: "exec1 (if d = 1 then INCR k else DECR k) db = Some ?db"
    using d n(1) bounds by auto
  have dist: "distinct (map fst kds)" "k \<notin> fst ` set kds" using Cons.prems(1) kd by auto
  have "movable ?db kd'" if kd': "kd' \<in> set kds" for kd'
  proof -
    have "fst kd' \<noteq> k" using dist(2) kd' by (metis image_eqI)
    moreover have "movable db kd'" using Cons.prems(2) kd' by (simp add: list_all_iff)
    ultimately show ?thesis by (cases kd') (simp add: movable_def counter_at_upd)
  qed
  then have "list_all (movable ?db) kds" by (simp add: list_all_iff)
  from Cons.IH[OF dist(1) this] obtain db1 where db1: "exec (bump_cmds kds) ?db = Some db1"
      "\<forall>k. k \<notin> fst ` set kds \<longrightarrow> db1 k = ?db k"
      "\<forall>k n. counter_at ?db k = Some n \<longrightarrow> counter_at db1 k = Some (n + tally kds k)" by blast
  have "map_of kds k = None" using dist(2) by (simp add: map_of_eq_None_iff)
  then have tally: "tally (kd # kds) k' = (if k' = k then d else tally kds k')" "tally kds k = 0" for k'
    by (auto simp: tally_def kd)
  have count: "counter_at db1 k' = Some (m + tally (kd # kds) k')" if m: "counter_at db k' = Some m" for k' m
  proof (cases "k' = k")
    case True
    have "counter_at db1 k = Some (n + d + tally kds k)"
      using db1(3) by (simp add: counter_at_upd)
    with True m n(1) tally show ?thesis by simp
  next
    case False
    with m have "counter_at ?db k' = Some m" by (simp add: counter_at_upd)
    with db1(3) False tally show ?thesis by simp
  qed
  have "exec (bump_cmds (kd # kds)) db = Some db1"
    using first db1(1) by (simp add: bump_cmds_def kd)
  moreover have "db1 k' = db k'" if "k' \<notin> fst ` set (kd # kds)" for k'
    using that db1(2)[rule_format, of k'] kd by auto
  ultimately show ?case using count by blast
qed

lemma exec_counter_moves:
  assumes rep: "represents db L" and dist: "distinct (map fst kds)"
    and keys: "\<And>k d. (k, d) \<in> set kds \<Longrightarrow> is_counter_key k \<and> (d = 1 \<or> d = - 1)"
  obtains db1 where "exec (bump_cmds kds) db = Some db1"
    "\<And>k. \<not> is_counter_key k \<Longrightarrow> db1 k = db k"
    "\<And>k. is_counter_key k \<Longrightarrow> counter_at db1 k = Some (int (held L k) + tally kds k)"
proof -
  have "movable db (k, d)" if "(k, d) \<in> set kds" for k d
    using keys[OF that] represents_simps(4,5)[OF rep, of k] by (auto simp: movable_def)
  then have "list_all (movable db) kds" by (auto simp: list_all_iff)
  from exec_bumps[OF dist this] obtain db1 where db1: "exec (bump_cmds kds) db = Some db1"
      "\<forall>k. k \<notin> fst ` set kds \<longrightarrow> db1 k = db k"
      "\<forall>k n. counter_at db k = Some n \<longrightarrow> counter_at db1 k = Some (n + tally kds k)" by blast
  show thesis
  proof (rule that[OF db1(1)])
    show "db1 k = db k" if "\<not> is_counter_key k" for k using that keys db1(2)[rule_format, of k] by force
    show "is_counter_key k \<Longrightarrow> counter_at db1 k = Some (int (held L k) + tally kds k)" for k
      using db1(3) represents_simps(4)[OF rep] by blast
  qed
qed

subsection \<open>Adding a record\<close>

definition counter_ups :: "entry \<Rightarrow> (string \<times> int) list" where
  "counter_ups e = [(e_profile e, 1), (e_account e, 1), (e_credential e, 1)]"

definition counter_downs :: "entry \<Rightarrow> (string \<times> int) list" where
  "counter_downs e = [(e_profile e, - 1), (e_account e, - 1), (e_credential e, - 1)]"

lemma tally_ups: "tally (counter_ups e) k = (if k \<in> counters e then 1 else 0)"
  by (auto simp: tally_def counter_ups_def counters_def)

lemma tally_downs: "tally (counter_downs e) k = (if k \<in> counters e then - 1 else 0)"
  by (auto simp: tally_def counter_downs_def counters_def)

lemma counter_list_keys:
  assumes "wf_entry e"
  shows "distinct (map fst (counter_ups e))" "distinct (map fst (counter_downs e))"
    "(k, d) \<in> set (counter_ups e) \<Longrightarrow> is_counter_key k \<and> (d = 1 \<or> d = - 1)"
    "(k, d) \<in> set (counter_downs e) \<Longrightarrow> is_counter_key k \<and> (d = 1 \<or> d = - 1)"
  using counters_distinct[OF assms] counters_wf[OF assms, of k]
  by (auto simp: counter_ups_def counter_downs_def counters_def)

lemma put_hash_simps [simp]:
  "h \<noteq> [] \<Longrightarrow> put_hash k h db = db(k \<mapsto> RHash h)"
  "k' \<noteq> k \<Longrightarrow> put_hash k h db k' = db k'"
  by (simp_all add: put_hash_def)

lemma exec_add:
  assumes rep: "represents db L" and e: "wf_entry e" "L t = None" "\<not> owner_taken L (e_owner e)"
    and room: "\<And>k. k \<in> counters e \<Longrightarrow> held L k < 2 ^ 53"
    and fs: "record_matches (hset_all fs []) t e" "fs \<noteq> []"
  obtains db1 where
    "exec [INCR (e_profile e), INCR (e_account e), INCR (e_credential e), HSET (record_key t) fs,
           SET (e_owner e) t] db = Some db1"
    "represents db1 (L(t \<mapsto> e))" "\<And>k. \<not> is_ledger_key k \<Longrightarrow> db1 k = db k"
    "db1 (record_key t) = Some (RHash (hset_all fs []))"
proof -
  obtain db0 where db0: "exec (bump_cmds (counter_ups e)) db = Some db0"
      "\<And>k. \<not> is_counter_key k \<Longrightarrow> db0 k = db k"
      "\<And>k. is_counter_key k \<Longrightarrow> counter_at db0 k = Some (int (held L k) + tally (counter_ups e) k)"
    by (rule exec_counter_moves[OF rep counter_list_keys(1)[OF e(1)] counter_list_keys(3)[OF e(1)]]) auto
  let ?db = "db0(record_key t \<mapsto> RHash (hset_all fs []), e_owner e \<mapsto> RStr t)"
  have owner: "is_owner_key (e_owner e)" using e(1) by (simp add: wf_entry_def)
  have not_counter: "\<not> is_counter_key (record_key t)" "\<not> is_counter_key (e_owner e)"
    "e_owner e \<noteq> record_key t"
    using families_disjoint(1,3)[OF owner] families_disjoint(2)[of "record_key t" t] by auto
  have "db0 (record_key t) = None"
    using db0(2)[OF not_counter(1)] represents_simps(2)[OF rep] e(2) by simp
  then have "hash_at db0 (record_key t) = Some []" by (simp add: hash_at_def)
  then have ex: "exec [INCR (e_profile e), INCR (e_account e), INCR (e_credential e),
      HSET (record_key t) fs, SET (e_owner e) t] db = Some ?db"
    using db0(1) hset_all_nonempty[OF fs(2), of "[]"]
    by (auto simp: bump_cmds_def counter_ups_def bind_eq_Some_conv)
  have count: "counter_right ?db (L(t \<mapsto> e)) k" if k: "is_counter_key k" for k
  proof -
    have "k \<noteq> record_key t" "k \<noteq> e_owner e" using k not_counter by auto
    then have "counter_at ?db k = Some (int (held L k) + tally (counter_ups e) k)"
      using db0(3)[OF k] by (simp add: counter_at_def)
    then show ?thesis
      using held_add[OF represents_simps(1)[OF rep] e(2), of e k] room[of k] represents_simps(5)[OF rep k]
      by (auto simp: counter_right_def tally_ups)
  qed
  have "represents ?db (L(t := Some e))"
  proof (rule represents_update[OF rep, where ow = "e_owner e" and touched = "{record_key t, e_owner e}"])
    fix k assume "is_record_key k \<or> is_owner_key k" "k \<notin> {record_key t, e_owner e}"
    moreover from this have "\<not> is_counter_key k"
      using families_disjoint(2,3) by (auto simp: is_record_key_def)
    ultimately show "?db k = db k" using db0(2) by simp
  next
    show "case Some e of None \<Rightarrow> ?db (record_key t) = None \<and> ?db (e_owner e) = None
      | Some e' \<Rightarrow> e_owner e' = e_owner e \<and> record_at ?db t e'"
      using not_counter fs(1) e(1) by (simp add: record_at_def)
  qed (use e owner count in auto)
  moreover have "?db k = db k" if "\<not> is_ledger_key k" for k
    using that db0(2)[of k] ledger_keys(1)[of t] ledger_keys(2)[OF owner] ledger_keys(3)[of k] by auto
  ultimately show thesis using that[of ?db] ex not_counter(3) by simp
qed

subsection \<open>Removing a record\<close>

lemma exec_remove:
  assumes rep: "represents db L" and t: "L t = Some e"
    and ks: "set ks = insert (record_key t) (insert (e_owner e) foreign)" "\<And>k. k \<in> foreign \<Longrightarrow> \<not> is_ledger_key k"
  obtains db1 where
    "exec [DECR (e_profile e), DECR (e_account e), DECR (e_credential e), DEL ks] db = Some db1"
    "represents db1 (L(t := None))" "\<And>k. \<not> is_ledger_key k \<Longrightarrow> k \<notin> foreign \<Longrightarrow> db1 k = db k"
    "\<And>k. k \<in> foreign \<Longrightarrow> db1 k = None"
proof -
  note e = represents_record[OF rep t]
  obtain db0 where db0: "exec (bump_cmds (counter_downs e)) db = Some db0"
      "\<And>k. \<not> is_counter_key k \<Longrightarrow> db0 k = db k"
      "\<And>k. is_counter_key k \<Longrightarrow> counter_at db0 k = Some (int (held L k) + tally (counter_downs e) k)"
    by (rule exec_counter_moves[OF rep counter_list_keys(2)[OF e(1)] counter_list_keys(4)[OF e(1)]]) auto
  let ?db = "del_keys ks db0"
  have owner: "is_owner_key (e_owner e)" using e(1) by (simp add: wf_entry_def)
  have ex: "exec [DECR (e_profile e), DECR (e_account e), DECR (e_credential e), DEL ks] db = Some ?db"
    using db0(1) by (auto simp: bump_cmds_def counter_downs_def bind_eq_Some_conv)
  have deleted: "k \<in> set ks \<longleftrightarrow> k = record_key t \<or> k = e_owner e" if "is_ledger_key k" for k
    using ks that by auto
  have count: "counter_right ?db (L(t := None)) k" if k: "is_counter_key k" for k
  proof -
    have "k \<notin> set ks"
      using k deleted[of k] families_disjoint(2)[OF k, of t] families_disjoint(3)[OF owner] by auto
    then have "counter_at ?db k = Some (int (held L k) + tally (counter_downs e) k)"
      using db0(3)[OF k] by (simp add: counter_at_def del_keys_def)
    then show ?thesis
      using held_remove[OF represents_simps(1)[OF rep] t, of k] represents_simps(5)[OF rep k]
      by (auto simp: counter_right_def tally_downs)
  qed
  have "represents ?db (L(t := None))"
  proof (rule represents_update[OF rep, where ow = "e_owner e" and touched = "{record_key t, e_owner e}"])
    fix k assume k: "is_record_key k \<or> is_owner_key k" "k \<notin> {record_key t, e_owner e}"
    then have "\<not> is_counter_key k" "k \<notin> set ks"
      using families_disjoint(2,3) deleted[of k] by (auto simp: is_record_key_def)
    then show "?db k = db k" using db0(2) by (simp add: del_keys_def)
  qed (use t ks owner count in \<open>auto simp: del_keys_def\<close>)
  moreover have "?db k = db k" if "\<not> is_ledger_key k" "k \<notin> foreign" for k
    using that db0(2)[of k] ledger_keys(1)[of t] ledger_keys(2)[OF owner] ledger_keys(3)[of k] ks(1)
    by (auto simp: del_keys_def)
  moreover have "?db k = None" if "k \<in> foreign" for k using that ks(1) by (simp add: del_keys_def)
  ultimately show thesis using that[of ?db] ex by simp
qed

subsection \<open>Switching and touching a record\<close>

lemma represents_rewrite:
  assumes rep: "represents db L" and t: "L t = Some e" and e': "wf_entry e'" "e_owner e' = e_owner e"
    and rec: "db' (record_key t) = Some (RHash h)" "record_matches h t e'"
    and frame: "\<And>k. \<not> is_counter_key k \<Longrightarrow> is_ledger_key k \<Longrightarrow> k \<noteq> record_key t \<Longrightarrow> db' k = db k"
    and count: "\<And>k. is_counter_key k \<Longrightarrow> counter_right db' (L(t \<mapsto> e')) k"
  shows "represents db' (L(t \<mapsto> e'))"
proof -
  note e = represents_record[OF rep t]
  have owner: "is_owner_key (e_owner e)" using e(1) by (simp add: wf_entry_def)
  have keep: "db' k = db k" if "is_record_key k \<or> is_owner_key k" "k \<notin> {record_key t}" for k
  proof (rule frame)
    show "\<not> is_counter_key k"
      using that families_disjoint(2,3) by (auto simp: is_record_key_def)
    show "is_ledger_key k" using that by (auto simp: is_ledger_key_def)
  qed (use that in simp)
  have "db' (e_owner e) = Some (RStr t)"
    using keep[of "e_owner e"] owner e(2) families_disjoint(1)[OF owner] by simp
  then have "record_at db' t e'" using rec e' by (simp add: record_at_def)
  then have "represents db' (L(t := Some e'))"
    by (intro represents_update[OF rep keep, where ow = "e_owner e"])
      (use t e' owner count in auto)
  then show ?thesis .
qed

lemma represents_touch:
  assumes rep: "represents db L" and t: "L t = Some e"
    and rec: "db' (record_key t) = Some (RHash h)" "record_matches h t e"
    and frame: "\<And>k. is_ledger_key k \<Longrightarrow> k \<noteq> record_key t \<Longrightarrow> db' k = db k"
  shows "represents db' L"
proof -
  have "counter_right db' L k" if k: "is_counter_key k" for k
    using frame[of k] k families_disjoint(2)[OF k, of t] represents_simps(4,5)[OF rep k]
    by (simp add: counter_right_def counter_at_def)
  moreover have "L(t \<mapsto> e) = L" using t by auto
  moreover have "represents db' (L(t \<mapsto> e))" if "L(t \<mapsto> e) = L"
    by (rule represents_rewrite[where db = db and e = e and h = h])
      (use rep t rec represents_record(1)[OF rep t] frame calculation that in auto)
  ultimately show ?thesis by simp
qed

definition switch_pairs :: "entry \<Rightarrow> entry \<Rightarrow> (string \<times> string) list" where
  "switch_pairs e e' = [(e_profile e', e_profile e), (e_account e', e_account e), (e_credential e', e_credential e)]"

definition switch_moves :: "entry \<Rightarrow> entry \<Rightarrow> (string \<times> int) list" where
  "switch_moves e e' =
     concat (map (\<lambda>(new, old). if new = old then [] else [(new, 1), (old, - 1)]) (switch_pairs e e'))"

lemma move_counters_bumps: "move_counters (switch_pairs e e') = bump_cmds (switch_moves e e')"
  by (simp add: move_counters_def moved_def switch_moves_def bump_cmds_def switch_pairs_def)

lemma switch_keys_distinct:
  assumes "wf_entry e" "wf_entry e'"
  shows "e_profile e \<noteq> e_account e'" "e_profile e \<noteq> e_credential e'" "e_account e \<noteq> e_credential e'"
  using assms families_disjoint(4-6) by (auto simp: wf_entry_def)

lemma switch_moves_ok:
  assumes e: "wf_entry e" "wf_entry e'"
  shows "distinct (map fst (switch_moves e e'))"
    and "(k, d) \<in> set (switch_moves e e') \<Longrightarrow> is_counter_key k \<and> (d = 1 \<or> d = - 1)"
    and "tally (switch_moves e e') k =
      (if k \<in> counters e' then 1 else 0) - (if k \<in> counters e then 1 else 0)"
proof -
  note ne = switch_keys_distinct[OF e] switch_keys_distinct[OF e(2,1)]
    switch_keys_distinct[OF e(1,1)] switch_keys_distinct[OF e(2,2)]
  note ne = ne ne[symmetric]
  show "distinct (map fst (switch_moves e e'))"
    using ne by (simp add: switch_moves_def switch_pairs_def)
  show "(k, d) \<in> set (switch_moves e e') \<Longrightarrow> is_counter_key k \<and> (d = 1 \<or> d = - 1)"
    using counters_wf[OF e(1), of k] counters_wf[OF e(2), of k]
    by (auto simp: switch_moves_def switch_pairs_def counters_def split: if_splits)
  show "tally (switch_moves e e') k =
      (if k \<in> counters e' then 1 else 0) - (if k \<in> counters e then 1 else 0)"
    using ne by (auto simp: tally_def switch_moves_def switch_pairs_def counters_def)
qed

lemma held_switch:
  assumes "finite (dom L)" "L t = Some e"
  shows "int (held (L(t \<mapsto> e')) k) =
    int (held L k) + (if k \<in> counters e' then 1 else 0) - (if k \<in> counters e then 1 else 0)"
proof -
  have "held ((L(t := None))(t \<mapsto> e')) k = held (L(t := None)) k + (if k \<in> counters e' then 1 else 0)"
    by (rule held_add) (use assms in \<open>auto intro: finite_subset[of _ "dom L"]\<close>)
  then show ?thesis using held_remove[OF assms, of k] by (auto split: if_splits)
qed

lemma exec_switch_counters:
  assumes rep: "represents db L" and t: "L t = Some e" and e': "wf_entry e'"
    and room: "\<And>k. k \<in> counters e' - counters e \<Longrightarrow> held L k < 2 ^ 53"
  obtains db1 where "exec (move_counters (switch_pairs e e')) db = Some db1"
    "\<And>k. \<not> is_counter_key k \<Longrightarrow> db1 k = db k"
    "\<And>k. is_counter_key k \<Longrightarrow> counter_right db1 (L(t \<mapsto> e')) k"
proof -
  note ok = switch_moves_ok[OF represents_record(1)[OF rep t] e']
  obtain db1 where db1: "exec (bump_cmds (switch_moves e e')) db = Some db1"
      "\<And>k. \<not> is_counter_key k \<Longrightarrow> db1 k = db k"
      "\<And>k. is_counter_key k \<Longrightarrow> counter_at db1 k = Some (int (held L k) + tally (switch_moves e e') k)"
    by (rule exec_counter_moves[OF rep ok(1) ok(2)]) auto
  have "counter_right db1 (L(t \<mapsto> e')) k" if k: "is_counter_key k" for k
  proof -
    have eq: "counter_at db1 k = Some (int (held (L(t \<mapsto> e')) k))"
      using db1(3)[OF k] held_switch[OF represents_simps(1)[OF rep] t, of e' k] ok(3)[of k] by simp
    have "held (L(t \<mapsto> e')) k \<le> 2 ^ 53"
      using held_switch[OF represents_simps(1)[OF rep] t, of e' k] represents_simps(5)[OF rep k] room[of k]
      by (auto split: if_splits)
    with eq show ?thesis by (simp add: counter_right_def)
  qed
  with db1 show thesis using that[of db1] by (simp add: move_counters_bumps)
qed

definition identity_fields :: "string set" where
  "identity_fields = {''token'', ''owner'', ''profile'', ''account'', ''credential''}"

lemma identity_fields_mem:
  "''token'' \<in> identity_fields" "''owner'' \<in> identity_fields" "''profile'' \<in> identity_fields"
  "''account'' \<in> identity_fields" "''credential'' \<in> identity_fields"
  by (simp_all add: identity_fields_def)

definition keeps_identity :: "(string \<times> string) list \<Rightarrow> bool" where
  "keeps_identity fs \<longleftrightarrow> list_all (\<lambda>(f, _). f \<notin> identity_fields) fs"

lemma keeps_identity_simps [simp]:
  "keeps_identity []" "keeps_identity ((f, v) # fs) \<longleftrightarrow> f \<notin> identity_fields \<and> keeps_identity fs"
  by (simp_all add: keeps_identity_def)

lemma keeps_identity_lookup:
  assumes "keeps_identity fs" "f \<in> identity_fields"
  shows "map_of fs f = None" "map_of (rev fs) f = None"
proof -
  have "f \<notin> fst ` set fs" using assms by (force simp: keeps_identity_def list_all_iff)
  then show "map_of fs f = None" "map_of (rev fs) f = None" by (simp_all add: map_of_eq_None_iff)
qed

lemma record_hash_update:
  assumes "record_matches h t e" "keeps_identity fs"
  shows "record_matches (hset_all fs h) t e"
  using assms(1) keeps_identity_lookup(2)[OF assms(2)]
  by (simp add: record_matches_def hset_all_lookup map_add_def identity_fields_mem)

lemma record_matches_nonempty [simp]: "record_matches h t e \<Longrightarrow> h \<noteq> []"
  by (auto simp: record_matches_def)

lemma hash_at_simps [simp]:
  "hash_at (db(k \<mapsto> RHash h)) k = Some h" "k' \<noteq> k \<Longrightarrow> hash_at (db(k := x)) k' = hash_at db k'"
  by (simp_all add: hash_at_def)

text \<open>Writing fields of one hash key leaves every other key alone.\<close>

lemma exec_hash_frame:
  assumes "exec cs db = Some db1" "\<forall>c\<in>set cs. (\<exists>fs. c = HSET k fs) \<or> (\<exists>fs. c = HDEL k fs)" "k' \<noteq> k"
  shows "db1 k' = db k'"
  using assms
proof (induction cs arbitrary: db)
  case (Cons c cs)
  then obtain db0 where db0: "exec1 c db = Some db0" "exec cs db0 = Some db1" by (auto simp: bind_eq_Some_conv)
  from Cons.prems(2) have "(\<exists>fs. c = HSET k fs) \<or> (\<exists>fs. c = HDEL k fs)" by simp
  then have "db0 k' = db k'"
    by (elim disjE exE) (use db0(1) Cons.prems(3) in \<open>simp_all add: put_hash_def split: if_splits\<close>, force+)
  with Cons.IH[OF db0(2)] Cons.prems show ?case by simp
qed simp


text \<open>
  Reserving capacity, refined: on a represented keyspace \<open>reserve\<close> computes the abstract admission
  decision \<open>admission\<close> and adds exactly the new entry to the ledger.
\<close>

subsection \<open>The admission decision\<close>

definition cutover :: "keyspace \<Rightarrow> ledger_exn + unit" where
  "cutover db = (case db CUTOVER_KEY of
      Some (RHash _) \<Rightarrow> Inl RedisError
    | Some (RStr s) \<Rightarrow> require (s = ''ledger'') ReservationError
    | None \<Rightarrow> Inl ReservationError)"

definition spec_limits :: "spec \<Rightarrow> (string \<times> int) list" where
  "spec_limits sp = [(profile_key sp, profile_capacity sp), (account_key sp, account_capacity sp),
     (credential_key sp, credential_capacity sp)]"

definition full :: "ledger \<Rightarrow> (string \<times> int) list \<Rightarrow> bool" where
  "full L limits \<longleftrightarrow> list_ex (\<lambda>(k, cap). cap \<le> int (held L k)) limits"

definition admission :: "ledger \<Rightarrow> string \<Rightarrow> entry \<Rightarrow> (string \<times> int) list \<Rightarrow> ledger_exn + int" where
  "admission L t e limits =
     (if owner_taken L (e_owner e) \<or> L t \<noteq> None then Inl ReservationBusy
      else if full L limits then Inl ReservationFull
      else Inr (int (held L (e_profile e)) + 1))"

definition admitted :: "ledger \<Rightarrow> string \<Rightarrow> entry \<Rightarrow> ledger_exn + int \<Rightarrow> ledger" where
  "admitted L t e r = (case r of Inl _ \<Rightarrow> L | Inr _ \<Rightarrow> L(t \<mapsto> e))"

definition exact_capacities :: "spec \<Rightarrow> bool" where
  "exact_capacities sp \<longleftrightarrow> list_all (\<lambda>(_, c). 1 \<le> c \<and> c \<le> 2 ^ 53) (spec_limits sp)"

lemma counters_entry_of [simp]:
  "counters (entry_of S sp) = {profile_key sp, account_key sp, credential_key sp}"
  by (simp add: counters_def)

lemma room_of_limits:
  assumes "\<not> full L (spec_limits sp)" "exact_capacities sp" "k \<in> {profile_key sp, account_key sp, credential_key sp}"
  shows "held L k < 2 ^ 53"
  using assms by (auto simp: full_def spec_limits_def exact_capacities_def)

subsection \<open>Forward evaluation\<close>

lemma guard_Nil [simp]: "guard [] r k = k"
  by (simp add: guard_def lua_bind_def lua_ret_def fun_eq_iff)

context redis_server
begin

lemma guard_differs:
  "is_read c \<Longrightarrow> guard (differs S c v # cs) r k db =
     (case read_val db c of None \<Rightarrow> (Inl (), db)
      | Some w \<Rightarrow> if w \<noteq> v then (Inr r, db) else guard cs r k db)"
  by (simp add: guard_def differs_def lua_bind_def lua_ret_def lua_read_eq split: option.split)

lemma lua_bind_read:
  "is_read c \<Longrightarrow> read_val db c = Some v \<Longrightarrow> lua_bind (lua_read S c) f db = f v db"
  by (simp add: lua_bind_def lua_read_eq)

lemma capacity_free_eval:
  assumes "counter_at db c = Some n" "0 \<le> n" "n \<le> 2 ^ 53" "1 \<le> cap" "cap \<le> 2 ^ 53"
  shows "capacity_free S ((c, dec cap) # rest) k db =
    (if cap \<le> n then (Inr (arr2 (- 1) n), db) else capacity_free S rest k db)"
proof -
  have "\<bar>n\<bar> \<le> 2 ^ 53" "\<bar>cap\<bar> \<le> 2 ^ 53" using assms by auto
  moreover obtain v where "read_val db (GET c) = Some v" "number_or S ''0'' v = Some (fint n)"
    using number_of_counter[OF assms(1)] \<open>\<bar>n\<bar> \<le> 2 ^ 53\<close> by auto
  ultimately show ?thesis
    using assms by (simp add: lua_bind_read tonumber_dec to_int_fint bad_count_def bad_limit_def lua_ret_def)
qed

lemma count_reply_eval:
  assumes "counter_at db k = Some n" "n \<noteq> 0" "\<bar>n\<bar> \<le> 2 ^ 53"
  shows "count_reply S k db = (Inr (arr2 1 n), db)"
proof -
  from assms(1,2) have "db k = Some (RStr (dec n))"
    by (auto simp: counter_at_def split: option.splits rval.splits dest: undec_SomeD)
  with assms(3) show ?thesis
    by (simp add: count_reply_def lua_bind_read read_val.simps lua_ret_def tonumber_dec to_int_fint)
qed

lemma ledger_guard:
  "guard [ledger_off S CUTOVER_KEY] r k db =
     (case cutover db of
        Inr _ \<Rightarrow> k db
      | Inl e \<Rightarrow> if e = RedisError then (Inl (), db) else (Inr r, db))"
  by (simp add: guard_differs read_val.simps cutover_def require_def split: option.split rval.split)

text \<open>A list of counters against canonical limits.\<close>

lemma limits_eval:
  assumes rep: "represents db L"
    and ok: "list_all (\<lambda>(k, c). is_counter_key k \<and> 1 \<le> c \<and> c \<le> 2 ^ 53) limits"
  shows "\<exists>n. capacity_free S (map (\<lambda>(k, c). (k, dec c)) limits) K db =
    (if full L limits then (Inr (arr2 (- 1) n), db) else K db)"
  using ok
proof (induction limits)
  case (Cons kc limits)
  obtain k c where kc: "kc = (k, c)" by force
  with Cons.prems have k: "is_counter_key k" and c: "1 \<le> c" "c \<le> 2 ^ 53" by auto
  from Cons obtain n where n: "capacity_free S (map (\<lambda>(k, c). (k, dec c)) limits) K db =
      (if full L limits then (Inr (arr2 (- 1) n), db) else K db)" by auto
  have "int (held L k) \<le> 2 ^ 53" using represents_simps(5)[OF rep k] by simp
  from capacity_free_eval[OF represents_simps(4)[OF rep k] _ this c] n
  show ?case by (auto simp: kc full_def simp del: capacity_free.simps)
qed (simp add: full_def)

lemma spec_limits_eval:
  assumes "represents db L" "exact_capacities sp"
  shows "\<exists>n. capacity_free S [(profile_key sp, dec (profile_capacity sp)),
      (account_key sp, dec (account_capacity sp)), (credential_key sp, dec (credential_capacity sp))] K db =
    (if full L (spec_limits sp) then (Inr (arr2 (- 1) n), db) else K db)"
  using limits_eval[OF assms(1), of "spec_limits sp" K] assms(2)
  by (simp add: spec_limits_def exact_capacities_def is_counter_key_def del: capacity_free.simps)

end

subsection \<open>Reserve\<close>

definition reserve_fields :: "server \<Rightarrow> string \<Rightarrow> spec \<Rightarrow> (string \<times> string) list" where
  "reserve_fields S t sp =
     [(''token'', t), (''owner'', owner_key S sp), (''stream'', dec (stream_id sp)),
      (''profile'', profile_key sp), (''account'', account_key sp), (''credential'', credential_key sp),
      (''mode'', mode sp), (''state'', ''pending''), (''profile_id'', dec (profile_id sp)),
      (''account_id'', dec (account_id sp))]"

lemma reserve_record:
  assumes "keeps_identity fs"
  shows "record_matches (hset_all (reserve_fields S t sp @ fs) []) t (entry_of S sp)"
  using keeps_identity_lookup[OF assms]
  by (simp add: record_matches_def hset_all_lookup map_add_def reserve_fields_def identity_fields_mem)

context redis_server
begin

lemma exec_reserve:
  assumes rep: "represents db L" and caps: "exact_capacities sp"
    and free: "L t = None" "\<not> owner_taken L (owner_key S sp)" "\<not> full L (spec_limits sp)"
    and fs: "keeps_identity fs"
  obtains db1 where
    "exec [INCR (profile_key sp), INCR (account_key sp), INCR (credential_key sp),
           HSET (record_key t) (reserve_fields S t sp @ fs), SET (owner_key S sp) t] db = Some db1"
    "represents db1 (L(t \<mapsto> entry_of S sp))" "\<And>k. \<not> is_ledger_key k \<Longrightarrow> db1 k = db k"
    "db1 (record_key t) = Some (RHash (hset_all (reserve_fields S t sp @ fs) []))"
proof -
  have room: "held L k < 2 ^ 53" if "k \<in> counters (entry_of S sp)" for k
    using room_of_limits[OF free(3) caps, of k] that by simp
  have ne: "reserve_fields S t sp @ fs \<noteq> []" by (simp add: reserve_fields_def)
  show thesis
    by (rule exec_add[OF rep wf_entry_of[of S sp] free(1) _ room reserve_record[OF fs] ne])
      (use free(2) that in simp_all)
qed

lemma pending_count:
  assumes "finite (dom L)" "L t = None" "represents db1 (L(t \<mapsto> entry_of S sp))"
  shows "count_reply S (profile_key sp) db1 = (Inr (arr2 1 (int (held L (profile_key sp)) + 1)), db1)"
proof (rule count_reply_eval)
  have held: "held (L(t \<mapsto> entry_of S sp)) (profile_key sp) = held L (profile_key sp) + 1"
    using held_add[OF assms(1,2), of "entry_of S sp"] by simp
  then show "counter_at db1 (profile_key sp) = Some (int (held L (profile_key sp)) + 1)"
    using represents_simps(4)[OF assms(3), of "profile_key sp"] by (simp add: is_counter_key_def)
  show "\<bar>int (held L (profile_key sp)) + 1\<bar> \<le> 2 ^ 53"
    using represents_simps(5)[OF assms(3), of "profile_key sp"] held by (simp add: is_counter_key_def)
qed simp

lemma reserve_admission:
  assumes rep: "represents db L" and caps: "exact_capacities sp" and token: "hex_string 32 token"
  shows "\<exists>r db'. r = rbind (cutover db) (\<lambda>_. admission L token (entry_of S sp) (spec_limits sp))
    \<and> reserve S token sp db = (map_sum id (Pair token) r, db')
    \<and> represents db' (admitted L token (entry_of S sp) r)
    \<and> (\<forall>k. \<not> is_ledger_key k \<longrightarrow> db' k = db k) \<and> (\<forall>e. r = Inl e \<longrightarrow> db' = db)
    \<and> (\<forall>n. r = Inr n \<longrightarrow> db' (record_key token) = Some (RHash (hset_all (reserve_fields S token sp) [])))"
proof (cases "cutover db")
  case (Inl e)
  then have "e = RedisError \<or> e = ReservationError"
    by (auto simp: cutover_def require_def split: option.splits rval.splits if_splits)
  with Inl rep token show ?thesis
    by (auto simp: reserve_def record_key_arg_def checked_def eval_script_def reserve_script_def
        ledger_guard admitted_def outcome_def)
next
  case (Inr u)
  let ?e = "entry_of S sp" and ?limits = "spec_limits sp"
  have script: "reserve S token sp db = eval_script (guard
      [differs S (EXISTS (owner_key S sp)) (LInt 0), differs S (EXISTS (record_key token)) (LInt 0)] (arr2 0 0)
      (capacity_free S [(profile_key sp, dec (profile_capacity sp)), (account_key sp, dec (account_capacity sp)),
          (credential_key sp, dec (credential_capacity sp))]
        (writes S [INCR (profile_key sp), INCR (account_key sp), INCR (credential_key sp),
          HSET (record_key token) (reserve_fields S token sp @ []), SET (owner_key S sp) token]
          (count_reply S (profile_key sp)))))
      (\<lambda>r. rbind (outcome r) (\<lambda>count. Inr (token, count))) db"
    using Inr token
    by (simp add: reserve_def record_key_arg_def checked_def eval_script_def reserve_script_def
        ledger_guard reserve_fields_def del: capacity_free.simps writes.simps)
  show ?thesis
  proof (cases "owner_taken L (owner_key S sp) \<or> L token \<noteq> None")
    case True
    then have "reserve S token sp db = (Inl ReservationBusy, db)"
      using represents_simps(2,3)[OF rep]
      by (auto simp: script guard_differs read_val.simps eval_script_def outcome_def)
    with True Inr rep show ?thesis by (auto simp: admission_def admitted_def)
  next
    case free: False
    then have absent: "db (owner_key S sp) = None" "db (record_key token) = None"
      using represents_simps(2,3)[OF rep] by auto
    obtain n where caps_eval: "capacity_free S [(profile_key sp, dec (profile_capacity sp)),
        (account_key sp, dec (account_capacity sp)), (credential_key sp, dec (credential_capacity sp))] K db
        = (if full L ?limits then (Inr (arr2 (- 1) (n K)), db) else K db)" for K
      using spec_limits_eval[OF rep caps] by metis
    show ?thesis
    proof (cases "full L ?limits")
      case True
      with absent have "reserve S token sp db = (Inl ReservationFull, db)"
        by (simp add: script guard_differs read_val.simps eval_script_def caps_eval outcome_def del: capacity_free.simps writes.simps)
      with True free Inr rep show ?thesis by (auto simp: admission_def admitted_def)
    next
      case False
      from free have L: "L token = None" "\<not> owner_taken L (owner_key S sp)" by auto
      obtain db1 where db1: "exec [INCR (profile_key sp), INCR (account_key sp), INCR (credential_key sp),
           HSET (record_key token) (reserve_fields S token sp @ []), SET (owner_key S sp) token] db = Some db1"
          "represents db1 (L(token \<mapsto> ?e))" "\<And>k. \<not> is_ledger_key k \<Longrightarrow> db1 k = db k"
          "db1 (record_key token) = Some (RHash (hset_all (reserve_fields S token sp) []))"
        by (rule exec_reserve[OF rep caps L False, of "[]"]) auto
      have "reserve S token sp db = (Inr (token, int (held L (profile_key sp)) + 1), db1)"
        using absent False
        by (simp add: script guard_differs read_val.simps eval_script_def caps_eval writes_exec[OF db1(1)[unfolded append_Nil2]] outcome_def
            pending_count[OF represents_simps(1)[OF rep] L(1) db1(2)] del: capacity_free.simps writes.simps)
      with db1 free False Inr show ?thesis by (auto simp: admission_def admitted_def)
    qed
  qed
qed

end

end
