(* ===== verification/Ledger_Switch.thy ===== *)
theory Ledger_Switch
  imports Ledger_Effects
begin

text \<open>
  The scripts that give capacity back: release, the two live-channel releases and the VOD and
  timeshift cleanups. Each either refuses and changes nothing or removes exactly the entry its
  arguments name, with the session keys it owns.
\<close>

subsection \<open>Refusals\<close>

definition refused_pair :: "reply \<Rightarrow> bool" where
  "refused_pair r \<longleftrightarrow> (\<exists>a b. r = arr2 a b \<and> a \<noteq> 1)"

definition refused :: "reply \<Rightarrow> bool" where
  "refused r \<longleftrightarrow> (\<exists>a. r = RInt a \<and> a \<noteq> 1)"

definition refused_join :: "reply \<Rightarrow> bool" where
  "refused_join r \<longleftrightarrow> (\<exists>a. r = RArray [RInt a] \<and> a \<noteq> 1)"

lemma refused_simps [simp]:
  "refused_pair (arr2 a b) \<longleftrightarrow> a \<noteq> 1" "refused (RInt a) \<longleftrightarrow> a \<noteq> 1" "refused_join (RArray [RInt a]) \<longleftrightarrow> a \<noteq> 1"
  by (auto simp: refused_pair_def refused_def refused_join_def)

subsection \<open>Found entries\<close>

lemma owned_entry:
  assumes rep: "represents db L" and tok: "hfield db (record_key t) ''token'' = Some t"
    and fields: "hfield db (record_key t) ''owner'' = Some ow" "hfield db (record_key t) ''profile'' = Some p"
      "hfield db (record_key t) ''account'' = Some a" "hfield db (record_key t) ''credential'' = Some c"
  shows "L t = Some \<lparr>e_owner = ow, e_profile = p, e_account = a, e_credential = c\<rparr>"
proof -
  obtain e where e: "L t = Some e" by (rule represents_found[OF rep tok])
  with represents_record(4-7)[OF rep e] fields have "e_owner e = ow" "e_profile e = p" "e_account e = a"
    "e_credential e = c" by simp_all
  with e show ?thesis by (cases e) simp
qed

definition removal ::
  "keyspace \<Rightarrow> ledger \<Rightarrow> string \<Rightarrow> entry \<Rightarrow> string set \<Rightarrow> keyspace \<Rightarrow> bool" where
  "removal db L t e foreign db' \<longleftrightarrow>
     L t = Some e \<and> represents db' (L(t := None))
     \<and> (\<forall>k. \<not> is_ledger_key k \<longrightarrow> db' k = (if k \<in> foreign then None else db k))"

definition stop_attested :: "keyspace \<Rightarrow> string \<Rightarrow> string \<Rightarrow> string \<Rightarrow> bool" where
  "stop_attested db alias epoch generation \<longleftrightarrow>
     hfield db alias ''stopped_epoch'' = Some epoch \<and> hfield db alias ''stopped_generation'' = Some generation"

context redis_server
begin

lemma runs_removal:
  assumes rep: "represents db L"
    and fields: "hfield db (record_key t) ''token'' = Some t" "hfield db (record_key t) ''owner'' = Some ow"
      "hfield db (record_key t) ''profile'' = Some p" "hfield db (record_key t) ''account'' = Some a"
      "hfield db (record_key t) ''credential'' = Some c"
    and ks: "set ks = insert (record_key t) (insert ow foreign)" "\<forall>k\<in>foreign. \<not> is_ledger_key k"
  shows "runs db R (\<lambda>x db'. x = Inr r
      \<and> removal db L t \<lparr>e_owner = ow, e_profile = p, e_account = a, e_credential = c\<rparr> foreign db')
    (writes S [DECR p, DECR a, DECR c, DEL ks] (lua_ret r))"
proof -
  let ?e = "\<lparr>e_owner = ow, e_profile = p, e_account = a, e_credential = c\<rparr>"
  note t = owned_entry[OF rep fields]
  obtain db1 where ex: "exec [DECR (e_profile ?e), DECR (e_account ?e), DECR (e_credential ?e), DEL ks] db = Some db1"
    and db1: "represents db1 (L(t := None))" "\<And>k. \<not> is_ledger_key k \<Longrightarrow> k \<notin> foreign \<Longrightarrow> db1 k = db k"
      "\<And>k. k \<in> foreign \<Longrightarrow> db1 k = None"
    by (rule exec_remove[OF rep t, of ks foreign]) (use ks in auto)
  from ex have ex': "exec [DECR p, DECR a, DECR c, DEL ks] db = Some db1" by simp
  show ?thesis
    by (rule runs_writes[OF ex']) (use t db1 in \<open>auto simp: lua_ret_def removal_def\<close>)
qed

lemma runs_matching_counters:
  assumes bad: "R bad" and k: "list_all (\<lambda>(f, c). hfield db k3 f = Some c) fcs \<Longrightarrow> runs db R Q k"
  shows "runs db R Q (matching_counters S k3 fcs bad k)"
  using k
proof (induction fcs)
  case (Cons fc fcs)
  obtain f c where fc: "fc = (f, c)" by force
  show ?case
    unfolding fc matching_counters.simps
  proof (rule runs_guard)
    assume "passes [differs S (HGET k3 f) (LStr c)] db"
    then have "hfield db k3 f = Some c" by (simp add: read_facts)
    then show "runs db R Q (counters_positive S [c] bad (matching_counters S k3 fcs bad k))"
      using Cons fc by (intro runs_counters_positive bad) auto
  qed (use bad in simp_all)
qed simp

subsection \<open>The scripts\<close>

lemma release_script_runs:
  assumes rep: "represents db L"
  shows "runs db refused_pair
    (\<lambda>x db'. db k1 = Some (RStr ''ledger'') \<and> hfield db (record_key t) ''channel_alias'' = None
       \<and> x = Inr (arr2 1 0) \<and> removal db L t \<lparr>e_owner = ow, e_profile = p, e_account = a, e_credential = c\<rparr> {} db')
    (release_script S k1 ow (record_key t) p a c t)"
  unfolding release_script_def record_checks_def
  by (intro runs_guard runs_counters_positive runs_fact runs_removal[OF rep]) (simp_all add: read_facts)

lemma release_pending_script_runs:
  assumes rep: "represents db L" and k7: "\<not> is_ledger_key k7"
  shows "runs db refused_pair
    (\<lambda>x db'. db k8 = Some (RStr a2) \<and> hfield db (record_key t) ''state'' = Some ''pending'' \<and> x = Inr (arr2 1 0)
       \<and> removal db L t \<lparr>e_owner = ow, e_profile = p, e_account = a, e_credential = c\<rparr> {k7} db')
    (release_pending_live_channel_script S k1 ow (record_key t) p a c k7 k8 t a2 a3 a4 a5)"
  unfolding release_pending_live_channel_script_def
  by (intro runs_guard runs_counters_positive runs_fact runs_removal[OF rep])
    (use k7 in \<open>simp_all add: read_facts insert_commute\<close>)

lemma release_active_script_runs:
  assumes rep: "represents db L" and k7: "\<not> is_ledger_key k7"
  shows "runs db refused
    (\<lambda>x db'. stop_attested db k7 a7 a8 \<and> db k8 = Some (RStr a2) \<and> x = Inr (RInt 1)
       \<and> removal db L t \<lparr>e_owner = ow, e_profile = p, e_account = a, e_credential = c\<rparr> {k7} db')
    (release_active_live_script S k1 ow (record_key t) p a c k7 k8 k9 k10 t a2 a3 a4 a5 a6 a7 a8)"
  unfolding release_active_live_script_def active_live_checks_def grant_checks_def
  by (intro runs_guard runs_counters_positive runs_fact runs_removal[OF rep])
    (use k7 in \<open>simp_all add: read_facts insert_commute stop_attested_def\<close>)

lemma vod_cleanup_script_runs:
  assumes rep: "represents db L" and k4: "\<not> is_ledger_key k4"
  shows "runs db refused_pair
    (\<lambda>x db'. hfield db k4 ''active_streams'' = Some ''0'' \<and> x = Inr (arr2 1 0)
       \<and> removal db L t \<lparr>e_owner = ow, e_profile = p, e_account = a, e_credential = c\<rparr> {k4} db')
    (vod_cleanup_script S k1 ow (record_key t) k4 p a c t a2 a3 a4)"
  unfolding vod_cleanup_script_def vod_session_checks_def
  by (intro runs_guard runs_matching_counters runs_fact runs_removal[OF rep])
    (use k4 in \<open>simp_all add: read_facts insert_commute\<close>)

lemma cleanup_timeshift_script_runs:
  assumes rep: "represents db L" and k4: "\<not> is_ledger_key k4"
  shows "runs db refused
    (\<lambda>x db'. hfield db k4 ''busy'' = Some ''0'' \<and> x = Inr (RInt 1)
       \<and> removal db L t \<lparr>e_owner = ow, e_profile = p, e_account = a, e_credential = c\<rparr> {k4} db')
    (cleanup_timeshift_script S k1 ow (record_key t) k4 p a c t a2 a3 a4 a5 a6)"
  unfolding cleanup_timeshift_script_def timeshift_token_checks_def timeshift_identity_checks_def
  by (intro runs_guard runs_matching_counters runs_fact runs_removal[OF rep])
    (use k4 in \<open>simp_all add: read_facts insert_commute\<close>)

end


text \<open>
  The scripts that keep a reservation: switching it to another profile, account and credential,
  binding and activating it, and the session operations that only touch keys outside the ledger.
\<close>

subsection \<open>Switching\<close>

definition moved_entry ::
  "keyspace \<Rightarrow> ledger \<Rightarrow> string \<Rightarrow> entry \<Rightarrow> entry \<Rightarrow> (string \<times> int) list \<Rightarrow> string set \<Rightarrow> keyspace \<Rightarrow> bool" where
  "moved_entry db L t e e' limits foreign db' \<longleftrightarrow>
     L t = Some e \<and> e_owner e' = e_owner e \<and> represents db' (L(t \<mapsto> e'))
     \<and> \<not> full L (filter (\<lambda>(k, _). k \<notin> counters e) limits)
     \<and> (\<forall>k. \<not> is_ledger_key k \<longrightarrow> k \<notin> foreign \<longrightarrow> db' k = db k)"

lemma exec_switch_record:
  assumes rep: "represents db L" and t: "L t = Some e" and e': "wf_entry e'" "e_owner e' = e_owner e"
    and frame: "\<And>k. \<not> is_counter_key k \<Longrightarrow> db1 k = db k"
    and count: "\<And>k. is_counter_key k \<Longrightarrow> counter_right db1 (L(t \<mapsto> e')) k"
    and fence: "fence = [] \<or> (\<exists>ff. fence = [HSET (record_key t) ff] \<and> keeps_identity ff \<and> ff \<noteq> [])"
    and fs: "fs \<noteq> []" "\<And>h. record_matches h t e \<Longrightarrow> record_matches (hset_all fs h) t e'"
    and gs: "set gs \<inter> identity_fields = {}"
  shows "\<exists>db2. exec (fence @ [HSET (record_key t) fs, HDEL (record_key t) gs]) db1 = Some db2
    \<and> represents db2 (L(t \<mapsto> e')) \<and> (\<forall>k. \<not> is_ledger_key k \<longrightarrow> db2 k = db k)"
proof -
  let ?rk = "record_key t"
  have rk: "\<not> is_counter_key ?rk" using families_disjoint(2)[of ?rk t] by auto
  obtain h where h: "db ?rk = Some (RHash h)" "record_matches h t e" by (rule represents_hash[OF rep t])
  have h1: "db1 ?rk = Some (RHash h)" using frame[OF rk] h(1) by simp
  obtain h0 where fenced: "exec fence db1 = Some (db1(?rk \<mapsto> RHash h0))" "record_matches h0 t e"
  proof (cases "fence = []")
    case True
    with h1 h(2) show thesis by (intro that[of h]) (simp_all add: fun_upd_idem)
  next
    case False
    with fence obtain ff where ff: "fence = [HSET ?rk ff]" "keeps_identity ff" "ff \<noteq> []" by blast
    show thesis
      by (rule that[of "hset_all ff h"])
        (use ff h1 hset_all_nonempty[OF ff(3)] record_hash_update[OF h(2) ff(2)] in \<open>simp_all add: hash_at_def\<close>)
  qed
  let ?h2 = "hdel_all gs (hset_all fs h0)"
  have rec: "record_matches ?h2 t e'"
    using fs(2)[OF fenced(2)] gs identity_fields_mem
    by (auto simp: record_matches_def hdel_all_lookup)
  let ?db2 = "db1(?rk \<mapsto> RHash ?h2)"
  have "exec [HSET ?rk fs, HDEL ?rk gs] (db1(?rk \<mapsto> RHash h0)) = Some ?db2"
    using hset_all_nonempty[OF fs(1), of h0] record_matches_nonempty[OF rec] by simp
  with fenced(1) have "exec (fence @ [HSET ?rk fs, HDEL ?rk gs]) db1 = Some ?db2"
    by (simp add: exec_append del: exec.simps)
  moreover have "represents ?db2 (L(t \<mapsto> e'))"
  proof (rule represents_rewrite[OF rep t e' _ rec])
    show "is_counter_key k \<Longrightarrow> counter_right ?db2 (L(t \<mapsto> e')) k" for k
      using count[of k] families_disjoint(2)[of k t] by (simp add: counter_right_def counter_at_def)
  qed (use frame in auto)
  moreover have "?db2 k = db k" if "\<not> is_ledger_key k" for k
    using that frame[of k] ledger_keys(1)[of t] ledger_keys(3)[of k] by auto
  ultimately show ?thesis by blast
qed

lemma limits_of_destination:
  "destination_limits [(p', p, dec cp), (a', a, dec ca), (c', c, dec cc)] =
   map (\<lambda>(k, c). (k, dec c)) (concat (map (\<lambda>(new, old, cap). if new \<noteq> old then [(new, cap)] else [])
     [(p', p, cp), (a', a, ca), (c', c, cc)]))"
  by (simp add: destination_limits_def)

text \<open>The limits a switch checks: those of the destination counters the reservation does not hold.\<close>

lemma destination_limits_eq:
  assumes "wf_entry e" "e_profile e = p" "e_account e = a" "e_credential e = c"
  shows "concat (map (\<lambda>(new, old, cap). if new \<noteq> old then [(new, cap)] else [])
      [(profile_key sp, p, profile_capacity sp), (account_key sp, a, account_capacity sp),
       (credential_key sp, c, credential_capacity sp)])
    = filter (\<lambda>(k, _). k \<notin> counters e) (spec_limits sp)"
proof -
  have "wf_entry (entry_of S sp)" for S by simp
  note ne = switch_keys_distinct[OF assms(1) this] switch_keys_distinct[OF this assms(1)]
  from ne assms(2-4) show ?thesis by (auto simp: spec_limits_def counters_def)
qed

definition destination_entry :: "entry \<Rightarrow> spec \<Rightarrow> entry" where
  "destination_entry e sp =
     \<lparr>e_owner = e_owner e, e_profile = profile_key sp, e_account = account_key sp, e_credential = credential_key sp\<rparr>"

lemma destination_wf [simp]: "wf_entry e \<Longrightarrow> wf_entry (destination_entry e sp)"
  by (simp add: wf_entry_def destination_entry_def)

lemma destination_simps [simp]:
  "e_owner (destination_entry e sp) = e_owner e" "e_profile (destination_entry e sp) = profile_key sp"
  "e_account (destination_entry e sp) = account_key sp" "e_credential (destination_entry e sp) = credential_key sp"
  "counters (destination_entry e sp) = {profile_key sp, account_key sp, credential_key sp}"
  by (simp_all add: destination_entry_def counters_def)

lemma destination_room:
  assumes "\<not> full L (filter (\<lambda>(k, _). k \<notin> counters e) (spec_limits sp))" "exact_capacities sp"
    "k \<in> counters (destination_entry e sp) - counters e"
  shows "held L k < 2 ^ 53"
  using assms by (auto simp: full_def spec_limits_def exact_capacities_def split: if_splits)

definition switch_outcome ::
  "keyspace \<Rightarrow> ledger \<Rightarrow> string \<Rightarrow> entry \<Rightarrow> spec \<Rightarrow> string set \<Rightarrow> unit + reply \<Rightarrow> keyspace \<Rightarrow> bool" where
  "switch_outcome db L t e sp foreign x db' \<longleftrightarrow>
     x = Inr (arr2 1 (int (held (L(t \<mapsto> destination_entry e sp)) (profile_key sp))))
     \<and> moved_entry db L t e (destination_entry e sp) (spec_limits sp) foreign db'"

context redis_server
begin

lemma runs_destination_limits:
  assumes rep: "represents db L" and caps: "exact_capacities sp"
    and e: "wf_entry e" "e_profile e = p" "e_account e = a" "e_credential e = c"
    and R: "\<And>n. R (arr2 (- 1) n)"
    and K: "\<not> full L (filter (\<lambda>(k, _). k \<notin> counters e) (spec_limits sp)) \<Longrightarrow> runs db R Q K"
  shows "runs db R Q (capacity_free S (destination_limits [(profile_key sp, p, dec (profile_capacity sp)),
      (account_key sp, a, dec (account_capacity sp)), (credential_key sp, c, dec (credential_capacity sp))]) K)"
proof -
  let ?limits = "filter (\<lambda>(k, _). k \<notin> counters e) (spec_limits sp)"
  have "list_all (\<lambda>(k, c). is_counter_key k \<and> 1 \<le> c \<and> c \<le> 2 ^ 53) (spec_limits sp)"
    using caps by (simp add: exact_capacities_def spec_limits_def is_counter_key_def)
  then have "list_all (\<lambda>(k, c). is_counter_key k \<and> 1 \<le> c \<and> c \<le> 2 ^ 53) ?limits"
    by (auto simp: list_all_iff)
  from limits_eval[OF rep this, of K] obtain n where
    "capacity_free S (map (\<lambda>(k, c). (k, dec c)) ?limits) K db =
      (if full L ?limits then (Inr (arr2 (- 1) n), db) else K db)" by auto
  then show ?thesis
    using R K unfolding limits_of_destination destination_limits_eq[OF e] by (auto simp: runs_def)
qed

lemma exec_switch:
  assumes rep: "represents db L" and t: "L t = Some e" and caps: "exact_capacities sp"
    and room: "\<not> full L (filter (\<lambda>(k, _). k \<notin> counters e) (spec_limits sp))"
  obtains db1 where "exec (move_counters (switch_pairs e (destination_entry e sp))) db = Some db1"
    "\<And>k. \<not> is_counter_key k \<Longrightarrow> db1 k = db k"
    "\<And>k. is_counter_key k \<Longrightarrow> counter_right db1 (L(t \<mapsto> destination_entry e sp)) k"
  by (rule exec_switch_counters[OF rep t destination_wf[OF represents_record(1)[OF rep t], of sp]
        destination_room[OF room caps]]) auto

lemma switched_count:
  assumes "represents db L" "L t = Some e"
  shows "count_reply S (e_profile e) db = (Inr (arr2 1 (int (held L (e_profile e)))), db)"
proof (rule count_reply_eval)
  have k: "is_counter_key (e_profile e)" "e_profile e \<in> counters e"
    using represents_record(1)[OF assms] by (simp_all add: wf_entry_def is_counter_key_def counters_def)
  show "counter_at db (e_profile e) = Some (int (held L (e_profile e)))"
    by (rule represents_simps(4)[OF assms(1) k(1)])
  show "int (held L (e_profile e)) \<noteq> 0"
    using held_pos[OF represents_simps(1)[OF assms(1)] assms(2) k(2)] by simp
  show "\<bar>int (held L (e_profile e))\<bar> \<le> 2 ^ 53" using represents_simps(5)[OF assms(1) k(1)] by simp
qed

lemma read_hash_field:
  "db k = Some (RHash h) \<Longrightarrow>
   read_val db (HGET k f) = Some (case map_of h f of None \<Rightarrow> LFalse | Some s \<Rightarrow> LStr s)"
  by (simp add: read_val.simps hash_at_def)

lemma runs_switch_writes:
  fixes st :: string
  assumes rep: "represents db L" and caps: "exact_capacities sp"
    and fields: "hfield db (record_key t) ''token'' = Some t" "hfield db (record_key t) ''owner'' = Some ow"
      "hfield db (record_key t) ''profile'' = Some p" "hfield db (record_key t) ''account'' = Some a"
      "hfield db (record_key t) ''credential'' = Some c"
    and e: "e = \<lparr>e_owner = ow, e_profile = p, e_account = a, e_credential = c\<rparr>"
    and room: "\<not> full L (filter (\<lambda>(k, _). k \<notin> counters e) (spec_limits sp))"
  shows "runs db R (switch_outcome db L t e sp {})
    (writes S (move_counters [(profile_key sp, p), (account_key sp, a), (credential_key sp, c)]) (
     lua_bind (lua_read S (HGET (record_key t) ''grant_epoch'')) (\<lambda>old_epoch.
     lua_bind (lua_read S (HGET (record_key t) ''generation'')) (\<lambda>old_generation.
     writes S
       ((case (old_epoch, old_generation) of
           (LStr e, LStr g) \<Rightarrow> [HSET (record_key t) [(''fenced_epoch'', e), (''fenced_generation'', g)]]
         | _ \<Rightarrow> [])
        @ [HSET (record_key t) [(''stream'', st), (''profile'', profile_key sp), (''account'', account_key sp),
                    (''credential'', credential_key sp), (''state'', ''pending''),
                    (''profile_id'', dec (profile_id sp)), (''account_id'', dec (account_id sp))],
           HDEL (record_key t) [''grant_epoch'', ''generation'', ''worker'', ''grant_token'']])
     (count_reply S (profile_key sp))))))"
proof -
  let ?e' = "destination_entry e sp"
  have t: "L t = Some e" unfolding e by (rule owned_entry[OF rep fields])
  obtain db1 where db1: "exec (move_counters (switch_pairs e ?e')) db = Some db1"
      "\<And>k. \<not> is_counter_key k \<Longrightarrow> db1 k = db k"
      "\<And>k. is_counter_key k \<Longrightarrow> counter_right db1 (L(t \<mapsto> ?e')) k"
    by (rule exec_switch[OF rep t caps room]) auto
  have moves: "switch_pairs e ?e' = [(profile_key sp, p), (account_key sp, a), (credential_key sp, c)]"
    by (simp add: switch_pairs_def e)
  obtain h where h: "db (record_key t) = Some (RHash h)" "record_matches h t e"
    by (rule represents_hash[OF rep t])
  have h1: "db1 (record_key t) = Some (RHash h)"
    using db1(2)[of "record_key t"] families_disjoint(2)[of "record_key t" t] h(1) by auto
  let ?fs = "[(''stream'', st), (''profile'', profile_key sp), (''account'', account_key sp),
    (''credential'', credential_key sp), (''state'', ''pending''),
    (''profile_id'', dec (profile_id sp)), (''account_id'', dec (account_id sp))]"
  let ?fence = "case (map_of h ''grant_epoch'', map_of h ''generation'') of
      (Some x, Some g) \<Rightarrow> [HSET (record_key t) [(''fenced_epoch'', x), (''fenced_generation'', g)]] | _ \<Rightarrow> []"
  have fence: "?fence = [] \<or> (\<exists>ff. ?fence = [HSET (record_key t) ff] \<and> keeps_identity ff \<and> ff \<noteq> [])"
    by (auto simp: identity_fields_def split: option.splits)
  have fs: "record_matches (hset_all ?fs h') t ?e'" if "record_matches h' t e" for h'
    using that by (simp add: record_matches_def hset_all_lookup map_add_def)
  obtain db2 where db2: "exec (?fence @ [HSET (record_key t) ?fs,
        HDEL (record_key t) [''grant_epoch'', ''generation'', ''worker'', ''grant_token'']]) db1 = Some db2"
      "represents db2 (L(t \<mapsto> ?e'))" "\<forall>k. \<not> is_ledger_key k \<longrightarrow> db2 k = db k"
    using exec_switch_record[OF rep t destination_wf[OF represents_record(1)[OF rep t], of sp] _ db1(2,3) fence, of ?fs
        "[''grant_epoch'', ''generation'', ''worker'', ''grant_token'']"] fs
    by (auto simp: identity_fields_def)
  have count: "count_reply S (profile_key sp) db2 =
      (Inr (arr2 1 (int (held (L(t \<mapsto> ?e')) (profile_key sp)))), db2)"
    using switched_count[OF db2(2), of t ?e'] by simp
  show ?thesis
  proof (rule runs_writes[OF db1(1)[unfolded moves]])
    fix x db3
    assume run: "lua_bind (lua_read S (HGET (record_key t) ''grant_epoch'')) (\<lambda>old_epoch.
     lua_bind (lua_read S (HGET (record_key t) ''generation'')) (\<lambda>old_generation.
     writes S
       ((case (old_epoch, old_generation) of
           (LStr e, LStr g) \<Rightarrow> [HSET (record_key t) [(''fenced_epoch'', e), (''fenced_generation'', g)]]
         | _ \<Rightarrow> [])
        @ [HSET (record_key t) ?fs,
           HDEL (record_key t) [''grant_epoch'', ''generation'', ''worker'', ''grant_token'']])
     (count_reply S (profile_key sp)))) db1 = (x, db3)"
    have "writes S (?fence @ [HSET (record_key t) ?fs,
        HDEL (record_key t) [''grant_epoch'', ''generation'', ''worker'', ''grant_token'']])
      (count_reply S (profile_key sp)) db1 = (x, db3)"
      using run by (cases "map_of h ''grant_epoch''"; cases "map_of h ''generation''")
        (simp_all add: lua_bind_read read_hash_field[where db = db1 and k = "record_key t", OF h1] del: writes.simps)
    then have "(x, db3) = (Inr (arr2 1 (int (held (L(t \<mapsto> ?e')) (profile_key sp)))), db2)"
      by (simp only: writes_exec[OF db2(1)] count)
    with t room db2 show "switch_outcome db L t e sp {} x db3"
      by (simp add: switch_outcome_def moved_entry_def)
  qed
qed

lemma runs_limits_of_entry:
  assumes rep: "represents db L" and caps: "exact_capacities sp"
    and fields: "hfield db (record_key t) ''token'' = Some t" "hfield db (record_key t) ''owner'' = Some ow"
      "hfield db (record_key t) ''profile'' = Some p" "hfield db (record_key t) ''account'' = Some a"
      "hfield db (record_key t) ''credential'' = Some c"
    and R: "\<And>n. R (arr2 (- 1) n)"
    and K: "\<not> full L (filter (\<lambda>(k, _). k \<notin> counters \<lparr>e_owner = ow, e_profile = p, e_account = a, e_credential = c\<rparr>)
        (spec_limits sp)) \<Longrightarrow> runs db R Q K"
  shows "runs db R Q (capacity_free S (destination_limits [(profile_key sp, p, dec (profile_capacity sp)),
      (account_key sp, a, dec (account_capacity sp)), (credential_key sp, c, dec (credential_capacity sp))]) K)"
  by (rule runs_destination_limits[OF rep caps represents_record(1)[OF rep owned_entry[OF rep fields]] _ _ _ R K])
    simp_all

lemma runs_switch_tail:
  assumes rep: "represents db L" and caps: "exact_capacities sp"
    and fields: "hfield db (record_key t) ''token'' = Some t" "hfield db (record_key t) ''owner'' = Some ow"
      "hfield db (record_key t) ''profile'' = Some p" "hfield db (record_key t) ''account'' = Some a"
      "hfield db (record_key t) ''credential'' = Some c"
    and R: "\<And>n. R (arr2 (- 1) n)"
  shows "runs db R (switch_outcome db L t \<lparr>e_owner = ow, e_profile = p, e_account = a, e_credential = c\<rparr> sp {})
    (capacity_free S (destination_limits [(profile_key sp, p, dec (profile_capacity sp)),
      (account_key sp, a, dec (account_capacity sp)), (credential_key sp, c, dec (credential_capacity sp))])
    (writes S (move_counters [(profile_key sp, p), (account_key sp, a), (credential_key sp, c)]) (
     lua_bind (lua_read S (HGET (record_key t) ''grant_epoch'')) (\<lambda>old_epoch.
     lua_bind (lua_read S (HGET (record_key t) ''generation'')) (\<lambda>old_generation.
     writes S
       ((case (old_epoch, old_generation) of
           (LStr e, LStr g) \<Rightarrow> [HSET (record_key t) [(''fenced_epoch'', e), (''fenced_generation'', g)]]
         | _ \<Rightarrow> [])
        @ [HSET (record_key t) [(''stream'', st), (''profile'', profile_key sp), (''account'', account_key sp),
                    (''credential'', credential_key sp), (''state'', ''pending''),
                    (''profile_id'', dec (profile_id sp)), (''account_id'', dec (account_id sp))],
           HDEL (record_key t) [''grant_epoch'', ''generation'', ''worker'', ''grant_token'']])
     (count_reply S (profile_key sp)))))))"
  by (rule runs_limits_of_entry[OF rep caps fields], rule R, rule runs_switch_writes[OF rep caps fields refl])

lemma switch_script_runs:
  assumes rep: "represents db L" and caps: "exact_capacities sp"
  shows "runs db refused_pair
    (switch_outcome db L t \<lparr>e_owner = ow, e_profile = p, e_account = a, e_credential = c\<rparr> sp {})
    (switch_script S k1 ow (record_key t) p a c (profile_key sp) (account_key sp) (credential_key sp) t
       (dec (profile_capacity sp)) (dec (account_capacity sp)) (dec (credential_capacity sp)) st
       (dec (profile_id sp)) (dec (account_id sp)))"
  unfolding switch_script_def record_checks_def
  by (intro runs_guard runs_counters_positive runs_switch_tail[OF rep caps])
    (simp_all add: read_facts)

end

end
