(* ===== verification/Ledger_Bindings.thy ===== *)
theory Ledger_Bindings
  imports Ledger_Switch
begin

text \<open>
  The scripts that bind and use a reservation: live activation, join, stop attestation and channel
  switch; VOD binding, viewers and hand-over; timeshift binding, playback generations and hand-over.
  They write the record outside its identity fields, or only session keys outside the ledger.
\<close>

subsection \<open>Hash updates\<close>

definition hash_updated ::
  "string \<Rightarrow> (string \<times> string) list \<Rightarrow> string list \<Rightarrow> keyspace \<Rightarrow> keyspace \<Rightarrow> bool" where
  "hash_updated k fs gs db db' \<longleftrightarrow>
     (\<forall>k'. k' \<noteq> k \<longrightarrow> db' k' = db k')
     \<and> (\<forall>f. hfield db' k f = (if f \<in> set gs then None else case map_of (rev fs) f of
            Some v \<Rightarrow> Some v | None \<Rightarrow> hfield db k f))"

lemma hfield_hash: "hash_at db k = Some h \<Longrightarrow> hfield db k f = map_of h f"
  by (auto simp: hash_at_def hfield_def split: option.splits rval.splits)

lemma hfield_put_hash [simp]: "hfield (put_hash k h db) k f = map_of h f"
  by (simp add: hfield_def put_hash_def)

lemma hash_at_put_hash [simp]: "hash_at (put_hash k h db) k = Some h"
  by (simp add: hash_at_def put_hash_def)

lemma hash_updated_other:
  "hash_updated k fs gs db db' \<Longrightarrow> k' \<noteq> k \<Longrightarrow> db' k' = db k'"
  "hash_updated k fs gs db db' \<Longrightarrow> k' \<noteq> k \<Longrightarrow> hfield db' k' f = hfield db k' f"
  by (simp_all add: hash_updated_def hfield_def)

lemma hash_updated_field:
  "hash_updated k fs gs db db' \<Longrightarrow>
   hfield db' k f = (if f \<in> set gs then None else case map_of (rev fs) f of
     Some v \<Rightarrow> Some v | None \<Rightarrow> hfield db k f)"
  unfolding hash_updated_def by blast

lemma hfield_hash_at: "hfield db k f = Some v \<Longrightarrow> \<exists>h. hash_at db k = Some h"
  by (auto simp: hfield_def hash_at_def split: option.splits rval.splits)

lemma hash_present: "hfield db k f \<noteq> None \<Longrightarrow> \<exists>h. hash_at db k = Some h"
  by (auto simp: hfield_def hash_at_def split: option.splits rval.splits)

lemma hfield_upd [simp]: "hfield (db(k \<mapsto> RHash h)) k f = map_of h f"
  by (simp add: hfield_def)

lemma exec_hash:
  assumes "hash_at db k = Some h"
  obtains db' where "exec [HSET k fs, HDEL k gs] db = Some db'" "hash_updated k fs gs db db'"
proof (rule that[of "put_hash k (hdel_all gs (hset_all fs h)) (put_hash k (hset_all fs h) db)"])
  show "hash_updated k fs gs db (put_hash k (hdel_all gs (hset_all fs h)) (put_hash k (hset_all fs h) db))"
    by (simp add: hash_updated_def hfield_hash[OF assms] hdel_all_lookup hset_all_lookup map_add_def split: option.split)
qed (use assms in simp)

lemma exec_hset:
  assumes "hash_at db k = Some h"
  obtains db' where "exec [HSET k fs] db = Some db'" "hash_updated k fs [] db db'"
proof (rule that[of "put_hash k (hset_all fs h) db"])
  show "hash_updated k fs [] db (put_hash k (hset_all fs h) db)"
    by (simp add: hash_updated_def hfield_hash[OF assms] hset_all_lookup map_add_def split: option.split)
qed (use assms in simp)

lemma hash_updated_represents:
  assumes "hash_updated k fs gs db db'" "\<not> is_ledger_key k" "represents db L"
  shows "represents db' L"
proof (rule represents_frame[OF assms(3)])
  fix k' assume "is_ledger_key k'"
  with assms(2) have "k' \<noteq> k" by auto
  with assms(1) show "db' k' = db k'" by (simp add: hash_updated_def)
qed

text \<open>A record written outside its identity fields still represents its entry.\<close>

lemma touched_represents:
  assumes rep: "represents db L" and tok: "hfield db (record_key t) ''token'' = Some t"
    and fs: "keeps_identity fs" and upd: "exec [HSET (record_key t) fs] db = Some db'"
  shows "represents db' L"
proof -
  obtain e where e: "L t = Some e" by (rule represents_found[OF rep tok])
  obtain h where h: "db (record_key t) = Some (RHash h)" "record_matches h t e" by (rule represents_hash[OF rep e])
  have rec: "record_matches (hset_all fs h) t e" by (rule record_hash_update[OF h(2) fs])
  have db': "db' = db(record_key t \<mapsto> RHash (hset_all fs h))"
    using upd h(1) record_matches_nonempty[OF rec] by (simp add: hash_at_def)
  show ?thesis by (rule represents_touch[OF rep e _ rec]) (simp_all add: db')
qed

text \<open>What proves that a worker's generation delivers: its grant, its lease and a chunk of its own.\<close>

definition live_evidence ::
  "keyspace \<Rightarrow> bool str9" where
  "live_evidence db grant generation owner chunk provenance grant_token epoch gen worker \<longleftrightarrow>
     hfield db grant ''token'' = Some grant_token \<and> hfield db grant ''epoch'' = Some epoch
     \<and> hfield db grant ''worker'' = Some worker \<and> db generation = Some (RStr gen)
     \<and> db owner = Some (RStr worker) \<and> db provenance = Some (RStr (epoch @ '':'' @ gen))
     \<and> db chunk \<noteq> None"

definition bumped :: "keyspace \<Rightarrow> ledger \<Rightarrow> string \<Rightarrow> int \<Rightarrow> unit + reply \<Rightarrow> keyspace \<Rightarrow> bool" where
  "bumped db L k4 d x db' \<longleftrightarrow>
     (\<exists>s n. hfield db k4 ''active_streams'' = Some s \<and> undec s = Some n \<and> x = Inr (arr2 1 (n + d))
       \<and> represents db' L \<and> hash_updated k4 [(''active_streams'', dec (n + d))] [] db db')"

definition bound_vod :: "keyspace \<Rightarrow> bool str5" where
  "bound_vod db owner rk session t generation \<longleftrightarrow>
     db owner = Some (RStr t) \<and> hfield db rk ''token'' = Some t \<and> hfield db rk ''state'' = Some ''active''
     \<and> hfield db rk ''mode'' = Some ''vod'' \<and> hfield db session ''atlas_reservation_token'' = Some t
     \<and> hfield db session ''atlas_reservation_generation'' = Some generation"

context redis_server
begin

text \<open>Updating a session key outside the ledger; a present field shows that it is a hash.\<close>

lemma runs_foreign_update:
  assumes rep: "represents db L" and k: "\<not> is_ledger_key k" and f: "hfield db k f \<noteq> None"
  shows "runs db R (\<lambda>x db'. x = Inr r \<and> represents db' L \<and> hash_updated k fs gs db db')
    (writes S [HSET k fs, HDEL k gs] (lua_ret r))"
proof -
  obtain h where "hash_at db k = Some h" using hash_present[OF f] by blast
  then obtain db' where "exec [HSET k fs, HDEL k gs] db = Some db'" "hash_updated k fs gs db db'"
    by (rule exec_hash)
  then show ?thesis
    by (intro runs_writes) (use hash_updated_represents[OF _ k rep] in \<open>auto simp: lua_ret_def\<close>)
qed

lemma runs_foreign_hset:
  assumes rep: "represents db L" and k: "\<not> is_ledger_key k" and f: "hfield db k f \<noteq> None"
  shows "runs db R (\<lambda>x db'. x = Inr r \<and> represents db' L \<and> hash_updated k fs [] db db')
    (writes S [HSET k fs] (lua_ret r))"
proof -
  obtain h where "hash_at db k = Some h" using hash_present[OF f] by blast
  then obtain db' where "exec [HSET k fs] db = Some db'" "hash_updated k fs [] db db'"
    by (rule exec_hset)
  then show ?thesis
    by (intro runs_writes) (use hash_updated_represents[OF _ k rep] in \<open>auto simp: lua_ret_def\<close>)
qed

text \<open>Binding: session fields, then the record's state.\<close>

lemma runs_bind_writes:
  assumes rep: "represents db L" and tok: "hfield db (record_key t) ''token'' = Some t"
    and k: "hfield db k f \<noteq> None" "\<not> is_ledger_key k" and fs: "keeps_identity fs"
  shows "runs db R (\<lambda>x db'. x = Inr r \<and> represents db' L
      \<and> (\<exists>db1. hash_updated k ks [] db db1 \<and> hash_updated (record_key t) fs [] db1 db'))
    (writes S [HSET k ks, HSET (record_key t) fs] (lua_ret r))"
proof -
  obtain h where h: "hash_at db k = Some h" using hash_present[OF k(1)] by blast
  obtain db1 where db1: "exec [HSET k ks] db = Some db1" "hash_updated k ks [] db db1"
    by (rule exec_hset[OF h])
  have ne: "record_key t \<noteq> k" using k(2) by auto
  have tok1: "hfield db1 (record_key t) ''token'' = Some t"
    unfolding hash_updated_other(2)[OF db1(2) ne] by (rule tok)
  then obtain h1 where "hash_at db1 (record_key t) = Some h1" using hfield_hash_at by blast
  then obtain db2 where db2: "exec [HSET (record_key t) fs] db1 = Some db2" "hash_updated (record_key t) fs [] db1 db2"
    by (rule exec_hset)
  have "represents db2 L"
    by (rule touched_represents[OF hash_updated_represents[OF db1(2) k(2) rep] tok1 fs db2(1)])
  moreover have "exec ([HSET k ks] @ [HSET (record_key t) fs]) db = Some db2"
    using db1(1) db2(1) by (simp only: exec_append Option.bind.simps)
  then have "exec [HSET k ks, HSET (record_key t) fs] db = Some db2" by (simp only: append.simps)
  ultimately show ?thesis
    by (intro runs_writes) (use db1 db2 in \<open>auto simp: lua_ret_def\<close>)
qed

lemma runs_touch_writes:
  assumes rep: "represents db L" and tok: "hfield db (record_key t) ''token'' = Some t"
    and fs: "keeps_identity fs"
  shows "runs db R (\<lambda>x db'. x = Inr r \<and> represents db' L \<and> hash_updated (record_key t) fs [] db db')
    (writes S [HSET (record_key t) fs] (lua_ret r))"
proof -
  obtain h where "hash_at db (record_key t) = Some h" using hfield_hash_at[OF tok] by blast
  then obtain db' where "exec [HSET (record_key t) fs] db = Some db'" "hash_updated (record_key t) fs [] db db'"
    by (rule exec_hset)
  then show ?thesis
    by (intro runs_writes) (use touched_represents[OF rep tok fs] in \<open>auto simp: lua_ret_def\<close>)
qed

lemma probe_alias_stale [intro, simp]: "probe (alias_stale S k3 k9 a1 lease alias)"
proof (cases "alias = LFalse")
  case False
  then show ?thesis by (simp only: alias_stale_def if_False) (rule probe_any_of, simp)
qed (simp add: alias_stale_def)

lemma probe_concat [intro, simp]: "probe (concat_differs S k a b)"
  unfolding concat_differs_def by (rule probe_bind) (auto intro: probe_read split: lval.split)

lemma passes_concat [read_facts]:
  "passes (concat_differs S k a b # cs) db \<longleftrightarrow>
   (\<exists>x y. a = LStr x \<and> b = LStr y \<and> db k = Some (RStr (x @ '':'' @ y))) \<and> passes cs db"
  unfolding passes_Cons[OF probe_concat]
  by (auto simp: concat_differs_def lua_bind_def lua_ret_def lua_fail_def lua_read_eq
      read_get[symmetric] split: lval.splits option.splits)

lemma runs_record_counters:
  assumes "R bad" "runs db R Q k"
  shows "runs db R Q (record_counters_positive S k3 fs bad k)"
  using assms(2)
  by (induction fs) (auto intro!: runs_read runs_counters_positive runs_ret assms(1) split: lval.split)

lemma equals_True: "is_read c \<Longrightarrow> equals S c v db = (Inr True, db) \<longleftrightarrow> read_val db c = Some v"
  by (auto simp: equals_def lua_bind_def lua_ret_def lua_read_eq split: option.splits)

lemma passes_both_equals:
  assumes "is_read c" "is_read d"
  shows "passes (both (equals S c v) (equals S d w) # cs) db \<Longrightarrow>
    \<not> (read_val db c = Some v \<and> read_val db d = Some w) \<and> passes cs db"
  using assms equals_True[OF assms(1), of v db] equals_True[OF assms(2), of w db]
  by (simp add: passes_Cons) (auto simp: both_def lua_bind_def lua_ret_def)

subsection \<open>Live activation, join and stop\<close>

lemma activate_live_script_runs:
  assumes rep: "represents db L"
  shows "runs db refused
    (\<lambda>x db'. live_evidence db k4 k5 k6 k7 k8 a2 a3 a4 a5
       \<and> \<not> (hfield db (record_key t) ''fenced_epoch'' = Some a3
            \<and> hfield db (record_key t) ''fenced_generation'' = Some a4)
       \<and> hfield db (record_key t) ''state'' = Some ''pending''
       \<and> x = Inr (RInt 1) \<and> represents db' L
       \<and> hash_updated (record_key t) [(''state'', ''active''), (''grant_epoch'', a3), (''generation'', a4),
            (''worker'', a5), (''grant_token'', a2)] [] db db')
    (activate_live_script S k1 k2 (record_key t) k4 k5 k6 k7 k8 k9 t a2 a3 a4 a5)"
  unfolding activate_live_script_def
  by (intro runs_guard runs_record_counters runs_read runs_fact runs_touch_writes[OF rep])
    (use passes_both_equals in \<open>force simp: read_facts live_evidence_def identity_fields_def\<close>)+

lemma ack_live_stop_script_runs:
  assumes rep: "represents db L" and k7: "\<not> is_ledger_key k7"
  shows "runs db refused
    (\<lambda>x db'. hfield db (record_key t) ''state'' = Some ''active'' \<and> db k8 = Some (RStr a2)
       \<and> x = Inr (RInt 1) \<and> represents db' L
       \<and> hash_updated k7 [(''stopped_epoch'', a7), (''stopped_generation'', a8)] [] db db')
    (ack_live_stop_script S k1 k2 (record_key t) k4 k5 k6 k7 k8 k9 k10 t a2 a3 a4 a5 a6 a7 a8)"
  unfolding ack_live_stop_script_def active_live_checks_def grant_checks_def
  by (intro runs_guard runs_counters_positive runs_fact runs_foreign_hset[OF rep k7, where f = "''token''"])
    (simp_all add: read_facts)

subsection \<open>VOD sessions\<close>

lemma runs_viewers:
  assumes "R bad"
    and "\<And>v. read_val db (HGET k4 ''active_streams'') = Some v \<Longrightarrow> \<not> bad_count lo (number_or S [] v) \<Longrightarrow> runs db R Q k"
  shows "runs db R Q (viewers_at_least S k4 lo bad k)"
  unfolding viewers_at_least_def by (intro runs_read) (auto intro: runs_ret assms)

lemma bind_vod_script_runs:
  assumes rep: "represents db L" and k4: "\<not> is_ledger_key k4"
  shows "runs db refused
    (\<lambda>x db'. hfield db k4 ''atlas_reservation_token'' = None \<and> hfield db k4 ''active_streams'' = Some ''0''
       \<and> x = Inr (RInt 1) \<and> represents db' L
       \<and> (\<exists>db1. hash_updated k4 [(''atlas_reservation_token'', t), (''atlas_reservation_generation'', a2)] [] db db1
            \<and> hash_updated (record_key t) [(''state'', ''active'')] [] db1 db'))
    (bind_vod_script S k1 k2 (record_key t) k4 t a2 a3 a4 a5 a6 a7)"
  unfolding bind_vod_script_def
  by (intro runs_guard runs_record_counters runs_fact runs_bind_writes[OF rep, where f = "''user_id''"])
    (use k4 in \<open>simp_all add: read_facts identity_fields_def\<close>)

lemma runs_bumped:
  assumes rep: "represents db L" and k: "\<not> is_ledger_key k4"
    and n: "hfield db k4 ''active_streams'' = Some s"
  shows "runs db R (bumped db L k4 d) (bump_viewers S k4 d)"
proof -
  obtain h where h: "hash_at db k4 = Some h" using hfield_hash_at[OF n] by blast
  have f: "field_counter h ''active_streams'' = undec s"
    using n by (simp add: hfield_hash[OF h] field_counter_def)
  show ?thesis
  proof (cases "\<exists>m. undec s = Some m \<and> int64 m \<and> int64 (m + d)")
    case True
    then obtain m where m: "undec s = Some m" "int64 m" "int64 (m + d)" by blast
    let ?db = "put_hash k4 (AList.update ''active_streams'' (dec (m + d)) h) db"
    have call: "redis_call S db (HINCRBY k4 ''active_streams'' d) = (RInt (m + d), ?db)"
      by (rule call_hincrby[OF h]) (use f m in simp_all)
    have upd: "hash_updated k4 [(''active_streams'', dec (m + d))] [] db ?db"
      by (simp add: hash_updated_def hfield_hash[OF h] dict_simps split: option.split)
    have "bumped db L k4 d (Inr (arr2 1 (m + d))) ?db"
      using n m(1) upd hash_updated_represents[OF upd k rep] by (auto simp: bumped_def)
    then show ?thesis by (simp add: runs_def bump_viewers_def lua_bind_def lua_call_def lua_ret_def call)
  next
    case False
    then have "redis_call S db (HINCRBY k4 ''active_streams'' d) = (RError, db)"
      using h f by (intro call_hincrby_error) auto
    then show ?thesis by (simp add: runs_def bump_viewers_def lua_bind_def lua_call_def)
  qed
qed

lemma viewers_present:
  assumes "read_val db (HGET k4 ''active_streams'') = Some v" "\<not> bad_count lo (number_or S [] v)"
  obtains s where "hfield db k4 ''active_streams'' = Some s" "v = LStr s"
proof -
  have "v = LFalse \<or> (\<exists>s. v = LStr s)"
    using assms(1) by (auto simp: read_val.simps split: option.splits)
  moreover have "v \<noteq> LFalse" using assms(2) by (auto simp: number_or_def bad_count_def tonumber_empty)
  ultimately show thesis using assms(1) that by (auto simp: read_hget)
qed

lemma vod_join_script_runs:
  assumes rep: "represents db L" and k4: "\<not> is_ledger_key k4"
  shows "runs db refused_pair (\<lambda>x db'. bound_vod db k2 (record_key t) k4 t a2 \<and> bumped db L k4 1 x db')
    (vod_join_script S k1 k2 (record_key t) k4 t a2 a3 a4)"
  unfolding vod_join_script_def
proof (intro runs_guard runs_viewers runs_record_counters runs_fact)
  fix v assume "read_val db (HGET k4 ''active_streams'') = Some v" "\<not> bad_count 0 (number_or S [] v)"
  then obtain s where "hfield db k4 ''active_streams'' = Some s" by (rule viewers_present)
  then show "runs db refused_pair (bumped db L k4 1) (bump_viewers S k4 1)"
    by (rule runs_bumped[OF rep k4])
qed (simp_all add: vod_session_checks_def read_facts bound_vod_def)

lemma vod_leave_script_runs:
  assumes rep: "represents db L" and k4: "\<not> is_ledger_key k4"
  shows "runs db refused_pair
    (\<lambda>x db'. bound_vod db k2 (record_key t) k4 t a2 \<and> bumped db L k4 (- 1) x db')
    (vod_leave_script S k1 k2 (record_key t) k4 t a2 a3 a4)"
  unfolding vod_leave_script_def
proof (intro runs_guard runs_viewers runs_fact)
  fix v assume "read_val db (HGET k4 ''active_streams'') = Some v" "\<not> bad_count 1 (number_or S [] v)"
  then obtain s where "hfield db k4 ''active_streams'' = Some s" by (rule viewers_present)
  then show "runs db refused_pair (bumped db L k4 (- 1)) (bump_viewers S k4 (- 1))"
    by (rule runs_bumped[OF rep k4])
qed (simp_all add: vod_session_checks_def read_facts bound_vod_def)

end

end
