(* ===== verification/Ledger_Playback.thy ===== *)
theory Ledger_Playback
  imports Ledger_Bindings
begin

text \<open>
  The remaining scripts over a represented ledger: timeshift playback generations, the resumptions
  (which only read), the live join, and the live-channel versions of reserving and switching.
\<close>

subsection \<open>Timeshift pool entries\<close>

definition bound_timeshift ::
  "keyspace \<Rightarrow> bool str5" where
  "bound_timeshift db owner rk pool t generation \<longleftrightarrow>
     db owner = Some (RStr t) \<and> hfield db rk ''token'' = Some t \<and> hfield db rk ''state'' = Some ''active''
     \<and> hfield db rk ''mode'' = Some ''timeshift'' \<and> hfield db pool ''atlas_reservation_token'' = Some t
     \<and> hfield db pool ''atlas_reservation_generation'' = Some generation"

text \<open>The busy flag and the playback generation of a pool entry.\<close>

definition playing :: "keyspace \<Rightarrow> string \<Rightarrow> string \<Rightarrow> string \<Rightarrow> bool" where
  "playing db pool busy playback \<longleftrightarrow>
     hfield db pool ''busy'' = Some busy \<and> hfield db pool ''atlas_playback_generation'' = Some playback"

lemmas timeshift_checks =
  timeshift_record_checks_def timeshift_token_checks_def timeshift_identity_checks_def

text \<open>
  What a join sees: the record is active under this epoch and generation, the grant names the same
  epoch, token and worker, the worker still owns the channel, and the generation published a chunk.
\<close>

definition join_evidence ::
  "keyspace \<Rightarrow> bool str8" where
  "join_evidence db rk grant generation owner chunk provenance epoch gen \<longleftrightarrow>
     hfield db rk ''grant_epoch'' = Some epoch \<and> hfield db rk ''generation'' = Some gen
     \<and> hfield db grant ''epoch'' = Some epoch \<and> hfield db grant ''worker'' = hfield db rk ''worker''
     \<and> hfield db grant ''token'' = hfield db rk ''grant_token''
     \<and> sval db owner = hfield db rk ''worker'' \<and> db generation = Some (RStr gen)
     \<and> db provenance = Some (RStr (epoch @ '':'' @ gen)) \<and> db chunk \<noteq> None"

definition joined ::
  "keyspace \<Rightarrow> string \<Rightarrow> (string \<times> string) list \<Rightarrow> unit + reply \<Rightarrow> keyspace \<Rightarrow> bool" where
  "joined db rk cbs x db' \<longleftrightarrow>
     (\<exists>vs. list_all2 (\<lambda>f v. hfield db rk f = Some v) [''stream'', ''profile_id'', ''account_id''] vs
       \<and> list_all (\<lambda>(c, b). \<forall>n cap. counter_at db c = Some n \<longrightarrow> b = dec cap \<longrightarrow> 1 \<le> n \<and> n \<le> cap) cbs
       \<and> x = Inr (RArray (RInt 1 # map RBulk vs)) \<and> db' = db)"

fun lstr :: "lval \<Rightarrow> string option" where
  "lstr (LStr s) = Some s"
| "lstr _ = None"

lemma hget_value: "read_val db (HGET k f) = Some v \<Longrightarrow> hfield db k f = lstr v"
  by (cases "db k"; cases "the (db k)") (auto simp: read_val.simps hash_at_def hfield_def split: option.splits)

lemma get_value: "read_val db (GET k) = Some v \<Longrightarrow> sval db k = lstr v"
  by (auto simp: read_val.simps sval_def split: option.splits rval.splits)

text \<open>The effect of reserving a live channel: the new entry.\<close>

definition live_reserved ::
  "server \<Rightarrow> ledger \<Rightarrow> string \<Rightarrow> spec \<Rightarrow> unit + reply \<Rightarrow> keyspace \<Rightarrow> bool" where
  "live_reserved S L t sp x db' \<longleftrightarrow>
     L t = None \<and> \<not> owner_taken L (owner_key S sp) \<and> \<not> full L (spec_limits sp)
     \<and> x = Inr (arr2 1 (int (held L (profile_key sp)) + 1))
     \<and> represents db' (L(t \<mapsto> entry_of S sp))"

context redis_server
begin

lemma bind_timeshift_script_runs:
  assumes rep: "represents db L" and k4: "\<not> is_ledger_key k4"
  shows "runs db refused
    (\<lambda>x db'. hfield db k4 ''atlas_reservation_token'' = None \<and> hfield db k4 ''busy'' = Some ''1''
       \<and> x = Inr (RInt 1) \<and> represents db' L
       \<and> (\<exists>db1. hash_updated k4 [(''atlas_reservation_token'', t), (''atlas_reservation_generation'', a2),
              (''atlas_playback_generation'', a3)] [] db db1
            \<and> hash_updated (record_key t) [(''state'', ''active'')] [] db1 db'))
    (bind_timeshift_script S k1 k2 (record_key t) k4 k5 k6 k7 t a2 a3 a4 a5 a6 a7)"
  unfolding bind_timeshift_script_def
  by (intro runs_guard runs_counters_positive runs_fact runs_bind_writes[OF rep, where f = "''busy''"])
    (use k4 in \<open>simp_all add: read_facts identity_fields_def\<close>)

lemma claim_timeshift_script_runs:
  assumes rep: "represents db L" and k4: "\<not> is_ledger_key k4"
  shows "runs db refused
    (\<lambda>x db'. (bound_timeshift db k2 (record_key t) k4 t a2 \<and> hfield db k4 ''busy'' = Some ''0''
         \<and> hfield db k4 ''atlas_playback_generation'' \<noteq> Some a3)
       \<and> x = Inr (RInt 1) \<and> represents db' L
       \<and> hash_updated k4 [(''busy'', ''1''), (''atlas_playback_generation'', a3)]
            [''atlas_stopped_generation''] db db')
    (claim_timeshift_script S k1 k2 (record_key t) k4 k5 k6 k7 t a2 a3 a4 a5 a6 a7)"
  unfolding claim_timeshift_script_def timeshift_checks
  by (intro runs_guard runs_counters_positive runs_fact[of "_ \<and> _ \<and> _"]
      runs_foreign_update[OF rep k4, where f = "''busy''"])
    (auto simp: read_facts bound_timeshift_def)

lemma idle_timeshift_script_runs:
  assumes rep: "represents db L" and k4: "\<not> is_ledger_key k4"
  shows "runs db refused
    (\<lambda>x db'. (bound_timeshift db k2 (record_key t) k4 t a2 \<and> playing db k4 ''1'' a3)
       \<and> x = Inr (RInt 1) \<and> represents db' L
       \<and> hash_updated k4 [(''busy'', ''0'')] [''atlas_stopped_generation''] db db')
    (idle_timeshift_script S k1 k2 (record_key t) k4 k5 k6 k7 t a2 a3 a4 a5 a6 a7)"
  unfolding idle_timeshift_script_def timeshift_checks
  by (intro runs_guard runs_counters_positive runs_fact[of "_ \<and> _"]
      runs_foreign_update[OF rep k4, where f = "''busy''"])
    (simp_all add: read_facts bound_timeshift_def playing_def)

lemma ack_timeshift_script_runs:
  assumes rep: "represents db L" and k4: "\<not> is_ledger_key k4"
  shows "runs db refused
    (\<lambda>x db'. (bound_timeshift db k2 (record_key t) k4 t a2 \<and> playing db k4 ''1'' a3)
       \<and> x = Inr (RInt 1) \<and> represents db' L
       \<and> hash_updated k4 [(''atlas_stopped_generation'', a3)] [] db db')
    (ack_timeshift_stop_script S k1 k2 (record_key t) k4 t a2 a3 a4)"
  unfolding ack_timeshift_stop_script_def timeshift_checks
  by (intro runs_guard runs_fact[of "_ \<and> _"] runs_foreign_hset[OF rep k4, where f = "''busy''"])
    (simp_all add: read_facts bound_timeshift_def playing_def)

lemma supersede_timeshift_script_runs:
  assumes rep: "represents db L" and k4: "\<not> is_ledger_key k4"
  shows "runs db refused
    (\<lambda>x db'. (bound_timeshift db k2 (record_key t) k4 t a2 \<and> playing db k4 ''1'' a3
         \<and> hfield db k4 ''atlas_stopped_generation'' = Some a3 \<and> a3 \<noteq> a4)
       \<and> x = Inr (RInt 1) \<and> represents db' L
       \<and> hash_updated k4 [(''atlas_playback_generation'', a4)] [''atlas_stopped_generation''] db db')
    (supersede_timeshift_script S k1 k2 (record_key t) k4 k5 k6 k7 t a2 a3 a4 a5 a6 a7 a8)"
  unfolding supersede_timeshift_script_def timeshift_checks
  by (intro runs_guard runs_counters_positive runs_fact[of "_ \<and> _"]
      runs_foreign_update[OF rep k4, where f = "''busy''"])
    (simp_all add: read_facts bound_timeshift_def playing_def)


subsection \<open>Resumptions and joins read only\<close>

lemma runs_unchanged: "runs db R (\<lambda>x db'. x = Inr r \<and> db' = db) (lua_ret r)"
  by (simp add: runs_def lua_ret_def)

lemma vod_resume_script_runs:
  "runs db refused
    (\<lambda>x db'. bound_vod db k2 k3 k4 t a2 \<and> x = Inr (RInt 1) \<and> db' = db)
    (vod_resume_script S k1 k2 k3 k4 k5 k6 k7 t a2 a3 a4 a5 a6 a7)"
  unfolding vod_resume_script_def
  by (intro runs_guard runs_viewers runs_counters_positive runs_fact runs_unchanged)
    (simp_all add: read_facts bound_vod_def)

lemma runs_bounded_counters:
  assumes "R bad"
    and ok: "list_all (\<lambda>(c, b). \<exists>n cap. counter_at db c = Some n \<and> \<bar>n\<bar> \<le> 2 ^ 53 \<and> b = dec cap
          \<and> 1 \<le> cap \<and> cap \<le> 2 ^ 53) cbs"
    and k: "list_all (\<lambda>(c, b). \<forall>n cap. counter_at db c = Some n \<longrightarrow> b = dec cap \<longrightarrow> 1 \<le> n \<and> n \<le> cap) cbs
        \<Longrightarrow> runs db R Q k"
  shows "runs db R Q (counters_bounded S cbs check bad k)"
  using ok k
proof (induction cbs)
  case (Cons cb cbs)
  obtain c b where cb: "cb = (c, b)" by force
  with Cons.prems(1) obtain n cap where n: "counter_at db c = Some n" "\<bar>n\<bar> \<le> 2 ^ 53"
      and cap: "b = dec cap" "1 \<le> cap" "cap \<le> 2 ^ 53" by auto
  show ?case
    unfolding cb counters_bounded.simps
  proof (rule runs_read)
    fix v assume v: "read_val db (GET c) = Some v"
    show "runs db R Q (case (number_or S [] v, lua_tonumber S b) of
         (Some count, Some limit) \<Rightarrow>
           if bad_count 1 (Some count) \<or> (check \<and> bad_limit (Some limit)) \<or> flt limit count
           then lua_ret bad else counters_bounded S cbs check bad k
       | _ \<Rightarrow> lua_ret bad)"
    proof (cases "n = 0")
      case True
      have "v = LFalse \<or> v = LStr (dec 0)"
        using n(1) v True by (auto simp: counter_at_def read_val.simps split: option.splits rval.splits dest: undec_SomeD)
      then have "number_or S [] v = None \<or> number_or S [] v = Some (fint 0)"
        using tonumber_empty tonumber_dec[of 0] by (auto simp: number_or_def)
      then show ?thesis
        by (auto simp: bad_count_def intro!: runs_ret assms(1) split: option.split)
    next
      case False
      then obtain w where w: "read_val db (GET c) = Some w" "number_or S [] w = Some (fint n)"
        using number_of_present[OF n] by blast
      with v have num: "number_or S [] v = Some (fint n)" by simp
      have lim: "lua_tonumber S b = Some (fint cap)" using cap by (simp add: tonumber_dec)
      show ?thesis
      proof (cases "1 \<le> n \<and> n \<le> cap")
        case True
        have "runs db R Q (counters_bounded S cbs check bad k)"
        proof (rule Cons.IH)
          show "list_all (\<lambda>(c, b). \<exists>n cap. counter_at db c = Some n \<and> \<bar>n\<bar> \<le> 2 ^ 53 \<and> b = dec cap
              \<and> 1 \<le> cap \<and> cap \<le> 2 ^ 53) cbs" using Cons.prems(1) by simp
          assume "list_all (\<lambda>(c, b). \<forall>n cap. counter_at db c = Some n \<longrightarrow> b = dec cap \<longrightarrow> 1 \<le> n \<and> n \<le> cap) cbs"
          with True n cap show "runs db R Q k" by (intro Cons.prems(2)) (simp add: cb dec_inject)
        qed
        then show ?thesis using num lim by (auto intro!: runs_ret assms(1))
      next
        case False
        then show ?thesis using num lim cap by (auto simp: bad_count_def intro!: runs_ret assms(1))
      qed
    qed
  qed simp
qed (simp)

lemma resume_timeshift_script_runs:
  assumes ok: "list_all (\<lambda>(c, b). \<exists>n cap. counter_at db c = Some n \<and> \<bar>n\<bar> \<le> 2 ^ 53 \<and> b = dec cap
          \<and> 1 \<le> cap \<and> cap \<le> 2 ^ 53) [(k5, a8), (k6, a9), (k7, a10)]"
  shows "runs db refused
    (\<lambda>x db'. (bound_timeshift db k2 k3 k4 t a2 \<and> hfield db k4 ''atlas_playback_generation'' = Some a3)
       \<and> list_all (\<lambda>(c, b). \<forall>n cap. counter_at db c = Some n \<longrightarrow> b = dec cap \<longrightarrow> 1 \<le> n \<and> n \<le> cap)
           [(k5, a8), (k6, a9), (k7, a10)]
       \<and> x = Inr (RInt 1) \<and> db' = db)
    (resume_timeshift_script S k1 k2 k3 k4 k5 k6 k7 t a2 a3 a4 a5 a6 a7 a8 a9 a10)"
  unfolding resume_timeshift_script_def timeshift_checks
  by (intro runs_guard runs_bounded_counters[OF _ ok] runs_fact[of "_ \<and> _"] runs_fact[of "list_all _ _"]
      runs_unchanged)
    (simp_all add: read_facts bound_timeshift_def)

lemma runs_positive_fields:
  assumes bad: "R (RArray [RInt (- 2)])"
    and k: "\<And>vs. list_all2 (\<lambda>f v. hfield db k3 f = Some v) fs vs \<Longrightarrow> runs db R Q (k (ids @ map RBulk vs))"
  shows "runs db R Q (positive_fields S k3 fs ids k)"
  using k
proof (induction fs arbitrary: ids)
  case Nil
  from Nil[of "[]"] show ?case by simp
next
  case (Cons f fs)
  show ?case
    unfolding positive_fields.simps
  proof (rule runs_read)
    fix v assume v: "read_val db (HGET k3 f) = Some v"
    show "runs db R Q (case v of
         LStr s \<Rightarrow> if bad_limit (lua_tonumber S s) then lua_ret (RArray [RInt (- 2)])
                   else positive_fields S k3 fs (ids @ [RBulk s]) k
       | _ \<Rightarrow> lua_ret (RArray [RInt (- 2)]))"
    proof (cases v)
      case (LStr s)
      with v have s: "hfield db k3 f = Some s" by (simp add: read_hget)
      have "runs db R Q (positive_fields S k3 fs (ids @ [RBulk s]) k)"
        using Cons.prems[of "s # _"] s by (intro Cons.IH) simp
      with LStr bad show ?thesis by (auto intro: runs_ret)
    qed (use bad in \<open>auto intro: runs_ret\<close>)
  qed simp
qed

lemma runs_join_tail:
  assumes ok: "list_all (\<lambda>(c, b). \<exists>n cap. counter_at db c = Some n \<and> \<bar>n\<bar> \<le> 2 ^ 53 \<and> b = dec cap
          \<and> 1 \<le> cap \<and> cap \<le> 2 ^ 53) cbs"
  shows "runs db refused_join (joined db k3 cbs)
     (positive_fields S k3 [''stream'', ''profile_id'', ''account_id''] []
        (\<lambda>ids. counters_bounded S cbs True (RArray [RInt (- 2)]) (lua_ret (RArray (RInt 1 # ids)))))"
proof (rule runs_positive_fields)
  fix vs assume vs: "list_all2 (\<lambda>f v. hfield db k3 f = Some v) [''stream'', ''profile_id'', ''account_id''] vs"
  show "runs db refused_join (joined db k3 cbs)
    (counters_bounded S cbs True (RArray [RInt (- 2)]) (lua_ret (RArray (RInt 1 # [] @ map RBulk vs))))"
    by (rule runs_bounded_counters[OF _ ok]) (use vs in \<open>auto simp: joined_def intro!: runs_done\<close>)
qed simp

lemma attest_live_join_script_runs:
  assumes ok: "list_all (\<lambda>(c, b). \<exists>n cap. counter_at db c = Some n \<and> \<bar>n\<bar> \<le> 2 ^ 53 \<and> b = dec cap
          \<and> 1 \<le> cap \<and> cap \<le> 2 ^ 53) [(k10, a4), (k11, a5), (k12, a6)]"
  shows "runs db refused_join
    (\<lambda>x db'. join_evidence db k3 k4 k5 k6 k7 k8 a2 a3 \<and> hfield db k3 ''state'' = Some ''active''
       \<and> joined db k3 [(k10, a4), (k11, a5), (k12, a6)] x db')
    (attest_live_join_script S k1 k2 k3 k4 k5 k6 k7 k8 k9 k10 k11 k12 t a2 a3 a4 a5 a6)"
  unfolding attest_live_join_script_def
  by (intro runs_guard runs_read runs_fact runs_join_tail[OF ok])
    (simp_all add: read_facts join_evidence_def, auto dest!: hget_value get_value)

subsection \<open>Reserving and switching a live channel\<close>

lemma runs_spec_limits:
  assumes rep: "represents db L" and caps: "exact_capacities sp" and R: "\<And>n. R (arr2 (- 1) n)"
    and K: "\<not> full L (spec_limits sp) \<Longrightarrow> runs db R Q K"
  shows "runs db R Q (capacity_free S [(profile_key sp, dec (profile_capacity sp)),
      (account_key sp, dec (account_capacity sp)), (credential_key sp, dec (credential_capacity sp))] K)"
proof -
  obtain n where "capacity_free S [(profile_key sp, dec (profile_capacity sp)),
      (account_key sp, dec (account_capacity sp)), (credential_key sp, dec (credential_capacity sp))] K db =
    (if full L (spec_limits sp) then (Inr (arr2 (- 1) n), db) else K db)"
    using spec_limits_eval[OF rep caps, of K] by blast
  with R K show ?thesis by (auto simp: runs_def simp del: capacity_free.simps)
qed

lemma runs_live_reserve_writes:
  assumes rep: "represents db L" and caps: "exact_capacities sp" and live: "mode sp = ''live''"
    and free: "db (owner_key S sp) = None" "db (record_key t) = None" "db k7 = None"
    and room: "\<not> full L (spec_limits sp)" and k7: "\<not> is_ledger_key k7" and f7: "f7 \<noteq> []"
  shows "runs db R (live_reserved S L t sp)
    (writes S
       [INCR (profile_key sp), INCR (account_key sp), INCR (credential_key sp),
        HSET (record_key t) [(''token'', t), (''owner'', owner_key S sp), (''stream'', dec (stream_id sp)),
          (''profile'', profile_key sp), (''account'', account_key sp), (''credential'', credential_key sp),
          (''mode'', ''live''), (''state'', ''pending''), (''profile_id'', dec (profile_id sp)),
          (''account_id'', dec (account_id sp)), (''channel_alias'', k7)],
        SET (owner_key S sp) t, HSET k7 f7]
     (count_reply S (profile_key sp)))"
proof -
  have L: "L t = None" "\<not> owner_taken L (owner_key S sp)"
    using represents_simps(2,3)[OF rep] free by auto
  obtain db1 where db1: "exec [INCR (profile_key sp), INCR (account_key sp), INCR (credential_key sp),
      HSET (record_key t) (reserve_fields S t sp @ [(''channel_alias'', k7)]), SET (owner_key S sp) t] db = Some db1"
      "represents db1 (L(t \<mapsto> entry_of S sp))" "\<And>k. \<not> is_ledger_key k \<Longrightarrow> db1 k = db k"
    by (rule exec_reserve[OF rep caps L room, of "[(''channel_alias'', k7)]"]) (auto simp: identity_fields_def)
  have "hash_at db1 k7 = Some []" using db1(3)[OF k7] free(3) by (simp add: hash_at_def)
  then obtain db2 where db2: "exec [HSET k7 f7] db1 = Some db2" "hash_updated k7 f7 [] db1 db2"
    by (rule exec_hset)
  have rep2: "represents db2 (L(t \<mapsto> entry_of S sp))"
    by (rule hash_updated_represents[OF db2(2) k7 db1(2)])
  have "exec ([INCR (profile_key sp), INCR (account_key sp), INCR (credential_key sp),
      HSET (record_key t) (reserve_fields S t sp @ [(''channel_alias'', k7)]), SET (owner_key S sp) t]
      @ [HSET k7 f7]) db = Some db2"
    by (simp only: exec_append db1(1) db2(1) Option.bind.simps)
  then have ex: "exec [INCR (profile_key sp), INCR (account_key sp), INCR (credential_key sp),
        HSET (record_key t) [(''token'', t), (''owner'', owner_key S sp), (''stream'', dec (stream_id sp)),
          (''profile'', profile_key sp), (''account'', account_key sp), (''credential'', credential_key sp),
          (''mode'', ''live''), (''state'', ''pending''), (''profile_id'', dec (profile_id sp)),
          (''account_id'', dec (account_id sp)), (''channel_alias'', k7)],
        SET (owner_key S sp) t, HSET k7 f7] db = Some db2"
    by (simp only: append.simps reserve_fields_def live)
  show ?thesis
    by (rule runs_writes[OF ex])
      (use pending_count[OF represents_simps(1)[OF rep] L(1) rep2] L room rep2 in \<open>auto simp: live_reserved_def\<close>)
qed

lemma reserve_live_script_runs:
  assumes rep: "represents db L" and caps: "exact_capacities sp" and live: "mode sp = ''live''"
    and k7: "\<not> is_ledger_key k7"
  shows "runs db refused_pair
    (\<lambda>x db'. db k8 = Some (RStr lease) \<and> live_reserved S L t sp x db')
    (reserve_live_channel_script S k1 (owner_key S sp) (record_key t) (profile_key sp) (account_key sp)
       (credential_key sp) k7 k8 t (dec (profile_capacity sp)) (dec (account_capacity sp))
       (dec (credential_capacity sp)) (dec (stream_id sp)) ''live'' (dec (profile_id sp)) (dec (account_id sp)) lease)"
  unfolding reserve_live_channel_script_def
  by (intro runs_guard runs_fact runs_spec_limits[OF rep caps] runs_live_reserve_writes[OF rep caps live])
    (use k7 in \<open>simp_all add: read_facts\<close>)

lemma runs_apply_if:
  "(b \<Longrightarrow> runs db R Q (f K)) \<Longrightarrow> (\<not> b \<Longrightarrow> runs db R Q (g K)) \<Longrightarrow> runs db R Q ((if b then f else g) K)"
  by simp

lemma runs_live_switch_writes:
  fixes st :: string
  assumes rep: "represents db L" and caps: "exact_capacities sp"
    and fields: "hfield db (record_key t) ''token'' = Some t" "hfield db (record_key t) ''owner'' = Some ow"
      "hfield db (record_key t) ''profile'' = Some p" "hfield db (record_key t) ''account'' = Some a"
      "hfield db (record_key t) ''credential'' = Some c"
    and e: "e = \<lparr>e_owner = ow, e_profile = p, e_account = a, e_credential = c\<rparr>"
    and room: "\<not> full L (filter (\<lambda>(k, _). k \<notin> counters e) (spec_limits sp))"
    and k10: "\<not> is_ledger_key k10" "hfield db k10 ''token'' \<noteq> None"
    and fence: "fence = [] \<or> (\<exists>ff. fence = [HSET (record_key t) ff] \<and> keeps_identity ff \<and> ff \<noteq> [])"
  shows "runs db R (switch_outcome db L t e sp {k10})
    (writes S
       (move_counters [(profile_key sp, p), (account_key sp, a), (credential_key sp, c)] @ fence
        @ [HSET (record_key t) [(''stream'', st), (''profile'', profile_key sp), (''account'', account_key sp),
             (''credential'', credential_key sp), (''profile_id'', pid), (''account_id'', aid), (''state'', ''pending'')],
           HDEL (record_key t) [''grant_token'', ''grant_epoch'', ''generation'', ''worker''],
           HSET k10 f10, HDEL k10 g10])
     (count_reply S (profile_key sp)))"
proof -
  let ?e' = "destination_entry e sp"
  have t: "L t = Some e" unfolding e by (rule owned_entry[OF rep fields])
  obtain db1 where db1: "exec (move_counters (switch_pairs e ?e')) db = Some db1"
      "\<And>k. \<not> is_counter_key k \<Longrightarrow> db1 k = db k"
      "\<And>k. is_counter_key k \<Longrightarrow> counter_right db1 (L(t \<mapsto> ?e')) k"
    by (rule exec_switch[OF rep t caps room]) auto
  have moves: "switch_pairs e ?e' = [(profile_key sp, p), (account_key sp, a), (credential_key sp, c)]"
    by (simp add: switch_pairs_def e)
  let ?fs = "[(''stream'', st), (''profile'', profile_key sp), (''account'', account_key sp),
    (''credential'', credential_key sp), (''profile_id'', pid), (''account_id'', aid), (''state'', ''pending'')]"
  let ?gs = "[''grant_token'', ''grant_epoch'', ''generation'', ''worker'']"
  have fs: "record_matches (hset_all ?fs h') t ?e'" if "record_matches h' t e" for h'
    using that by (simp add: record_matches_def hset_all_lookup map_add_def)
  obtain db2 where db2: "exec (fence @ [HSET (record_key t) ?fs, HDEL (record_key t) ?gs]) db1 = Some db2"
      "represents db2 (L(t \<mapsto> ?e'))" "\<forall>k. \<not> is_ledger_key k \<longrightarrow> db2 k = db k"
    using exec_switch_record[OF rep t destination_wf[OF represents_record(1)[OF rep t], of sp] _ db1(2,3) fence, of ?fs ?gs] fs
    by (auto simp: identity_fields_def)
  obtain h where "hash_at db k10 = Some h" using hash_present[OF k10(2)] by blast
  then have "hash_at db2 k10 = Some h" using db2(3) k10(1) by (simp add: hash_at_def)
  then obtain db3 where db3: "exec [HSET k10 f10, HDEL k10 g10] db2 = Some db3" "hash_updated k10 f10 g10 db2 db3"
    by (rule exec_hash)
  have rep3: "represents db3 (L(t \<mapsto> ?e'))" by (rule hash_updated_represents[OF db3(2) k10(1) db2(2)])
  have "exec (move_counters (switch_pairs e ?e')
      @ (fence @ [HSET (record_key t) ?fs, HDEL (record_key t) ?gs]) @ [HSET k10 f10, HDEL k10 g10]) db = Some db3"
    by (simp only: exec_append[of "move_counters _"] exec_append[of "fence @ _"] db1(1) db2(1) db3(1) Option.bind.simps)
  then have ex: "exec (move_counters [(profile_key sp, p), (account_key sp, a), (credential_key sp, c)] @ fence
        @ [HSET (record_key t) ?fs, HDEL (record_key t) ?gs, HSET k10 f10, HDEL k10 g10]) db = Some db3"
    by (simp only: moves append_assoc append.simps)
  have "count_reply S (profile_key sp) db3 =
      (Inr (arr2 1 (int (held (L(t \<mapsto> ?e')) (profile_key sp)))), db3)"
    using switched_count[OF rep3, of t ?e'] by simp
  moreover have "moved_entry db L t e ?e' (spec_limits sp) {k10} db3"
    using t room rep3 db2(3) hash_updated_other(1)[OF db3(2)] by (simp add: moved_entry_def)
  ultimately show ?thesis
    by (intro runs_writes[OF ex]) (simp add: switch_outcome_def)
qed

lemma runs_live_switch_tail:
  assumes rep: "represents db L" and caps: "exact_capacities sp"
    and fields: "hfield db (record_key t) ''token'' = Some t" "hfield db (record_key t) ''owner'' = Some ow"
      "hfield db (record_key t) ''profile'' = Some p" "hfield db (record_key t) ''account'' = Some a"
      "hfield db (record_key t) ''credential'' = Some c"
    and R: "\<And>n. R (arr2 (- 1) n)"
    and k10: "\<not> is_ledger_key k10" "hfield db k10 ''token'' \<noteq> None"
    and fence: "fence = [] \<or> (\<exists>ff. fence = [HSET (record_key t) ff] \<and> keeps_identity ff \<and> ff \<noteq> [])"
  shows "runs db R (switch_outcome db L t \<lparr>e_owner = ow, e_profile = p, e_account = a, e_credential = c\<rparr> sp {k10})
    (capacity_free S (destination_limits [(profile_key sp, p, dec (profile_capacity sp)),
      (account_key sp, a, dec (account_capacity sp)), (credential_key sp, c, dec (credential_capacity sp))])
    (writes S
       (move_counters [(profile_key sp, p), (account_key sp, a), (credential_key sp, c)] @ fence
        @ [HSET (record_key t) [(''stream'', st), (''profile'', profile_key sp), (''account'', account_key sp),
             (''credential'', credential_key sp), (''profile_id'', pid), (''account_id'', aid), (''state'', ''pending'')],
           HDEL (record_key t) [''grant_token'', ''grant_epoch'', ''generation'', ''worker''],
           HSET k10 f10, HDEL k10 g10])
     (count_reply S (profile_key sp))))"
  by (rule runs_limits_of_entry[OF rep caps fields], rule R,
      rule runs_live_switch_writes[OF rep caps fields refl _ k10 fence])

lemma switch_live_script_runs:
  assumes rep: "represents db L" and caps: "exact_capacities sp" and k10: "\<not> is_ledger_key k10"
  shows "runs db refused_pair
    (\<lambda>x db'. (hfield db (record_key t) ''state'' = Some ''active'' \<longrightarrow> stop_attested db k10 a10 a11)
       \<and> switch_outcome db L t \<lparr>e_owner = ow, e_profile = p, e_account = a, e_credential = c\<rparr> sp {k10} x db')
    (switch_live_channel_script S k1 ow (record_key t) p a c (profile_key sp) (account_key sp)
       (credential_key sp) k10 k11 k12 k13 t a2 (dec (profile_capacity sp)) (dec (account_capacity sp))
       (dec (credential_capacity sp)) a6 a7 a8 a9 a10 a11)"
  unfolding switch_live_channel_script_def
  by (intro runs_guard runs_read runs_apply_if runs_ret runs_counters_positive runs_fact
      runs_live_switch_tail[OF rep caps])
    (use k10 in \<open>auto simp: read_facts identity_fields_def stop_attested_def\<close>)

end

end
