(* ===== verification/Ledger_Steps.thy ===== *)
theory Ledger_Steps
  imports Ledger_Playback
begin

text \<open>
  The ledger as a state machine: one step per client call, whatever its outcome, and the steps of
  the environment, which may write or expire any key outside the ledger's families. Every step
  simulates one of the four abstract steps, and the abstract invariants carry over to the keyspace.
\<close>

subsection \<open>Abstract steps\<close>

inductive ledger_step :: "(string \<Rightarrow> int) \<Rightarrow> ledger \<Rightarrow> ledger \<Rightarrow> bool" for cap where
  idle: "ledger_step cap L L"
| admit: "L t = None \<Longrightarrow> \<not> owner_taken L (e_owner e) \<Longrightarrow> wf_entry e \<Longrightarrow>
    \<forall>k\<in>counters e. int (held L k) < cap k \<Longrightarrow> ledger_step cap L (L(t \<mapsto> e))"
| withdraw: "L t = Some e \<Longrightarrow> ledger_step cap L (L(t := None))"
| move: "L t = Some e \<Longrightarrow> e_owner e' = e_owner e \<Longrightarrow>
    \<forall>k\<in>counters e' - counters e. int (held L k) < cap k \<Longrightarrow> ledger_step cap L (L(t \<mapsto> e'))"

definition fits :: "(string \<Rightarrow> int) \<Rightarrow> ledger \<Rightarrow> bool" where
  "fits cap L \<longleftrightarrow> finite (dom L) \<and> (\<forall>k. int (held L k) \<le> cap k)"

lemma ledger_step_fits:
  assumes "ledger_step cap L L'" "fits cap L"
  shows "fits cap L'"
  using assms
proof (cases rule: ledger_step.cases)
  case (admit t e)
  have "int (held L' k) \<le> cap k" for k
    using assms(2) admit held_add[of L t e k] by (auto simp: fits_def)
  with admit assms(2) show ?thesis by (simp add: fits_def)
next
  case (withdraw t e)
  have "int (held L' k) \<le> cap k" for k
  proof -
    have "held L' k \<le> held L k" using assms(2) withdraw held_remove[of L t e k] by (simp add: fits_def)
    moreover have "int (held L k) \<le> cap k" using assms(2) by (simp add: fits_def)
    ultimately show ?thesis by linarith
  qed
  with withdraw assms(2) show ?thesis by (simp add: fits_def)
next
  case (move t e e')
  have "int (held L' k) \<le> cap k" for k
  proof -
    have le: "int (held L k) \<le> cap k" and fin: "finite (dom L)" using assms(2) by (simp_all add: fits_def)
    have "k \<in> counters e' \<Longrightarrow> k \<notin> counters e \<Longrightarrow> int (held L k) < cap k" using move(4) by blast
    then show ?thesis
      using le held_switch[OF fin move(2), of e' k] unfolding move(1) by (simp split: if_splits)
  qed
  with move assms(2) show ?thesis by (simp add: fits_def)
qed simp

subsection \<open>Client calls\<close>

definition policy :: "(string \<Rightarrow> int) \<Rightarrow> spec \<Rightarrow> bool" where
  "policy cap sp \<longleftrightarrow> exact_capacities sp \<and> list_all (\<lambda>(k, c). c = cap k) (spec_limits sp)"

inductive ledger_action :: "server \<Rightarrow> (string \<Rightarrow> int) \<Rightarrow> keyspace \<Rightarrow> keyspace \<Rightarrow> bool" for S cap where
  environment: "\<forall>k. is_ledger_key k \<longrightarrow> db' k = db k \<Longrightarrow> ledger_action S cap db db'"
| reserve: "policy cap sp \<Longrightarrow> reserve S t sp db = (r, db') \<Longrightarrow> ledger_action S cap db db'"
| reserve_live: "policy cap sp \<Longrightarrow> reserve_live_channel S t sp ch lease db = (r, db') \<Longrightarrow>
    ledger_action S cap db db'"
| release_pending: "release_pending_live_channel S sp t ch lease db = (b, db') \<Longrightarrow> ledger_action S cap db db'"
| release: "release S sp t db = (b, db') \<Longrightarrow> ledger_action S cap db db'"
| release_current: "release_current S md ow t db0 db1 db = (b, db') \<Longrightarrow> ledger_action S cap db db'"
| release_active: "release_active_live_channel S sp t ch lease gt ep gen db = (b, db') \<Longrightarrow>
    ledger_action S cap db db'"
| switch: "policy cap sp' \<Longrightarrow> switch S sp sp' t db = (n, db') \<Longrightarrow> ledger_action S cap db db'"
| switch_current: "policy cap sp' \<Longrightarrow> switch_current S sp' t db0 db1 db = (n, db') \<Longrightarrow>
    ledger_action S cap db db'"
| switch_live: "policy cap sp' \<Longrightarrow> switch_live_channel S sp sp' t ch lease go eo geno db = (n, db') \<Longrightarrow>
    ledger_action S cap db db'"
| activate: "activate_verified_live S sp t ch w gt ep gen ix db = (b, db') \<Longrightarrow> ledger_action S cap db db'"
| stop_live: "mark_live_upstream_closed S sp t ch lease gt ep gen upstream_closed db = (b, db') \<Longrightarrow>
    ledger_action S cap db db'"
| bind_vod: "bind_vod_session S sp t s g u content db = (b, db') \<Longrightarrow> ledger_action S cap db db'"
| join_vod: "join_vod_session S sp t s g u content db = (n', db') \<Longrightarrow> ledger_action S cap db db'"
| leave_vod: "leave_vod_session S sp t s g u content db = (n', db') \<Longrightarrow> ledger_action S cap db db'"
| cleanup_vod: "cleanup_vod_session S sp t s g u content db = (b, db') \<Longrightarrow> ledger_action S cap db db'"
| bind_timeshift: "bind_timeshift_pool S sp t s g pb u db = (b, db') \<Longrightarrow> ledger_action S cap db db'"
| claim_timeshift: "claim_timeshift_idle_pool S sp t s g pb u db = (b, db') \<Longrightarrow> ledger_action S cap db db'"
| idle_timeshift: "idle_timeshift_pool S sp t s g pb u db = (b, db') \<Longrightarrow> ledger_action S cap db db'"
| supersede_timeshift: "supersede_timeshift_busy_pool S sp t s g pb pb' u db = (b, db') \<Longrightarrow>
    ledger_action S cap db db'"
| stop_timeshift: "ack_timeshift_upstream_stopped S sp t s g pb u db = (b, db') \<Longrightarrow> ledger_action S cap db db'"
| cleanup_timeshift: "cleanup_timeshift_pool S sp t s g u db = (b, db') \<Longrightarrow> ledger_action S cap db db'"

subsection \<open>Simulation\<close>

definition simulated :: "(string \<Rightarrow> int) \<Rightarrow> ledger \<Rightarrow> keyspace \<Rightarrow> bool" where
  "simulated cap L db' \<longleftrightarrow> (\<exists>L'. represents db' L' \<and> ledger_step cap L L')"

lemma simulated_idle: "represents db' L \<Longrightarrow> simulated cap L db'"
  by (auto simp: simulated_def intro: idle)

lemma simulated_removal: "removal db L t e foreign db' \<Longrightarrow> simulated cap L db'"
  by (auto simp: simulated_def removal_def intro: withdraw)

lemma policy_room:
  assumes "policy cap sp" "\<not> full L (filter (\<lambda>(k, _). k \<notin> A) (spec_limits sp))"
    "k \<in> {profile_key sp, account_key sp, credential_key sp} - A"
  shows "int (held L k) < cap k"
  using assms by (auto simp: policy_def full_def spec_limits_def split: if_splits)

lemma simulated_switch:
  assumes "policy cap sp" "switch_outcome db L t e sp foreign x db'"
  shows "simulated cap L db'"
proof -
  have m: "moved_entry db L t e (destination_entry e sp) (spec_limits sp) foreign db'"
    using assms(2) by (simp add: switch_outcome_def)
  have room: "\<not> full L (filter (\<lambda>(k, _). k \<notin> counters e) (spec_limits sp))"
    using m by (simp add: moved_entry_def)
  have "ledger_step cap L (L(t \<mapsto> destination_entry e sp))"
  proof (rule move)
    show "\<forall>k\<in>counters (destination_entry e sp) - counters e. int (held L k) < cap k"
      using policy_room[OF assms(1) room] by simp
  qed (use m in \<open>simp_all add: moved_entry_def\<close>)
  with m show ?thesis by (auto simp: simulated_def moved_entry_def)
qed

lemma simulated_admit:
  assumes "policy cap sp" "L t = None" "\<not> owner_taken L (owner_key S sp)" "\<not> full L (spec_limits sp)"
    "represents db' (L(t \<mapsto> entry_of S sp))"
  shows "simulated cap L db'"
proof -
  have "ledger_step cap L (L(t \<mapsto> entry_of S sp))"
    by (rule admit) (use assms policy_room[OF assms(1), of L "{}"] in simp_all)
  with assms(5) show ?thesis by (auto simp: simulated_def)
qed

lemma simulated_live_reserved:
  "policy cap sp \<Longrightarrow> live_reserved S L t sp x db' \<Longrightarrow> simulated cap L db'"
  by (auto simp: live_reserved_def intro: simulated_admit)

lemma simulated_bumped: "bumped db L k d x db' \<Longrightarrow> simulated cap L db'"
  by (auto simp: bumped_def intro: simulated_idle)

text \<open>A client call simulates an abstract step, whatever it returns.\<close>

definition sim_client :: "(string \<Rightarrow> int) \<Rightarrow> ledger \<Rightarrow> keyspace \<Rightarrow> 'a client \<Rightarrow> bool" where
  "sim_client cap L db m \<longleftrightarrow> (\<forall>r db'. m db = (r, db') \<longrightarrow> simulated cap L db')"

lemma sim_clientD: "sim_client cap L db m \<Longrightarrow> m db = (r, db') \<Longrightarrow> simulated cap L db'"
  by (simp add: sim_client_def)

lemma sim_eval:
  assumes "represents db L" "runs db R Q m" "\<And>x db'. Q x db' \<Longrightarrow> simulated cap L db'"
  shows "sim_client cap L db (eval_script m f)"
  unfolding sim_client_def eval_script_def
proof (intro allI impI)
  fix r db' assume run: "(case m db of (Inl x, db') \<Rightarrow> (Inl RedisError, db') | (Inr r, db') \<Rightarrow> (f r, db')) = (r, db')"
  obtain x db1 where x: "m db = (x, db1)" by force
  with run have "db1 = db'" by (auto split: sum.splits)
  with runsD[OF assms(2) x] assms(1,3) show "simulated cap L db'" by (auto intro: simulated_idle)
qed

lemma sim_checked:
  assumes "represents db L" "\<And>x. m = Inr x \<Longrightarrow> sim_client cap L db (k x)"
  shows "sim_client cap L db (checked m k)"
  using assms by (cases m) (auto simp: checked_def sim_client_def intro: simulated_idle)

lemma sim_fixed: "represents db L \<Longrightarrow> sim_client cap L db (\<lambda>db. (r, db))"
  by (auto simp: sim_client_def intro: simulated_idle)

lemma sim_keys:
  assumes rep: "represents db L"
  shows "sim_client cap L db (k (record_key t)) \<Longrightarrow> sim_client cap L db (checked (record_key_arg t) k)"
    "(mode sp = ''live'' \<Longrightarrow> sim_client cap L db (k (record_key t))) \<Longrightarrow>
     sim_client cap L db (checked (live_reservation_keys sp t ch lease) k)"
    "sim_client cap L db (k (record_key t)) \<Longrightarrow> sim_client cap L db (checked (live_keys_ok sp t ch w ix) k)"
    "sim_client cap L db (k (record_key t)) \<Longrightarrow> sim_client cap L db (checked (vod_keys sp t s g) k)"
    "sim_client cap L db (k (record_key t)) \<Longrightarrow> sim_client cap L db (checked (timeshift_keys sp t s g) k)"
  using sim_checked[OF rep]
  by (auto simp: live_reservation_keys_def live_keys_ok_def vod_keys_def timeshift_keys_def
      record_key_arg_def valid_live_def intro!: sim_checked[OF rep] split: if_splits)

lemma sim_active_arguments:
  assumes rep: "represents db L" and k: "\<And>a b. sim_client cap L db (k (record_key t, a, b))"
  shows "sim_client cap L db (checked (active_live_arguments sp t ch lease gt ep gen) k)"
proof (rule sim_checked[OF rep])
  fix x assume "active_live_arguments sp t ch lease gt ep gen = Inr x"
  then obtain a b where "x = (record_key t, a, b)"
    by (auto simp: active_live_arguments_def live_reservation_keys_def record_key_arg_def rbind_Inr_iff
        split: if_splits)
  with k show "sim_client cap L db (k x)" by simp
qed

context redis_server
begin

lemma sim_reserve:
  assumes rep: "represents db L" and pol: "policy cap sp"
  shows "sim_client cap L db (reserve S t sp)"
proof (cases "hex_string 32 t")
  case True
  from pol have "exact_capacities sp" by (simp add: policy_def)
  from reserve_admission[OF rep this True] obtain r db' where
    r: "r = rbind (cutover db) (\<lambda>_. admission L t (entry_of S sp) (spec_limits sp))"
    and run: "reserve S t sp db = (map_sum id (Pair t) r, db')"
    and rep': "represents db' (admitted L t (entry_of S sp) r)" by blast
  have "simulated cap L db'"
  proof (cases r)
    case (Inl e)
    with rep' show ?thesis by (simp add: admitted_def simulated_idle)
  next
    case (Inr n)
    with r have "rbind (cutover db) (\<lambda>_. admission L t (entry_of S sp) (spec_limits sp)) = Inr n" by simp
    then have "admission L t (entry_of S sp) (spec_limits sp) = Inr n" unfolding rbind_Inr_iff by blast
    then have "L t = None" "\<not> owner_taken L (owner_key S sp)" "\<not> full L (spec_limits sp)"
      by (auto simp: admission_def split: if_splits)
    with rep' Inr show ?thesis by (auto simp: admitted_def intro: simulated_admit[OF pol])
  qed
  with run show ?thesis by (simp add: sim_client_def)
qed (simp add: reserve_def record_key_arg_def checked_def sim_fixed[OF rep])

lemma sim_reserve_live:
  assumes rep: "represents db L" and pol: "policy cap sp"
  shows "sim_client cap L db (reserve_live_channel S t sp ch lease)"
  unfolding reserve_live_channel_def
  by (rule sim_keys(2)[OF rep], rule sim_eval[OF rep reserve_live_script_runs[OF rep]])
    (use pol in \<open>auto simp: policy_def intro: simulated_live_reserved[OF pol]\<close>)

lemma sim_release:
  assumes rep: "represents db L"
  shows "sim_client cap L db (release S sp t)"
    "sim_client cap L db (release_current S md ow t db0 db1)"
    "sim_client cap L db (release_pending_live_channel S sp t ch lease)"
    "sim_client cap L db (release_active_live_channel S sp t ch lease gt ep gen)"
    "sim_client cap L db (cleanup_vod_session S sp t s g u content)"
    "sim_client cap L db (cleanup_timeshift_pool S sp t s g u)"
proof -
  show "sim_client cap L db (release S sp t)"
    unfolding release_def
    by (rule sim_keys(1)[OF rep], rule sim_eval[OF rep release_script_runs[OF rep]])
      (auto intro: simulated_removal)
  show "sim_client cap L db (release_current S md ow t db0 db1)"
    unfolding release_current_def
    by (rule sim_checked[OF rep], split option.split)
      (auto intro!: sim_fixed[OF rep] sim_checked[OF rep] sim_keys(1)[OF rep]
        sim_eval[OF rep release_script_runs[OF rep]] intro: simulated_removal)
  show "sim_client cap L db (release_pending_live_channel S sp t ch lease)"
    unfolding release_pending_live_channel_def
    by (rule sim_keys(2)[OF rep], rule sim_eval[OF rep release_pending_script_runs[OF rep]])
      (auto intro: simulated_removal)
  show "sim_client cap L db (release_active_live_channel S sp t ch lease gt ep gen)"
    unfolding release_active_live_channel_def
    by (rule sim_active_arguments[OF rep], unfold prod.case, rule sim_eval[OF rep release_active_script_runs[OF rep]])
      (auto intro: simulated_removal)
  show "sim_client cap L db (cleanup_vod_session S sp t s g u content)"
    unfolding cleanup_vod_session_def
    by (rule sim_checked[OF rep], rule sim_keys(4)[OF rep], rule sim_eval[OF rep vod_cleanup_script_runs[OF rep]])
      (auto intro: simulated_removal)
  show "sim_client cap L db (cleanup_timeshift_pool S sp t s g u)"
    unfolding cleanup_timeshift_pool_def timeshift_eval_def
    by (rule sim_checked[OF rep], rule sim_keys(5)[OF rep], rule sim_checked[OF rep],
        rule sim_eval[OF rep cleanup_timeshift_script_runs[OF rep]])
      (auto intro: simulated_removal)
qed

lemma sim_switch:
  assumes rep: "represents db L" and pol: "policy cap sp'"
  shows "sim_client cap L db (switch S sp sp' t)"
    "sim_client cap L db (switch_current S sp' t db0 db1)"
    "sim_client cap L db (switch_live_channel S sp sp' t ch lease go eo geno)"
proof -
  have caps: "exact_capacities sp'" using pol by (simp add: policy_def)
  show "sim_client cap L db (switch S sp sp' t)"
    unfolding switch_def
    by (simp add: sim_fixed[OF rep], intro impI, rule sim_keys(1)[OF rep],
        rule sim_eval[OF rep switch_script_runs[OF rep caps]], erule simulated_switch[OF pol])
  show "sim_client cap L db (switch_current S sp' t db0 db1)"
    unfolding switch_current_def
    by (rule sim_checked[OF rep], split option.split)
      (auto intro!: sim_fixed[OF rep] sim_keys(1)[OF rep]
        sim_eval[OF rep switch_script_runs[OF rep caps]] intro: simulated_switch[OF pol])
  show "sim_client cap L db (switch_live_channel S sp sp' t ch lease go eo geno)"
    unfolding switch_live_channel_def
    by (rule sim_checked[OF rep], rule sim_checked[OF rep], rule sim_keys(2)[OF rep], rule sim_checked[OF rep],
        split prod.split, intro allI impI, split prod.split, intro allI impI,
        rule sim_eval[OF rep switch_live_script_runs[OF rep caps]])
      (auto intro: simulated_switch[OF pol])
qed

lemma sim_live:
  assumes rep: "represents db L"
  shows "sim_client cap L db (activate_verified_live S sp t ch w gt ep gen ix)"
    "sim_client cap L db (mark_live_upstream_closed S sp t ch lease gt ep gen upstream_closed)"
proof -
  show "sim_client cap L db (activate_verified_live S sp t ch w gt ep gen ix)"
    unfolding activate_verified_live_def
    by (rule sim_checked[OF rep], rule sim_keys(3)[OF rep], rule sim_checked[OF rep], rule sim_checked[OF rep],
        rule sim_eval[OF rep activate_live_script_runs[OF rep]])
      (auto intro: simulated_idle)
  show "sim_client cap L db (mark_live_upstream_closed S sp t ch lease gt ep gen upstream_closed)"
    unfolding mark_live_upstream_closed_def
    by (rule sim_checked[OF rep], rule sim_active_arguments[OF rep], unfold prod.case,
        rule sim_eval[OF rep ack_live_stop_script_runs[OF rep]])
      (auto intro: simulated_idle)
qed

lemma sim_vod:
  assumes rep: "represents db L"
  shows "sim_client cap L db (bind_vod_session S sp t s g u content)"
    "sim_client cap L db (join_vod_session S sp t s g u content)"
    "sim_client cap L db (leave_vod_session S sp t s g u content)"
proof -
  show "sim_client cap L db (bind_vod_session S sp t s g u content)"
    unfolding bind_vod_session_def
    by (rule sim_checked[OF rep], rule sim_keys(4)[OF rep], rule sim_eval[OF rep bind_vod_script_runs[OF rep]])
      (auto intro: simulated_idle)
  show "sim_client cap L db (join_vod_session S sp t s g u content)"
    unfolding join_vod_session_def vod_activity_def
    by (rule sim_checked[OF rep], rule sim_keys(4)[OF rep], rule sim_eval[OF rep vod_join_script_runs[OF rep]])
      (auto intro: simulated_bumped)
  show "sim_client cap L db (leave_vod_session S sp t s g u content)"
    unfolding leave_vod_session_def vod_activity_def
    by (rule sim_checked[OF rep], rule sim_keys(4)[OF rep], rule sim_eval[OF rep vod_leave_script_runs[OF rep]])
      (auto intro: simulated_bumped)
qed

lemma sim_timeshift:
  assumes rep: "represents db L"
  shows "sim_client cap L db (bind_timeshift_pool S sp t s g pb u)"
    "sim_client cap L db (claim_timeshift_idle_pool S sp t s g pb u)"
    "sim_client cap L db (idle_timeshift_pool S sp t s g pb u)"
    "sim_client cap L db (supersede_timeshift_busy_pool S sp t s g pb pb' u)"
    "sim_client cap L db (ack_timeshift_upstream_stopped S sp t s g pb u)"
proof -
  show "sim_client cap L db (bind_timeshift_pool S sp t s g pb u)"
    unfolding bind_timeshift_pool_def timeshift_eval_def
    by (rule sim_checked[OF rep], rule sim_keys(5)[OF rep], rule sim_checked[OF rep],
        rule sim_eval[OF rep bind_timeshift_script_runs[OF rep]])
      (auto intro: simulated_idle)
  show "sim_client cap L db (claim_timeshift_idle_pool S sp t s g pb u)"
    unfolding claim_timeshift_idle_pool_def timeshift_eval_def
    by (rule sim_checked[OF rep], rule sim_keys(5)[OF rep], rule sim_checked[OF rep],
        rule sim_eval[OF rep claim_timeshift_script_runs[OF rep]])
      (auto intro: simulated_idle)
  show "sim_client cap L db (idle_timeshift_pool S sp t s g pb u)"
    unfolding idle_timeshift_pool_def timeshift_eval_def
    by (rule sim_checked[OF rep], rule sim_keys(5)[OF rep], rule sim_checked[OF rep],
        rule sim_eval[OF rep idle_timeshift_script_runs[OF rep]])
      (auto intro: simulated_idle)
  show "sim_client cap L db (supersede_timeshift_busy_pool S sp t s g pb pb' u)"
    unfolding supersede_timeshift_busy_pool_def
    by (rule sim_checked[OF rep], rule sim_keys(5)[OF rep], rule sim_checked[OF rep], rule sim_checked[OF rep],
        rule sim_eval[OF rep supersede_timeshift_script_runs[OF rep]])
      (auto intro: simulated_idle)
  show "sim_client cap L db (ack_timeshift_upstream_stopped S sp t s g pb u)"
    unfolding ack_timeshift_upstream_stopped_def
    by (rule sim_checked[OF rep], rule sim_keys(5)[OF rep], rule sim_checked[OF rep],
        rule sim_eval[OF rep ack_timeshift_script_runs[OF rep]])
      (auto intro: simulated_idle)
qed

lemmas sims = sim_reserve sim_reserve_live sim_release sim_switch sim_live sim_vod sim_timeshift

lemma action_simulated:
  assumes "ledger_action S cap db db'" "represents db L"
  shows "simulated cap L db'"
  using assms(1)
proof (cases rule: ledger_action.cases)
  case environment
  then show ?thesis by (intro simulated_idle represents_frame[OF assms(2)]) simp
qed (rule sim_clientD, rule sims[OF assms(2)]; assumption)+

end

subsection \<open>Reachable keyspaces\<close>

inductive ledger_reachable :: "server \<Rightarrow> (string \<Rightarrow> int) \<Rightarrow> keyspace \<Rightarrow> bool" for S cap where
  start: "\<forall>k. is_ledger_key k \<longrightarrow> db k = None \<Longrightarrow> ledger_reachable S cap db"
| step: "ledger_reachable S cap db \<Longrightarrow> ledger_action S cap db db' \<Longrightarrow> ledger_reachable S cap db'"

lemma represents_empty:
  assumes "\<forall>k. is_ledger_key k \<longrightarrow> db k = None"
  shows "represents db Map.empty"
  using assms by (auto simp: represents_def counter_right_def counter_at_def held_def)

lemma reachable_represents:
  assumes "redis_server S" "ledger_reachable S cap db" "\<forall>k. 0 \<le> cap k"
  shows "\<exists>L. represents db L \<and> fits cap L"
  using assms(2)
proof (induction rule: ledger_reachable.induct)
  case (start db)
  have "fits cap Map.empty" using assms(3) by (simp add: fits_def held_def)
  with represents_empty[OF start] show ?case by blast
next
  case (step db db')
  then obtain L where L: "represents db L" "fits cap L" by blast
  from redis_server.action_simulated[OF assms(1) step.hyps(2) L(1)] obtain L' where
    "represents db' L'" "ledger_step cap L L'" by (auto simp: simulated_def)
  with ledger_step_fits[OF _ L(2)] show ?case by blast
qed

end
