(* ===== verification/Ledger_Correct.thy ===== *)
theory Ledger_Correct
  imports Ledger_Steps
begin

text \<open>
  What the reservation ledger guarantees to its callers, for every server with the documented
  behaviour of Redis: conservation of the counters and the capacity bound over every reachable
  keyspace, and the exact effect of the client calls on the ledger a keyspace represents.
\<close>

subsection \<open>Reachable keyspaces\<close>

lemma holders_of_key:
  assumes "represents db L"
  shows "{t. \<exists>e. L t = Some e \<and> k \<in> counters e}
    = {t. \<exists>f\<in>{''profile'', ''account'', ''credential''}. hfield db (record_key t) f = Some k}"
proof -
  have "(\<exists>e. L t = Some e \<and> k \<in> counters e) \<longleftrightarrow>
      (\<exists>f\<in>{''profile'', ''account'', ''credential''}. hfield db (record_key t) f = Some k)" for t
  proof (cases "L t")
    case None
    then have "db (record_key t) = None" using represents_simps(2)[OF assms] by simp
    with None show ?thesis by (simp add: hfield_def)
  next
    case (Some e)
    with represents_record(5-7)[OF assms Some] show ?thesis by (auto simp: counters_def)
  qed
  then show ?thesis by blast
qed

text \<open>
  C2. Conservation: in every keyspace the clients of the ledger and its environment can reach, each
  capacity counter holds exactly the number of reservation records that name it, so no sequence of
  reservations, switches, releases and session operations leaks or double-frees a slot.
\<close>

theorem ledger_counts_conserved:
  assumes "redis_server S" "ledger_reachable S cap db" "\<forall>k. 0 \<le> cap k" "is_counter_key k"
  shows "finite {t. db (record_key t) \<noteq> None}
    \<and> counter_at db k = Some (int (card {t. \<exists>f\<in>{''profile'', ''account'', ''credential''}.
        hfield db (record_key t) f = Some k}))"
proof -
  obtain L where L: "represents db L" using reachable_represents[OF assms(1-3)] by blast
  have "{t. db (record_key t) \<noteq> None} = dom L" 
    by (simp add: dom_def represents_simps(2)[OF L] del: not_None_eq)
  then show ?thesis
    using represents_simps(1)[OF L] represents_simps(4)[OF L assms(4)] holders_of_key[OF L, of k]
    by (simp add: held_def)
qed

text \<open>
  C3. Capacity: when every caller reserves and switches under one policy that gives each counter its
  capacity, no reachable keyspace has a counter above that capacity, whatever the interleaving.
\<close>

theorem ledger_within_capacity:
  assumes "redis_server S" "ledger_reachable S cap db" "\<forall>k. 0 \<le> cap k" "is_counter_key k"
  shows "\<exists>n. counter_at db k = Some n \<and> 0 \<le> n \<and> n \<le> cap k"
proof -
  obtain L where L: "represents db L" "fits cap L" using reachable_represents[OF assms(1-3)] by blast
  with represents_simps(4)[OF L(1) assms(4)] show ?thesis by (auto simp: fits_def)
qed

text \<open>
  One reservation per owner: two records of a reachable keyspace never share an owner key, and
  the owner key names the token of its record.
\<close>

theorem one_reservation_per_owner:
  assumes "redis_server S" "ledger_reachable S cap db" "\<forall>k. 0 \<le> cap k"
    "hfield db (record_key t) ''owner'' = Some ow" "hfield db (record_key u) ''owner'' = Some ow"
  shows "t = u \<and> db ow = Some (RStr t)"
proof -
  obtain L where L: "represents db L" using reachable_represents[OF assms(1-3)] by blast
  obtain e where e: "L t = Some e" by (rule represents_found[OF L assms(4)])
  obtain e' where e': "L u = Some e'" by (rule represents_found[OF L assms(5)])
  have "e_owner e = ow" "e_owner e' = ow"
    using represents_record(4)[OF L e] represents_record(4)[OF L e'] assms(4,5) by simp_all
  then show ?thesis
    using represents_owner_unique[OF L e e'] represents_record(2)[OF L e] by simp
qed

subsection \<open>Reserving and releasing\<close>

text \<open>
  C22. Reserving refines the admission decision: on a represented keyspace \<open>reserve\<close> answers exactly
  what the ledger says - busy when the owner or the token is taken, full when one of the three
  counters has reached its capacity, the new profile count otherwise - adds exactly the new entry on
  success and changes nothing at all on refusal.
\<close>

theorem reserve_refines_admission:
  assumes "redis_server S" "represents db L" "exact_capacities sp" "hex_string 32 t"
  shows "\<exists>r db'. r = rbind (cutover db) (\<lambda>_. admission L t (entry_of S sp) (spec_limits sp))
    \<and> reserve S t sp db = (map_sum id (Pair t) r, db')
    \<and> represents db' (admitted L t (entry_of S sp) r) \<and> (\<forall>e. r = Inl e \<longrightarrow> db' = db)"
  using redis_server.reserve_admission[OF assms] by blast

lemma eval_script_runs:
  assumes "runs db R Q m" "eval_script m f db = (r, db')"
  shows "(db' = db \<and> (r = Inl RedisError \<or> (\<exists>y. R y \<and> r = f y)))
    \<or> (\<exists>x. Q x db' \<and> r = (case x of Inl _ \<Rightarrow> Inl RedisError | Inr y \<Rightarrow> f y))"
proof -
  obtain x db1 where x: "m db = (x, db1)" by force
  with assms(2) have "db1 = db'" "r = (case x of Inl _ \<Rightarrow> Inl RedisError | Inr y \<Rightarrow> f y)"
    by (auto simp: eval_script_def split: sum.splits)
  with runsD[OF assms(1) x] show ?thesis by (cases x) auto
qed

text \<open>A client call that succeeds ran its script, and the script succeeded.\<close>

lemma eval_script_success:
  assumes "runs db R Q m" "eval_script m f db = (Inr v, db')" "\<And>y. R y \<Longrightarrow> f y \<noteq> Inr v"
  shows "\<exists>y. Q (Inr y) db' \<and> f y = Inr v"
proof -
  from eval_script_runs[OF assms(1,2)] consider y where "R y" "Inr v = f y"
    | x where "Q x db'" "Inr v = (case x of Inl _ \<Rightarrow> Inl RedisError | Inr y \<Rightarrow> f y)" by auto
  then show ?thesis
  proof cases
    case 1
    with assms(3) show ?thesis by metis
  next
    case 2
    then show ?thesis by (cases x) auto
  qed
qed

lemma checked_Inr: "checked m k db = (Inr v, db') \<Longrightarrow> \<exists>x. m = Inr x \<and> k x db = (Inr v, db')"
  by (cases m) (auto simp: checked_def)

lemma outcome_Inr: "outcome r = Inr n \<Longrightarrow> \<exists>a b. r = RArray [a, b] \<and> reply_int a = Inr 1 \<and> reply_int b = Inr n"
  by (auto simp: outcome_def split: reply.splits list.splits sum.splits if_splits)

lemma false_if_busy_True: "false_if_busy (outcome r) = Inr True \<Longrightarrow> \<not> refused_pair r"
  by (auto simp: false_if_busy_def outcome_def refused_pair_def split: if_splits)

lemma yes_no_True: "yes_no r = Inr True \<Longrightarrow> \<not> refused r"
  by (auto simp: yes_no_def refused_def split: if_splits)

lemma cutover_ledger: "db CUTOVER_KEY = Some (RStr ''ledger'') \<Longrightarrow> cutover db = Inr ()"
  by (simp add: cutover_def require_def)

context redis_server
begin

lemma release_success:
  assumes rep: "represents db L" and run: "release S sp t db = (Inr True, db')"
  shows "hex_string 32 t" "db CUTOVER_KEY = Some (RStr ''ledger'')" "removal db L t (entry_of S sp) {} db'"
proof -
  from run obtain rk where rk: "record_key_arg t = Inr rk" and ev:
    "eval_script (release_script S CUTOVER_KEY (owner_key S sp) rk (profile_key sp) (account_key sp)
      (credential_key sp) t) (\<lambda>r. false_if_busy (outcome r)) db = (Inr True, db')"
    unfolding release_def by (blast dest: checked_Inr)
  then have rk': "rk = record_key t" "hex_string 32 t" by (auto simp: record_key_arg_def split: if_splits)
  from eval_script_success[OF release_script_runs[OF rep] ev[unfolded rk'(1)]] false_if_busy_True
  show "db CUTOVER_KEY = Some (RStr ''ledger'')" "removal db L t (entry_of S sp) {} db'"
    by (auto simp: entry_of_def)
  show "hex_string 32 t" by (rule rk'(2))
qed

text \<open>The owner alias of another token, or of none, stops a release before any write.\<close>

lemma release_not_owner:
  assumes token: "hex_string 32 t" and on: "cutover db = Inr ()"
    and owner: "db (owner_key S sp) = None"
  shows "release S sp t db = (Inr False, db)"
  using assms
  by (simp add: release_def checked_def record_key_arg_def eval_script_def release_script_def record_checks_def
      ledger_guard guard_differs read_val.simps outcome_def false_if_busy_def)

lemma release_twice:
  assumes rep: "represents db L" and run: "release S sp t db = (Inr True, db')"
  shows "release S sp t db' = (Inr False, db')"
proof (rule release_not_owner[OF release_success(1)[OF assms]])
  note rem = release_success(3)[OF assms]
  have "db' CUTOVER_KEY = db CUTOVER_KEY" using rem by (simp add: removal_def)
  then show "cutover db' = Inr ()" using release_success(2)[OF assms] by (simp add: cutover_ledger)
  have L: "L t = Some (entry_of S sp)" and rep': "represents db' (L(t := None))"
    using rem by (simp_all add: removal_def)
  have "\<not> owner_taken (L(t := None)) (owner_key S sp)"
    using represents_owner_unique[OF rep L] by (auto simp: owner_taken_def)
  then show "db' (owner_key S sp) = None" using represents_simps(3)[OF rep'] by simp
qed

end

text \<open>
  C23. Release happens once: a successful release removes exactly the entry of its specification from
  the ledger and touches no key outside it, and releasing the same token again answers no and
  changes nothing.
\<close>

theorem release_exactly_once:
  assumes "redis_server S" "represents db L" "release S sp t db = (Inr True, db')"
  shows "L t = Some (entry_of S sp) \<and> represents db' (L(t := None))
    \<and> (\<forall>k. \<not> is_ledger_key k \<longrightarrow> db' k = db k) \<and> release S sp t db' = (Inr False, db')"
  using redis_server.release_success(3)[OF assms] redis_server.release_twice[OF assms]
  by (simp add: removal_def)

context redis_server
begin

lemma guard_both_pending:
  assumes "read_val db (HGET k ''state'') = Some (LStr ''pending'')"
  shows "guard [both (equals S (HGET k ''state'') (LStr ''active'')) q] r K db = K db"
  using assms by (simp add: guard_def both_def equals_def lua_bind_def lua_ret_def lua_read_eq)

lemma release_pending_record:
  assumes rep: "represents db L" and t: "L t = Some (entry_of S sp)" and token: "hex_string 32 t"
    and on: "cutover db = Inr ()" and rec: "db (record_key t) = Some (RHash h)"
    and state: "map_of h ''state'' = Some ''pending''" "map_of h ''channel_alias'' = None"
  shows "\<exists>db'. release S sp t db = (Inr True, db') \<and> removal db L t (entry_of S sp) {} db'"
proof -
  note e = represents_record[OF rep t]
  have field: "read_val db (HGET (record_key t) f) = Some (case map_of h f of None \<Rightarrow> LFalse | Some s \<Rightarrow> LStr s)"
    "read_val db (HEXISTS (record_key t) f) = Some (LInt (if map_of h f = None then 0 else 1))" for f
    using rec by (simp_all add: read_val.simps hash_at_def)
  have fields: "map_of h ''token'' = Some t" "map_of h ''owner'' = Some (owner_key S sp)"
    "map_of h ''profile'' = Some (profile_key sp)" "map_of h ''account'' = Some (account_key sp)"
    "map_of h ''credential'' = Some (credential_key sp)"
    using e(3-7) rec by (simp_all add: hfield_def)
  have owner: "read_val db (GET (owner_key S sp)) = Some (LStr t)"
    using e(2) by (simp add: read_val.simps)
  have pos: "counter_at db k = Some (int (held L k))" "0 < int (held L k)" "int (held L k) \<le> 2 ^ 53"
    if "k \<in> {profile_key sp, account_key sp, credential_key sp}" for k
    using that represents_simps(4,5)[OF rep, of k] held_pos[OF represents_simps(1)[OF rep] t, of k]
    by (auto simp: is_counter_key_def)
  obtain db' where ex: "exec [DECR (e_profile (entry_of S sp)), DECR (e_account (entry_of S sp)),
        DECR (e_credential (entry_of S sp)), DEL [record_key t, owner_key S sp]] db = Some db'"
      and db': "represents db' (L(t := None))" "\<And>k. \<not> is_ledger_key k \<Longrightarrow> k \<notin> {} \<Longrightarrow> db' k = db k"
    by (rule exec_remove[OF rep t, of "[record_key t, owner_key S sp]" "{}"]) auto
  have script: "release_script S CUTOVER_KEY (owner_key S sp) (record_key t) (profile_key sp) (account_key sp)
      (credential_key sp) t db = (Inr (arr2 1 0), db')"
    using on owner fields state field pos ex
    by (simp add: release_script_def record_checks_def ledger_guard guard_differs guard_both_pending
        counters_positive_eval writes_exec lua_ret_def del: writes.simps exec.simps counters_positive.simps(2))
  have "release S sp t db = (Inr True, db')"
    using token by (simp add: release_def checked_def record_key_arg_def eval_script_def script outcome_def false_if_busy_def)
  with db' t show ?thesis by (auto simp: removal_def)
qed

lemma reserve_then_release:
  assumes rep: "represents db L" and caps: "exact_capacities sp" and token: "hex_string 32 t"
    and run: "reserve S t sp db = (Inr (u, n), db1)"
  shows "\<exists>db2. release S sp t db1 = (Inr True, db2) \<and> represents db2 L"
proof -
  from reserve_admission[OF rep caps token] obtain r db' where
    r: "r = rbind (cutover db) (\<lambda>_. admission L t (entry_of S sp) (spec_limits sp))"
    and res: "reserve S t sp db = (map_sum id (Pair t) r, db')"
    and rep1: "represents db' (admitted L t (entry_of S sp) r)"
    and foreign: "\<forall>k. \<not> is_ledger_key k \<longrightarrow> db' k = db k"
    and rec: "\<forall>n. r = Inr n \<longrightarrow> db' (record_key t) = Some (RHash (hset_all (reserve_fields S t sp) []))" by blast
  from run res have rn: "r = Inr n" and db1: "db' = db1" by (cases r; auto)+
  have "rbind (cutover db) (\<lambda>_. admission L t (entry_of S sp) (spec_limits sp)) = Inr n" using r rn by simp
  then obtain x where "cutover db = Inr x" and adm: "admission L t (entry_of S sp) (spec_limits sp) = Inr n"
    unfolding rbind_Inr_iff by blast
  then have on: "cutover db1 = Inr ()" using foreign db1 by (simp add: cutover_def)
  have free: "L t = None" using adm by (auto simp: admission_def split: if_splits)
  have rep1': "represents db1 (L(t \<mapsto> entry_of S sp))" using rep1 rn db1 by (simp add: admitted_def)
  have rec1: "db1 (record_key t) = Some (RHash (hset_all (reserve_fields S t sp) []))"
    using rec rn db1 by simp
  have "map_of (hset_all (reserve_fields S t sp) []) ''state'' = Some ''pending''"
    "map_of (hset_all (reserve_fields S t sp) []) ''channel_alias'' = None"
    by (simp_all add: hset_all_lookup reserve_fields_def)
  from release_pending_record[OF rep1' _ token on rec1 this] obtain db2 where
    "release S sp t db1 = (Inr True, db2)" "removal db1 (L(t \<mapsto> entry_of S sp)) t (entry_of S sp) {} db2"
    by auto
  moreover have "(L(t \<mapsto> entry_of S sp))(t := None) = L" using free by auto
  ultimately show ?thesis by (auto simp: removal_def simp del: fun_upd_upd)
qed

end

text \<open>
  A reservation can always be given back: right after a successful \<open>reserve\<close> the release of the
  same token succeeds and leaves a keyspace that represents the ledger from before the reservation.
\<close>

theorem reserve_release_roundtrip:
  assumes "redis_server S" "represents db L" "exact_capacities sp" "hex_string 32 t"
    "reserve S t sp db = (Inr (u, n), db1)"
  shows "\<exists>db2. release S sp t db1 = (Inr True, db2) \<and> represents db2 L
    \<and> (\<forall>k. is_counter_key k \<longrightarrow> counter_at db2 k = counter_at db k)"
proof -
  obtain db2 where db2: "release S sp t db1 = (Inr True, db2)" "represents db2 L"
    using redis_server.reserve_then_release[OF assms] by blast
  with represents_simps(4)[OF assms(2)] represents_simps(4)[OF db2(2)] show ?thesis by auto
qed

end
