(* ===== verification/Ledger_Channels.thy ===== *)
theory Ledger_Channels
  imports Ledger_Correct
begin

text \<open>
  What the ledger guarantees for switching and for live channels: a switch is one atomic change of
  the entry within the destination's limits, a live reservation is activated, joined, switched and
  released only on the evidence the scripts demand.
\<close>

lemma outcome_Inr_pair: "outcome r = Inr n \<Longrightarrow> \<not> refused_pair r"
  by (auto simp: outcome_def refused_pair_def split: if_splits)

context redis_server
begin

lemma switch_success:
  assumes rep: "represents db L" and caps: "exact_capacities sp'"
    and run: "switch S sp sp' t db = (Inr n, db')"
  shows "owner_key S sp' = owner_key S sp"
    "\<exists>x. switch_outcome db L t (entry_of S sp) sp' {} x db' \<and> (\<forall>y. x = Inr y \<longrightarrow> outcome y = Inr n)"
proof -
  have same: "mode sp = mode sp'" "owner_id sp = owner_id sp'"
    using run by (auto simp: switch_def split: if_splits)
  then show "owner_key S sp' = owner_key S sp" by (simp add: owner_key_def)
  from run same obtain rk where rk: "record_key_arg t = Inr rk" and ev:
    "eval_script (switch_script S CUTOVER_KEY (owner_key S sp) rk (profile_key sp) (account_key sp)
      (credential_key sp) (profile_key sp') (account_key sp') (credential_key sp') t
      (dec (profile_capacity sp')) (dec (account_capacity sp')) (dec (credential_capacity sp'))
      (dec (stream_id sp')) (dec (profile_id sp')) (dec (account_id sp'))) outcome db = (Inr n, db')"
    unfolding switch_def by (auto dest: checked_Inr)
  then have rk': "rk = record_key t" by (auto simp: record_key_arg_def split: if_splits)
  from eval_script_success[OF switch_script_runs[OF rep caps] ev[unfolded rk']] outcome_Inr_pair
  show "\<exists>x. switch_outcome db L t (entry_of S sp) sp' {} x db' \<and> (\<forall>y. x = Inr y \<longrightarrow> outcome y = Inr n)"
    by (fastforce simp: entry_of_def)
qed

end

text \<open>
  C26. Switching is atomic: a successful switch replaces the reservation's counters by the
  destination's in one step, only when every counter it newly takes was below its capacity, keeps the
  owner, and returns the resulting count of the destination profile.
\<close>

theorem switch_replaces_entry:
  assumes "redis_server S" "represents db L" "exact_capacities sp'" "switch S sp sp' t db = (Inr n, db')"
  shows "L t = Some (entry_of S sp) \<and> represents db' (L(t \<mapsto> entry_of S sp'))
    \<and> n = int (held (L(t \<mapsto> entry_of S sp')) (profile_key sp'))
    \<and> list_all (\<lambda>(k, c). k \<notin> counters (entry_of S sp) \<longrightarrow> int (held L k) < c) (spec_limits sp')"
proof -
  note sw = redis_server.switch_success[OF assms]
  have eq: "destination_entry (entry_of S sp) sp' = entry_of S sp'"
    using sw(1) by (simp add: destination_entry_def entry_of_def)
  from sw(2) obtain x where x: "switch_outcome db L t (entry_of S sp) sp' {} x db'"
      "\<forall>y. x = Inr y \<longrightarrow> outcome y = Inr n" by blast
  then have "n = int (held (L(t \<mapsto> entry_of S sp')) (profile_key sp'))"
    by (simp add: switch_outcome_def eq outcome_def)
  with x(1) show ?thesis
    by (fastforce simp: switch_outcome_def moved_entry_def eq full_def list_all_iff list_ex_iff not_le)
qed

context redis_server
begin

lemma active_arguments_Inr:
  "active_live_arguments sp t ch lease gt ep gen = Inr (rk, a, b) \<Longrightarrow>
   rk = record_key t \<and> a = gt \<and> b = gen \<and> 1 \<le> ep \<and> valid_live sp ch lease"
  by (auto simp: active_live_arguments_def live_reservation_keys_def record_key_arg_def required_text_def
      rbind_Inr_iff split: if_splits)

lemma release_active_success:
  assumes rep: "represents db L"
    and run: "release_active_live_channel S sp t ch lease gt ep gen db = (Inr True, db')"
  shows "stop_attested db (channel_alias_key ch) (dec ep) gen \<and> db (channel_owner_key ch) = Some (RStr lease)
    \<and> removal db L t (entry_of S sp) {channel_alias_key ch} db'"
proof -
  from run obtain x where x: "active_live_arguments sp t ch lease gt ep gen = Inr x"
    and ev: "(case x of (rk, gt, gen) \<Rightarrow> eval_script
       (release_active_live_script S CUTOVER_KEY (owner_key S sp) rk (profile_key sp) (account_key sp)
          (credential_key sp) (channel_alias_key ch) (channel_owner_key ch)
          (attestation_key ch '':grant'') (attestation_key ch '':generation'')
          t lease (dec (stream_id sp)) (dec (profile_id sp)) (dec (account_id sp)) gt (dec ep) gen)
       yes_no) db = (Inr True, db')"
    unfolding release_active_live_channel_def by (blast dest: checked_Inr)
  have xs: "x = (record_key t, gt, gen)" using active_arguments_Inr x by (cases x) blast
  from eval_script_success[OF release_active_script_runs[OF rep] ev[unfolded xs prod.case]] yes_no_True
  show ?thesis by (auto simp: entry_of_def)
qed

end


context redis_server
begin

lemma live_reservation_keys_Inr:
  "live_reservation_keys sp t ch lease = Inr rk \<Longrightarrow> rk = record_key t \<and> valid_live sp ch lease"
  by (auto simp: live_reservation_keys_def record_key_arg_def split: if_splits)

lemma switch_live_success:
  assumes rep: "represents db L" and caps: "exact_capacities sp'"
    and run: "switch_live_channel S sp sp' t ch lease (Some gt) (Some ep) (Some gen) db = (Inr n, db')"
  shows "hfield db (record_key t) ''state'' = Some ''active'' \<longrightarrow> stop_attested db (channel_alias_key ch) (dec ep) gen"
    "\<exists>x. switch_outcome db L t (entry_of S sp) sp' {channel_alias_key ch} x db'"
proof -
  from run obtain rk x where rk: "live_reservation_keys sp t ch lease = Inr rk"
    and x: "stopped_arguments (Some gt) (Some ep) (Some gen) = Inr x"
    and ev: "(case x of (gt, ep, gen) \<Rightarrow> eval_script
       (switch_live_channel_script S CUTOVER_KEY (owner_key S sp) rk (profile_key sp)
          (account_key sp) (credential_key sp) (profile_key sp')
          (account_key sp') (credential_key sp') (channel_alias_key ch)
          (channel_owner_key ch) (attestation_key ch '':grant'')
          (attestation_key ch '':generation'')
          t lease (dec (profile_capacity sp')) (dec (account_capacity sp'))
          (dec (credential_capacity sp')) (dec (stream_id sp'))
          (dec (profile_id sp')) (dec (account_id sp')) gt ep gen)
       outcome) db = (Inr n, db')"
    unfolding switch_live_channel_def by (blast dest!: checked_Inr)
  have rk': "rk = record_key t" using live_reservation_keys_Inr[OF rk] by simp
  have xs: "x = (gt, dec ep, gen)"
    using x by (auto simp: stopped_arguments_def required_text_def rbind_Inr_iff split: if_splits)
  have foreign: "\<not> is_ledger_key (channel_alias_key ch)" by simp
  from eval_script_success[OF switch_live_script_runs[OF rep caps foreign] ev[unfolded xs prod.case rk']] outcome_Inr_pair
  show "hfield db (record_key t) ''state'' = Some ''active'' \<longrightarrow> stop_attested db (channel_alias_key ch) (dec ep) gen"
    "\<exists>x. switch_outcome db L t (entry_of S sp) sp' {channel_alias_key ch} x db'"
    by (force simp: entry_of_def)+
qed

end

text \<open>
  An active live channel moves to another upstream only after the old one was attested closed:
  a successful switch with a stopped identity needs that identity's stop markers when the record is
  active, and then replaces the entry within the destination's limits.
\<close>

theorem live_switch_needs_stop:
  assumes "redis_server S" "represents db L" "exact_capacities sp'"
    "switch_live_channel S sp sp' t ch lease (Some gt) (Some ep) (Some gen) db = (Inr n, db')"
    "hfield db (record_key t) ''state'' = Some ''active''"
  shows "stop_attested db (channel_alias_key ch) (dec ep) gen \<and> L t = Some (entry_of S sp)
    \<and> represents db' (L(t \<mapsto> destination_entry (entry_of S sp) sp'))"
  using redis_server.switch_live_success[OF assms(1-4)] assms(5)
  by (auto simp: switch_outcome_def moved_entry_def)

context redis_server
begin

lemma activate_success:
  assumes rep: "represents db L"
    and run: "activate_verified_live S sp t ch w gt ep gen ix db = (Inr True, db')"
  shows "live_evidence db (attestation_key ch '':grant'') (attestation_key ch '':generation'') (channel_owner_key ch)
      (chunk_key ch ix) (chunk_key ch ix @ '':provenance'') gt (dec ep) gen w"
    "\<not> (hfield db (record_key t) ''fenced_epoch'' = Some (dec ep)
        \<and> hfield db (record_key t) ''fenced_generation'' = Some gen)"
    "hfield db (record_key t) ''state'' = Some ''pending''" "represents db' L"
    "hash_updated (record_key t) [(''state'', ''active''), (''grant_epoch'', dec ep), (''generation'', gen),
            (''worker'', w), (''grant_token'', gt)] [] db db'"
proof -
  from run obtain rk gt' gen' where rk: "live_keys_ok sp t ch w ix = Inr rk"
    and texts: "required_text gt = Inr gt'" "required_text gen = Inr gen'"
    and ev: "eval_script
       (activate_live_script S CUTOVER_KEY (owner_key S sp) rk (attestation_key ch '':grant'')
          (attestation_key ch '':generation'') (channel_owner_key ch) (chunk_key ch ix)
          (chunk_key ch ix @ '':provenance'') (channel_alias_key ch)
          t gt' (dec ep) gen' w) yes_no db = (Inr True, db')"
    unfolding activate_verified_live_def by (blast dest!: checked_Inr)
  have eqs: "rk = record_key t" "gt' = gt" "gen' = gen"
    using rk texts by (auto simp: live_keys_ok_def record_key_arg_def required_text_def split: if_splits)
  from eval_script_success[OF activate_live_script_runs[OF rep] ev[unfolded eqs]] yes_no_True
  show "live_evidence db (attestation_key ch '':grant'') (attestation_key ch '':generation'') (channel_owner_key ch)
      (chunk_key ch ix) (chunk_key ch ix @ '':provenance'') gt (dec ep) gen w"
    "\<not> (hfield db (record_key t) ''fenced_epoch'' = Some (dec ep)
        \<and> hfield db (record_key t) ''fenced_generation'' = Some gen)"
    "hfield db (record_key t) ''state'' = Some ''pending''" "represents db' L"
    "hash_updated (record_key t) [(''state'', ''active''), (''grant_epoch'', dec ep), (''generation'', gen),
            (''worker'', w), (''grant_token'', gt)] [] db db'"
    by blast+
qed

end

text \<open>
  Activation needs proof of delivery: a pending live reservation becomes active only when the
  grant, the generation and the channel lease name the caller, the chunk exists with the provenance
  of exactly this epoch and generation, and that pair was not fenced by an earlier switch. The ledger
  is unchanged and the record is active under that grant.
\<close>

theorem live_activation_needs_chunk:
  assumes "redis_server S" "represents db L"
    "activate_verified_live S sp t ch w gt ep gen ix db = (Inr True, db')"
  shows "live_evidence db (attestation_key ch '':grant'') (attestation_key ch '':generation'') (channel_owner_key ch)
      (chunk_key ch ix) (chunk_key ch ix @ '':provenance'') gt (dec ep) gen w
    \<and> \<not> (hfield db (record_key t) ''fenced_epoch'' = Some (dec ep)
        \<and> hfield db (record_key t) ''fenced_generation'' = Some gen)
    \<and> represents db' L \<and> hfield db (record_key t) ''state'' = Some ''pending''
    \<and> hfield db' (record_key t) ''state'' = Some ''active''
    \<and> hfield db' (record_key t) ''grant_epoch'' = Some (dec ep)"
  using redis_server.activate_success[OF assms]
  by (simp add: hash_updated_field[OF redis_server.activate_success(5)[OF assms]])

end
