(* ===== verification/Ledger_Viewers.thy ===== *)
theory Ledger_Viewers
  imports Ledger_Channels
begin

text \<open>
  What the ledger guarantees to viewers: joining a live channel is read only and attested, VOD viewers
  are counted one by one and hold the reservation until the last one left, timeshift playback is
  exclusive and a superseded playback is fenced.
\<close>

subsection \<open>Joining a live channel\<close>

context redis_server
begin

lemma canonical_limits:
  assumes rep: "represents db L" and caps: "exact_capacities sp"
  shows "list_all (\<lambda>(c, b). \<exists>n cap. counter_at db c = Some n \<and> \<bar>n\<bar> \<le> 2 ^ 53 \<and> b = dec cap
      \<and> 1 \<le> cap \<and> cap \<le> 2 ^ 53)
    [(profile_key sp, dec (profile_capacity sp)), (account_key sp, dec (account_capacity sp)),
     (credential_key sp, dec (credential_capacity sp))]"
proof -
  have "\<exists>n. counter_at db k = Some n \<and> \<bar>n\<bar> \<le> 2 ^ 53" if "is_counter_key k" for k
    using represents_simps(4,5)[OF rep that] by auto
  with caps show ?thesis by (auto simp: exact_capacities_def spec_limits_def is_counter_key_def)
qed

lemma join_run:
  assumes rep: "represents db L" and caps: "exact_capacities sp"
    and run: "attest_live_join S sp t ch w ep gen ix db = (r, db')"
  shows "db' = db"
    "\<exists>ids. r = Inr (Some ids) \<Longrightarrow>
       join_evidence db (record_key t) (attestation_key ch '':grant'') (attestation_key ch '':generation'')
         (channel_owner_key ch) (chunk_key ch ix) (chunk_key ch ix @ '':provenance'') (dec ep) gen
       \<and> hfield db (record_key t) ''state'' = Some ''active''
       \<and> list_all (\<lambda>(k, c). 1 \<le> held L k \<and> int (held L k) \<le> c) (spec_limits sp)"
proof -
  let ?script = "attest_live_join_script S CUTOVER_KEY (owner_key S sp) (record_key t)
      (attestation_key ch '':grant'') (attestation_key ch '':generation'') (channel_owner_key ch)
      (chunk_key ch ix) (chunk_key ch ix @ '':provenance'') (channel_alias_key ch)
      (profile_key sp) (account_key sp) (credential_key sp) t (dec ep) gen
      (dec (profile_capacity sp)) (dec (account_capacity sp)) (dec (credential_capacity sp))"
  note runs = attest_live_join_script_runs[OF canonical_limits[OF rep caps]]
  have "db' = db \<and> (r = Inr None \<or> (\<exists>e. r = Inl e) \<or> eval_script ?script join_reply db = (r, db'))"
  proof (cases "1 \<le> ep \<and> (\<exists>rk. live_keys_ok sp t ch w ix = Inr rk) \<and> (\<exists>g. required_text gen = Inr g)")
    case True
    then have "live_keys_ok sp t ch w ix = Inr (record_key t)" "required_text gen = Inr gen"
      by (auto simp: live_keys_ok_def record_key_arg_def required_text_def split: if_splits)
    with True run have ev: "eval_script ?script join_reply db = (r, db')"
      by (simp add: attest_live_join_def checked_def require_def)
    from eval_script_runs[OF runs ev] have "db' = db" by (auto simp: joined_def)
    with ev show ?thesis by simp
  next
    case False
    then show ?thesis using run
      by (auto simp: attest_live_join_def checked_def require_def split: if_splits sum.splits)
  qed
  then have same: "db' = db" and ev: "r = Inr None \<or> (\<exists>e. r = Inl e) \<or> eval_script ?script join_reply db = (r, db')"
    by auto
  show "db' = db" by (rule same)
  assume "\<exists>ids. r = Inr (Some ids)"
  then obtain ids where ids: "r = Inr (Some ids)" ..
  with ev have "eval_script ?script join_reply db = (Inr (Some ids), db')" by simp
  from eval_script_success[OF runs this] have
    "join_evidence db (record_key t) (attestation_key ch '':grant'') (attestation_key ch '':generation'')
         (channel_owner_key ch) (chunk_key ch ix) (chunk_key ch ix @ '':provenance'') (dec ep) gen
       \<and> hfield db (record_key t) ''state'' = Some ''active''
       \<and> (\<exists>y. joined db (record_key t) [(profile_key sp, dec (profile_capacity sp)),
          (account_key sp, dec (account_capacity sp)), (credential_key sp, dec (credential_capacity sp))] y db')"
    by (fastforce simp: join_reply_def refused_join_def split: if_splits)
  moreover have "counter_at db k = Some (int (held L k))" if "is_counter_key k" for k
    by (rule represents_simps(4)[OF rep that])
  ultimately show "join_evidence db (record_key t) (attestation_key ch '':grant'') (attestation_key ch '':generation'')
         (channel_owner_key ch) (chunk_key ch ix) (chunk_key ch ix @ '':provenance'') (dec ep) gen
       \<and> hfield db (record_key t) ''state'' = Some ''active''
       \<and> list_all (\<lambda>(k, c). 1 \<le> held L k \<and> int (held L k) \<le> c) (spec_limits sp)"
    by (auto simp: joined_def spec_limits_def is_counter_key_def)
qed

end

text \<open>
  Joining is read only and attested: \<open>attest_live_join\<close> never changes the keyspace, and it hands
  out the stream, profile and account only while the record is active under the epoch and generation
  the reader named, the grant, worker and chunk provenance agree with it, and each of the three
  counters is positive and within its limit.
\<close>

theorem live_join_attested:
  assumes "redis_server S" "represents db L" "exact_capacities sp"
    "attest_live_join S sp t ch w ep gen ix db = (Inr (Some ids), db')"
  shows "db' = db
    \<and> join_evidence db (record_key t) (attestation_key ch '':grant'') (attestation_key ch '':generation'')
         (channel_owner_key ch) (chunk_key ch ix) (chunk_key ch ix @ '':provenance'') (dec ep) gen
    \<and> hfield db (record_key t) ''state'' = Some ''active''
    \<and> list_all (\<lambda>(k, c). 1 \<le> held L k \<and> int (held L k) \<le> c) (spec_limits sp)"
  using redis_server.join_run[OF assms] by blast

subsection \<open>VOD sessions\<close>

definition viewers :: "keyspace \<Rightarrow> string \<Rightarrow> int option" where
  "viewers db session = Option.bind (hfield db (vod_session_key session) ''active_streams'') undec"

context redis_server
begin

lemma vod_keys_Inr: "vod_keys sp t s g = Inr rk \<Longrightarrow> rk = record_key t \<and> valid_session ''vod'' sp s g"
  by (auto simp: vod_keys_def record_key_arg_def split: if_splits)

lemma activity_refused: "activity_reply r = Inr (Some n) \<Longrightarrow> \<not> refused_pair r"
  by (auto simp: activity_reply_def refused_pair_def split: if_splits)

lemma activity_success:
  assumes runs: "runs db refused_pair (\<lambda>x db'. B \<and> bumped db L (vod_session_key s) d x db')
      (script S CUTOVER_KEY (owner_key S sp) (record_key t) (vod_session_key s) t g (dec u) content)"
    and run: "vod_activity script S sp t s g u content db = (Inr (Some n), db')"
  shows "viewers db s = Some (n - d) \<and> viewers db' s = Some n \<and> B \<and> represents db' L
    \<and> (\<forall>k. k \<noteq> vod_session_key s \<longrightarrow> db' k = db k)"
proof -
  from run obtain rk where rk: "vod_keys sp t s g = Inr rk" and ev: "eval_script
       (script S CUTOVER_KEY (owner_key S sp) rk (vod_session_key s) t g (dec u) content)
       activity_reply db = (Inr (Some n), db')"
    unfolding vod_activity_def by (blast dest!: checked_Inr)
  then have rk': "rk = record_key t" using vod_keys_Inr by blast
  from eval_script_success[OF runs ev[unfolded rk']] activity_refused obtain y where
    B: B and y: "bumped db L (vod_session_key s) d (Inr y) db'" "activity_reply y = Inr (Some n)" by blast
  then obtain v m where m: "hfield db (vod_session_key s) ''active_streams'' = Some v" "undec v = Some m"
      "y = arr2 1 (m + d)" and rep': "represents db' L"
      and upd: "hash_updated (vod_session_key s) [(''active_streams'', dec (m + d))] [] db db'"
    by (auto simp: bumped_def)
  have "m + d = n" using y(2) m(3) by (auto simp: activity_reply_def split: if_splits)
  then show ?thesis
    using B m rep' hash_updated_field[OF upd] hash_updated_other(1)[OF upd] by (auto simp: viewers_def)
qed

end

text \<open>
  VOD viewers are counted one by one: a successful join returns the viewer count after adding
  exactly one, a successful leave the count after removing exactly one, both only for the session
  bound to this token and generation; the reservation and every other key stay as they were.
\<close>

theorem vod_viewers_counted:
  assumes "redis_server S" "represents db L"
    "join_vod_session S sp t s g u content db = (Inr (Some n), db')"
    "leave_vod_session S sp t s g u content db' = (Inr (Some m), db'')"
  shows "viewers db s = Some (n - 1) \<and> viewers db' s = Some n \<and> viewers db'' s = Some m \<and> m = n - 1
    \<and> represents db'' L \<and> (\<forall>k. k \<noteq> vod_session_key s \<longrightarrow> db'' k = db k)"
proof -
  have foreign: "\<not> is_ledger_key (vod_session_key s)" by simp
  note j = redis_server.activity_success[OF assms(1)
      redis_server.vod_join_script_runs[OF assms(1,2) foreign] assms(3)[unfolded join_vod_session_def]]
  then have rep': "represents db' L" by blast
  note l = redis_server.activity_success[OF assms(1)
      redis_server.vod_leave_script_runs[OF assms(1) rep' foreign] assms(4)[unfolded leave_vod_session_def]]
  from j l show ?thesis by auto
qed

lemma cleanup_reply_True: "cleanup_reply r = Inr True \<Longrightarrow> \<not> refused_pair r"
  by (auto simp: cleanup_reply_def refused_pair_def split: if_splits)

text \<open>
  The upstream of a VOD session is given back only by the last viewer: a successful cleanup found
  the viewer count at zero, removed exactly the reservation of its specification and deleted the
  session key.
\<close>

theorem vod_cleanup_needs_no_viewer:
  assumes "redis_server S" "represents db L"
    "cleanup_vod_session S sp t s g u content db = (Inr True, db')"
  shows "viewers db s = Some 0 \<and> L t = Some (entry_of S sp) \<and> represents db' (L(t := None))
    \<and> db' (vod_session_key s) = None"
proof -
  from assms(3) obtain rk where rk: "vod_keys sp t s g = Inr rk" and ev: "eval_script
       (vod_cleanup_script S CUTOVER_KEY (owner_key S sp) rk (vod_session_key s) (profile_key sp)
          (account_key sp) (credential_key sp) t g (dec u) content)
       cleanup_reply db = (Inr True, db')"
    unfolding cleanup_vod_session_def by (blast dest!: checked_Inr)
  have rk': "rk = record_key t" using redis_server.vod_keys_Inr[OF assms(1) rk] by simp
  have foreign: "\<not> is_ledger_key (vod_session_key s)" by simp
  have "hfield db (vod_session_key s) ''active_streams'' = Some ''0''
      \<and> removal db L t (entry_of S sp) {vod_session_key s} db'"
    using eval_script_success[OF redis_server.vod_cleanup_script_runs[OF assms(1,2) foreign] ev[unfolded rk']]
      cleanup_reply_True by (auto simp: entry_of_def)
  moreover have "undec ''0'' = Some 0" by code_simp
  ultimately show ?thesis by (auto simp: viewers_def removal_def)
qed

subsection \<open>Timeshift playback\<close>

context redis_server
begin

lemma timeshift_keys_Inr: "timeshift_keys sp t s g = Inr rk \<Longrightarrow> rk = record_key t"
  by (auto simp: timeshift_keys_def record_key_arg_def split: if_splits)

text \<open>A timeshift call either does not succeed and changes nothing, or its script succeeded.\<close>

lemma yes_no_eval:
  assumes runs: "runs db refused (\<lambda>x db'. P \<and> x = Inr (RInt 1) \<and> W db') m"
    and ev: "eval_script m yes_no db = (r, db')"
  shows "(db' = db \<and> r \<noteq> Inr True) \<or> (r = Inr True \<and> P \<and> W db')"
  using eval_script_runs[OF runs ev] yes_no_True by (auto simp: yes_no_def split: if_splits)

lemma timeshift_run:
  assumes runs: "runs db refused (\<lambda>x db'. P \<and> x = Inr (RInt 1) \<and> W db')
      (script CUTOVER_KEY (owner_key S sp) (record_key t) (timeshift_pool_key s) (profile_key sp)
         (account_key sp) (credential_key sp))"
    and run: "timeshift_eval S sp t s g u pb script db = (r, db')"
  shows "(db' = db \<and> r \<noteq> Inr True) \<or> (r = Inr True \<and> P \<and> W db')"
proof (cases "1 \<le> u \<and> (\<exists>rk. timeshift_keys sp t s g = Inr rk)
    \<and> (\<exists>p. (case pb of None \<Rightarrow> Inr [] | Some p \<Rightarrow> playback_id p) = Inr p)")
  case True
  then have "timeshift_keys sp t s g = Inr (record_key t)" using timeshift_keys_Inr by blast
  with True run have "eval_script (script CUTOVER_KEY (owner_key S sp) (record_key t) (timeshift_pool_key s)
      (profile_key sp) (account_key sp) (credential_key sp)) yes_no db = (r, db')"
    by (auto simp: timeshift_eval_def checked_def require_def)
  with yes_no_eval[OF runs] show ?thesis by blast
next
  case False
  with run show ?thesis
    by (auto simp: timeshift_eval_def checked_def require_def split: if_splits sum.splits)
qed

lemma claim_run:
  assumes rep: "represents db L"
    and run: "claim_timeshift_idle_pool S sp t s g pb u db = (r, db')"
  shows "(db' = db \<and> r \<noteq> Inr True)
    \<or> (r = Inr True \<and> hfield db (timeshift_pool_key s) ''busy'' = Some ''0'' \<and> represents db' L
       \<and> playing db' (timeshift_pool_key s) ''1'' pb)"
proof -
  have foreign: "\<not> is_ledger_key (timeshift_pool_key s)" by simp
  from timeshift_run[OF claim_timeshift_script_runs[OF rep foreign] run[unfolded claim_timeshift_idle_pool_def]]
  show ?thesis by (auto simp: playing_def hash_updated_field)
qed

lemma idle_run:
  assumes rep: "represents db L"
    and run: "idle_timeshift_pool S sp t s g pb u db = (r, db')"
  shows "(db' = db \<and> r \<noteq> Inr True)
    \<or> (r = Inr True \<and> playing db (timeshift_pool_key s) ''1'' pb \<and> represents db' L
       \<and> playing db' (timeshift_pool_key s) ''0'' pb)"
proof -
  have foreign: "\<not> is_ledger_key (timeshift_pool_key s)" by simp
  from timeshift_run[OF idle_timeshift_script_runs[OF rep foreign] run[unfolded idle_timeshift_pool_def]]
  show ?thesis by (auto simp: playing_def hash_updated_field)
qed

lemma supersede_run:
  assumes rep: "represents db L"
    and run: "supersede_timeshift_busy_pool S sp t s g pb pb' u db = (Inr True, db')"
  shows "playing db (timeshift_pool_key s) ''1'' pb" "playing db' (timeshift_pool_key s) ''1'' pb'"
    "hfield db (timeshift_pool_key s) ''atlas_stopped_generation'' = Some pb"
    "hfield db' (timeshift_pool_key s) ''atlas_stopped_generation'' = None" "pb \<noteq> pb'" "represents db' L"
proof -
  from run obtain rk p0 p1 where "timeshift_keys sp t s g = Inr rk" "playback_id pb = Inr p0" "playback_id pb' = Inr p1"
    and ev: "eval_script (supersede_timeshift_script S CUTOVER_KEY (owner_key S sp) rk (timeshift_pool_key s)
          (profile_key sp) (account_key sp) (credential_key sp) t g p0 p1 (dec u)
          (dec (stream_id sp)) (dec (profile_id sp)) (dec (account_id sp))) yes_no db = (Inr True, db')"
    unfolding supersede_timeshift_busy_pool_def by (blast dest!: checked_Inr)
  then have eqs: "rk = record_key t" "p0 = pb" "p1 = pb'"
    using timeshift_keys_Inr by (auto simp: playback_id_def split: if_splits)
  have foreign: "\<not> is_ledger_key (timeshift_pool_key s)" by simp
  from yes_no_eval[OF supersede_timeshift_script_runs[OF rep foreign] ev[unfolded eqs]]
  have all: "playing db (timeshift_pool_key s) ''1'' pb" "pb \<noteq> pb'" "represents db' L"
      "hfield db (timeshift_pool_key s) ''atlas_stopped_generation'' = Some pb"
    and upd: "hash_updated (timeshift_pool_key s) [(''atlas_playback_generation'', pb')]
      [''atlas_stopped_generation''] db db'" by blast+
  show "playing db (timeshift_pool_key s) ''1'' pb" "pb \<noteq> pb'" "represents db' L"
      "hfield db (timeshift_pool_key s) ''atlas_stopped_generation'' = Some pb" by (rule all)+
  show "playing db' (timeshift_pool_key s) ''1'' pb'"
      "hfield db' (timeshift_pool_key s) ''atlas_stopped_generation'' = None"
    using all(1) by (simp_all add: playing_def hash_updated_field[OF upd])
qed

end

text \<open>
  Playback of a timeshift session is exclusive: a claim succeeds only on an idle pool entry, makes
  it busy with the claimed playback, and until it is idle again no other claim on that session, under
  whatever token, generation, user or playback, succeeds or changes anything.
\<close>

theorem timeshift_claim_exclusive:
  assumes "redis_server S" "represents db L" "claim_timeshift_idle_pool S sp t s g pb u db = (Inr True, db')"
    "claim_timeshift_idle_pool S sp2 t2 s g2 pb2 u2 db' = (r, db'')"
  shows "hfield db (timeshift_pool_key s) ''busy'' = Some ''0'' \<and> playing db' (timeshift_pool_key s) ''1'' pb
    \<and> represents db' L \<and> r \<noteq> Inr True \<and> db'' = db'"
proof -
  have c: "hfield db (timeshift_pool_key s) ''busy'' = Some ''0''" "represents db' L"
    "playing db' (timeshift_pool_key s) ''1'' pb"
    using redis_server.claim_run[OF assms(1-3)] by simp_all
  then have "hfield db' (timeshift_pool_key s) ''busy'' \<noteq> Some ''0''" by (simp add: playing_def)
  with c redis_server.claim_run[OF assms(1) c(2) assms(4)] show ?thesis by blast
qed

text \<open>
  A superseded playback is fenced: superseding a busy playback needs the attestation that its
  upstream stopped, hands the entry to the new playback without that attestation, and afterwards the
  old playback can no longer return the pool to idle.
\<close>

theorem timeshift_supersede_fences:
  assumes "redis_server S" "represents db L"
    "supersede_timeshift_busy_pool S sp t s g pb pb' u db = (Inr True, db')"
    "idle_timeshift_pool S sp t s g pb u db' = (r, db'')"
  shows "hfield db (timeshift_pool_key s) ''atlas_stopped_generation'' = Some pb
    \<and> playing db (timeshift_pool_key s) ''1'' pb \<and> playing db' (timeshift_pool_key s) ''1'' pb'
    \<and> hfield db' (timeshift_pool_key s) ''atlas_stopped_generation'' = None
    \<and> represents db' L \<and> r \<noteq> Inr True \<and> db'' = db'"
proof -
  note sup = redis_server.supersede_run[OF assms(1-3)]
  have "\<not> playing db' (timeshift_pool_key s) ''1'' pb" using sup(2,5) by (simp add: playing_def)
  with sup redis_server.idle_run[OF assms(1) sup(6) assms(4)] show ?thesis by blast
qed

subsection \<open>Operations on the current identity\<close>

context redis_server
begin

lemma release_current_success:
  assumes rep: "represents db L" and run: "release_current S md ow t db0 db1 db = (Inr True, db')"
  shows "\<exists>e. e_owner e = owner_key_of S md ow \<and> removal db L t e {} db'"
proof -
  from run obtain keys where keys: "current_counter_keys S md ow t db0 db1 = Inr keys"
    and k: "(case keys of
         None \<Rightarrow> (\<lambda>db. (Inr False, db))
       | Some (p, a, c) \<Rightarrow>
           checked (owner_key_arg S md ow) (\<lambda>ok.
           checked (record_key_arg t) (\<lambda>rk.
           eval_script (release_script S CUTOVER_KEY ok rk p a c t)
             (\<lambda>r. false_if_busy (outcome r))))) db = (Inr True, db')"
    unfolding release_current_def by (blast dest!: checked_Inr)
  from k obtain p a c where "keys = Some (p, a, c)" by (cases keys) auto
  with k obtain ok rk where ok: "owner_key_arg S md ow = Inr ok" and rk: "record_key_arg t = Inr rk"
    and ev: "eval_script (release_script S CUTOVER_KEY ok rk p a c t)
      (\<lambda>r. false_if_busy (outcome r)) db = (Inr True, db')" by (auto dest!: checked_Inr)
  have eqs: "ok = owner_key_of S md ow" "rk = record_key t"
    using ok rk by (auto simp: owner_key_arg_def record_key_arg_def split: if_splits)
  from eval_script_success[OF release_script_runs[OF rep] ev[unfolded eqs]] false_if_busy_True
  show ?thesis by (auto intro!: exI[of _ "\<lparr>e_owner = owner_key_of S md ow, e_profile = p,
      e_account = a, e_credential = c\<rparr>"])
qed

end

text \<open>
  Releasing by current identity cannot free a wrong slot: even though the counter keys were read
  from an earlier keyspace, a successful \<open>release_current\<close> removes an entry that the ledger holds for
  this token and owner at the moment of release, so a stale read only makes it fail.
\<close>

theorem release_current_exact:
  assumes "redis_server S" "represents db L" "release_current S md ow t db0 db1 db = (Inr True, db')"
  shows "\<exists>e. L t = Some e \<and> e_owner e = owner_key_of S md ow \<and> represents db' (L(t := None))
    \<and> (\<forall>k. \<not> is_ledger_key k \<longrightarrow> db' k = db k)"
  using redis_server.release_current_success[OF assms] by (auto simp: removal_def)

lemma decimal_suffix_dec: "1 \<le> n \<Longrightarrow> decimal_suffix p (p @ dec n)"
  using dec_nat_shape[of "nat n"] by (auto simp: decimal_suffix_def dec_def)

lemma hex_suffix_append: "hex_string n x \<Longrightarrow> hex_suffix p n (p @ x)"
  by (simp add: hex_suffix_def)

lemma spec_counter_keys_ok:
  "1 \<le> profile_id sp \<Longrightarrow> 1 \<le> account_id sp \<Longrightarrow> hex_string 64 (credential_scope sp) \<Longrightarrow>
    counter_keys_ok (profile_key sp) (account_key sp) (credential_key sp)"
  unfolding counter_keys_ok_def profile_key_def account_key_def credential_key_def
  by (intro conjI decimal_suffix_dec hex_suffix_append)

text \<open>
  A constructed specification is well formed: its mode is one of the three, its identifiers and
  capacities are at least 1, its owner is not blank, and its counter keys pass the patterns that the
  operations on the current identity demand of the keys they read back.
\<close>

theorem new_spec_well_formed:
  assumes "new_spec m ow st pr ac sc pc acc cc = Inr sp"
  shows "mode sp \<in> set reservation_modes \<and> strip (owner_id sp) \<noteq> []
    \<and> 1 \<le> stream_id sp \<and> 1 \<le> profile_id sp \<and> 1 \<le> account_id sp
    \<and> list_all (\<lambda>(_, c). 1 \<le> c) (spec_limits sp)
    \<and> counter_keys_ok (profile_key sp) (account_key sp) (credential_key sp)"
proof -
  from assms have f: "mode sp \<in> set reservation_modes" "strip (owner_id sp) \<noteq> []"
    "list_all (int_at_least 1) [st, pr, ac, pc, acc, cc]" "hex_string 64 (credential_scope sp)"
    and v: "stream_id sp = int_value st" "profile_id sp = int_value pr" "account_id sp = int_value ac"
      "profile_capacity sp = int_value pc" "account_capacity sp = int_value acc"
      "credential_capacity sp = int_value cc"
    by (auto simp: new_spec_def split: pyval.splits if_splits)
  have ge: "1 \<le> int_value x" if "x \<in> {st, pr, ac, pc, acc, cc}" for x
    using f(3) that int_at_least_value[of 1 x] by (auto simp: list_all_iff)
  show ?thesis
    using f(1,2) ge v spec_counter_keys_ok[of sp] f(4) by (simp add: spec_limits_def)
qed

end
