(* ===== verification/Ledger_Witness.thy ===== *)
theory Ledger_Witness
  imports Ledger_Viewers
begin

text \<open>
  Concrete runs of the ledger on the reference server: one VOD session, one live channel and one
  timeshift session, each as a chain of client calls from an empty ledger, and the
  proof that the keyspaces they reach are reachable keyspaces of the ledger.
\<close>

subsection \<open>Demonstration runs\<close>

definition demo_token :: string where "demo_token = replicate 32 (CHR ''a'')"
definition demo_generation :: string where "demo_generation = replicate 32 (CHR ''b'')"
definition demo_playback :: string where "demo_playback = replicate 32 (CHR ''d'')"
definition demo_playback2 :: string where "demo_playback2 = replicate 32 (CHR ''e'')"
definition demo_scope :: string where "demo_scope = replicate 64 (CHR ''c'')"
definition demo_uuid :: string where "demo_uuid = ''00000000-0000-0000-0000-000000000000''"

definition demo_cap :: "string \<Rightarrow> int" where "demo_cap k = 2"

definition demo_spec :: "string \<Rightarrow> string \<Rightarrow> int \<Rightarrow> spec" where
  "demo_spec md ow n = \<lparr>mode = md, owner_id = ow, stream_id = 7, profile_id = n, account_id = n,
     credential_scope = demo_scope, profile_capacity = 2, account_capacity = 2, credential_capacity = 2\<rparr>"

definition vod_demo :: "int \<Rightarrow> spec" where
  "vod_demo = demo_spec ''vod'' (lifecycle_owner ''s'' demo_generation)"

definition live_demo :: "int \<Rightarrow> spec" where
  "live_demo = demo_spec ''live'' (lifecycle_owner demo_uuid ''w'')"

definition ts_demo :: spec where
  "ts_demo = demo_spec ''timeshift'' (lifecycle_owner ''s'' demo_generation) 3"

definition demo_start :: keyspace where
  "demo_start = [CUTOVER_KEY \<mapsto> RStr ''ledger'']"

definition vod1 :: keyspace where
  "vod1 = snd (reserve reference_server demo_token (vod_demo 3) demo_start)"
definition vod2 :: keyspace where
  "vod2 = vod1(vod_session_key ''s'' \<mapsto> RHash [(''m3u_profile_id'', ''3''), (''user_id'', ''5''),
     (''content_uuid'', demo_uuid), (''active_streams'', ''0'')])"
definition vod3 :: keyspace where
  "vod3 = snd (bind_vod_session reference_server (vod_demo 3) demo_token ''s'' demo_generation 5 demo_uuid vod2)"
definition vod4 :: keyspace where
  "vod4 = snd (join_vod_session reference_server (vod_demo 3) demo_token ''s'' demo_generation 5 demo_uuid vod3)"

definition live0 :: keyspace where
  "live0 = demo_start(channel_owner_key demo_uuid \<mapsto> RStr ''w'',
     attestation_key demo_uuid '':grant'' \<mapsto> RHash [(''token'', ''gt''), (''epoch'', ''1''), (''worker'', ''w'')],
     attestation_key demo_uuid '':generation'' \<mapsto> RStr ''g'', chunk_key demo_uuid 1 \<mapsto> RStr ''data'',
     chunk_key demo_uuid 1 @ '':provenance'' \<mapsto> RStr ''1:g'')"
definition live1 :: keyspace where
  "live1 = snd (reserve_live_channel reference_server demo_token (live_demo 3) demo_uuid ''w'' live0)"
definition live2 :: keyspace where
  "live2 = snd (activate_verified_live reference_server (live_demo 3) demo_token demo_uuid ''w'' ''gt'' 1 ''g'' 1 live1)"
definition live3 :: keyspace where
  "live3 = snd (mark_live_upstream_closed reference_server (live_demo 3) demo_token demo_uuid ''w'' ''gt'' 1 ''g'' True live2)"

definition ts1 :: keyspace where
  "ts1 = snd (reserve reference_server demo_token ts_demo demo_start)"
definition ts2 :: keyspace where
  "ts2 = ts1(timeshift_pool_key ''s'' \<mapsto> RHash [(''busy'', ''1''), (''user_id'', ''5''),
     (''dispatcharr_stream_id'', ''7''), (''profile_id'', ''3''), (''account_id'', ''3'')])"
definition ts3 :: keyspace where
  "ts3 = snd (bind_timeshift_pool reference_server ts_demo demo_token ''s'' demo_generation demo_playback 5 ts2)"
definition ts4 :: keyspace where
  "ts4 = snd (idle_timeshift_pool reference_server ts_demo demo_token ''s'' demo_generation demo_playback 5 ts3)"
definition ts5 :: keyspace where
  "ts5 = snd (claim_timeshift_idle_pool reference_server ts_demo demo_token ''s'' demo_generation demo_playback2 5 ts4)"
definition ts6 :: keyspace where
  "ts6 = snd (ack_timeshift_upstream_stopped reference_server ts_demo demo_token ''s'' demo_generation demo_playback 5 ts3)"
definition ts7 :: keyspace where
  "ts7 = snd (supersede_timeshift_busy_pool reference_server ts_demo demo_token ''s'' demo_generation
     demo_playback demo_playback2 5 ts6)"

lemma demo_run: "fst x = v \<Longrightarrow> x = (v, snd x)"
  by auto

lemma run_vod_reserve:
  "reserve reference_server demo_token (vod_demo 3) demo_start = (Inr (demo_token, 1), vod1)"
  unfolding vod1_def by (rule demo_run) code_simp

lemma run_vod_bind:
  "bind_vod_session reference_server (vod_demo 3) demo_token ''s'' demo_generation 5 demo_uuid vod2 = (Inr True, vod3)"
  unfolding vod3_def by (rule demo_run) code_simp

lemma run_vod_join:
  "join_vod_session reference_server (vod_demo 3) demo_token ''s'' demo_generation 5 demo_uuid vod3 = (Inr (Some 1), vod4)"
  unfolding vod4_def by (rule demo_run) code_simp

lemma run_live_reserve:
  "reserve_live_channel reference_server demo_token (live_demo 3) demo_uuid ''w'' live0 = (Inr (demo_token, 1), live1)"
  unfolding live1_def by (rule demo_run) code_simp

lemma run_live_activate:
  "activate_verified_live reference_server (live_demo 3) demo_token demo_uuid ''w'' ''gt'' 1 ''g'' 1 live1 = (Inr True, live2)"
  unfolding live2_def by (rule demo_run) code_simp

lemma run_live_stop:
  "mark_live_upstream_closed reference_server (live_demo 3) demo_token demo_uuid ''w'' ''gt'' 1 ''g'' True live2 = (Inr True, live3)"
  unfolding live3_def by (rule demo_run) code_simp

lemma run_ts_reserve:
  "reserve reference_server demo_token ts_demo demo_start = (Inr (demo_token, 1), ts1)"
  unfolding ts1_def by (rule demo_run) code_simp

lemma run_ts_bind:
  "bind_timeshift_pool reference_server ts_demo demo_token ''s'' demo_generation demo_playback 5 ts2 = (Inr True, ts3)"
  unfolding ts3_def by (rule demo_run) code_simp

lemma run_ts_idle:
  "idle_timeshift_pool reference_server ts_demo demo_token ''s'' demo_generation demo_playback 5 ts3 = (Inr True, ts4)"
  unfolding ts4_def by (rule demo_run) code_simp

lemma run_ts_claim:
  "claim_timeshift_idle_pool reference_server ts_demo demo_token ''s'' demo_generation demo_playback2 5 ts4 = (Inr True, ts5)"
  unfolding ts5_def by (rule demo_run) code_simp

lemma run_ts_stop:
  "ack_timeshift_upstream_stopped reference_server ts_demo demo_token ''s'' demo_generation demo_playback 5 ts3 = (Inr True, ts6)"
  unfolding ts6_def by (rule demo_run) code_simp

lemma run_ts_supersede:
  "supersede_timeshift_busy_pool reference_server ts_demo demo_token ''s'' demo_generation
     demo_playback demo_playback2 5 ts6 = (Inr True, ts7)"
  unfolding ts7_def by (rule demo_run) code_simp

lemma demo_policy:
  "policy demo_cap (vod_demo 3)" "policy demo_cap (vod_demo 4)" "policy demo_cap (live_demo 3)"
  "policy demo_cap (live_demo 4)" "policy demo_cap ts_demo"
  by code_simp+

lemma attestation_foreign:
  "\<not> is_ledger_key (attestation_key c p)" "\<not> is_ledger_key (chunk_key c n)" "\<not> is_ledger_key (chunk_key c n @ p)"
  by (auto simp: family_defs attestation_key_def chunk_key_def)

abbreviation demo_reachable :: "keyspace \<Rightarrow> bool" where
  "demo_reachable \<equiv> ledger_reachable reference_server demo_cap"

lemma reachable_vod:
  "demo_reachable demo_start" "demo_reachable vod1" "demo_reachable vod2" "demo_reachable vod3" "demo_reachable vod4"
proof -
  note go = ledger_reachable.step
  show r0: "demo_reachable demo_start"
    by (rule ledger_reachable.start) (auto simp: demo_start_def)
  show r1: "demo_reachable vod1" unfolding vod1_def
    by (rule go[OF r0 ledger_action.reserve[OF demo_policy(1) surjective_pairing]])
  show r2: "demo_reachable vod2"
    by (rule go[OF r1 ledger_action.environment]) (auto simp: vod2_def)
  show r3: "demo_reachable vod3" unfolding vod3_def
    by (rule go[OF r2 ledger_action.bind_vod[OF surjective_pairing]])
  show "demo_reachable vod4" unfolding vod4_def
    by (rule go[OF r3 ledger_action.join_vod[OF surjective_pairing]])
qed

lemma reachable_live:
  "demo_reachable live0" "demo_reachable live1" "demo_reachable live2" "demo_reachable live3"
proof -
  note go = ledger_reachable.step
  show r0: "demo_reachable live0"
    by (rule ledger_reachable.start) (auto simp: live0_def demo_start_def attestation_foreign)
  show r1: "demo_reachable live1" unfolding live1_def
    by (rule go[OF r0 ledger_action.reserve_live[OF demo_policy(3) surjective_pairing]])
  show r2: "demo_reachable live2" unfolding live2_def
    by (rule go[OF r1 ledger_action.activate[OF surjective_pairing]])
  show "demo_reachable live3" unfolding live3_def
    by (rule go[OF r2 ledger_action.stop_live[OF surjective_pairing]])
qed

lemma reachable_ts:
  "demo_reachable ts1" "demo_reachable ts2" "demo_reachable ts3" "demo_reachable ts4"
  "demo_reachable ts5" "demo_reachable ts6"
proof -
  note go = ledger_reachable.step
  show r1: "demo_reachable ts1" unfolding ts1_def
    by (rule go[OF reachable_vod(1) ledger_action.reserve[OF demo_policy(5) surjective_pairing]])
  show r2: "demo_reachable ts2"
    by (rule go[OF r1 ledger_action.environment]) (auto simp: ts2_def)
  show r3: "demo_reachable ts3" unfolding ts3_def
    by (rule go[OF r2 ledger_action.bind_timeshift[OF surjective_pairing]])
  show r4: "demo_reachable ts4" unfolding ts4_def
    by (rule go[OF r3 ledger_action.idle_timeshift[OF surjective_pairing]])
  show "demo_reachable ts5" unfolding ts5_def
    by (rule go[OF r4 ledger_action.claim_timeshift[OF surjective_pairing]])
  show "demo_reachable ts6" unfolding ts6_def
    by (rule go[OF r3 ledger_action.stop_timeshift[OF surjective_pairing]])
qed

lemma demo_represented:
  assumes "demo_reachable db"
  shows "\<exists>L. represents db L"
  using reachable_represents[OF reference.redis_server_axioms assms] by (auto simp: demo_cap_def)


text \<open>
  The theorems of the reservation ledger applied to the demonstration runs: their hypotheses hold
  there, and each theorem's conclusion is a fact about that concrete keyspace.
\<close>

lemmas demo_server = reference.redis_server_axioms

lemma demo_capacity: "\<forall>k. 0 \<le> demo_cap k"
  by (simp add: demo_cap_def)

lemma demo_counter_key: "is_counter_key (profile_key (vod_demo 3))"
  by (simp add: is_counter_key_def)

lemma demo_started: "represents demo_start Map.empty"
  by (rule represents_empty) (auto simp: demo_start_def)

lemma demo_exact:
  "exact_capacities (vod_demo 3)" "exact_capacities (vod_demo 4)" "exact_capacities (live_demo 3)"
  "exact_capacities (live_demo 4)"
  using demo_policy by (simp_all add: policy_def)

lemma demo_token_hex: "hex_string 32 demo_token"
  by code_simp

subsection \<open>Reachable keyspaces\<close>

theorem ledger_counts_conserved_witness:
  "counter_at vod1 (profile_key (vod_demo 3)) = Some (int (card {t. \<exists>f\<in>{''profile'', ''account'', ''credential''}.
     hfield vod1 (record_key t) f = Some (profile_key (vod_demo 3))}))"
  using ledger_counts_conserved[OF demo_server reachable_vod(2) demo_capacity demo_counter_key] by blast

theorem ledger_within_capacity_witness:
  "\<exists>n. counter_at vod4 (profile_key (vod_demo 3)) = Some n \<and> 0 \<le> n \<and> n \<le> demo_cap (profile_key (vod_demo 3))"
  by (rule ledger_within_capacity[OF demo_server reachable_vod(5) demo_capacity demo_counter_key])

lemma demo_owner:
  "hfield vod1 (record_key demo_token) ''owner'' = Some (owner_key reference_server (vod_demo 3))"
  by code_simp

theorem one_reservation_per_owner_witness:
  "vod1 (owner_key reference_server (vod_demo 3)) = Some (RStr demo_token)"
  using one_reservation_per_owner[OF demo_server reachable_vod(2) demo_capacity demo_owner demo_owner] by blast

subsection \<open>Reserving, releasing and switching\<close>

theorem reserve_refines_admission_witness:
  "\<exists>r db'. r = rbind (cutover demo_start) (\<lambda>_. admission Map.empty demo_token
       (entry_of reference_server (vod_demo 3)) (spec_limits (vod_demo 3)))
    \<and> reserve reference_server demo_token (vod_demo 3) demo_start = (map_sum id (Pair demo_token) r, db')
    \<and> represents db' (admitted Map.empty demo_token (entry_of reference_server (vod_demo 3)) r)"
  using reserve_refines_admission[OF demo_server demo_started demo_exact(1) demo_token_hex] by blast

lemma run_vod_release:
  "release reference_server (vod_demo 3) demo_token vod1
    = (Inr True, snd (release reference_server (vod_demo 3) demo_token vod1))"
  by (rule demo_run) code_simp

theorem release_exactly_once_witness:
  "\<exists>L db'. represents vod1 L \<and> release reference_server (vod_demo 3) demo_token vod1 = (Inr True, db')
    \<and> L demo_token = Some (entry_of reference_server (vod_demo 3)) \<and> represents db' (L(demo_token := None))
    \<and> release reference_server (vod_demo 3) demo_token db' = (Inr False, db')"
proof -
  obtain L where L: "represents vod1 L" using demo_represented[OF reachable_vod(2)] ..
  from release_exactly_once[OF demo_server L run_vod_release] L run_vod_release show ?thesis by blast
qed

theorem reserve_release_roundtrip_witness:
  "\<exists>db. release reference_server (vod_demo 3) demo_token vod1 = (Inr True, db) \<and> represents db Map.empty"
  using reserve_release_roundtrip[OF demo_server demo_started demo_exact(1) demo_token_hex run_vod_reserve]
  by blast

lemma run_vod_release_current:
  "release_current reference_server ''vod'' (owner_id (vod_demo 3)) demo_token vod1 vod1 vod1
    = (Inr True, snd (release_current reference_server ''vod'' (owner_id (vod_demo 3)) demo_token vod1 vod1 vod1))"
  by (rule demo_run) code_simp

theorem release_current_exact_witness:
  "\<exists>L e db'. represents vod1 L \<and> L demo_token = Some e
    \<and> e_owner e = owner_key_of reference_server ''vod'' (owner_id (vod_demo 3))
    \<and> release_current reference_server ''vod'' (owner_id (vod_demo 3)) demo_token vod1 vod1 vod1 = (Inr True, db')
    \<and> represents db' (L(demo_token := None))"
proof -
  obtain L where L: "represents vod1 L" using demo_represented[OF reachable_vod(2)] ..
  from release_current_exact[OF demo_server L run_vod_release_current] L run_vod_release_current
  show ?thesis by blast
qed

lemma run_vod_switch:
  "switch reference_server (vod_demo 3) (vod_demo 4) demo_token vod1
    = (Inr 1, snd (switch reference_server (vod_demo 3) (vod_demo 4) demo_token vod1))"
  by (rule demo_run) code_simp

theorem switch_replaces_entry_witness:
  "\<exists>L db'. represents vod1 L \<and> switch reference_server (vod_demo 3) (vod_demo 4) demo_token vod1 = (Inr 1, db')
    \<and> L demo_token = Some (entry_of reference_server (vod_demo 3))
    \<and> represents db' (L(demo_token \<mapsto> entry_of reference_server (vod_demo 4)))"
proof -
  obtain L where L: "represents vod1 L" using demo_represented[OF reachable_vod(2)] ..
  from switch_replaces_entry[OF demo_server L demo_exact(2) run_vod_switch] L run_vod_switch
  show ?thesis by blast
qed

subsection \<open>Live channels\<close>

theorem live_activation_needs_chunk_witness:
  "\<exists>L. represents live2 L \<and> hfield live1 (record_key demo_token) ''state'' = Some ''pending''
    \<and> hfield live2 (record_key demo_token) ''state'' = Some ''active''
    \<and> hfield live2 (record_key demo_token) ''grant_epoch'' = Some (dec 1)"
proof -
  obtain L where L: "represents live1 L" using demo_represented[OF reachable_live(2)] ..
  from live_activation_needs_chunk[OF demo_server L run_live_activate] show ?thesis by blast
qed

lemma run_live_join:
  "attest_live_join reference_server (live_demo 3) demo_token demo_uuid ''w'' 1 ''g'' 1 live2
    = (Inr (Some (7, 3, 3)), snd (attest_live_join reference_server (live_demo 3) demo_token demo_uuid ''w'' 1 ''g'' 1 live2))"
  by (rule demo_run) code_simp

theorem live_join_attested_witness:
  "attest_live_join reference_server (live_demo 3) demo_token demo_uuid ''w'' 1 ''g'' 1 live2
     = (Inr (Some (7, 3, 3)), live2)
   \<and> (\<exists>L. represents live2 L \<and> list_all (\<lambda>(k, c). 1 \<le> held L k \<and> int (held L k) \<le> c) (spec_limits (live_demo 3)))"
proof -
  obtain L where L: "represents live2 L" using demo_represented[OF reachable_live(3)] ..
  note j = live_join_attested[OF demo_server L demo_exact(3) run_live_join]
  with run_live_join have "attest_live_join reference_server (live_demo 3) demo_token demo_uuid ''w'' 1 ''g'' 1 live2
     = (Inr (Some (7, 3, 3)), live2)" by simp
  with j L show ?thesis by blast
qed

lemma run_live_release:
  "release_active_live_channel reference_server (live_demo 3) demo_token demo_uuid ''w'' ''gt'' 1 ''g'' live3
    = (Inr True, snd (release_active_live_channel reference_server (live_demo 3) demo_token demo_uuid ''w'' ''gt'' 1 ''g'' live3))"
  by (rule demo_run) code_simp


lemma run_live_switch:
  "switch_live_channel reference_server (live_demo 3) (live_demo 4) demo_token demo_uuid ''w'' (Some ''gt'') (Some 1) (Some ''g'') live3
    = (Inr 1, snd (switch_live_channel reference_server (live_demo 3) (live_demo 4) demo_token demo_uuid ''w'' (Some ''gt'') (Some 1) (Some ''g'') live3))"
  by (rule demo_run) code_simp

lemma live3_active: "hfield live3 (record_key demo_token) ''state'' = Some ''active''"
  by code_simp

theorem live_switch_needs_stop_witness:
  "\<exists>L db'. represents live3 L \<and> stop_attested live3 (channel_alias_key demo_uuid) (dec 1) ''g''
    \<and> represents db' (L(demo_token \<mapsto> destination_entry (entry_of reference_server (live_demo 3)) (live_demo 4)))
    \<and> switch_live_channel reference_server (live_demo 3) (live_demo 4) demo_token demo_uuid ''w'' (Some ''gt'') (Some 1)
        (Some ''g'') live3 = (Inr 1, db')"
proof -
  obtain L where L: "represents live3 L" using demo_represented[OF reachable_live(4)] ..
  from live_switch_needs_stop[OF demo_server L demo_exact(4) run_live_switch live3_active] L run_live_switch
  show ?thesis by blast
qed

subsection \<open>VOD and timeshift sessions\<close>

lemma run_vod_leave:
  "leave_vod_session reference_server (vod_demo 3) demo_token ''s'' demo_generation 5 demo_uuid vod4
    = (Inr (Some 0), snd (leave_vod_session reference_server (vod_demo 3) demo_token ''s'' demo_generation 5 demo_uuid vod4))"
  by (rule demo_run) code_simp

theorem vod_viewers_counted_witness:
  "\<exists>db. leave_vod_session reference_server (vod_demo 3) demo_token ''s'' demo_generation 5 demo_uuid vod4 = (Inr (Some 0), db)
    \<and> viewers vod3 ''s'' = Some 0 \<and> viewers vod4 ''s'' = Some 1 \<and> viewers db ''s'' = Some 0"
proof -
  obtain L where L: "represents vod3 L" using demo_represented[OF reachable_vod(4)] ..
  from vod_viewers_counted[OF demo_server L run_vod_join run_vod_leave] run_vod_leave show ?thesis by auto
qed

lemma run_vod_cleanup:
  "cleanup_vod_session reference_server (vod_demo 3) demo_token ''s'' demo_generation 5 demo_uuid vod3
    = (Inr True, snd (cleanup_vod_session reference_server (vod_demo 3) demo_token ''s'' demo_generation 5 demo_uuid vod3))"
  by (rule demo_run) code_simp

theorem vod_cleanup_needs_no_viewer_witness:
  "\<exists>L db. represents vod3 L \<and> represents db (L(demo_token := None)) \<and> db (vod_session_key ''s'') = None
    \<and> cleanup_vod_session reference_server (vod_demo 3) demo_token ''s'' demo_generation 5 demo_uuid vod3 = (Inr True, db)"
proof -
  obtain L where L: "represents vod3 L" using demo_represented[OF reachable_vod(4)] ..
  from vod_cleanup_needs_no_viewer[OF demo_server L run_vod_cleanup] L run_vod_cleanup show ?thesis by blast
qed

theorem timeshift_claim_exclusive_witness:
  "playing ts5 (timeshift_pool_key ''s'') ''1'' demo_playback2
    \<and> fst (claim_timeshift_idle_pool reference_server ts_demo demo_token ''s'' demo_generation demo_playback 6 ts5) \<noteq> Inr True"
proof -
  obtain L where L: "represents ts4 L" using demo_represented[OF reachable_ts(4)] ..
  from timeshift_claim_exclusive[OF demo_server L run_ts_claim
      surjective_pairing[of "claim_timeshift_idle_pool reference_server ts_demo demo_token ''s'' demo_generation demo_playback 6 ts5"]]
  show ?thesis by blast
qed

theorem timeshift_supersede_fences_witness:
  "playing ts7 (timeshift_pool_key ''s'') ''1'' demo_playback2
    \<and> fst (idle_timeshift_pool reference_server ts_demo demo_token ''s'' demo_generation demo_playback 5 ts7) \<noteq> Inr True"
proof -
  obtain L where L: "represents ts6 L" using demo_represented[OF reachable_ts(6)] ..
  from timeshift_supersede_fences[OF demo_server L run_ts_supersede
      surjective_pairing[of "idle_timeshift_pool reference_server ts_demo demo_token ''s'' demo_generation demo_playback 5 ts7"]]
  show ?thesis by blast
qed

subsection \<open>Specifications\<close>

lemma run_new_spec:
  "new_spec (PStr ''vod'') (PStr ''viewer'') (PInt 7) (PInt 3) (PInt 3) (PStr demo_scope) (PInt 2) (PInt 2) (PInt 2)
    = Inr (demo_spec ''vod'' ''viewer'' 3)"
  by code_simp

theorem new_spec_well_formed_witness:
  "counter_keys_ok (profile_key (demo_spec ''vod'' ''viewer'' 3)) (account_key (demo_spec ''vod'' ''viewer'' 3))
    (credential_key (demo_spec ''vod'' ''viewer'' 3))"
  using new_spec_well_formed[OF run_new_spec] by blast

end
