(* ===== verification/Generation_Authority.thy ===== *)
theory Generation_Authority
  imports Reservation_Ledger
begin

text \<open>
  The generation authority
  (\<open>modules/sports-backend/dispatcharr-live-image/overlay/apps/proxy/live_proxy/generation_authority.py\<close>):
  an epoch-numbered grant of the right to publish a channel's media, its generations, and chunks
  published and read with their provenance. The Lua scripts come first, then the methods of
  \<open>GenerationAuthority\<close>. The token that \<open>uuid4\<close> draws is a parameter; text is its decoded form and a
  media chunk a list of bytes.
\<close>

subsection \<open>Scripts\<close>

text \<open>\<open>tonumber(ARGV[i])\<close> passed to a command: a nil argument fails the call.\<close>

definition number_arg :: "server \<Rightarrow> string \<Rightarrow> (int \<Rightarrow> 'a lua) \<Rightarrow> 'a lua" where
  "number_arg S a f = (case lua_tonumber S a of None \<Rightarrow> lua_fail | Some x \<Rightarrow> f (lua_to_int S x))"

text \<open>\<open>local n = redis.call('INCR', key)\<close>\<close>

definition incremented :: "server \<Rightarrow> string \<Rightarrow> (int \<Rightarrow> 'a lua) \<Rightarrow> 'a lua" where
  "incremented S k f = lua_bind (lua_call S (INCR k)) (\<lambda>r. case r of RInt n \<Rightarrow> f n | _ \<Rightarrow> lua_fail)"

definition acquire_script :: "server \<Rightarrow> reply lua str7" where
  "acquire_script S k1 k2 k3 k4 a1 a2 a3 =
     guard [differs S (GET k4) (LStr a2)] RNil (
     guard [differs S (EXISTS k1) (LInt 0)] RNil (
     incremented S k2 (\<lambda>epoch.
     writes S [HSET k1 [(''epoch'', lua_tostring S epoch), (''token'', a1), (''worker'', a2)]] (
     number_arg S a3 (\<lambda>ttl.
     writes S [EXPIRE k1 ttl, DEL [k3]] (lua_ret (RInt epoch)))))))"

definition renew_script :: "server \<Rightarrow> reply lua str6" where
  "renew_script S k1 k2 k3 a1 a2 a3 =
     guard [differs S (HGET k1 ''token'') (LStr a1)] (RInt 0) (
     guard [differ S (GET k3) (HGET k1 ''worker'')] (RInt 0) (
     guard [differs S (GET k2) (LStr a2)] (RInt 0) (
     number_arg S a3 (\<lambda>ttl.
     lua_bind (lua_call S (EXPIRE k1 ttl)) (\<lambda>r. lua_ret (RInt (if r = RInt 1 then 1 else 0)))))))"

definition drop_grant_script :: "server \<Rightarrow> reply lua str3" where
  "drop_grant_script S k1 k2 a1 =
     guard [differs S (HGET k1 ''token'') (LStr a1)] (RInt 0) (
     writes S [DEL [k1, k2]] (lua_ret (RInt 1)))"

definition activate_script :: "server \<Rightarrow> reply lua str4" where
  "activate_script S k1 k2 a1 a2 =
     guard [differs S (HGET k1 ''token'') (LStr a1)] (RInt 0) (
     writes S [SET k2 a2] (lua_ret (RInt 1)))"

text \<open>
  \<open>_PUBLISH_CHUNK\<close>: \<open>KEYS[4]\<close> is nil when the caller passes three keys, and \<open>redis.call\<close> with a nil
  argument fails.
\<close>

definition legacy_owner_differs :: "server \<Rightarrow> string option \<Rightarrow> string \<Rightarrow> bool lua" where
  "legacy_owner_differs S k4 k1 =
     (case k4 of None \<Rightarrow> lua_fail | Some k \<Rightarrow> differ S (GET k) (HGET k1 ''worker''))"

definition publish_chunk_script :: "server \<Rightarrow> (string option \<Rightarrow> reply lua str5) str3" where
  "publish_chunk_script S k1 k2 k3 k4 a1 a2 a3 a4 a5 =
     lua_bind (lua_read S (HGET k1 ''epoch'')) (\<lambda>epoch.
     guard [lua_ret (epoch = LFalse),
            differs S (HGET k1 ''token'') (LStr a1),
            differs S (GET k2) (LStr a2),
            legacy_owner_differs S k4 k1] (RInt 0) (
     case epoch of
       LStr e \<Rightarrow>
         incremented S k3 (\<lambda>index.
         number_arg S a4 (\<lambda>ttl.
         writes S [SETEX (a3 @ lua_tostring S index) ttl a5,
                   SETEX (a3 @ lua_tostring S index @ '':provenance'') ttl (e @ '':'' @ a2)]
         (lua_ret (RInt index))))
     | _ \<Rightarrow> lua_fail))"

text \<open>The common end of the two reading scripts: provenance of this epoch and generation, then the bytes.\<close>

definition read_with_provenance :: "server \<Rightarrow> lval \<Rightarrow> reply lua str3" where
  "read_with_provenance S epoch a2 a3 a4 =
     (case epoch of
        LStr e \<Rightarrow>
          guard [differs S (GET (a3 @ a4 @ '':provenance'')) (LStr (e @ '':'' @ a2))] RNil
            (lua_call S (GET (a3 @ a4)))
      | _ \<Rightarrow> lua_fail)"

definition read_chunk_script :: "server \<Rightarrow> reply lua str6" where
  "read_chunk_script S k1 k2 a1 a2 a3 a4 =
     lua_bind (lua_read S (HGET k1 ''epoch'')) (\<lambda>epoch.
     guard [lua_ret (epoch = LFalse),
            differs S (HGET k1 ''token'') (LStr a1),
            differs S (GET k2) (LStr a2)] RNil
     (read_with_provenance S epoch a2 a3 a4))"

definition read_active_chunk_script :: "server \<Rightarrow> reply lua str6" where
  "read_active_chunk_script S k1 k2 a1 a2 a3 a4 =
     lua_bind (lua_read S (HGET k1 ''epoch'')) (\<lambda>epoch.
     guard [lua_ret (epoch = LFalse), lua_ret (epoch \<noteq> LStr a1), differs S (GET k2) (LStr a2)] RNil
     (read_with_provenance S epoch a2 a3 a4))"

definition current_generation_script :: "server \<Rightarrow> reply lua str2" where
  "current_generation_script S k1 k2 =
     lua_bind (lua_read S (HGET k1 ''epoch'')) (\<lambda>epoch.
       case epoch of
         LStr e \<Rightarrow>
           lua_bind (lua_read S (GET k2)) (\<lambda>generation.
             case generation of
               LStr g \<Rightarrow> lua_ret (RArray [RBulk e, RBulk g])
             | _ \<Rightarrow> lua_ret RNil)
       | _ \<Rightarrow> lua_ret RNil)"

definition current_script :: "server \<Rightarrow> reply lua str1" where
  "current_script S k1 =
     guard [equals S (EXISTS k1) (LInt 0)] RNil (
     lua_bind (lua_call S (HGET k1 ''epoch'')) (\<lambda>e.
     lua_bind (lua_call S (HGET k1 ''token'')) (\<lambda>t.
     lua_bind (lua_call S (HGET k1 ''worker'')) (\<lambda>w.
     lua_ret (RArray [e, t, w])))))"

subsection \<open>The authority and its keys\<close>

datatype authority_exn = AuthorityError | AuthorityValueError | AuthorityTypeError

type_synonym 'a authority_client = "keyspace \<Rightarrow> (authority_exn + 'a) \<times> keyspace"

record grant =
  epoch :: int
  grant_token :: string
  worker_id :: string

text \<open>An authority object: whether it has a Redis client, and the lease of its grants in seconds.\<close>

record authority =
  connected :: bool
  lease_seconds :: int

definition new_authority :: "bool \<Rightarrow> int \<Rightarrow> authority_exn + authority" where
  "new_authority client lease =
     (if lease \<le> 0 then Inl AuthorityValueError else Inr \<lparr>connected = client, lease_seconds = lease\<rparr>)"

definition valid_text :: "string \<Rightarrow> authority_exn + string" where
  "valid_text s = (if s = [] \<or> s \<noteq> strip s then Inl AuthorityError else Inr s)"

definition grant_key :: "string \<Rightarrow> string" where
  "grant_key channel = attestation_key channel '':grant''"

definition epoch_key :: "string \<Rightarrow> string" where
  "epoch_key channel = attestation_key channel '':epoch''"

definition generation_key :: "string \<Rightarrow> string" where
  "generation_key channel = attestation_key channel '':generation''"

definition authority_keys :: "string \<Rightarrow> authority_exn + string \<times> string \<times> string" where
  "authority_keys channel =
     rbind (valid_text channel) (\<lambda>c. Inr (grant_key c, epoch_key c, generation_key c))"

definition validated :: "authority_exn + 'b \<Rightarrow> ('b \<Rightarrow> 'a authority_client) \<Rightarrow> 'a authority_client" where
  "validated m k = (case m of Inl e \<Rightarrow> (\<lambda>db. (Inl e, db)) | Inr x \<Rightarrow> k x)"

text \<open>\<open>_eval\<close>: without a client, or when the script fails, an authority error.\<close>

definition authority_eval ::
  "authority \<Rightarrow> reply lua \<Rightarrow> (reply \<Rightarrow> authority_exn + 'a) \<Rightarrow> 'a authority_client" where
  "authority_eval A m f = (\<lambda>db.
     if \<not> connected A then (Inl AuthorityError, db)
     else case m db of
       (Inl _, db') \<Rightarrow> (Inl AuthorityError, db')
     | (Inr r, db') \<Rightarrow> (f r, db'))"

definition python_int :: "reply \<Rightarrow> authority_exn + int" where
  "python_int r = map_exn (\<lambda>e. if e = LedgerValueError then AuthorityValueError else AuthorityTypeError) (reply_int r)"

definition verified_int :: "reply \<Rightarrow> authority_exn + int" where
  "verified_int r = map_exn (\<lambda>_. AuthorityError) (reply_int r)"

subsection \<open>Grants\<close>

definition acquire :: "server \<Rightarrow> authority \<Rightarrow> string \<Rightarrow> string \<Rightarrow> string \<Rightarrow> string \<Rightarrow> grant authority_client" where
  "acquire S A token channel worker owner =
     validated (valid_text worker) (\<lambda>w.
     validated (authority_keys channel) (\<lambda>(k1, k2, k3).
     validated (valid_text owner) (\<lambda>k4.
     authority_eval A (acquire_script S k1 k2 k3 k4 token w (dec (lease_seconds A)))
       (\<lambda>r. if r = RNil then Inl AuthorityError
            else rbind (python_int r) (\<lambda>n.
              if n \<le> 0 then Inl AuthorityError
              else Inr \<lparr>epoch = n, grant_token = token, worker_id = w\<rparr>)))))"

text \<open>\<open>_decode\<close>: \<open>str(value)\<close>, so a nil reads as the text \<open>None\<close>.\<close>

fun decode_reply :: "reply \<Rightarrow> string" where
  "decode_reply (RBulk s) = s"
| "decode_reply (RInt n) = dec n"
| "decode_reply _ = ''None''"

definition current_grant :: "server \<Rightarrow> authority \<Rightarrow> string \<Rightarrow> grant option authority_client" where
  "current_grant S A channel =
     validated (authority_keys channel) (\<lambda>(k1, k2, k3).
     authority_eval A (current_script S k1)
       (\<lambda>r. case r of
          RNil \<Rightarrow> Inr None
        | RArray [e, t, w] \<Rightarrow>
            rbind (verified_int e) (\<lambda>n.
              if n \<le> 0 \<or> decode_reply t = [] \<or> decode_reply w = [] then Inl AuthorityError
              else Inr (Some \<lparr>epoch = n, grant_token = decode_reply t, worker_id = decode_reply w\<rparr>))
        | _ \<Rightarrow> Inl AuthorityError))"

text \<open>\<open>if self._eval(...) != 1: raise\<close>\<close>

definition must_be_one :: "reply \<Rightarrow> authority_exn + unit" where
  "must_be_one r = require (r = RInt 1) AuthorityError"

definition activate_generation ::
  "server \<Rightarrow> authority \<Rightarrow> string \<Rightarrow> string \<Rightarrow> string \<Rightarrow> unit authority_client" where
  "activate_generation S A channel token generation =
     validated (valid_text token) (\<lambda>t.
     validated (valid_text generation) (\<lambda>g.
     validated (authority_keys channel) (\<lambda>(k1, k2, k3).
     authority_eval A (activate_script S k1 k3 t g) must_be_one)))"

definition renew ::
  "server \<Rightarrow> authority \<Rightarrow> string \<Rightarrow> string \<Rightarrow> string \<Rightarrow> string \<Rightarrow> bool authority_client" where
  "renew S A channel token generation owner =
     validated (valid_text token) (\<lambda>t.
     validated (valid_text generation) (\<lambda>g.
     validated (authority_keys channel) (\<lambda>(k1, k2, k3).
     validated (valid_text owner) (\<lambda>k4.
     authority_eval A (renew_script S k1 k3 k4 t g (dec (lease_seconds A)))
       (\<lambda>r. rbind (verified_int r) (\<lambda>n. Inr (n = 1)))))))"

definition release_grant :: "server \<Rightarrow> authority \<Rightarrow> string \<Rightarrow> string \<Rightarrow> unit authority_client" where
  "release_grant S A channel token =
     validated (valid_text token) (\<lambda>t.
     validated (authority_keys channel) (\<lambda>(k1, k2, k3).
     authority_eval A (drop_grant_script S k1 k3 t) must_be_one))"

text \<open>
  \<open>expire_for_test\<close>: refused unless the client is a test backend, given by its \<open>expire_grant_for_test\<close>.
\<close>

definition expire_for_test ::
  "(string \<times> string \<times> string \<Rightarrow> string \<Rightarrow> keyspace \<Rightarrow> keyspace option) option \<Rightarrow> string \<Rightarrow> string
   \<Rightarrow> unit authority_client" where
  "expire_for_test backend channel token =
     validated (valid_text token) (\<lambda>t.
     validated (authority_keys channel) (\<lambda>keys.
       case backend of
         None \<Rightarrow> (\<lambda>db. (Inl AuthorityError, db))
       | Some expire \<Rightarrow> (\<lambda>db. case expire keys t db of
             None \<Rightarrow> (Inl AuthorityError, db)
           | Some db' \<Rightarrow> (Inr (), db'))))"

subsection \<open>Publishing and reading chunks\<close>

definition published_index :: "reply \<Rightarrow> authority_exn + int" where
  "published_index r = rbind (verified_int r) (\<lambda>n. if n \<le> 0 then Inl AuthorityError else Inr n)"

text \<open>\<open>publish_chunk\<close> passes three keys to the script.\<close>

definition publish_chunk ::
  "server \<Rightarrow> authority \<Rightarrow> (int \<Rightarrow> int authority_client) str4" where
  "publish_chunk S A channel token generation chunk ttl =
     validated (valid_text token) (\<lambda>t.
     validated (valid_text generation) (\<lambda>g.
     validated (require (chunk \<noteq> []) AuthorityError) (\<lambda>_.
     validated (require (0 < ttl) AuthorityError) (\<lambda>_.
     validated (authority_keys channel) (\<lambda>(k1, k2, k3).
     authority_eval A
       (publish_chunk_script S k1 k3 (attestation_key channel '':chunk-index'') None t g
          (attestation_key channel '':chunk:'') (dec ttl) chunk)
       published_index)))))"

definition publish_buffer_chunk ::
  "server \<Rightarrow> authority \<Rightarrow> (int \<Rightarrow> int authority_client str1) str6" where
  "publish_buffer_chunk S A channel token generation index_key prefix chunk ttl owner =
     validated (valid_text token) (\<lambda>t.
     validated (valid_text generation) (\<lambda>g.
     validated (valid_text index_key) (\<lambda>ik.
     validated (valid_text prefix) (\<lambda>p.
     validated (require (chunk \<noteq> []) AuthorityError) (\<lambda>_.
     validated (require (0 < ttl) AuthorityError) (\<lambda>_.
     validated (authority_keys channel) (\<lambda>(k1, k2, k3).
     validated (valid_text owner) (\<lambda>k4.
     authority_eval A (publish_chunk_script S k1 k3 ik (Some k4) t g p (dec ttl) chunk)
       published_index))))))))"

definition chunk_bytes :: "reply \<Rightarrow> authority_exn + string option" where
  "chunk_bytes r = (case r of RNil \<Rightarrow> Inr None | RBulk s \<Rightarrow> Inr (Some s) | _ \<Rightarrow> Inl AuthorityError)"

definition read_chunk_for_generation ::
  "server \<Rightarrow> authority \<Rightarrow> (int \<Rightarrow> string option authority_client) str3" where
  "read_chunk_for_generation S A channel token generation index =
     validated (valid_text token) (\<lambda>t.
     validated (valid_text generation) (\<lambda>g.
     validated (require (0 < index) AuthorityError) (\<lambda>_.
     validated (authority_keys channel) (\<lambda>(k1, k2, k3).
     authority_eval A
       (read_chunk_script S k1 k3 t g (attestation_key channel '':chunk:'') (dec index)) chunk_bytes))))"

definition read_buffer_chunk_for_generation ::
  "server \<Rightarrow> authority \<Rightarrow> (int \<Rightarrow> string option authority_client) str4" where
  "read_buffer_chunk_for_generation S A channel token generation prefix index =
     validated (valid_text token) (\<lambda>t.
     validated (valid_text generation) (\<lambda>g.
     validated (valid_text prefix) (\<lambda>p.
     validated (require (0 < index) AuthorityError) (\<lambda>_.
     validated (authority_keys channel) (\<lambda>(k1, k2, k3).
     authority_eval A (read_chunk_script S k1 k3 t g p (dec index)) chunk_bytes)))))"

definition current_generation ::
  "server \<Rightarrow> authority \<Rightarrow> string \<Rightarrow> (int \<times> string) option authority_client" where
  "current_generation S A channel =
     validated (authority_keys channel) (\<lambda>(k1, k2, k3).
     authority_eval A (current_generation_script S k1 k3)
       (\<lambda>r. case r of
          RNil \<Rightarrow> Inr None
        | RArray [e, g] \<Rightarrow>
            rbind (verified_int e) (\<lambda>n.
            rbind (case g of RBulk s \<Rightarrow> valid_text s | _ \<Rightarrow> Inl AuthorityError) (\<lambda>s.
              if n \<le> 0 then Inl AuthorityError else Inr (Some (n, s))))
        | _ \<Rightarrow> Inl AuthorityError))"

definition read_buffer_chunk_for_active_generation ::
  "server \<Rightarrow> authority \<Rightarrow> string \<Rightarrow> int \<Rightarrow> string \<Rightarrow> string \<Rightarrow> int \<Rightarrow> string option authority_client" where
  "read_buffer_chunk_for_active_generation S A channel grant_epoch generation prefix index =
     validated (require (0 < grant_epoch) AuthorityError) (\<lambda>_.
     validated (valid_text generation) (\<lambda>g.
     validated (valid_text prefix) (\<lambda>p.
     validated (require (0 < index) AuthorityError) (\<lambda>_.
     validated (authority_keys channel) (\<lambda>(k1, k2, k3).
     authority_eval A (read_active_chunk_script S k1 k3 (dec grant_epoch) g p (dec index)) chunk_bytes)))))"

end
