(* ===== verification/Generation_Correct.thy ===== *)
theory Generation_Correct
  imports Generation_Authority Ledger_Bindings
begin

text \<open>
  What the generation authority guarantees, for every server with the documented behaviour of Redis:
  grants are exclusive and their epochs increase, a superseded publisher is fenced, and a chunk is
  read only under the epoch and generation that published it. A published chunk is the delivery
  evidence on which the reservation ledger activates a live channel.
\<close>

subsection \<open>Keys\<close>

lemma attestation_key_inject: "attestation_key c p = attestation_key d q \<longleftrightarrow> c @ p = d @ q"
  by (simp add: attestation_key_def)

lemma epoch_key_inject [simp]: "epoch_key c = epoch_key d \<longleftrightarrow> c = d"
  by (simp add: epoch_key_def attestation_key_inject)

lemma key_ends:
  "last (grant_key c) = CHR ''t''" "last (epoch_key c) = CHR ''h''" "last (generation_key c) = CHR ''n''"
  "last (attestation_key c '':chunk-index'') = CHR ''x''"
  by (simp_all add: grant_key_def epoch_key_def generation_key_def attestation_key_def)

lemma authority_keys_distinct [simp]:
  "grant_key c \<noteq> epoch_key d" "grant_key c \<noteq> generation_key d" "epoch_key c \<noteq> generation_key d"
  "epoch_key c \<noteq> grant_key d" "generation_key c \<noteq> grant_key d" "generation_key c \<noteq> epoch_key d"
  using key_ends[of c] key_ends[of d] by auto

text \<open>Media keys lie under \<open>live:\<close>, apart from every authority key.\<close>

definition media_key :: "string \<Rightarrow> bool" where
  "media_key k \<longleftrightarrow> take 5 k = ''live:''"

lemma media_key_append [simp]: "media_key k \<Longrightarrow> media_key (k @ x)"
proof -
  assume k: "media_key k"
  then have "length (take 5 k) = 5" unfolding media_key_def by (rule arg_cong[where f = length, THEN trans]) simp
  then have "5 \<le> length k" by (simp add: min_def split: if_splits)
  with k show ?thesis by (simp add: media_key_def)
qed

lemma media_key_apart:
  "media_key k \<Longrightarrow> k \<noteq> grant_key c" "media_key k \<Longrightarrow> k \<noteq> epoch_key c" "media_key k \<Longrightarrow> k \<noteq> generation_key c"
  by (auto simp: media_key_def grant_key_def epoch_key_def generation_key_def attestation_key_def)

lemma valid_text_Inr [simp]: "valid_text s = Inr t \<longleftrightarrow> s \<noteq> [] \<and> s = strip s \<and> t = s"
  by (auto simp: valid_text_def)

lemma authority_keys_Inr [simp]:
  "authority_keys c = Inr ks \<longleftrightarrow> valid_text c = Inr c \<and> ks = (grant_key c, epoch_key c, generation_key c)"
  by (auto simp: authority_keys_def rbind_Inr_iff)

subsection \<open>Client calls\<close>

lemma validated_Inr: "validated m k db = (Inr v, db') \<Longrightarrow> \<exists>x. m = Inr x \<and> k x db = (Inr v, db')"
  by (cases m) (auto simp: validated_def)

lemma authority_eval_runs:
  assumes "runs db R Q m" "authority_eval A m f db = (r, db')"
  shows "(db' = db \<and> (r = Inl AuthorityError \<or> (\<exists>y. R y \<and> r = f y)))
    \<or> (\<exists>x. Q x db' \<and> r = (case x of Inl _ \<Rightarrow> Inl AuthorityError | Inr y \<Rightarrow> f y))"
proof (cases "connected A")
  case True
  obtain x db1 where x: "m db = (x, db1)" by force
  with assms(2) True have "db1 = db'" "r = (case x of Inl _ \<Rightarrow> Inl AuthorityError | Inr y \<Rightarrow> f y)"
    by (auto simp: authority_eval_def split: sum.splits)
  with runsD[OF assms(1) x] show ?thesis by (cases x) auto
qed (use assms in \<open>simp add: authority_eval_def\<close>)

lemma authority_eval_success:
  assumes "runs db R Q m" "authority_eval A m f db = (Inr v, db')" "\<And>y. R y \<Longrightarrow> f y \<noteq> Inr v"
  shows "\<exists>y. Q (Inr y) db' \<and> f y = Inr v"
proof -
  from authority_eval_runs[OF assms(1,2)] consider y where "R y" "Inr v = f y"
    | x where "Q x db'" "Inr v = (case x of Inl _ \<Rightarrow> Inl AuthorityError | Inr y \<Rightarrow> f y)" by auto
  then show ?thesis
  proof cases
    case 1
    with assms(3) show ?thesis by metis
  next
    case 2
    then show ?thesis by (cases x) auto
  qed
qed

text \<open>A call either leaves the keyspace as it was or ends in a keyspace with \<open>P\<close>.\<close>

definition changes :: "keyspace \<Rightarrow> (keyspace \<Rightarrow> bool) \<Rightarrow> 'a authority_client \<Rightarrow> bool" where
  "changes db P m \<longleftrightarrow> (\<forall>r db'. m db = (r, db') \<longrightarrow> db' = db \<or> P db')"

lemma changesD: "changes db P m \<Longrightarrow> m db = (r, db') \<Longrightarrow> db' = db \<or> P db'"
  by (simp add: changes_def)

lemma changes_validated: "(\<And>x. m = Inr x \<Longrightarrow> changes db P (k x)) \<Longrightarrow> changes db P (validated m k)"
  by (cases m) (auto simp: validated_def changes_def)

lemma changes_eval:
  assumes "runs db R Q m" "\<And>x db'. Q x db' \<Longrightarrow> P db'"
  shows "changes db P (authority_eval A m f)"
  unfolding changes_def using authority_eval_runs[OF assms(1)] assms(2) by blast

definition exact_seconds :: "int \<Rightarrow> bool" where
  "exact_seconds n \<longleftrightarrow> 1 \<le> n \<and> n \<le> 2 ^ 53"

subsection \<open>What the scripts do\<close>

definition granted :: "server \<Rightarrow> string \<Rightarrow> int \<Rightarrow> string \<Rightarrow> string \<Rightarrow> keyspace \<Rightarrow> keyspace" where
  "granted S c n token w db =
     db(epoch_key c \<mapsto> RStr (dec n),
        grant_key c \<mapsto> RHash [(''epoch'', lua_tostring S n), (''token'', token), (''worker'', w)],
        generation_key c := None)"

definition published :: "server \<Rightarrow> string \<Rightarrow> string \<Rightarrow> int \<Rightarrow> string \<Rightarrow> string \<Rightarrow> keyspace \<Rightarrow> keyspace" where
  "published S ik p i chunk prov db =
     db(ik \<mapsto> RStr (dec i), p @ lua_tostring S i \<mapsto> RStr chunk,
        p @ lua_tostring S i @ '':provenance'' \<mapsto> RStr prov)"

definition current_publisher :: "keyspace \<Rightarrow> string \<Rightarrow> string \<Rightarrow> string \<Rightarrow> string \<Rightarrow> bool" where
  "current_publisher db c token generation owner \<longleftrightarrow>
     hfield db (grant_key c) ''token'' = Some token \<and> db (generation_key c) = Some (RStr generation)
     \<and> sval db owner = hfield db (grant_key c) ''worker''"

definition chunk_read :: "keyspace \<Rightarrow> string \<Rightarrow> unit + reply \<Rightarrow> bool" where
  "chunk_read db k x \<longleftrightarrow> (\<forall>s. x = Inr (RBulk s) \<longrightarrow> db k = Some (RStr s))"

context redis_server
begin

lemma number_arg_dec: "exact_seconds n \<Longrightarrow> number_arg S (dec n) f = f n"
  by (simp add: number_arg_def exact_seconds_def tonumber_dec to_int_fint)

lemma incremented_eq:
  "incremented S k f db =
     (case counter_at db k of
        Some n \<Rightarrow> if int64 n \<and> int64 (n + 1) then f (n + 1) (db(k \<mapsto> RStr (dec (n + 1)))) else (Inl (), db)
      | None \<Rightarrow> (Inl (), db))"
proof (cases "\<exists>n. counter_at db k = Some n \<and> int64 n \<and> int64 (n + 1)")
  case True
  then show ?thesis by (auto simp: incremented_def lua_bind_def lua_call_def call_incr)
next
  case False
  then have "redis_call S db (INCR k) = (RError, db)" by (intro call_incr_error) auto
  with False show ?thesis by (auto simp: incremented_def lua_bind_def lua_call_def split: option.split)
qed

lemma runs_incremented:
  assumes "\<And>n x db'. counter_at db k = Some n \<Longrightarrow> f (n + 1) (db(k \<mapsto> RStr (dec (n + 1)))) = (x, db') \<Longrightarrow> Q x db'"
  shows "runs db R Q (incremented S k f)"
  using assms by (auto simp: runs_def incremented_eq split: option.splits if_splits)

lemma acquire_script_runs:
  assumes lease: "exact_seconds n"
  shows "runs db (\<lambda>r. r = RNil)
    (\<lambda>x db'. db k4 = Some (RStr w) \<and> db (grant_key c) = None \<and> (\<exists>e. counter_at db (epoch_key c) = Some e
       \<and> x = Inr (RInt (e + 1)) \<and> db' = granted S c (e + 1) token w db))
    (acquire_script S (grant_key c) (epoch_key c) (generation_key c) k4 token w (dec n))"
  unfolding acquire_script_def
proof (intro runs_guard runs_fact runs_incremented)
  fix e x db'
  let ?db = "db(epoch_key c \<mapsto> RStr (dec (e + 1)))"
  let ?h = "[(''epoch'', lua_tostring S (e + 1)), (''token'', token), (''worker'', w)]"
  assume "passes [differs S (EXISTS (grant_key c)) (LInt 0)] db" and e: "counter_at db (epoch_key c) = Some e"
  then have free: "db (grant_key c) = None" by (simp add: read_facts)
  have ex: "exec [HSET (grant_key c) ?h] ?db = Some (?db(grant_key c \<mapsto> RHash ?h))"
    using free by (simp add: hash_at_def put_hash_def hset_all_def)
  have ex': "exec [EXPIRE (grant_key c) n, DEL [generation_key c]] (?db(grant_key c \<mapsto> RHash ?h))
      = Some (granted S c (e + 1) token w db)"
    using lease by (auto simp: exact_seconds_def del_keys_def granted_def fun_eq_iff)
  assume "writes S [HSET (grant_key c) ?h]
      (number_arg S (dec n) (\<lambda>ttl. writes S [EXPIRE (grant_key c) ttl, DEL [generation_key c]]
         (lua_ret (RInt (e + 1))))) ?db = (x, db')"
  then have "(Inr (RInt (e + 1)), granted S c (e + 1) token w db) = (x, db')"
    by (simp only: writes_exec[OF ex] number_arg_dec[OF lease] writes_exec[OF ex'] lua_ret_def)
  with e show "\<exists>e. counter_at db (epoch_key c) = Some e \<and> x = Inr (RInt (e + 1)) \<and> db' = granted S c (e + 1) token w db"
    by auto
qed (simp_all add: read_facts)

lemma passes_legacy_owner [read_facts]:
  "passes (legacy_owner_differs S (Some k) c # cs) db
    \<longleftrightarrow> (\<exists>v. read_val db (GET k) = Some v \<and> read_val db (HGET c ''worker'') = Some v) \<and> passes cs db"
  by (simp add: legacy_owner_differs_def passes_differ)

lemma probe_legacy_owner [simp]: "probe (legacy_owner_differs S k c)"
  by (cases k) (auto simp: legacy_owner_differs_def)

lemma same_worker:
  assumes "read_val db (GET k) = Some v" "read_val db (HGET c ''worker'') = Some v"
  shows "sval db k = hfield db c ''worker''"
  using assms by (auto simp: read_val.simps sval_def hfield_def hash_at_def split: option.splits rval.splits)

lemma publish_script_runs:
  assumes ttl: "exact_seconds n"
  shows "runs db (\<lambda>r. r = RInt 0)
    (\<lambda>x db'. current_publisher db c token g owner \<and> (\<exists>e i. hfield db (grant_key c) ''epoch'' = Some e
       \<and> counter_at db ik = Some i \<and> x = Inr (RInt (i + 1)) \<and> db' = published S ik p (i + 1) chunk (e @ '':'' @ g) db))
    (publish_chunk_script S (grant_key c) (generation_key c) ik (Some owner) token g p (dec n) chunk)"
  unfolding publish_chunk_script_def
proof (intro runs_read runs_guard runs_fact)
  fix v
  assume v: "read_val db (HGET (grant_key c) ''epoch'') = Some v"
    and ok: "passes [lua_ret (v = LFalse), differs S (HGET (grant_key c) ''token'') (LStr token),
      differs S (GET (generation_key c)) (LStr g), legacy_owner_differs S (Some owner) (grant_key c)] db"
  show "current_publisher db c token g owner"
    using ok same_worker by (auto simp: current_publisher_def read_facts)
  have "v \<noteq> LFalse" using ok by (simp add: read_facts)
  with v obtain e where e: "v = LStr e" "hfield db (grant_key c) ''epoch'' = Some e"
    by (cases v) (simp_all add: read_facts, auto simp: read_val.simps split: option.splits)
  let ?pre = "\<lambda>i. db(ik \<mapsto> RStr (dec i))"
  let ?Q = "\<lambda>x db'. \<exists>e i. hfield db (grant_key c) ''epoch'' = Some e
       \<and> counter_at db ik = Some i \<and> x = Inr (RInt (i + 1)) \<and> db' = published S ik p (i + 1) chunk (e @ '':'' @ g) db"
  have ex: "exec [SETEX (p @ lua_tostring S i) n chunk, SETEX (p @ lua_tostring S i @ '':provenance'') n (e @ '':'' @ g)]
      (?pre i) = Some (published S ik p i chunk (e @ '':'' @ g) db)" for i
    using ttl by (simp add: exact_seconds_def published_def)
  have "runs db (\<lambda>r. r = RInt 0) ?Q (incremented S ik (\<lambda>index. number_arg S (dec n) (\<lambda>ttl.
     writes S [SETEX (p @ lua_tostring S index) ttl chunk,
               SETEX (p @ lua_tostring S index @ '':provenance'') ttl (e @ '':'' @ g)]
     (lua_ret (RInt index)))))"
    by (rule runs_incremented)
      (use e in \<open>auto simp only: number_arg_dec[OF ttl] writes_exec[OF ex] lua_ret_def prod.inject\<close>)
  with e show "runs db (\<lambda>r. r = RInt 0) ?Q (case v of LStr e \<Rightarrow> incremented S ik (\<lambda>index. number_arg S (dec n) (\<lambda>ttl.
     writes S [SETEX (p @ lua_tostring S index) ttl chunk,
               SETEX (p @ lua_tostring S index @ '':provenance'') ttl (e @ '':'' @ g)]
     (lua_ret (RInt index)))) | _ \<Rightarrow> lua_fail)" by simp
qed simp_all

lemma token_checks_runs:
  "runs db (\<lambda>r. r = RInt 0) (\<lambda>x db'. hfield db (grant_key c) ''token'' = Some token \<and> x = Inr (RInt 1)
      \<and> db' = del_keys [grant_key c, generation_key c] db)
    (drop_grant_script S (grant_key c) (generation_key c) token)"
  "runs db (\<lambda>r. r = RInt 0) (\<lambda>x db'. hfield db (grant_key c) ''token'' = Some token \<and> x = Inr (RInt 1)
      \<and> db' = db(generation_key c \<mapsto> RStr g))
    (activate_script S (grant_key c) (generation_key c) token g)"
  unfolding drop_grant_script_def activate_script_def
  by (intro runs_guard runs_fact runs_writes; auto simp: read_facts lua_ret_def)
    (intro runs_guard runs_fact;
      simp add: read_facts runs_def lua_bind_def lua_call_def call_set lua_ret_def)

lemma call_get_eq:
  "lua_call S (GET k) db =
     (case db k of None \<Rightarrow> Inr RNil | Some (RStr s) \<Rightarrow> Inr (RBulk s) | Some (RHash _) \<Rightarrow> Inl (), db)"
  by (auto simp: lua_call_def call_get split: option.splits rval.splits)

lemma renew_script_runs:
  assumes lease: "exact_seconds n"
  shows "runs db (\<lambda>r. r = RInt 0) (\<lambda>x db'. current_publisher db c token g owner \<and> x = Inr (RInt 1) \<and> db' = db)
    (renew_script S (grant_key c) (generation_key c) owner token g (dec n))"
  unfolding renew_script_def number_arg_dec[OF lease]
proof (intro runs_guard)
  assume t: "passes [differs S (HGET (grant_key c) ''token'') (LStr token)] db"
    and w: "passes [differ S (GET owner) (HGET (grant_key c) ''worker'')] db"
    and g: "passes [differs S (GET (generation_key c)) (LStr g)] db"
  have "current_publisher db c token g owner"
    using t w g same_worker by (auto simp: current_publisher_def read_facts)
  moreover have "db (grant_key c) \<noteq> None" using t by (auto simp: read_facts hfield_def split: option.splits)
  ultimately show "runs db (\<lambda>r. r = RInt 0) (\<lambda>x db'. current_publisher db c token g owner \<and> x = Inr (RInt 1) \<and> db' = db)
    (lua_bind (lua_call S (EXPIRE (grant_key c) n)) (\<lambda>r. lua_ret (RInt (if r = RInt 1 then 1 else 0))))"
    using lease by (auto simp: runs_def lua_bind_def lua_call_def call_expire lua_ret_def exact_seconds_def)
qed simp_all

lemma read_with_provenance_runs:
  "runs db (\<lambda>r. r = RNil)
    (\<lambda>x db'. db' = db \<and> db (p @ i @ '':provenance'') = Some (RStr (e @ '':'' @ g)) \<and> chunk_read db (p @ i) x)
    (read_with_provenance S (LStr e) g p i)"
  unfolding read_with_provenance_def lval.case
  by (intro runs_guard, simp_all add: read_facts)
    (auto simp: runs_def call_get_eq chunk_read_def split: option.splits rval.splits)

lemma active_read_runs:
  "runs db (\<lambda>r. r = RNil)
    (\<lambda>x db'. hfield db (grant_key c) ''epoch'' = Some e \<and> db (generation_key c) = Some (RStr g)
       \<and> db' = db \<and> db (p @ i @ '':provenance'') = Some (RStr (e @ '':'' @ g)) \<and> chunk_read db (p @ i) x)
    (read_active_chunk_script S (grant_key c) (generation_key c) e g p i)"
  unfolding read_active_chunk_script_def
proof (intro runs_read runs_guard)
  fix v
  assume v: "read_val db (HGET (grant_key c) ''epoch'') = Some v"
    and "passes [lua_ret (v = LFalse), lua_ret (v \<noteq> LStr e), differs S (GET (generation_key c)) (LStr g)] db"
  then have eqs: "v = LStr e" "hfield db (grant_key c) ''epoch'' = Some e" "db (generation_key c) = Some (RStr g)"
    by (auto simp: read_facts)
  show "runs db (\<lambda>r. r = RNil)
    (\<lambda>x db'. hfield db (grant_key c) ''epoch'' = Some e \<and> db (generation_key c) = Some (RStr g)
       \<and> db' = db \<and> db (p @ i @ '':provenance'') = Some (RStr (e @ '':'' @ g)) \<and> chunk_read db (p @ i) x)
    (read_with_provenance S v g p i)"
    unfolding eqs(1) by (intro runs_fact eqs(2,3) read_with_provenance_runs)
qed simp_all

text \<open>What the reading scripts answer when every check passes.\<close>

lemma read_scripts_eval:
  assumes "hfield db (grant_key c) ''epoch'' = Some e" "db (generation_key c) = Some (RStr g)"
    "db (p @ i @ '':provenance'') = Some (RStr (e @ '':'' @ g))" "db (p @ i) = Some (RStr s)"
  shows "read_active_chunk_script S (grant_key c) (generation_key c) e g p i db = (Inr (RBulk s), db)"
    "hfield db (grant_key c) ''token'' = Some token \<Longrightarrow>
      read_chunk_script S (grant_key c) (generation_key c) token g p i db = (Inr (RBulk s), db)"
proof -
  have end_reads: "read_with_provenance S (LStr e) g p i db = (Inr (RBulk s), db)"
    using assms by (simp add: read_with_provenance_def guard_pass read_facts call_get_eq)
  have v: "read_val db (HGET (grant_key c) ''epoch'') = Some (LStr e)" using assms(1) by (simp add: read_facts)
  have bind: "lua_bind (lua_read S (HGET (grant_key c) ''epoch'')) f db = f (LStr e) db" for f :: "lval \<Rightarrow> reply lua"
    using v by (simp add: lua_bind_def lua_read_eq)
  show "read_active_chunk_script S (grant_key c) (generation_key c) e g p i db = (Inr (RBulk s), db)"
    unfolding read_active_chunk_script_def bind using assms
    by (simp add: guard_pass read_facts end_reads)
  assume "hfield db (grant_key c) ''token'' = Some token"
  then show "read_chunk_script S (grant_key c) (generation_key c) token g p i db = (Inr (RBulk s), db)"
    unfolding read_chunk_script_def bind using assms
    by (simp add: guard_pass read_facts end_reads)
qed

text \<open>With three keys the publishing script never gets past its fourth check.\<close>

lemma publish_without_owner:
  "runs db (\<lambda>r. r = RInt 0) (\<lambda>x db'. False) (publish_chunk_script S k1 k2 k3 None a1 a2 a3 a4 a5)"
  unfolding publish_chunk_script_def legacy_owner_differs_def option.case
  by (intro runs_read runs_guard) (auto simp: read_facts passes_Cons, simp add: lua_fail_def)

end

end
