(* ===== verification/Generation_Fencing.thy ===== *)
theory Generation_Fencing
  imports Generation_Correct
begin

text \<open>
  The guarantees of the generation authority to its callers: exclusive grants with increasing epochs
  over every interleaving of authority calls, fencing of superseded publishers, provenance of what is
  read, and the delivery evidence the reservation ledger asks for.
\<close>

subsection \<open>Calls that have no effect\<close>

text \<open>The call leaves the keyspace as it is, and a value it returns satisfies \<open>F\<close>.\<close>

definition denied :: "keyspace \<Rightarrow> ('a \<Rightarrow> bool) \<Rightarrow> 'a authority_client \<Rightarrow> bool" where
  "denied db F m \<longleftrightarrow> snd (m db) = db \<and> (case fst (m db) of Inl _ \<Rightarrow> True | Inr v \<Rightarrow> F v)"

lemma denied_validated: "(\<And>x. m = Inr x \<Longrightarrow> denied db F (k x)) \<Longrightarrow> denied db F (validated m k)"
  by (cases m) (auto simp: validated_def denied_def)

lemma denied_eval:
  assumes "runs db R Q m" "\<And>x db'. \<not> Q x db'" "\<And>y v. R y \<Longrightarrow> f y = Inr v \<Longrightarrow> F v"
  shows "denied db F (authority_eval A m f)"
proof -
  obtain r db' where run: "authority_eval A m f db = (r, db')" by force
  from authority_eval_runs[OF assms(1) run] assms(2,3) run show ?thesis
    by (cases r) (auto simp: denied_def)
qed

lemma reply_facts [simp]:
  "published_index (RInt 0) = Inl AuthorityError" "must_be_one (RInt 0) = Inl AuthorityError"
  "verified_int (RInt n) = Inr n" "python_int (RInt n) = Inr n"
  by (simp_all add: published_index_def must_be_one_def verified_int_def python_int_def require_def)

subsection \<open>Grants\<close>

context redis_server
begin

lemma acquire_run:
  assumes lease: "exact_seconds (lease_seconds A)"
    and run: "acquire S A t c w ow db = (Inr g, db')"
  shows "db (grant_key c) = None" "db ow = Some (RStr w)" "counter_at db (epoch_key c) = Some (epoch g - 1)"
    "1 \<le> epoch g" "grant_token g = t" "worker_id g = w" "db' = granted S c (epoch g) t w db"
proof -
  from run have ok: "valid_text w = Inr w" "authority_keys c = Inr (grant_key c, epoch_key c, generation_key c)"
      "valid_text ow = Inr ow" unfolding acquire_def by (auto dest!: validated_Inr)
  with run have ev: "authority_eval A (acquire_script S (grant_key c) (epoch_key c) (generation_key c) ow t w
      (dec (lease_seconds A)))
     (\<lambda>r. if r = RNil then Inl AuthorityError
          else rbind (python_int r) (\<lambda>n. if n \<le> 0 then Inl AuthorityError
            else Inr \<lparr>epoch = n, grant_token = t, worker_id = w\<rparr>)) db = (Inr g, db')"
    by (simp add: acquire_def validated_def del: valid_text_Inr authority_keys_Inr)
  from authority_eval_success[OF acquire_script_runs[OF lease] this] obtain y e where
    "db ow = Some (RStr w)" "db (grant_key c) = None" "counter_at db (epoch_key c) = Some e" "y = RInt (e + 1)"
      "db' = granted S c (e + 1) t w db"
    and "(if y = RNil then Inl AuthorityError
          else rbind (python_int y) (\<lambda>n. if n \<le> 0 then Inl AuthorityError
            else Inr \<lparr>epoch = n, grant_token = t, worker_id = w\<rparr>)) = Inr g" by auto
  then show "db (grant_key c) = None" "db ow = Some (RStr w)" "counter_at db (epoch_key c) = Some (epoch g - 1)"
    "1 \<le> epoch g" "grant_token g = t" "worker_id g = w" "db' = granted S c (epoch g) t w db"
    by (auto split: if_splits)
qed

lemma acquire_denied:
  assumes lease: "exact_seconds (lease_seconds A)" and held: "db (grant_key c) \<noteq> None"
  shows "denied db (\<lambda>_. False) (acquire S A t c w ow)"
  unfolding acquire_def
  by (intro denied_validated, simp, intro denied_validated denied_eval[OF acquire_script_runs[OF lease]])
    (use held in \<open>auto split: if_splits\<close>)

end

text \<open>
  Grants are exclusive: acquiring needs the worker's channel lease and no current grant, takes the
  next epoch number, clears the generation and writes nothing else; while that grant stands, no other
  acquisition of the channel succeeds or changes anything.
\<close>

theorem acquire_exclusive:
  assumes "redis_server S" "exact_seconds (lease_seconds A)" "exact_seconds (lease_seconds A')"
    "acquire S A t c w ow db = (Inr g, db')"
  shows "db (grant_key c) = None \<and> db ow = Some (RStr w)
    \<and> counter_at db (epoch_key c) = Some (epoch g - 1) \<and> 1 \<le> epoch g \<and> grant_token g = t \<and> worker_id g = w
    \<and> db' = granted S c (epoch g) t w db \<and> denied db' (\<lambda>_. False) (acquire S A' t' c w' ow')"
proof -
  note a = redis_server.acquire_run[OF assms(1,2,4)]
  have "db' (grant_key c) \<noteq> None" using a(7) by (simp add: granted_def)
  then have "denied db' (\<lambda>_. False) (acquire S A' t' c w' ow')"
    by (rule redis_server.acquire_denied[OF assms(1,3)])
  with a show ?thesis by simp
qed

subsection \<open>Epochs\<close>

text \<open>
  The authority as a state machine over all channels: any call, whatever its outcome, and steps of
  the environment (expiring grants, owner leases and chunks), which leave the epoch counters alone.
  Publishers use media keys.
\<close>

inductive authority_action :: "server \<Rightarrow> keyspace \<Rightarrow> keyspace \<Rightarrow> bool" for S where
  environment: "\<forall>c. db' (epoch_key c) = db (epoch_key c) \<Longrightarrow> authority_action S db db'"
| acquire: "exact_seconds (lease_seconds A) \<Longrightarrow> acquire S A t c w ow db = (g, db') \<Longrightarrow> authority_action S db db'"
| renew: "exact_seconds (lease_seconds A) \<Longrightarrow> renew S A c t g ow db = (b, db') \<Longrightarrow> authority_action S db db'"
| release: "release_grant S A c t db = (u, db') \<Longrightarrow> authority_action S db db'"
| activate: "activate_generation S A c t g db = (u, db') \<Longrightarrow> authority_action S db db'"
| publish: "exact_seconds ttl \<Longrightarrow> media_key ik \<Longrightarrow> media_key p \<Longrightarrow>
    publish_buffer_chunk S A c t g ik p chunk ttl ow db = (i, db') \<Longrightarrow> authority_action S db db'"
| publish_plain: "publish_chunk S A c t g chunk ttl db = (i, db') \<Longrightarrow> authority_action S db db'"

inductive authority_run :: "server \<Rightarrow> keyspace \<Rightarrow> keyspace \<Rightarrow> bool" for S where
  start: "authority_run S db db"
| step: "authority_run S db db1 \<Longrightarrow> authority_action S db1 db2 \<Longrightarrow> authority_run S db db2"

definition epochs_grow :: "keyspace \<Rightarrow> keyspace \<Rightarrow> bool" where
  "epochs_grow db db' \<longleftrightarrow>
     (\<forall>c n. counter_at db (epoch_key c) = Some n \<longrightarrow> (\<exists>m\<ge>n. counter_at db' (epoch_key c) = Some m))"

lemma epochs_grow_refl: "epochs_grow db db"
  by (auto simp: epochs_grow_def)

lemma epochs_grow_trans: "epochs_grow db db' \<Longrightarrow> epochs_grow db' db'' \<Longrightarrow> epochs_grow db db''"
  unfolding epochs_grow_def by (meson order_trans)

lemma epochs_grow_frame:
  assumes "\<And>c. db' (epoch_key c) = db (epoch_key c)"
  shows "epochs_grow db db'"
  using assms by (auto simp: epochs_grow_def counter_at_def)

lemma epochs_grow_granted:
  "counter_at db (epoch_key c) = Some e \<Longrightarrow> epochs_grow db (granted S c (e + 1) t w db)"
  by (auto simp: epochs_grow_def granted_def counter_at_def)

lemma epochs_grow_published:
  assumes "media_key ik" "media_key p"
  shows "epochs_grow db (published S ik p i chunk prov db)"
proof (rule epochs_grow_frame)
  fix c
  have "media_key (p @ x)" for x using assms(2) by simp
  then show "published S ik p i chunk prov db (epoch_key c) = db (epoch_key c)"
    using assms(1) media_key_apart(2)[of _ c] unfolding published_def by (metis fun_upd_other)
qed

lemma epochs_grow_changes: "changes db (epochs_grow db) m \<Longrightarrow> m db = (r, db') \<Longrightarrow> epochs_grow db db'"
  using changesD epochs_grow_refl by blast

context redis_server
begin

lemma call_epochs:
  "exact_seconds (lease_seconds A) \<Longrightarrow> changes db (epochs_grow db) (acquire S A t c w ow)"
  "exact_seconds (lease_seconds A) \<Longrightarrow> changes db (epochs_grow db) (renew S A c t g ow)"
  "changes db (epochs_grow db) (release_grant S A c t)"
  "changes db (epochs_grow db) (activate_generation S A c t g)"
  "exact_seconds ttl \<Longrightarrow> media_key ik \<Longrightarrow> media_key p \<Longrightarrow>
    changes db (epochs_grow db) (publish_buffer_chunk S A c t g ik p chunk ttl ow)"
  "changes db (epochs_grow db) (publish_chunk S A c t g chunk ttl)"
proof -
  show "changes db (epochs_grow db) (acquire S A t c w ow)" if "exact_seconds (lease_seconds A)"
    unfolding acquire_def
    by (intro changes_validated, simp, intro changes_validated changes_eval[OF acquire_script_runs[OF that]])
      (auto intro: epochs_grow_granted)
  show "changes db (epochs_grow db) (renew S A c t g ow)" if "exact_seconds (lease_seconds A)"
    unfolding renew_def
    by (intro changes_validated, simp, intro changes_validated changes_eval[OF renew_script_runs[OF that]])
      (auto intro: epochs_grow_refl)
  show "changes db (epochs_grow db) (release_grant S A c t)"
    unfolding release_grant_def
    by (intro changes_validated, simp, intro changes_eval[OF token_checks_runs(1)])
      (auto simp: del_keys_def intro!: epochs_grow_frame)
  show "changes db (epochs_grow db) (activate_generation S A c t g)"
    unfolding activate_generation_def
    by (intro changes_validated, simp, intro changes_eval[OF token_checks_runs(2)])
      (auto intro!: epochs_grow_frame)
  show "changes db (epochs_grow db) (publish_buffer_chunk S A c t g ik p chunk ttl ow)"
    if "exact_seconds ttl" "media_key ik" "media_key p"
    unfolding publish_buffer_chunk_def
    by (intro changes_validated, simp, intro changes_validated changes_eval[OF publish_script_runs[OF that(1)]])
      (use that in \<open>auto intro: epochs_grow_published\<close>)
  show "changes db (epochs_grow db) (publish_chunk S A c t g chunk ttl)"
    unfolding publish_chunk_def
    by (intro changes_validated, simp, intro changes_eval[OF publish_without_owner]) simp
qed

lemma action_epochs:
  assumes "authority_action S db db'"
  shows "epochs_grow db db'"
  using assms
proof (cases rule: authority_action.cases)
  case environment
  then show ?thesis by (simp add: epochs_grow_frame)
qed (rule epochs_grow_changes[rotated], assumption, rule call_epochs; assumption)+

lemma run_epochs: "authority_run S db db' \<Longrightarrow> epochs_grow db db'"
  by (induction rule: authority_run.induct) (auto intro: epochs_grow_refl epochs_grow_trans action_epochs)

end

text \<open>
  C24. Epochs never repeat: whatever authority calls and expiries happen between two acquisitions of a
  channel, the later grant has the strictly larger epoch.
\<close>

theorem epochs_strictly_increase:
  assumes "redis_server S" "exact_seconds (lease_seconds A)" "exact_seconds (lease_seconds A')"
    "acquire S A t c w ow db = (Inr g, db1)" "authority_run S db1 db2"
    "acquire S A' t' c w' ow' db2 = (Inr g', db3)"
  shows "epoch g < epoch g'"
proof -
  have "counter_at db1 (epoch_key c) = Some (epoch g)"
    using redis_server.acquire_run(7)[OF assms(1,2,4)] by (simp add: granted_def counter_at_def)
  with redis_server.run_epochs[OF assms(1,5)] obtain m where
    "epoch g \<le> m" "counter_at db2 (epoch_key c) = Some m" by (auto simp: epochs_grow_def)
  with redis_server.acquire_run(3)[OF assms(1,3,6)] show ?thesis by simp
qed


subsection \<open>Fencing\<close>

context redis_server
begin

lemma stale_calls_denied:
  assumes lease: "exact_seconds (lease_seconds A)" "exact_seconds ttl"
    and stale: "hfield db (grant_key c) ''token'' \<noteq> Some t"
  shows "denied db (\<lambda>_. False) (publish_buffer_chunk S A c t g ik p chunk ttl ow)"
    "denied db Not (renew S A c t g ow)" "denied db (\<lambda>_. False) (activate_generation S A c t g)"
    "denied db (\<lambda>_. False) (release_grant S A c t)"
proof -
  show "denied db (\<lambda>_. False) (publish_buffer_chunk S A c t g ik p chunk ttl ow)"
    unfolding publish_buffer_chunk_def
    by (intro denied_validated, simp, intro denied_validated denied_eval[OF publish_script_runs[OF lease(2)]])
      (use stale in \<open>auto simp: current_publisher_def\<close>)
  show "denied db Not (renew S A c t g ow)"
    unfolding renew_def
    by (intro denied_validated, simp, intro denied_validated denied_eval[OF renew_script_runs[OF lease(1)]])
      (use stale in \<open>auto simp: current_publisher_def\<close>)
  show "denied db (\<lambda>_. False) (activate_generation S A c t g)"
    unfolding activate_generation_def
    by (intro denied_validated, simp, intro denied_eval[OF token_checks_runs(2)]) (use stale in auto)
  show "denied db (\<lambda>_. False) (release_grant S A c t)"
    unfolding release_grant_def
    by (intro denied_validated, simp, intro denied_eval[OF token_checks_runs(1)]) (use stale in auto)
qed

lemma publish_run:
  assumes ttl: "exact_seconds ttl"
    and run: "publish_buffer_chunk S A c t g ik p chunk ttl ow db = (Inr i, db')"
  shows "current_publisher db c t g ow"
    "\<exists>e. hfield db (grant_key c) ''epoch'' = Some e \<and> counter_at db ik = Some (i - 1) \<and> 1 \<le> i
      \<and> db' = published S ik p i chunk (e @ '':'' @ g) db"
    "valid_text c = Inr c" "valid_text t = Inr t" "valid_text g = Inr g" "valid_text p = Inr p" "connected A"
proof -
  from run show ok: "valid_text c = Inr c" "valid_text t = Inr t" "valid_text g = Inr g" "valid_text p = Inr p"
    unfolding publish_buffer_chunk_def by (auto dest!: validated_Inr)
  from run have ev: "authority_eval A
      (publish_chunk_script S (grant_key c) (generation_key c) ik (Some ow) t g p (dec ttl) chunk)
      published_index db = (Inr i, db')"
    unfolding publish_buffer_chunk_def by (auto dest!: validated_Inr)
  then show "connected A" by (auto simp: authority_eval_def split: if_splits)
  from authority_eval_success[OF publish_script_runs[OF ttl] ev] obtain y e n where
    "current_publisher db c t g ow" "hfield db (grant_key c) ''epoch'' = Some e" "counter_at db ik = Some n"
      "y = RInt (n + 1)" "db' = published S ik p (n + 1) chunk (e @ '':'' @ g) db" "published_index y = Inr i" by auto
  then show "current_publisher db c t g ow"
    "\<exists>e. hfield db (grant_key c) ''epoch'' = Some e \<and> counter_at db ik = Some (i - 1) \<and> 1 \<le> i
      \<and> db' = published S ik p i chunk (e @ '':'' @ g) db"
    by (auto simp: published_index_def split: if_splits)
qed

end

text \<open>
  C25. A superseded publisher is fenced: once a channel's grant does not carry its token any more,
  whether another worker acquired the channel or the grant expired, it can no longer publish, renew,
  activate a generation or release, and none of these calls changes the keyspace.
\<close>

theorem stale_token_fenced:
  assumes "redis_server S" "exact_seconds (lease_seconds A)" "exact_seconds ttl"
    "hfield db (grant_key c) ''token'' \<noteq> Some t"
  shows "denied db (\<lambda>_. False) (publish_buffer_chunk S A c t g ik p chunk ttl ow)
    \<and> denied db Not (renew S A c t g ow) \<and> denied db (\<lambda>_. False) (activate_generation S A c t g)
    \<and> denied db (\<lambda>_. False) (release_grant S A c t)"
  using redis_server.stale_calls_denied[OF assms] by simp

text \<open>
  Publication is fenced and numbered: a chunk is published only by the holder of the grant, under
  the active generation and the same worker as the channel's owner lease; it gets the next index and
  is stored, with the epoch and generation it was published under, in one step.
\<close>

theorem publication_fenced:
  assumes "redis_server S" "exact_seconds ttl"
    "publish_buffer_chunk S A c t g ik p chunk ttl ow db = (Inr i, db')"
  shows "current_publisher db c t g ow
    \<and> (\<exists>e. hfield db (grant_key c) ''epoch'' = Some e \<and> counter_at db ik = Some (i - 1) \<and> 1 \<le> i
      \<and> db' = published S ik p i chunk (e @ '':'' @ g) db)"
  using redis_server.publish_run[OF assms] by blast

subsection \<open>Reading\<close>

lemma append_sep_inject:
  "c \<notin> set x \<Longrightarrow> c \<notin> set y \<Longrightarrow> x @ c # u = y @ c # v \<longleftrightarrow> x = y \<and> u = v"
proof (induction x arbitrary: y)
  case Nil
  then show ?case by (cases y) auto
next
  case (Cons a x)
  then show ?case by (cases y) auto
qed

text \<open>A provenance text determines its epoch and its generation.\<close>

lemma provenance_inject: "dec e @ '':'' @ g = dec e' @ '':'' @ g' \<longleftrightarrow> e = e' \<and> g = g'"
  using append_sep_inject[OF dec_no_colon dec_no_colon, of e g e' g'] by simp

context redis_server
begin

lemma active_read_run:
  assumes "read_buffer_chunk_for_active_generation S A c e g p i db = (Inr (Some chunk), db')"
  shows "db' = db" "hfield db (grant_key c) ''epoch'' = Some (dec e)" "db (generation_key c) = Some (RStr g)"
    "db (p @ dec i @ '':provenance'') = Some (RStr (dec e @ '':'' @ g))" "db (p @ dec i) = Some (RStr chunk)"
proof -
  from assms have ev: "authority_eval A
      (read_active_chunk_script S (grant_key c) (generation_key c) (dec e) g p (dec i)) chunk_bytes db
      = (Inr (Some chunk), db')"
    unfolding read_buffer_chunk_for_active_generation_def by (auto dest!: validated_Inr)
  have nil: "chunk_bytes y \<noteq> Inr (Some chunk)" if "y = RNil" for y
    using that by (simp add: chunk_bytes_def)
  from authority_eval_success[OF active_read_runs ev nil] obtain y where
    *: "db' = db" "hfield db (grant_key c) ''epoch'' = Some (dec e)" "db (generation_key c) = Some (RStr g)"
      "db (p @ dec i @ '':provenance'') = Some (RStr (dec e @ '':'' @ g))"
    and y: "chunk_read db (p @ dec i) (Inr y)" "chunk_bytes y = Inr (Some chunk)" by blast
  show "db' = db" "hfield db (grant_key c) ''epoch'' = Some (dec e)" "db (generation_key c) = Some (RStr g)"
    "db (p @ dec i @ '':provenance'') = Some (RStr (dec e @ '':'' @ g))" by (rule *)+
  from y show "db (p @ dec i) = Some (RStr chunk)"
    by (auto simp: chunk_bytes_def chunk_read_def split: reply.splits)
qed

lemma published_reads:
  assumes ttl: "exact_seconds ttl" and media: "media_key ik" "media_key p" and i: "i < 10 ^ 14"
    and run: "publish_buffer_chunk S A c t g ik p chunk ttl ow db = (Inr i, db')"
    and e: "hfield db (grant_key c) ''epoch'' = Some e"
  shows "db' (p @ dec i) = Some (RStr chunk)" "db' (p @ dec i @ '':provenance'') = Some (RStr (e @ '':'' @ g))"
    "hfield db' (grant_key c) f = hfield db (grant_key c) f" "db' (generation_key c) = db (generation_key c)"
    "1 \<le> i" "\<And>k. k \<noteq> ik \<Longrightarrow> take (length p) k \<noteq> p \<Longrightarrow> db' k = db k"
proof -
  from publish_run(2)[OF ttl run] e have db': "1 \<le> i" "db' = published S ik p i chunk (e @ '':'' @ g) db" by auto
  then have eq: "db' = db(ik \<mapsto> RStr (dec i), p @ dec i \<mapsto> RStr chunk,
      p @ dec i @ '':provenance'' \<mapsto> RStr (e @ '':'' @ g))"
    using i by (simp add: published_def tostring_dec)
  show "db' (p @ dec i) = Some (RStr chunk)" "db' (p @ dec i @ '':provenance'') = Some (RStr (e @ '':'' @ g))"
    by (simp_all add: eq)
  have "media_key (p @ x)" for x using media(2) by simp
  then have "p @ x \<noteq> grant_key c" "p @ x \<noteq> generation_key c" for x
    using media_key_apart by metis+
  with media_key_apart[OF media(1), of c]
  show "hfield db' (grant_key c) f = hfield db (grant_key c) f" "db' (generation_key c) = db (generation_key c)"
    unfolding eq by (simp_all add: hfield_def not_sym)
  show "1 \<le> i" by (rule db'(1))
  fix k assume "k \<noteq> ik" "take (length p) k \<noteq> p"
  moreover have "k \<noteq> p @ x" for x using calculation(2) by auto
  ultimately show "db' k = db k" by (simp add: eq)
qed

end

text \<open>
  What a reader gets was published for it: a read under an epoch and a generation returns bytes
  only while both are current, exactly the bytes stored at that index, and only when the epoch and the
  generation stored with them are these two; it changes nothing.
\<close>

theorem active_read_provenance:
  assumes "redis_server S"
    "read_buffer_chunk_for_active_generation S A c e g p i db = (Inr (Some chunk), db')"
  shows "db' = db \<and> hfield db (grant_key c) ''epoch'' = Some (dec e) \<and> db (generation_key c) = Some (RStr g)
    \<and> db (p @ dec i) = Some (RStr chunk)
    \<and> (\<forall>e' g'. db (p @ dec i @ '':provenance'') = Some (RStr (dec e' @ '':'' @ g')) \<longleftrightarrow> e' = e \<and> g' = g)"
proof -
  note r = redis_server.active_read_run[OF assms]
  have "db (p @ dec i @ '':provenance'') = Some (RStr (dec e' @ '':'' @ g')) \<longleftrightarrow> e' = e \<and> g' = g" for e' g'
    using provenance_inject[of e g e' g'] unfolding r(4) by auto
  with r show ?thesis by simp
qed

text \<open>
  A published chunk can be read back: right after a successful publication, the publisher reading
  with its token and a reader naming the epoch and the generation both get exactly the bytes published.
\<close>

theorem published_chunk_readable:
  assumes "redis_server S" "exact_seconds ttl" "media_key ik" "media_key p" "i < 10 ^ 14"
    "publish_buffer_chunk S A c t g ik p chunk ttl ow db = (Inr i, db')"
    "hfield db (grant_key c) ''epoch'' = Some (dec e)" "1 \<le> e"
  shows "read_buffer_chunk_for_generation S A c t g p i db' = (Inr (Some chunk), db')
    \<and> read_buffer_chunk_for_active_generation S A c e g p i db' = (Inr (Some chunk), db')"
proof -
  note p = redis_server.published_reads[OF assms(1-7)]
  note ok = redis_server.publish_run[OF assms(1,2,6)]
  have now: "hfield db' (grant_key c) ''epoch'' = Some (dec e)" "db' (generation_key c) = Some (RStr g)"
    "hfield db' (grant_key c) ''token'' = Some t"
    using ok(1) assms(7) p(3,4) by (simp_all add: current_publisher_def)
  note scripts = redis_server.read_scripts_eval[OF assms(1) now(1,2) p(2,1)]
  have keys: "authority_keys c = Inr (grant_key c, epoch_key c, generation_key c)" using ok(3) by simp
  show ?thesis
    using scripts(1) scripts(2)[OF now(3)] assms(8) p(5) ok(4-7) keys
    by (simp add: read_buffer_chunk_for_generation_def read_buffer_chunk_for_active_generation_def
        validated_def authority_eval_def chunk_bytes_def del: valid_text_Inr authority_keys_Inr)
qed


subsection \<open>The unfenced publication\<close>

context redis_server
begin

lemma publish_chunk_denied: "denied db (\<lambda>_. False) (publish_chunk S A c t g chunk ttl)"
  unfolding publish_chunk_def
  by (intro denied_validated, simp, intro denied_eval[OF publish_without_owner]) auto

end

text \<open>
  C38. \<open>publish_chunk\<close> never publishes: it passes three keys to a script that reads a fourth, so for
  every grant, generation and chunk it raises and leaves the keyspace as it was.
\<close>

theorem publish_chunk_never_publishes:
  assumes "redis_server S"
  shows "denied db (\<lambda>_. False) (publish_chunk S A c t g chunk ttl)"
  by (rule redis_server.publish_chunk_denied[OF assms])


text \<open>
  A concrete run of the generation authority on the reference server: a grant, its generation and one
  published chunk, then the grant's expiry and a second acquisition; and the theorems of the
  authority applied to it.
\<close>

definition gen_authority :: authority where
  "gen_authority = \<lparr>connected = True, lease_seconds = 30\<rparr>"

definition gen_owner :: string where
  "gen_owner = channel_owner_key ''ch''"

definition gen_index :: string where
  "gen_index = ''live:channel:ch:input:buffer:index''"

definition gen_prefix :: string where
  "gen_prefix = ''live:channel:'' @ ''ch'' @ '':input:buffer:chunk:''"

definition gen0 :: keyspace where
  "gen0 = [gen_owner \<mapsto> RStr ''w'']"
definition gen1 :: keyspace where
  "gen1 = snd (acquire reference_server gen_authority ''t1'' ''ch'' ''w'' gen_owner gen0)"
definition gen2 :: keyspace where
  "gen2 = snd (activate_generation reference_server gen_authority ''ch'' ''t1'' ''g'' gen1)"
definition gen3 :: keyspace where
  "gen3 = snd (publish_buffer_chunk reference_server gen_authority ''ch'' ''t1'' ''g'' gen_index gen_prefix ''data'' 60
     gen_owner gen2)"
definition gen4 :: keyspace where
  "gen4 = gen3(grant_key ''ch'' := None)"

lemma gen_run: "fst x = v \<Longrightarrow> x = (v, snd x)"
  by auto

lemma run_acquire:
  "acquire reference_server gen_authority ''t1'' ''ch'' ''w'' gen_owner gen0
    = (Inr \<lparr>epoch = 1, grant_token = ''t1'', worker_id = ''w''\<rparr>, gen1)"
  unfolding gen1_def by (rule gen_run) code_simp

lemma run_activate: "activate_generation reference_server gen_authority ''ch'' ''t1'' ''g'' gen1 = (Inr (), gen2)"
  unfolding gen2_def by (rule gen_run) code_simp

lemma run_publish:
  "publish_buffer_chunk reference_server gen_authority ''ch'' ''t1'' ''g'' gen_index gen_prefix ''data'' 60 gen_owner gen2
    = (Inr 1, gen3)"
  unfolding gen3_def by (rule gen_run) code_simp

lemma run_reacquire:
  "acquire reference_server gen_authority ''t2'' ''ch'' ''w'' gen_owner gen4
    = (Inr \<lparr>epoch = 2, grant_token = ''t2'', worker_id = ''w''\<rparr>,
       snd (acquire reference_server gen_authority ''t2'' ''ch'' ''w'' gen_owner gen4))"
  by (rule gen_run) code_simp

lemma gen_bounds:
  "exact_seconds (lease_seconds gen_authority)" "exact_seconds 60" "media_key gen_index" "media_key gen_prefix"
  "gen_index \<noteq> channel_owner_key ''ch''" "(1::int) < 10 ^ 14"
  by (simp_all add: exact_seconds_def gen_authority_def media_key_def gen_index_def gen_prefix_def channel_owner_key_def)

lemma gen_fields:
  "hfield gen2 (grant_key ''ch'') ''epoch'' = Some (dec 1)" "hfield gen2 (grant_key ''ch'') ''worker'' = Some ''w''"
  "hfield gen2 (grant_key ''ch'') ''token'' \<noteq> Some ''t0''"
  by code_simp+

lemmas gen_server = reference.redis_server_axioms

theorem acquire_exclusive_witness:
  "counter_at gen0 (epoch_key ''ch'') = Some 0
    \<and> denied gen1 (\<lambda>_. False) (acquire reference_server gen_authority ''t2'' ''ch'' ''v'' gen_owner)"
  using acquire_exclusive[OF gen_server gen_bounds(1) gen_bounds(1) run_acquire] by simp

lemma gen_run4: "authority_run reference_server gen1 gen4"
proof -
  have 1: "authority_run reference_server gen1 gen1" by (rule authority_run.start)
  have 2: "authority_run reference_server gen1 gen2"
    by (rule authority_run.step[OF 1 authority_action.activate[OF run_activate]])
  have 3: "authority_run reference_server gen1 gen3"
    by (rule authority_run.step[OF 2 authority_action.publish[OF gen_bounds(2-4) run_publish]])
  show ?thesis
    by (rule authority_run.step[OF 3 authority_action.environment]) (simp add: gen4_def)
qed

theorem epochs_strictly_increase_witness:
  "epoch \<lparr>epoch = 1, grant_token = ''t1'', worker_id = ''w''\<rparr> < epoch \<lparr>epoch = 2, grant_token = ''t2'', worker_id = ''w''\<rparr>"
  by (rule epochs_strictly_increase[OF gen_server gen_bounds(1) gen_bounds(1) run_acquire gen_run4 run_reacquire])

theorem stale_token_fenced_witness:
  "denied gen2 (\<lambda>_. False) (publish_buffer_chunk reference_server gen_authority ''ch'' ''t0'' ''g'' gen_index gen_prefix
      ''data'' 60 gen_owner)
    \<and> denied gen2 Not (renew reference_server gen_authority ''ch'' ''t0'' ''g'' gen_owner)"
  using stale_token_fenced[OF gen_server gen_bounds(1,2) gen_fields(3)] by blast

theorem publication_fenced_witness:
  "current_publisher gen2 ''ch'' ''t1'' ''g'' gen_owner \<and> counter_at gen2 gen_index = Some 0"
  using publication_fenced[OF gen_server gen_bounds(2) run_publish] by auto

theorem published_chunk_readable_witness:
  "read_buffer_chunk_for_generation reference_server gen_authority ''ch'' ''t1'' ''g'' gen_prefix 1 gen3 = (Inr (Some ''data''), gen3)
    \<and> read_buffer_chunk_for_active_generation reference_server gen_authority ''ch'' 1 ''g'' gen_prefix 1 gen3
      = (Inr (Some ''data''), gen3)"
  by (rule published_chunk_readable[OF gen_server gen_bounds(2-4,6) run_publish gen_fields(1)]) simp

lemma run_read:
  "read_buffer_chunk_for_active_generation reference_server gen_authority ''ch'' 1 ''g'' gen_prefix 1 gen3
    = (Inr (Some ''data''), snd (read_buffer_chunk_for_active_generation reference_server gen_authority ''ch'' 1 ''g'' gen_prefix 1 gen3))"
  by (rule gen_run) code_simp

theorem active_read_provenance_witness:
  "gen3 (gen_prefix @ dec 1) = Some (RStr ''data'')
    \<and> gen3 (gen_prefix @ dec 1 @ '':provenance'') = Some (RStr (dec 1 @ '':'' @ ''g''))"
  using active_read_provenance[OF gen_server run_read] by blast


theorem publish_chunk_never_publishes_witness:
  "denied gen2 (\<lambda>_. False) (publish_chunk reference_server gen_authority ''ch'' ''t1'' ''g'' ''data'' 60)"
  by (rule publish_chunk_never_publishes[OF gen_server])

end
