(* ===== verification/Channel_Bindings.thy ===== *)
theory Channel_Bindings
  imports Durable_State
begin

text \<open>
  The durable binding of Atlas channels to Dispatcharr channels
  (\<open>modules/sports/src/dispatcharr_channel_bindings.py\<close>): one JSON file with, per Atlas channel, the
  Dispatcharr id and UUID, and the history of every UUID that was ever managed. The live proxy routes a
  channel by this history, so a UUID must never drop out of it. As for the other registries an operation
  is one step on the file; a symbolic link, an I/O error and text that is not JSON (a repeated object
  key included) are the content \<open>Unreadable\<close>, and the exclusive lock makes the step atomic.
\<close>

subsection \<open>Data\<close>

datatype binding_exn = DispatcharrChannelBindingError

record channel_row =
  row_channel_id :: int
  row_channel_uuid :: string

type_synonym channel_rows = "(string \<times> channel_row) list"

text \<open>A loaded document; \<open>managed_uuids\<close> is absent from legacy documents.\<close>

record channel_document =
  doc_version :: int
  doc_bindings :: channel_rows
  doc_managed :: "string list option"

record channel_binding =
  atlas_channel_id :: string
  dispatcharr_channel_id :: int
  dispatcharr_channel_uuid :: string

definition BINDING_STATE_VERSION :: int where
  "BINDING_STATE_VERSION = 2"

definition BINDING_LEGACY_VERSION :: int where
  "BINDING_LEGACY_VERSION = 1"

subsection \<open>Validation\<close>

abbreviation binding_error :: "binding_exn + 'a" where
  "binding_error \<equiv> Inl DispatcharrChannelBindingError"

fun channel_identifier :: "pyval \<Rightarrow> binding_exn + string" where
  "channel_identifier (PStr value) =
     (let normalized = strip value
      in if normalized = [] \<or> length normalized > 256
            \<or> list_ex (\<lambda>c. (of_char c :: nat) < 32) normalized
         then binding_error else Inr normalized)"
| "channel_identifier _ = binding_error"

definition positive_identifier :: "pyval \<Rightarrow> binding_exn + int" where
  "positive_identifier v = (if int_at_least 1 v then Inr (int_value v) else binding_error)"

definition canonical_channel_uuid :: "pyval \<Rightarrow> binding_exn + string" where
  "canonical_channel_uuid v =
     rbind (channel_identifier v) (\<lambda>u. if canonical_uuid u then Inr u else binding_error)"

subsection \<open>Reading the state\<close>

definition read_channel_row :: "bool \<Rightarrow> pyval \<Rightarrow> binding_exn + channel_row" where
  "read_channel_row current entry =
     (case entry of
        PDict e \<Rightarrow>
          if set (map fst e) \<noteq> {''dispatcharr_channel_id'', ''dispatcharr_channel_uuid''} then binding_error
          else
            rbind (positive_identifier (dict_value e ''dispatcharr_channel_id'')) (\<lambda>i.
            rbind ((if current then canonical_channel_uuid else channel_identifier)
                     (dict_value e ''dispatcharr_channel_uuid'')) (\<lambda>u.
              Inr \<lparr>row_channel_id = i, row_channel_uuid = u\<rparr>))
      | _ \<Rightarrow> binding_error)"

text \<open>The loop over the entries, with the Dispatcharr ids and UUIDs seen so far.\<close>

fun read_channel_rows ::
  "bool \<Rightarrow> (string \<times> pyval) list \<Rightarrow> int list \<Rightarrow> string list \<Rightarrow> channel_rows
   \<Rightarrow> binding_exn + channel_rows \<times> string list" where
  "read_channel_rows current [] ids uuids normalized = Inr (normalized, uuids)"
| "read_channel_rows current ((k, entry) # rest) ids uuids normalized =
     rbind (channel_identifier (PStr k)) (\<lambda>a.
     rbind (read_channel_row current entry) (\<lambda>r.
       if row_channel_id r \<in> set ids then binding_error
       else if row_channel_uuid r \<in> set uuids then binding_error
       else read_channel_rows current rest (row_channel_id r # ids) (row_channel_uuid r # uuids)
              (AList.update a r normalized)))"

fun string_items :: "pyval list \<Rightarrow> string list" where
  "string_items [] = []"
| "string_items (PStr s # vs) = s # string_items vs"
| "string_items (v # vs) = string_items vs"

definition read_managed_history :: "string list \<Rightarrow> pyval \<Rightarrow> binding_exn + string list" where
  "read_managed_history uuids v =
     (case v of
        PList items \<Rightarrow>
          let ss = string_items items in
          if length items \<noteq> length (remdups ss)
             \<or> list_ex (\<lambda>s. strip s = [] \<or> length s > 256) ss
             \<or> \<not> set uuids \<subseteq> set ss
             \<or> list_ex (\<lambda>s. canonical_channel_uuid (PStr s) = binding_error) ss
          then binding_error else Inr (sort ss)
      | _ \<Rightarrow> binding_error)"

definition document_fields :: "bool \<Rightarrow> string set" where
  "document_fields current = {''version'', ''bindings''} \<union> (if current then {''managed_uuids''} else {})"

definition normalize_bindings :: "pyval \<Rightarrow> binding_exn + channel_document" where
  "normalize_bindings payload =
     (case payload of
        PDict p \<Rightarrow>
          (case dict_value p ''version'' of
             PInt v \<Rightarrow>
               let current = (v = BINDING_STATE_VERSION) in
               if set (map fst p) \<noteq> document_fields current
                  \<or> v \<notin> {BINDING_STATE_VERSION, BINDING_LEGACY_VERSION} then binding_error
               else (case dict_value p ''bindings'' of
                  PDict items \<Rightarrow>
                    rbind (read_channel_rows current items [] [] []) (\<lambda>(rows, uuids).
                      if current then
                        rbind (read_managed_history uuids (dict_value p ''managed_uuids'')) (\<lambda>m.
                          Inr \<lparr>doc_version = v, doc_bindings = rows, doc_managed = Some m\<rparr>)
                      else Inr \<lparr>doc_version = v, doc_bindings = rows, doc_managed = None\<rparr>)
                | _ \<Rightarrow> binding_error)
           | _ \<Rightarrow> binding_error)
      | _ \<Rightarrow> binding_error)"

definition empty_bindings :: channel_document where
  "empty_bindings = \<lparr>doc_version = BINDING_STATE_VERSION, doc_bindings = [], doc_managed = Some []\<rparr>"

fun load_bindings :: "state_file \<Rightarrow> binding_exn + channel_document" where
  "load_bindings Absent = Inr empty_bindings"
| "load_bindings Unreadable = binding_error"
| "load_bindings (Document payload) = normalize_bindings payload"

definition encode_channel_row :: "channel_row \<Rightarrow> pyval" where
  "encode_channel_row r =
     PDict [(''dispatcharr_channel_id'', PInt (row_channel_id r)),
            (''dispatcharr_channel_uuid'', PStr (row_channel_uuid r))]"

definition write_bindings :: "channel_document \<Rightarrow> state_file" where
  "write_bindings d =
     Document (PDict
       ([(''bindings'', PDict (map (\<lambda>(k, r). (k, encode_channel_row r)) (sorted_items (doc_bindings d))))]
        @ (case doc_managed d of None \<Rightarrow> [] | Some m \<Rightarrow> [(''managed_uuids'', PList (map PStr m))])
        @ [(''version'', PInt (doc_version d))]))"

subsection \<open>Operations\<close>

definition history :: "channel_document \<Rightarrow> string list" where
  "history d = (case doc_managed d of None \<Rightarrow> [] | Some m \<Rightarrow> m)"

text \<open>Mutations and classification refuse a document that still has the legacy version.\<close>

definition load_current :: "state_file \<Rightarrow> binding_exn + channel_document" where
  "load_current f =
     rbind (load_bindings f) (\<lambda>d. if doc_version d \<noteq> BINDING_STATE_VERSION then binding_error else Inr d)"

definition classify_channel_uuid :: "pyval \<Rightarrow> state_file \<Rightarrow> binding_exn + bool" where
  "classify_channel_uuid uuid_arg f =
     rbind (channel_identifier uuid_arg) (\<lambda>u.
     rbind (load_current f) (\<lambda>d.
       let matches = length (filter (\<lambda>(_, r). row_channel_uuid r = u) (doc_bindings d));
           in_history = (u \<in> set (history d))
       in if matches > 1 \<or> in_history \<noteq> (matches = 1) then binding_error else Inr (matches = 1)))"

definition managed_history_contains :: "pyval \<Rightarrow> state_file \<Rightarrow> binding_exn + bool" where
  "managed_history_contains uuid_arg f =
     rbind (channel_identifier uuid_arg) (\<lambda>u. rbind (load_current f) (\<lambda>d. Inr (u \<in> set (history d))))"

fun canonical_uuids :: "string list \<Rightarrow> binding_exn + string list" where
  "canonical_uuids [] = Inr []"
| "canonical_uuids (u # us) =
     rbind (canonical_channel_uuid (PStr u)) (\<lambda>c. rbind (canonical_uuids us) (\<lambda>cs. Inr (c # cs)))"

definition migrate_managed_history :: "state_file \<Rightarrow> (binding_exn + unit) \<times> state_file" where
  "migrate_managed_history f =
     (if f = Absent then (binding_error, f)
      else (case load_bindings f of
          Inl e \<Rightarrow> (Inl e, f)
        | Inr d \<Rightarrow>
            if doc_version d = BINDING_STATE_VERSION then (Inr (), f)
            else (case canonical_uuids (map (row_channel_uuid \<circ> snd) (doc_bindings d)) of
                Inl e \<Rightarrow> (Inl e, f)
              | Inr us \<Rightarrow>
                  (Inr (), write_bindings
                     (d\<lparr>doc_managed := Some (sort us), doc_version := BINDING_STATE_VERSION\<rparr>)))))"

definition ensure_bindings :: "state_file \<Rightarrow> (binding_exn + unit) \<times> state_file" where
  "ensure_bindings f =
     (if f = Absent then (Inr (), write_bindings empty_bindings)
      else (case load_bindings f of Inl e \<Rightarrow> (Inl e, f) | Inr _ \<Rightarrow> (Inr (), f)))"

definition binding_of :: "string \<Rightarrow> channel_row \<Rightarrow> channel_binding" where
  "binding_of a r =
     \<lparr>atlas_channel_id = a, dispatcharr_channel_id = row_channel_id r,
      dispatcharr_channel_uuid = row_channel_uuid r\<rparr>"

definition list_bindings :: "state_file \<Rightarrow> binding_exn + channel_binding list" where
  "list_bindings f =
     rbind (load_bindings f) (\<lambda>d. Inr (map (\<lambda>(a, r). binding_of a r) (sorted_items (doc_bindings d))))"

definition resolve_binding :: "pyval \<Rightarrow> state_file \<Rightarrow> binding_exn + channel_binding option" where
  "resolve_binding atlas_arg f =
     rbind (channel_identifier atlas_arg) (\<lambda>a.
     rbind (load_bindings f) (\<lambda>d. Inr (map_option (binding_of a) (map_of (doc_bindings d) a))))"

definition binding_args :: "pyval \<Rightarrow> pyval \<Rightarrow> pyval \<Rightarrow> binding_exn + string \<times> channel_row" where
  "binding_args atlas_arg id_arg uuid_arg =
     rbind (channel_identifier atlas_arg) (\<lambda>a.
     rbind (positive_identifier id_arg) (\<lambda>i.
     rbind (canonical_channel_uuid uuid_arg) (\<lambda>u.
       Inr (a, \<lparr>row_channel_id = i, row_channel_uuid = u\<rparr>))))"

text \<open>Another Atlas channel already has this Dispatcharr id or UUID.\<close>

definition bound_elsewhere :: "channel_rows \<Rightarrow> string \<Rightarrow> channel_row \<Rightarrow> bool" where
  "bound_elsewhere rows a r \<longleftrightarrow>
     list_ex (\<lambda>(b, q). b \<noteq> a \<and> (row_channel_id q = row_channel_id r
                               \<or> row_channel_uuid q = row_channel_uuid r)) rows"

definition remember_uuid :: "string \<Rightarrow> channel_document \<Rightarrow> channel_document" where
  "remember_uuid u d =
     (if u \<in> set (history d) then d else d\<lparr>doc_managed := Some (sort (history d @ [u]))\<rparr>)"

definition set_binding ::
  "pyval \<Rightarrow> pyval \<Rightarrow> pyval \<Rightarrow> state_file \<Rightarrow> (binding_exn + channel_binding) \<times> state_file" where
  "set_binding atlas_arg id_arg uuid_arg f =
     (case rbind (binding_args atlas_arg id_arg uuid_arg) (\<lambda>(a, r).
           rbind (load_current f) (\<lambda>d.
             if bound_elsewhere (doc_bindings d) a r then binding_error
             else Inr (a, r, remember_uuid (row_channel_uuid r)
                               (d\<lparr>doc_bindings := AList.update a r (doc_bindings d)\<rparr>))))
      of Inl e \<Rightarrow> (Inl e, f)
       | Inr (a, r, d) \<Rightarrow> (Inr (binding_of a r), write_bindings d))"

definition delete_binding :: "pyval \<Rightarrow> state_file \<Rightarrow> (binding_exn + bool) \<times> state_file" where
  "delete_binding atlas_arg f =
     (case rbind (channel_identifier atlas_arg) (\<lambda>a. rbind (load_current f) (\<lambda>d. Inr (a, d)))
      of Inl e \<Rightarrow> (Inl e, f)
       | Inr (a, d) \<Rightarrow>
           if a \<notin> set (map fst (doc_bindings d)) then (Inr False, f)
           else (Inr True, write_bindings (d\<lparr>doc_bindings := AList.delete a (doc_bindings d)\<rparr>)))"

end
