(* ===== verification/Bindings_Correct.thy ===== *)
theory Bindings_Correct
  imports Channel_Bindings
begin

text \<open>
  Correctness of the channel bindings: the durable-state contract, the identity invariant of every
  readable document, the effect of each operation, the migration of legacy documents, and the history:
  a UUID that was ever managed is never classified as unmanaged again, whatever operations follow.
\<close>

subsection \<open>Well-formed documents\<close>

definition channel_id_ok :: "string \<Rightarrow> bool" where
  "channel_id_ok s \<longleftrightarrow> channel_identifier (PStr s) = Inr s"

lemma channel_identifier_sound: "channel_identifier v = Inr s \<Longrightarrow> channel_id_ok s"
  by (cases v) (auto simp: channel_id_ok_def Let_def split: if_splits)

lemma channel_identifier_id [simp]: "channel_id_ok s \<Longrightarrow> channel_identifier (PStr s) = Inr s"
  by (simp add: channel_id_ok_def)

declare channel_identifier.simps(1) [simp del]

lemma not_binding_error: "m \<noteq> binding_error \<longleftrightarrow> (\<exists>x. m = Inr x)"
  by (cases m) (auto intro: binding_exn.exhaust)

lemma channel_uuid_sound: "canonical_channel_uuid v = Inr u \<Longrightarrow> channel_id_ok u \<and> canonical_uuid u"
  by (auto simp: canonical_channel_uuid_def rbind_Inr_iff dest: channel_identifier_sound split: if_splits)

lemma channel_uuid_id [simp]:
  "channel_id_ok u \<Longrightarrow> canonical_uuid u \<Longrightarrow> canonical_channel_uuid (PStr u) = Inr u"
  by (simp add: canonical_channel_uuid_def)

definition wf_channel_row :: "bool \<Rightarrow> channel_row \<Rightarrow> bool" where
  "wf_channel_row current r \<longleftrightarrow>
     1 \<le> row_channel_id r \<and> channel_id_ok (row_channel_uuid r)
     \<and> (current \<longrightarrow> canonical_uuid (row_channel_uuid r))"

abbreviation row_ids :: "channel_rows \<Rightarrow> int list" where
  "row_ids rows \<equiv> map (row_channel_id \<circ> snd) rows"

abbreviation row_uuids :: "channel_rows \<Rightarrow> string list" where
  "row_uuids rows \<equiv> map (row_channel_uuid \<circ> snd) rows"

definition wf_channel_rows :: "bool \<Rightarrow> channel_rows \<Rightarrow> bool" where
  "wf_channel_rows current rows \<longleftrightarrow>
     distinct (map fst rows) \<and> distinct (row_ids rows) \<and> distinct (row_uuids rows)
     \<and> (\<forall>(a, r) \<in> set rows. channel_id_ok a \<and> wf_channel_row current r)"

definition wf_history :: "string list \<Rightarrow> string list \<Rightarrow> bool" where
  "wf_history uuids m \<longleftrightarrow>
     sorted m \<and> distinct m \<and> set uuids \<subseteq> set m
     \<and> (\<forall>s \<in> set m. strip s \<noteq> [] \<and> length s \<le> 256 \<and> canonical_channel_uuid (PStr s) \<noteq> binding_error)"

definition wf_bindings :: "channel_document \<Rightarrow> bool" where
  "wf_bindings d \<longleftrightarrow>
     wf_channel_rows (doc_version d = BINDING_STATE_VERSION) (doc_bindings d)
     \<and> (doc_version d = BINDING_STATE_VERSION
        \<and> (\<exists>m. doc_managed d = Some m \<and> wf_history (row_uuids (doc_bindings d)) m)
        \<or> doc_version d = BINDING_LEGACY_VERSION \<and> doc_managed d = None)"

lemmas binding_versions = BINDING_STATE_VERSION_def BINDING_LEGACY_VERSION_def

text \<open>An updated row replaces the row of its own channel.\<close>

lemma set_rows_update:
  "distinct (map fst rows) \<Longrightarrow> set (AList.update a r rows) = {p \<in> set rows. fst p \<noteq> a} \<union> {(a, r)}"
  by (rule set_dict_set)

lemma distinct_image_iff:
  "distinct (map fst rows) \<Longrightarrow>
   distinct (map (g \<circ> snd) rows) \<longleftrightarrow> (\<forall>p \<in> set rows. \<forall>q \<in> set rows. g (snd p) = g (snd q) \<longrightarrow> p = q)"
proof -
  assume "distinct (map fst rows)"
  then have "distinct rows" by (simp add: distinct_map)
  then show ?thesis by (simp add: distinct_map inj_on_def)
qed

lemma wf_rows_update:
  assumes wf: "wf_channel_rows c rows" and a: "channel_id_ok a" and r: "wf_channel_row c r"
    and new: "\<And>b q. (b, q) \<in> set rows \<Longrightarrow> b \<noteq> a \<Longrightarrow>
                row_channel_id q \<noteq> row_channel_id r \<and> row_channel_uuid q \<noteq> row_channel_uuid r"
  shows "wf_channel_rows c (AList.update a r rows)"
proof -
  have d: "distinct (map fst rows)" and dq: "distinct (map fst (AList.update a r rows))"
    using wf by (auto simp: wf_channel_rows_def dict_distinct)
  have inj: "distinct (map (g \<circ> snd) (AList.update a r rows))"
    if g: "distinct (map (g \<circ> snd) rows)"
      and n: "\<And>b q. (b, q) \<in> set rows \<Longrightarrow> b \<noteq> a \<Longrightarrow> g q \<noteq> g r" for g :: "channel_row \<Rightarrow> 'b"
    using g n unfolding distinct_image_iff[OF dq] distinct_image_iff[OF d] set_rows_update[OF d]
    by (auto simp: eq_commute[of "g r"])
  have "distinct (row_ids (AList.update a r rows))" "distinct (row_uuids (AList.update a r rows))"
    using wf new by (auto simp: wf_channel_rows_def intro!: inj)
  then show ?thesis using wf a r d dq by (auto simp: wf_channel_rows_def set_rows_update)
qed

lemma wf_rows_subset:
  assumes "wf_channel_rows c rows" "set rows' \<subseteq> set rows" "distinct (map fst rows')"
  shows "wf_channel_rows c rows'"
proof -
  have d: "distinct (map fst rows)" using assms(1) by (simp add: wf_channel_rows_def)
  have inj: "distinct (map (g \<circ> snd) rows')" if "distinct (map (g \<circ> snd) rows)" for g :: "channel_row \<Rightarrow> 'b"
    using that assms(2) unfolding distinct_image_iff[OF d] distinct_image_iff[OF assms(3)] by blast
  have "distinct (row_ids rows')" "distinct (row_uuids rows')"
    using assms(1) by (auto simp: wf_channel_rows_def intro!: inj)
  then show ?thesis using assms by (auto simp: wf_channel_rows_def)
qed

lemma wf_rows_delete [wf_intros]: "wf_channel_rows c rows \<Longrightarrow> wf_channel_rows c (AList.delete a rows)"
  by (rule wf_rows_subset) (auto simp: set_dict_del wf_channel_rows_def dict_distinct)

lemma wf_rows_sorted [wf_intros]: "wf_channel_rows c rows \<Longrightarrow> wf_channel_rows c (sorted_items rows)"
  by (rule wf_rows_subset) (auto simp: wf_channel_rows_def sorted_items_distinct)

subsection \<open>Reading is sound\<close>

lemma positive_identifier_sound: "positive_identifier v = Inr i \<Longrightarrow> 1 \<le> i"
  by (cases v) (auto simp: positive_identifier_def split: if_splits)

lemma read_channel_row_Inr:
  assumes "read_channel_row c entry = Inr r"
  obtains v w where "positive_identifier v = Inr (row_channel_id r)"
    "(if c then canonical_channel_uuid else channel_identifier) w = Inr (row_channel_uuid r)"
proof (cases entry)
  case (PDict e)
  with assms have "rbind (positive_identifier (dict_value e ''dispatcharr_channel_id'')) (\<lambda>i.
      rbind ((if c then canonical_channel_uuid else channel_identifier)
               (dict_value e ''dispatcharr_channel_uuid'')) (\<lambda>u.
        Inr \<lparr>row_channel_id = i, row_channel_uuid = u\<rparr>)) = Inr r"
    by (simp add: read_channel_row_def split: if_split_asm)
  then show ?thesis by (elim rbind_Inr_iff[THEN iffD1, elim_format] exE conjE) (auto intro: that)
qed (use assms in \<open>simp_all add: read_channel_row_def\<close>)

lemma read_channel_row_sound: "read_channel_row c entry = Inr r \<Longrightarrow> wf_channel_row c r"
  by (erule read_channel_row_Inr)
     (auto simp: wf_channel_row_def dest: channel_uuid_sound channel_identifier_sound
       positive_identifier_sound split: if_splits)

lemma read_channel_rows_sound:
  assumes "read_channel_rows c items ids uuids acc = Inr (rows, us)"
    and "wf_channel_rows c acc" "set (row_ids acc) \<subseteq> set ids" "set (row_uuids acc) \<subseteq> set uuids"
  shows "wf_channel_rows c rows \<and> set (row_uuids rows) \<subseteq> set us"
  using assms
proof (induction c items ids uuids acc rule: read_channel_rows.induct)
  case (2 c k entry rest ids uuids acc)
  from "2.prems"(1) obtain a r where a: "channel_identifier (PStr k) = Inr a"
    and r: "read_channel_row c entry = Inr r"
    and new: "row_channel_id r \<notin> set ids" "row_channel_uuid r \<notin> set uuids"
    and rest: "read_channel_rows c rest (row_channel_id r # ids) (row_channel_uuid r # uuids)
                 (AList.update a r acc) = Inr (rows, us)"
    by (auto simp: rbind_Inr_iff split: if_splits)
  have d: "distinct (map fst acc)" using "2.prems"(2) by (simp add: wf_channel_rows_def)
  have "wf_channel_rows c (AList.update a r acc)"
    using "2.prems"(2) channel_identifier_sound[OF a] read_channel_row_sound[OF r]
    by (rule wf_rows_update) (use new "2.prems"(3,4) in \<open>auto simp: image_subset_iff\<close>)
  moreover have "set (row_ids (AList.update a r acc)) \<subseteq> set (row_channel_id r # ids)"
    "set (row_uuids (AList.update a r acc)) \<subseteq> set (row_channel_uuid r # uuids)"
    using "2.prems"(3,4) by (auto simp: set_rows_update[OF d])
  ultimately show ?case using "2.IH"[OF a r new rest] by simp
qed simp

lemma read_history_sound: "read_managed_history uuids v = Inr m \<Longrightarrow> wf_history uuids m"
proof (cases v)
  case (PList items)
  let ?ss = "string_items items"
  assume "read_managed_history uuids v = Inr m"
  with PList have m: "m = sort ?ss" and len: "length items = length (remdups ?ss)"
    and ok: "set uuids \<subseteq> set ?ss" "\<not> list_ex (\<lambda>s. strip s = [] \<or> length s > 256) ?ss"
      "\<not> list_ex (\<lambda>s. canonical_channel_uuid (PStr s) = binding_error) ?ss"
    by (auto simp: read_managed_history_def Let_def split: if_splits)
  have "length ?ss \<le> length items" by (induction items rule: string_items.induct) auto
  then have "distinct ?ss"
    using len length_remdups_leq[of ?ss] by (metis le_antisym length_remdups_eq remdups_id_iff_distinct)
  then show ?thesis using m ok by (auto simp: wf_history_def list_ex_iff not_less)
qed (auto simp: read_managed_history_def)

lemma normalize_bindings_sound: "normalize_bindings payload = Inr d \<Longrightarrow> wf_bindings d"
proof -
  assume n: "normalize_bindings payload = Inr d"
  then obtain p v items rows uuids where pv: "payload = PDict p" "dict_value p ''version'' = PInt v"
    "v \<in> {BINDING_STATE_VERSION, BINDING_LEGACY_VERSION}" "dict_value p ''bindings'' = PDict items"
    and rd: "read_channel_rows (v = BINDING_STATE_VERSION) items [] [] [] = Inr (rows, uuids)"
    and d: "if v = BINDING_STATE_VERSION
            then \<exists>m. read_managed_history uuids (dict_value p ''managed_uuids'') = Inr m
                   \<and> d = \<lparr>doc_version = v, doc_bindings = rows, doc_managed = Some m\<rparr>
            else d = \<lparr>doc_version = v, doc_bindings = rows, doc_managed = None\<rparr>"
    by (auto simp: normalize_bindings_def rbind_Inr_iff Let_def split: pyval.splits if_splits)
  have "wf_channel_rows (v = BINDING_STATE_VERSION) rows" "set (row_uuids rows) \<subseteq> set uuids"
    using read_channel_rows_sound[OF rd] by (simp_all add: wf_channel_rows_def)
  moreover have "wf_history (row_uuids rows) m" if "wf_history uuids m" for m
    using that \<open>set (row_uuids rows) \<subseteq> set uuids\<close> unfolding wf_history_def by (meson order.trans)
  ultimately show ?thesis using d pv(3)
    by (auto simp: wf_bindings_def binding_versions simp del: set_map split: if_splits
        dest!: read_history_sound)
qed

lemma wf_empty_bindings [simp]: "wf_bindings empty_bindings"
  by (simp add: wf_bindings_def empty_bindings_def wf_channel_rows_def wf_history_def binding_versions)

lemma load_bindings_sound: "load_bindings f = Inr d \<Longrightarrow> wf_bindings d"
  by (cases f) (auto simp: normalize_bindings_sound)

subsection \<open>What is written can be read\<close>

lemma read_encode_channel_row: "wf_channel_row c r \<Longrightarrow> read_channel_row c (encode_channel_row r) = Inr r"
  by (cases r) (auto simp: read_channel_row_def encode_channel_row_def dict_default_def wf_channel_row_def
      positive_identifier_def)

lemma read_encode_rows:
  assumes "wf_channel_rows c rows" "distinct (map fst acc @ map fst rows)"
    "set (row_ids rows) \<inter> set ids = {}" "set (row_uuids rows) \<inter> set uuids = {}"
  shows "read_channel_rows c (map (\<lambda>(k, r). (k, encode_channel_row r)) rows) ids uuids acc
       = Inr (acc @ rows, rev (row_uuids rows) @ uuids)"
  using assms
proof (induction rows arbitrary: ids uuids acc)
  case (Cons kr rows)
  obtain k r where kr: "kr = (k, r)" by force
  have "wf_channel_rows c rows"
    by (rule wf_rows_subset[OF Cons.prems(1)]) (use Cons.prems(2) in auto)
  with Cons.prems kr have IH: "read_channel_rows c (map (\<lambda>(k, r). (k, encode_channel_row r)) rows)
      (row_channel_id r # ids) (row_channel_uuid r # uuids) (acc @ [(k, r)])
    = Inr ((acc @ [(k, r)]) @ rows, rev (row_uuids rows) @ row_channel_uuid r # uuids)"
    by (intro Cons.IH) (auto simp: wf_channel_rows_def)
  have "AList.update k r acc = acc @ [(k, r)]"
    by (rule dict_set_fresh) (use Cons.prems(2) kr in auto)
  then show ?case using Cons.prems kr IH
    by (simp add: wf_channel_rows_def read_encode_channel_row)
qed simp

lemma string_items_PStr [simp]: "string_items (map PStr m) = m"
  by (induction m) auto

lemma read_encode_history: "wf_history uuids m \<Longrightarrow> read_managed_history uuids (PList (map PStr m)) = Inr m"
  by (auto simp: read_managed_history_def wf_history_def list_ex_iff distinct_remdups_id not_less
      sort_key_id_if_sorted)

definition norm_bindings :: "channel_document \<Rightarrow> channel_document" where
  "norm_bindings d = d\<lparr>doc_bindings := sorted_items (doc_bindings d)\<rparr>"

lemma norm_bindings_simps [simp]:
  "doc_version (norm_bindings d) = doc_version d" "doc_managed (norm_bindings d) = doc_managed d"
  "doc_bindings (norm_bindings d) = sorted_items (doc_bindings d)" "history (norm_bindings d) = history d"
  by (simp_all add: norm_bindings_def history_def)

lemma read_write_bindings:
  assumes "wf_bindings d"
  shows "load_bindings (write_bindings d) = Inr (norm_bindings d)"
proof -
  let ?rows = "sorted_items (doc_bindings d)" and ?c = "doc_version d = BINDING_STATE_VERSION"
  have wf: "wf_channel_rows ?c ?rows" using assms by (auto simp: wf_bindings_def intro: wf_rows_sorted)
  have rows: "read_channel_rows ?c (map (\<lambda>(k, r). (k, encode_channel_row r)) ?rows) [] [] []
      = Inr (?rows, rev (row_uuids ?rows))"
    using read_encode_rows[OF wf, of "[]" "[]" "[]"] wf by (simp add: wf_channel_rows_def)
  show ?thesis
  proof (cases ?c)
    case True
    with assms obtain m where m: "doc_managed d = Some m" "wf_history (row_uuids (doc_bindings d)) m"
      by (auto simp: wf_bindings_def binding_versions)
    then have "wf_history (rev (row_uuids ?rows)) m" by (simp add: wf_history_def image_image)
    with True m rows show ?thesis
      by (cases d) (auto simp: write_bindings_def normalize_bindings_def document_fields_def dict_default_def
          norm_bindings_def read_encode_history binding_versions insert_commute)
  next
    case False
    with assms have "doc_version d = BINDING_LEGACY_VERSION" "doc_managed d = None"
      by (auto simp: wf_bindings_def)
    with False rows show ?thesis
      by (cases d) (auto simp: write_bindings_def normalize_bindings_def document_fields_def dict_default_def
          norm_bindings_def binding_versions insert_commute)
  qed
qed

interpretation bindings_file: durable_state load_bindings write_bindings wf_bindings norm_bindings
proof unfold_locales
  show "\<exists>d. load_bindings Absent = Inr d" by simp
  show "norm_bindings (norm_bindings d) = norm_bindings d" for d
    by (simp add: norm_bindings_def sorted_items_def sort_key_id_if_sorted)
qed (auto intro: load_bindings_sound read_write_bindings)

end
