(* ===== verification/Bindings_Safety.thy ===== *)
theory Bindings_Safety
  imports Bindings_Correct
begin

text \<open>
  The operations on the channel bindings: what each one does to a readable file, the reachable files,
  and the managed history under any sequence of operations.
\<close>

subsection \<open>Current documents\<close>

lemma length_filter_eq:
  "distinct xs \<Longrightarrow> length (filter (\<lambda>x. x = u) xs) = (if u \<in> set xs then 1 else 0)"
  by (induction xs) auto

lemma load_current_Inr:
  assumes "load_current f = Inr d"
  shows "load_bindings f = Inr d" "wf_bindings d" "doc_version d = BINDING_STATE_VERSION"
    "wf_channel_rows True (doc_bindings d)" "wf_history (row_uuids (doc_bindings d)) (history d)"
    "doc_managed d = Some (history d)"
proof -
  from assms show l: "load_bindings f = Inr d" and v: "doc_version d = BINDING_STATE_VERSION"
    by (auto simp: load_current_def rbind_Inr_iff split: if_splits)
  from l show w: "wf_bindings d" by (rule load_bindings_sound)
  show "wf_channel_rows True (doc_bindings d)" "wf_history (row_uuids (doc_bindings d)) (history d)"
    "doc_managed d = Some (history d)"
    using w v by (auto simp: wf_bindings_def history_def binding_versions simp del: set_map)
qed

lemma load_current_written:
  assumes "wf_bindings d" "doc_version d = BINDING_STATE_VERSION"
  shows "load_current (write_bindings d) = Inr (norm_bindings d)"
  using assms by (simp add: load_current_def read_write_bindings)

lemma classify_current:
  assumes "load_current f = Inr d" "channel_identifier v = Inr u"
  shows "classify_channel_uuid v f =
    (if (u \<in> set (history d)) = (u \<in> set (row_uuids (doc_bindings d)))
     then Inr (u \<in> set (row_uuids (doc_bindings d))) else binding_error)"
proof -
  let ?us = "row_uuids (doc_bindings d)"
  have "distinct ?us" using load_current_Inr(4)[OF assms(1)] by (simp add: wf_channel_rows_def)
  then have n: "length (filter (\<lambda>x. x = u) ?us) = (if u \<in> set ?us then 1 else 0)"
    by (rule length_filter_eq)
  have "length (filter (\<lambda>(_, r). row_channel_uuid r = u) (doc_bindings d))
      = length (filter (\<lambda>x. x = u) ?us)"
    by (simp add: filter_map o_def case_prod_unfold)
  then show ?thesis using assms n
    by (simp add: classify_channel_uuid_def Let_def del: set_map)
qed

lemma classify_Inr:
  assumes "classify_channel_uuid v f = Inr c"
  obtains d u where "load_current f = Inr d" "channel_identifier v = Inr u"
    "c \<longleftrightarrow> u \<in> set (history d)" "c \<longleftrightarrow> u \<in> set (row_uuids (doc_bindings d))"
proof -
  from assms obtain d u where d: "load_current f = Inr d" and u: "channel_identifier v = Inr u"
    by (auto simp: classify_channel_uuid_def rbind_Inr_iff)
  with assms show ?thesis
    by (intro that[of d u]) (auto simp: classify_current[OF d u] simp del: set_map split: if_splits)
qed

subsection \<open>The effect of the operations\<close>

lemma remember_uuid_history:
  assumes "doc_managed d = Some m"
  shows "set (history (remember_uuid u d)) = insert u (set (history d))"
    "doc_bindings (remember_uuid u d) = doc_bindings d" "doc_version (remember_uuid u d) = doc_version d"
    "\<exists>m'. doc_managed (remember_uuid u d) = Some m'"
    "sorted (history d) \<Longrightarrow> sorted (history (remember_uuid u d))"
    "distinct (history d) \<Longrightarrow> distinct (history (remember_uuid u d))"
  using assms by (auto simp: remember_uuid_def history_def)

lemma history_item_ok:
  "channel_id_ok u \<Longrightarrow> canonical_uuid u \<Longrightarrow>
   strip u \<noteq> [] \<and> length u \<le> 256 \<and> canonical_channel_uuid (PStr u) \<noteq> binding_error"
  by (auto simp: channel_id_ok_def channel_identifier.simps(1) Let_def canonical_channel_uuid_def split: if_splits)

lemma set_binding_Inr:
  assumes "set_binding atlas_arg id_arg uuid_arg f = (Inr b, f')"
  obtains a r d d' where "load_current f = Inr d" "b = binding_of a r"
    "channel_id_ok a" "wf_channel_row True r" "\<not> bound_elsewhere (doc_bindings d) a r"
    "d' = remember_uuid (row_channel_uuid r) (d\<lparr>doc_bindings := AList.update a r (doc_bindings d)\<rparr>)"
    "wf_bindings d'" "f' = write_bindings d'"
proof -
  from assms obtain a r d where args: "binding_args atlas_arg id_arg uuid_arg = Inr (a, r)"
    and d: "load_current f = Inr d" and free: "\<not> bound_elsewhere (doc_bindings d) a r"
    and b: "b = binding_of a r"
    and f': "f' = write_bindings (remember_uuid (row_channel_uuid r)
                    (d\<lparr>doc_bindings := AList.update a r (doc_bindings d)\<rparr>))"
    by (auto simp: set_binding_def rbind_Inr_iff split: sum.splits if_splits)
  from args have a: "channel_id_ok a" and r: "wf_channel_row True r"
    by (auto simp: binding_args_def rbind_Inr_iff wf_channel_row_def
        dest: channel_identifier_sound channel_uuid_sound positive_identifier_sound)
  define rows where "rows = AList.update a r (doc_bindings d)"
  define d' where "d' = remember_uuid (row_channel_uuid r) (d\<lparr>doc_bindings := rows\<rparr>)"
  note cur = load_current_Inr[OF d]
  have rows: "wf_channel_rows True rows"
    unfolding rows_def using cur(4) a r
    by (rule wf_rows_update) (use free in \<open>auto simp: bound_elsewhere_def list_ex_iff\<close>)
  have dist: "distinct (map fst (doc_bindings d))" using cur(4) by (simp add: wf_channel_rows_def)
  have man: "doc_managed (d\<lparr>doc_bindings := rows\<rparr>) = Some (history d)"
    "history (d\<lparr>doc_bindings := rows\<rparr>) = history d"
    using cur(6) by (simp_all add: history_def)
  have d'v: "doc_version d' = BINDING_STATE_VERSION" "doc_bindings d' = rows"
    "doc_managed d' = Some (history d')" "set (history d') = insert (row_channel_uuid r) (set (history d))"
    using remember_uuid_history[OF man(1), of "row_channel_uuid r"] cur(3) man
    by (auto simp: d'_def history_def)
  have "wf_history (row_uuids rows) (history d')"
  proof -
    have "set (row_uuids rows) \<subseteq> insert (row_channel_uuid r) (set (history d))"
      using cur(5) by (auto simp: rows_def set_rows_update[OF dist] wf_history_def)
    moreover have "sorted (history d')" "distinct (history d')"
      using remember_uuid_history(5,6)[OF man(1), of "row_channel_uuid r"] cur(5) man(2)
      by (auto simp: d'_def wf_history_def)
    ultimately show ?thesis
      using d'v(4) cur(5) r history_item_ok[of "row_channel_uuid r"]
      by (auto simp: wf_history_def wf_channel_row_def)
  qed
  then have "wf_bindings d'" using rows d'v by (simp add: wf_bindings_def)
  with that[OF d b a r free d'_def[unfolded rows_def]] f' show ?thesis
    by (simp add: d'_def rows_def)
qed

lemma delete_binding_Inr:
  assumes "delete_binding atlas_arg f = (Inr True, f')"
  obtains a d d' where "load_current f = Inr d" "channel_identifier atlas_arg = Inr a"
    "a \<in> set (map fst (doc_bindings d))" "d' = d\<lparr>doc_bindings := AList.delete a (doc_bindings d)\<rparr>"
    "wf_bindings d'" "f' = write_bindings d'"
proof -
  from assms obtain a d where a: "channel_identifier atlas_arg = Inr a" and d: "load_current f = Inr d"
    and mem: "a \<in> set (map fst (doc_bindings d))"
    and f': "f' = write_bindings (d\<lparr>doc_bindings := AList.delete a (doc_bindings d)\<rparr>)"
    by (auto simp: delete_binding_def rbind_Inr_iff split: sum.splits if_splits)
  note cur = load_current_Inr[OF d]
  have "wf_history (row_uuids (AList.delete a (doc_bindings d))) (history d)"
    using cur(5) by (auto simp: wf_history_def set_dict_del)
  then have "wf_bindings (d\<lparr>doc_bindings := AList.delete a (doc_bindings d)\<rparr>)"
    using cur by (simp add: wf_bindings_def wf_rows_delete)
  with that[OF d a mem refl] f' show ?thesis by simp
qed

lemma canonical_uuids_Inr: "canonical_uuids us = Inr cs \<Longrightarrow> \<forall>u \<in> set us. channel_id_ok u \<Longrightarrow> cs = us \<and> list_all canonical_uuid us"
  by (induction us arbitrary: cs) (auto simp: rbind_Inr_iff canonical_channel_uuid_def split: if_splits)

lemma migrate_Inr:
  assumes "migrate_managed_history f = (Inr (), f')"
  obtains d where "load_current f = Inr d" "f' = f"
  | d d' where "load_bindings f = Inr d" "doc_version d = BINDING_LEGACY_VERSION"
      "d' = d\<lparr>doc_managed := Some (sort (row_uuids (doc_bindings d))), doc_version := BINDING_STATE_VERSION\<rparr>"
      "wf_bindings d'" "f' = write_bindings d'"
proof -
  from assms obtain d where d: "load_bindings f = Inr d" and abs: "f \<noteq> Absent"
    by (auto simp: migrate_managed_history_def split: if_splits sum.splits)
  note wf = load_bindings_sound[OF d]
  show ?thesis
  proof (cases "doc_version d = BINDING_STATE_VERSION")
    case True
    then have "load_current f = Inr d" "f' = f"
      using assms d abs by (simp_all add: load_current_def migrate_managed_history_def)
    then show ?thesis by (rule that(1))
  next
    case False
    let ?us = "row_uuids (doc_bindings d)"
    let ?d = "d\<lparr>doc_managed := Some (sort ?us), doc_version := BINDING_STATE_VERSION\<rparr>"
    from False wf have legacy: "doc_version d = BINDING_LEGACY_VERSION" and rows: "wf_channel_rows False (doc_bindings d)"
      by (auto simp: wf_bindings_def)
    have ids: "\<forall>u \<in> set ?us. channel_id_ok u"
      using rows by (auto simp: wf_channel_rows_def wf_channel_row_def)
    from assms d abs False obtain cs where cs: "canonical_uuids ?us = Inr cs"
      and f': "f' = write_bindings (d\<lparr>doc_managed := Some (sort cs), doc_version := BINDING_STATE_VERSION\<rparr>)"
      by (auto simp: migrate_managed_history_def split: sum.splits)
    from canonical_uuids_Inr[OF cs ids] have c: "cs = ?us" "\<forall>u \<in> set ?us. canonical_uuid u"
      by (auto simp: list_all_iff)
    have "wf_channel_rows True (doc_bindings d)" using rows c(2)
      by (auto simp: wf_channel_rows_def wf_channel_row_def)
    moreover have "wf_history ?us (sort ?us)"
      using rows ids c(2) history_item_ok
      by (auto simp: wf_history_def wf_channel_rows_def)
    ultimately have "wf_bindings ?d" by (simp add: wf_bindings_def)
    with that(2)[OF d legacy refl] f' c(1) show ?thesis by simp
  qed
qed

subsection \<open>Sequences of operations\<close>

inductive bindings_action :: "state_file \<Rightarrow> state_file \<Rightarrow> bool" where
  act_set: "set_binding a i u f = (r, f') \<Longrightarrow> bindings_action f f'"
| act_delete: "delete_binding a f = (q, f') \<Longrightarrow> bindings_action f f'"
| act_migrate: "migrate_managed_history f = (v, f') \<Longrightarrow> bindings_action f f'"
| act_ensure: "ensure_bindings f = (v, f') \<Longrightarrow> bindings_action f f'"

text \<open>Refused operations and operations that find nothing to do leave the file as it is.\<close>

lemma unchanged_on_error:
  "set_binding a i u f = (Inl e, f') \<Longrightarrow> f' = f"
  "delete_binding a f = (Inl e, f') \<Longrightarrow> f' = f"
  "delete_binding a f = (Inr False, f') \<Longrightarrow> f' = f"
  "migrate_managed_history f = (Inl e, f') \<Longrightarrow> f' = f"
  "ensure_bindings f = (Inl e, f') \<Longrightarrow> f' = f"
  by (auto simp: set_binding_def delete_binding_def migrate_managed_history_def ensure_bindings_def
      split: sum.splits if_splits)

text \<open>
  The history in force: what a current document remembers, what a migration of a legacy document would
  remember, nothing for an absent file.
\<close>

definition managed_in :: "state_file \<Rightarrow> string set" where
  "managed_in f = (case load_bindings f of Inl _ \<Rightarrow> {}
     | Inr d \<Rightarrow> (case doc_managed d of Some m \<Rightarrow> set m | None \<Rightarrow> set (row_uuids (doc_bindings d))))"

lemma managed_in_current: "load_current f = Inr d \<Longrightarrow> managed_in f = set (history d)"
  using load_current_Inr by (simp add: managed_in_def)

lemma managed_in_written:
  "wf_bindings d \<Longrightarrow> doc_managed d = Some m \<Longrightarrow> managed_in (write_bindings d) = set (history d)"
  by (simp add: managed_in_def read_write_bindings history_def)

lemma action_keeps_history:
  assumes "bindings_action f f'" "bindings_file.readable f"
  shows "managed_in f \<subseteq> managed_in f' \<and> bindings_file.readable f'"
  using assms
proof cases
  case (act_set a i u r)
  show ?thesis
  proof (cases r)
    case (Inr b)
    with act_set obtain a' r' d d' where d: "load_current f = Inr d"
      "d' = remember_uuid (row_channel_uuid r') (d\<lparr>doc_bindings := AList.update a' r' (doc_bindings d)\<rparr>)"
      "wf_bindings d'" "f' = write_bindings d'"
      by (metis set_binding_Inr)
    have "doc_managed (d\<lparr>doc_bindings := AList.update a' r' (doc_bindings d)\<rparr>) = Some (history d)"
      using load_current_Inr(6)[OF d(1)] by simp
    from remember_uuid_history(1,4)[OF this, of "row_channel_uuid r'"] d show ?thesis
      by (auto simp: managed_in_current managed_in_written history_def bindings_file.readable_write)
  qed (use act_set assms unchanged_on_error(1) in blast)
next
  case (act_delete a q)
  show ?thesis
  proof (cases "q = Inr True")
    case True
    with act_delete obtain a' d d' where d: "load_current f = Inr d"
      "d' = d\<lparr>doc_bindings := AList.delete a' (doc_bindings d)\<rparr>"
      "wf_bindings d'" "f' = write_bindings d'"
      by (metis delete_binding_Inr)
    then show ?thesis using load_current_Inr(6)[OF d(1)]
      by (auto simp: managed_in_current managed_in_written history_def bindings_file.readable_write)
  next
    case False
    then have "f' = f" using act_delete unchanged_on_error(2,3) by (metis (full_types) sum.exhaust)
    then show ?thesis using assms by simp
  qed
next
  case (act_migrate v)
  show ?thesis
  proof (cases v)
    case (Inr u)
    with act_migrate have "migrate_managed_history f = (Inr (), f')" by simp
    then show ?thesis
    proof (cases rule: migrate_Inr)
      case 1
      then show ?thesis using assms by simp
    next
      case (2 d d')
      then have "doc_managed d = None"
        by (auto simp: wf_bindings_def binding_versions dest!: load_bindings_sound)
      with 2 show ?thesis
        by (simp add: managed_in_def read_write_bindings bindings_file.readable_write)
    qed
  qed (use act_migrate assms unchanged_on_error(4) in blast)
next
  case (act_ensure v)
  then have "f = Absent \<and> f' = write_bindings empty_bindings \<or> f' = f"
    by (auto simp: ensure_bindings_def split: if_splits sum.splits)
  then show ?thesis using assms
    by (auto simp: managed_in_def empty_bindings_def[symmetric] bindings_file.readable_write)
       (simp add: empty_bindings_def)
qed

lemma actions_keep_history:
  assumes "bindings_action\<^sup>*\<^sup>* f f'" "bindings_file.readable f"
  shows "managed_in f \<subseteq> managed_in f' \<and> bindings_file.readable f'"
  using assms by (induction rule: rtranclp_induct) (auto dest: action_keeps_history)

lemma classify_managed: "classify_channel_uuid v f = Inr c \<Longrightarrow> channel_identifier v = Inr u \<Longrightarrow> c \<longleftrightarrow> u \<in> managed_in f"
  by (erule classify_Inr) (simp add: managed_in_current)


text \<open>
  The properties of the channel bindings, each with a run on a concrete file: a file created by
  \<open>ensure\<close>, one binding, its removal, and a legacy document before and after its migration.
\<close>

subsection \<open>A concrete run\<close>

definition demo_channel_uuid :: string where
  "demo_channel_uuid = ''00000000-0000-0000-0000-00000000000a''"

definition demo_empty :: state_file where
  "demo_empty = snd (ensure_bindings Absent)"

definition demo_bound :: state_file where
  "demo_bound = snd (set_binding (PStr ''sports-live-1'') (PInt 7) (PStr demo_channel_uuid) demo_empty)"

definition demo_unbound :: state_file where
  "demo_unbound = snd (delete_binding (PStr ''sports-live-1'') demo_bound)"

definition demo_legacy :: state_file where
  "demo_legacy = Document (PDict
     [(''version'', PInt 1),
      (''bindings'', PDict [(''sports-live-1'', PDict [(''dispatcharr_channel_id'', PInt 7),
          (''dispatcharr_channel_uuid'', PStr demo_channel_uuid)])])])"

definition demo_binding :: channel_binding where
  "demo_binding = \<lparr>atlas_channel_id = ''sports-live-1'', dispatcharr_channel_id = 7,
     dispatcharr_channel_uuid = demo_channel_uuid\<rparr>"

lemma run_fst: "fst x = v \<Longrightarrow> x = (v, snd x)"
  by (cases x) simp

lemma demo_set_run:
  "set_binding (PStr ''sports-live-1'') (PInt 7) (PStr demo_channel_uuid) demo_empty = (Inr demo_binding, demo_bound)"
  unfolding demo_bound_def by (rule run_fst) code_simp

lemma demo_delete_run: "delete_binding (PStr ''sports-live-1'') demo_bound = (Inr True, demo_unbound)"
  unfolding demo_unbound_def by (rule run_fst) code_simp

lemma demo_migrate_run: "migrate_managed_history demo_legacy = (Inr (), demo_bound)"
  by code_simp

lemma demo_loads:
  "load_bindings demo_legacy = Inr \<lparr>doc_version = 1, doc_bindings =
     [(''sports-live-1'', \<lparr>row_channel_id = 7, row_channel_uuid = demo_channel_uuid\<rparr>)], doc_managed = None\<rparr>"
  "resolve_binding (PStr ''sports-live-1'') demo_bound = Inr (Some demo_binding)"
  "list_bindings demo_bound = Inr [demo_binding]"
  "channel_identifier (PStr demo_channel_uuid) = Inr demo_channel_uuid"
  by code_simp+

subsection \<open>Properties\<close>

text \<open>
  C27. A UUID that was once bound is never classified as unmanaged again: whatever sequence of set,
  delete, migrate and ensure operations follows, with whatever arguments, the classification answers
  managed or refuses to answer.
\<close>

theorem managed_never_unmanaged:
  assumes "set_binding atlas_arg id_arg uuid_arg f = (Inr b, f')"
    and "bindings_action\<^sup>*\<^sup>* f' f''"
  shows "classify_channel_uuid (PStr (dispatcharr_channel_uuid b)) f'' \<noteq> Inr False"
proof -
  from assms(1) obtain a r d d' where b: "b = binding_of a r" and r: "wf_channel_row True r"
    and d: "load_current f = Inr d"
    and d': "d' = remember_uuid (row_channel_uuid r) (d\<lparr>doc_bindings := AList.update a r (doc_bindings d)\<rparr>)"
    "wf_bindings d'" "f' = write_bindings d'"
    by (rule set_binding_Inr)
  have "doc_managed (d\<lparr>doc_bindings := AList.update a r (doc_bindings d)\<rparr>) = Some (history d)"
    using load_current_Inr(6)[OF d] by simp
  from remember_uuid_history(1,4)[OF this, of "row_channel_uuid r"] d' have "row_channel_uuid r \<in> managed_in f'"
    by (auto simp: managed_in_written)
  moreover have "bindings_file.readable f'" using d' by (simp add: bindings_file.readable_write)
  ultimately have "row_channel_uuid r \<in> managed_in f''" using actions_keep_history[OF assms(2)] by blast
  moreover have "channel_identifier (PStr (row_channel_uuid r)) = Inr (row_channel_uuid r)"
    using r by (simp add: wf_channel_row_def)
  ultimately show ?thesis using b by (auto simp: binding_of_def dest: classify_managed)
qed

theorem managed_never_unmanaged_witness:
  "classify_channel_uuid (PStr demo_channel_uuid) demo_unbound \<noteq> Inr False"
proof -
  have "bindings_action\<^sup>*\<^sup>* demo_bound demo_unbound"
    using demo_delete_run by (blast intro: act_delete)
  from managed_never_unmanaged[OF demo_set_run this] show ?thesis by (simp add: demo_binding_def)
qed

text \<open>
  A successful set binds exactly its Atlas channel: it resolves to the new binding, every other
  channel resolves as before, and the new UUID is classified as managed at once.
\<close>

theorem set_binding_effect:
  assumes "set_binding atlas_arg id_arg uuid_arg f = (Inr b, f')"
  shows "resolve_binding (PStr (atlas_channel_id b)) f' = Inr (Some b)
    \<and> (channel_identifier v = Inr a \<longrightarrow> a \<noteq> atlas_channel_id b \<longrightarrow> resolve_binding v f' = resolve_binding v f)
    \<and> classify_channel_uuid (PStr (dispatcharr_channel_uuid b)) f' = Inr True"
proof -
  from assms obtain k r d d' where d: "load_current f = Inr d" and b: "b = binding_of k r"
    and ok: "channel_id_ok k" "wf_channel_row True r"
    and d': "d' = remember_uuid (row_channel_uuid r) (d\<lparr>doc_bindings := AList.update k r (doc_bindings d)\<rparr>)"
    "wf_bindings d'" "f' = write_bindings d'"
    by (rule set_binding_Inr)
  note cur = load_current_Inr[OF d]
  have man: "doc_managed (d\<lparr>doc_bindings := AList.update k r (doc_bindings d)\<rparr>) = Some (history d)"
    using cur(6) by simp
  note rem = remember_uuid_history[OF man, of "row_channel_uuid r"]
  have dist: "distinct (map fst (doc_bindings d))" using cur(4) by (simp add: wf_channel_rows_def)
  have look: "map_of (sorted_items (doc_bindings d')) = (map_of (doc_bindings d))(k \<mapsto> r)"
    using dist rem(2) d'(1) by (simp add: sorted_items_map_of dict_distinct dict_get_set)
  have load: "load_bindings f' = Inr (norm_bindings d')" "load_current f' = Inr (norm_bindings d')"
    using d' cur(3) rem(3) by (simp_all add: read_write_bindings load_current_written)
  have mem: "row_channel_uuid r \<in> set (row_uuids (doc_bindings (norm_bindings d')))"
    "row_channel_uuid r \<in> set (history (norm_bindings d'))"
    using rem(1,2) d'(1) by (auto simp: set_rows_update[OF dist])
  have "classify_channel_uuid (PStr (row_channel_uuid r)) f' = Inr True"
    using classify_current[OF load(2), of "PStr (row_channel_uuid r)" "row_channel_uuid r"] ok(2) mem
    by (simp add: wf_channel_row_def del: set_map)
  then show ?thesis using ok b load look cur(1)
    by (auto simp: resolve_binding_def binding_of_def)
qed

theorem set_binding_effect_witness:
  "resolve_binding (PStr ''sports-live-1'') demo_bound = Inr (Some demo_binding)
   \<and> classify_channel_uuid (PStr demo_channel_uuid) demo_bound = Inr True"
  using set_binding_effect[OF demo_set_run] by (simp add: demo_binding_def)

text \<open>
  After the binding of a channel is deleted, its UUID is neither managed nor unmanaged: the
  classification refuses, so the live proxy can take neither route.
\<close>

theorem deleted_uuid_refused:
  assumes "delete_binding atlas_arg f = (Inr True, f')" and "resolve_binding atlas_arg f = Inr (Some b)"
  shows "classify_channel_uuid (PStr (dispatcharr_channel_uuid b)) f' = binding_error
    \<and> resolve_binding atlas_arg f' = Inr None"
proof -
  from assms(1) obtain a d d' where d: "load_current f = Inr d" and a: "channel_identifier atlas_arg = Inr a"
    and d': "d' = d\<lparr>doc_bindings := AList.delete a (doc_bindings d)\<rparr>" "wf_bindings d'" "f' = write_bindings d'"
    by (rule delete_binding_Inr)
  note cur = load_current_Inr[OF d]
  from assms(2) a cur(1) obtain r where r: "map_of (doc_bindings d) a = Some r" and b: "b = binding_of a r"
    by (auto simp: resolve_binding_def)
  have dist: "distinct (map fst (doc_bindings d))" "distinct (row_uuids (doc_bindings d))"
    using cur(4) by (simp_all add: wf_channel_rows_def)
  have mem: "(a, r) \<in> set (doc_bindings d)" using r by (rule map_of_SomeD)
  have ok: "channel_id_ok (row_channel_uuid r)"
    using mem cur(4) by (auto simp: wf_channel_rows_def wf_channel_row_def)
  have load: "load_bindings f' = Inr (norm_bindings d')" "load_current f' = Inr (norm_bindings d')"
    using d' cur(3) by (simp_all add: read_write_bindings load_current_written)
  have "row_channel_uuid r \<notin> set (row_uuids (AList.delete a (doc_bindings d)))"
    using mem dist(2)[unfolded distinct_image_iff[OF dist(1)]] by (fastforce simp: set_dict_del)
  moreover have "row_channel_uuid r \<in> set (history d)" using cur(5) mem by (force simp: wf_history_def)
  ultimately have "classify_channel_uuid (PStr (row_channel_uuid r)) f' = binding_error"
    using classify_current[OF load(2), of "PStr (row_channel_uuid r)" "row_channel_uuid r"] ok d'(1)
    by (simp add: history_def)
  then show ?thesis using a b load d'(1) dist(1)
    by (simp add: resolve_binding_def binding_of_def sorted_items_map_of dict_distinct dict_get_del)
qed

theorem deleted_uuid_refused_witness:
  "classify_channel_uuid (PStr demo_channel_uuid) demo_unbound = binding_error"
  using deleted_uuid_refused[OF demo_delete_run demo_loads(2)] by (simp add: demo_binding_def)

text \<open>
  Migrating a legacy document keeps the bindings and decides every UUID: afterwards a UUID is
  classified as managed exactly when the legacy document bound it.
\<close>

theorem migration_decides_every_uuid:
  assumes "migrate_managed_history f = (Inr (), f')"
    and "load_bindings f = Inr d" "doc_version d = BINDING_LEGACY_VERSION"
    and "list_bindings f = Inr bs" "channel_identifier v = Inr u"
  shows "list_bindings f' = Inr bs
    \<and> classify_channel_uuid v f' = Inr (u \<in> set (map dispatcharr_channel_uuid bs))"
  using assms(1)
proof (cases rule: migrate_Inr)
  case (1 d0)
  then show ?thesis using assms(2,3) load_current_Inr[OF 1(1)] by (simp add: binding_versions)
next
  case (2 d0 d')
  then have d0: "d0 = d" using assms(2) by simp
  have load: "load_bindings f' = Inr (norm_bindings d')" "load_current f' = Inr (norm_bindings d')"
    using 2 by (simp_all add: read_write_bindings load_current_written)
  have bs: "bs = map (\<lambda>(a, r). binding_of a r) (sorted_items (doc_bindings d))"
    using assms(2,4) by (simp add: list_bindings_def)
  have us: "set (map dispatcharr_channel_uuid bs) = set (row_uuids (doc_bindings d))"
    by (force simp: bs binding_of_def image_iff)
  have "list_bindings f' = Inr bs"
    using load(1) 2(3) d0 bs by (simp add: list_bindings_def sorted_items_def sort_key_id_if_sorted)
  moreover have "classify_channel_uuid v f' = Inr (u \<in> set (row_uuids (doc_bindings d)))"
    using classify_current[OF load(2) assms(5)] 2(3) d0 by (simp add: history_def)
  ultimately show ?thesis using us by simp
qed

theorem migration_decides_every_uuid_witness:
  "list_bindings demo_bound = Inr [demo_binding]
   \<and> classify_channel_uuid (PStr demo_channel_uuid) demo_bound = Inr True"
  using migration_decides_every_uuid[OF demo_migrate_run demo_loads(1) _ _ demo_loads(4), of "[demo_binding]"]
  by (simp add: binding_versions demo_binding_def list_bindings_def demo_loads(1) sorted_items_def
      binding_of_def)

end
