(* ===== verification/Url_Text.thy ===== *)
theory Url_Text
  imports Prelude
begin

text \<open>
  The Python text functions the Sports modules share: case and cutting of strings, the identifier
  patterns of \<open>re.fullmatch\<close>, \<open>urllib.parse.urlsplit\<close> with the parts read from its result, and
  \<open>uuid.UUID\<close>. A URL with brackets in its network location holds an IP literal that \<open>urlsplit\<close> checks
  differently from one Python release to the next: that check is the argument \<open>literal_ok\<close>.
\<close>

subsection \<open>Characters\<close>

definition char_between :: "nat \<Rightarrow> nat \<Rightarrow> char \<Rightarrow> bool" where
  "char_between lo hi c \<longleftrightarrow> lo \<le> of_char c \<and> (of_char c :: nat) \<le> hi"

definition ascii_digit :: "char \<Rightarrow> bool" where
  "ascii_digit c \<longleftrightarrow> char_between 48 57 c"

definition ascii_upper :: "char \<Rightarrow> bool" where
  "ascii_upper c \<longleftrightarrow> char_between 65 90 c"

definition ascii_lower :: "char \<Rightarrow> bool" where
  "ascii_lower c \<longleftrightarrow> char_between 97 122 c"

definition ascii_alpha :: "char \<Rightarrow> bool" where
  "ascii_alpha c \<longleftrightarrow> ascii_upper c \<or> ascii_lower c"

definition ascii_alnum :: "char \<Rightarrow> bool" where
  "ascii_alnum c \<longleftrightarrow> ascii_alpha c \<or> ascii_digit c"

text \<open>\<open>str.lower\<close> on the code points below 256.\<close>

definition lower_char :: "char \<Rightarrow> char" where
  "lower_char c =
     (let n = of_char c :: nat
      in if 65 \<le> n \<and> n \<le> 90 \<or> 192 \<le> n \<and> n \<le> 222 \<and> n \<noteq> 215 then char_of (n + 32) else c)"

definition lower :: "string \<Rightarrow> string" where
  "lower s = map lower_char s"

definition lower_code :: "nat \<Rightarrow> nat" where
  "lower_code n = (if 65 \<le> n \<and> n \<le> 90 \<or> 192 \<le> n \<and> n \<le> 222 \<and> n \<noteq> 215 then n + 32 else n)"

lemma of_lower_char: "(of_char (lower_char c) :: nat) = lower_code (of_char c)"
proof -
  have "(of_char c :: nat) < 256" by (rule nat_of_char_less_256)
  then show ?thesis by (auto simp: lower_char_def lower_code_def Let_def)
qed

lemma lower_code_idem: "lower_code (lower_code n) = lower_code n"
  by (auto simp: lower_code_def)

lemma lower_char_idem [simp]: "lower_char (lower_char c) = lower_char c"
proof -
  have "(of_char (lower_char (lower_char c)) :: nat) = of_char (lower_char c)"
    by (simp only: of_lower_char lower_code_idem)
  then show ?thesis by (simp only: of_char_eq_iff)
qed

lemma lower_idem [simp]: "lower (lower s) = lower s"
  by (simp add: lower_def)

lemma lower_char_space [simp]: "py_space (lower_char c) = py_space c"
  unfolding py_space_def of_lower_char by (auto simp: lower_code_def)

lemma dropWhile_lower: "dropWhile py_space (lower s) = lower (dropWhile py_space s)"
  by (simp add: lower_def dropWhile_map o_def)

lemma rev_lower: "rev (lower s) = lower (rev s)"
  by (simp add: lower_def rev_map)

lemma strip_lower [simp]: "strip (lower s) = lower (strip s)"
  by (simp add: strip_def dropWhile_lower rev_lower)

lemma lower_Nil_iff [simp]: "lower s = [] \<longleftrightarrow> s = []"
  by (simp add: lower_def)

subsection \<open>Cutting strings\<close>

text \<open>\<open>s.partition(c)\<close> without the separator: what follows is absent when \<open>c\<close> does not occur.\<close>

definition cut_at :: "char \<Rightarrow> string \<Rightarrow> string \<times> string option" where
  "cut_at c s =
     (takeWhile (\<lambda>x. x \<noteq> c) s,
      case dropWhile (\<lambda>x. x \<noteq> c) s of [] \<Rightarrow> None | _ # r \<Rightarrow> Some r)"

text \<open>\<open>s.rpartition(c)[2]\<close>, also \<open>s.rsplit(c, 1)[-1]\<close>.\<close>

definition after_last :: "char \<Rightarrow> string \<Rightarrow> string" where
  "after_last c s = rev (takeWhile (\<lambda>x. x \<noteq> c) (rev s))"

definition ends_with :: "string \<Rightarrow> string \<Rightarrow> bool" where
  "ends_with suffix s \<longleftrightarrow> length suffix \<le> length s \<and> drop (length s - length suffix) s = suffix"

definition starts_with :: "string \<Rightarrow> string \<Rightarrow> bool" where
  "starts_with prefix s \<longleftrightarrow> take (length prefix) s = prefix"

definition rstrip_char :: "char \<Rightarrow> string \<Rightarrow> string" where
  "rstrip_char c s = rev (dropWhile (\<lambda>x. x = c) (rev s))"

lemma ends_with_iff: "ends_with t s \<longleftrightarrow> (\<exists>p. s = p @ t)"
proof
  assume e: "ends_with t s"
  have "s = take (length s - length t) s @ drop (length s - length t) s" by simp
  with e show "\<exists>p. s = p @ t" by (metis ends_with_def)
qed (auto simp: ends_with_def)

lemma cut_at_Some:
  assumes "cut_at c s = (a, Some r)"
  shows "s = a @ c # r" "c \<notin> set a"
proof -
  let ?P = "\<lambda>x. x \<noteq> c"
  from assms have a: "a = takeWhile ?P s" by (simp add: cut_at_def)
  from assms obtain x where d: "dropWhile ?P s = x # r" by (auto simp: cut_at_def split: list.splits)
  have "x = c" using hd_dropWhile[of ?P s] d by simp
  with d have "takeWhile ?P s @ dropWhile ?P s = a @ c # r" by (simp add: a)
  then show "s = a @ c # r" by simp
  show "c \<notin> set a" unfolding a by (auto dest: set_takeWhileD)
qed

lemma after_last_append: "c \<notin> set t \<Longrightarrow> after_last c (p @ c # t) = t"
proof -
  assume "c \<notin> set t"
  then have "takeWhile (\<lambda>x. x \<noteq> c) (rev t @ c # rev p) = rev t"
    by (subst takeWhile_append2) auto
  then show ?thesis by (simp add: after_last_def)
qed

subsection \<open>Identifier patterns\<close>

text \<open>\<open>[A-Za-z0-9][A-Za-z0-9_.:-]{0,n}\<close>\<close>

definition token_tail_char :: "char \<Rightarrow> bool" where
  "token_tail_char c \<longleftrightarrow> ascii_alnum c \<or> c \<in> set ''_.:-''"

definition token_text :: "nat \<Rightarrow> string \<Rightarrow> bool" where
  "token_text n s \<longleftrightarrow>
     (case s of [] \<Rightarrow> False | c # r \<Rightarrow> ascii_alnum c \<and> length r \<le> n \<and> list_all token_tail_char r)"

text \<open>\<open>[a-z0-9][a-z0-9.-]{0,127}\<close>\<close>

definition realm_char :: "char \<Rightarrow> bool" where
  "realm_char c \<longleftrightarrow> ascii_lower c \<or> ascii_digit c"

definition realm_text :: "string \<Rightarrow> bool" where
  "realm_text s \<longleftrightarrow>
     (case s of [] \<Rightarrow> False
      | c # r \<Rightarrow> realm_char c \<and> length r \<le> 127 \<and> list_all (\<lambda>d. realm_char d \<or> d \<in> set ''.-'') r)"

text \<open>\<open>sports-live-[A-Za-z0-9][A-Za-z0-9_.:-]{0,159}\<close>\<close>

definition standalone_text :: "string \<Rightarrow> bool" where
  "standalone_text s \<longleftrightarrow> starts_with ''sports-live-'' s \<and> token_text 159 (drop 12 s)"

subsection \<open>Splitting URLs\<close>

record url_parts =
  url_scheme :: string
  url_netloc :: string
  url_path :: string
  url_query :: string
  url_fragment :: string

definition scheme_char :: "char \<Rightarrow> bool" where
  "scheme_char c \<longleftrightarrow> ascii_alnum c \<or> c \<in> set ''+-.''"

definition split_scheme :: "string \<Rightarrow> string \<times> string" where
  "split_scheme s =
     (case cut_at (CHR '':'') s of
        (c # cs, Some rest) \<Rightarrow>
          if ascii_alpha c \<and> list_all scheme_char (c # cs) then (lower (c # cs), rest) else ([], s)
      | _ \<Rightarrow> ([], s))"

definition split_netloc :: "string \<Rightarrow> string \<times> string" where
  "split_netloc s =
     (if starts_with ''//'' s
      then (takeWhile (\<lambda>c. c \<notin> set ''/?#'') (drop 2 s), dropWhile (\<lambda>c. c \<notin> set ''/?#'') (drop 2 s))
      else ([], s))"

definition urlsplit :: "(string \<Rightarrow> bool) \<Rightarrow> string \<Rightarrow> url_parts option" where
  "urlsplit literal_ok url =
     (let cleaned = filter (\<lambda>c. of_char c \<notin> {9 :: nat, 10, 13}) (dropWhile (\<lambda>c. (of_char c :: nat) \<le> 32) url);
          (scheme, rest) = split_scheme cleaned;
          (netloc, rest) = split_netloc rest;
          opening = CHR ''['' \<in> set netloc; closing = CHR '']'' \<in> set netloc;
          (rest, fragment) = cut_at (CHR 0x23) rest;
          (path, query) = cut_at (CHR ''?'') rest
      in if opening \<noteq> closing \<or> opening \<and> \<not> literal_ok netloc then None
         else Some \<lparr>url_scheme = scheme, url_netloc = netloc, url_path = path,
                    url_query = (case query of None \<Rightarrow> [] | Some q \<Rightarrow> q),
                    url_fragment = (case fragment of None \<Rightarrow> [] | Some t \<Rightarrow> t)\<rparr>)"

text \<open>\<open>parsed.username\<close>, \<open>parsed.password\<close> and \<open>parsed.hostname\<close> (before it is put in lower case).\<close>

definition url_userinfo :: "url_parts \<Rightarrow> string option" where
  "url_userinfo u =
     (if CHR ''@'' \<in> set (url_netloc u)
      then Some (take (length (url_netloc u) - length (after_last (CHR ''@'') (url_netloc u)) - 1) (url_netloc u))
      else None)"

definition url_username :: "url_parts \<Rightarrow> string option" where
  "url_username u = map_option (\<lambda>i. fst (cut_at (CHR '':'') i)) (url_userinfo u)"

definition url_password :: "url_parts \<Rightarrow> string option" where
  "url_password u = (case url_userinfo u of None \<Rightarrow> None | Some i \<Rightarrow> snd (cut_at (CHR '':'') i))"

definition url_hostname :: "url_parts \<Rightarrow> string" where
  "url_hostname u =
     (let host = after_last (CHR ''@'') (url_netloc u) in
      case cut_at (CHR ''['') host of
        (_, Some bracketed) \<Rightarrow> fst (cut_at (CHR '']'') bracketed)
      | (_, None) \<Rightarrow> fst (cut_at (CHR '':'') host))"

definition http_scheme :: "url_parts \<Rightarrow> bool" where
  "http_scheme u \<longleftrightarrow> url_scheme u = ''http'' \<or> url_scheme u = ''https''"

text \<open>Truth of an optional string: absent and empty are false.\<close>

definition truthy_text :: "string option \<Rightarrow> bool" where
  "truthy_text s \<longleftrightarrow> s \<noteq> None \<and> s \<noteq> Some []"

lemma url_username_None: "url_username u = None \<longleftrightarrow> CHR ''@'' \<notin> set (url_netloc u)"
  by (simp add: url_username_def url_userinfo_def)

subsection \<open>UUIDs\<close>

text \<open>\<open>str.replace(t, '')\<close>: occurrences from the left, without overlap.\<close>

fun remove_all :: "string \<Rightarrow> string \<Rightarrow> string" where
  "remove_all t [] = []"
| "remove_all t (c # s) =
     (if t \<noteq> [] \<and> starts_with t (c # s) then remove_all t (drop (length t) (c # s)) else c # remove_all t s)"

lemma remove_all_absent: "t \<noteq> [] \<Longrightarrow> hd t \<notin> set s \<Longrightarrow> remove_all t s = s"
proof (induction s)
  case (Cons c s)
  then have "\<not> starts_with t (c # s)" by (cases t) (auto simp: starts_with_def)
  with Cons show ?case by simp
qed simp

text \<open>\<open>int(text, 16)\<close>: the digits after white space, a sign, a prefix and underscores.\<close>

definition hex_any :: "char \<Rightarrow> bool" where
  "hex_any c \<longleftrightarrow> hex_digit (lower_char c)"

fun underscored_hex :: "bool \<Rightarrow> string \<Rightarrow> bool" where
  "underscored_hex after [] = after"
| "underscored_hex after (c # cs) =
     (if hex_any c then underscored_hex True cs else c = CHR ''_'' \<and> after \<and> underscored_hex False cs)"

definition int16_digits :: "string \<Rightarrow> string option" where
  "int16_digits text =
     (let t = strip text;
          unsigned = (case t of c # r \<Rightarrow> if c = CHR ''+'' then r else t | [] \<Rightarrow> []);
          prefixed = (starts_with ''0x'' unsigned \<or> starts_with ''0X'' unsigned);
          body = (if prefixed then drop 2 unsigned else unsigned)
      in if underscored_hex prefixed body \<and> body \<noteq> []
         then Some (lower (filter (\<lambda>c. c \<noteq> CHR ''_'') body)) else None)"

definition uuid_layout :: "string \<Rightarrow> string" where
  "uuid_layout h =
     take 8 h @ ''-'' @ take 4 (drop 8 h) @ ''-'' @ take 4 (drop 12 h) @ ''-'' @ take 4 (drop 16 h)
       @ ''-'' @ drop 20 h"

definition uuid_hex :: "string \<Rightarrow> string" where
  "uuid_hex s =
     (let braces = (\<lambda>c. c \<in> set ''{}'');
          bare = remove_all ''uuid:'' (remove_all ''urn:'' s)
      in filter (\<lambda>c. c \<noteq> CHR ''-'') (rev (dropWhile braces (rev (dropWhile braces bare)))))"

text \<open>\<open>str(UUID(s))\<close>, \<open>None\<close> for the \<open>ValueError\<close>.\<close>

definition uuid_text :: "string \<Rightarrow> string option" where
  "uuid_text s =
     (let h = uuid_hex s in
      if length h \<noteq> 32 then None
      else map_option (\<lambda>ds. uuid_layout (replicate (32 - length ds) (CHR ''0'') @ ds)) (int16_digits h))"

lemma hex_digit_facts:
  assumes "hex_digit c"
  shows "lower_char c = c" "\<not> py_space c" "c \<noteq> CHR ''-''" "c \<noteq> CHR ''_''" "c \<noteq> CHR ''+''" "c \<noteq> CHR ''x''"
    "c \<noteq> CHR ''X''" "c \<noteq> CHR ''u''" "c \<noteq> CHR ''{''" "c \<noteq> CHR ''}''" "c \<noteq> CHR ''/''" "c \<noteq> CHR ''%''"
  using assms by (auto simp: hex_digit_def lower_char_def py_space_def Let_def)

lemma hex_any_iff: "hex_digit c \<Longrightarrow> hex_any c"
  by (simp add: hex_any_def hex_digit_facts)

lemma underscored_hex_digits: "list_all hex_digit s \<Longrightarrow> s \<noteq> [] \<or> after \<Longrightarrow> underscored_hex after s"
  by (induction s arbitrary: after) (auto simp: hex_any_iff)

lemma strip_no_space:
  assumes "list_all (\<lambda>c. \<not> py_space c) s"
  shows "strip s = s"
proof -
  have "dropWhile py_space t = t" if "list_all (\<lambda>c. \<not> py_space c) t" for t
    using that by (cases t) auto
  then show ?thesis using assms by (simp add: strip_def list_all_rev)
qed

lemma lower_hex: "list_all hex_digit s \<Longrightarrow> lower s = s"
  by (induction s) (auto simp: lower_def hex_digit_facts)

lemma int16_digits_hex:
  assumes "list_all hex_digit s" "s \<noteq> []"
  shows "int16_digits s = Some s"
proof -
  have sp: "list_all (\<lambda>c. \<not> py_space c) s" and us: "filter (\<lambda>c. c \<noteq> CHR ''_'') s = s"
    using assms(1) hex_digit_facts(2,4) by (auto simp: list_all_iff filter_id_conv)
  obtain c r where s: "s = c # r" using assms(2) by (cases s) auto
  then have "c \<noteq> CHR ''+''" using assms(1) hex_digit_facts(5) by auto
  moreover have "\<not> starts_with ''0x'' s" "\<not> starts_with ''0X'' s"
    using s assms(1) hex_digit_facts(6,7) by (cases r; auto simp: starts_with_def)+
  moreover have "strip s = s" using sp by (rule strip_no_space)
  ultimately show ?thesis
    using assms us underscored_hex_digits[OF assms(1), of False] lower_hex[OF assms(1)]
    unfolding int16_digits_def Let_def by (simp add: s del: underscored_hex.simps list.pred_inject)
qed

lemma underscored_hex_lower: "underscored_hex after s \<Longrightarrow> list_all hex_digit (lower (filter (\<lambda>c. c \<noteq> CHR ''_'') s))"
proof (induction after s rule: underscored_hex.induct)
  case (2 after c cs)
  then show ?case by (auto simp: lower_def hex_any_def split: if_splits)
qed (simp add: lower_def)

lemma hex_groups_Cons:
  "ns \<noteq> [] \<Longrightarrow> hex_groups (n # ns) s \<longleftrightarrow> (\<exists>a r. s = a @ CHR ''-'' # r \<and> hex_string n a \<and> hex_groups ns r)"
proof -
  assume "ns \<noteq> []"
  then obtain m ms where ns: "ns = m # ms" by (cases ns) auto
  show ?thesis
  proof
    assume h: "hex_groups (n # ns) s"
    then obtain r where "drop n s = CHR ''-'' # r" "hex_string n (take n s)" "hex_groups ns r"
      by (auto simp: ns split: list.splits)
    then show "\<exists>a r. s = a @ CHR ''-'' # r \<and> hex_string n a \<and> hex_groups ns r"
      by (metis append_take_drop_id)
  qed (auto simp: ns hex_string_def)
qed

lemma canonical_uuid_iff:
  "canonical_uuid s \<longleftrightarrow> (\<exists>a b c d e. s = a @ ''-'' @ b @ ''-'' @ c @ ''-'' @ d @ ''-'' @ e
     \<and> hex_string 8 a \<and> hex_string 4 b \<and> hex_string 4 c \<and> hex_string 4 d \<and> hex_string 12 e)"
  unfolding canonical_uuid_def by (simp add: hex_groups_Cons del: hex_groups.simps(3)) blast

lemma canonical_uuid_chars: "canonical_uuid s \<Longrightarrow> x \<in> set s \<Longrightarrow> hex_digit x \<or> x = CHR ''-''"
  by (auto simp: canonical_uuid_iff hex_string_def list_all_iff)

lemma canonical_no_space: "canonical_uuid s \<Longrightarrow> list_all (\<lambda>c. \<not> py_space c) s"
  using canonical_uuid_chars hex_digit_facts(2) by (fastforce simp: list_all_iff py_space_def)

lemma uuid_text_canonical:
  assumes "canonical_uuid s"
  shows "uuid_text s = Some s"
proof -
  from assms obtain a b c d e where s: "s = a @ ''-'' @ b @ ''-'' @ c @ ''-'' @ d @ ''-'' @ e"
    and h: "hex_string 8 a" "hex_string 4 b" "hex_string 4 c" "hex_string 4 d" "hex_string 12 e"
    unfolding canonical_uuid_iff by blast
  let ?h = "a @ b @ c @ d @ e"
  have nu: "CHR ''u'' \<notin> set s"
    using canonical_uuid_chars[OF assms, of "CHR ''u''"] hex_digit_facts(8)[of "CHR ''u''"] by auto
  have nb: "dropWhile (\<lambda>c. c \<in> set ''{}'') t = t" if "set t \<subseteq> set s" for t
  proof (cases t)
    case (Cons x xs)
    then have "hex_digit x \<or> x = CHR ''-''" using that canonical_uuid_chars[OF assms] by auto
    then show ?thesis using Cons hex_digit_facts(9,10)[of x] by auto
  qed simp
  have nd: "filter (\<lambda>c. c \<noteq> CHR ''-'') g = g" if "hex_string n g" for n g
    using that hex_digit_facts(3) by (auto simp: hex_string_def list_all_iff filter_id_conv)
  have bare: "remove_all ''uuid:'' (remove_all ''urn:'' s) = s"
    using nu by (simp add: remove_all_absent)
  have "filter (\<lambda>c. c \<noteq> CHR ''-'') s = ?h" using h by (simp add: s nd)
  moreover have "dropWhile (\<lambda>c. c \<in> set ''{}'') s = s" "dropWhile (\<lambda>c. c \<in> set ''{}'') (rev s) = rev s"
    using nb by simp_all
  ultimately have hex: "uuid_hex s = ?h" unfolding uuid_hex_def Let_def bare by (simp only: rev_rev_ident)
  have "list_all hex_digit ?h" "length ?h = 32" "?h \<noteq> []"
    using h by (auto simp: hex_string_def)
  then have "uuid_text s = Some (uuid_layout ?h)"
    unfolding uuid_text_def Let_def hex by (simp add: int16_digits_hex del: append_is_Nil_conv list_all_append)
  moreover have "uuid_layout ?h = s" using h by (simp add: uuid_layout_def s hex_string_def)
  ultimately show ?thesis by simp
qed

lemma uuid_layout_canonical:
  assumes "list_all hex_digit h" "length h = 32"
  shows "canonical_uuid (uuid_layout h)"
  unfolding canonical_uuid_iff uuid_layout_def
proof (intro exI conjI)
  show "hex_string 8 (take 8 h)" "hex_string 4 (take 4 (drop 8 h))" "hex_string 4 (take 4 (drop 12 h))"
    "hex_string 4 (take 4 (drop 16 h))" "hex_string 12 (drop 20 h)"
    using assms by (auto simp: hex_string_def list_all_iff dest!: in_set_takeD in_set_dropD)
qed simp

lemma int16_digits_length:
  assumes "int16_digits text = Some ds"
  shows "length ds \<le> length (strip text)"
proof -
  define unsigned where
    "unsigned = (case strip text of c # r \<Rightarrow> if c = CHR ''+'' then r else strip text | [] \<Rightarrow> [])"
  define body where
    "body = (if starts_with ''0x'' unsigned \<or> starts_with ''0X'' unsigned then drop 2 unsigned else unsigned)"
  have "length unsigned \<le> length (strip text)" by (auto simp: unsigned_def split: list.splits)
  moreover have "length body \<le> length unsigned" by (simp add: body_def)
  moreover have "ds = lower (filter (\<lambda>c. c \<noteq> CHR ''_'') body)"
    using assms unfolding int16_digits_def Let_def unsigned_def[symmetric] body_def[symmetric]
    by (simp split: if_splits)
  then have "length ds \<le> length body" by (simp add: lower_def)
  ultimately show ?thesis by linarith
qed

lemma uuid_text_Some:
  assumes "uuid_text s = Some u"
  shows "canonical_uuid u"
proof -
  from assms obtain ds where len: "length (uuid_hex s) = 32" and ds: "int16_digits (uuid_hex s) = Some ds"
    and u: "u = uuid_layout (replicate (32 - length ds) (CHR ''0'') @ ds)"
    by (auto simp: uuid_text_def Let_def split: if_splits)
  have hex: "list_all hex_digit ds"
    using ds by (auto simp: int16_digits_def Let_def split: if_splits dest: underscored_hex_lower)
  have strip_le: "length (strip (uuid_hex s)) \<le> 32"
    unfolding strip_def len[symmetric] by (metis length_dropWhile_le length_rev order.trans)
  with int16_digits_length[OF ds] have "length ds \<le> 32" by (rule order.trans)
  moreover have "hex_digit (CHR ''0'')" by (simp add: hex_digit_def)
  then have "list_all hex_digit (replicate n (CHR ''0''))" for n by (induction n) simp_all
  ultimately show ?thesis using hex unfolding u by (intro uuid_layout_canonical) simp_all
qed

subsection \<open>Quoting\<close>

text \<open>\<open>urllib.parse.quote_plus\<close>: UTF-8 bytes, upper-case escapes.\<close>

definition hex_upper :: "nat \<Rightarrow> char" where
  "hex_upper n = char_of (if n < 10 then 48 + n else 55 + n)"

definition escaped_byte :: "nat \<Rightarrow> string" where
  "escaped_byte n = [CHR ''%'', hex_upper (n div 16), hex_upper (n mod 16)]"

definition quote_plus :: "string \<Rightarrow> string" where
  "quote_plus s = concat (map (\<lambda>c. let n = of_char c :: nat in
     if ascii_alnum c \<or> c \<in> set ''_.-~'' then [c]
     else if c = CHR '' '' then ''+''
     else if n < 128 then escaped_byte n
     else escaped_byte (192 + n div 64) @ escaped_byte (128 + n mod 64)) s)"

end
