(* ===== verification/Live_Sources.thy ===== *)
theory Live_Sources
  imports Url_Text Durable_State
begin

text \<open>
  The authorized live sources (\<open>modules/sports/src/live_sources.py\<close>): the source a Sports channel plays,
  with the event it belongs to, the resource accounts that may carry it and up to three playback options
  with routes and accounts of their own, kept in one durable JSON file. \<open>lo\<close> is the check of IP literals
  in URLs. The key order of a written object is not modelled: readers look fields up by name.
\<close>

subsection \<open>Data\<close>

datatype live_exn = LiveSourceCatalogError | LiveBuiltin pyexn

record playback_option =
  option_id :: string
  option_resource :: string
  option_url :: string
  option_channel_id :: int
  option_channel_uuid :: string
  option_stream_id :: int

record live_source =
  live_id :: string
  live_name :: string
  live_url :: string
  live_provider :: "string option"
  live_event :: "string option"
  live_standalone :: bool
  live_resources :: "string list"
  live_options :: "playback_option list"

abbreviation live_error :: "live_exn + 'a" where
  "live_error \<equiv> Inl LiveSourceCatalogError"

definition option_channel :: "string \<Rightarrow> playback_option \<Rightarrow> string" where
  "option_channel base p = (if option_id p = ''primary'' then base else base @ ''--'' @ option_id p)"

definition event_key :: "live_source \<Rightarrow> (string \<times> string) option" where
  "event_key s =
     (if truthy_text (live_provider s) \<and> truthy_text (live_event s)
      then Some (the (live_provider s), the (live_event s)) else None)"

definition source_channel_id :: "live_source \<Rightarrow> string" where
  "source_channel_id s = ''sports-live-'' @ live_id s"

definition option_dict :: "playback_option \<Rightarrow> pyval" where
  "option_dict p =
     PDict [(''option_id'', PStr (option_id p)), (''resource_source_id'', PStr (option_resource p)),
            (''stream_url'', PStr (option_url p)), (''dispatcharr_channel_id'', PInt (option_channel_id p)),
            (''dispatcharr_channel_uuid'', PStr (option_channel_uuid p)),
            (''dispatcharr_stream_id'', PInt (option_stream_id p))]"

definition source_dict :: "live_source \<Rightarrow> pyval" where
  "source_dict s =
     PDict ([(''id'', PStr (live_id s)), (''name'', PStr (live_name s)), (''stream_url'', PStr (live_url s))]
       @ (case live_provider s of None \<Rightarrow> [] | Some p \<Rightarrow> [(''provider'', PStr p)])
       @ (case live_event s of None \<Rightarrow> [] | Some e \<Rightarrow> [(''provider_event_id'', PStr e)])
       @ (if live_standalone s then [(''standalone'', PBool True)] else [])
       @ (if live_resources s = [] then []
          else [(''resource_source_ids'', PList (map PStr (live_resources s)))])
       @ (if live_options s = [] then []
          else [(''playback_options'', PList (map option_dict (live_options s)))]))"

subsection \<open>Validation\<close>

fun required_live :: "pyval \<Rightarrow> live_exn + string" where
  "required_live (PStr s) = (if strip s = [] then live_error else Inr (strip s))"
| "required_live _ = live_error"

fun optional_live :: "pyval \<Rightarrow> live_exn + string option" where
  "optional_live PNone = Inr None"
| "optional_live (PStr s) = Inr (if strip s = [] then None else Some (strip s))"
| "optional_live _ = live_error"

definition split_live :: "(string \<Rightarrow> bool) \<Rightarrow> string \<Rightarrow> live_exn + url_parts" where
  "split_live lo url = (case urlsplit lo url of None \<Rightarrow> Inl (LiveBuiltin ValueError) | Some u \<Rightarrow> Inr u)"

definition stream_url :: "(string \<Rightarrow> bool) \<Rightarrow> pyval \<Rightarrow> live_exn + string" where
  "stream_url lo v =
     rbind (required_live v) (\<lambda>url.
     rbind (split_live lo url) (\<lambda>u.
       if \<not> http_scheme u \<or> url_netloc u = [] then live_error
       else if truthy_text (url_username u) \<or> truthy_text (url_password u) then live_error
       else Inr url))"

definition option_fields :: "string list" where
  "option_fields = [''option_id'', ''resource_source_id'', ''stream_url'', ''dispatcharr_channel_id'',
     ''dispatcharr_channel_uuid'', ''dispatcharr_stream_id'']"

text \<open>\<open>[A-Za-z0-9_.:-]{1,160}\<close>\<close>

definition resource_text :: "string \<Rightarrow> bool" where
  "resource_text s \<longleftrightarrow> s \<noteq> [] \<and> length s \<le> 160 \<and> list_all token_tail_char s"

fun option_uuid :: "pyval \<Rightarrow> live_exn + string" where
  "option_uuid (PStr s) = (case uuid_text s of None \<Rightarrow> live_error | Some u \<Rightarrow> Inr u)"
| "option_uuid _ = live_error"

definition read_option :: "(string \<Rightarrow> bool) \<Rightarrow> string \<Rightarrow> string \<Rightarrow> pyval \<Rightarrow> live_exn + playback_option" where
  "read_option lo base expected row =
     (case row of
        PDict e \<Rightarrow>
          if set (map fst e) \<noteq> set option_fields then live_error
          else if dict_value e ''option_id'' \<noteq> PStr expected then live_error
          else
            rbind (required_live (dict_value e ''resource_source_id'')) (\<lambda>resource.
            if \<not> resource_text resource then live_error
            else if \<not> int_at_least 1 (dict_value e ''dispatcharr_channel_id'')
                 \<or> \<not> int_at_least 1 (dict_value e ''dispatcharr_stream_id'') then live_error
            else
              rbind (option_uuid (dict_value e ''dispatcharr_channel_uuid'')) (\<lambda>uuid.
              rbind (stream_url lo (dict_value e ''stream_url'')) (\<lambda>url.
              rbind (split_live lo url) (\<lambda>parsed.
              rbind (split_live lo base) (\<lambda>parent.
                if url_scheme parsed \<noteq> url_scheme parent \<or> url_netloc parsed \<noteq> url_netloc parent
                   \<or> \<not> ends_with (''/'' @ uuid) (rstrip_char (CHR ''/'') (url_path parsed))
                then live_error
                else Inr \<lparr>option_id = expected, option_resource = resource, option_url = url,
                          option_channel_id = int_value (dict_value e ''dispatcharr_channel_id''),
                          option_channel_uuid = uuid,
                          option_stream_id = int_value (dict_value e ''dispatcharr_stream_id'')\<rparr>)))))
      | _ \<Rightarrow> live_error)"

definition option_order :: "string list" where
  "option_order = [''primary'', ''backup-1'', ''backup-2'']"

fun read_options ::
  "(string \<Rightarrow> bool) \<Rightarrow> string \<Rightarrow> string list \<Rightarrow> pyval list \<Rightarrow> live_exn + playback_option list" where
  "read_options lo base (expected # order) (row # rows) =
     rbind (read_option lo base expected row) (\<lambda>p.
     rbind (read_options lo base order rows) (\<lambda>ps. Inr (p # ps)))"
| "read_options lo base order rows = Inr []"

text \<open>The options of one source do not share an account, a URL, a channel or a stream.\<close>

definition independent_options :: "playback_option list \<Rightarrow> bool" where
  "independent_options ps \<longleftrightarrow>
     distinct (map option_resource ps) \<and> distinct (map option_url ps) \<and> distinct (map option_channel_id ps)
     \<and> distinct (map option_channel_uuid ps) \<and> distinct (map option_stream_id ps)"

definition playback_options ::
  "(string \<Rightarrow> bool) \<Rightarrow> pyval \<Rightarrow> string \<Rightarrow> string list \<Rightarrow> live_exn + playback_option list" where
  "playback_options lo v base resources =
     (case v of
        PList rows \<Rightarrow>
          if length rows > 3 then live_error
          else rbind (read_options lo base option_order rows) (\<lambda>ps.
            if ps \<noteq> [] \<and> (option_url (hd ps) \<noteq> base \<or> map option_resource ps \<noteq> resources
                             \<or> \<not> independent_options ps)
            then live_error else Inr ps)
      | _ \<Rightarrow> live_error)"

definition source_fields :: "string list" where
  "source_fields = [''id'', ''name'', ''stream_url'', ''provider'', ''provider_event_id'', ''standalone'',
     ''resource_source_ids'', ''playback_options'']"

fun read_resources :: "pyval list \<Rightarrow> string list \<Rightarrow> live_exn + string list" where
  "read_resources [] seen = Inr seen"
| "read_resources (v # vs) seen =
     rbind (required_live v) (\<lambda>s. if s \<in> set seen then live_error else read_resources vs (seen @ [s]))"

definition resource_ids :: "pyval \<Rightarrow> live_exn + string list" where
  "resource_ids v = (case v of PList vs \<Rightarrow> read_resources vs [] | _ \<Rightarrow> live_error)"

definition bool_field :: "pyval \<Rightarrow> live_exn + bool" where
  "bool_field v = (case v of PBool b \<Rightarrow> Inr b | _ \<Rightarrow> live_error)"

definition parse_source :: "(string \<Rightarrow> bool) \<Rightarrow> pyval \<Rightarrow> live_exn + live_source" where
  "parse_source lo entry =
     (case entry of
        PDict e \<Rightarrow>
          if \<not> set (map fst e) \<subseteq> set source_fields then live_error
          else
            rbind (required_live (dict_value e ''id'')) (\<lambda>sid.
            rbind (required_live (dict_value e ''name'')) (\<lambda>name.
            rbind (stream_url lo (dict_value e ''stream_url'')) (\<lambda>url.
            rbind (optional_live (dict_value e ''provider'')) (\<lambda>provider.
            rbind (optional_live (dict_value e ''provider_event_id'')) (\<lambda>event.
            rbind (bool_field (dict_default e ''standalone'' (PBool False))) (\<lambda>standalone.
            rbind (resource_ids (dict_default e ''resource_source_ids'' (PList []))) (\<lambda>resources.
              if (provider = None) \<noteq> (event = None) then live_error
              else if standalone = (event \<noteq> None) then live_error
              else rbind (playback_options lo (dict_default e ''playback_options'' (PList [])) url resources)
                (\<lambda>ps. Inr \<lparr>live_id = sid, live_name = name, live_url = url,
                          live_provider = map_option lower provider, live_event = event,
                          live_standalone = standalone, live_resources = resources,
                          live_options = ps\<rparr>))))))))
      | _ \<Rightarrow> live_error)"

subsection \<open>Catalog and registry file\<close>

fun check_catalog ::
  "live_source list \<Rightarrow> string list \<Rightarrow> (string \<times> string) list \<Rightarrow> live_exn + unit" where
  "check_catalog [] ids keys = Inr ()"
| "check_catalog (s # ss) ids keys =
     (if live_id s \<in> set ids then live_error
      else (case event_key s of
          None \<Rightarrow> check_catalog ss (live_id s # ids) keys
        | Some k \<Rightarrow> if k \<in> set keys then live_error else check_catalog ss (live_id s # ids) (k # keys)))"

definition new_catalog :: "live_source list \<Rightarrow> live_exn + live_source list" where
  "new_catalog ss = rbind (check_catalog ss [] []) (\<lambda>_. Inr ss)"

definition for_event :: "live_source list \<Rightarrow> pyval \<Rightarrow> pyval \<Rightarrow> live_exn + live_source option" where
  "for_event ss provider event =
     rbind (required_live provider) (\<lambda>p.
     rbind (required_live event) (\<lambda>e. Inr (find (\<lambda>s. event_key s = Some (lower p, e)) ss)))"

definition standalone_sources :: "live_source list \<Rightarrow> live_source list" where
  "standalone_sources ss = filter live_standalone ss"

text \<open>\<open>version not in {None, 1}\<close>: membership by equality, after hashing.\<close>

fun live_version :: "pyval \<Rightarrow> live_exn + unit" where
  "live_version PNone = Inr ()"
| "live_version (PInt n) = (if n = 1 then Inr () else live_error)"
| "live_version (PBool b) = (if b then Inr () else live_error)"
| "live_version (PFloat x) = (if x = Fin 1 then Inr () else live_error)"
| "live_version (PStr _) = live_error"
| "live_version (PTuple _) = live_error"
| "live_version _ = Inl (LiveBuiltin TypeError)"

fun parse_sources :: "(string \<Rightarrow> bool) \<Rightarrow> pyval list \<Rightarrow> live_exn + live_source list" where
  "parse_sources lo [] = Inr []"
| "parse_sources lo (v # vs) =
     rbind (parse_source lo v) (\<lambda>s. rbind (parse_sources lo vs) (\<lambda>ss. Inr (s # ss)))"

definition catalog_from_document :: "(string \<Rightarrow> bool) \<Rightarrow> pyval \<Rightarrow> live_exn + live_source list" where
  "catalog_from_document lo raw =
     (case raw of
        PDict p \<Rightarrow>
          rbind (live_version (dict_value p ''version'')) (\<lambda>_.
            if \<not> set (map fst p) \<subseteq> {''version'', ''sources''} then live_error
            else (case dict_default p ''sources'' (PList []) of
                PList entries \<Rightarrow> rbind (parse_sources lo entries) new_catalog
              | _ \<Rightarrow> live_error))
      | _ \<Rightarrow> live_error)"

fun load_sources :: "(string \<Rightarrow> bool) \<Rightarrow> state_file \<Rightarrow> live_exn + live_source list" where
  "load_sources lo Absent = Inr []"
| "load_sources lo Unreadable = live_error"
| "load_sources lo (Document raw) = catalog_from_document lo raw"

definition sources_document :: "live_source list \<Rightarrow> state_file" where
  "sources_document ss =
     Document (PDict [(''version'', PInt 1), (''sources'', PList (map source_dict ss))])"

text \<open>\<open>_write_locked\<close> validates the whole catalog before it replaces the file.\<close>

definition write_sources :: "live_source list \<Rightarrow> 'a \<Rightarrow> state_file \<Rightarrow> (live_exn + 'a) \<times> state_file" where
  "write_sources ss r f =
     (case new_catalog ss of Inl e \<Rightarrow> (Inl e, f) | Inr ss' \<Rightarrow> (Inr r, sources_document ss'))"

subsection \<open>Registry operations\<close>

definition ensure_sources :: "(string \<Rightarrow> bool) \<Rightarrow> state_file \<Rightarrow> (live_exn + unit) \<times> state_file" where
  "ensure_sources lo f =
     (if f = Absent then write_sources [] () f
      else (case load_sources lo f of Inl e \<Rightarrow> (Inl e, f) | Inr _ \<Rightarrow> (Inr (), f)))"

definition add_source ::
  "(string \<Rightarrow> bool) \<Rightarrow> live_source \<Rightarrow> state_file \<Rightarrow> (live_exn + live_source) \<times> state_file" where
  "add_source lo source f =
     (case rbind (parse_source lo (source_dict source)) (\<lambda>s. rbind (load_sources lo f) (\<lambda>ss. Inr (s, ss)))
      of Inl e \<Rightarrow> (Inl e, f)
       | Inr (s, ss) \<Rightarrow>
           if list_ex (\<lambda>x. live_id x = live_id s) ss then (live_error, f)
           else write_sources (ss @ [s]) s f)"

definition set_source ::
  "(string \<Rightarrow> bool) \<Rightarrow> live_source \<Rightarrow> state_file \<Rightarrow> (live_exn + live_source) \<times> state_file" where
  "set_source lo source f =
     (case rbind (parse_source lo (source_dict source)) (\<lambda>s. rbind (load_sources lo f) (\<lambda>ss. Inr (s, ss)))
      of Inl e \<Rightarrow> (Inl e, f)
       | Inr (s, ss) \<Rightarrow>
           let updated = map (\<lambda>x. if live_id x = live_id s then s else x) ss
                         @ (if list_ex (\<lambda>x. live_id x = live_id s) ss then [] else [s])
           in write_sources updated s f)"

definition delete_source ::
  "(string \<Rightarrow> bool) \<Rightarrow> pyval \<Rightarrow> state_file \<Rightarrow> (live_exn + bool) \<times> state_file" where
  "delete_source lo sid_arg f =
     (case rbind (required_live sid_arg) (\<lambda>sid. rbind (load_sources lo f) (\<lambda>ss. Inr (sid, ss)))
      of Inl e \<Rightarrow> (Inl e, f)
       | Inr (sid, ss) \<Rightarrow>
           let updated = filter (\<lambda>x. live_id x \<noteq> sid) ss
           in if length updated = length ss then (Inr False, f) else write_sources updated True f)"

definition option_summary :: "string \<Rightarrow> playback_option \<Rightarrow> pyval" where
  "option_summary base p =
     PDict [(''option_id'', PStr (option_id p)), (''atlas_channel_id'', PStr (option_channel base p)),
            (''resource_source_id'', PStr (option_resource p))]"

definition safe_source_summary :: "live_source \<Rightarrow> pyval" where
  "safe_source_summary s =
     PDict ([(''id'', PStr (live_id s)), (''name'', PStr (live_name s)),
             (''provider'', optional_json (live_provider s)),
             (''provider_event_id'', optional_json (live_event s)),
             (''standalone'', PBool (live_standalone s))]
       @ (if live_resources s = [] then []
          else [(''atlas_channel_id'', PStr (source_channel_id s)),
                (''resource_source_ids'', PList (map PStr (live_resources s)))])
       @ (if live_options s = [] then []
          else [(''playback_options'', PList (map (option_summary (source_channel_id s)) (live_options s)))]))"

end
