(* ===== verification/Live_Safety.thy ===== *)
theory Live_Safety
  imports Live_Sources
begin

text \<open>
  Correctness of the live-source registry: a parsed source is a fixed point of writing and parsing, the
  file satisfies the durable-state contract, the options of a loaded source are independent routes on one
  server, an update changes exactly its source, and the public summary does not depend on any URL.
\<close>

subsection \<open>Parsed values are fixed points\<close>

lemma required_live_Inr: "required_live v = Inr s \<Longrightarrow> strip s = s \<and> s \<noteq> []"
  by (cases v) (auto split: if_splits)

lemma required_live_id [simp]: "strip s = s \<Longrightarrow> s \<noteq> [] \<Longrightarrow> required_live (PStr s) = Inr s"
  by simp

declare required_live.simps(1) [simp del]

lemma optional_live_Inr: "optional_live v = Inr (Some s) \<Longrightarrow> strip s = s \<and> s \<noteq> []"
  by (cases v) (auto split: if_splits)

lemma optional_live_id [simp]: "strip s = s \<Longrightarrow> s \<noteq> [] \<Longrightarrow> optional_live (PStr s) = Inr (Some s)"
  by simp

declare optional_live.simps(2) [simp del]

lemma stream_url_Inr:
  assumes "stream_url lo v = Inr url"
  shows "strip url = url" "url \<noteq> []" "stream_url lo (PStr url) = Inr url"
    "\<exists>u. urlsplit lo url = Some u \<and> http_scheme u \<and> url_netloc u \<noteq> []
         \<and> \<not> truthy_text (url_username u) \<and> \<not> truthy_text (url_password u)"
proof -
  from assms obtain u where r: "required_live v = Inr url" and u: "urlsplit lo url = Some u"
    and ok: "http_scheme u" "url_netloc u \<noteq> []" "\<not> truthy_text (url_username u)" "\<not> truthy_text (url_password u)"
    by (auto simp: stream_url_def split_live_def rbind_Inr_iff split: option.splits if_splits)
  from required_live_Inr[OF r] show s: "strip url = url" "url \<noteq> []" by simp_all
  show "stream_url lo (PStr url) = Inr url" using s u ok by (simp add: stream_url_def split_live_def)
  show "\<exists>u. urlsplit lo url = Some u \<and> http_scheme u \<and> url_netloc u \<noteq> []
         \<and> \<not> truthy_text (url_username u) \<and> \<not> truthy_text (url_password u)"
    using u ok by blast
qed

text \<open>What a read option satisfies, relative to the URL of its source.\<close>

definition wf_option :: "(string \<Rightarrow> bool) \<Rightarrow> string \<Rightarrow> playback_option \<Rightarrow> bool" where
  "wf_option lo base p \<longleftrightarrow>
     strip (option_resource p) = option_resource p \<and> resource_text (option_resource p)
     \<and> 1 \<le> option_channel_id p \<and> 1 \<le> option_stream_id p \<and> canonical_uuid (option_channel_uuid p)
     \<and> stream_url lo (PStr (option_url p)) = Inr (option_url p)
     \<and> (\<exists>u b. urlsplit lo (option_url p) = Some u \<and> urlsplit lo base = Some b
            \<and> url_scheme u = url_scheme b \<and> url_netloc u = url_netloc b
            \<and> ends_with (''/'' @ option_channel_uuid p) (rstrip_char (CHR ''/'') (url_path u)))"

lemma int_at_least_iff: "int_at_least k v \<longleftrightarrow> (\<exists>n. v = PInt n \<and> k \<le> n)"
  by (cases v) auto

lemma read_option_Inr:
  assumes "read_option lo base expected row = Inr p"
  shows "option_id p = expected" "wf_option lo base p"
proof -
  from assms obtain e where e: "row = PDict e" by (cases row) (auto simp: read_option_def)
  let ?i = "dict_value e ''dispatcharr_channel_id''" and ?s = "dict_value e ''dispatcharr_stream_id''"
  from assms[unfolded e read_option_def, simplified] obtain resource uuid url parsed parent where
    r: "required_live (dict_value e ''resource_source_id'') = Inr resource" "resource_text resource"
    and n: "int_at_least 1 ?i" "int_at_least 1 ?s"
    and u: "option_uuid (dict_value e ''dispatcharr_channel_uuid'') = Inr uuid"
    and url: "stream_url lo (dict_value e ''stream_url'') = Inr url"
    and sp: "split_live lo url = Inr parsed" "split_live lo base = Inr parent"
    and same: "url_scheme parsed = url_scheme parent" "url_netloc parsed = url_netloc parent"
      "ends_with (''/'' @ uuid) (rstrip_char (CHR ''/'') (url_path parsed))"
    and p: "p = \<lparr>option_id = expected, option_resource = resource, option_url = url,
              option_channel_id = int_value ?i, option_channel_uuid = uuid, option_stream_id = int_value ?s\<rparr>"
    by (simp only: rbind_Inr_iff if_False split: if_split_asm) (simp_all, blast?)
  have "canonical_uuid uuid"
    using u by (cases "dict_value e ''dispatcharr_channel_uuid''") (auto dest: uuid_text_Some split: option.splits)
  moreover have "urlsplit lo url = Some parsed" "urlsplit lo base = Some parent"
    using sp by (auto simp: split_live_def split: option.splits)
  moreover have "1 \<le> int_value ?i" "1 \<le> int_value ?s" using n by (auto simp: int_at_least_iff)
  ultimately show "option_id p = expected" "wf_option lo base p"
    using r required_live_Inr[OF r(1)] stream_url_Inr(3)[OF url] same
    by (auto simp: wf_option_def p)
qed

lemma read_option_dict:
  assumes "wf_option lo base p"
  shows "read_option lo base (option_id p) (option_dict p) = Inr p"
proof -
  have "uuid_text (option_channel_uuid p) = Some (option_channel_uuid p)"
    using assms by (simp add: wf_option_def uuid_text_canonical)
  moreover have "option_resource p \<noteq> []" using assms by (simp add: wf_option_def resource_text_def)
  ultimately show ?thesis using assms unfolding wf_option_def
    by (cases p) (auto simp: read_option_def option_dict_def option_fields_def dict_default_def split_live_def)
qed

lemma read_options_Inr:
  "read_options lo base order rows = Inr ps \<Longrightarrow>
   list_all (wf_option lo base) ps \<and> map option_id ps = take (length ps) order
   \<and> length ps \<le> length rows"
proof (induction lo base order rows arbitrary: ps rule: read_options.induct)
  case (1 lo base expected order row rows)
  from "1.prems" obtain p qs where p: "read_option lo base expected row = Inr p"
    and qs: "read_options lo base order rows = Inr qs" and ps: "ps = p # qs"
    by (auto simp: rbind_Inr_iff)
  from read_option_Inr[OF p] "1.IH"[OF p qs] show ?case by (simp add: ps)
qed simp_all

lemma read_options_dicts:
  "list_all (wf_option lo base) ps \<Longrightarrow> map option_id ps = take (length ps) order \<Longrightarrow>
   read_options lo base order (map option_dict ps) = Inr ps"
proof (induction ps arbitrary: order)
  case (Cons p ps)
  then obtain order' where "order = option_id p # order'" by (cases order) auto
  with Cons show ?case by (simp add: read_option_dict)
qed simp

definition wf_options :: "(string \<Rightarrow> bool) \<Rightarrow> string \<Rightarrow> string list \<Rightarrow> playback_option list \<Rightarrow> bool" where
  "wf_options lo base resources ps \<longleftrightarrow>
     length ps \<le> 3 \<and> list_all (wf_option lo base) ps \<and> map option_id ps = take (length ps) option_order
     \<and> (ps \<noteq> [] \<longrightarrow> option_url (hd ps) = base \<and> map option_resource ps = resources \<and> independent_options ps)"

lemma playback_options_Inr:
  "playback_options lo v base resources = Inr ps \<Longrightarrow> wf_options lo base resources ps"
  by (cases v) (auto simp: playback_options_def rbind_Inr_iff wf_options_def split: if_splits
      dest!: read_options_Inr)

lemma playback_options_dicts:
  "wf_options lo base resources ps \<Longrightarrow>
   playback_options lo (PList (map option_dict ps)) base resources = Inr ps"
  by (auto simp: playback_options_def wf_options_def read_options_dicts)

lemma read_resources_Inr:
  assumes "read_resources vs seen = Inr rs" "distinct seen" "list_all (\<lambda>s. strip s = s \<and> s \<noteq> []) seen"
  shows "distinct rs \<and> list_all (\<lambda>s. strip s = s \<and> s \<noteq> []) rs"
  using assms
  by (induction vs seen rule: read_resources.induct)
     (auto simp: rbind_Inr_iff dest: required_live_Inr split: if_splits)

lemma read_resources_texts:
  "distinct (seen @ rs) \<Longrightarrow> list_all (\<lambda>s. strip s = s \<and> s \<noteq> []) rs \<Longrightarrow>
   read_resources (map PStr rs) seen = Inr (seen @ rs)"
  by (induction rs arbitrary: seen) auto

definition wf_source :: "(string \<Rightarrow> bool) \<Rightarrow> live_source \<Rightarrow> bool" where
  "wf_source lo s \<longleftrightarrow>
     strip (live_id s) = live_id s \<and> live_id s \<noteq> [] \<and> strip (live_name s) = live_name s \<and> live_name s \<noteq> []
     \<and> stream_url lo (PStr (live_url s)) = Inr (live_url s)
     \<and> (\<forall>p. live_provider s = Some p \<longrightarrow> strip p = p \<and> p \<noteq> [] \<and> lower p = p)
     \<and> (\<forall>e. live_event s = Some e \<longrightarrow> strip e = e \<and> e \<noteq> [])
     \<and> (live_provider s = None \<longleftrightarrow> live_event s = None) \<and> live_standalone s = (live_event s = None)
     \<and> distinct (live_resources s) \<and> list_all (\<lambda>r. strip r = r \<and> r \<noteq> []) (live_resources s)
     \<and> wf_options lo (live_url s) (live_resources s) (live_options s)"

lemma parse_source_Inr:
  assumes "parse_source lo v = Inr s"
  shows "wf_source lo s"
proof -
  from assms obtain e where e: "v = PDict e" by (cases v) (auto simp: parse_source_def)
  from assms obtain sid name url provider event standalone resources ps where
    r: "required_live (dict_value e ''id'') = Inr sid" "required_live (dict_value e ''name'') = Inr name"
      "stream_url lo (dict_value e ''stream_url'') = Inr url"
    and o: "optional_live (dict_value e ''provider'') = Inr provider"
      "optional_live (dict_value e ''provider_event_id'') = Inr event"
    and rs: "resource_ids (dict_default e ''resource_source_ids'' (PList [])) = Inr resources"
    and c: "(provider = None) = (event = None)" "standalone \<noteq> (event \<noteq> None)"
    and ps: "playback_options lo (dict_default e ''playback_options'' (PList [])) url resources = Inr ps"
    and s: "s = \<lparr>live_id = sid, live_name = name, live_url = url, live_provider = map_option lower provider,
      live_event = event, live_standalone = standalone, live_resources = resources, live_options = ps\<rparr>"
    unfolding e parse_source_def pyval.case Inr_iffs by blast
  have "strip (lower p) = lower p \<and> lower p \<noteq> []" if "provider = Some p" for p
    using o(1) that optional_live_Inr by auto
  moreover have "strip p = p \<and> p \<noteq> []" if "event = Some p" for p
    using o(2) that optional_live_Inr by auto
  moreover have "distinct resources \<and> list_all (\<lambda>s. strip s = s \<and> s \<noteq> []) resources"
    using rs by (cases "dict_default e ''resource_source_ids'' (PList [])")
      (auto simp: resource_ids_def dest: read_resources_Inr)
  ultimately show ?thesis
    using required_live_Inr[OF r(1)] required_live_Inr[OF r(2)] stream_url_Inr(3)[OF r(3)] c
      playback_options_Inr[OF ps]
    by (auto simp: wf_source_def s)
qed

lemma source_dict_fields:
  fixes s :: live_source
  defines "flds \<equiv> (case source_dict s of PDict e \<Rightarrow> e | _ \<Rightarrow> [])"
  shows "source_dict s = PDict flds" "set (map fst flds) \<subseteq> set source_fields"
    "dict_value flds ''id'' = PStr (live_id s)" "dict_value flds ''name'' = PStr (live_name s)"
    "dict_value flds ''stream_url'' = PStr (live_url s)"
    "dict_value flds ''provider'' = (case live_provider s of None \<Rightarrow> PNone | Some p \<Rightarrow> PStr p)"
    "dict_value flds ''provider_event_id'' = (case live_event s of None \<Rightarrow> PNone | Some p \<Rightarrow> PStr p)"
    "dict_default flds ''standalone'' (PBool False) = PBool (live_standalone s)"
    "dict_default flds ''resource_source_ids'' (PList []) = PList (map PStr (live_resources s))"
    "dict_default flds ''playback_options'' (PList []) = PList (map option_dict (live_options s))"
  unfolding flds_def source_dict_def
  by (cases "live_provider s"; cases "live_event s"; cases "live_standalone s"; cases "live_resources s";
      cases "live_options s"; simp add: source_fields_def dict_default_def)+

lemma parse_source_dict:
  assumes "wf_source lo s"
  shows "parse_source lo (source_dict s) = Inr s"
proof -
  define flds where "flds = (case source_dict s of PDict e \<Rightarrow> e | _ \<Rightarrow> [])"
  note fs = source_dict_fields[of s, folded flds_def]
  have "optional_live (dict_value flds ''provider'') = Inr (live_provider s)"
    "optional_live (dict_value flds ''provider_event_id'') = Inr (live_event s)"
    using assms by (auto simp: fs(6,7) wf_source_def split: option.splits)
  moreover have "resource_ids (PList (map PStr (live_resources s))) = Inr (live_resources s)"
    using assms read_resources_texts[of "[]" "live_resources s"] by (simp add: resource_ids_def wf_source_def)
  moreover have "playback_options lo (PList (map option_dict (live_options s))) (live_url s) (live_resources s)
      = Inr (live_options s)"
    using assms by (simp add: wf_source_def playback_options_dicts)
  moreover have "map_option lower (live_provider s) = live_provider s"
    using assms by (cases "live_provider s") (auto simp: wf_source_def)
  ultimately show ?thesis using assms fs(2) unfolding fs(1) parse_source_def
    by (simp add: fs(3-5,8-10) wf_source_def bool_field_def)
qed

subsection \<open>The catalog and its file\<close>

definition wf_catalog :: "(string \<Rightarrow> bool) \<Rightarrow> live_source list \<Rightarrow> bool" where
  "wf_catalog lo ss \<longleftrightarrow>
     list_all (wf_source lo) ss \<and> distinct (map live_id ss)
     \<and> (\<forall>s \<in> set ss. \<forall>t \<in> set ss. event_key s = event_key t \<longrightarrow> event_key s \<noteq> None \<longrightarrow> s = t)"

lemma check_catalog_iff:
  "check_catalog ss ids keys = Inr u \<longleftrightarrow>
     distinct (map live_id ss) \<and> set ids \<inter> set (map live_id ss) = {}
     \<and> distinct (List.map_filter event_key ss) \<and> set keys \<inter> set (List.map_filter event_key ss) = {}"
  by (induction ss ids keys rule: check_catalog.induct)
     (auto simp: List.map_filter_simps split: option.splits)

lemma wf_catalogD:
  assumes "wf_catalog lo ss"
  shows "list_all (wf_source lo) ss" "distinct (map live_id ss)"
    "s \<in> set ss \<Longrightarrow> t \<in> set ss \<Longrightarrow> event_key s = Some k \<Longrightarrow> event_key t = Some k \<Longrightarrow> s = t"
    "s \<in> set ss \<Longrightarrow> wf_source lo s"
  using assms unfolding wf_catalog_def list_all_iff by (blast, blast, metis option.distinct(1), blast)

lemma set_map_filter: "set (List.map_filter g xs) = {k. \<exists>x \<in> set xs. g x = Some k}"
  by (induction xs) (auto simp: List.map_filter_simps split: option.splits)

lemma distinct_map_filter:
  "distinct xs \<Longrightarrow> distinct (List.map_filter g xs) \<longleftrightarrow>
     (\<forall>x \<in> set xs. \<forall>y \<in> set xs. g x = g y \<longrightarrow> g x \<noteq> None \<longrightarrow> x = y)"
proof (induction xs)
  case (Cons x xs)
  show ?case
  proof (cases "g x")
    case None
    with Cons show ?thesis by (auto simp: List.map_filter_simps)
  next
    case (Some k)
    have "x \<notin> set xs" using Cons.prems by simp
    then have "(\<forall>y \<in> set xs. g y \<noteq> Some k) \<longleftrightarrow> (\<forall>y \<in> set xs. g x = g y \<longrightarrow> x = y)"
      using Some by (metis (mono_tags))
    with Cons Some show ?thesis
      by (simp add: List.map_filter_simps set_map_filter) (rule conj_cong; fastforce)
  qed
qed (simp add: List.map_filter_simps)

lemma new_catalog_iff:
  assumes "list_all (wf_source lo) ss"
  shows "new_catalog ss = Inr ss' \<longleftrightarrow> ss' = ss \<and> wf_catalog lo ss"
proof -
  have "distinct ss" if "distinct (map live_id ss)" using that by (simp add: distinct_map)
  then have "check_catalog ss [] [] = Inr () \<longleftrightarrow> wf_catalog lo ss"
    using assms distinct_map_filter[of ss event_key] by (auto simp: check_catalog_iff wf_catalog_def)
  then show ?thesis by (auto simp: new_catalog_def rbind_Inr_iff)
qed

lemma parse_sources_Inr: "parse_sources lo vs = Inr ss \<Longrightarrow> list_all (wf_source lo) ss"
  by (induction vs arbitrary: ss) (auto simp: rbind_Inr_iff dest: parse_source_Inr)

lemma parse_sources_dicts: "list_all (wf_source lo) ss \<Longrightarrow> parse_sources lo (map source_dict ss) = Inr ss"
  by (induction ss) (auto simp: parse_source_dict)

lemma catalog_from_document_Inr:
  assumes "catalog_from_document lo raw = Inr ss"
  shows "wf_catalog lo ss"
proof -
  have "\<exists>entries. rbind (parse_sources lo entries) new_catalog = Inr ss"
  proof (cases raw)
    case (PDict p)
    from assms have "(case dict_default p ''sources'' (PList []) of
        PList entries \<Rightarrow> rbind (parse_sources lo entries) new_catalog | _ \<Rightarrow> live_error) = Inr ss"
      unfolding catalog_from_document_def PDict pyval.case Inr_iffs by (elim exE conjE)
    then show ?thesis by (cases "dict_default p ''sources'' (PList [])") auto
  qed (use assms in \<open>simp_all add: catalog_from_document_def\<close>)
  then obtain entries ss0 where ss0: "parse_sources lo entries = Inr ss0" "new_catalog ss0 = Inr ss"
    by (auto simp: rbind_Inr_iff)
  then show ?thesis by (simp add: new_catalog_iff[OF parse_sources_Inr[OF ss0(1)]])
qed

lemma load_sources_Inr: "load_sources lo f = Inr ss \<Longrightarrow> wf_catalog lo ss"
  by (cases f) (auto dest: catalog_from_document_Inr simp: wf_catalog_def)

lemma load_sources_document: "wf_catalog lo ss \<Longrightarrow> load_sources lo (sources_document ss) = Inr ss"
  using new_catalog_iff[OF wf_catalogD(1), of lo ss ss]
  by (simp add: sources_document_def catalog_from_document_def dict_default_def parse_sources_dicts
      wf_catalogD(1))

interpretation live_file: durable_state "load_sources lo" sources_document "wf_catalog lo" "\<lambda>ss. ss"
  for lo
  by unfold_locales (auto intro: load_sources_Inr load_sources_document)

lemma write_sources_Inr:
  assumes "write_sources ss r f = (Inr x, f')" "list_all (wf_source lo) ss"
  shows "x = r" "wf_catalog lo ss" "f' = sources_document ss"
proof -
  from assms(1) obtain ss' where "new_catalog ss = Inr ss'" "x = r" "f' = sources_document ss'"
    by (auto simp: write_sources_def split: sum.splits)
  then show "x = r" "wf_catalog lo ss" "f' = sources_document ss"
    by (simp_all add: new_catalog_iff[OF assms(2)])
qed

lemma write_sources_unchanged: "write_sources ss r f = (Inl e, f') \<Longrightarrow> f' = f"
  by (auto simp: write_sources_def split: sum.splits)

subsection \<open>Operations\<close>

definition updated_sources :: "live_source \<Rightarrow> live_source list \<Rightarrow> live_source list" where
  "updated_sources s ss =
     map (\<lambda>x. if live_id x = live_id s then s else x) ss
       @ (if list_ex (\<lambda>x. live_id x = live_id s) ss then [] else [s])"

lemma updated_sources_set: "set (updated_sources s ss) = insert s {x \<in> set ss. live_id x \<noteq> live_id s}"
  by (auto simp: updated_sources_def list_ex_iff)

lemma set_source_Inr:
  assumes "set_source lo source f = (Inr s, f')"
  obtains ss where "load_sources lo f = Inr ss" "parse_source lo (source_dict source) = Inr s"
    "wf_catalog lo (updated_sources s ss)" "load_sources lo f' = Inr (updated_sources s ss)"
proof -
  from assms obtain s0 ss where p: "parse_source lo (source_dict source) = Inr s0"
    and l: "load_sources lo f = Inr ss" and w: "write_sources (updated_sources s0 ss) s0 f = (Inr s, f')"
    by (auto simp: set_source_def rbind_Inr_iff updated_sources_def Let_def split: sum.splits)
  have "list_all (wf_source lo) (updated_sources s0 ss)"
    using parse_source_Inr[OF p] wf_catalogD(4)[OF load_sources_Inr[OF l]]
    by (auto simp: list_all_iff updated_sources_set)
  from write_sources_Inr[OF w this] p show ?thesis
    by (intro that[OF l]) (auto simp: load_sources_document)
qed

lemma operations_unchanged:
  "set_source lo source f = (Inl e, f') \<Longrightarrow> f' = f"
  "add_source lo source f = (Inl e, f') \<Longrightarrow> f' = f"
  "delete_source lo v f = (Inl e, f') \<Longrightarrow> f' = f"
  by (auto simp: set_source_def add_source_def delete_source_def Let_def
      split: sum.splits if_splits dest: write_sources_unchanged)

lemma add_is_set:
  assumes "add_source lo source f = (Inr s, f')"
  shows "set_source lo source f = (Inr s, f')"
proof -
  have same: "map (\<lambda>x. if live_id x = live_id s then s else x) ss = ss"
    if "\<not> list_ex (\<lambda>x. live_id x = live_id s) ss" for s ss
    using that by (auto simp: list_ex_iff intro: map_idI)
  show ?thesis using assms
    by (auto simp: add_source_def set_source_def Let_def same split: sum.splits if_splits)
qed

lemma find_unique:
  assumes "x \<in> set xs" "P x" "\<And>y. y \<in> set xs \<Longrightarrow> P y \<Longrightarrow> y = x"
  shows "find P xs = Some x"
proof (cases "find P xs")
  case None
  with assms(1,2) show ?thesis by (simp add: find_None_iff)
next
  case (Some y)
  then have "y \<in> set xs \<and> P y" by (metis find_Some_iff nth_mem)
  then have "y = x" by (intro assms(3)) simp_all
  with Some show ?thesis by simp
qed

lemma for_event_unique:
  assumes "wf_catalog lo ss" "s \<in> set ss" "event_key s = Some (p, e)"
  shows "for_event ss (PStr p) (PStr e) = Inr (Some s)"
proof -
  have "wf_source lo s" using assms(1,2) by (rule wf_catalogD(4))
  then have pe: "strip p = p" "p \<noteq> []" "lower p = p" "strip e = e" "e \<noteq> []"
    using assms(3) by (auto simp: event_key_def wf_source_def truthy_text_def split: if_splits)
  have "find (\<lambda>s. event_key s = Some (p, e)) ss = Some s"
  proof (rule find_unique)
    show "t = s" if "t \<in> set ss" "event_key t = Some (p, e)" for t
      by (rule wf_catalogD(3)[OF assms(1) that(1) assms(2) that(2) assms(3)])
  qed (fact assms)+
  then show ?thesis using pe by (simp add: for_event_def)
qed


text \<open>
  The properties of the live-source registry, with a concrete source that has a primary and a backup
  route.
\<close>

subsection \<open>A concrete source\<close>

definition demo_option :: "string \<Rightarrow> string \<Rightarrow> string \<Rightarrow> int \<Rightarrow> playback_option" where
  "demo_option i account uuid n =
     \<lparr>option_id = i, option_resource = account, option_url = ''http://proxy:9191/proxy/ts/stream/'' @ uuid,
      option_channel_id = n, option_channel_uuid = uuid, option_stream_id = n + 10\<rparr>"

definition demo_uuid_a :: string where
  "demo_uuid_a = ''00000000-0000-0000-0000-00000000000a''"

definition demo_uuid_b :: string where
  "demo_uuid_b = ''00000000-0000-0000-0000-00000000000b''"

definition demo_source :: live_source where
  "demo_source =
     \<lparr>live_id = ''match-1'', live_name = ''Match'', live_url = ''http://proxy:9191/proxy/ts/stream/'' @ demo_uuid_a,
      live_provider = Some ''espn'', live_event = Some ''e1'', live_standalone = False,
      live_resources = [''acc-1'', ''acc-2''],
      live_options = [demo_option ''primary'' ''acc-1'' demo_uuid_a 1, demo_option ''backup-1'' ''acc-2'' demo_uuid_b 2]\<rparr>"

abbreviation no_literals :: "string \<Rightarrow> bool" where
  "no_literals \<equiv> (\<lambda>_. False)"

definition demo_catalog_file :: state_file where
  "demo_catalog_file = snd (set_source no_literals demo_source Absent)"

lemma demo_source_run: "set_source no_literals demo_source Absent = (Inr demo_source, demo_catalog_file)"
proof -
  have "fst (set_source no_literals demo_source Absent) = Inr demo_source" by code_simp
  then show ?thesis unfolding demo_catalog_file_def by (cases "set_source no_literals demo_source Absent") simp
qed

lemma demo_catalog_loads: "load_sources no_literals demo_catalog_file = Inr [demo_source]"
  by code_simp

subsection \<open>Properties\<close>

text \<open>
  Setting a source replaces or adds exactly that source: afterwards the file holds it, every source
  with another id is still there unchanged and nothing else is, and an event-bound source is the one the
  catalog finds for its event.
\<close>

theorem set_source_effect:
  assumes "set_source lo source f = (Inr s, f')" and "load_sources lo f = Inr ss"
  shows "\<exists>ss'. load_sources lo f' = Inr ss' \<and> set ss' = insert s {x \<in> set ss. live_id x \<noteq> live_id s}
    \<and> (event_key s = Some (p, e) \<longrightarrow> for_event ss' (PStr p) (PStr e) = Inr (Some s))"
proof -
  from assms(1) obtain ss0 where l: "load_sources lo f = Inr ss0"
    and w: "wf_catalog lo (updated_sources s ss0)" and l': "load_sources lo f' = Inr (updated_sources s ss0)"
    by (rule set_source_Inr)
  have ss0: "ss0 = ss" using l assms(2) by simp
  have "for_event (updated_sources s ss) (PStr p) (PStr e) = Inr (Some s)" if "event_key s = Some (p, e)"
    using w that by (intro for_event_unique) (simp_all add: ss0 updated_sources_set)
  with l' ss0 show ?thesis by (intro exI[of _ "updated_sources s ss"]) (simp add: updated_sources_set)
qed

theorem set_source_effect_witness:
  "load_sources no_literals demo_catalog_file = Inr [demo_source]
   \<and> for_event [demo_source] (PStr ''espn'') (PStr ''e1'') = Inr (Some demo_source)"
proof -
  have "load_sources no_literals Absent = Inr []" by simp
  from set_source_effect[OF demo_source_run this, of "''espn''" "''e1''"] obtain ss' where
    "load_sources no_literals demo_catalog_file = Inr ss'"
    "event_key demo_source = Some (''espn'', ''e1'') \<longrightarrow>
       for_event ss' (PStr ''espn'') (PStr ''e1'') = Inr (Some demo_source)" by blast
  moreover have "event_key demo_source = Some (''espn'', ''e1'')" by code_simp
  ultimately show ?thesis using demo_catalog_loads by simp
qed

text \<open>
  The playback options of every source that can be loaded are independent routes in the fixed order
  primary, backup-1, backup-2: the first is the source's own URL, their accounts are the source's resource
  ids, no two share an account, a URL, a channel or a stream, and each URL lies on the server of the source
  and ends in the canonical UUID of its own channel.
\<close>

theorem loaded_options_independent:
  assumes "load_sources lo f = Inr ss" and "s \<in> set ss" and "live_options s \<noteq> []"
  shows "option_url (hd (live_options s)) = live_url s
    \<and> map option_resource (live_options s) = live_resources s
    \<and> map option_id (live_options s) = take (length (live_options s)) [''primary'', ''backup-1'', ''backup-2'']
    \<and> distinct (map option_resource (live_options s)) \<and> distinct (map option_url (live_options s))
    \<and> distinct (map option_channel_uuid (live_options s)) \<and> distinct (map option_stream_id (live_options s))
    \<and> list_all (\<lambda>p. canonical_uuid (option_channel_uuid p)
        \<and> (\<exists>u b. urlsplit lo (option_url p) = Some u \<and> urlsplit lo (live_url s) = Some b
             \<and> url_scheme u = url_scheme b \<and> url_netloc u = url_netloc b
             \<and> ends_with (''/'' @ option_channel_uuid p) (rstrip_char (CHR ''/'') (url_path u))))
        (live_options s)"
proof -
  have "wf_source lo s" using load_sources_Inr[OF assms(1)] assms(2) by (rule wf_catalogD(4))
  then have o: "wf_options lo (live_url s) (live_resources s) (live_options s)"
    by (simp add: wf_source_def)
  then have "list_all (\<lambda>p. wf_option lo (live_url s) p) (live_options s)" by (simp add: wf_options_def)
  then have "list_all (\<lambda>p. canonical_uuid (option_channel_uuid p)
        \<and> (\<exists>u b. urlsplit lo (option_url p) = Some u \<and> urlsplit lo (live_url s) = Some b
             \<and> url_scheme u = url_scheme b \<and> url_netloc u = url_netloc b
             \<and> ends_with (''/'' @ option_channel_uuid p) (rstrip_char (CHR ''/'') (url_path u))))
        (live_options s)"
    by (rule list.pred_mono_strong) (simp add: wf_option_def)
  with o assms(3) show ?thesis
    unfolding wf_options_def independent_options_def option_order_def by blast
qed

theorem loaded_options_independent_witness:
  "map option_resource (live_options demo_source) = live_resources demo_source
   \<and> distinct (map option_url (live_options demo_source))"
proof -
  have "demo_source \<in> set [demo_source]" "live_options demo_source \<noteq> []"
    by (simp_all add: demo_source_def)
  from loaded_options_independent[OF demo_catalog_loads this] show ?thesis by blast
qed

definition relocated :: "string \<Rightarrow> (playback_option \<Rightarrow> string) \<Rightarrow> live_source \<Rightarrow> live_source" where
  "relocated url g s =
     s\<lparr>live_url := url, live_options := map (\<lambda>p. p\<lparr>option_url := g p\<rparr>) (live_options s)\<rparr>"

text \<open>
  The public summary of a source does not depend on any stream URL: two sources that differ only in
  the URLs of the source and of its options have the same summary.
\<close>

theorem summary_hides_urls:
  "safe_source_summary (relocated url g s) = safe_source_summary s"
  by (simp add: safe_source_summary_def relocated_def source_channel_id_def option_summary_def
      option_channel_def o_def)

end
