(* ===== verification/Source_Lifecycle.thy ===== *)
theory Source_Lifecycle
  imports Url_Text Durable_State
begin

text \<open>
  The lifecycle registry of Sports delivery sources (\<open>modules/sports/src/source_lifecycle.py\<close>): metadata
  of the accounts behind the live sources, their grouping under providers, the ranking of candidates and
  the durable file. \<open>lo\<close> is the check of IP literals in URLs, \<open>utc\<close> what \<open>datetime.fromisoformat\<close> and the
  conversion to UTC make of a time stamp (\<open>None\<close> when it is malformed or has no time zone) and \<open>render\<close>
  the text of \<open>str(v)\<close> for floats, lists and dictionaries.
\<close>

subsection \<open>Data\<close>

datatype source_exn = SourceLifecycleError | SourceBuiltin pyexn

datatype source_kind = LICENSED_SUBSCRIPTION | OFFICIAL_FREE | USER_OWNED_OTA | COMMUNITY_PUBLIC

datatype trust_class = Licensed | Official | User_owned | Community

definition source_kinds :: "(string \<times> source_kind) list" where
  "source_kinds = [(''licensed_subscription'', LICENSED_SUBSCRIPTION), (''official_free'', OFFICIAL_FREE),
     (''user_owned_ota'', USER_OWNED_OTA), (''community_public'', COMMUNITY_PUBLIC)]"

definition trust_classes :: "(string \<times> trust_class) list" where
  "trust_classes = [(''licensed'', Licensed), (''official'', Official), (''user_owned'', User_owned),
     (''community_public'', Community)]"

fun kind_value :: "source_kind \<Rightarrow> string" where
  "kind_value LICENSED_SUBSCRIPTION = ''licensed_subscription''"
| "kind_value OFFICIAL_FREE = ''official_free''"
| "kind_value USER_OWNED_OTA = ''user_owned_ota''"
| "kind_value COMMUNITY_PUBLIC = ''community_public''"

fun trust_value :: "trust_class \<Rightarrow> string" where
  "trust_value Licensed = ''licensed''"
| "trust_value Official = ''official''"
| "trust_value User_owned = ''user_owned''"
| "trust_value Community = ''community_public''"

fun kind_trust :: "source_kind \<Rightarrow> trust_class" where
  "kind_trust LICENSED_SUBSCRIPTION = Licensed"
| "kind_trust OFFICIAL_FREE = Official"
| "kind_trust USER_OWNED_OTA = User_owned"
| "kind_trust COMMUNITY_PUBLIC = Community"

fun kind_order :: "source_kind \<Rightarrow> nat" where
  "kind_order LICENSED_SUBSCRIPTION = 0"
| "kind_order OFFICIAL_FREE = 1"
| "kind_order USER_OWNED_OTA = 2"
| "kind_order COMMUNITY_PUBLIC = 3"

record sports_source =
  source_id :: string
  display_name :: string
  kind :: source_kind
  trust :: trust_class
  enabled :: bool
  priority :: int
  max_connections :: int
  provider_id :: "string option"
  credential_realm :: "string option"
  provider_display_name :: "string option"
  account_display_name :: "string option"
  backend_reference :: "string option"
  purchased_at :: "string option"
  expires_at :: "string option"
  renewal_url :: "string option"
  renewal_notice_days :: "int list"

abbreviation lifecycle_error :: "source_exn + 'a" where
  "lifecycle_error \<equiv> Inl SourceLifecycleError"

subsection \<open>Field validation\<close>

text \<open>Truth of a JSON value, and its text.\<close>

fun py_truthy :: "pyval \<Rightarrow> bool" where
  "py_truthy PNone = False"
| "py_truthy (PBool b) = b"
| "py_truthy (PInt n) = (n \<noteq> 0)"
| "py_truthy (PFloat x) = (x \<noteq> Fin 0)"
| "py_truthy (PStr s) = (s \<noteq> [])"
| "py_truthy (PList xs) = (xs \<noteq> [])"
| "py_truthy (PTuple xs) = (xs \<noteq> [])"
| "py_truthy (PDict d) = (d \<noteq> [])"

fun py_str :: "(pyval \<Rightarrow> string) \<Rightarrow> pyval \<Rightarrow> string" where
  "py_str render PNone = ''None''"
| "py_str render (PBool b) = (if b then ''True'' else ''False'')"
| "py_str render (PInt n) = dec n"
| "py_str render (PStr s) = s"
| "py_str render v = render v"

definition required_text_field :: "(pyval \<Rightarrow> string) \<Rightarrow> nat \<Rightarrow> pyval \<Rightarrow> source_exn + string" where
  "required_text_field render n v =
     (let text = strip (if py_truthy v then py_str render v else [])
      in if text = [] \<or> length text > n then lifecycle_error else Inr text)"

definition optional_text_field :: "(pyval \<Rightarrow> string) \<Rightarrow> nat \<Rightarrow> pyval \<Rightarrow> source_exn + string option" where
  "optional_text_field render n v =
     (if v = PNone then Inr None
      else let text = strip (py_str render v)
           in if text = [] then Inr None else if length text > n then lifecycle_error else Inr (Some text))"

definition utc_candidate :: "string \<Rightarrow> string" where
  "utc_candidate text = (if ends_with ''Z'' text then butlast text @ ''+00:00'' else text)"

definition time_field ::
  "(pyval \<Rightarrow> string) \<Rightarrow> (string \<Rightarrow> string option) \<Rightarrow> pyval \<Rightarrow> source_exn + string option" where
  "time_field render utc v =
     rbind (optional_text_field render 64 v) (\<lambda>t. case t of
         None \<Rightarrow> Inr None
       | Some text \<Rightarrow> (case utc (utc_candidate text) of
            None \<Rightarrow> lifecycle_error | Some t \<Rightarrow> Inr (Some t)))"

definition renewal_url_field ::
  "(pyval \<Rightarrow> string) \<Rightarrow> (string \<Rightarrow> bool) \<Rightarrow> pyval \<Rightarrow> source_exn + string option" where
  "renewal_url_field render lo v =
     rbind (optional_text_field render 2048 v) (\<lambda>t. case t of
         None \<Rightarrow> Inr None
       | Some text \<Rightarrow> (case urlsplit lo text of
            None \<Rightarrow> Inl (SourceBuiltin ValueError)
          | Some u \<Rightarrow>
              if \<not> http_scheme u \<or> url_hostname u = [] \<or> url_username u \<noteq> None \<or> url_password u \<noteq> None
              then lifecycle_error else Inr (Some text)))"

text \<open>\<open>_positive_int\<close>: \<open>int(value)\<close>, whose \<open>TypeError\<close> and \<open>ValueError\<close> are translated.\<close>

fun int_field :: "int \<Rightarrow> int \<Rightarrow> pyval \<Rightarrow> source_exn + int" where
  "int_field lo hi (PInt n) = (if n < lo \<or> n > hi then lifecycle_error else Inr n)"
| "int_field lo hi (PFloat x) =
     (case int_of_float x of
        Inr n \<Rightarrow> if n < lo \<or> n > hi then lifecycle_error else Inr n
      | Inl OverflowError \<Rightarrow> Inl (SourceBuiltin OverflowError)
      | Inl _ \<Rightarrow> lifecycle_error)"
| "int_field lo hi (PStr s) =
     (case py_int_of_string s of
        Some n \<Rightarrow> if n < lo \<or> n > hi then lifecycle_error else Inr n
      | None \<Rightarrow> lifecycle_error)"
| "int_field lo hi _ = lifecycle_error"

definition default_notice_days :: "int list" where
  "default_notice_days = [30, 14, 7, 3, 1]"

fun int_fields :: "int \<Rightarrow> int \<Rightarrow> pyval list \<Rightarrow> source_exn + int list" where
  "int_fields lo hi [] = Inr []"
| "int_fields lo hi (v # vs) =
     rbind (int_field lo hi v) (\<lambda>n. rbind (int_fields lo hi vs) (\<lambda>ns. Inr (n # ns)))"

fun notice_days :: "pyval \<Rightarrow> source_exn + int list" where
  "notice_days PNone = Inr default_notice_days"
| "notice_days (PList vs) =
     rbind (int_fields 1 365 vs) (\<lambda>ns.
       let days = rev (sorted_list_of_set (set ns))
       in if 14 \<in> set days then Inr days else lifecycle_error)"
| "notice_days _ = lifecycle_error"

subsection \<open>Sources\<close>

definition sports_source_fields :: "string list" where
  "sports_source_fields = [''source_id'', ''display_name'', ''provider_id'', ''credential_realm'',
     ''provider_display_name'', ''account_display_name'', ''kind'', ''trust_class'', ''enabled'', ''priority'',
     ''max_connections'', ''backend_reference'', ''purchased_at'', ''expires_at'', ''renewal_url'',
     ''renewal_notice_days'']"

fun realm_field :: "pyval \<Rightarrow> source_exn + string option" where
  "realm_field PNone = Inr None"
| "realm_field (PStr s) = (if realm_text s then Inr (Some s) else lifecycle_error)"
| "realm_field _ = lifecycle_error"

definition kind_field :: "(pyval \<Rightarrow> string) \<Rightarrow> pyval \<Rightarrow> source_exn + source_kind" where
  "kind_field render v =
     rbind (required_text_field render 64 v) (\<lambda>s.
       case map_of source_kinds s of None \<Rightarrow> lifecycle_error | Some k \<Rightarrow> Inr k)"

definition trust_field :: "(pyval \<Rightarrow> string) \<Rightarrow> source_kind \<Rightarrow> pyval \<Rightarrow> source_exn + trust_class" where
  "trust_field render k v =
     (if v = PNone then Inr (kind_trust k)
      else (case map_of trust_classes (strip (py_str render v)) of
          None \<Rightarrow> lifecycle_error
        | Some t \<Rightarrow> if t \<noteq> kind_trust k then lifecycle_error else Inr t))"

fun enabled_field :: "pyval \<Rightarrow> source_exn + bool" where
  "enabled_field (PBool b) = Inr b"
| "enabled_field _ = lifecycle_error"

definition source_from_mapping ::
  "(pyval \<Rightarrow> string) \<Rightarrow> (string \<Rightarrow> bool) \<Rightarrow> (string \<Rightarrow> string option) \<Rightarrow> pyval \<Rightarrow> source_exn + sports_source" where
  "source_from_mapping render lo utc raw =
     (case raw of
        PDict e \<Rightarrow>
          if \<not> set (map fst e) \<subseteq> set sports_source_fields then lifecycle_error
          else
            rbind (required_text_field render 64 (dict_value e ''source_id'')) (\<lambda>sid.
            rbind (required_text_field render 128 (dict_value e ''display_name'')) (\<lambda>name.
            rbind (required_text_field render 64 (dict_default e ''provider_id'' (PStr sid))) (\<lambda>provider.
            rbind (realm_field (dict_value e ''credential_realm'')) (\<lambda>realm.
            rbind (required_text_field render 128 (dict_default e ''provider_display_name'' (PStr name))) (\<lambda>pname.
            rbind (required_text_field render 128 (dict_default e ''account_display_name'' (PStr name))) (\<lambda>aname.
            rbind (kind_field render (dict_value e ''kind'')) (\<lambda>k.
            rbind (trust_field render k (dict_value e ''trust_class'')) (\<lambda>t.
            rbind (enabled_field (dict_default e ''enabled'' (PBool True))) (\<lambda>on.
            rbind (int_field 0 10000 (dict_default e ''priority'' (PInt 100))) (\<lambda>prio.
            rbind (int_field 1 1000 (dict_default e ''max_connections'' (PInt 1))) (\<lambda>maxc.
            rbind (time_field render utc (dict_value e ''purchased_at'')) (\<lambda>bought.
            rbind (time_field render utc (dict_value e ''expires_at'')) (\<lambda>expires.
            if k \<noteq> LICENSED_SUBSCRIPTION \<and> (bought \<noteq> None \<or> expires \<noteq> None) then lifecycle_error
            else
              rbind (optional_text_field render 128 (dict_value e ''backend_reference'')) (\<lambda>backend.
              rbind (renewal_url_field render lo (dict_value e ''renewal_url'')) (\<lambda>url.
              rbind (notice_days (dict_value e ''renewal_notice_days'')) (\<lambda>days.
                Inr \<lparr>source_id = sid, display_name = name, kind = k, trust = t, enabled = on, priority = prio,
                     max_connections = maxc, provider_id = Some provider, credential_realm = realm,
                     provider_display_name = Some pname, account_display_name = Some aname,
                     backend_reference = backend, purchased_at = bought, expires_at = expires,
                     renewal_url = url, renewal_notice_days = days\<rparr>))))))))))))))))
      | _ \<Rightarrow> lifecycle_error)"

definition source_to_mapping :: "sports_source \<Rightarrow> pyval" where
  "source_to_mapping s =
     PDict [(''source_id'', PStr (source_id s)), (''display_name'', PStr (display_name s)),
       (''kind'', PStr (kind_value (kind s))), (''trust_class'', PStr (trust_value (trust s))),
       (''enabled'', PBool (enabled s)), (''priority'', PInt (priority s)),
       (''max_connections'', PInt (max_connections s)), (''provider_id'', optional_json (provider_id s)),
       (''credential_realm'', optional_json (credential_realm s)),
       (''provider_display_name'', optional_json (provider_display_name s)),
       (''account_display_name'', optional_json (account_display_name s)),
       (''backend_reference'', optional_json (backend_reference s)),
       (''purchased_at'', optional_json (purchased_at s)), (''expires_at'', optional_json (expires_at s)),
       (''renewal_url'', optional_json (renewal_url s)),
       (''renewal_notice_days'', PList (map PInt (renewal_notice_days s)))]"

subsection \<open>Providers and candidates\<close>

record source_provider =
  prov_id :: string
  prov_name :: string
  account_count :: nat
  enabled_account_count :: nat
  configured_max_connections :: int
  enabled_max_connections :: int
  prov_source_ids :: "string list"

text \<open>\<open>a or b\<close> on an optional text.\<close>

definition text_or :: "string option \<Rightarrow> string \<Rightarrow> string" where
  "text_or a b = (case a of None \<Rightarrow> b | Some t \<Rightarrow> if t = [] then b else t)"

definition provider_of :: "sports_source \<Rightarrow> string" where
  "provider_of s = text_or (provider_id s) (source_id s)"

definition provider_accounts :: "sports_source list \<Rightarrow> string \<Rightarrow> sports_source list" where
  "provider_accounts sources p =
     sort_key (\<lambda>s. (priority s, source_id s)) (filter (\<lambda>s. provider_of s = p) sources)"

definition group_provider :: "sports_source list \<Rightarrow> string \<Rightarrow> source_exn + source_provider" where
  "group_provider sources p =
     (let accounts = provider_accounts sources p in
      case remdups (map (\<lambda>s. text_or (provider_display_name s) (display_name s)) accounts) of
        [name] \<Rightarrow>
          Inr \<lparr>prov_id = p, prov_name = name, account_count = length accounts,
               enabled_account_count = length (filter enabled accounts),
               configured_max_connections = sum_list (map max_connections accounts),
               enabled_max_connections = sum_list (map max_connections (filter enabled accounts)),
               prov_source_ids = map source_id accounts\<rparr>
      | _ \<Rightarrow> lifecycle_error)"

fun group_providers :: "sports_source list \<Rightarrow> string list \<Rightarrow> source_exn + source_provider list" where
  "group_providers sources [] = Inr []"
| "group_providers sources (p # ps) =
     rbind (group_provider sources p) (\<lambda>g. rbind (group_providers sources ps) (\<lambda>gs. Inr (g # gs)))"

definition group_source_providers :: "sports_source list \<Rightarrow> source_exn + source_provider list" where
  "group_source_providers sources =
     group_providers sources (sorted_list_of_set (set (map provider_of sources)))"

record source_candidate =
  cand_source :: string
  cand_slot :: nat
  cand_priority :: int
  cand_kind :: source_kind

definition MAX_CANDIDATES :: nat where
  "MAX_CANDIDATES = 4"

definition candidate_rank :: "sports_source \<Rightarrow> nat \<times> int \<times> string" where
  "candidate_rank s = (kind_order (kind s), priority s, source_id s)"

definition rank_source_candidates :: "sports_source list \<Rightarrow> source_candidate list" where
  "rank_source_candidates sources =
     (let chosen = take MAX_CANDIDATES (sort_key candidate_rank (filter enabled sources))
      in map (\<lambda>(i, s). \<lparr>cand_source = source_id s, cand_slot = i, cand_priority = priority s,
                        cand_kind = kind s\<rparr>)
           (zip [1..<Suc (length chosen)] chosen))"

subsection \<open>The state file\<close>

fun sources_from_mappings ::
  "(pyval \<Rightarrow> source_exn + sports_source) \<Rightarrow> pyval list \<Rightarrow> source_exn + sports_source list" where
  "sources_from_mappings parse [] = Inr []"
| "sources_from_mappings parse (v # vs) =
     rbind (parse v) (\<lambda>s. rbind (sources_from_mappings parse vs) (\<lambda>ss. Inr (s # ss)))"

definition lifecycle_from_document ::
  "(pyval \<Rightarrow> source_exn + sports_source) \<Rightarrow> pyval \<Rightarrow> source_exn + sports_source list" where
  "lifecycle_from_document parse raw =
     (case raw of
        PDict p \<Rightarrow>
          if \<not> equals_int (dict_value p ''version'') 1 then lifecycle_error
          else (case dict_value p ''sources'' of
              PList vs \<Rightarrow> rbind (sources_from_mappings parse vs) (\<lambda>ss.
                if distinct (map source_id ss) then Inr ss else lifecycle_error)
            | _ \<Rightarrow> lifecycle_error)
      | _ \<Rightarrow> lifecycle_error)"

fun load_lifecycle ::
  "(pyval \<Rightarrow> source_exn + sports_source) \<Rightarrow> state_file \<Rightarrow> source_exn + sports_source list" where
  "load_lifecycle parse Absent = Inr []"
| "load_lifecycle parse Unreadable = lifecycle_error"
| "load_lifecycle parse (Document raw) = lifecycle_from_document parse raw"

definition lifecycle_document :: "sports_source list \<Rightarrow> state_file" where
  "lifecycle_document ss =
     Document (PDict [(''sources'', PList (map source_to_mapping (sort_key source_id ss))),
                      (''version'', PInt 1)])"

text \<open>
  Writing does not read the old content: \<open>regular\<close> says that the path is absent or a regular file and no
  symbolic link.
\<close>

definition write_lifecycle :: "bool \<Rightarrow> sports_source list \<Rightarrow> state_file \<Rightarrow> (source_exn + unit) \<times> state_file" where
  "write_lifecycle regular ss f =
     (case group_source_providers ss of
        Inl e \<Rightarrow> (Inl e, f)
      | Inr _ \<Rightarrow>
          if \<not> regular \<or> \<not> distinct (map source_id ss) then (lifecycle_error, f)
          else (Inr (), lifecycle_document ss))"

definition ensure_lifecycle ::
  "(pyval \<Rightarrow> source_exn + sports_source) \<Rightarrow> state_file \<Rightarrow> (source_exn + sports_source list) \<times> state_file" where
  "ensure_lifecycle parse f =
     (if f = Absent then (case write_lifecycle True [] f of (Inl e, f') \<Rightarrow> (Inl e, f') | (Inr _, f') \<Rightarrow> (Inr [], f'))
      else (load_lifecycle parse f, f))"

end
