(* ===== verification/Lifecycle_Correct.thy ===== *)
theory Lifecycle_Correct
  imports Source_Lifecycle
begin

text \<open>
  Correctness of the source lifecycle registry: a parsed source survives writing and parsing, the file
  satisfies the durable-state contract, the ranking takes the best enabled sources, and the providers
  partition the sources and their connections.
\<close>

subsection \<open>Fields are fixed points\<close>

definition kept_text :: "nat \<Rightarrow> string \<Rightarrow> bool" where
  "kept_text n t \<longleftrightarrow> strip t = t \<and> t \<noteq> [] \<and> length t \<le> n"

lemma required_text_field_Inr: "required_text_field render n v = Inr t \<Longrightarrow> kept_text n t"
  by (auto simp: required_text_field_def kept_text_def Let_def not_less split: if_split_asm)

lemma required_text_field_kept [simp]: "kept_text n t \<Longrightarrow> required_text_field render n (PStr t) = Inr t"
  by (simp add: required_text_field_def kept_text_def Let_def)

definition kept_optional :: "nat \<Rightarrow> string option \<Rightarrow> bool" where
  "kept_optional n o' \<longleftrightarrow> (\<forall>t. o' = Some t \<longrightarrow> kept_text n t)"

lemma optional_text_field_Inr: "optional_text_field render n v = Inr t \<Longrightarrow> kept_optional n t"
  by (auto simp: optional_text_field_def kept_optional_def kept_text_def Let_def split: if_split_asm)

lemma optional_text_field_kept [simp]:
  "kept_optional n t \<Longrightarrow> optional_text_field render n (optional_json t) = Inr t"
  by (cases t) (simp_all add: optional_text_field_def kept_optional_def kept_text_def Let_def)

text \<open>The documented behaviour of the time stamps: a rendered UTC time reads as itself.\<close>

definition utc_law :: "(string \<Rightarrow> string option) \<Rightarrow> bool" where
  "utc_law utc \<longleftrightarrow> (\<forall>t u. utc t = Some u \<longrightarrow> kept_text 64 u \<and> utc (utc_candidate u) = Some u)"

lemma time_field_Inr:
  assumes "utc_law utc" "time_field render utc v = Inr t"
  shows "time_field render utc (optional_json t) = Inr t"
proof (cases t)
  case None
  then show ?thesis by (simp add: time_field_def optional_text_field_def)
next
  case (Some u)
  with assms(2) obtain c where "utc c = Some u"
    by (auto simp: time_field_def rbind_Inr_iff split: option.splits)
  with assms(1) have "kept_text 64 u" "utc (utc_candidate u) = Some u"
    unfolding utc_law_def by blast+
  then show ?thesis using Some optional_text_field_kept[of 64 t render]
    by (simp add: time_field_def kept_optional_def)
qed

lemma renewal_url_field_Inr:
  assumes "renewal_url_field render lo v = Inr t"
  shows "renewal_url_field render lo (optional_json t) = Inr t"
proof (cases t)
  case None
  then show ?thesis by (simp add: renewal_url_field_def optional_text_field_def)
next
  case (Some u)
  from assms obtain o' where o': "optional_text_field render 2048 v = Inr o'"
    by (auto simp: renewal_url_field_def rbind_Inr_iff)
  with assms Some have "o' = Some u"
    by (cases o') (auto simp: renewal_url_field_def split: option.split_asm if_split_asm)
  with o' have o: "optional_text_field render 2048 v = Inr (Some u)" by simp
  then have "optional_text_field render 2048 (optional_json t) = Inr (Some u)"
    using optional_text_field_kept[OF optional_text_field_Inr[OF o]] Some by simp
  with assms o show ?thesis by (simp add: renewal_url_field_def Some)
qed

lemma int_field_Inr: "int_field lo hi v = Inr n \<Longrightarrow> lo \<le> n \<and> n \<le> hi"
  by (cases v) (auto split: if_split_asm sum.splits pyexn.splits option.splits)

lemma int_fields_Inr: "int_fields lo hi vs = Inr ns \<Longrightarrow> list_all (\<lambda>n. lo \<le> n \<and> n \<le> hi) ns"
  by (induction vs arbitrary: ns) (auto simp: rbind_Inr_iff dest: int_field_Inr)

lemma int_fields_PInt: "list_all (\<lambda>n. lo \<le> n \<and> n \<le> hi) ns \<Longrightarrow> int_fields lo hi (map PInt ns) = Inr ns"
  by (induction ns) auto

definition kept_days :: "int list \<Rightarrow> bool" where
  "kept_days ds \<longleftrightarrow>
     sorted (rev ds) \<and> distinct ds \<and> 14 \<in> set ds \<and> list_all (\<lambda>n. 1 \<le> n \<and> n \<le> 365) ds"

lemma notice_days_Inr: "notice_days v = Inr ds \<Longrightarrow> kept_days ds"
  by (cases v)
     (auto simp: kept_days_def default_notice_days_def rbind_Inr_iff Let_def list_all_iff
       dest!: int_fields_Inr split: if_split_asm)

lemma notice_days_kept: "kept_days ds \<Longrightarrow> notice_days (PList (map PInt ds)) = Inr ds"
  using sorted_list_of_set.idem_if_sorted_distinct[of "rev ds"]
  by (simp add: kept_days_def int_fields_PInt)

declare int_field.simps [simp del] notice_days.simps [simp del]

lemma kind_texts [simp]: "map_of source_kinds (kind_value k) = Some k"
  by (induction k) code_simp+

lemma kind_texts_kept [simp]: "kept_text 64 (kind_value k)"
  by (induction k) code_simp+

lemma trust_texts [simp]: "map_of trust_classes (strip (trust_value t)) = Some t"
  by (induction t) code_simp+

lemma realm_field_Inr: "realm_field v = Inr r \<Longrightarrow> realm_field (optional_json r) = Inr r"
  by (cases v) (auto split: if_split_asm)

lemma trust_field_Inr: "trust_field render k v = Inr t \<Longrightarrow> t = kind_trust k"
  by (auto simp: trust_field_def split: if_split_asm option.splits)

subsection \<open>A parsed source survives writing\<close>

definition wf_sports_source ::
  "(pyval \<Rightarrow> string) \<Rightarrow> (string \<Rightarrow> bool) \<Rightarrow> (string \<Rightarrow> string option) \<Rightarrow> sports_source \<Rightarrow> bool" where
  "wf_sports_source render lo utc s \<longleftrightarrow>
     kept_text 64 (source_id s) \<and> kept_text 128 (display_name s)
     \<and> (\<exists>t. provider_id s = Some t \<and> kept_text 64 t)
     \<and> (\<exists>t. provider_display_name s = Some t \<and> kept_text 128 t)
     \<and> (\<exists>t. account_display_name s = Some t \<and> kept_text 128 t)
     \<and> realm_field (optional_json (credential_realm s)) = Inr (credential_realm s)
     \<and> trust s = kind_trust (kind s)
     \<and> 0 \<le> priority s \<and> priority s \<le> 10000 \<and> 1 \<le> max_connections s \<and> max_connections s \<le> 1000
     \<and> time_field render utc (optional_json (purchased_at s)) = Inr (purchased_at s)
     \<and> time_field render utc (optional_json (expires_at s)) = Inr (expires_at s)
     \<and> (kind s \<noteq> LICENSED_SUBSCRIPTION \<longrightarrow> purchased_at s = None \<and> expires_at s = None)
     \<and> kept_optional 128 (backend_reference s)
     \<and> renewal_url_field render lo (optional_json (renewal_url s)) = Inr (renewal_url s)
     \<and> kept_days (renewal_notice_days s)"

lemma source_from_mapping_Inr:
  assumes "utc_law utc" "source_from_mapping render lo utc v = Inr s"
  shows "wf_sports_source render lo utc s"
proof -
  from assms(2) obtain e where e: "v = PDict e" by (cases v) (auto simp: source_from_mapping_def)
  from assms(2) obtain sid name provider realm pname aname k t on prio maxc bought expires backend url days where
    f: "required_text_field render 64 (dict_value e ''source_id'') = Inr sid"
      "required_text_field render 128 (dict_value e ''display_name'') = Inr name"
      "required_text_field render 64 (dict_default e ''provider_id'' (PStr sid)) = Inr provider"
      "realm_field (dict_value e ''credential_realm'') = Inr realm"
      "required_text_field render 128 (dict_default e ''provider_display_name'' (PStr name)) = Inr pname"
      "required_text_field render 128 (dict_default e ''account_display_name'' (PStr name)) = Inr aname"
      "trust_field render k (dict_value e ''trust_class'') = Inr t"
      "int_field 0 10000 (dict_default e ''priority'' (PInt 100)) = Inr prio"
      "int_field 1 1000 (dict_default e ''max_connections'' (PInt 1)) = Inr maxc"
      "time_field render utc (dict_value e ''purchased_at'') = Inr bought"
      "time_field render utc (dict_value e ''expires_at'') = Inr expires"
      "\<not> (k \<noteq> LICENSED_SUBSCRIPTION \<and> (bought \<noteq> None \<or> expires \<noteq> None))"
      "optional_text_field render 128 (dict_value e ''backend_reference'') = Inr backend"
      "renewal_url_field render lo (dict_value e ''renewal_url'') = Inr url"
      "notice_days (dict_value e ''renewal_notice_days'') = Inr days"
    and s: "s = \<lparr>source_id = sid, display_name = name, kind = k, trust = t, enabled = on, priority = prio,
                     max_connections = maxc, provider_id = Some provider, credential_realm = realm,
                     provider_display_name = Some pname, account_display_name = Some aname,
                     backend_reference = backend, purchased_at = bought, expires_at = expires,
                     renewal_url = url, renewal_notice_days = days\<rparr>"
    unfolding e source_from_mapping_def pyval.case Inr_iffs by blast
  note texts = f(1,2,3,5,6)[THEN required_text_field_Inr]
  note times = f(10,11)[THEN time_field_Inr[OF assms(1)]]
  show ?thesis
    using texts times f(12) int_field_Inr[OF f(8)] int_field_Inr[OF f(9)] realm_field_Inr[OF f(4)]
      trust_field_Inr[OF f(7)] optional_text_field_Inr[OF f(13)] renewal_url_field_Inr[OF f(14)]
      notice_days_Inr[OF f(15)]
    by (auto simp: wf_sports_source_def s)
qed

lemma source_to_mapping_fields:
  obtains e where "source_to_mapping s = PDict e" "set (map fst e) \<subseteq> set sports_source_fields"
    "dict_value e ''source_id'' = PStr (source_id s)" "dict_value e ''display_name'' = PStr (display_name s)"
    "\<And>d. dict_default e ''provider_id'' d = optional_json (provider_id s)"
    "dict_value e ''credential_realm'' = optional_json (credential_realm s)"
    "\<And>d. dict_default e ''provider_display_name'' d = optional_json (provider_display_name s)"
    "\<And>d. dict_default e ''account_display_name'' d = optional_json (account_display_name s)"
    "dict_value e ''kind'' = PStr (kind_value (kind s))" "dict_value e ''trust_class'' = PStr (trust_value (trust s))"
    "\<And>d. dict_default e ''enabled'' d = PBool (enabled s)"
    "\<And>d. dict_default e ''priority'' d = PInt (priority s)"
    "\<And>d. dict_default e ''max_connections'' d = PInt (max_connections s)"
    "dict_value e ''purchased_at'' = optional_json (purchased_at s)"
    "dict_value e ''expires_at'' = optional_json (expires_at s)"
    "dict_value e ''backend_reference'' = optional_json (backend_reference s)"
    "dict_value e ''renewal_url'' = optional_json (renewal_url s)"
    "dict_value e ''renewal_notice_days'' = PList (map PInt (renewal_notice_days s))"
proof -
  obtain e where e: "source_to_mapping s = PDict e" by (simp add: source_to_mapping_def)
  then show ?thesis
    by (intro that[OF e]) (auto simp: source_to_mapping_def sports_source_fields_def dict_default_def)
qed

text \<open>Whatever the backend reference of the mapping, the rest of a parsed source reads as itself.\<close>

lemma source_with_backend:
  assumes "wf_sports_source render lo utc (s\<lparr>backend_reference := None\<rparr>)"
  shows "source_from_mapping render lo utc (source_to_mapping s)
    = rbind (optional_text_field render 128 (optional_json (backend_reference s)))
        (\<lambda>b. Inr (s\<lparr>backend_reference := b\<rparr>))"
proof -
  obtain e where e: "source_to_mapping s = PDict e" "set (map fst e) \<subseteq> set sports_source_fields"
    and l: "dict_value e ''source_id'' = PStr (source_id s)" "dict_value e ''display_name'' = PStr (display_name s)"
    "\<And>d. dict_default e ''provider_id'' d = optional_json (provider_id s)"
    "dict_value e ''credential_realm'' = optional_json (credential_realm s)"
    "\<And>d. dict_default e ''provider_display_name'' d = optional_json (provider_display_name s)"
    "\<And>d. dict_default e ''account_display_name'' d = optional_json (account_display_name s)"
    "dict_value e ''kind'' = PStr (kind_value (kind s))" "dict_value e ''trust_class'' = PStr (trust_value (trust s))"
    "\<And>d. dict_default e ''enabled'' d = PBool (enabled s)"
    "\<And>d. dict_default e ''priority'' d = PInt (priority s)"
    "\<And>d. dict_default e ''max_connections'' d = PInt (max_connections s)"
    "dict_value e ''purchased_at'' = optional_json (purchased_at s)"
    "dict_value e ''expires_at'' = optional_json (expires_at s)"
    "dict_value e ''backend_reference'' = optional_json (backend_reference s)"
    "dict_value e ''renewal_url'' = optional_json (renewal_url s)"
    "dict_value e ''renewal_notice_days'' = PList (map PInt (renewal_notice_days s))"
    by (rule source_to_mapping_fields[of s]) blast
  obtain p pn an where n: "provider_id s = Some p" "kept_text 64 p" "provider_display_name s = Some pn"
    "kept_text 128 pn" "account_display_name s = Some an" "kept_text 128 an"
    using assms by (auto simp: wf_sports_source_def)
  have k: "kind_field render (PStr (kind_value (kind s))) = Inr (kind s)" by (simp add: kind_field_def)
  have t: "trust_field render (kind s) (PStr (trust_value (trust s))) = Inr (trust s)"
    using assms by (simp add: trust_field_def wf_sports_source_def)
  have i: "int_field 0 10000 (PInt (priority s)) = Inr (priority s)"
    "int_field 1 1000 (PInt (max_connections s)) = Inr (max_connections s)"
    using assms by (simp_all add: wf_sports_source_def int_field.simps(1))
  have o: "notice_days (PList (map PInt (renewal_notice_days s))) = Inr (renewal_notice_days s)"
    using assms by (simp_all add: wf_sports_source_def notice_days_kept)
  have texts: "required_text_field render 64 (PStr (source_id s)) = Inr (source_id s)"
    "required_text_field render 128 (PStr (display_name s)) = Inr (display_name s)"
    "required_text_field render 64 (PStr p) = Inr p" "required_text_field render 128 (PStr pn) = Inr pn"
    "required_text_field render 128 (PStr an) = Inr an"
    using assms n by (simp_all add: wf_sports_source_def)
  have rest: "realm_field (optional_json (credential_realm s)) = Inr (credential_realm s)"
    "time_field render utc (optional_json (purchased_at s)) = Inr (purchased_at s)"
    "time_field render utc (optional_json (expires_at s)) = Inr (expires_at s)"
    "renewal_url_field render lo (optional_json (renewal_url s)) = Inr (renewal_url s)"
    "(kind s \<noteq> LICENSED_SUBSCRIPTION \<and> (purchased_at s \<noteq> None \<or> expires_at s \<noteq> None)) = False"
    using assms by (auto simp: wf_sports_source_def)
  note named = n(1,3,5)[THEN arg_cong[where f = optional_json], unfolded optional_json.simps]
  show ?thesis
    unfolding e(1) source_from_mapping_def pyval.case l named rbind_simps texts rest i k t o enabled_field.simps
      if_False using e(2) n by (cases s) simp
qed

lemma source_from_to_mapping:
  assumes "wf_sports_source render lo utc s"
  shows "source_from_mapping render lo utc (source_to_mapping s) = Inr s"
  using assms source_with_backend[of render lo utc s] by (simp add: wf_sports_source_def kept_optional_def)

subsection \<open>The file\<close>

definition wf_lifecycle ::
  "(pyval \<Rightarrow> string) \<Rightarrow> (string \<Rightarrow> bool) \<Rightarrow> (string \<Rightarrow> string option) \<Rightarrow> sports_source list \<Rightarrow> bool" where
  "wf_lifecycle render lo utc ss \<longleftrightarrow>
     list_all (wf_sports_source render lo utc) ss \<and> distinct (map source_id ss)"

lemma sources_from_mappings_Inr:
  "utc_law utc \<Longrightarrow> sources_from_mappings (source_from_mapping render lo utc) vs = Inr ss \<Longrightarrow>
   list_all (wf_sports_source render lo utc) ss"
  by (induction vs arbitrary: ss) (auto simp: rbind_Inr_iff dest: source_from_mapping_Inr)

lemma sources_from_to_mappings:
  "list_all (wf_sports_source render lo utc) ss \<Longrightarrow>
   sources_from_mappings (source_from_mapping render lo utc) (map source_to_mapping ss) = Inr ss"
  by (induction ss) (auto simp: source_from_to_mapping)

lemma load_lifecycle_Inr:
  assumes "utc_law utc" "load_lifecycle (source_from_mapping render lo utc) f = Inr ss"
  shows "wf_lifecycle render lo utc ss"
proof (cases f)
  case (Document raw)
  show ?thesis
  proof (cases raw)
    case (PDict p)
    have r: "(case dict_value p ''sources'' of
        PList vs \<Rightarrow> rbind (sources_from_mappings (source_from_mapping render lo utc) vs) (\<lambda>ss.
          if distinct (map source_id ss) then Inr ss else lifecycle_error)
      | _ \<Rightarrow> lifecycle_error) = Inr ss"
      using assms(2) unfolding Document PDict load_lifecycle.simps lifecycle_from_document_def pyval.case Inr_iffs
      by (elim conjE)
    then show ?thesis
      by (cases "dict_value p ''sources''")
         (auto simp: rbind_Inr_iff wf_lifecycle_def dest: sources_from_mappings_Inr[OF assms(1)] split: if_split_asm)
  qed (use assms Document in \<open>simp_all add: lifecycle_from_document_def\<close>)
qed (use assms in \<open>simp_all add: wf_lifecycle_def\<close>)

lemma load_lifecycle_document:
  assumes "wf_lifecycle render lo utc ss"
  shows "load_lifecycle (source_from_mapping render lo utc) (lifecycle_document ss) = Inr (sort_key source_id ss)"
proof -
  have "list_all (wf_sports_source render lo utc) (sort_key source_id ss)" "distinct (map source_id (sort_key source_id ss))"
    using assms by (auto simp: wf_lifecycle_def list_all_iff distinct_map)
  then show ?thesis
    by (simp add: lifecycle_document_def lifecycle_from_document_def dict_default_def sources_from_to_mappings)
qed

end
