(* ===== verification/Lifecycle_Safety.thy ===== *)
theory Lifecycle_Safety
  imports Lifecycle_Correct "HOL-Library.Multiset"
begin

text \<open>
  The properties of the source lifecycle registry, with two concrete accounts of one provider.
\<close>

subsection \<open>Concrete sources\<close>

definition demo_utc :: "string \<Rightarrow> string option" where
  "demo_utc t =
     (if t = ''2024-01-01T00:00:00+00:00'' then Some ''2024-01-01T00:00:00Z'' else None)"

definition demo_account :: "string \<Rightarrow> int \<Rightarrow> bool \<Rightarrow> sports_source" where
  "demo_account i p on =
     \<lparr>source_id = i, display_name = ''Account '' @ i, kind = LICENSED_SUBSCRIPTION, trust = Licensed, enabled = on,
      priority = p, max_connections = 2, provider_id = Some ''prov'', credential_realm = Some ''realm-1'',
      provider_display_name = Some ''Provider'', account_display_name = Some i,
      backend_reference = Some ''dispatcharr:m3u:7'', purchased_at = Some ''2024-01-01T00:00:00Z'', expires_at = None,
      renewal_url = None, renewal_notice_days = [30, 14, 7, 3, 1]\<rparr>"

definition demo_accounts :: "sports_source list" where
  "demo_accounts = [demo_account ''b'' 5 True, demo_account ''a'' 5 True, demo_account ''c'' 1 False]"

abbreviation no_render :: "pyval \<Rightarrow> string" where
  "no_render \<equiv> (\<lambda>_. [])"

abbreviation no_url_literals :: "string \<Rightarrow> bool" where
  "no_url_literals \<equiv> (\<lambda>_. False)"

lemma demo_utc_law: "utc_law demo_utc"
proof -
  have "kept_text 64 ''2024-01-01T00:00:00Z''" by code_simp
  moreover have "utc_candidate ''2024-01-01T00:00:00Z'' = ''2024-01-01T00:00:00+00:00''" by code_simp
  ultimately show ?thesis unfolding utc_law_def demo_utc_def by (simp split: if_split_asm)
qed

lemma demo_account_wf:
  "list_all (wf_sports_source no_render no_url_literals demo_utc)
     [demo_account ''b'' 5 True, demo_account ''a'' 5 True, demo_account ''c'' 1 False]"
proof -
  let ?parse = "source_from_mapping no_render no_url_literals demo_utc"
  have "?parse (source_to_mapping (demo_account ''b'' 5 True)) = Inr (demo_account ''b'' 5 True)"
    "?parse (source_to_mapping (demo_account ''a'' 5 True)) = Inr (demo_account ''a'' 5 True)"
    "?parse (source_to_mapping (demo_account ''c'' 1 False)) = Inr (demo_account ''c'' 1 False)"
    by code_simp+
  then show ?thesis by (auto dest: source_from_mapping_Inr[OF demo_utc_law])
qed

lemma demo_accounts_wf: "wf_lifecycle no_render no_url_literals demo_utc demo_accounts"
  using demo_account_wf by (simp add: wf_lifecycle_def demo_accounts_def demo_account_def)

definition demo_lifecycle_file :: state_file where
  "demo_lifecycle_file = snd (write_lifecycle True demo_accounts Absent)"

lemma demo_write_run: "write_lifecycle True demo_accounts Absent = (Inr (), demo_lifecycle_file)"
proof -
  have "fst (write_lifecycle True demo_accounts Absent) = Inr ()" by code_simp
  then show ?thesis unfolding demo_lifecycle_file_def by (cases "write_lifecycle True demo_accounts Absent") simp
qed

subsection \<open>Ranking\<close>

lemma sorted_take_drop_le:
  "sorted (map g xs) \<Longrightarrow> x \<in> set (take n xs) \<Longrightarrow> y \<in> set (drop n xs) \<Longrightarrow> g x \<le> g y"
proof -
  assume "sorted (map g xs)" and xy: "x \<in> set (take n xs)" "y \<in> set (drop n xs)"
  then have "sorted (map g (take n xs) @ map g (drop n xs))"
    by (simp only: map_append[symmetric] append_take_drop_id)
  with xy show ?thesis by (simp add: sorted_append)
qed

lemma map_zip_snd: "length xs = length ys \<Longrightarrow> map (\<lambda>(i, y). g y) (zip xs ys) = map g ys"
  by (induction xs ys rule: list_induct2) auto

lemma map_zip_fst: "length xs = length ys \<Longrightarrow> map (\<lambda>(i, y). i) (zip xs ys) = xs"
  by (induction xs ys rule: list_induct2) auto

definition chosen_sources :: "sports_source list \<Rightarrow> sports_source list" where
  "chosen_sources sources = take 4 (sort_key candidate_rank (filter enabled sources))"

lemma rank_chosen:
  "map cand_source (rank_source_candidates sources) = map source_id (chosen_sources sources)"
  "map cand_slot (rank_source_candidates sources) = [1..<Suc (length (chosen_sources sources))]"
proof -
  let ?c = "chosen_sources sources"
  let ?z = "zip [1..<Suc (length ?c)] ?c"
  have r: "rank_source_candidates sources = map (\<lambda>(i, s). \<lparr>cand_source = source_id s, cand_slot = i,
      cand_priority = priority s, cand_kind = kind s\<rparr>) ?z"
    by (simp add: rank_source_candidates_def chosen_sources_def MAX_CANDIDATES_def Let_def del: upt_Suc)
  have "map cand_source (rank_source_candidates sources) = map (\<lambda>(i, s). source_id s) ?z"
    "map cand_slot (rank_source_candidates sources) = map (\<lambda>(i, s). i) ?z"
    unfolding r map_map by (rule map_cong; force)+
  then show "map cand_source (rank_source_candidates sources) = map source_id ?c"
    "map cand_slot (rank_source_candidates sources) = [1..<Suc (length ?c)]"
    by (simp_all add: map_zip_snd map_zip_fst del: upt_Suc)
qed

text \<open>
  The candidates are the best enabled sources: at most four, numbered from 1 in rank order (trust of
  the kind, then priority, then id), and an enabled source that is left out ranks after every candidate.
\<close>

theorem rank_takes_best:
  assumes "distinct (map source_id sources)"
  shows "map cand_slot (rank_source_candidates sources) = [1..<Suc (min 4 (length (filter enabled sources)))]
    \<and> (\<exists>best. map cand_source (rank_source_candidates sources) = map source_id best
         \<and> set best \<subseteq> {s \<in> set sources. enabled s} \<and> sorted (map candidate_rank best)
         \<and> (\<forall>s \<in> set sources. enabled s \<longrightarrow> s \<notin> set best \<longrightarrow> (\<forall>t \<in> set best. candidate_rank t < candidate_rank s)))"
proof -
  let ?on = "sort_key candidate_rank (filter enabled sources)"
  have "candidate_rank t < candidate_rank s"
    if s: "s \<in> set sources" "enabled s" "s \<notin> set (chosen_sources sources)" and t: "t \<in> set (chosen_sources sources)" for s t
  proof -
    have "s \<in> set ?on" using s by simp
    then have "s \<in> set (drop 4 ?on)"
      using s(3) by (metis Un_iff append_take_drop_id chosen_sources_def set_append)
    with t have "candidate_rank t \<le> candidate_rank s"
      using sorted_take_drop_le[of candidate_rank ?on] by (simp add: chosen_sources_def)
    moreover have "t \<in> set sources" using t by (auto simp: chosen_sources_def dest: in_set_takeD)
    then have "source_id t \<noteq> source_id s" using assms s t by (auto simp: distinct_map inj_on_def)
    then have "candidate_rank t \<noteq> candidate_rank s" by (simp add: candidate_rank_def)
    ultimately show ?thesis by simp
  qed
  moreover have "set (chosen_sources sources) \<subseteq> {s \<in> set sources. enabled s}"
    by (auto simp: chosen_sources_def dest: in_set_takeD)
  moreover have "sorted (map candidate_rank (chosen_sources sources))"
    by (simp add: chosen_sources_def take_map[symmetric] sorted_wrt_take)
  ultimately show ?thesis
    by (auto simp: rank_chosen chosen_sources_def[symmetric] min.commute
        simp del: upt_Suc intro!: exI[of _ "chosen_sources sources"])
       (simp add: chosen_sources_def min.commute del: upt_Suc)
qed

theorem rank_takes_best_witness:
  "map cand_source (rank_source_candidates demo_accounts) = [''a'', ''b'']
   \<and> map cand_slot (rank_source_candidates demo_accounts) = [1, 2]"
proof -
  have d: "distinct (map source_id demo_accounts)" by code_simp
  have "filter enabled demo_accounts = [demo_account ''b'' 5 True, demo_account ''a'' 5 True]"
    by (simp add: demo_accounts_def demo_account_def)
  with rank_takes_best[OF d] have "map cand_slot (rank_source_candidates demo_accounts) = [1, 2]"
    by (simp add: upt_rec)
  moreover have "map cand_source (rank_source_candidates demo_accounts) = [''a'', ''b'']" by code_simp
  ultimately show ?thesis by simp
qed

subsection \<open>Providers\<close>

lemma group_provider_Inr:
  assumes "group_provider sources p = Inr g"
  shows "prov_id g = p" "prov_source_ids g = map source_id (provider_accounts sources p)"
    "configured_max_connections g = sum_list (map max_connections (provider_accounts sources p))"
    "enabled_max_connections g = sum_list (map max_connections (filter enabled (provider_accounts sources p)))"
  using assms by (auto simp: group_provider_def Let_def split: list.splits)

lemma group_providers_Inr:
  "group_providers sources ps = Inr gs \<Longrightarrow>
   map prov_id gs = ps \<and> concat (map prov_source_ids gs) = concat (map (map source_id \<circ> provider_accounts sources) ps)
   \<and> sum_list (map configured_max_connections gs)
       = sum_list (map (\<lambda>p. sum_list (map max_connections (provider_accounts sources p))) ps)
   \<and> sum_list (map enabled_max_connections gs)
       = sum_list (map (\<lambda>p. sum_list (map max_connections (filter enabled (provider_accounts sources p)))) ps)"
  by (induction ps arbitrary: gs) (auto simp: rbind_Inr_iff dest: group_provider_Inr)

lemma mset_partition:
  "distinct ps \<Longrightarrow> set (map g xs) \<subseteq> set ps \<Longrightarrow>
   mset xs = mset (concat (map (\<lambda>p. filter (\<lambda>x. g x = p) xs) ps))"
proof (induction xs)
  case Nil
  show ?case by (induction ps) auto
next
  case (Cons x xs)
  then have ih: "mset xs = mset (concat (map (\<lambda>p. filter (\<lambda>y. g y = p) xs) ps))" by simp
  have "mset (concat (map (\<lambda>p. filter (\<lambda>y. g y = p) (x # xs)) qs))
      = mset (concat (map (\<lambda>p. filter (\<lambda>y. g y = p) xs) qs)) + (if g x \<in> set qs then {#x#} else {#})"
    if "distinct qs" for qs using that by (induction qs) auto
  from this[OF Cons.prems(1)] ih Cons.prems(2) show ?case by simp
qed

lemma mset_provider_accounts:
  "mset (concat (map (provider_accounts sources) (sorted_list_of_set (set (map provider_of sources))))) = mset sources"
proof -
  let ?ps = "sorted_list_of_set (set (map provider_of sources))"
  have "mset (concat (map (provider_accounts sources) ps))
      = mset (concat (map (\<lambda>p. filter (\<lambda>s. provider_of s = p) sources) ps))" for ps
    by (induction ps) (simp_all add: provider_accounts_def)
  moreover have "mset sources = mset (concat (map (\<lambda>p. filter (\<lambda>s. provider_of s = p) sources) ?ps))"
    by (rule mset_partition) simp_all
  ultimately show ?thesis by simp
qed

lemma sum_list_mset: "mset xs = mset ys \<Longrightarrow> sum_list (map (g :: _ \<Rightarrow> int) xs) = sum_list (map g ys)"
  by (metis mset_map sum_mset_sum_list)

text \<open>
  The providers partition the accounts: a grouping has one provider per provider id, lists every source
  exactly once, and its connection totals, overall and of the enabled accounts, are those of the sources.
\<close>

theorem providers_partition_sources:
  assumes "group_source_providers sources = Inr gs"
  shows "map prov_id gs = sorted_list_of_set (set (map provider_of sources))
    \<and> mset (concat (map prov_source_ids gs)) = mset (map source_id sources)
    \<and> sum_list (map configured_max_connections gs) = sum_list (map max_connections sources)
    \<and> sum_list (map enabled_max_connections gs) = sum_list (map max_connections (filter enabled sources))"
proof -
  let ?ps = "sorted_list_of_set (set (map provider_of sources))"
  let ?all = "concat (map (provider_accounts sources) ?ps)"
  from assms have g: "group_providers sources ?ps = Inr gs" by (simp add: group_source_providers_def)
  have all: "mset ?all = mset sources" by (rule mset_provider_accounts)
  then have on: "mset (filter enabled ?all) = mset (filter enabled sources)" by (metis mset_filter)
  have ids: "concat (map (map source_id \<circ> provider_accounts sources) ps)
      = map source_id (concat (map (provider_accounts sources) ps))" for ps
    by (induction ps) auto
  have sums: "sum_list (map (\<lambda>p. sum_list (map max_connections (provider_accounts sources p))) ps)
      = sum_list (map max_connections (concat (map (provider_accounts sources) ps)))"
    "sum_list (map (\<lambda>p. sum_list (map max_connections (filter enabled (provider_accounts sources p)))) ps)
      = sum_list (map max_connections (filter enabled (concat (map (provider_accounts sources) ps))))" for ps
    by (induction ps) auto
  show ?thesis
    using group_providers_Inr[OF g] sum_list_mset[OF all, of max_connections] sum_list_mset[OF on, of max_connections]
      all by (simp add: ids sums del: map_map)
qed

theorem providers_partition_sources_witness:
  "\<exists>gs. group_source_providers demo_accounts = Inr gs \<and> sum_list (map configured_max_connections gs) = 6
      \<and> sum_list (map enabled_max_connections gs) = 4"
proof -
  have "\<exists>gs. group_source_providers demo_accounts = Inr gs"
    using demo_write_run by (auto simp: write_lifecycle_def split: sum.splits)
  then obtain gs where gs: "group_source_providers demo_accounts = Inr gs" by blast
  from providers_partition_sources[OF gs] show ?thesis
    using gs by (auto simp: demo_accounts_def demo_account_def)
qed

subsection \<open>The file\<close>

text \<open>
  C37. What is written can be read back: after a successful write of validated sources the file loads as the
  same sources in the order of their ids.
\<close>

theorem lifecycle_write_load:
  assumes "write_lifecycle regular ss f = (Inr (), f')" and "list_all (wf_sports_source render lo utc) ss"
  shows "load_lifecycle (source_from_mapping render lo utc) f' = Inr (sort_key source_id ss)"
proof -
  from assms(1) have "distinct (map source_id ss)" "f' = lifecycle_document ss"
    by (auto simp: write_lifecycle_def split: sum.splits if_split_asm)
  with assms(2) show ?thesis by (simp add: load_lifecycle_document wf_lifecycle_def)
qed

theorem lifecycle_write_load_witness:
  "load_lifecycle (source_from_mapping no_render no_url_literals demo_utc) demo_lifecycle_file
     = Inr (sort_key source_id demo_accounts)"
  using lifecycle_write_load[OF demo_write_run demo_account_wf[folded demo_accounts_def]] .

fun with_priority :: "pyval \<Rightarrow> pyval \<Rightarrow> pyval" where
  "with_priority v (PDict e) = PDict (AList.update ''priority'' v e)"
| "with_priority v other = other"

text \<open>
  A stored infinite number escapes the validation: a document whose first source has the priority
  \<open>Infinity\<close>, which \<open>json.loads\<close> accepts, makes the load raise \<open>OverflowError\<close> and not the declared
  \<open>SourceLifecycleError\<close>.
\<close>

theorem infinite_priority_escapes:
  assumes "wf_sports_source render lo utc s"
  shows "load_lifecycle (source_from_mapping render lo utc)
      (Document (PDict [(''version'', PInt 1),
         (''sources'', PList (with_priority (PFloat PInf) (source_to_mapping s) # others))]))
    = Inl (SourceBuiltin OverflowError)"
proof -
  from assms obtain p pn an where n: "provider_id s = Some p" "kept_text 64 p" "provider_display_name s = Some pn"
    "kept_text 128 pn" "account_display_name s = Some an" "kept_text 128 an"
    by (auto simp: wf_sports_source_def)
  have "source_from_mapping render lo utc (with_priority (PFloat PInf) (source_to_mapping s))
      = Inl (SourceBuiltin OverflowError)"
    using assms n
    by (simp add: source_from_mapping_def source_to_mapping_def sports_source_fields_def dict_default_def
        wf_sports_source_def kind_field_def trust_field_def int_field.simps)
  then show ?thesis by (simp add: lifecycle_from_document_def dict_default_def)
qed

theorem infinite_priority_escapes_witness:
  "load_lifecycle (source_from_mapping no_render no_url_literals demo_utc)
      (Document (PDict [(''version'', PInt 1),
         (''sources'', PList (with_priority (PFloat PInf) (source_to_mapping (demo_account ''b'' 5 True)) # []))]))
    = Inl (SourceBuiltin OverflowError)"
  by (rule infinite_priority_escapes) (use demo_account_wf in simp)

end
