(* ===== verification/Live_Claims.thy ===== *)
theory Live_Claims
  imports Channel_Bindings Live_Sources Source_Lifecycle
begin

text \<open>
  The authority claims for live admission on the Atlas side
  (\<open>modules/sports/src/atlas_live_policy_claim.py\<close>): for a published channel, which accounts may carry it,
  rebuilt from the channel bindings, the live sources and the lifecycle sources, and the two read-only
  endpoints of \<open>private_api.py\<close> that serve them and the managed classification.
\<close>

subsection \<open>Claims\<close>

datatype claim_exn = AtlasLivePolicyUnavailable | ClaimBuiltin pyexn

record policy_claim =
  claim_channel :: string
  claim_source :: string
  claim_account :: int
  claim_max_connections :: int
  claim_realm :: string
  claim_provider :: "string option"
  claim_event :: "string option"
  claim_kind :: string
  claim_standalone :: "string option"

abbreviation claim_error :: "claim_exn + 'a" where
  "claim_error \<equiv> Inl AtlasLivePolicyUnavailable"

definition claim_common :: "policy_claim \<Rightarrow> (string \<times> pyval) list" where
  "claim_common c =
     [(''channel_uuid'', PStr (claim_channel c)), (''source_id'', PStr (claim_source c)),
      (''account_id'', PInt (claim_account c)),
      (''configured_max_connections'', PInt (claim_max_connections c)),
      (''credential_realm'', PStr (claim_realm c))]"

definition claim_to_mapping :: "policy_claim \<Rightarrow> pyval" where
  "claim_to_mapping c =
     (if claim_kind c = ''standalone'' then
        PDict (claim_common c @ [(''identity_kind'', PStr ''standalone''),
          (''standalone_channel_id'', optional_json (claim_standalone c))])
      else
        PDict (claim_common c @ [(''provider'', optional_json (claim_provider c)),
          (''provider_event_id'', optional_json (claim_event c))]))"

subsection \<open>Rebuilding a claim\<close>

text \<open>
  \<open>urllib.parse.unquote\<close>. Escapes of non-ASCII bytes are left as they are: what they decode to is not a
  string of 8-bit characters, and none of it can make an UUID.
\<close>

definition hex_value :: "char \<Rightarrow> nat" where
  "hex_value c = (let n = of_char (lower_char c) :: nat in if n \<le> 57 then n - 48 else n - 87)"

fun unquote :: "string \<Rightarrow> string" where
  "unquote (c # a # b # s) =
     (if c = CHR ''%'' \<and> hex_any a \<and> hex_any b \<and> hex_value a < 8
      then char_of (16 * hex_value a + hex_value b) # unquote s
      else c # unquote (a # b # s))"
| "unquote s = s"

text \<open>
  \<open>(?:dispatcharr:m3u:)?([1-9][0-9]*)\<close> with \<open>int()\<close> of the group, which refuses more than 4300 digits.
\<close>

definition positive_numeral :: "string \<Rightarrow> bool" where
  "positive_numeral s \<longleftrightarrow>
     (case s of [] \<Rightarrow> False
      | c # cs \<Rightarrow> c \<in> set ''123456789'' \<and> list_all (\<lambda>d. d \<in> set ''0123456789'') cs)"

definition m3u_prefix :: string where
  "m3u_prefix = ''dispatcharr:m3u:''"

definition account_digits :: "string \<Rightarrow> string option" where
  "account_digits reference =
     (let digits = (if starts_with m3u_prefix reference then drop (length m3u_prefix) reference else reference)
      in if positive_numeral digits then Some digits else None)"

definition account_of_reference :: "string option \<Rightarrow> claim_exn + int" where
  "account_of_reference r =
     (case account_digits (text_or r []) of
        None \<Rightarrow> claim_error
      | Some ds \<Rightarrow> if length ds > 4300 then Inl (ClaimBuiltin ValueError) else Inr (int (undec_nat ds)))"

definition names_account :: "int \<Rightarrow> sports_source \<Rightarrow> bool" where
  "names_account account s \<longleftrightarrow>
     text_or (backend_reference s) [] \<in> {dec account, m3u_prefix @ dec account}"

definition published_url_ok :: "string \<Rightarrow> url_parts \<Rightarrow> bool" where
  "published_url_ok channel u \<longleftrightarrow>
     http_scheme u \<and> url_netloc u \<noteq> [] \<and> url_username u = None \<and> url_password u = None
     \<and> url_query u = [] \<and> url_fragment u = []
     \<and> ends_with (''/proxy/ts/stream/'' @ channel) (url_path u)
     \<and> unquote (after_last (CHR ''/'') (url_path u)) = channel"

definition identity_ok :: "live_source \<Rightarrow> bool" where
  "identity_ok live =
     (if live_standalone live
      then live_provider live = None \<and> live_event live = None \<and> standalone_text (source_channel_id live)
      else truthy_text (live_provider live) \<and> truthy_text (live_event live))"

text \<open>The unique element of a list that satisfies a predicate, as the code checks it by length.\<close>

definition the_only :: "('a \<Rightarrow> bool) \<Rightarrow> 'a list \<Rightarrow> claim_exn + 'a" where
  "the_only P xs = (case filter P xs of [x] \<Rightarrow> Inr x | _ \<Rightarrow> claim_error)"

definition split_claim :: "(string \<Rightarrow> bool) \<Rightarrow> string \<Rightarrow> claim_exn + url_parts" where
  "split_claim lo url = (case urlsplit lo url of None \<Rightarrow> Inl (ClaimBuiltin ValueError) | Some u \<Rightarrow> Inr u)"

definition claim_for_channel ::
  "(string \<Rightarrow> bool) \<Rightarrow> string \<Rightarrow> string \<Rightarrow> sports_source list \<Rightarrow> channel_binding list \<Rightarrow> live_source list
   \<Rightarrow> claim_exn + policy_claim" where
  "claim_for_channel lo channel sid lifecycle bindings lives =
     rbind (require (canonical_uuid channel) AtlasLivePolicyUnavailable) (\<lambda>_.
     rbind (require (token_text 127 sid) AtlasLivePolicyUnavailable) (\<lambda>_.
     rbind (the_only (\<lambda>b. dispatcharr_channel_uuid b = channel) bindings) (\<lambda>binding.
     rbind (the_only (\<lambda>l. source_channel_id l = atlas_channel_id binding) lives) (\<lambda>live.
     rbind (require (sid \<in> set (live_resources live) \<and> distinct (live_resources live))
              AtlasLivePolicyUnavailable) (\<lambda>_.
     rbind (split_claim lo (live_url live)) (\<lambda>u.
     rbind (require (published_url_ok channel u) AtlasLivePolicyUnavailable) (\<lambda>_.
     rbind (require (identity_ok live) AtlasLivePolicyUnavailable) (\<lambda>_.
     rbind (the_only (\<lambda>s. source_id s = sid) lifecycle) (\<lambda>source.
     rbind (require (enabled source) AtlasLivePolicyUnavailable) (\<lambda>_.
     case credential_realm source of
       None \<Rightarrow> claim_error
     | Some realm \<Rightarrow>
         rbind (require (realm_text realm) AtlasLivePolicyUnavailable) (\<lambda>_.
         rbind (require (account_digits (text_or (backend_reference source) []) \<noteq> None
                         \<and> 0 < max_connections source) AtlasLivePolicyUnavailable) (\<lambda>_.
         rbind (account_of_reference (backend_reference source)) (\<lambda>account.
         rbind (require (\<not> list_ex (\<lambda>s. enabled s \<and> source_id s \<noteq> sid \<and> names_account account s) lifecycle)
                  AtlasLivePolicyUnavailable) (\<lambda>_.
           Inr \<lparr>claim_channel = channel, claim_source = sid, claim_account = account,
                claim_max_connections = max_connections source, claim_realm = realm,
                claim_provider = live_provider live, claim_event = live_event live,
                claim_kind = (if live_standalone live then ''standalone'' else ''event''),
                claim_standalone = (if live_standalone live then Some (source_channel_id live) else None)\<rparr>))))))))))))))"

fun claims_for_sources :: "(string \<Rightarrow> claim_exn + policy_claim) \<Rightarrow> string list \<Rightarrow> claim_exn + policy_claim list" where
  "claims_for_sources claim [] = Inr []"
| "claims_for_sources claim (s # ss) =
     rbind (claim s) (\<lambda>c. rbind (claims_for_sources claim ss) (\<lambda>cs. Inr (c # cs)))"

definition claims_for_channel ::
  "(string \<Rightarrow> bool) \<Rightarrow> string \<Rightarrow> sports_source list \<Rightarrow> channel_binding list \<Rightarrow> live_source list
   \<Rightarrow> claim_exn + policy_claim list" where
  "claims_for_channel lo channel lifecycle bindings lives =
     rbind (the_only (\<lambda>b. dispatcharr_channel_uuid b = channel) bindings) (\<lambda>binding.
     rbind (the_only (\<lambda>l. source_channel_id l = atlas_channel_id binding) lives) (\<lambda>live.
     rbind (require (live_resources live \<noteq> []) AtlasLivePolicyUnavailable) (\<lambda>_.
     rbind (claims_for_sources (\<lambda>sid. claim_for_channel lo channel sid lifecycle bindings lives)
              (live_resources live)) (\<lambda>cs.
     rbind (require (distinct (map claim_account cs)) AtlasLivePolicyUnavailable) (\<lambda>_. Inr cs)))))"

subsection \<open>The two internal endpoints\<close>

datatype http_answer = Answer int pyval

definition unauthorized_answer :: http_answer where
  "unauthorized_answer = Answer 401 (PDict [(''error'', PStr ''Unauthorized.'')])"

definition invalid_channel_answer :: http_answer where
  "invalid_channel_answer = Answer 400 (PDict [(''error'', PStr ''Invalid channel identity.'')])"

definition unavailable_answer :: http_answer where
  "unavailable_answer =
     Answer 503 (PDict [(''code'', PStr ''sports_backend_unavailable''),
       (''error'', PStr ''Sports provider or state service is unavailable.'')])"

text \<open>
  The bearer check: a configured token of at least 32 characters that is not the writer token.
  \<open>hmac.compare_digest\<close> refuses text that is not ASCII.
\<close>

definition ascii_text :: "string \<Rightarrow> bool" where
  "ascii_text s \<longleftrightarrow> list_all (\<lambda>c. (of_char c :: nat) < 128) s"

definition live_policy_authorized :: "string \<Rightarrow> string \<Rightarrow> string \<Rightarrow> pyexn + bool" where
  "live_policy_authorized expected writer supplied =
     (if length expected < 32 \<or> expected = writer \<or> \<not> starts_with ''Bearer '' supplied then Inr False
      else if \<not> ascii_text (drop 7 supplied) \<or> \<not> ascii_text expected then Inl TypeError
      else Inr (drop 7 supplied = expected))"

definition classification_prefix :: string where
  "classification_prefix = ''/internal/v1/live-policy-classification/''"

definition live_policy_prefix :: string where
  "live_policy_prefix = ''/internal/v1/live-policy/''"

text \<open>
  \<open>GET /internal/v1/live-policy-classification/<uuid>\<close> on the split request path, with the outcome of the
  bearer check and the binding file as it is read.
\<close>

definition get_classification :: "bool \<Rightarrow> url_parts \<Rightarrow> state_file \<Rightarrow> http_answer" where
  "get_classification authorized parsed bindings =
     (if \<not> authorized then unauthorized_answer
      else if url_query parsed \<noteq> [] \<or> length (url_path parsed) > 320 then invalid_channel_answer
      else
        let channel = unquote (drop (length classification_prefix) (url_path parsed)) in
        if \<not> canonical_uuid channel then invalid_channel_answer
        else if bindings = Absent then unavailable_answer
        else (case classify_channel_uuid (PStr channel) bindings of
            Inl _ \<Rightarrow> unavailable_answer
          | Inr managed \<Rightarrow>
              Answer 200 (PDict [(''channel_uuid'', PStr channel), (''managed'', PBool managed)])))"

text \<open>
  \<open>GET /internal/v1/live-policy/<uuid>\<close>. The three registries are read in turn; every error but an
  \<open>OverflowError\<close> or a \<open>TypeError\<close> of a registry becomes an unavailable answer, those two end the handler.
\<close>

fun answered_exn :: "pyexn \<Rightarrow> bool" where
  "answered_exn ValueError = True"
| "answered_exn _ = False"

definition get_live_policy ::
  "(string \<Rightarrow> bool) \<Rightarrow> bool \<Rightarrow> url_parts \<Rightarrow> source_exn + sports_source list
   \<Rightarrow> binding_exn + channel_binding list \<Rightarrow> live_exn + live_source list \<Rightarrow> pyexn + http_answer" where
  "get_live_policy lo authorized parsed sources bindings lives =
     (if \<not> authorized then Inr unauthorized_answer
      else if url_query parsed \<noteq> [] \<or> length (url_path parsed) > 320 then Inr invalid_channel_answer
      else
        let channel = unquote (drop (length live_policy_prefix) (url_path parsed)) in
        if CHR ''/'' \<in> set channel then Inr invalid_channel_answer
        else (case sources of
            Inl (SourceBuiltin x) \<Rightarrow> if answered_exn x then Inr unavailable_answer else Inl x
          | Inl SourceLifecycleError \<Rightarrow> Inr unavailable_answer
          | Inr ss \<Rightarrow> (case bindings of
              Inl _ \<Rightarrow> Inr unavailable_answer
            | Inr bs \<Rightarrow> (case lives of
                Inl (LiveBuiltin x) \<Rightarrow> if answered_exn x then Inr unavailable_answer else Inl x
              | Inl LiveSourceCatalogError \<Rightarrow> Inr unavailable_answer
              | Inr ls \<Rightarrow> (case claims_for_channel lo channel ss bs ls of
                  Inl _ \<Rightarrow> Inr unavailable_answer
                | Inr cs \<Rightarrow> Inr (Answer 200 (PDict [(''claims'', PList (map claim_to_mapping cs))])))))))"

end
