(* ===== verification/Policy_Client.thy ===== *)
theory Policy_Client
  imports Live_Claims
begin

text \<open>
  The Dispatcharr side of the authority: the clients that fetch claims
  (\<open>m3u/atlas_policy_claims.py\<close>) and the managed classification (\<open>m3u/atlas_channel_classification.py\<close>)
  and validate every byte of the answer, the owner routing decision
  (\<open>live_proxy/verified_routing.py\<close>), the pilot gate (\<open>m3u/live_pilot_gate.py\<close>) and the assembly of the
  dependencies (\<open>m3u/verified_live_runtime.py\<close>). The HTTP transport is a parameter: what opening a URL
  with the bearer token brings back. The exceptions of one client are one type, so only the outcome counts.
\<close>

subsection \<open>Transport\<close>

datatype body = NotJson | RepeatedKey | Body pyval

text \<open>An answer has a status, the number of bytes read (one more than allowed at most) and a parsed body.\<close>

datatype response = Unreachable | Redirected | Response int nat body

type_synonym transport = "string \<Rightarrow> string \<Rightarrow> response"

definition body_within :: "nat \<Rightarrow> response \<Rightarrow> pyval option" where
  "body_within limit r =
     (case r of
        Response status nbytes (Body v) \<Rightarrow> if status = 200 \<and> nbytes \<le> limit then Some v else None
      | _ \<Rightarrow> None)"

record policy_client =
  client_origin :: string
  client_token :: string

subsection \<open>Configuration of the clients\<close>

datatype client_exn = AtlasPolicyUnavailable | ClientBuiltin pyexn

definition timeout_ok :: "pyfloat \<Rightarrow> bool" where
  "timeout_ok t \<longleftrightarrow> flt (Fin 0) t \<and> fle t (Fin 10)"

definition bare_origin :: "url_parts \<Rightarrow> bool" where
  "bare_origin u \<longleftrightarrow>
     http_scheme u \<and> url_hostname u \<noteq> [] \<and> \<not> truthy_text (url_username u) \<and> \<not> truthy_text (url_password u)
     \<and> url_query u = [] \<and> url_fragment u = [] \<and> url_path u \<in> {[], ''/''}"

definition new_policy_client ::
  "(string \<Rightarrow> bool) \<Rightarrow> string \<Rightarrow> string \<Rightarrow> pyfloat \<Rightarrow> client_exn + policy_client" where
  "new_policy_client lo origin token timeout =
     (case urlsplit lo origin of
        None \<Rightarrow> Inl (ClientBuiltin ValueError)
      | Some u \<Rightarrow>
          if \<not> bare_origin u \<or> length token < 32 \<or> \<not> timeout_ok timeout then Inl AtlasPolicyUnavailable
          else Inr \<lparr>client_origin = rstrip_char (CHR ''/'') origin, client_token = token\<rparr>)"

subsection \<open>Fetching claims\<close>

definition common_fields :: "string list" where
  "common_fields =
     [''channel_uuid'', ''source_id'', ''account_id'', ''configured_max_connections'', ''credential_realm'']"

definition event_fields :: "string list" where
  "event_fields = common_fields @ [''provider'', ''provider_event_id'']"

definition standalone_fields :: "string list" where
  "standalone_fields = common_fields @ [''identity_kind'', ''standalone_channel_id'']"

fun nonempty_text :: "pyval \<Rightarrow> string option" where
  "nonempty_text (PStr s) = (if s = [] then None else Some s)"
| "nonempty_text _ = None"

fun text_value :: "pyval \<Rightarrow> string option" where
  "text_value (PStr s) = Some s"
| "text_value _ = None"

text \<open>The identity of a row: provider and event, or the standalone channel.\<close>

definition row_identity ::
  "(string \<times> pyval) list \<Rightarrow> (string option \<times> string option \<times> string \<times> string option) option" where
  "row_identity e =
     (if set (map fst e) = set event_fields then
        (case (nonempty_text (dict_value e ''provider''), nonempty_text (dict_value e ''provider_event_id'')) of
           (Some p, Some v) \<Rightarrow> Some (Some p, Some v, ''event'', None)
         | _ \<Rightarrow> None)
      else if set (map fst e) = set standalone_fields then
        (case text_value (dict_value e ''standalone_channel_id'') of
           Some s \<Rightarrow>
             if dict_value e ''identity_kind'' = PStr ''standalone'' \<and> standalone_text s
             then Some (None, None, ''standalone'', Some s) else None
         | None \<Rightarrow> None)
      else None)"

definition read_claim :: "string \<Rightarrow> pyval \<Rightarrow> policy_claim option" where
  "read_claim channel row =
     (case row of
        PDict e \<Rightarrow>
          (case (row_identity e, text_value (dict_value e ''source_id''), text_value (dict_value e ''credential_realm'')) of
             (Some (p, v, k, s), Some sid, Some realm) \<Rightarrow>
               if dict_value e ''channel_uuid'' \<noteq> PStr channel \<or> \<not> token_text 127 sid
                  \<or> \<not> int_at_least 1 (dict_value e ''account_id'')
                  \<or> \<not> int_at_least 1 (dict_value e ''configured_max_connections'') \<or> \<not> realm_text realm
               then None
               else Some \<lparr>claim_channel = channel, claim_source = sid,
                          claim_account = int_value (dict_value e ''account_id''),
                          claim_max_connections = int_value (dict_value e ''configured_max_connections''),
                          claim_realm = realm, claim_provider = p, claim_event = v, claim_kind = k,
                          claim_standalone = s\<rparr>
           | _ \<Rightarrow> None)
      | _ \<Rightarrow> None)"

fun read_claims :: "string \<Rightarrow> pyval list \<Rightarrow> policy_claim list option" where
  "read_claims channel [] = Some []"
| "read_claims channel (v # vs) =
     (case (read_claim channel v, read_claims channel vs) of
        (Some c, Some cs) \<Rightarrow> Some (c # cs) | _ \<Rightarrow> None)"

definition claim_identity :: "policy_claim \<Rightarrow> string \<times> string option \<times> string option \<times> string option" where
  "claim_identity c = (claim_kind c, claim_provider c, claim_event c, claim_standalone c)"

definition claims_conflict :: "policy_claim list \<Rightarrow> bool" where
  "claims_conflict cs \<longleftrightarrow>
     \<not> distinct (map claim_account cs) \<or> \<not> distinct (map claim_source cs)
     \<or> length (remdups (map claim_identity cs)) \<noteq> 1"

definition claims_of_document :: "string \<Rightarrow> pyval \<Rightarrow> policy_claim list option" where
  "claims_of_document channel doc =
     (case doc of
        PDict d \<Rightarrow>
          if set (map fst d) \<noteq> {''claims''} then None
          else (case dict_value d ''claims'' of
              PList rows \<Rightarrow>
                if rows = [] \<or> length rows > 8 then None
                else (case read_claims channel rows of
                    None \<Rightarrow> None
                  | Some cs \<Rightarrow> if claims_conflict cs then None else Some cs)
            | _ \<Rightarrow> None)
      | _ \<Rightarrow> None)"

definition fetch_claims :: "transport \<Rightarrow> policy_client \<Rightarrow> string \<Rightarrow> client_exn + policy_claim list" where
  "fetch_claims open_url c channel =
     (if \<not> canonical_uuid channel then Inl AtlasPolicyUnavailable
      else (case body_within 65536 (open_url (client_token c) (client_origin c @ live_policy_prefix @ channel)) of
          None \<Rightarrow> Inl AtlasPolicyUnavailable
        | Some doc \<Rightarrow> (case claims_of_document channel doc of
            None \<Rightarrow> Inl AtlasPolicyUnavailable | Some cs \<Rightarrow> Inr cs)))"

definition claim_for_account ::
  "transport \<Rightarrow> policy_client \<Rightarrow> string \<Rightarrow> int \<Rightarrow> client_exn + policy_claim" where
  "claim_for_account open_url c channel account =
     (if account \<le> 0 then Inl AtlasPolicyUnavailable
      else rbind (fetch_claims open_url c channel) (\<lambda>cs.
        case filter (\<lambda>x. claim_account x = account) cs of
          [x] \<Rightarrow> Inr x | _ \<Rightarrow> Inl AtlasPolicyUnavailable))"

subsection \<open>Classification\<close>

datatype classify_exn = AtlasManagedClassificationUnavailable

text \<open>\<open>parsed.port\<close>, \<open>None\<close> for the \<open>ValueError\<close> of a port that is no number or too large.\<close>

definition url_port :: "url_parts \<Rightarrow> nat option option" where
  "url_port u =
     (let host = after_last (CHR ''@'') (url_netloc u);
          port = (case cut_at (CHR ''['') host of
              (_, Some bracketed) \<Rightarrow> (case snd (cut_at (CHR '']'') bracketed) of
                  None \<Rightarrow> None | Some r \<Rightarrow> snd (cut_at (CHR '':'') r))
            | (_, None) \<Rightarrow> snd (cut_at (CHR '':'') host))
      in case port of
           None \<Rightarrow> Some None
         | Some p \<Rightarrow>
             if p = [] then Some None
             else if list_all ascii_digit p \<and> undec_nat p \<le> 65535 then Some (Some (undec_nat p))
             else None)"

definition classifier_origin_ok :: "(string \<Rightarrow> bool) \<Rightarrow> string \<Rightarrow> bool" where
  "classifier_origin_ok lo origin =
     (case urlsplit lo origin of
        None \<Rightarrow> False
      | Some u \<Rightarrow> bare_origin u \<and> (case url_port u of None \<Rightarrow> False | Some p \<Rightarrow> p \<noteq> Some 0))"

definition new_channel_client ::
  "(string \<Rightarrow> bool) \<Rightarrow> string \<Rightarrow> string \<Rightarrow> pyfloat \<Rightarrow> classify_exn + policy_client" where
  "new_channel_client lo origin token timeout =
     (if \<not> classifier_origin_ok lo origin \<or> length token < 32 \<or> \<not> timeout_ok timeout
      then Inl AtlasManagedClassificationUnavailable
      else Inr \<lparr>client_origin = rstrip_char (CHR ''/'') origin, client_token = token\<rparr>)"

fun bool_value :: "pyval \<Rightarrow> bool option" where
  "bool_value (PBool b) = Some b"
| "bool_value _ = None"

definition managed_of_document :: "string \<Rightarrow> pyval \<Rightarrow> bool option" where
  "managed_of_document channel doc =
     (case doc of
        PDict d \<Rightarrow>
          if set (map fst d) \<noteq> {''channel_uuid'', ''managed''} \<or> dict_value d ''channel_uuid'' \<noteq> PStr channel
          then None else bool_value (dict_value d ''managed'')
      | _ \<Rightarrow> None)"

definition classify :: "transport \<Rightarrow> policy_client \<Rightarrow> string \<Rightarrow> classify_exn + bool" where
  "classify open_url c channel =
     (if \<not> canonical_uuid channel then Inl AtlasManagedClassificationUnavailable
      else (case body_within 4096
              (open_url (client_token c) (client_origin c @ classification_prefix @ channel)) of
          None \<Rightarrow> Inl AtlasManagedClassificationUnavailable
        | Some doc \<Rightarrow> (case managed_of_document channel doc of
            None \<Rightarrow> Inl AtlasManagedClassificationUnavailable | Some b \<Rightarrow> Inr b)))"

subsection \<open>Routing\<close>

text \<open>
  The pilot mode from the environment: \<open>ATLAS_SPORTS_PILOT_MODE\<close>, \<open>ATLAS_VERIFIED_LIVE_MODE\<close> and
  \<open>ATLAS_RESERVATION_LEDGER_MIGRATED\<close>.
\<close>

record pilot_environment =
  pilot_mode :: "string option"
  verified_mode :: "string option"
  ledger_migrated :: "string option"

definition pilot_enabled :: "pilot_environment \<Rightarrow> bool" where
  "pilot_enabled env \<longleftrightarrow> pilot_mode env \<notin> {None, Some ''off''}"

definition pilot_ready :: "pilot_environment \<Rightarrow> bool" where
  "pilot_ready env \<longleftrightarrow>
     pilot_mode env = Some ''live-only'' \<and> verified_mode env = Some ''strict''
     \<and> ledger_migrated env = Some ''1''"

datatype route = Verified | Legacy

text \<open>
  \<open>owner_route\<close>: the classifier, absent or without a \<open>classify\<close> method as \<open>None\<close>, and whether a policy is
  callable.
\<close>

definition owner_route ::
  "pilot_environment \<Rightarrow> (string \<Rightarrow> classify_exn + bool) option \<Rightarrow> bool \<Rightarrow> string \<Rightarrow> classify_exn + route" where
  "owner_route env classifier policy_callable channel =
     (case classifier of
        None \<Rightarrow> Inl AtlasManagedClassificationUnavailable
      | Some classify_channel \<Rightarrow>
          rbind (classify_channel channel) (\<lambda>managed.
            if managed then
              if policy_callable then Inr Verified else Inl AtlasManagedClassificationUnavailable
            else if pilot_enabled env then Inl AtlasManagedClassificationUnavailable
            else Inr Legacy))"

text \<open>\<open>blocked_path\<close> and the two hooks of the pilot middleware.\<close>

definition pilot_prefixes :: "string list" where
  "pilot_prefixes = [''/proxy/vod/'', ''/proxy/catchup/'', ''/proxy/hls/'', ''/movie/'', ''/series/'',
     ''/timeshift/'', ''/api/vod/'', ''/api/catchup/'']"

definition blocked_path :: "string \<Rightarrow> bool" where
  "blocked_path path \<longleftrightarrow>
     list_ex (\<lambda>p. path = butlast p \<or> starts_with p path) pilot_prefixes
     \<or> rstrip_char (CHR ''/'') path = ''/streaming/timeshift.php''"

definition middleware_blocks :: "pilot_environment \<Rightarrow> string \<Rightarrow> bool" where
  "middleware_blocks env path \<longleftrightarrow> pilot_enabled env \<and> (\<not> pilot_ready env \<or> blocked_path path)"

definition pilot_modules :: "string list" where
  "pilot_modules = [''apps.proxy.vod_proxy.'', ''apps.timeshift.'', ''apps.proxy.hls_proxy.'']"

definition view_blocked :: "pilot_environment \<Rightarrow> string list \<Rightarrow> bool" where
  "view_blocked env modules \<longleftrightarrow>
     pilot_enabled env
     \<and> (list_ex (\<lambda>m. list_ex (\<lambda>p. starts_with p m) pilot_modules) modules \<or> \<not> pilot_ready env)"

text \<open>\<open>wrap_live_view\<close>: whether the request reaches the wrapped view.\<close>

record live_request =
  request_method :: string
  network_permitted :: bool
  target_is_channel :: bool
  classifier_callable :: bool
  policy_callable :: bool

definition live_view_runs :: "pilot_environment \<Rightarrow> live_request \<Rightarrow> bool" where
  "live_view_runs env r \<longleftrightarrow>
     (if \<not> pilot_enabled env then True
      else if \<not> pilot_ready env then False
      else if request_method r \<noteq> ''GET'' \<or> \<not> network_permitted r then True
      else target_is_channel r \<and> classifier_callable r \<and> policy_callable r)"

subsection \<open>Assembly of the dependencies\<close>

datatype config_exn = VerifiedLiveConfigurationError

record verified_settings =
  set_mode :: string
  set_origin :: string
  set_token :: string
  set_key_path :: string

text \<open>The key file as it is opened: unreadable, or its type, size and the bytes read.\<close>

datatype key_file = KeyUnreadable | KeyFile bool nat string

definition scope_key_from_file :: "key_file \<Rightarrow> config_exn + string" where
  "scope_key_from_file k =
     (case k of
        KeyFile regular nbytes bytes \<Rightarrow>
          if \<not> regular \<or> nbytes \<noteq> 32 \<or> length bytes \<noteq> 32 then Inl VerifiedLiveConfigurationError else Inr bytes
      | KeyUnreadable \<Rightarrow> Inl VerifiedLiveConfigurationError)"

definition build_verified_live_dependencies ::
  "(string \<Rightarrow> bool) \<Rightarrow> (string \<Rightarrow> key_file) \<Rightarrow> verified_settings
   \<Rightarrow> config_exn + (policy_client \<times> policy_client \<times> string) option" where
  "build_verified_live_dependencies lo read_key s =
     (if set_mode s = ''off'' then Inr None
      else if set_mode s \<noteq> ''strict'' then Inl VerifiedLiveConfigurationError
      else if set_origin s = [] \<or> set_token s = [] \<or> set_key_path s = []
        then Inl VerifiedLiveConfigurationError
      else rbind (scope_key_from_file (read_key (set_key_path s))) (\<lambda>key.
        case (new_channel_client lo (set_origin s) (set_token s) (Fin 3),
              new_policy_client lo (set_origin s) (set_token s) (Fin 3)) of
          (Inr classifier, Inr policy) \<Rightarrow> Inr (Some (classifier, policy, key))
        | _ \<Rightarrow> Inl VerifiedLiveConfigurationError))"

end
