(* ===== verification/Claims_Safety.thy ===== *)
theory Claims_Safety
  imports Policy_Client Bindings_Safety Live_Safety Lifecycle_Safety
begin

text \<open>
  Correctness of the claims: what a claim attests of the registries, that the client accepts what the server
  sends and only well-formed claims, and that a channel whose UUID was ever bound is never routed to the
  legacy path.
\<close>

subsection \<open>Numerals\<close>

lemma undec_nat_snoc: "undec_nat (xs @ [d]) = 10 * undec_nat xs + digit_value d"
  by (simp add: undec_nat_def)

lemma digit_codes: "d \<in> set ''0123456789'' \<Longrightarrow> 48 \<le> (of_char d :: nat) \<and> (of_char d :: nat) \<le> 57"
  by auto

lemma digit_char_value: "d \<in> set ''0123456789'' \<Longrightarrow> digit_char (digit_value d) = d \<and> digit_value d < 10"
proof
  assume "d \<in> set ''0123456789''"
  from digit_codes[OF this] have c: "48 \<le> (of_char d :: nat)" "(of_char d :: nat) \<le> 57" by simp_all
  then show "digit_char (digit_value d) = d" by (simp add: digit_char_def digit_value_def)
  show "digit_value d < 10" unfolding digit_value_def using c by linarith
qed

lemma positive_numeral_snoc:
  "xs \<noteq> [] \<Longrightarrow> positive_numeral (xs @ [d]) \<longleftrightarrow> positive_numeral xs \<and> d \<in> set ''0123456789''"
  by (cases xs) (auto simp: positive_numeral_def)

lemma dec_nat_undec_nat: "positive_numeral s \<Longrightarrow> dec_nat (undec_nat s) = s \<and> 0 < undec_nat s"
proof (induction s rule: rev_induct)
  case (snoc d xs)
  show ?case
  proof (cases "xs = []")
    case True
    with snoc.prems have d: "d \<in> set ''123456789''" by (simp add: positive_numeral_def)
    then have "d \<in> set ''0123456789''" "0 < digit_value d" by (auto simp: digit_value_def)
    then have "digit_char (digit_value d) = d" "digit_value d < 10" "0 < digit_value d"
      using digit_char_value by blast+
    with True show ?thesis by (subst dec_nat.simps) (simp add: undec_nat_def)
  next
    case False
    with snoc have IH: "dec_nat (undec_nat xs) = xs" "0 < undec_nat xs" and d: "d \<in> set ''0123456789''"
      by (simp_all add: positive_numeral_snoc)
    from digit_char_value[OF d] IH show ?thesis
      by (subst dec_nat.simps) (simp add: undec_nat_snoc)
  qed
qed (simp add: positive_numeral_def)

lemma account_of_reference_Inr:
  assumes "account_of_reference r = Inr n"
  shows "0 < n" "text_or r [] \<in> {dec n, m3u_prefix @ dec n}"
proof -
  from assms obtain ds where ds: "account_digits (text_or r []) = Some ds" and n: "n = int (undec_nat ds)"
    by (auto simp: account_of_reference_def split: option.splits if_splits)
  from ds have p: "positive_numeral ds" by (auto simp: account_digits_def Let_def split: if_splits)
  then have "dec n = ds" "0 < n" using dec_nat_undec_nat[OF p] by (simp_all add: n dec_def)
  moreover have "text_or r [] = ds \<or> text_or r [] = m3u_prefix @ ds"
    using ds by (auto simp: account_digits_def Let_def starts_with_def split: if_splits)
       (metis append_take_drop_id)
  ultimately show "0 < n" "text_or r [] \<in> {dec n, m3u_prefix @ dec n}" by auto
qed

subsection \<open>What a claim attests\<close>

lemma the_only_Inr: "the_only P xs = Inr x \<longleftrightarrow> filter P xs = [x]"
  by (auto simp: the_only_def split: list.splits)

lemma the_only_member: "the_only P xs = Inr x \<Longrightarrow> x \<in> set xs \<and> P x"
  unfolding the_only_Inr by (metis filter_eq_Cons_iff in_set_conv_decomp)

definition attested ::
  "string \<Rightarrow> sports_source list \<Rightarrow> live_source \<Rightarrow> policy_claim \<Rightarrow> bool" where
  "attested channel lifecycle live c \<longleftrightarrow>
     claim_channel c = channel \<and> token_text 127 (claim_source c) \<and> realm_text (claim_realm c)
     \<and> 0 < claim_account c \<and> 0 < claim_max_connections c
     \<and> claim_provider c = live_provider live \<and> claim_event c = live_event live
     \<and> claim_kind c = (if live_standalone live then ''standalone'' else ''event'')
     \<and> claim_standalone c = (if live_standalone live then Some (source_channel_id live) else None)
     \<and> (\<exists>s. filter (\<lambda>s. source_id s = claim_source c) lifecycle = [s] \<and> enabled s
            \<and> claim_max_connections c = max_connections s \<and> credential_realm s = Some (claim_realm c)
            \<and> names_account (claim_account c) s)
     \<and> (\<forall>s \<in> set lifecycle. enabled s \<longrightarrow> names_account (claim_account c) s \<longrightarrow> source_id s = claim_source c)"

lemma claim_for_channel_Inr:
  assumes "claim_for_channel lo channel sid lifecycle bindings lives = Inr c"
  shows "claim_source c = sid" "canonical_uuid channel"
    "\<exists>b live. filter (\<lambda>b. dispatcharr_channel_uuid b = channel) bindings = [b]
        \<and> filter (\<lambda>l. source_channel_id l = atlas_channel_id b) lives = [live]
        \<and> sid \<in> set (live_resources live) \<and> distinct (live_resources live) \<and> identity_ok live
        \<and> attested channel lifecycle live c"
proof -
  from assms obtain binding live u source where
    p: "canonical_uuid channel" "token_text 127 sid"
    and b: "the_only (\<lambda>b. dispatcharr_channel_uuid b = channel) bindings = Inr binding"
    and l: "the_only (\<lambda>l. source_channel_id l = atlas_channel_id binding) lives = Inr live"
    and r: "sid \<in> set (live_resources live) \<and> distinct (live_resources live)" "identity_ok live"
    and s: "the_only (\<lambda>s. source_id s = sid) lifecycle = Inr source" "enabled source"
    and rest: "(case credential_realm source of
       None \<Rightarrow> claim_error
     | Some realm \<Rightarrow>
         rbind (require (realm_text realm) AtlasLivePolicyUnavailable) (\<lambda>_.
         rbind (require (account_digits (text_or (backend_reference source) []) \<noteq> None
                         \<and> 0 < max_connections source) AtlasLivePolicyUnavailable) (\<lambda>_.
         rbind (account_of_reference (backend_reference source)) (\<lambda>account.
         rbind (require (\<not> list_ex (\<lambda>s. enabled s \<and> source_id s \<noteq> sid \<and> names_account account s) lifecycle)
                  AtlasLivePolicyUnavailable) (\<lambda>_.
           Inr \<lparr>claim_channel = channel, claim_source = sid, claim_account = account,
                claim_max_connections = max_connections source, claim_realm = realm,
                claim_provider = live_provider live, claim_event = live_event live,
                claim_kind = (if live_standalone live then ''standalone'' else ''event''),
                claim_standalone = (if live_standalone live then Some (source_channel_id live) else None)\<rparr>)))))
       = Inr c"
    unfolding claim_for_channel_def Inr_iffs require_Inr_iff by blast
  from rest obtain realm account where
    q: "credential_realm source = Some realm" "realm_text realm" "0 < max_connections source"
      "account_of_reference (backend_reference source) = Inr account"
      "\<not> list_ex (\<lambda>s. enabled s \<and> source_id s \<noteq> sid \<and> names_account account s) lifecycle"
    and c: "c = \<lparr>claim_channel = channel, claim_source = sid, claim_account = account,
                claim_max_connections = max_connections source, claim_realm = realm,
                claim_provider = live_provider live, claim_event = live_event live,
                claim_kind = (if live_standalone live then ''standalone'' else ''event''),
                claim_standalone = (if live_standalone live then Some (source_channel_id live) else None)\<rparr>"
    by (auto simp: rbind_Inr_iff split: option.splits)
  show "claim_source c = sid" "canonical_uuid channel" using p c by simp_all
  have "attested channel lifecycle live c"
    using p s q account_of_reference_Inr[OF q(4)]
    by (auto simp: attested_def c the_only_Inr names_account_def list_ex_iff)
  then show "\<exists>b live. filter (\<lambda>b. dispatcharr_channel_uuid b = channel) bindings = [b]
        \<and> filter (\<lambda>l. source_channel_id l = atlas_channel_id b) lives = [live]
        \<and> sid \<in> set (live_resources live) \<and> distinct (live_resources live) \<and> identity_ok live
        \<and> attested channel lifecycle live c"
    using b l r unfolding the_only_Inr by blast
qed

lemma claims_for_sources_Inr:
  "claims_for_sources g ss = Inr cs \<Longrightarrow> length cs = length ss \<and> list_all2 (\<lambda>s c. g s = Inr c) ss cs"
  by (induction ss arbitrary: cs) (auto simp: rbind_Inr_iff)

lemma claims_for_channel_Inr:
  assumes "claims_for_channel lo channel lifecycle bindings lives = Inr cs"
  obtains b live where "filter (\<lambda>b. dispatcharr_channel_uuid b = channel) bindings = [b]"
    "filter (\<lambda>l. source_channel_id l = atlas_channel_id b) lives = [live]"
    "canonical_uuid channel" "identity_ok live" "live_resources live \<noteq> []"
    "map claim_source cs = live_resources live" "distinct (map claim_source cs)"
    "distinct (map claim_account cs)" "list_all (attested channel lifecycle live) cs"
proof -
  from assms obtain b live where
    b: "filter (\<lambda>b. dispatcharr_channel_uuid b = channel) bindings = [b]"
    and l: "filter (\<lambda>l. source_channel_id l = atlas_channel_id b) lives = [live]"
    and r: "live_resources live \<noteq> []" "distinct (map claim_account cs)"
    and cs: "claims_for_sources (\<lambda>sid. claim_for_channel lo channel sid lifecycle bindings lives)
              (live_resources live) = Inr cs"
    unfolding claims_for_channel_def Inr_iffs require_Inr_iff the_only_Inr by blast
  have each: "claim_source c = sid \<and> canonical_uuid channel \<and> distinct (live_resources live)
      \<and> identity_ok live \<and> attested channel lifecycle live c"
    if "claim_for_channel lo channel sid lifecycle bindings lives = Inr c" for sid c
    using claim_for_channel_Inr[OF that] b l by fastforce
  note all = claims_for_sources_Inr[OF cs]
  then have "list_all2 (\<lambda>sid c. claim_source c = sid \<and> canonical_uuid channel \<and> distinct (live_resources live)
      \<and> identity_ok live \<and> attested channel lifecycle live c) (live_resources live) cs"
    using each by (auto intro: list_all2_mono)
  then have m: "map claim_source cs = live_resources live"
    and each': "\<forall>c \<in> set cs. canonical_uuid channel \<and> distinct (live_resources live) \<and> identity_ok live
      \<and> attested channel lifecycle live c"
    by (auto simp: list_all2_conv_all_nth in_set_conv_nth intro!: nth_equalityI)
  obtain c where "c \<in> set cs" using m r(1) by (cases cs) auto
  with each' m r b l show ?thesis by (intro that[of b live]) (auto simp: list_all_iff)
qed


text \<open>
  The properties of the live authority across the two services: what a claim proves about the registries,
  the wire between server and client, and the route of a channel that was ever managed.
\<close>

subsection \<open>The wire\<close>

lemma read_claim_mapping:
  assumes "attested channel lifecycle live c" "identity_ok live"
  shows "read_claim channel (claim_to_mapping c) = Some c"
proof (cases "live_standalone live")
  case True
  then have c: "claim_kind c = ''standalone''" "claim_standalone c = Some (source_channel_id live)"
    "claim_provider c = None" "claim_event c = None" and s: "standalone_text (source_channel_id live)"
    using assms by (simp_all add: attested_def identity_ok_def)
  define e where "e = claim_common c @ [(''identity_kind'', PStr ''standalone''),
          (''standalone_channel_id'', PStr (source_channel_id live))]"
  have keys: "map fst e = standalone_fields"
    by (simp add: e_def claim_common_def standalone_fields_def common_fields_def)
  have "set standalone_fields \<noteq> set event_fields"
  proof
    assume eq: "set standalone_fields = set event_fields"
    have "''identity_kind'' \<in> set standalone_fields" by (simp add: standalone_fields_def)
    then have "''identity_kind'' \<in> set event_fields" by (simp only: eq)
    then show False by (simp add: event_fields_def common_fields_def)
  qed
  moreover have "dict_value e ''standalone_channel_id'' = PStr (source_channel_id live)"
    "dict_value e ''identity_kind'' = PStr ''standalone''"
    by (simp_all add: e_def claim_common_def dict_default_def)
  ultimately have i: "row_identity e = Some (None, None, ''standalone'', Some (source_channel_id live))"
    using s by (simp add: row_identity_def keys)
  have "dict_value e ''channel_uuid'' = PStr channel" "dict_value e ''source_id'' = PStr (claim_source c)"
    "dict_value e ''account_id'' = PInt (claim_account c)"
    "dict_value e ''configured_max_connections'' = PInt (claim_max_connections c)"
    "dict_value e ''credential_realm'' = PStr (claim_realm c)"
    using assms(1) by (simp_all add: e_def claim_common_def dict_default_def attested_def)
  moreover have "claim_to_mapping c = PDict e" by (simp add: claim_to_mapping_def c e_def)
  ultimately show ?thesis using assms(1) c i
    by (cases c) (simp add: read_claim_def attested_def)
next
  case False
  then obtain p v where c: "claim_kind c = ''event''" "claim_standalone c = None"
    "claim_provider c = Some p" "claim_event c = Some v" "p \<noteq> []" "v \<noteq> []"
    using assms by (auto simp: attested_def identity_ok_def truthy_text_def)
  define e where "e = claim_common c @ [(''provider'', PStr p), (''provider_event_id'', PStr v)]"
  have keys: "map fst e = event_fields"
    by (simp add: e_def claim_common_def event_fields_def common_fields_def)
  have "dict_value e ''provider'' = PStr p" "dict_value e ''provider_event_id'' = PStr v"
    by (simp_all add: e_def claim_common_def dict_default_def)
  then have i: "row_identity e = Some (Some p, Some v, ''event'', None)"
    using c by (simp add: row_identity_def keys)
  have "dict_value e ''channel_uuid'' = PStr channel" "dict_value e ''source_id'' = PStr (claim_source c)"
    "dict_value e ''account_id'' = PInt (claim_account c)"
    "dict_value e ''configured_max_connections'' = PInt (claim_max_connections c)"
    "dict_value e ''credential_realm'' = PStr (claim_realm c)"
    using assms(1) by (simp_all add: e_def claim_common_def dict_default_def attested_def)
  moreover have "claim_to_mapping c = PDict e" by (simp add: claim_to_mapping_def c e_def)
  ultimately show ?thesis using assms(1) c i
    by (cases c) (simp add: read_claim_def attested_def)
qed

lemma read_claims_mappings:
  "list_all (attested channel lifecycle live) cs \<Longrightarrow> identity_ok live \<Longrightarrow>
   read_claims channel (map claim_to_mapping cs) = Some cs"
  by (induction cs) (auto simp: read_claim_mapping[of channel lifecycle live])

lemma same_identity:
  assumes "list_all (attested channel lifecycle live) cs" "cs \<noteq> []"
  shows "length (remdups (map claim_identity cs)) = 1"
proof -
  have "set (map claim_identity cs) = {(if live_standalone live then ''standalone'' else ''event'',
      live_provider live, live_event live, if live_standalone live then Some (source_channel_id live) else None)}"
    using assms by (auto simp: list_all_iff attested_def claim_identity_def image_iff neq_Nil_conv)
  then show ?thesis by (simp only: length_remdups_card_conv) simp
qed

lemma unquote_plain: "CHR ''%'' \<notin> set s \<Longrightarrow> unquote s = s"
  by (induction s rule: unquote.induct) auto

subsection \<open>A concrete authority\<close>

definition demo_lifecycle :: "sports_source list" where
  "demo_lifecycle =
     [demo_account ''acc-1'' 5 True, (demo_account ''acc-2'' 5 True)\<lparr>backend_reference := Some ''8''\<rparr>]"

definition demo_live_binding :: channel_binding where
  "demo_live_binding = \<lparr>atlas_channel_id = ''sports-live-match-1'', dispatcharr_channel_id = 3,
     dispatcharr_channel_uuid = demo_uuid_a\<rparr>"

definition demo_claims :: "policy_claim list" where
  "demo_claims = map (\<lambda>(sid, account).
     \<lparr>claim_channel = demo_uuid_a, claim_source = sid, claim_account = account, claim_max_connections = 2,
      claim_realm = ''realm-1'', claim_provider = Some ''espn'', claim_event = Some ''e1'', claim_kind = ''event'',
      claim_standalone = None\<rparr>) [(''acc-1'', 7), (''acc-2'', 8)]"

lemma demo_claims_run:
  "claims_for_channel no_literals demo_uuid_a demo_lifecycle [demo_live_binding] [demo_source] = Inr demo_claims"
  by code_simp

definition demo_client :: policy_client where
  "demo_client = \<lparr>client_origin = ''http://sports:8080'', client_token = replicate 32 (CHR ''t'')\<rparr>"

definition demo_transport :: transport where
  "demo_transport token url =
     (if url = ''http://sports:8080'' @ live_policy_prefix @ demo_uuid_a
      then Response 200 500 (Body (PDict [(''claims'', PList (map claim_to_mapping demo_claims))]))
      else Unreachable)"

subsection \<open>Properties\<close>

text \<open>
  C31. The claims for a channel prove the current state of the registries: the channel is bound exactly once,
  to exactly one published source; the claims are for the resource ids of that source, in their order, each
  for exactly one lifecycle source, which is enabled, has that realm and limit, and is the only enabled source
  that names the claimed account; no two claims share an account or a source.
\<close>

theorem claims_attest_registries:
  assumes "claims_for_channel lo channel lifecycle bindings lives = Inr cs"
  shows "canonical_uuid channel
    \<and> (\<exists>b live. filter (\<lambda>b. dispatcharr_channel_uuid b = channel) bindings = [b]
         \<and> filter (\<lambda>l. source_channel_id l = atlas_channel_id b) lives = [live]
         \<and> map claim_source cs = live_resources live)
    \<and> distinct (map claim_source cs) \<and> distinct (map claim_account cs)
    \<and> (\<forall>c \<in> set cs. claim_channel c = channel
         \<and> (\<exists>s. filter (\<lambda>s. source_id s = claim_source c) lifecycle = [s] \<and> enabled s
              \<and> claim_max_connections c = max_connections s \<and> 0 < max_connections s
              \<and> credential_realm s = Some (claim_realm c) \<and> names_account (claim_account c) s)
         \<and> (\<forall>s \<in> set lifecycle. enabled s \<longrightarrow> names_account (claim_account c) s \<longrightarrow> source_id s = claim_source c))"
proof -
  from assms obtain b live where
    b: "filter (\<lambda>b. dispatcharr_channel_uuid b = channel) bindings = [b]"
    "filter (\<lambda>l. source_channel_id l = atlas_channel_id b) lives = [live]"
    "canonical_uuid channel" "map claim_source cs = live_resources live"
    and d: "distinct (map claim_source cs)" "distinct (map claim_account cs)"
    and a: "list_all (attested channel lifecycle live) cs"
    by (rule claims_for_channel_Inr)
  have "claim_channel c = channel
         \<and> (\<exists>s. filter (\<lambda>s. source_id s = claim_source c) lifecycle = [s] \<and> enabled s
              \<and> claim_max_connections c = max_connections s \<and> 0 < max_connections s
              \<and> credential_realm s = Some (claim_realm c) \<and> names_account (claim_account c) s)
         \<and> (\<forall>s \<in> set lifecycle. enabled s \<longrightarrow> names_account (claim_account c) s \<longrightarrow> source_id s = claim_source c)"
    if "c \<in> set cs" for c
    using a that unfolding list_all_iff attested_def by metis
  with b d show ?thesis by blast
qed

theorem claims_attest_registries_witness:
  "canonical_uuid demo_uuid_a \<and> distinct (map claim_account demo_claims)"
  using claims_attest_registries[OF demo_claims_run] by blast

text \<open>
  C32. The wire keeps the claims: the client accepts the document the server renders for up to eight claims
  and returns exactly those claims, and asking for one claimed account returns its claim.
\<close>

theorem fetched_claims_are_served:
  assumes "claims_for_channel lo channel lifecycle bindings lives = Inr cs" and "length cs \<le> 8"
    and "open_url (client_token client) (client_origin client @ live_policy_prefix @ channel)
           = Response 200 n (Body (PDict [(''claims'', PList (map claim_to_mapping cs))]))"
    and "n \<le> 65536"
  shows "fetch_claims open_url client channel = Inr cs
    \<and> (\<forall>c \<in> set cs. claim_for_account open_url client channel (claim_account c) = Inr c)"
proof -
  from assms(1) obtain live where i: "identity_ok live" and r: "live_resources live \<noteq> []"
    "map claim_source cs = live_resources live" and u: "canonical_uuid channel"
    and d: "distinct (map claim_source cs)" "distinct (map claim_account cs)"
    and a: "list_all (attested channel lifecycle live) cs"
    by (rule claims_for_channel_Inr)
  have ne: "cs \<noteq> []" using r by (cases cs) auto
  have "claims_of_document channel (PDict [(''claims'', PList (map claim_to_mapping cs))]) = Some cs"
    using ne assms(2) d same_identity[OF a ne] read_claims_mappings[OF a i]
    by (simp add: claims_of_document_def dict_default_def claims_conflict_def)
  then have f: "fetch_claims open_url client channel = Inr cs"
    using u assms(3,4) by (simp add: fetch_claims_def body_within_def)
  have "filter (\<lambda>x. claim_account x = claim_account c) cs = [c]" if "c \<in> set cs" for c
    using d(2) that by (induction cs) (auto simp: filter_empty_conv image_iff)
  moreover have "0 < claim_account c" if "c \<in> set cs" for c
    using a that by (auto simp: list_all_iff attested_def)
  ultimately show ?thesis using f by (auto simp: claim_for_account_def not_le)
qed

theorem fetched_claims_are_served_witness:
  "fetch_claims demo_transport demo_client demo_uuid_a = Inr demo_claims"
proof -
  have "demo_transport (client_token demo_client) (client_origin demo_client @ live_policy_prefix @ demo_uuid_a)
      = Response 200 500 (Body (PDict [(''claims'', PList (map claim_to_mapping demo_claims))]))"
    by (simp add: demo_transport_def demo_client_def)
  from fetched_claims_are_served[where client = demo_client and open_url = demo_transport, OF demo_claims_run _ this] show ?thesis
    by (simp add: demo_claims_def)
qed

text \<open>
  C28. A channel whose UUID was ever bound never takes the legacy route: after a successful binding and any
  later sequence of registry operations, an owner that classifies through the classification endpoint over the
  resulting file, whatever of its answers gets through and in whatever mode the proxy runs, routes the channel
  to verified admission or refuses it.
\<close>

theorem managed_channel_never_legacy:
  assumes "set_binding atlas_arg id_arg uuid_arg f = (Inr b, f')" and "bindings_action\<^sup>*\<^sup>* f' f''"
    and "\<forall>status n doc.
      open_url (client_token client) (client_origin client @ classification_prefix @ dispatcharr_channel_uuid b)
        = Response status n (Body doc) \<longrightarrow>
      (\<exists>authorized parsed. url_path parsed = classification_prefix @ dispatcharr_channel_uuid b
         \<and> get_classification authorized parsed f'' = Answer status doc)"
  shows "owner_route env (Some (classify open_url client)) policy (dispatcharr_channel_uuid b) \<noteq> Inr Legacy"
proof
  let ?u = "dispatcharr_channel_uuid b"
  let ?url = "client_origin client @ classification_prefix @ ?u"
  assume "owner_route env (Some (classify open_url client)) policy ?u = Inr Legacy"
  then have "classify open_url client ?u = Inr False"
    by (cases "classify open_url client ?u") (auto simp: owner_route_def split: if_splits)
  then obtain doc where u: "canonical_uuid ?u" and m: "managed_of_document ?u doc = Some False"
    and bw: "body_within 4096 (open_url (client_token client) ?url) = Some doc"
    by (auto simp: classify_def split: if_splits option.splits)
  from bw obtain n where "open_url (client_token client) ?url = Response 200 n (Body doc)"
    by (auto simp: body_within_def split: response.splits body.splits if_splits)
  with assms(3) obtain authorized parsed where p: "url_path parsed = classification_prefix @ ?u"
    and g: "get_classification authorized parsed f'' = Answer 200 doc" by blast
  have "unquote ?u = ?u"
  proof -
    have "CHR ''%'' \<notin> set ?u"
      using canonical_uuid_chars[OF u, of "CHR ''%''"] hex_digit_facts(12)[of "CHR ''%''"] by auto
    then show ?thesis by (rule unquote_plain)
  qed
  with g p have "\<exists>c. classify_channel_uuid (PStr ?u) f'' = Inr c
      \<and> doc = PDict [(''channel_uuid'', PStr ?u), (''managed'', PBool c)]"
    by (auto simp: get_classification_def unauthorized_answer_def invalid_channel_answer_def
        unavailable_answer_def Let_def split: if_splits sum.splits)
  then obtain c where c: "classify_channel_uuid (PStr ?u) f'' = Inr c"
    and doc: "doc = PDict [(''channel_uuid'', PStr ?u), (''managed'', PBool c)]" by blast
  from m have "c = False" by (simp add: doc managed_of_document_def dict_default_def)
  with c managed_never_unmanaged[OF assms(1,2)] show False by simp
qed

definition demo_path :: url_parts where
  "demo_path = \<lparr>url_scheme = [], url_netloc = [], url_path = classification_prefix @ demo_channel_uuid,
     url_query = [], url_fragment = []\<rparr>"

definition demo_classifier :: transport where
  "demo_classifier token url =
     (case get_classification True demo_path demo_bound of Answer status doc \<Rightarrow> Response status 100 (Body doc))"

theorem managed_channel_never_legacy_witness:
  "owner_route \<lparr>pilot_mode = None, verified_mode = None, ledger_migrated = None\<rparr>
     (Some (classify demo_classifier demo_client)) True demo_channel_uuid \<noteq> Inr Legacy"
proof -
  have uuid: "dispatcharr_channel_uuid demo_binding = demo_channel_uuid" by (simp add: demo_binding_def)
  have "url_path demo_path = classification_prefix @ demo_channel_uuid" by (simp add: demo_path_def)
  then have "\<forall>status n doc.
      demo_classifier (client_token demo_client)
        (client_origin demo_client @ classification_prefix @ dispatcharr_channel_uuid demo_binding)
        = Response status n (Body doc) \<longrightarrow>
      (\<exists>authorized parsed. url_path parsed = classification_prefix @ dispatcharr_channel_uuid demo_binding
         \<and> get_classification authorized parsed demo_bound = Answer status doc)"
    unfolding demo_classifier_def uuid by (auto split: http_answer.splits)
  from managed_channel_never_legacy[where client = demo_client and open_url = demo_classifier,
      OF demo_set_run _ this] show ?thesis by (simp add: uuid)
qed

end
