(* ===== verification/Verified_Policy.thy ===== *)
theory Verified_Policy
  imports Policy_Client Reservation_Ledger
begin

text \<open>
  The policy of verified live playback on the Dispatcharr side: the reservation specification built from a
  trusted binding and a capacity observation (\<open>m3u/verified_live_policy.py\<close>), the effective credentials
  (\<open>m3u/strict_effective_credentials.py\<close>), the capacity observation of the provider
  (\<open>m3u/provider_capacity_observation.py\<close>), the adapter that joins them
  (\<open>m3u/atlas_verified_policy_adapter.py\<close>) and the short-lived cache
  (\<open>live_proxy/verified_policy_cache.py\<close>). Database rows are records of the fields that are read. Parameters
  are the keyed hash \<open>hmac_hex\<close>, the third-party regular-expression engine and URL normalisation, and the
  transport to the provider.
\<close>

subsection \<open>Rows\<close>

record stream_row =
  stream_pk :: int
  stream_account :: "int option"
  provider_stream_id :: string

record profile_row =
  profile_pk :: int
  profile_account :: int
  profile_max_streams :: int
  profile_active :: bool
  profile_default :: bool
  search_pattern :: string
  replace_pattern :: string

record account_row =
  account_pk :: int
  account_type :: string
  account_active :: bool
  account_max_streams :: int
  server_url :: "string option"
  login_name :: "string option"
  login_password :: "string option"
  user_agent :: "string option"

record trusted_binding =
  bound_source :: string
  bound_channel :: string
  bound_account :: int
  bound_profile :: int
  canonical_realm :: string
  configured_limit :: int
  binding_enabled :: bool

record trusted_observation =
  seen_account :: int
  seen_realm :: string
  seen_status :: string
  provider_limit :: int
  observed_at_unix :: int

datatype policy_exn = VerifiedLivePolicyUnavailable | PolicyLedger ledger_exn

abbreviation policy_error :: "policy_exn + 'a" where
  "policy_error \<equiv> Inl VerifiedLivePolicyUnavailable"

subsection \<open>The reservation specification\<close>

definition owner_ok :: "string \<Rightarrow> string \<Rightarrow> bool" where
  "owner_ok channel lease \<longleftrightarrow> canonical_uuid channel \<and> strip lease \<noteq> []"

definition authority_ok :: "string \<Rightarrow> trusted_binding \<Rightarrow> trusted_observation \<Rightarrow> string list \<Rightarrow> bool" where
  "authority_ok channel b ob event_sources \<longleftrightarrow>
     binding_enabled b \<and> token_text 127 (bound_source b) \<and> bound_channel b = channel
     \<and> bound_source b \<in> set event_sources \<and> realm_text (canonical_realm b)
     \<and> canonical_realm b = seen_realm ob \<and> seen_status ob = ''active''"

definition identity_unchanged ::
  "stream_row \<Rightarrow> profile_row \<Rightarrow> account_row \<Rightarrow> trusted_binding \<Rightarrow> trusted_observation \<Rightarrow> bool" where
  "identity_unchanged s p a b ob \<longleftrightarrow>
     0 < stream_pk s \<and> 0 < profile_pk p \<and> 0 < account_pk a \<and> account_type a = ''XC'' \<and> account_active a
     \<and> stream_account s = Some (account_pk a) \<and> profile_account p = account_pk a
     \<and> bound_account b = account_pk a \<and> bound_profile b = profile_pk p \<and> seen_account ob = account_pk a"

definition credential_payload :: "string \<Rightarrow> string \<Rightarrow> string \<Rightarrow> string" where
  "credential_payload realm name password = realm @ [CHR 0x00] @ name @ [CHR 0x00] @ password"

definition build_verified_live_spec ::
  "(string \<Rightarrow> string \<Rightarrow> string) \<Rightarrow> string \<Rightarrow> string \<Rightarrow> stream_row \<Rightarrow> profile_row \<Rightarrow> account_row \<Rightarrow> trusted_binding
   \<Rightarrow> trusted_observation \<Rightarrow> string list \<Rightarrow> string \<times> string \<Rightarrow> string \<Rightarrow> int \<Rightarrow> policy_exn + spec" where
  "build_verified_live_spec hmac_hex channel lease s p a b ob event_sources login scope_key now =
     (if \<not> owner_ok channel lease then policy_error
      else if \<not> authority_ok channel b ob event_sources then policy_error
      else if \<not> identity_unchanged s p a b ob then policy_error
      else if \<not> list_all (\<lambda>n. 0 < n)
          [configured_limit b, provider_limit ob, account_max_streams a, profile_max_streams p] then policy_error
      else if \<not> 0 < observed_at_unix ob \<or> observed_at_unix ob > now \<or> now - observed_at_unix ob > 300
        then policy_error
      else if strip (fst login) = [] \<or> snd login = [] \<or> length scope_key < 32 then policy_error
      else
        let capacity = min (configured_limit b) (provider_limit ob);
            scope = hmac_hex scope_key (credential_payload (canonical_realm b) (fst login) (snd login))
        in map_exn PolicyLedger
             (new_spec (PStr ''live'') (PStr (lifecycle_owner channel lease)) (PInt (stream_pk s))
                (PInt (profile_pk p)) (PInt (account_pk a)) (PStr scope)
                (PInt (min (profile_max_streams p) capacity)) (PInt (min (account_max_streams a) capacity))
                (PInt capacity)))"

subsection \<open>Effective credentials\<close>

type_synonym credentials = "string \<times> string \<times> string"

definition valid_origin :: "url_parts \<Rightarrow> bool" where
  "valid_origin u \<longleftrightarrow>
     http_scheme u \<and> url_hostname u \<noteq> [] \<and> url_username u = None \<and> url_password u = None
     \<and> url_query u = [] \<and> url_fragment u = []"

definition origin_text_ok :: "(string \<Rightarrow> bool) \<Rightarrow> string \<Rightarrow> bool" where
  "origin_text_ok lo s = (case urlsplit lo s of None \<Rightarrow> False | Some u \<Rightarrow> valid_origin u)"

text \<open>\<open>$<name>\<close> becomes \<open>\g<name>\<close> and \<open>$1\<close> becomes \<open>\1\<close> in a replacement.\<close>

definition named_group :: "string \<Rightarrow> (string \<times> string) option" where
  "named_group s =
     (if starts_with ''$<'' s
      then (case cut_at (CHR ''>'') (drop 2 s) of
          (name, Some rest) \<Rightarrow> if name = [] then None else Some (name, rest) | _ \<Rightarrow> None)
      else None)"

lemma named_group_length: "named_group s = Some (name, rest) \<Longrightarrow> length rest < length s"
proof -
  assume "named_group s = Some (name, rest)"
  then have "cut_at (CHR ''>'') (drop 2 s) = (name, Some rest)"
    by (cases "cut_at (CHR ''>'') (drop 2 s)") (auto simp: named_group_def split: if_split_asm option.split_asm)
  from cut_at_Some(1)[OF this] have "length (drop 2 s) = length (name @ CHR ''>'' # rest)" by (rule arg_cong)
  then show ?thesis by simp
qed

function convert_named :: "string \<Rightarrow> string" where
  "convert_named [] = []"
| "convert_named (c # r) =
     (case named_group (c # r) of
        Some (name, rest) \<Rightarrow> [CHR 0x5C] @ ''g<'' @ name @ ''>'' @ convert_named rest
      | None \<Rightarrow> c # convert_named r)"
  by pat_completeness auto

termination convert_named
  by (relation "measure length") (auto dest: named_group_length)

fun convert_digits :: "string \<Rightarrow> string" where
  "convert_digits (c # d # s) =
     (if c = CHR ''$'' \<and> ascii_digit d then CHR 0x5C # d # convert_digits s
      else c # convert_digits (d # s))"
| "convert_digits s = s"

text \<open>The non-empty parts of a path.\<close>

fun split_on :: "char \<Rightarrow> string \<Rightarrow> string list" where
  "split_on c [] = [[]]"
| "split_on c (x # xs) =
     (if x = c then [] # split_on c xs
      else (case split_on c xs of p # ps \<Rightarrow> (x # p) # ps | [] \<Rightarrow> [[x]]))"

definition path_parts :: "string \<Rightarrow> string list" where
  "path_parts path = filter (\<lambda>p. p \<noteq> []) (split_on (CHR ''/'') path)"

definition join_slash :: "string list \<Rightarrow> string" where
  "join_slash ps = concat (map (\<lambda>p. CHR ''/'' # p) ps)"

definition transformed_identity :: "(string \<Rightarrow> bool) \<Rightarrow> url_parts \<Rightarrow> credentials option" where
  "transformed_identity lo u =
     (let parts = path_parts (url_path u);
          n = length parts;
          bare = url_scheme u @ ''://'' @ url_netloc u;
          origin = bare @ join_slash (take (n - 4) parts)
      in if \<not> origin_text_ok lo bare \<or> n < 4 then None
         else if parts ! (n - 4) \<noteq> ''live'' \<or> parts ! (n - 1) \<noteq> ''1234.ts'' then None
         else if \<not> origin_text_ok lo origin \<or> url_query u \<noteq> [] \<or> url_fragment u \<noteq> [] then None
         else Some (origin, parts ! (n - 3), parts ! (n - 2)))"

definition strict_effective_credentials ::
  "(string \<Rightarrow> bool) \<Rightarrow> (string option \<Rightarrow> string option) \<Rightarrow> (string \<Rightarrow> string \<Rightarrow> string \<Rightarrow> (string \<times> nat) option)
   \<Rightarrow> account_row \<Rightarrow> profile_row \<Rightarrow> policy_exn + credentials" where
  "strict_effective_credentials lo server_of subn a p =
     (if account_type a \<noteq> ''XC'' \<or> \<not> account_active a \<or> profile_account p \<noteq> account_pk a \<or> \<not> profile_active p
      then policy_error
      else (case (server_of (server_url a), login_name a, login_password a) of
          (Some server, Some name, Some password) \<Rightarrow>
            if server = [] \<or> name = [] \<or> password = [] \<or> \<not> origin_text_ok lo server then policy_error
            else if (search_pattern p = []) \<noteq> (replace_pattern p = []) then policy_error
            else if search_pattern p = [] then Inr (server, name, password)
            else
              let sample = rstrip_char (CHR ''/'') server @ ''/live/'' @ name @ ''/'' @ password @ ''/1234.ts'' in
              (case subn (search_pattern p) (convert_digits (convert_named (replace_pattern p))) sample of
                 None \<Rightarrow> policy_error
               | Some (transformed, count) \<Rightarrow>
                   if count < 1 then policy_error
                   else (case urlsplit lo transformed of
                       None \<Rightarrow> policy_error
                     | Some u \<Rightarrow> (case transformed_identity lo u of
                         None \<Rightarrow> policy_error | Some c \<Rightarrow> Inr c)))
        | _ \<Rightarrow> policy_error))"

definition verified_live_stream_url ::
  "(string \<Rightarrow> bool) \<Rightarrow> stream_row \<Rightarrow> credentials \<Rightarrow> policy_exn + string" where
  "verified_live_stream_url lo s c =
     (case c of (origin, name, password) \<Rightarrow>
        if origin = [] \<or> name = [] \<or> password = [] \<or> \<not> origin_text_ok lo origin then policy_error
        else if provider_stream_id s = [] \<or> \<not> list_all ascii_digit (provider_stream_id s) then policy_error
        else Inr (rstrip_char (CHR ''/'') origin @ ''/live/'' @ name @ ''/'' @ password @ ''/''
                    @ provider_stream_id s @ ''.ts''))"

subsection \<open>Capacity observation\<close>

record capacity_evidence =
  ev_account :: int
  ev_status :: string
  ev_max_connections :: int
  ev_active_connections :: int
  ev_observed_at :: int

definition bounded_count :: "int \<Rightarrow> int \<Rightarrow> pyval \<Rightarrow> policy_exn + int" where
  "bounded_count lo hi raw =
     (case raw of
        PInt n \<Rightarrow> if lo \<le> n \<and> n \<le> hi then Inr n else policy_error
      | PStr s \<Rightarrow>
          if s \<noteq> [] \<and> list_all ascii_digit s \<and> length s \<le> 4300
             \<and> lo \<le> int (undec_nat s) \<and> int (undec_nat s) \<le> hi
          then Inr (int (undec_nat s)) else policy_error
      | _ \<Rightarrow> policy_error)"

definition positive_limit :: "pyval \<Rightarrow> policy_exn + int" where
  "positive_limit raw = bounded_count 1 1000 raw"

definition active_connections :: "pyval \<Rightarrow> int \<Rightarrow> policy_exn + int" where
  "active_connections raw limit = bounded_count 0 limit raw"

definition capacity_url :: "url_parts \<Rightarrow> string \<Rightarrow> string \<Rightarrow> string" where
  "capacity_url u name password =
     url_scheme u @ ''://'' @ url_netloc u @ rstrip_char (CHR ''/'') (url_path u) @ ''/player_api.php?username=''
       @ quote_plus name @ ''&password='' @ quote_plus password"

definition user_info :: "pyval \<Rightarrow> (string \<times> pyval) list option" where
  "user_info doc = (case doc of
      PDict d \<Rightarrow> (case dict_value d ''user_info'' of PDict i \<Rightarrow> Some i | _ \<Rightarrow> None) | _ \<Rightarrow> None)"

text \<open>
  The reader. \<open>open_provider\<close> gets the user agent and the URL; every error, also of the clock, is the
  policy error.
\<close>

definition read_capacity ::
  "(string \<Rightarrow> bool) \<Rightarrow> transport \<Rightarrow> pyfloat \<Rightarrow> account_row \<Rightarrow> credentials \<Rightarrow> policy_exn + capacity_evidence" where
  "read_capacity lo open_provider clock a c =
     (case c of (origin, name, password) \<Rightarrow>
        if account_pk a \<le> 0 \<or> origin = [] \<or> name = [] \<or> password = [] then policy_error
        else (case urlsplit lo origin of
            None \<Rightarrow> policy_error
          | Some u \<Rightarrow>
              if \<not> valid_origin u then policy_error
              else (case user_agent a of
                  None \<Rightarrow> policy_error
                | Some agent \<Rightarrow>
                    if strip agent = [] then policy_error
                    else (case body_within 65536 (open_provider agent (capacity_url u name password)) of
                        None \<Rightarrow> policy_error
                      | Some doc \<Rightarrow> (case user_info doc of
                          None \<Rightarrow> policy_error
                        | Some i \<Rightarrow>
                            if dict_value i ''status'' \<notin> {PStr ''Active'', PStr ''active''} then policy_error
                            else
                              rbind (positive_limit (dict_value i ''max_connections'')) (\<lambda>limit.
                              rbind (active_connections (dict_value i ''active_cons'') limit) (\<lambda>active.
                                case int_of_float clock of
                                  Inl _ \<Rightarrow> policy_error
                                | Inr t \<Rightarrow>
                                    if t \<le> 0 then policy_error
                                    else Inr \<lparr>ev_account = account_pk a, ev_status = ''active'',
                                              ev_max_connections = limit, ev_active_connections = active,
                                              ev_observed_at = t\<rparr>)))))))"

subsection \<open>The adapter\<close>

record verified_plan =
  plan_spec :: spec
  plan_url :: string

record adapter =
  adapter_claims :: "string \<Rightarrow> client_exn + policy_claim list"
  adapter_capacity :: "account_row \<Rightarrow> credentials \<Rightarrow> policy_exn + capacity_evidence"
  adapter_credentials :: "account_row \<Rightarrow> profile_row \<Rightarrow> policy_exn + credentials"
  adapter_scope_key :: string
  adapter_hmac :: "string \<Rightarrow> string \<Rightarrow> string"
  adapter_now :: int

definition adapter_binding :: "string \<Rightarrow> policy_claim \<Rightarrow> profile_row \<Rightarrow> trusted_binding" where
  "adapter_binding channel c p =
     \<lparr>bound_source = claim_source c, bound_channel = channel, bound_account = claim_account c,
      bound_profile = profile_pk p, canonical_realm = claim_realm c,
      configured_limit = claim_max_connections c, binding_enabled = True\<rparr>"

definition adapter_observation :: "policy_claim \<Rightarrow> capacity_evidence \<Rightarrow> trusted_observation" where
  "adapter_observation c ev =
     \<lparr>seen_account = ev_account ev, seen_realm = claim_realm c, seen_status = ev_status ev,
      provider_limit = ev_max_connections ev, observed_at_unix = ev_observed_at ev\<rparr>"

text \<open>Every other exception inside the adapter becomes the policy error as well.\<close>

definition only_policy_error :: "'e + 'a \<Rightarrow> policy_exn + 'a" where
  "only_policy_error r = (case r of Inl _ \<Rightarrow> policy_error | Inr x \<Rightarrow> Inr x)"

definition verified_live_plan ::
  "(string \<Rightarrow> bool) \<Rightarrow> adapter \<Rightarrow> string \<Rightarrow> stream_row \<Rightarrow> profile_row \<Rightarrow> account_row \<Rightarrow> string
   \<Rightarrow> policy_exn + verified_plan" where
  "verified_live_plan lo ad channel s p a lease =
     rbind (only_policy_error (adapter_claims ad channel)) (\<lambda>claims.
     case filter (\<lambda>c. claim_account c = account_pk a) claims of
       [c] \<Rightarrow>
         if claim_channel c \<noteq> channel \<or> \<not> realm_text (claim_realm c) then policy_error
         else
           rbind (only_policy_error (adapter_credentials ad a p)) (\<lambda>(origin, name, password).
           if origin = [] \<or> name = [] \<or> password = [] then policy_error
           else
             rbind (only_policy_error (adapter_capacity ad a (origin, name, password))) (\<lambda>ev.
             if ev_account ev \<noteq> account_pk a then policy_error
             else
               rbind (only_policy_error
                        (build_verified_live_spec (adapter_hmac ad) channel lease s p a
                           (adapter_binding channel c p) (adapter_observation c ev)
                           (map claim_source claims) (name, password) (adapter_scope_key ad) (adapter_now ad)))
                 (\<lambda>sp.
               rbind (only_policy_error (verified_live_stream_url lo s (origin, name, password))) (\<lambda>url.
                 Inr \<lparr>plan_spec = sp, plan_url = url\<rparr>))))
     | _ \<Rightarrow> policy_error)"

text \<open>
  \<open>spec_for_selected\<close>: the selected identity is looked up again in the database, given as the rows of the
  channel: its streams, each with its account and the profiles of that account.
\<close>

type_synonym channel_rows_db = "(stream_row \<times> (account_row \<times> profile_row list) option) list"

definition spec_for_selected ::
  "(string \<Rightarrow> bool) \<Rightarrow> adapter \<Rightarrow> channel_rows_db option \<Rightarrow> string \<Rightarrow> int \<Rightarrow> int \<Rightarrow> int \<Rightarrow> string
   \<Rightarrow> policy_exn + spec" where
  "spec_for_selected lo ad rows channel sid pid aid lease =
     (if sid < 1 \<or> pid < 1 \<or> aid < 1 then policy_error
      else (case rows of
          None \<Rightarrow> policy_error
        | Some streams \<Rightarrow> (case filter (\<lambda>(s, _). stream_pk s = sid) streams of
            [(s, Some (a, profiles))] \<Rightarrow>
              if account_pk a \<noteq> aid then policy_error
              else (case filter (\<lambda>p. profile_pk p = pid \<and> profile_active p) profiles of
                  [p] \<Rightarrow> rbind (verified_live_plan lo ad channel s p a lease) (\<lambda>plan. Inr (plan_spec plan))
                | _ \<Rightarrow> policy_error)
          | _ \<Rightarrow> policy_error)))"

subsection \<open>The cache\<close>

type_synonym policy_identity = "int \<times> int \<times> int \<times> string"

datatype 'e cache_exn = CacheValueError | BuilderRaised 'e

record policy_cache =
  cache_ttl :: pyfloat
  cache_entry :: "(policy_identity \<times> spec \<times> pyfloat) option"

definition new_policy_cache :: "pyfloat \<Rightarrow> 'e cache_exn + policy_cache" where
  "new_policy_cache ttl =
     (if flt (Fin 0) ttl \<and> fle ttl (Fin 30) then Inr \<lparr>cache_ttl = ttl, cache_entry = None\<rparr>
      else Inl CacheValueError)"

definition cache_hit :: "policy_cache \<Rightarrow> policy_identity \<Rightarrow> pyfloat \<Rightarrow> spec option" where
  "cache_hit c i now =
     (case cache_entry c of
        None \<Rightarrow> None
      | Some (j, sp, t) \<Rightarrow>
          if j = i \<and> fle (Fin 0) (fsub now t) \<and> flt (fsub now t) (cache_ttl c) then Some sp else None)"

definition cached_build ::
  "(policy_identity \<Rightarrow> 'e + spec) \<Rightarrow> policy_identity \<Rightarrow> pyfloat \<Rightarrow> policy_cache
   \<Rightarrow> ('e cache_exn + spec) \<times> policy_cache" where
  "cached_build builder i now c =
     (case cache_hit c i now of
        Some sp \<Rightarrow> (Inr sp, c)
      | None \<Rightarrow>
          (case builder i of
             Inl e \<Rightarrow> (Inl (BuilderRaised e), c\<lparr>cache_entry := None\<rparr>)
           | Inr sp \<Rightarrow>
               if mode sp \<noteq> ''live'' then (Inl CacheValueError, c\<lparr>cache_entry := None\<rparr>)
               else (Inr sp, c\<lparr>cache_entry := Some (i, sp, now)\<rparr>)))"

end
