(* ===== verification/Policy_Safety.thy ===== *)
theory Policy_Safety
  imports Verified_Policy Claims_Safety Ledger_Effects
begin

text \<open>
  Correctness of the verified live policy: what a built specification guarantees for the ledger, which
  claim and observation stand behind a plan, the bounds of every capacity, and what the cache may answer.
\<close>

subsection \<open>The specification\<close>

lemma build_verified_live_spec_Inr:
  assumes "build_verified_live_spec hmac_hex channel lease s p a b ob event_sources login scope_key now = Inr sp"
  shows "owner_ok channel lease" "authority_ok channel b ob event_sources" "identity_unchanged s p a b ob"
    "0 < configured_limit b" "0 < provider_limit ob" "0 < account_max_streams a" "0 < profile_max_streams p"
    "observed_at_unix ob \<le> now \<and> now - observed_at_unix ob \<le> 300" "32 \<le> length scope_key"
    "sp = \<lparr>mode = ''live'', owner_id = lifecycle_owner channel lease, stream_id = stream_pk s,
        profile_id = profile_pk p, account_id = account_pk a,
        credential_scope = hmac_hex scope_key (credential_payload (canonical_realm b) (fst login) (snd login)),
        profile_capacity = min (profile_max_streams p) (min (configured_limit b) (provider_limit ob)),
        account_capacity = min (account_max_streams a) (min (configured_limit b) (provider_limit ob)),
        credential_capacity = min (configured_limit b) (provider_limit ob)\<rparr>"
proof -
  show c: "owner_ok channel lease" "authority_ok channel b ob event_sources" "identity_unchanged s p a b ob"
    "0 < configured_limit b" "0 < provider_limit ob" "0 < account_max_streams a" "0 < profile_max_streams p"
    "observed_at_unix ob \<le> now \<and> now - observed_at_unix ob \<le> 300" "32 \<le> length scope_key"
    using assms by (auto simp: build_verified_live_spec_def Let_def split: if_split_asm)
  have n: "new_spec (PStr ''live'') (PStr (lifecycle_owner channel lease)) (PInt (stream_pk s))
         (PInt (profile_pk p)) (PInt (account_pk a))
         (PStr (hmac_hex scope_key (credential_payload (canonical_realm b) (fst login) (snd login))))
         (PInt (min (profile_max_streams p) (min (configured_limit b) (provider_limit ob))))
         (PInt (min (account_max_streams a) (min (configured_limit b) (provider_limit ob))))
         (PInt (min (configured_limit b) (provider_limit ob))) = Inr sp"
    using assms by (auto simp: build_verified_live_spec_def Let_def split: if_split_asm)
  then show "sp = \<lparr>mode = ''live'', owner_id = lifecycle_owner channel lease, stream_id = stream_pk s,
        profile_id = profile_pk p, account_id = account_pk a,
        credential_scope = hmac_hex scope_key (credential_payload (canonical_realm b) (fst login) (snd login)),
        profile_capacity = min (profile_max_streams p) (min (configured_limit b) (provider_limit ob)),
        account_capacity = min (account_max_streams a) (min (configured_limit b) (provider_limit ob)),
        credential_capacity = min (configured_limit b) (provider_limit ob)\<rparr>"
    by (auto simp: new_spec_def split: if_split_asm)
qed

subsection \<open>The capacity reader\<close>

lemma bounded_count_Inr: "bounded_count lo hi v = Inr n \<Longrightarrow> lo \<le> n \<and> n \<le> hi"
  by (cases v) (auto simp: bounded_count_def split: if_split_asm)

lemma read_capacity_Inr:
  assumes "read_capacity lo open_provider clock a c = Inr ev"
  shows "ev_account ev = account_pk a" "ev_status ev = ''active''" "1 \<le> ev_max_connections ev"
    "ev_max_connections ev \<le> 1000" "0 \<le> ev_active_connections ev"
    "ev_active_connections ev \<le> ev_max_connections ev" "int_of_float clock = Inr (ev_observed_at ev)"
    "0 < ev_observed_at ev"
proof -
  obtain origin name password where c: "c = (origin, name, password)" by (cases c)
  from assms obtain u where u: "urlsplit lo origin = Some u"
    by (auto simp: read_capacity_def c split: if_split_asm option.split_asm)
  from assms u obtain agent where agent: "user_agent a = Some agent"
    by (auto simp: read_capacity_def c split: if_split_asm option.split_asm)
  from assms u agent obtain doc where doc: "body_within 65536 (open_provider agent (capacity_url u name password)) = Some doc"
    by (auto simp: read_capacity_def c split: if_split_asm option.split_asm)
  from assms u agent doc obtain i where i: "user_info doc = Some i"
    by (auto simp: read_capacity_def c split: if_split_asm option.split_asm)
  from assms u agent doc i have r: "rbind (positive_limit (dict_value i ''max_connections'')) (\<lambda>limit.
        rbind (active_connections (dict_value i ''active_cons'') limit) (\<lambda>active.
          case int_of_float clock of Inl _ \<Rightarrow> policy_error
          | Inr t \<Rightarrow> if t \<le> 0 then policy_error
              else Inr \<lparr>ev_account = account_pk a, ev_status = ''active'', ev_max_connections = limit,
                        ev_active_connections = active, ev_observed_at = t\<rparr>)) = Inr ev"
    by (simp add: read_capacity_def c split: if_split_asm)
  from r obtain limit active where
    "positive_limit (dict_value i ''max_connections'') = Inr limit"
    "active_connections (dict_value i ''active_cons'') limit = Inr active"
    and "(case int_of_float clock of Inl _ \<Rightarrow> policy_error
          | Inr t \<Rightarrow> if t \<le> 0 then policy_error
              else Inr \<lparr>ev_account = account_pk a, ev_status = ''active'', ev_max_connections = limit,
                        ev_active_connections = active, ev_observed_at = t\<rparr>) = Inr ev"
    unfolding rbind_Inr_iff by blast
  then obtain t where l: "positive_limit (dict_value i ''max_connections'') = Inr limit"
    "active_connections (dict_value i ''active_cons'') limit = Inr active" "int_of_float clock = Inr t" "0 < t"
    and ev: "ev = \<lparr>ev_account = account_pk a, ev_status = ''active'', ev_max_connections = limit,
                        ev_active_connections = active, ev_observed_at = t\<rparr>"
    by (cases "int_of_float clock") (simp_all split: if_split_asm)
  from l(1,2) have "1 \<le> limit" "limit \<le> 1000" "0 \<le> active" "active \<le> limit"
    unfolding positive_limit_def active_connections_def by (auto dest: bounded_count_Inr)
  with l ev show "ev_account ev = account_pk a" "ev_status ev = ''active''" "1 \<le> ev_max_connections ev"
    "ev_max_connections ev \<le> 1000" "0 \<le> ev_active_connections ev"
    "ev_active_connections ev \<le> ev_max_connections ev" "int_of_float clock = Inr (ev_observed_at ev)"
    "0 < ev_observed_at ev" by simp_all
qed

subsection \<open>The adapter\<close>

lemma only_policy_error_Inr [simp]: "only_policy_error r = Inr x \<longleftrightarrow> r = Inr x"
  by (cases r) (auto simp: only_policy_error_def)

lemma verified_live_plan_Inr:
  assumes "verified_live_plan lo ad channel s p a lease = Inr plan"
  obtains claims c origin name password ev where "adapter_claims ad channel = Inr claims"
    "filter (\<lambda>c. claim_account c = account_pk a) claims = [c]" "claim_channel c = channel"
    "adapter_credentials ad a p = Inr (origin, name, password)"
    "adapter_capacity ad a (origin, name, password) = Inr ev" "ev_account ev = account_pk a"
    "build_verified_live_spec (adapter_hmac ad) channel lease s p a (adapter_binding channel c p)
       (adapter_observation c ev) (map claim_source claims) (name, password) (adapter_scope_key ad)
       (adapter_now ad) = Inr (plan_spec plan)"
    "verified_live_stream_url lo s (origin, name, password) = Inr (plan_url plan)"
proof -
  from assms obtain claims where claims: "adapter_claims ad channel = Inr claims"
    and r: "(case filter (\<lambda>c. claim_account c = account_pk a) claims of
       [c] \<Rightarrow>
         if claim_channel c \<noteq> channel \<or> \<not> realm_text (claim_realm c) then policy_error
         else
           rbind (only_policy_error (adapter_credentials ad a p)) (\<lambda>(origin, name, password).
           if origin = [] \<or> name = [] \<or> password = [] then policy_error
           else
             rbind (only_policy_error (adapter_capacity ad a (origin, name, password))) (\<lambda>ev.
             if ev_account ev \<noteq> account_pk a then policy_error
             else
               rbind (only_policy_error
                        (build_verified_live_spec (adapter_hmac ad) channel lease s p a
                           (adapter_binding channel c p) (adapter_observation c ev)
                           (map claim_source claims) (name, password) (adapter_scope_key ad) (adapter_now ad)))
                 (\<lambda>sp.
               rbind (only_policy_error (verified_live_stream_url lo s (origin, name, password))) (\<lambda>url.
                 Inr \<lparr>plan_spec = sp, plan_url = url\<rparr>))))
     | _ \<Rightarrow> policy_error) = Inr plan"
    unfolding verified_live_plan_def rbind_Inr_iff only_policy_error_Inr by blast
  then obtain c where c: "filter (\<lambda>c. claim_account c = account_pk a) claims = [c]"
    by (auto split: list.split_asm)
  from r[unfolded c list.case Inr_iffs only_policy_error_Inr] show ?thesis
    by (auto simp: rbind_Inr_iff if_Inl_iff intro: that[OF claims c])
qed

text \<open>A capacity that was observed and claimed fits the exact integers of the scripts.\<close>

lemma plan_capacities:
  assumes "verified_live_plan lo ad channel s p a lease = Inr plan"
    and "\<And>a c ev. adapter_capacity ad a c = Inr ev \<Longrightarrow> ev_max_connections ev \<le> 1000"
  shows "exact_capacities (plan_spec plan)" "credential_capacity (plan_spec plan) \<le> 1000"
proof -
  from assms(1) obtain claims c origin name password ev where "adapter_claims ad channel = Inr claims"
    "filter (\<lambda>c. claim_account c = account_pk a) claims = [c]" "claim_channel c = channel"
    "adapter_credentials ad a p = Inr (origin, name, password)"
    and ev: "adapter_capacity ad a (origin, name, password) = Inr ev" and "ev_account ev = account_pk a"
    and b: "build_verified_live_spec (adapter_hmac ad) channel lease s p a (adapter_binding channel c p)
       (adapter_observation c ev) (map claim_source claims) (name, password) (adapter_scope_key ad)
       (adapter_now ad) = Inr (plan_spec plan)"
    and "verified_live_stream_url lo s (origin, name, password) = Inr (plan_url plan)"
    by (rule verified_live_plan_Inr)
  note sp = build_verified_live_spec_Inr[OF b]
  have "ev_max_connections ev \<le> 1000" using assms(2)[OF ev] .
  with sp(4-7) show "exact_capacities (plan_spec plan)" "credential_capacity (plan_spec plan) \<le> 1000"
    by (simp_all add: sp(10) exact_capacities_def spec_limits_def adapter_binding_def adapter_observation_def
        min_le_iff_disj)
qed

subsection \<open>The cache over time\<close>

text \<open>A run of the cache: each step is an identity, the clock and what the builder would answer then.\<close>

type_synonym 'e cache_step = "policy_identity \<times> pyfloat \<times> ('e + spec)"

fun run_cache :: "policy_cache \<Rightarrow> 'e cache_step list \<Rightarrow> ('e cache_exn + spec) list \<times> policy_cache" where
  "run_cache c [] = ([], c)"
| "run_cache c ((i, now, answer) # steps) =
     (let (r, c') = cached_build (\<lambda>_. answer) i now c; (rs, c'') = run_cache c' steps in (r # rs, c''))"

lemma run_cache_append:
  "run_cache c (xs @ ys) =
     (let (rs, c') = run_cache c xs; (ss, c'') = run_cache c' ys in (rs @ ss, c''))"
  by (induction xs arbitrary: c) (auto simp: Let_def split: prod.splits)

lemma cached_build_ttl: "cache_ttl (snd (cached_build builder i now c)) = cache_ttl c"
  by (auto simp: cached_build_def split: option.splits sum.splits)

definition backed :: "'e cache_step list \<Rightarrow> policy_cache \<Rightarrow> bool" where
  "backed steps c \<longleftrightarrow> (\<forall>i sp t. cache_entry c = Some (i, sp, t) \<longrightarrow> (i, t, Inr sp) \<in> set steps \<and> mode sp = ''live'')"

lemma cached_build_backed:
  assumes "backed steps c"
  shows "backed (steps @ [(i, now, answer)]) (snd (cached_build (\<lambda>_. answer) i now c))"
  using assms by (auto simp: backed_def cached_build_def split: option.splits sum.splits)

lemma run_cache_backed:
  "backed pre c \<Longrightarrow> backed (pre @ steps) (snd (run_cache c steps)) \<and> cache_ttl (snd (run_cache c steps)) = cache_ttl c"
proof (induction steps arbitrary: pre c)
  case (Cons x steps)
  obtain i now answer where x: "x = (i, now, answer)" by (cases x)
  let ?c = "snd (cached_build (\<lambda>_. answer) i now c)"
  have "backed (pre @ [x]) ?c" using cached_build_backed[OF Cons.prems] x by simp
  from Cons.IH[OF this] show ?case
    by (simp add: x Let_def case_prod_unfold cached_build_ttl)
qed simp


text \<open>
  The properties of the verified live policy, with a concrete adapter over the concrete claims.
\<close>

subsection \<open>A concrete policy\<close>

definition demo_stream :: stream_row where
  "demo_stream = \<lparr>stream_pk = 21, stream_account = Some 7, provider_stream_id = ''445''\<rparr>"

definition demo_profile :: profile_row where
  "demo_profile = \<lparr>profile_pk = 31, profile_account = 7, profile_max_streams = 5, profile_active = True,
     profile_default = True, search_pattern = [], replace_pattern = []\<rparr>"

definition demo_m3u :: account_row where
  "demo_m3u = \<lparr>account_pk = 7, account_type = ''XC'', account_active = True, account_max_streams = 1,
     server_url = Some ''http://provider:80'', login_name = Some ''user'', login_password = Some ''pass'',
     user_agent = Some ''VLC''\<rparr>"

definition demo_provider :: transport where
  "demo_provider agent url =
     (if url = ''http://provider:80/player_api.php?username=user&password=pass''
      then Response 200 300 (Body (PDict [(''user_info'', PDict [(''status'', PStr ''Active''),
             (''max_connections'', PStr ''3''), (''active_cons'', PInt 1)])]))
      else Unreachable)"

definition demo_hmac :: "string \<Rightarrow> string \<Rightarrow> string" where
  "demo_hmac key payload = replicate 64 (CHR ''c'')"

definition demo_adapter :: adapter where
  "demo_adapter = \<lparr>adapter_claims = fetch_claims demo_transport demo_client,
     adapter_capacity = read_capacity no_literals demo_provider (Fin 1000),
     adapter_credentials = strict_effective_credentials no_literals (\<lambda>u. u) (\<lambda>_ _ _. None),
     adapter_scope_key = replicate 32 (CHR ''k''), adapter_hmac = demo_hmac, adapter_now = 1100\<rparr>"

definition demo_plan :: verified_plan where
  "demo_plan = \<lparr>plan_spec = \<lparr>mode = ''live'', owner_id = lifecycle_owner demo_uuid_a ''lease-1'', stream_id = 21,
      profile_id = 31, account_id = 7, credential_scope = replicate 64 (CHR ''c''), profile_capacity = 2,
      account_capacity = 1, credential_capacity = 2\<rparr>,
     plan_url = ''http://provider:80/live/user/pass/445.ts''\<rparr>"

definition demo_origin :: url_parts where
  "demo_origin = \<lparr>url_scheme = ''http'', url_netloc = ''provider:80'', url_path = [], url_query = [],
     url_fragment = []\<rparr>"

lemma demo_capacity_run:
  "adapter_capacity demo_adapter demo_m3u (''http://provider:80'', ''user'', ''pass'')
     = Inr \<lparr>ev_account = 7, ev_status = ''active'', ev_max_connections = 3, ev_active_connections = 1,
            ev_observed_at = 1000\<rparr>"
proof -
  have "urlsplit no_literals ''http://provider:80'' = Some demo_origin" "valid_origin demo_origin"
    "capacity_url demo_origin ''user'' ''pass'' = ''http://provider:80/player_api.php?username=user&password=pass''"
    "strip ''VLC'' = ''VLC''" "positive_limit (PStr ''3'') = Inr 3" "active_connections (PInt 1) 3 = Inr 1"
    by code_simp+
  moreover have "int_of_float (Fin 1000) = Inr 1000" by simp
  ultimately show ?thesis
    by (simp add: demo_adapter_def read_capacity_def demo_m3u_def demo_provider_def body_within_def user_info_def
        dict_default_def)
qed

lemma demo_plan_run:
  "verified_live_plan no_literals demo_adapter demo_uuid_a demo_stream demo_profile demo_m3u ''lease-1'' = Inr demo_plan"
proof -
  have f: "adapter_claims demo_adapter demo_uuid_a = Inr demo_claims"
    using fetched_claims_are_served_witness by (simp add: demo_adapter_def)
  have "filter (\<lambda>c. claim_account c = account_pk demo_m3u) demo_claims = [demo_claims ! 0]" by code_simp
  moreover have "claim_channel (demo_claims ! 0) = demo_uuid_a" "realm_text (claim_realm (demo_claims ! 0))"
    by code_simp+
  moreover have "adapter_credentials demo_adapter demo_m3u demo_profile = Inr (''http://provider:80'', ''user'', ''pass'')"
    by code_simp
  moreover have "adapter_capacity demo_adapter demo_m3u (''http://provider:80'', ''user'', ''pass'')
      = Inr \<lparr>ev_account = 7, ev_status = ''active'', ev_max_connections = 3, ev_active_connections = 1,
             ev_observed_at = 1000\<rparr>" by (rule demo_capacity_run)
  moreover have "build_verified_live_spec (adapter_hmac demo_adapter) demo_uuid_a ''lease-1'' demo_stream demo_profile
      demo_m3u (adapter_binding demo_uuid_a (demo_claims ! 0) demo_profile)
      (adapter_observation (demo_claims ! 0) \<lparr>ev_account = 7, ev_status = ''active'', ev_max_connections = 3,
          ev_active_connections = 1, ev_observed_at = 1000\<rparr>)
      (map claim_source demo_claims) (''user'', ''pass'') (adapter_scope_key demo_adapter) (adapter_now demo_adapter)
      = Inr (plan_spec demo_plan)" by code_simp
  moreover have "verified_live_stream_url no_literals demo_stream (''http://provider:80'', ''user'', ''pass'')
      = Inr (plan_url demo_plan)" by code_simp
  ultimately show ?thesis
    by (simp add: verified_live_plan_def f only_policy_error_def demo_m3u_def)
qed

subsection \<open>Properties\<close>

text \<open>
  C29. Every capacity of a verified plan is backed: with the provider reader as the source of observations,
  the credential capacity is the smaller of the claimed and the observed limit, the profile and account
  capacities do not exceed it nor the configured maxima, all lie between 1 and 1000, and the specification is
  one the live channel operations of the ledger accept.
\<close>

theorem plan_capacity_bounds:
  assumes "verified_live_plan lo ad channel s p a lease = Inr plan"
    and "adapter_capacity ad = read_capacity lo open_provider clock"
  shows "\<exists>claims c creds ev. adapter_claims ad channel = Inr claims \<and> c \<in> set claims
      \<and> claim_account c = account_pk a \<and> read_capacity lo open_provider clock a creds = Inr ev
      \<and> credential_capacity (plan_spec plan) = min (claim_max_connections c) (ev_max_connections ev)
      \<and> profile_capacity (plan_spec plan) = min (profile_max_streams p) (credential_capacity (plan_spec plan))
      \<and> account_capacity (plan_spec plan) = min (account_max_streams a) (credential_capacity (plan_spec plan))
      \<and> 1 \<le> profile_capacity (plan_spec plan) \<and> 1 \<le> account_capacity (plan_spec plan)
      \<and> credential_capacity (plan_spec plan) \<le> 1000
      \<and> exact_capacities (plan_spec plan) \<and> valid_live (plan_spec plan) channel lease"
proof -
  from assms(1) obtain claims c origin name password ev where claims: "adapter_claims ad channel = Inr claims"
    and c: "filter (\<lambda>c. claim_account c = account_pk a) claims = [c]" and "claim_channel c = channel"
    and "adapter_credentials ad a p = Inr (origin, name, password)"
    and ev: "adapter_capacity ad a (origin, name, password) = Inr ev" and "ev_account ev = account_pk a"
    and b: "build_verified_live_spec (adapter_hmac ad) channel lease s p a (adapter_binding channel c p)
       (adapter_observation c ev) (map claim_source claims) (name, password) (adapter_scope_key ad)
       (adapter_now ad) = Inr (plan_spec plan)"
    and "verified_live_stream_url lo s (origin, name, password) = Inr (plan_url plan)"
    by (rule verified_live_plan_Inr)
  note sp = build_verified_live_spec_Inr[OF b]
  have bound: "ev_max_connections e \<le> 1000" if "adapter_capacity ad x y = Inr e" for x y e
    using that assms(2) read_capacity_Inr(4) by metis
  have "exact_capacities (plan_spec plan)" "credential_capacity (plan_spec plan) \<le> 1000"
    by (rule plan_capacities[OF assms(1)]; erule bound)+
  moreover have "c \<in> set claims" "claim_account c = account_pk a"
    using filter_singleton[OF c] by simp_all
  moreover have "valid_live (plan_spec plan) channel lease"
    using sp(1) by (simp add: sp(10) valid_live_def owner_ok_def)
  ultimately show ?thesis
    using claims ev[unfolded assms(2)] sp(4-7)
    by (intro exI[of _ claims] exI[of _ c] exI[of _ "(origin, name, password)"] exI[of _ ev])
       (simp add: sp(10) adapter_binding_def adapter_observation_def)
qed

theorem plan_capacity_bounds_witness:
  "credential_capacity (plan_spec demo_plan) \<le> 1000 \<and> exact_capacities (plan_spec demo_plan)
   \<and> valid_live (plan_spec demo_plan) demo_uuid_a ''lease-1''"
proof -
  have "adapter_capacity demo_adapter = read_capacity no_literals demo_provider (Fin 1000)"
    by (simp add: demo_adapter_def)
  from plan_capacity_bounds[OF demo_plan_run this] show ?thesis by blast
qed

text \<open>
  C30. A verified plan is for the identity it was asked for and for one login: its owner is the channel and
  lease, its stream, profile and account are the selected rows of one active Xtream account, its credential
  scope is the keyed hash of the claimed realm and of the very login in its upstream URL, and the capacity
  evidence is at most 300 seconds old.
\<close>

theorem plan_identity_and_scope:
  assumes "verified_live_plan lo ad channel s p a lease = Inr plan"
  shows "\<exists>realm origin name password ev. adapter_credentials ad a p = Inr (origin, name, password)
      \<and> adapter_capacity ad a (origin, name, password) = Inr ev
      \<and> mode (plan_spec plan) = ''live'' \<and> owner_id (plan_spec plan) = lifecycle_owner channel lease
      \<and> stream_id (plan_spec plan) = stream_pk s \<and> profile_id (plan_spec plan) = profile_pk p
      \<and> account_id (plan_spec plan) = account_pk a \<and> account_type a = ''XC'' \<and> account_active a
      \<and> stream_account s = Some (account_pk a) \<and> profile_account p = account_pk a
      \<and> credential_scope (plan_spec plan)
          = adapter_hmac ad (adapter_scope_key ad) (credential_payload realm name password)
      \<and> plan_url plan = rstrip_char (CHR ''/'') origin @ ''/live/'' @ name @ ''/'' @ password @ ''/''
          @ provider_stream_id s @ ''.ts''
      \<and> ev_observed_at ev \<le> adapter_now ad \<and> adapter_now ad - ev_observed_at ev \<le> 300"
proof -
  from assms obtain claims c origin name password ev where "adapter_claims ad channel = Inr claims"
    and "filter (\<lambda>c. claim_account c = account_pk a) claims = [c]" and "claim_channel c = channel"
    and cr: "adapter_credentials ad a p = Inr (origin, name, password)"
    and ev: "adapter_capacity ad a (origin, name, password) = Inr ev" and "ev_account ev = account_pk a"
    and b: "build_verified_live_spec (adapter_hmac ad) channel lease s p a (adapter_binding channel c p)
       (adapter_observation c ev) (map claim_source claims) (name, password) (adapter_scope_key ad)
       (adapter_now ad) = Inr (plan_spec plan)"
    and url: "verified_live_stream_url lo s (origin, name, password) = Inr (plan_url plan)"
    by (rule verified_live_plan_Inr)
  note sp = build_verified_live_spec_Inr[OF b]
  have "plan_url plan = rstrip_char (CHR ''/'') origin @ ''/live/'' @ name @ ''/'' @ password @ ''/''
          @ provider_stream_id s @ ''.ts''"
    using url by (auto simp: verified_live_stream_url_def split: if_split_asm)
  then show ?thesis using cr ev sp(3,8)
    by (intro exI[of _ "claim_realm c"] exI[of _ origin] exI[of _ name] exI[of _ password] exI[of _ ev])
       (simp add: sp(10) identity_unchanged_def adapter_binding_def adapter_observation_def)
qed

theorem plan_identity_and_scope_witness:
  "\<exists>realm name password. credential_scope (plan_spec demo_plan)
     = adapter_hmac demo_adapter (adapter_scope_key demo_adapter) (credential_payload realm name password)"
  using plan_identity_and_scope[OF demo_plan_run] by blast

text \<open>
  The cache never answers for another identity and never with a stale result: over any sequence of
  requests, a returned specification is what the builder answered for the same identity, either at this very
  request or at an earlier one whose clock lies less than the time to live, at most 30 seconds, behind.
\<close>

theorem cache_answers_fresh:
  assumes "new_policy_cache ttl = (Inr c :: unit cache_exn + policy_cache)"
    and "fst (cached_build (\<lambda>_. answer) i now (snd (run_cache c steps))) = Inr sp"
  shows "fle ttl (Fin 30) \<and> mode sp = ''live''
    \<and> (answer = Inr sp \<or>
       (\<exists>t. (i, t, Inr sp) \<in> set steps \<and> fle (Fin 0) (fsub now t) \<and> flt (fsub now t) ttl))"
proof -
  from assms(1) have c: "c = \<lparr>cache_ttl = ttl, cache_entry = None\<rparr>" and t: "fle ttl (Fin 30)"
    by (auto simp: new_policy_cache_def split: if_split_asm)
  then have "backed [] c" by (simp add: backed_def)
  from run_cache_backed[OF this, of steps] have b: "backed steps (snd (run_cache c steps))"
    and ttl: "cache_ttl (snd (run_cache c steps)) = ttl" by (simp_all add: c)
  show ?thesis
  proof (cases "cache_hit (snd (run_cache c steps)) i now")
    case None
    with assms(2) t show ?thesis by (auto simp: cached_build_def split: sum.splits if_split_asm)
  next
    case (Some hit)
    with assms(2) have "hit = sp" by (simp add: cached_build_def)
    with Some b ttl t show ?thesis
      by (auto simp: cache_hit_def backed_def split: option.splits if_split_asm)
  qed
qed

theorem cache_answers_fresh_witness:
  "\<exists>t. ((1, 2, 7, ''lease''), t, Inr (plan_spec demo_plan)) \<in> set [((1, 2, 7, ''lease''), Fin 5, Inr (plan_spec demo_plan))]
     \<and> fle (Fin 0) (fsub (Fin 9) t) \<and> flt (fsub (Fin 9) t) (Fin 20)"
proof -
  have n: "new_policy_cache (Fin 20) = Inr \<lparr>cache_ttl = Fin 20, cache_entry = None\<rparr>"
    by (simp add: new_policy_cache_def)
  have "fst (cached_build (\<lambda>_. Inl ()) (1, 2, 7, ''lease'') (Fin 9)
      (snd (run_cache \<lparr>cache_ttl = Fin 20, cache_entry = None\<rparr>
        [((1, 2, 7, ''lease''), Fin 5, Inr (plan_spec demo_plan))]))) = Inr (plan_spec demo_plan)"
    by (simp add: cached_build_def cache_hit_def demo_plan_def)
  from cache_answers_fresh[OF n this] show ?thesis by simp
qed

end
