(* ===== verification/Stream_Ownership.thy ===== *)
theory Stream_Ownership
  imports Url_Text Durable_State
begin

text \<open>
  The durable ownership of opened Jellyfin live streams (\<open>src/atlas/jellyfin_live_streams.py\<close>, class
  \<open>OwnedJellyfinLiveStreams\<close>). A record is written before the remote mutation it announces, and an
  ambiguous outcome is latched as \<open>blocked\<close> for an operator. An operation therefore returns its result
  together with the events in their order: the file contents it wrote, the remote calls it issued and the
  calls that returned. A process that dies in between leaves a prefix of the events.

  The lock makes the operations one after the other. The clock readings within one check are one
  instant; a number is kept by its value; failures of the file system itself are not modelled.
\<close>

subsection \<open>Records\<close>

datatype stream_exn = LiveStreamOwnershipError | StreamBuiltin pyexn | RemoteFailure

datatype stream_status = Opening | Active | Closing | Blocked

record owned_stream =
  own_user :: string
  own_item :: string
  own_seen :: pyfloat
  own_status :: stream_status
  own_stream :: "string option"
  own_play :: pyval
  own_media :: pyval

type_synonym streams = "(string \<times> owned_stream) list"

abbreviation own_error :: "stream_exn + 'a" where
  "own_error \<equiv> Inl LiveStreamOwnershipError"

fun status_text :: "stream_status \<Rightarrow> string" where
  "status_text Opening = ''opening''"
| "status_text Active = ''active''"
| "status_text Closing = ''closing''"
| "status_text Blocked = ''blocked''"

definition stream_statuses :: "(string \<times> stream_status) list" where
  "stream_statuses =
     [(''opening'', Opening), (''active'', Active), (''closing'', Closing), (''blocked'', Blocked)]"

subsection \<open>Reading and writing the file\<close>

text \<open>\<open>row["status"] in {...}\<close> hashes the value first.\<close>

definition read_status :: "pyval \<Rightarrow> stream_exn + stream_status" where
  "read_status v =
     (case v of
        PStr s \<Rightarrow> (case map_of stream_statuses s of None \<Rightarrow> own_error | Some st \<Rightarrow> Inr st)
      | PList _ \<Rightarrow> Inl (StreamBuiltin TypeError)
      | PDict _ \<Rightarrow> Inl (StreamBuiltin TypeError)
      | _ \<Rightarrow> own_error)"

definition read_owner_text :: "pyval \<Rightarrow> stream_exn + string" where
  "read_owner_text v = (case v of PStr s \<Rightarrow> if s = [] then own_error else Inr s | _ \<Rightarrow> own_error)"

text \<open>A finite number; \<open>math.isfinite\<close> converts an integer to a float.\<close>

fun finite_number :: "pyval \<Rightarrow> stream_exn + pyfloat" where
  "finite_number (PInt n) = map_exn StreamBuiltin (float_of_int n)"
| "finite_number (PFloat (Fin q)) = Inr (Fin q)"
| "finite_number _ = own_error"

definition read_stream_id :: "stream_status \<Rightarrow> pyval \<Rightarrow> stream_exn + string option" where
  "read_stream_id st v =
     (case v of
        PNone \<Rightarrow> if st \<in> {Active, Closing} then own_error else Inr None
      | PStr s \<Rightarrow> if s = [] then own_error else Inr (Some s)
      | _ \<Rightarrow> own_error)"

definition stream_fields :: "string list" where
  "stream_fields = [''user_id'', ''item_id'', ''last_seen'', ''status'', ''live_stream_id'', ''play_session_id'',
     ''media_source_id'']"

definition read_owned :: "pyval \<Rightarrow> stream_exn + owned_stream" where
  "read_owned v =
     (case v of
        PDict e \<Rightarrow>
          if set (map fst e) \<noteq> set stream_fields then own_error
          else
            rbind (read_status (dict_value e ''status'')) (\<lambda>st.
            rbind (read_owner_text (dict_value e ''user_id'')) (\<lambda>user.
            rbind (read_owner_text (dict_value e ''item_id'')) (\<lambda>item.
            rbind (finite_number (dict_value e ''last_seen'')) (\<lambda>seen.
            rbind (read_stream_id st (dict_value e ''live_stream_id'')) (\<lambda>sid.
              Inr \<lparr>own_user = user, own_item = item, own_seen = seen, own_status = st, own_stream = sid,
                   own_play = dict_value e ''play_session_id'',
                   own_media = dict_value e ''media_source_id''\<rparr>)))))
      | _ \<Rightarrow> own_error)"

fun read_streams :: "(string \<times> pyval) list \<Rightarrow> streams \<Rightarrow> stream_exn + streams" where
  "read_streams [] acc = Inr acc"
| "read_streams ((k, v) # rest) acc =
     rbind (read_owned v) (\<lambda>r. read_streams rest (AList.update k r acc))"

fun load_streams :: "state_file \<Rightarrow> stream_exn + streams" where
  "load_streams Absent = Inr []"
| "load_streams (Document (PDict d)) =
     (if set (map fst d) \<noteq> {''version'', ''streams''} \<or> \<not> equals_int (dict_value d ''version'') 1 then own_error
      else (case dict_value d ''streams'' of PDict items \<Rightarrow> read_streams items [] | _ \<Rightarrow> own_error))"
| "load_streams _ = own_error"

definition encode_owned :: "owned_stream \<Rightarrow> pyval" where
  "encode_owned r =
     PDict [(''item_id'', PStr (own_item r)), (''last_seen'', PFloat (own_seen r)),
            (''live_stream_id'', optional_json (own_stream r)), (''media_source_id'', own_media r),
            (''play_session_id'', own_play r), (''status'', PStr (status_text (own_status r))),
            (''user_id'', PStr (own_user r))]"

definition write_streams :: "streams \<Rightarrow> state_file" where
  "write_streams ss =
     Document (PDict
       [(''streams'', PDict (map (\<lambda>(k, r). (k, encode_owned r)) (sorted_items ss))),
        (''version'', PInt 1)])"

subsection \<open>Events\<close>

datatype remote_call = OpenCall string | StopCall string | CloseCall string

datatype event = Wrote streams | Called remote_call | Returned remote_call | Retired string

fun file_after :: "state_file \<Rightarrow> event list \<Rightarrow> state_file" where
  "file_after f [] = f"
| "file_after f (Wrote ss # es) = file_after (write_streams ss) es"
| "file_after f (e # es) = file_after f es"

subsection \<open>Opening\<close>

datatype open_outcome = OpenRaised | OpenReturned pyval

definition stale_stream :: "int \<Rightarrow> pyfloat \<Rightarrow> owned_stream \<Rightarrow> bool" where
  "stale_stream ttl now r \<longleftrightarrow> fle (fint ttl) (fsub now (own_seen r))"

definition stream_identity :: "pyval \<Rightarrow> string option" where
  "stream_identity response =
     (case response of
        PDict d \<Rightarrow> (case dict_value d ''MediaSource'' of
            PDict s \<Rightarrow> (case dict_value s ''LiveStreamId'' of
                PStr i \<Rightarrow> if strip i = [] then None else Some (strip i)
              | _ \<Rightarrow> None)
          | _ \<Rightarrow> None)
      | _ \<Rightarrow> None)"

record stream_owner =
  owner_session :: string
  owner_user :: string
  owner_item :: string
  owner_play :: "string option"
  owner_media :: "string option"

definition opening_row :: "pyfloat \<Rightarrow> stream_owner \<Rightarrow> owned_stream" where
  "opening_row now w =
     \<lparr>own_user = owner_user w, own_item = owner_item w, own_seen = now, own_status = Opening,
      own_stream = None, own_play = optional_json (owner_play w), own_media = optional_json (owner_media w)\<rparr>"

definition open_stream ::
  "int \<Rightarrow> pyfloat \<Rightarrow> pyfloat \<Rightarrow> stream_owner \<Rightarrow> open_outcome \<Rightarrow> state_file
   \<Rightarrow> (stream_exn + pyval) \<times> event list" where
  "open_stream ttl now later w result f =
     (case load_streams f of
        Inl e \<Rightarrow> (Inl e, [])
      | Inr ss \<Rightarrow>
          if owner_session w \<in> fst ` set ss
             \<or> list_ex (\<lambda>(_, r). own_status r \<noteq> Active \<or> stale_stream ttl now r) ss
          then (own_error, [])
          else
            let s = owner_session w;
                row = opening_row now w;
                blocked = Wrote (AList.update s (row\<lparr>own_status := Blocked\<rparr>) ss);
                begun = [Wrote (AList.update s row ss), Called (OpenCall s)]
            in (case result of
                  OpenRaised \<Rightarrow> (Inl RemoteFailure, begun @ [blocked])
                | OpenReturned response \<Rightarrow>
                    (case stream_identity response of
                       None \<Rightarrow> (own_error, begun @ [Returned (OpenCall s), blocked])
                     | Some i \<Rightarrow>
                         (Inr response, begun @ [Returned (OpenCall s),
                            Wrote (AList.update s (row\<lparr>own_status := Active, own_stream := Some i,
                                                       own_seen := later\<rparr>) ss)]))))"

subsection \<open>Heartbeat\<close>

definition heartbeat_stream ::
  "int \<Rightarrow> pyfloat \<Rightarrow> string \<Rightarrow> string \<Rightarrow> state_file \<Rightarrow> (stream_exn + unit) \<times> event list" where
  "heartbeat_stream ttl now s user f =
     (case load_streams f of
        Inl e \<Rightarrow> (Inl e, [])
      | Inr ss \<Rightarrow>
          (case map_of ss s of
             None \<Rightarrow> (Inr (), [])
           | Some r \<Rightarrow>
               if own_user r \<noteq> user \<or> own_status r \<noteq> Active \<or> stale_stream ttl now r then (own_error, [])
               else (Inr (), [Wrote (AList.update s (r\<lparr>own_seen := now\<rparr>) ss)])))"

subsection \<open>Closing\<close>

text \<open>
  What the remote side makes of the calls, by session: \<open>stop_ok\<close> is \<open>None\<close> when no transcode has to be
  stopped, and a call that is not \<open>ok\<close> raises.
\<close>

record remote =
  stop_ok :: "(string \<Rightarrow> bool) option"
  close_ok :: "string \<Rightarrow> bool"

definition set_status :: "stream_status \<Rightarrow> string \<Rightarrow> owned_stream \<Rightarrow> streams \<Rightarrow> streams" where
  "set_status st s r ss = AList.update s (r\<lparr>own_status := st\<rparr>) ss"

definition play_identity :: "pyval \<Rightarrow> string option" where
  "play_identity v = (case v of PStr p \<Rightarrow> if strip p = [] then None else Some p | _ \<Rightarrow> None)"

text \<open>The calls of \<open>_close\<close>: the events and whether all of them returned.\<close>

definition closing_calls :: "remote \<Rightarrow> string \<Rightarrow> owned_stream \<Rightarrow> event list \<times> bool" where
  "closing_calls w s r =
     (let closed = (if close_ok w s then ([Called (CloseCall s), Returned (CloseCall s)], True)
                    else ([Called (CloseCall s)], False))
      in case stop_ok w of
           None \<Rightarrow> closed
         | Some ok \<Rightarrow>
             if play_identity (own_play r) = None then ([], False)
             else if \<not> ok s then ([Called (StopCall s)], False)
             else ([Called (StopCall s), Returned (StopCall s)] @ fst closed, snd closed))"

definition close_stream ::
  "remote \<Rightarrow> string \<Rightarrow> owned_stream \<Rightarrow> streams \<Rightarrow> (stream_exn + streams) \<times> event list" where
  "close_stream w s r ss =
     (if own_status r \<noteq> Active then (own_error, [])
      else
        let (calls, ok) = closing_calls w s r;
            begun = Wrote (set_status Closing s r ss) # calls
        in if ok then (Inr (AList.delete s ss), begun @ [Wrote (AList.delete s ss)])
           else (own_error, begun @ [Wrote (set_status Blocked s r ss)]))"

definition release_stream ::
  "remote \<Rightarrow> string \<Rightarrow> string \<Rightarrow> state_file \<Rightarrow> (stream_exn + bool) \<times> event list" where
  "release_stream w s user f =
     (case load_streams f of
        Inl e \<Rightarrow> (Inl e, [])
      | Inr ss \<Rightarrow>
          (case map_of ss s of
             None \<Rightarrow> (Inr False, [])
           | Some r \<Rightarrow>
               if own_user r \<noteq> user then (own_error, [])
               else (case close_stream w s r ss of
                   (Inl e, es) \<Rightarrow> (Inl e, es) | (Inr _, es) \<Rightarrow> (Inr True, es))))"

text \<open>
  \<open>scope\<close>: the owner of a resolution. When the body raises, what is known to be open is closed and the
  exception is raised again, unless the release raises one of its own (\<open>raised\<close> makes it one of the caller's).
\<close>

definition scope_owner_ok :: "stream_owner \<Rightarrow> bool" where
  "scope_owner_ok w \<longleftrightarrow> strip (owner_session w) \<noteq> [] \<and> strip (owner_user w) \<noteq> [] \<and> strip (owner_item w) \<noteq> []"

definition scoped ::
  "(stream_exn \<Rightarrow> 'e) \<Rightarrow> remote \<Rightarrow> stream_owner \<Rightarrow> (state_file \<Rightarrow> ('e + 'a) \<times> event list) \<Rightarrow> state_file
   \<Rightarrow> ('e + 'a) \<times> event list" where
  "scoped raised w owner body f =
     (if \<not> scope_owner_ok owner then (Inl (raised LiveStreamOwnershipError), [])
      else (case body f of
          (Inr x, es) \<Rightarrow> (Inr x, es)
        | (Inl e, es) \<Rightarrow>
            (case release_stream w (owner_session owner) (owner_user owner) (file_after f es) of
               (Inl e', es') \<Rightarrow> (Inl (raised e'), es @ es')
             | (Inr _, es') \<Rightarrow> (Inl e, es @ es'))))"

fun reap_loop :: "remote \<Rightarrow> string list \<Rightarrow> nat \<Rightarrow> streams \<Rightarrow> (stream_exn + nat) \<times> event list" where
  "reap_loop w [] completed ss = (Inr completed, [])"
| "reap_loop w (s # rest) completed ss =
     (case map_of ss s of
        None \<Rightarrow> (Inl (StreamBuiltin ValueError), [])
      | Some r \<Rightarrow>
          (case close_stream w s r ss of
             (Inl e, es) \<Rightarrow> (Inl e, es)
           | (Inr ss', es) \<Rightarrow>
               let (res, es') = reap_loop w rest (Suc completed) ss' in (res, es @ es')))"

definition reap_streams ::
  "int \<Rightarrow> pyfloat \<Rightarrow> remote \<Rightarrow> state_file \<Rightarrow> (stream_exn + nat) \<times> event list" where
  "reap_streams ttl now w f =
     (case load_streams f of
        Inl e \<Rightarrow> (Inl e, [])
      | Inr ss \<Rightarrow>
          if list_ex (\<lambda>(_, r). own_status r \<noteq> Active) ss then (own_error, [])
          else reap_loop w (map fst (filter (\<lambda>(_, r). stale_stream ttl now r) ss)) 0 ss)"

subsection \<open>Authorization\<close>

definition same_item :: "string \<Rightarrow> string \<Rightarrow> bool" where
  "same_item a b \<longleftrightarrow> lower (remove_all ''-'' a) = lower (remove_all ''-'' b)"

definition authorize_stream ::
  "int \<Rightarrow> pyfloat \<Rightarrow> string \<Rightarrow> string \<Rightarrow> string \<Rightarrow> string option \<Rightarrow> string option \<Rightarrow> state_file
   \<Rightarrow> stream_exn + unit" where
  "authorize_stream ttl now user item stream play media f =
     rbind (load_streams f) (\<lambda>ss.
       require (list_ex (\<lambda>(_, r). own_user r = user \<and> same_item (own_item r) item
           \<and> own_stream r = Some stream \<and> own_status r = Active \<and> own_play r = optional_json play
           \<and> own_media r = optional_json media \<and> flt (fsub now (own_seen r)) (fint ttl)) ss)
         LiveStreamOwnershipError)"

subsection \<open>Reconciliation by an operator\<close>

record retirement =
  old_generation :: string
  new_generation :: string
  old_started_at :: pyfloat
  new_started_at :: pyfloat
  observed_at :: pyfloat
  old_process_absent :: bool
  new_provider_healthy :: bool
  admission_quiesced :: bool
  native_upstream_closed :: bool
  native_consumers_absent :: bool

definition generation_ok :: "string \<Rightarrow> bool" where
  "generation_ok g \<longleftrightarrow> strip g \<noteq> [] \<and> length g \<le> 512"

fun finite_float :: "pyfloat \<Rightarrow> bool" where
  "finite_float (Fin q) = True"
| "finite_float _ = False"

definition retirement_verified :: "pyfloat \<Rightarrow> owned_stream \<Rightarrow> retirement \<Rightarrow> bool" where
  "retirement_verified now r e \<longleftrightarrow>
     generation_ok (old_generation e) \<and> generation_ok (new_generation e)
     \<and> list_all finite_float [old_started_at e, new_started_at e, observed_at e, now]
     \<and> old_generation e \<noteq> new_generation e
     \<and> fle (Fin 0) (old_started_at e) \<and> fle (old_started_at e) (own_seen r)
     \<and> flt (own_seen r) (new_started_at e) \<and> fle (new_started_at e) (observed_at e)
     \<and> fle (observed_at e) now \<and> fle (fsub now (observed_at e)) (Fin 30)
     \<and> old_process_absent e \<and> new_provider_healthy e \<and> admission_quiesced e
     \<and> native_upstream_closed e \<and> native_consumers_absent e"

definition same_evidence :: "retirement \<Rightarrow> retirement \<Rightarrow> bool" where
  "same_evidence a b \<longleftrightarrow> a\<lparr>observed_at := observed_at b\<rparr> = b"

definition failed_open :: "string \<Rightarrow> string \<Rightarrow> owned_stream \<Rightarrow> bool" where
  "failed_open user item r \<longleftrightarrow>
     own_user r = user \<and> own_item r = item \<and> own_status r = Blocked \<and> own_stream r = None
     \<and> play_identity (own_play r) \<noteq> None \<and> play_identity (own_media r) \<noteq> None"

text \<open>
  \<open>reconcile_failed_open_after_retirement\<close>: \<open>matches\<close> says that the file is a regular file with the
  expected digest, \<open>archived\<close> that both archive files could be created, \<open>unchanged\<close> that the bytes are
  the same before the commit; the verifier is asked twice, at \<open>now\<close> and at \<open>later\<close>, and \<open>None\<close> stands for
  evidence that raises or has another type.
\<close>

definition sha_text :: "string \<Rightarrow> bool" where
  "sha_text s \<longleftrightarrow> hex_string 64 s"

definition reconcile_stream ::
  "pyfloat \<Rightarrow> pyfloat \<Rightarrow> string \<Rightarrow> string \<Rightarrow> string \<Rightarrow> string \<Rightarrow> bool \<Rightarrow> bool \<Rightarrow> bool
   \<Rightarrow> retirement option \<Rightarrow> retirement option \<Rightarrow> state_file \<Rightarrow> (stream_exn + unit) \<times> event list" where
  "reconcile_stream now later s user item digest matches archived unchanged first second f =
     (if strip s = [] \<or> strip user = [] \<or> strip item = [] \<or> \<not> sha_text digest then (own_error, [])
      else (case load_streams f of
          Inl e \<Rightarrow> (Inl e, [])
        | Inr ss \<Rightarrow>
            if f = Absent \<or> \<not> matches then (own_error, [])
            else (case (ss, map_of ss s, first, second) of
                ([_], Some r, Some a, Some b) \<Rightarrow>
                  if \<not> failed_open user item r \<or> \<not> retirement_verified now r a \<or> \<not> archived
                     \<or> \<not> retirement_verified later r b \<or> \<not> same_evidence a b \<or> \<not> unchanged
                  then (own_error, [])
                  else (Inr (), [Retired s, Wrote (AList.delete s ss)])
              | _ \<Rightarrow> (own_error, []))))"

end
