(* ===== verification/Stream_Safety.thy ===== *)
theory Stream_Safety
  imports Stream_Ownership "HOL-Library.Sublist"
begin

text \<open>
  The file of the stream ownership is a durable state: what is read is well formed and what is written is
  read back. Then the runs of the store: any sequence of operations, each of them possibly cut short by a
  crash after any of its events, and the rule by which a property is kept along all of them.
\<close>

subsection \<open>The durable file\<close>

definition wf_owned :: "owned_stream \<Rightarrow> bool" where
  "wf_owned r \<longleftrightarrow> own_user r \<noteq> [] \<and> own_item r \<noteq> [] \<and> finite_float (own_seen r) \<and> own_stream r \<noteq> Some []
     \<and> (own_status r \<in> {Active, Closing} \<longrightarrow> own_stream r \<noteq> None)"

definition wf_streams :: "streams \<Rightarrow> bool" where
  "wf_streams ss \<longleftrightarrow> distinct (map fst ss) \<and> list_all (wf_owned \<circ> snd) ss"

lemma status_round_trip [simp]: "read_status (PStr (status_text st)) = Inr st"
  by (cases st) (simp_all add: read_status_def stream_statuses_def)

lemma finite_number_Inr: "finite_number v = Inr x \<Longrightarrow> finite_float x"
  by (cases v rule: finite_number.cases) (auto simp: float_of_int_def split: if_split_asm)

lemma finite_number_float [simp]: "finite_float x \<Longrightarrow> finite_number (PFloat x) = Inr x"
  by (cases x) auto

lemma read_owner_text_Inr: "read_owner_text v = Inr s \<Longrightarrow> s \<noteq> []"
  by (auto simp: read_owner_text_def split: pyval.splits if_split_asm)

lemma read_stream_id_Inr:
  "read_stream_id st v = Inr i \<Longrightarrow> i \<noteq> Some [] \<and> (st \<in> {Active, Closing} \<longrightarrow> i \<noteq> None)"
  by (cases v) (auto simp: read_stream_id_def split: if_split_asm)

lemma read_owned_wf:
  assumes "read_owned v = Inr r"
  shows "wf_owned r"
proof (cases v)
  case (PDict e)
  from assms[unfolded PDict read_owned_def pyval.case Inr_iffs]
  obtain st user item seen sid where
    u: "read_owner_text (dict_value e ''user_id'') = Inr user"
    and i: "read_owner_text (dict_value e ''item_id'') = Inr item"
    and t: "finite_number (dict_value e ''last_seen'') = Inr seen"
    and s: "read_stream_id st (dict_value e ''live_stream_id'') = Inr sid"
    and r: "\<lparr>own_user = user, own_item = item, own_seen = seen, own_status = st, own_stream = sid,
          own_play = dict_value e ''play_session_id'', own_media = dict_value e ''media_source_id''\<rparr> = r"
    by blast
  from read_owner_text_Inr[OF u] read_owner_text_Inr[OF i] finite_number_Inr[OF t] read_stream_id_Inr[OF s]
  show ?thesis by (simp add: wf_owned_def r[symmetric])
qed (use assms in \<open>simp_all add: read_owned_def\<close>)

lemma read_streams_wf: "read_streams items acc = Inr ss \<Longrightarrow> wf_streams acc \<Longrightarrow> wf_streams ss"
proof (induction items acc rule: read_streams.induct)
  case (2 k v rest acc)
  then show ?case
    by (auto simp: rbind_Inr_iff wf_streams_def dict_simps list_all_iff set_dict_set read_owned_wf)
qed simp

lemma wf_streams_Nil [simp]: "wf_streams []"
  by (simp add: wf_streams_def)

lemma load_streams_wf: "load_streams f = Inr ss \<Longrightarrow> wf_streams ss"
  by (cases f rule: load_streams.cases)
     (simp_all add: read_streams_wf[OF _ wf_streams_Nil] split: if_split_asm pyval.splits)

lemma read_encode_owned: "wf_owned r \<Longrightarrow> read_owned (encode_owned r) = Inr r"
  by (cases r; cases "own_stream r")
     (auto simp: read_owned_def encode_owned_def stream_fields_def dict_default_def wf_owned_def
       read_owner_text_def read_stream_id_def insert_commute)

lemma read_encode_streams:
  "wf_streams (acc @ ss) \<Longrightarrow> read_streams (map (\<lambda>(k, r). (k, encode_owned r)) ss) acc = Inr (acc @ ss)"
proof (induction ss arbitrary: acc)
  case (Cons p ss)
  obtain k r where p: "p = (k, r)" by force
  with Cons.prems have "wf_owned r" "k \<notin> fst ` set acc" by (auto simp: wf_streams_def)
  with Cons p show ?case by (simp add: read_encode_owned dict_set_fresh)
qed simp

lemma wf_streams_sorted: "wf_streams ss \<Longrightarrow> wf_streams (sorted_items ss)"
  by (auto simp: wf_streams_def sorted_items_distinct list_all_iff)

lemma read_write_streams: "wf_streams ss \<Longrightarrow> load_streams (write_streams ss) = Inr (sorted_items ss)"
  using read_encode_streams[of "[]" "sorted_items ss"] wf_streams_sorted[of ss]
  by (simp add: write_streams_def dict_default_def insert_commute)

interpretation stream_file: durable_state load_streams write_streams wf_streams sorted_items
proof unfold_locales
  show "\<exists>s. load_streams Absent = Inr s" by simp
  show "sorted_items (sorted_items s) = sorted_items s" for s :: streams
    by (simp add: sorted_items_def sort_key_id_if_sorted)
qed (auto intro: load_streams_wf read_write_streams)

subsection \<open>Runs\<close>

text \<open>The operations, with the instant and the remote outcome of each.\<close>

datatype stream_action =
    Open pyfloat pyfloat stream_owner open_outcome
  | Beat pyfloat string string
  | Close remote string string
  | Reap pyfloat remote
  | Scope remote pyfloat pyfloat stream_owner open_outcome bool
  | Reconcile pyfloat pyfloat string string string string bool bool bool "retirement option" "retirement option"

text \<open>
  A resolution inside \<open>scope\<close>: it opens the stream and then fails or not (\<open>later_ok\<close>), as the playback
  service does after the stream is open.
\<close>

definition resolve_body ::
  "int \<Rightarrow> pyfloat \<Rightarrow> pyfloat \<Rightarrow> stream_owner \<Rightarrow> open_outcome \<Rightarrow> bool \<Rightarrow> state_file
   \<Rightarrow> (stream_exn + pyval) \<times> event list" where
  "resolve_body ttl now later w result later_ok f =
     (case open_stream ttl now later w result f of
        (Inr v, es) \<Rightarrow> (if later_ok then Inr v else Inl RemoteFailure, es)
      | (Inl e, es) \<Rightarrow> (Inl e, es))"

fun action_events :: "int \<Rightarrow> stream_action \<Rightarrow> state_file \<Rightarrow> event list" where
  "action_events ttl (Open now later w result) f = snd (open_stream ttl now later w result f)"
| "action_events ttl (Beat now s user) f = snd (heartbeat_stream ttl now s user f)"
| "action_events ttl (Close w s user) f = snd (release_stream w s user f)"
| "action_events ttl (Reap now w) f = snd (reap_streams ttl now w f)"
| "action_events ttl (Scope w now later ow result ok) f =
     snd (scoped id w ow (resolve_body ttl now later ow result ok) f)"
| "action_events ttl (Reconcile now later s user item digest m a u x y) f =
     snd (reconcile_stream now later s user item digest m a u x y f)"

text \<open>The clock of an action is a finite number and its owner is named.\<close>

fun proper :: "stream_action \<Rightarrow> bool" where
  "proper (Open now later w result) \<longleftrightarrow>
     finite_float now \<and> finite_float later \<and> owner_user w \<noteq> [] \<and> owner_item w \<noteq> []"
| "proper (Beat now s user) \<longleftrightarrow> finite_float now"
| "proper (Scope w now later ow result ok) \<longleftrightarrow> finite_float now \<and> finite_float later"
| "proper _ \<longleftrightarrow> True"

text \<open>Reachable files with the history of all events: an action may stop after any prefix of its events.\<close>

inductive stream_run :: "int \<Rightarrow> state_file \<Rightarrow> event list \<Rightarrow> bool" for ttl where
  start: "stream_run ttl Absent []"
| step: "stream_run ttl f tr \<Longrightarrow> proper a \<Longrightarrow> prefix es (action_events ttl a f)
         \<Longrightarrow> stream_run ttl (file_after f es) (tr @ es)"

lemma file_after_append [simp]: "file_after f (es @ es') = file_after (file_after f es) es'"
  by (induction f es rule: file_after.induct) auto

text \<open>
  A property of file content and history. \<open>along\<close> says that it holds at every point of a list of events.
\<close>

definition at_file :: "(streams \<Rightarrow> event list \<Rightarrow> bool) \<Rightarrow> state_file \<Rightarrow> event list \<Rightarrow> bool" where
  "at_file J f tr \<longleftrightarrow> (\<exists>ss. load_streams f = Inr ss \<and> J ss tr)"

fun along :: "(streams \<Rightarrow> event list \<Rightarrow> bool) \<Rightarrow> streams \<Rightarrow> event list \<Rightarrow> event list \<Rightarrow> bool" where
  "along J ss tr [] \<longleftrightarrow> True"
| "along J ss tr (Wrote ss' # es) \<longleftrightarrow>
     wf_streams ss' \<and> J ss' (tr @ [Wrote ss']) \<and> along J ss' (tr @ [Wrote ss']) es"
| "along J ss tr (e # es) \<longleftrightarrow> J ss (tr @ [e]) \<and> along J ss (tr @ [e]) es"

fun last_streams :: "streams \<Rightarrow> event list \<Rightarrow> streams" where
  "last_streams ss [] = ss"
| "last_streams ss (Wrote ss' # es) = last_streams ss' es"
| "last_streams ss (e # es) = last_streams ss es"

lemma along_append:
  "along J ss tr (es @ es') \<longleftrightarrow> along J ss tr es \<and> along J (last_streams ss es) (tr @ es) es'"
  by (induction J ss tr es rule: along.induct) auto

lemma along_at_file:
  assumes cong: "\<And>ss ss' tr. map_of ss = map_of ss' \<Longrightarrow> J ss tr \<Longrightarrow> J ss' tr"
    and "along J ss tr es" and "prefix es' es" and "J ss tr" and "load_streams f = Inr ss0"
    and "map_of ss0 = map_of ss"
  shows "at_file J (file_after f es') (tr @ es')"
  using assms(2-)
proof (induction es arbitrary: ss ss0 tr f es')
  case Nil
  have "J ss0 tr" by (rule cong[OF Nil(5)[symmetric] Nil(3)])
  with Nil(2,4) show ?case by (auto simp: at_file_def)
next
  case (Cons e es)
  show ?case
  proof (cases es')
    case Nil
    have "J ss0 tr" by (rule cong[OF Cons.prems(5)[symmetric] Cons.prems(3)])
    with Cons.prems(4) show ?thesis by (simp add: Nil at_file_def)
  next
    case es': (Cons e' ps)
    with Cons.prems(2) have e': "e' = e" and p: "prefix ps es" by auto
    show ?thesis
    proof (cases e)
      case (Wrote ss')
      with Cons.prems(1) have wf: "wf_streams ss'" and J: "J ss' (tr @ [Wrote ss'])"
          and al: "along J ss' (tr @ [Wrote ss']) es"
        by simp_all
      have "map_of (sorted_items ss') = map_of ss'"
        using wf by (simp add: wf_streams_def sorted_items_map_of)
      from Cons.IH[OF al p J read_write_streams[OF wf] this] show ?thesis by (simp add: es' e' Wrote)
    qed (use Cons.prems(1,4,5) Cons.IH[OF _ p, of ss "tr @ [e]" f ss0] es' e' in simp_all)
  qed
qed

text \<open>
  The rule of the runs: a property that holds of the empty store and along the events of every action
  holds at every reachable point.
\<close>

lemma stream_run_induct:
  assumes run: "stream_run ttl f tr"
    and cong: "\<And>ss ss' tr. map_of ss = map_of ss' \<Longrightarrow> J ss tr \<Longrightarrow> J ss' tr"
    and start: "J [] []"
    and step: "\<And>a f tr ss. proper a \<Longrightarrow> load_streams f = Inr ss \<Longrightarrow> J ss tr \<Longrightarrow> along J ss tr (action_events ttl a f)"
  shows "at_file J f tr"
  using run
proof (induction rule: stream_run.induct)
  case start
  show ?case using assms(3) by (simp add: at_file_def)
next
  case (step f tr a es)
  then obtain ss where l: "load_streams f = Inr ss" and J: "J ss tr" by (auto simp: at_file_def)
  from along_at_file[OF cong assms(4)[OF step.hyps(2) l J] step.hyps(3) J l refl] show ?case .
qed


text \<open>
  What holds of the stream ownership at every point of every run, crashes included: no stream that may be
  open is forgotten, no stream is closed twice, and an ambiguous outcome stops the store until an operator
  has reconciled it.
\<close>

subsection \<open>What the remote side may still hold\<close>

text \<open>
  A session may hold an open stream from the moment the open call is issued until its close call returned
  or its provider process was verified to be gone.
\<close>

fun track :: "string set \<Rightarrow> event \<Rightarrow> string set" where
  "track S (Called (OpenCall s)) = insert s S"
| "track S (Returned (CloseCall s)) = S - {s}"
| "track S (Retired s) = S - {s}"
| "track S _ = S"

definition outstanding :: "event list \<Rightarrow> string set" where
  "outstanding tr = foldl track {} tr"

definition calls_of :: "remote_call \<Rightarrow> event list \<Rightarrow> nat" where
  "calls_of c tr = length (filter (\<lambda>e. e = Called c) tr)"

lemma outstanding_simps [simp]:
  "outstanding [] = {}" "outstanding (tr @ es) = foldl track (outstanding tr) es"
  by (simp_all add: outstanding_def)

lemma calls_of_simps [simp]:
  "calls_of c [] = 0" "calls_of c (e # es) = (if e = Called c then 1 else 0) + calls_of c es"
  "calls_of c (tr @ es) = calls_of c tr + calls_of c es"
  by (simp_all add: calls_of_def)

text \<open>The invariant: outstanding streams are recorded, and an active record has an open call of its own.\<close>

definition recorded :: "streams \<Rightarrow> event list \<Rightarrow> bool" where
  "recorded ss tr \<longleftrightarrow> outstanding tr \<subseteq> dom (map_of ss)
     \<and> (\<forall>s. calls_of (CloseCall s) tr \<le> calls_of (OpenCall s) tr)
     \<and> (\<forall>s r. map_of ss s = Some r \<longrightarrow> own_status r = Active
            \<longrightarrow> calls_of (CloseCall s) tr < calls_of (OpenCall s) tr)"

lemma recorded_cong: "map_of ss = map_of ss' \<Longrightarrow> recorded ss tr \<Longrightarrow> recorded ss' tr"
  by (simp add: recorded_def)

lemma wf_streams_update [simp]: "wf_streams ss \<Longrightarrow> wf_owned r \<Longrightarrow> wf_streams (AList.update s r ss)"
  by (auto simp: wf_streams_def dict_simps list_all_iff set_dict_set)

lemma wf_streams_delete [simp]: "wf_streams ss \<Longrightarrow> wf_streams (AList.delete s ss)"
  by (auto simp: wf_streams_def dict_simps list_all_iff set_dict_del)

lemma wf_streams_row: "wf_streams ss \<Longrightarrow> map_of ss s = Some r \<Longrightarrow> wf_owned r"
  by (auto simp: wf_streams_def list_all_iff dest: map_of_SomeD)

lemma along_end:
  assumes "along J ss tr es" and "J ss tr" and "wf_streams ss"
  shows "J (last_streams ss es) (tr @ es) \<and> wf_streams (last_streams ss es)"
  using assms by (induction J ss tr es rule: along.induct) auto

subsection \<open>The operations keep the invariant\<close>

lemma along_open:
  assumes wf: "wf_streams ss" and rec: "recorded ss tr" and l: "load_streams f = Inr ss"
    and p: "finite_float now" "finite_float later" "owner_user w \<noteq> []" "owner_item w \<noteq> []"
  shows "along recorded ss tr (snd (open_stream ttl now later w result f))"
proof (cases "owner_session w \<in> fst ` set ss \<or> list_ex (\<lambda>(_, r). own_status r \<noteq> Active \<or> stale_stream ttl now r) ss")
  case True
  then show ?thesis by (simp add: open_stream_def l)
next
  case False
  define s where "s = owner_session w"
  define r where "r = opening_row now w"
  have r: "own_status r = Opening" "own_stream r = None" by (simp_all add: r_def opening_row_def)
  have wr: "wf_owned r" "wf_owned (r\<lparr>own_status := Blocked\<rparr>)"
      "\<And>i. i \<noteq> [] \<Longrightarrow> wf_owned (r\<lparr>own_status := Active, own_stream := Some i, own_seen := later\<rparr>)"
    using p by (simp_all add: wf_owned_def r_def opening_row_def)
  have id: "stream_identity v = Some i \<Longrightarrow> i \<noteq> []" for v i
    by (auto simp: stream_identity_def split: pyval.splits if_split_asm)
  have "snd (open_stream ttl now later w result f) =
      [Wrote (AList.update s r ss), Called (OpenCall s)]
      @ (case result of
           OpenRaised \<Rightarrow> [Wrote (AList.update s (r\<lparr>own_status := Blocked\<rparr>) ss)]
         | OpenReturned v \<Rightarrow> (case stream_identity v of
             None \<Rightarrow> [Returned (OpenCall s), Wrote (AList.update s (r\<lparr>own_status := Blocked\<rparr>) ss)]
           | Some i \<Rightarrow> [Returned (OpenCall s),
               Wrote (AList.update s (r\<lparr>own_status := Active, own_stream := Some i, own_seen := later\<rparr>) ss)]))"
    using False by (simp add: open_stream_def l s_def r_def Let_def split: open_outcome.split option.split)
  then show ?thesis
    using rec wf wr id r
    by (auto simp: recorded_def dict_simps less_Suc_eq_le intro: le_SucI split: open_outcome.split option.split)
qed

lemma along_heartbeat:
  assumes wf: "wf_streams ss" and rec: "recorded ss tr" and l: "load_streams f = Inr ss" and "finite_float now"
  shows "along recorded ss tr (snd (heartbeat_stream ttl now s user f))"
proof (cases "map_of ss s")
  case (Some r)
  have w: "wf_owned (r\<lparr>own_seen := now\<rparr>)"
    using wf_streams_row[OF wf Some] assms(4) by (simp add: wf_owned_def)
  from rec Some have "recorded (AList.update s (r\<lparr>own_seen := now\<rparr>) ss) tr"
    by (auto simp: recorded_def dict_simps)
  with wf w rec show ?thesis by (simp add: heartbeat_stream_def l Some recorded_def)
qed (simp add: heartbeat_stream_def l)

lemma close_stream_events:
  "snd (close_stream w s r ss) =
     (if own_status r \<noteq> Active then []
      else Wrote (set_status Closing s r ss) # fst (closing_calls w s r)
        @ [Wrote (if snd (closing_calls w s r) then AList.delete s ss else set_status Blocked s r ss)])"
  "fst (close_stream w s r ss) =
     (if own_status r = Active \<and> snd (closing_calls w s r) then Inr (AList.delete s ss) else own_error)"
  by (simp_all add: close_stream_def Let_def split: prod.split)

text \<open>The remote calls: a stop of the transcode, then a close that is issued at most once.\<close>

lemma closing_calls_cases:
  "closing_calls w s r \<in>
     {([], False), ([Called (StopCall s)], False), ([Called (CloseCall s)], False),
      ([Called (StopCall s), Returned (StopCall s), Called (CloseCall s)], False),
      ([Called (CloseCall s), Returned (CloseCall s)], True),
      ([Called (StopCall s), Returned (StopCall s), Called (CloseCall s), Returned (CloseCall s)], True)}"
  by (cases "stop_ok w") (simp_all add: closing_calls_def Let_def)

lemma along_close:
  assumes wf: "wf_streams ss" and rec: "recorded ss tr" and r: "map_of ss s = Some r"
  shows "along recorded ss tr (snd (close_stream w s r ss))"
proof (cases "own_status r = Active")
  case True
  have wc: "wf_owned (r\<lparr>own_status := Closing\<rparr>)" "wf_owned (r\<lparr>own_status := Blocked\<rparr>)"
    using wf_streams_row[OF wf r] True by (auto simp: wf_owned_def)
  have lt: "calls_of (CloseCall s) tr < calls_of (OpenCall s) tr"
    using rec r True by (auto simp: recorded_def)
  then have lt': "Suc (calls_of (CloseCall s) tr) \<le> calls_of (OpenCall s) tr" by simp
  have "along recorded ss tr (Wrote (set_status Closing s r ss) # es
      @ [Wrote (if ok then AList.delete s ss else set_status Blocked s r ss)])"
    if "closing_calls w s r = (es, ok)" for es ok
    using closing_calls_cases[of w s r, unfolded that] rec r wf wc lt' True
    by (auto simp: recorded_def set_status_def dict_simps intro: less_imp_le)
  then show ?thesis by (cases "closing_calls w s r") (simp add: close_stream_events)
qed (simp add: close_stream_events)

lemma close_stream_Inr:
  assumes "close_stream w s r ss = (Inr ss', es)"
  shows "ss' = AList.delete s ss \<and> last_streams ss es = ss'"
proof -
  have "fst (close_stream w s r ss) = Inr ss'" and e: "es = snd (close_stream w s r ss)" using assms by simp_all
  then have a: "own_status r = Active" "snd (closing_calls w s r)" "ss' = AList.delete s ss"
    by (auto simp: close_stream_events split: if_split_asm)
  have "last_streams x (es1 @ [Wrote y]) = y" for x y es1
    by (induction x es1 rule: last_streams.induct) auto
  with a e show ?thesis by (simp add: close_stream_events)
qed

lemma along_release:
  assumes wf: "wf_streams ss" and rec: "recorded ss tr" and l: "load_streams f = Inr ss"
  shows "along recorded ss tr (snd (release_stream w s user f))"
proof (cases "map_of ss s")
  case (Some r)
  from along_close[OF wf rec Some, of w] show ?thesis
    by (auto simp: release_stream_def l Some split: prod.split sum.split)
qed (simp add: release_stream_def l)

lemma along_reap_loop:
  "wf_streams ss \<Longrightarrow> recorded ss tr \<Longrightarrow> along recorded ss tr (snd (reap_loop w ks n ss))"
proof (induction ks arbitrary: n ss tr)
  case (Cons s ks)
  show ?case
  proof (cases "map_of ss s")
    case (Some r)
    obtain res es where c: "close_stream w s r ss = (res, es)" by force
    have al: "along recorded ss tr es" using along_close[OF Cons.prems Some, of w] c by simp
    show ?thesis
    proof (cases res)
      case (Inr ss')
      note e = close_stream_Inr[OF c[unfolded Inr]]
      from along_end[OF al Cons.prems(2,1)] e have "recorded ss' (tr @ es)" "wf_streams ss'" by simp_all
      from Cons.IH[OF this(2,1), of "Suc n"] al e show ?thesis
        by (auto simp: Some c Inr along_append split: prod.split)
    qed (use Some c al in simp)
  qed simp
qed simp

lemma along_reap:
  assumes "wf_streams ss" and "recorded ss tr" and "load_streams f = Inr ss"
  shows "along recorded ss tr (snd (reap_streams ttl now w f))"
  using assms by (simp add: reap_streams_def along_reap_loop)

lemma along_reconcile:
  assumes wf: "wf_streams ss" and rec: "recorded ss tr" and l: "load_streams f = Inr ss"
  shows "along recorded ss tr (snd (reconcile_stream now later s user item digest m a u x y f))"
proof -
  have "recorded ss (tr @ [Retired s])" "recorded (AList.delete s ss) (tr @ [Retired s])"
    using rec by (auto simp: recorded_def dict_simps)
  then have "along recorded ss tr [Retired s, Wrote (AList.delete s ss)]"
    using wf by (simp add: recorded_def)
  moreover have "snd (reconcile_stream now later s user item digest m a u x y f)
      \<in> {[], [Retired s, Wrote (AList.delete s ss)]}"
    by (auto simp: reconcile_stream_def l split: list.split option.split)
  ultimately show ?thesis by auto
qed

text \<open>
  After events that keep the invariant the file loads as the streams last written; up to their order the
  next operation starts from these.
\<close>

lemma load_after:
  assumes "along J ss tr es" and "load_streams f = Inr ss0" and "map_of ss0 = map_of ss"
  shows "\<exists>ss1. load_streams (file_after f es) = Inr ss1 \<and> map_of ss1 = map_of (last_streams ss es)"
  using assms
proof (induction es arbitrary: ss ss0 tr f)
  case (Cons e es)
  show ?case
  proof (cases e)
    case (Wrote ss')
    with Cons.prems(1) have wf: "wf_streams ss'" and al: "along J ss' (tr @ [Wrote ss']) es" by simp_all
    have "map_of (sorted_items ss') = map_of ss'" using wf by (simp add: wf_streams_def sorted_items_map_of)
    from Cons.IH[OF al read_write_streams[OF wf] this] Wrote show ?thesis by simp
  qed (use Cons.prems Cons.IH[of ss "tr @ [e]" f ss0] in auto)
qed simp

lemma along_recorded_cong: "map_of ss = map_of ss' \<Longrightarrow> along recorded ss tr es = along recorded ss' tr es"
proof (induction es arbitrary: ss ss' tr)
  case (Cons e es)
  have "recorded ss t = recorded ss' t" for t using Cons.prems by (simp add: recorded_def)
  with Cons.IH[OF Cons.prems] show ?case by (cases e) auto
qed simp

lemma along_then:
  assumes al: "along recorded ss tr es" and rec: "recorded ss tr" and wf: "wf_streams ss"
    and l: "load_streams f = Inr ss"
    and next_op: "\<And>ss1. wf_streams ss1 \<Longrightarrow> recorded ss1 (tr @ es) \<Longrightarrow> load_streams (file_after f es) = Inr ss1
      \<Longrightarrow> along recorded ss1 (tr @ es) es'"
  shows "along recorded ss tr (es @ es')"
proof -
  obtain ss1 where l1: "load_streams (file_after f es) = Inr ss1" and m: "map_of ss1 = map_of (last_streams ss es)"
    using load_after[OF al l refl] by blast
  have "recorded ss1 (tr @ es)"
    using along_end[OF al rec wf] recorded_cong[OF m[symmetric]] by blast
  from next_op[OF load_streams_wf[OF l1] this l1] have "along recorded (last_streams ss es) (tr @ es) es'"
    by (simp add: along_recorded_cong[OF m])
  with al show ?thesis by (simp add: along_append)
qed

lemma resolve_body_events: "snd (resolve_body ttl now later ow result ok f) = snd (open_stream ttl now later ow result f)"
  by (simp add: resolve_body_def split: prod.split sum.split)

lemma along_scope:
  assumes wf: "wf_streams ss" and rec: "recorded ss tr" and l: "load_streams f = Inr ss"
    and p: "finite_float now" "finite_float later"
  shows "along recorded ss tr (snd (scoped id w ow (resolve_body ttl now later ow result ok) f))"
proof (cases "scope_owner_ok ow")
  case True
  then have o: "owner_user ow \<noteq> []" "owner_item ow \<noteq> []" by (auto simp: scope_owner_ok_def strip_def)
  obtain res es where b: "resolve_body ttl now later ow result ok f = (res, es)" by force
  have al: "along recorded ss tr es"
    using along_open[OF wf rec l p o, of ttl result] resolve_body_events[of ttl now later ow result ok f]
    by (simp add: b)
  then have "along recorded ss tr (es @ snd (release_stream w (owner_session ow) (owner_user ow) (file_after f es)))"
    by (rule along_then[OF _ rec wf l along_release])
  with al True b show ?thesis by (auto simp: scoped_def split: prod.split sum.split)
qed (simp add: scoped_def)

lemma along_action:
  assumes "proper a" and l: "load_streams f = Inr ss" and "recorded ss tr"
  shows "along recorded ss tr (action_events ttl a f)"
  using assms load_streams_wf[OF l]
  by (cases a) (simp_all add: along_open along_heartbeat along_release along_reap along_scope along_reconcile)

lemma stream_run_recorded: "stream_run ttl f tr \<Longrightarrow> at_file recorded f tr"
  by (rule stream_run_induct[where J = recorded])
     (auto intro: recorded_cong along_action simp: recorded_def)

subsection \<open>The theorems\<close>

text \<open>
  C1. No stream is forgotten: at every point of every run, also right after a crash in the middle of an
  operation, the file can be read and has a record for every session whose open call was issued and that
  is not known to be closed.
\<close>

theorem no_stream_forgotten:
  assumes "stream_run ttl f tr"
  shows "\<exists>ss. load_streams f = Inr ss \<and> outstanding tr \<subseteq> fst ` set ss"
  using stream_run_recorded[OF assms] by (auto simp: at_file_def recorded_def dom_map_of_conv_image_fst)

text \<open>
  A stream is closed at most once: along every run the close calls of a session never outnumber its
  open calls, so a close whose outcome is unknown is not repeated.
\<close>

theorem closed_at_most_once:
  assumes "stream_run ttl f tr"
  shows "calls_of (CloseCall s) tr \<le> calls_of (OpenCall s) tr"
  using stream_run_recorded[OF assms] by (auto simp: at_file_def recorded_def)

text \<open>
  An unfinished or failed operation stops the store: while a record is opening, closing or blocked, no
  stream can be opened, the reaper does nothing, and the session of that record can neither be refreshed
  nor closed nor used; none of them issues a remote call or changes the file.
\<close>

theorem ambiguity_stops_store:
  assumes "load_streams f = Inr ss" and "map_of ss s = Some r" and "own_status r \<noteq> Active"
  shows "open_stream ttl now later w result f = (own_error, [])
    \<and> reap_streams ttl now rem f = (own_error, [])
    \<and> heartbeat_stream ttl now s user f = (own_error, [])
    \<and> release_stream rem s user f = (own_error, [])"
proof -
  have "(s, r) \<in> set ss" using assms(2) by (rule map_of_SomeD)
  with assms(3) have "list_ex (\<lambda>(_, r). own_status r \<noteq> Active \<or> stale_stream ttl now r) ss"
      "list_ex (\<lambda>(_, r). own_status r \<noteq> Active) ss"
    by (auto simp: list_ex_iff)
  with assms show ?thesis
    by (simp add: open_stream_def reap_streams_def heartbeat_stream_def release_stream_def close_stream_def)
qed

text \<open>
  C40. Reconciliation reopens the store: when the only record is a failed open without a known stream and
  the provider's retirement is verified twice with the same evidence, the reconciliation succeeds, and the
  next open of any owner issues its call and succeeds when the provider returns a stream.
\<close>

theorem reconcile_reopens:
  assumes "load_streams f = Inr [(s, r)]" and "failed_open user item r" and "f \<noteq> Absent"
    and "strip s \<noteq> []" "strip user \<noteq> []" "strip item \<noteq> []" and "sha_text digest"
    and "retirement_verified now r a" and "retirement_verified later r b" and "same_evidence a b"
    and "stream_identity v = Some i"
  shows "\<exists>es es'. reconcile_stream now later s user item digest True True True (Some a) (Some b) f = (Inr (), es)
    \<and> load_streams (file_after f es) = Inr []
    \<and> open_stream ttl t t' w (OpenReturned v) (file_after f es) = (Inr v, es') \<and> Called (OpenCall (owner_session w)) \<in> set es'"
proof -
  have r: "reconcile_stream now later s user item digest True True True (Some a) (Some b) f
      = (Inr (), [Retired s, Wrote []])"
    using assms by (simp add: reconcile_stream_def AList.delete_eq)
  have l: "load_streams (write_streams []) = Inr []" using read_write_streams[of "[]"] by (simp add: sorted_items_def)
  show ?thesis using r l assms(11) by (simp add: open_stream_def Let_def)
qed

subsection \<open>Concrete runs\<close>

definition demo_owner :: stream_owner where
  "demo_owner = \<lparr>owner_session = ''s1'', owner_user = ''alice'', owner_item = ''i1'', owner_play = Some ''p1'',
     owner_media = Some ''m1''\<rparr>"

definition demo_response :: pyval where
  "demo_response = PDict [(''MediaSource'', PDict [(''LiveStreamId'', PStr ''live-7'')])]"

definition demo_open :: stream_action where
  "demo_open = Open (Fin 10) (Fin 11) demo_owner (OpenReturned demo_response)"

definition demo_failed :: owned_stream where
  "demo_failed = (opening_row (Fin 10) demo_owner)\<lparr>own_status := Blocked\<rparr>"

definition demo_retirement :: retirement where
  "demo_retirement = \<lparr>old_generation = ''g1'', new_generation = ''g2'', old_started_at = Fin 1,
     new_started_at = Fin 20, observed_at = Fin 30, old_process_absent = True,
     new_provider_healthy = True, admission_quiesced = True, native_upstream_closed = True,
     native_consumers_absent = True\<rparr>"

text \<open>The process dies right after the open call was issued.\<close>

definition demo_crash :: "event list" where
  "demo_crash = [Wrote [(''s1'', opening_row (Fin 10) demo_owner)], Called (OpenCall ''s1'')]"

lemma demo_crash_run: "stream_run 90 (file_after Absent demo_crash) demo_crash"
proof -
  have "prefix demo_crash (action_events 90 demo_open Absent)"
    by (simp add: demo_crash_def demo_open_def demo_response_def open_stream_def stream_identity_def
        dict_default_def demo_owner_def opening_row_def Let_def)
  moreover have "proper demo_open" by (simp add: demo_open_def demo_owner_def)
  ultimately show ?thesis using stream_run.step[OF stream_run.start, of demo_open demo_crash 90] by simp
qed

theorem no_stream_forgotten_witness:
  "outstanding demo_crash = {''s1''}
   \<and> (\<exists>ss. load_streams (file_after Absent demo_crash) = Inr ss \<and> outstanding demo_crash \<subseteq> fst ` set ss)"
  using no_stream_forgotten[OF demo_crash_run] by (simp add: demo_crash_def outstanding_def)

theorem closed_at_most_once_witness:
  "calls_of (CloseCall ''s1'') demo_crash \<le> calls_of (OpenCall ''s1'') demo_crash"
  by (rule closed_at_most_once[OF demo_crash_run])

definition demo_blocked_file :: state_file where
  "demo_blocked_file = write_streams [(''s1'', demo_failed)]"

lemma demo_blocked_load: "load_streams demo_blocked_file = Inr [(''s1'', demo_failed)]"
proof -
  have "wf_streams [(''s1'', demo_failed)]"
    by (simp add: wf_streams_def wf_owned_def demo_failed_def opening_row_def demo_owner_def)
  from read_write_streams[OF this] show ?thesis by (simp add: demo_blocked_file_def sorted_items_def)
qed

theorem ambiguity_stops_store_witness:
  "open_stream 90 (Fin 12) (Fin 13) demo_owner (OpenReturned demo_response) demo_blocked_file = (own_error, [])"
  using ambiguity_stops_store[OF demo_blocked_load, of "''s1''" demo_failed 90 "Fin 12" "Fin 13" demo_owner
      "OpenReturned demo_response"]
  by (simp add: demo_failed_def)

theorem reconcile_reopens_witness:
  "\<exists>es es'. reconcile_stream (Fin 31) (Fin 32) ''s1'' ''alice'' ''i1'' (replicate 64 CHR ''0'') True True True
      (Some demo_retirement) (Some demo_retirement) demo_blocked_file = (Inr (), es)
    \<and> load_streams (file_after demo_blocked_file es) = Inr []
    \<and> open_stream 90 (Fin 40) (Fin 41) demo_owner (OpenReturned demo_response) (file_after demo_blocked_file es)
        = (Inr demo_response, es')
    \<and> Called (OpenCall (owner_session demo_owner)) \<in> set es'"
proof (rule reconcile_reopens[OF demo_blocked_load])
  show "failed_open ''alice'' ''i1'' demo_failed" by code_simp
  show "sha_text (replicate 64 CHR ''0'')" by code_simp
  show "retirement_verified (Fin 31) demo_failed demo_retirement"
      "retirement_verified (Fin 32) demo_failed demo_retirement"
    by (simp_all add: retirement_verified_def demo_retirement_def demo_failed_def opening_row_def
        generation_ok_def strip_def py_space_def)
  show "stream_identity demo_response = Some ''live-7''" by code_simp
qed (simp_all add: demo_blocked_file_def write_streams_def same_evidence_def strip_def py_space_def)

end
