(* ===== verification/Live_Limits.thy ===== *)
theory Live_Limits
  imports Url_Text Durable_State
begin

text \<open>
  The live-session limits per user (\<open>src/atlas/live_session_policy.py\<close>, class \<open>LiveSessionPolicyStore\<close>): a
  default limit and overrides in one durable JSON file. The limit it returns is the one with which the
  playback route acquires a resource and admits a session.
\<close>

subsection \<open>The store\<close>

datatype limit_exn = LiveSessionPolicyError

record limit_policy =
  default_limit :: int
  overrides :: "(string \<times> int) list"

abbreviation limit_error :: "limit_exn + 'a" where
  "limit_error \<equiv> Inl LiveSessionPolicyError"

definition POLICY_VERSION :: int where
  "POLICY_VERSION = 1"

definition DEFAULT_LIVE_SESSION_LIMIT :: int where
  "DEFAULT_LIVE_SESSION_LIMIT = 5"

definition limit_value :: "pyval \<Rightarrow> limit_exn + int" where
  "limit_value v = (if int_at_least 1 v then Inr (int_value v) else limit_error)"

fun limit_user :: "pyval \<Rightarrow> limit_exn + string" where
  "limit_user (PStr value) =
     (let normalized = strip value
      in if normalized = [] \<or> length normalized > 256
            \<or> list_ex (\<lambda>c. (of_char c :: nat) < 32) normalized
         then limit_error else Inr normalized)"
| "limit_user _ = limit_error"

fun read_overrides :: "(string \<times> pyval) list \<Rightarrow> (string \<times> int) list \<Rightarrow> limit_exn + (string \<times> int) list" where
  "read_overrides [] acc = Inr acc"
| "read_overrides ((k, v) # rest) acc =
     rbind (limit_user (PStr k)) (\<lambda>u.
       if u \<in> fst ` set acc then limit_error
       else rbind (limit_value v) (\<lambda>n. read_overrides rest (AList.update u n acc)))"

definition limits_of_document :: "pyval \<Rightarrow> limit_exn + limit_policy" where
  "limits_of_document payload =
     (case payload of
        PDict p \<Rightarrow>
          if set (map fst p) \<noteq> {''version'', ''default_limit'', ''overrides''}
             \<or> \<not> equals_int (dict_value p ''version'') POLICY_VERSION then limit_error
          else
            rbind (limit_value (dict_value p ''default_limit'')) (\<lambda>d.
            case dict_value p ''overrides'' of
              PDict items \<Rightarrow> rbind (read_overrides items []) (\<lambda>os. Inr \<lparr>default_limit = d, overrides = os\<rparr>)
            | _ \<Rightarrow> limit_error)
      | _ \<Rightarrow> limit_error)"

fun read_limits :: "state_file \<Rightarrow> limit_exn + limit_policy" where
  "read_limits Absent = Inr \<lparr>default_limit = DEFAULT_LIVE_SESSION_LIMIT, overrides = []\<rparr>"
| "read_limits Unreadable = limit_error"
| "read_limits (Document payload) = limits_of_document payload"

definition write_limits :: "limit_policy \<Rightarrow> state_file" where
  "write_limits p =
     Document (PDict [(''default_limit'', PInt (default_limit p)),
       (''overrides'', PDict (map (\<lambda>(u, n). (u, PInt n)) (sorted_items (overrides p)))),
       (''version'', PInt POLICY_VERSION)])"

definition initialize_limits :: "state_file \<Rightarrow> (limit_exn + unit) \<times> state_file" where
  "initialize_limits f =
     (if f = Absent then (Inr (), write_limits \<lparr>default_limit = DEFAULT_LIVE_SESSION_LIMIT, overrides = []\<rparr>)
      else (rbind (read_limits f) (\<lambda>_. Inr ()), f))"

definition effective_limit :: "pyval \<Rightarrow> state_file \<Rightarrow> limit_exn + int" where
  "effective_limit user f =
     rbind (limit_user user) (\<lambda>u.
     rbind (read_limits f) (\<lambda>p.
       Inr (case map_of (overrides p) u of None \<Rightarrow> default_limit p | Some n \<Rightarrow> n)))"

definition set_default_limit :: "pyval \<Rightarrow> state_file \<Rightarrow> (limit_exn + int) \<times> state_file" where
  "set_default_limit limit f =
     (case rbind (limit_value limit) (\<lambda>n. rbind (read_limits f) (\<lambda>p. Inr (n, p))) of
        Inl e \<Rightarrow> (Inl e, f)
      | Inr (n, p) \<Rightarrow> (Inr n, write_limits (p\<lparr>default_limit := n\<rparr>)))"

definition set_override :: "pyval \<Rightarrow> pyval \<Rightarrow> state_file \<Rightarrow> (limit_exn + int) \<times> state_file" where
  "set_override user limit f =
     (case rbind (limit_user user) (\<lambda>u. rbind (limit_value limit) (\<lambda>n. rbind (read_limits f) (\<lambda>p. Inr (u, n, p)))) of
        Inl e \<Rightarrow> (Inl e, f)
      | Inr (u, n, p) \<Rightarrow> (Inr n, write_limits (p\<lparr>overrides := AList.update u n (overrides p)\<rparr>)))"

definition clear_override :: "pyval \<Rightarrow> state_file \<Rightarrow> (limit_exn + bool) \<times> state_file" where
  "clear_override user f =
     (case rbind (limit_user user) (\<lambda>u. rbind (read_limits f) (\<lambda>p. Inr (u, p))) of
        Inl e \<Rightarrow> (Inl e, f)
      | Inr (u, p) \<Rightarrow>
          if map_of (overrides p) u = None then (Inr False, f)
          else (Inr True, write_limits (p\<lparr>overrides := AList.delete u (overrides p)\<rparr>)))"

subsection \<open>The durable file\<close>

definition limit_name :: "string \<Rightarrow> bool" where
  "limit_name u \<longleftrightarrow> limit_user (PStr u) = Inr u"

definition wf_limits :: "limit_policy \<Rightarrow> bool" where
  "wf_limits p \<longleftrightarrow> 0 < default_limit p \<and> distinct (map fst (overrides p))
     \<and> list_all (\<lambda>(u, n). limit_name u \<and> 0 < n) (overrides p)"

definition norm_limits :: "limit_policy \<Rightarrow> limit_policy" where
  "norm_limits p = p\<lparr>overrides := sorted_items (overrides p)\<rparr>"

lemma limit_user_Inr: "limit_user v = Inr u \<Longrightarrow> limit_name u"
  by (cases v) (auto simp: limit_name_def Let_def split: if_split_asm)

declare limit_user.simps [simp del]

lemma limit_value_Inr: "limit_value v = Inr n \<longleftrightarrow> v = PInt n \<and> 0 < n"
  by (cases v) (auto simp: limit_value_def)

lemma read_overrides_wf:
  "read_overrides items acc = Inr os \<Longrightarrow> distinct (map fst acc) \<and> list_all (\<lambda>(u, n). limit_name u \<and> 0 < n) acc
   \<Longrightarrow> distinct (map fst os) \<and> list_all (\<lambda>(u, n). limit_name u \<and> 0 < n) os"
proof (induction items acc rule: read_overrides.induct)
  case (2 k v rest acc)
  then obtain u n where "limit_user (PStr k) = Inr u" "u \<notin> fst ` set acc" "limit_value v = Inr n"
      "read_overrides rest (AList.update u n acc) = Inr os"
    by (auto simp: rbind_Inr_iff split: if_split_asm)
  moreover from this have "limit_name u" "0 < n" by (auto simp: limit_value_Inr dest: limit_user_Inr)
  ultimately show ?case using 2 by (simp add: dict_set_fresh)
qed simp

lemma limits_of_document_wf:
  assumes "limits_of_document v = Inr p"
  shows "wf_limits p"
proof -
  obtain e items where v: "v = PDict e" and i: "dict_value e ''overrides'' = PDict items"
    using assms by (cases v; cases "dict_value (case v of PDict e \<Rightarrow> e) ''overrides''")
      (auto simp: limits_of_document_def rbind_Inr_iff split: if_split_asm)
  from assms[unfolded v limits_of_document_def pyval.case i Inr_iffs]
  obtain d os where d: "limit_value (dict_value e ''default_limit'') = Inr d"
    and os: "read_overrides items [] = Inr os" and p: "\<lparr>default_limit = d, overrides = os\<rparr> = p"
    by blast
  from read_overrides_wf[OF os] d show ?thesis by (auto simp: p[symmetric] wf_limits_def limit_value_Inr)
qed

lemma read_limits_wf: "read_limits f = Inr p \<Longrightarrow> wf_limits p"
  by (cases f) (auto simp: wf_limits_def DEFAULT_LIVE_SESSION_LIMIT_def
      dest: limits_of_document_wf[unfolded wf_limits_def])

lemma read_encoded_overrides:
  "distinct (map fst (acc @ os)) \<Longrightarrow> list_all (\<lambda>(u, n). limit_name u \<and> 0 < n) os
   \<Longrightarrow> read_overrides (map (\<lambda>(u, n). (u, PInt n)) os) acc = Inr (acc @ os)"
proof (induction os arbitrary: acc)
  case (Cons x os)
  obtain u n where "x = (u, n)" by force
  with Cons show ?case by (auto simp: limit_name_def limit_value_def dict_set_fresh)
qed simp

lemma read_write_limits: "wf_limits p \<Longrightarrow> read_limits (write_limits p) = Inr (norm_limits p)"
  using read_encoded_overrides[of "[]" "sorted_items (overrides p)"]
  by (cases p) (auto simp: wf_limits_def write_limits_def limits_of_document_def dict_default_def norm_limits_def
      sorted_items_distinct list_all_iff insert_commute limit_value_def POLICY_VERSION_def)

interpretation limits_file: durable_state read_limits write_limits wf_limits norm_limits
proof unfold_locales
  show "\<exists>p. read_limits Absent = Inr p" by simp
  show "norm_limits (norm_limits p) = norm_limits p" for p
    by (simp add: norm_limits_def sorted_items_def sort_key_id_if_sorted)
qed (auto intro: read_limits_wf read_write_limits)

lemma effective_after_write:
  assumes "wf_limits p" and "limit_user user = Inr u"
  shows "effective_limit user (write_limits p)
    = Inr (case map_of (overrides p) u of None \<Rightarrow> default_limit p | Some n \<Rightarrow> n)"
  using assms by (simp add: effective_limit_def read_write_limits norm_limits_def wf_limits_def sorted_items_map_of
      split: option.split)

lemma wf_limits_update [simp]:
  "wf_limits p \<Longrightarrow> limit_name u \<Longrightarrow> 0 < n \<Longrightarrow> wf_limits (p\<lparr>overrides := AList.update u n (overrides p)\<rparr>)"
  "wf_limits p \<Longrightarrow> wf_limits (p\<lparr>overrides := AList.delete u (overrides p)\<rparr>)"
  "wf_limits p \<Longrightarrow> 0 < n \<Longrightarrow> wf_limits (p\<lparr>default_limit := n\<rparr>)"
  by (auto simp: wf_limits_def dict_simps list_all_iff set_dict_set set_dict_del)

text \<open>
  The limit of a user is always a positive number, whatever the file holds: reading it either fails or
  gives at least one.
\<close>

theorem effective_limit_positive:
  assumes "effective_limit user f = Inr n"
  shows "0 < n"
proof -
  from assms obtain u p where p: "wf_limits p" and n: "n = (case map_of (overrides p) u of None \<Rightarrow> default_limit p | Some m \<Rightarrow> m)"
    by (auto simp: effective_limit_def rbind_Inr_iff dest: read_limits_wf)
  from p n show ?thesis by (auto simp: wf_limits_def list_all_iff split: option.splits dest: map_of_SomeD)
qed

text \<open>
  An override is the limit of exactly its user: after it is set that user has it and every other user
  the limit from before, a new default does not touch it, and after it is cleared the user has the default
  again.
\<close>

theorem override_effect:
  assumes "set_override user limit f = (Inr n, f')" and "limit_user user = Inr u"
    and "effective_limit other f = Inr m" and "limit_user other = Inr v"
  shows "effective_limit user f' = Inr n
    \<and> effective_limit other f' = Inr (if v = u then n else m)
    \<and> effective_limit user (snd (set_default_limit (PInt 3) f')) = Inr n
    \<and> (\<exists>p. read_limits f = Inr p \<and> effective_limit user (snd (clear_override user f')) = Inr (default_limit p))"
proof -
  from assms(1,2) obtain p where p: "read_limits f = Inr p" and n: "limit_value limit = Inr n"
      and f': "f' = write_limits (p\<lparr>overrides := AList.update u n (overrides p)\<rparr>)"
    by (auto simp: set_override_def rbind_Inr_iff split: sum.splits)
  have wf: "wf_limits p" "limit_name u" "0 < n"
    using read_limits_wf[OF p] limit_user_Inr[OF assms(2)] n by (simp_all add: limit_value_Inr)
  let ?q = "p\<lparr>overrides := AList.update u n (overrides p)\<rparr>"
  have q: "wf_limits ?q" using wf by simp
  have r: "read_limits f' = Inr (norm_limits ?q)" using q by (simp add: f' read_write_limits)
  have nq: "wf_limits (norm_limits ?q)" "map_of (overrides (norm_limits ?q)) = (map_of (overrides p))(u \<mapsto> n)"
      "default_limit (norm_limits ?q) = default_limit p"
    using limits_file.norm_wf[OF q] q
    by (simp_all add: norm_limits_def wf_limits_def sorted_items_map_of dict_simps)
  have m: "m = (case map_of (overrides p) v of None \<Rightarrow> default_limit p | Some k \<Rightarrow> k)"
    using assms(3,4) p by (simp add: effective_limit_def)
  show ?thesis
    using effective_after_write[OF q assms(2)] effective_after_write[OF q assms(4)] nq r p m assms(2)
      effective_after_write[OF wf_limits_update(3)[OF nq(1), of 3] assms(2)]
      effective_after_write[OF wf_limits_update(2)[OF nq(1), of u] assms(2)]
    by (auto simp: f' dict_simps set_default_limit_def clear_override_def limit_value_def split: option.split)
qed

theorem effective_limit_positive_witness: "0 < (5 :: int)"
  using effective_limit_positive[of "PStr ''alice''" Absent 5]
  by (simp add: effective_limit_def DEFAULT_LIVE_SESSION_LIMIT_def limit_user.simps strip_def py_space_def)

theorem override_effect_witness:
  "effective_limit (PStr ''bob'') (snd (set_override (PStr ''alice'') (PInt 2) Absent)) = Inr 5"
proof -
  obtain f' where s: "set_override (PStr ''alice'') (PInt 2) Absent = (Inr 2, f')"
    by (simp add: set_override_def limit_value_def limit_user.simps strip_def py_space_def)
  from override_effect[OF s, of "''alice''" "PStr ''bob''" 5 "''bob''"] show ?thesis
    by (simp add: s effective_limit_def DEFAULT_LIVE_SESSION_LIMIT_def limit_user.simps strip_def py_space_def)
qed

end
