(* ===== verification/Live_Tv.thy ===== *)
theory Live_Tv
  imports Durable_State
begin

text \<open>
  The Live TV bindings (\<open>modules/sports/src/live_tv_bindings.py\<close>, class \<open>LiveTvBindingRegistry\<close>): which
  Jellyfin item plays an Atlas channel, one item for at most one channel, in one JSON file. The write lock
  makes an operation one step on the file; a document with duplicate keys is unreadable.
\<close>

datatype tv_exn = LiveTvBindingError

type_synonym tv_bindings = "(string \<times> string) list"

abbreviation tv_error :: "tv_exn + 'a" where
  "tv_error \<equiv> Inl LiveTvBindingError"

definition TV_STATE_VERSION :: int where
  "TV_STATE_VERSION = 1"

fun tv_identifier :: "pyval \<Rightarrow> tv_exn + string" where
  "tv_identifier (PStr value) =
     (let s = strip value
      in if s = [] \<or> length s > 256 \<or> list_ex (\<lambda>c. (of_char c :: nat) < 32) s then tv_error else Inr s)"
| "tv_identifier _ = tv_error"

definition read_tv_row :: "pyval \<Rightarrow> tv_exn + string" where
  "read_tv_row v =
     (case v of
        PDict e \<Rightarrow>
          if set (map fst e) \<noteq> {''jellyfin_item_id''} then tv_error
          else tv_identifier (dict_value e ''jellyfin_item_id'')
      | _ \<Rightarrow> tv_error)"

fun read_tv_rows :: "(string \<times> pyval) list \<Rightarrow> string list \<Rightarrow> tv_bindings \<Rightarrow> tv_exn + tv_bindings" where
  "read_tv_rows [] seen acc = Inr acc"
| "read_tv_rows ((k, v) # rest) seen acc =
     rbind (tv_identifier (PStr k)) (\<lambda>channel.
     rbind (read_tv_row v) (\<lambda>item.
       if item \<in> set seen then tv_error
       else read_tv_rows rest (item # seen) (AList.update channel item acc)))"

fun load_tv :: "state_file \<Rightarrow> tv_exn + tv_bindings" where
  "load_tv Absent = Inr []"
| "load_tv (Document (PDict d)) =
     (if \<not> equals_int (dict_value d ''version'') TV_STATE_VERSION then tv_error
      else (case dict_value d ''bindings'' of PDict items \<Rightarrow> read_tv_rows items [] [] | _ \<Rightarrow> tv_error))"
| "load_tv _ = tv_error"

definition encode_tv_row :: "string \<Rightarrow> pyval" where
  "encode_tv_row item = PDict [(''jellyfin_item_id'', PStr item)]"

definition write_tv :: "tv_bindings \<Rightarrow> state_file" where
  "write_tv bs =
     Document (PDict
       [(''bindings'', PDict (map (\<lambda>(k, item). (k, encode_tv_row item)) (sorted_items bs))),
        (''version'', PInt TV_STATE_VERSION)])"

subsection \<open>Operations\<close>

definition ensure_tv :: "state_file \<Rightarrow> (tv_exn + unit) \<times> state_file" where
  "ensure_tv f = (if f = Absent then (Inr (), write_tv []) else (rbind (load_tv f) (\<lambda>_. Inr ()), f))"

definition list_tv :: "state_file \<Rightarrow> tv_exn + tv_bindings" where
  "list_tv f = rbind (load_tv f) (\<lambda>bs. Inr (sorted_items bs))"

definition resolve_tv :: "pyval \<Rightarrow> state_file \<Rightarrow> tv_exn + string option" where
  "resolve_tv channel f =
     rbind (tv_identifier channel) (\<lambda>c. rbind (load_tv f) (\<lambda>bs. Inr (map_of bs c)))"

definition set_tv :: "pyval \<Rightarrow> pyval \<Rightarrow> state_file \<Rightarrow> (tv_exn + string \<times> string) \<times> state_file" where
  "set_tv channel item f =
     (case rbind (tv_identifier channel) (\<lambda>c. rbind (tv_identifier item) (\<lambda>j.
           rbind (load_tv f) (\<lambda>bs.
             if list_ex (\<lambda>(other, i). other \<noteq> c \<and> i = j) bs then tv_error else Inr (c, j, bs))))
      of Inl e \<Rightarrow> (Inl e, f)
       | Inr (c, j, bs) \<Rightarrow> (Inr (c, j), write_tv (AList.update c j bs)))"

fun normalized_tv :: "(pyval \<times> pyval) list \<Rightarrow> tv_bindings \<Rightarrow> tv_exn + tv_bindings" where
  "normalized_tv [] acc = Inr acc"
| "normalized_tv ((channel, item) # rest) acc =
     rbind (tv_identifier channel) (\<lambda>c. rbind (tv_identifier item) (\<lambda>j.
       normalized_tv rest (AList.update c j acc)))"

definition merged_tv :: "tv_bindings \<Rightarrow> tv_bindings \<Rightarrow> tv_bindings" where
  "merged_tv new bs = foldl (\<lambda>acc (c, j). AList.update c j acc) bs new"

text \<open>\<open>set_many\<close>: the whole proposed mapping is checked before one replacement of the file.\<close>

definition set_many_tv :: "(pyval \<times> pyval) list \<Rightarrow> state_file \<Rightarrow> (tv_exn + tv_bindings) \<times> state_file" where
  "set_many_tv bindings f =
     (case normalized_tv bindings [] of
        Inl e \<Rightarrow> (Inl e, f)
      | Inr new \<Rightarrow>
          if \<not> distinct (map snd new) then (tv_error, f)
          else if new = [] then (Inr [], f)
          else (case load_tv f of
              Inl e \<Rightarrow> (Inl e, f)
            | Inr bs \<Rightarrow>
                if list_ex (\<lambda>(other, i). other \<notin> set (map fst new) \<and> i \<in> set (map snd new)) bs
                then (tv_error, f)
                else (Inr (sorted_items new), write_tv (merged_tv new bs))))"

definition delete_tv :: "pyval \<Rightarrow> state_file \<Rightarrow> (tv_exn + bool) \<times> state_file" where
  "delete_tv channel f =
     (case rbind (tv_identifier channel) (\<lambda>c. rbind (load_tv f) (\<lambda>bs. Inr (c, bs))) of
        Inl e \<Rightarrow> (Inl e, f)
      | Inr (c, bs) \<Rightarrow>
          if map_of bs c = None then (Inr False, f) else (Inr True, write_tv (AList.delete c bs)))"

subsection \<open>The durable file\<close>

definition tv_name :: "string \<Rightarrow> bool" where
  "tv_name s \<longleftrightarrow> tv_identifier (PStr s) = Inr s"

definition wf_tv :: "tv_bindings \<Rightarrow> bool" where
  "wf_tv bs \<longleftrightarrow> distinct (map fst bs) \<and> distinct (map snd bs) \<and> list_all (\<lambda>(c, j). tv_name c \<and> tv_name j) bs"

lemma tv_identifier_Inr: "tv_identifier v = Inr s \<Longrightarrow> tv_name s"
  by (cases v) (auto simp: tv_name_def Let_def split: if_split_asm)

declare tv_identifier.simps [simp del]

lemma distinct_snd_update:
  "distinct (map fst bs) \<Longrightarrow> distinct (map snd bs) \<Longrightarrow> j \<notin> snd ` set (AList.delete c bs)
   \<Longrightarrow> distinct (map snd (AList.update c j bs))"
proof (induction bs)
  case (Cons x bs)
  show ?case
  proof (cases "fst x = c")
    case True
    then have "AList.delete c bs = bs" using Cons.prems(1) by (intro AList.delete_id) (auto simp: rev_image_eqI)
    with Cons.prems True show ?thesis by (cases x) auto
  next
    case False
    with Cons show ?thesis by (cases x) (auto simp: set_dict_set set_dict_del)
  qed
qed simp

lemma wf_tv_update:
  assumes "wf_tv bs" and "tv_name c" and "tv_name j" and "j \<notin> snd ` set (AList.delete c bs)"
  shows "wf_tv (AList.update c j bs)"
  using assms by (auto simp: wf_tv_def dict_simps distinct_snd_update list_all_iff set_dict_set)

lemma wf_tv_delete: "wf_tv bs \<Longrightarrow> wf_tv (AList.delete c bs)"
  by (auto simp: wf_tv_def dict_simps list_all_iff AList.delete_eq distinct_map_filter distinct_map inj_on_def)

lemma read_tv_row_Inr: "read_tv_row v = Inr j \<Longrightarrow> tv_name j"
  by (cases v) (auto simp: read_tv_row_def dest: tv_identifier_Inr split: if_split_asm)

lemma read_tv_rows_wf:
  "read_tv_rows items seen acc = Inr bs \<Longrightarrow> wf_tv acc \<Longrightarrow> snd ` set acc \<subseteq> set seen \<Longrightarrow> wf_tv bs"
proof (induction items seen acc rule: read_tv_rows.induct)
  case (2 k v rest seen acc)
  from 2(2) obtain c j where c: "tv_identifier (PStr k) = Inr c" and j: "read_tv_row v = Inr j"
    and seen: "j \<notin> set seen" and rest: "read_tv_rows rest (j # seen) (AList.update c j acc) = Inr bs"
    by (auto simp: rbind_Inr_iff split: if_split_asm)
  have "wf_tv (AList.update c j acc)"
    using 2(3,4) tv_identifier_Inr[OF c] read_tv_row_Inr[OF j] seen by (intro wf_tv_update) (auto simp: set_dict_del)
  moreover have "snd ` set (AList.update c j acc) \<subseteq> set (j # seen)"
    using 2(3,4) by (auto simp: wf_tv_def set_dict_set)
  ultimately show ?case using 2(1)[OF c j seen rest] by simp
qed simp

lemma load_tv_wf: "load_tv f = Inr bs \<Longrightarrow> wf_tv bs"
  by (cases f rule: load_tv.cases)
    (auto simp: wf_tv_def split: if_split_asm pyval.splits dest!: read_tv_rows_wf[unfolded wf_tv_def])

lemma read_encoded_tv:
  "wf_tv (acc @ bs) \<Longrightarrow> set seen \<subseteq> snd ` set acc
   \<Longrightarrow> read_tv_rows (map (\<lambda>(k, item). (k, encode_tv_row item)) bs) seen acc = Inr (acc @ bs)"
proof (induction bs arbitrary: acc seen)
  case (Cons x bs)
  obtain c j where x: "x = (c, j)" by force
  have "tv_name c" "tv_name j" "j \<notin> set seen" "c \<notin> fst ` set acc"
    using Cons.prems x by (auto simp: wf_tv_def rev_image_eqI)
  moreover have "read_tv_rows (map (\<lambda>(k, item). (k, encode_tv_row item)) bs) (j # seen) (acc @ [x]) = Inr (acc @ x # bs)"
    using Cons.IH[of "acc @ [x]" "j # seen"] Cons.prems x by auto
  ultimately show ?case by (simp add: x tv_name_def encode_tv_row_def read_tv_row_def dict_set_fresh dict_default_def)
qed simp

lemma wf_tv_sorted: "wf_tv bs \<Longrightarrow> wf_tv (sorted_items bs)"
  by (auto simp: wf_tv_def sorted_items_distinct list_all_iff distinct_map sorted_items_def)

lemma load_write_tv: "wf_tv bs \<Longrightarrow> load_tv (write_tv bs) = Inr (sorted_items bs)"
  using read_encoded_tv[of "[]" "sorted_items bs" "[]"]
  by (simp add: write_tv_def wf_tv_sorted dict_default_def TV_STATE_VERSION_def)

interpretation tv_file: durable_state load_tv write_tv wf_tv sorted_items
proof unfold_locales
  show "sorted_items (sorted_items bs) = sorted_items bs" for bs :: tv_bindings
    by (simp add: sorted_items_def sort_key_id_if_sorted)
qed (auto intro: load_tv_wf load_write_tv)

subsection \<open>Several bindings at once\<close>

lemma normalized_tv_names:
  "normalized_tv items acc = Inr new \<Longrightarrow> distinct (map fst acc) \<and> list_all (\<lambda>(c, j). tv_name c \<and> tv_name j) acc
   \<Longrightarrow> distinct (map fst new) \<and> list_all (\<lambda>(c, j). tv_name c \<and> tv_name j) new"
proof (induction items acc rule: normalized_tv.induct)
  case (2 channel item rest acc)
  then obtain c j where c: "tv_identifier channel = Inr c" and j: "tv_identifier item = Inr j"
      and rest: "normalized_tv rest (AList.update c j acc) = Inr new"
    by (auto simp: rbind_Inr_iff)
  show ?case
    using 2(3) tv_identifier_Inr[OF c] tv_identifier_Inr[OF j]
    by (intro 2(1)[OF c j rest]) (auto simp: dict_simps list_all_iff set_dict_set)
qed simp

lemma merged_tv_map: "distinct (map fst new) \<Longrightarrow> map_of (merged_tv new bs) = map_of bs ++ map_of new"
proof (induction new arbitrary: bs)
  case (Cons x new)
  obtain c j where x: "x = (c, j)" by force
  with Cons have "map_of new c = None" by (simp add: map_of_eq_None_iff)
  then have "(map_of bs)(c \<mapsto> j) ++ map_of new = map_of bs ++ (map_of new)(c \<mapsto> j)"
    by (auto simp: map_add_def fun_eq_iff split: option.split)
  with Cons x show ?case by (simp add: merged_tv_def dict_simps fun_upd_def del: map_add_upd)
qed (simp add: merged_tv_def)

lemma wf_tv_iff:
  "wf_tv bs \<longleftrightarrow> distinct (map fst bs) \<and> (\<forall>c d j. map_of bs c = Some j \<longrightarrow> map_of bs d = Some j \<longrightarrow> c = d)
     \<and> (\<forall>c j. map_of bs c = Some j \<longrightarrow> tv_name c \<and> tv_name j)"
proof (cases "distinct (map fst bs)")
  case True
  then have s: "map_of bs c = Some j \<longleftrightarrow> (c, j) \<in> set bs" for c j by simp
  have "distinct (map snd bs) \<longleftrightarrow> inj_on snd (set bs)" using True by (simp add: distinct_map)
  also have "\<dots> \<longleftrightarrow> (\<forall>c d j. (c, j) \<in> set bs \<longrightarrow> (d, j) \<in> set bs \<longrightarrow> c = d)" by (force simp: inj_on_def)
  finally show ?thesis using True unfolding s by (auto simp: wf_tv_def list_all_iff)
qed (simp add: wf_tv_def)

lemma merged_tv_distinct: "distinct (map fst bs) \<Longrightarrow> distinct (map fst (merged_tv new bs))"
  unfolding merged_tv_def by (induction new arbitrary: bs) (auto simp: dict_simps)

lemma wf_tv_merged:
  assumes "wf_tv bs" and "distinct (map fst new)" and "distinct (map snd new)"
    and "list_all (\<lambda>(c, j). tv_name c \<and> tv_name j) new"
    and "\<not> list_ex (\<lambda>(other, i). other \<notin> set (map fst new) \<and> i \<in> set (map snd new)) bs"
  shows "wf_tv (merged_tv new bs)"
proof -
  have new: "wf_tv new" using assms by (simp add: wf_tv_def)
  have apart: "map_of bs c = Some j \<Longrightarrow> map_of new c = None \<Longrightarrow> map_of new d \<noteq> Some j" for c d j
    using assms(5) by (auto simp: list_ex_iff map_of_eq_None_iff rev_image_eqI dest!: map_of_SomeD)
  have "(map_of bs ++ map_of new) c = Some j \<Longrightarrow> (map_of bs ++ map_of new) d = Some j \<Longrightarrow> c = d" for c d j
    using assms(1) new apart unfolding wf_tv_iff map_add_Some_iff by metis
  with assms(1) new assms(2) show ?thesis
    unfolding wf_tv_iff merged_tv_map[OF assms(2)] by (auto simp: merged_tv_distinct map_add_Some_iff)
qed

subsection \<open>The theorems\<close>

lemma load_written:
  assumes "wf_tv bs"
  shows "\<exists>bs'. load_tv (write_tv bs) = Inr bs' \<and> map_of bs' = map_of bs"
  using assms by (auto simp: load_write_tv sorted_items_map_of wf_tv_def)

text \<open>The operations that write, and the file they leave.\<close>

datatype tv_action = EnsureTv | SetTv pyval pyval | SetManyTv "(pyval \<times> pyval) list" | DeleteTv pyval

fun tv_after :: "tv_action \<Rightarrow> state_file \<Rightarrow> state_file" where
  "tv_after EnsureTv f = snd (ensure_tv f)"
| "tv_after (SetTv channel item) f = snd (set_tv channel item f)"
| "tv_after (SetManyTv bindings) f = snd (set_many_tv bindings f)"
| "tv_after (DeleteTv channel) f = snd (delete_tv channel f)"

lemma set_tv_cases:
  assumes "load_tv f = Inr bs"
  shows "snd (set_tv channel item f) = f \<or> (\<exists>c j. tv_identifier channel = Inr c \<and> tv_identifier item = Inr j
    \<and> fst (set_tv channel item f) = Inr (c, j) \<and> wf_tv (AList.update c j bs)
    \<and> snd (set_tv channel item f) = write_tv (AList.update c j bs))"
proof (cases "fst (set_tv channel item f)")
  case (Inr r)
  then obtain c j where c: "tv_identifier channel = Inr c" "tv_identifier item = Inr j"
    and free: "\<not> list_ex (\<lambda>(other, i). other \<noteq> c \<and> i = j) bs"
    using assms by (auto simp: set_tv_def rbind_Inr_iff split: sum.splits if_split_asm)
  have "wf_tv (AList.update c j bs)"
    using load_tv_wf[OF assms] c free by (intro wf_tv_update) (auto simp: set_dict_del list_ex_iff dest: tv_identifier_Inr)
  with assms c free show ?thesis by (simp add: set_tv_def)
qed (auto simp: set_tv_def split: sum.splits prod.splits)

lemma set_many_cases:
  assumes "load_tv f = Inr bs"
  shows "(\<exists>e. set_many_tv bindings f = (Inl e, f)) \<or>
    normalized_tv bindings [] = Inr [] \<and> set_many_tv bindings f = (Inr [], f) \<or> (\<exists>new. normalized_tv bindings [] = Inr new
    \<and> distinct (map fst new) \<and> wf_tv (merged_tv new bs)
    \<and> set_many_tv bindings f = (Inr (sorted_items new), write_tv (merged_tv new bs)))"
proof (cases "normalized_tv bindings []")
  case (Inr new)
  with normalized_tv_names[OF Inr] have n: "distinct (map fst new)" "list_all (\<lambda>(c, j). tv_name c \<and> tv_name j) new"
    by simp_all
  with assms Inr wf_tv_merged[OF load_tv_wf[OF assms] n(1) _ n(2)] show ?thesis
    by (auto simp: set_many_tv_def)
qed (simp add: set_many_tv_def)

lemma tv_after_readable: "tv_file.readable f \<Longrightarrow> tv_file.readable (tv_after a f)"
proof -
  assume "tv_file.readable f"
  then obtain bs where bs: "load_tv f = Inr bs" by (auto simp: tv_file.readable_def)
  note r = tv_file.readable_write
  show ?thesis
  proof (cases a)
    case EnsureTv
    with bs show ?thesis by (auto simp: ensure_tv_def wf_tv_def tv_file.readable_def load_write_tv)
  next
    case (SetTv channel item)
    with set_tv_cases[OF bs, of channel item] r \<open>tv_file.readable f\<close> show ?thesis by auto
  next
    case (SetManyTv bindings)
    with set_many_cases[OF bs, of bindings] r \<open>tv_file.readable f\<close> show ?thesis by (metis snd_conv tv_after.simps(3))
  next
    case (DeleteTv channel)
    with bs r \<open>tv_file.readable f\<close> load_tv_wf[OF bs] show ?thesis
      by (cases "tv_identifier channel") (auto simp: delete_tv_def wf_tv_delete)
  qed
qed


text \<open>
  Setting many bindings is all or nothing: either an error leaves the file as it was, or every channel
  of the request is bound to its item and every other channel is bound as before.
\<close>

theorem set_many_all_or_nothing:
  assumes "load_tv f = Inr bs" and "set_many_tv bindings f = (r, f')"
  shows "(\<exists>e. r = Inl e \<and> f' = f) \<or>
    (\<exists>new bs'. r = Inr (sorted_items new) \<and> normalized_tv bindings [] = Inr new \<and> load_tv f' = Inr bs'
       \<and> map_of bs' = map_of bs ++ map_of new)"
proof -
  have "r = Inr (sorted_items []) \<and> map_of bs = map_of bs ++ map_of ([] :: tv_bindings)" if "r = Inr []"
    using that by (simp add: sorted_items_def)
  with assms set_many_cases[OF assms(1), of bindings] show ?thesis
    by (auto simp: merged_tv_map dest: load_written)
qed

end
