(* ===== verification/Dispatcharr_Admin.thy ===== *)
theory Dispatcharr_Admin
  imports Live_Claims
begin

text \<open>
  The client of the private Dispatcharr administration (\<open>modules/sports/src/dispatcharr_admin.py\<close>) and the
  verification of a playback option against it (\<open>verify_playback_option\<close> of \<open>live_sources.py\<close>). The HTTP
  exchange is the argument \<open>http\<close>: what a request of method, path, body and token is answered; no operation
  sends one request twice. \<open>render\<close> is the text of \<open>str(v)\<close> for floats, lists and dictionaries.
\<close>

subsection \<open>Exchange\<close>

text \<open>An exception carries the HTTP status and the \<open>Retry-After\<close> header of the reply that caused it.\<close>

type_synonym http_cause = "(int \<times> string) option"

datatype admin_exn =
    DispatcharrAdminError http_cause
  | DispatcharrAuthError http_cause
  | DispatcharrAccountNotFoundError http_cause
  | DispatcharrChannelNotFoundError
  | AdminCatalogError
  | AdminAttributeError
  | AdminBuiltin pyexn

abbreviation admin_error :: "admin_exn + 'a" where
  "admin_error \<equiv> Inl (DispatcharrAdminError None)"

datatype admin_reply = Refused int string | Unreachable | NotJson | Json pyval

record admin_request =
  req_method :: string
  req_path :: string
  req_body :: "pyval option"
  req_token :: "string option"

type_synonym admin_http = "admin_request \<Rightarrow> admin_reply"

definition json_request ::
  "admin_http \<Rightarrow> string \<Rightarrow> string \<Rightarrow> pyval option \<Rightarrow> string option \<Rightarrow> admin_exn + pyval" where
  "json_request http method path body token =
     (case http \<lparr>req_method = method, req_path = path, req_body = body, req_token = token\<rparr> of
        Refused code retry \<Rightarrow>
          if code = 401 \<or> code = 403 then Inl (DispatcharrAuthError (Some (code, retry)))
          else if code = 404 then Inl (DispatcharrAccountNotFoundError (Some (code, retry)))
          else Inl (DispatcharrAdminError (Some (code, retry)))
      | Unreachable \<Rightarrow> admin_error
      | NotJson \<Rightarrow> admin_error
      | Json v \<Rightarrow> Inr v)"

text \<open>\<open>int(v)\<close>, with \<open>TypeError\<close> and \<open>ValueError\<close> translated and \<open>OverflowError\<close> not.\<close>

fun py_int :: "pyval \<Rightarrow> pyexn + int" where
  "py_int (PInt n) = Inr n"
| "py_int (PBool b) = Inr (if b then 1 else 0)"
| "py_int (PFloat x) = int_of_float x"
| "py_int (PStr s) = (case py_int_of_string s of None \<Rightarrow> Inl ValueError | Some n \<Rightarrow> Inr n)"
| "py_int _ = Inl TypeError"

definition admin_int :: "pyval \<Rightarrow> admin_exn + int" where
  "admin_int v =
     (case py_int v of
        Inr n \<Rightarrow> Inr n
      | Inl OverflowError \<Rightarrow> Inl (AdminBuiltin OverflowError)
      | Inl _ \<Rightarrow> admin_error)"

definition positive_admin_identifier :: "pyval \<Rightarrow> admin_exn + int" where
  "positive_admin_identifier v =
     (case v of
        PBool _ \<Rightarrow> admin_error
      | _ \<Rightarrow> rbind (admin_int v) (\<lambda>n. if n < 1 then admin_error else Inr n))"

text \<open>\<open>str(d.get(k, "")).strip()\<close>\<close>

definition text_of :: "(pyval \<Rightarrow> string) \<Rightarrow> (string \<times> pyval) list \<Rightarrow> string \<Rightarrow> string" where
  "text_of render d k = py_str render (dict_default d k (PStr []))"

definition access_token ::
  "(pyval \<Rightarrow> string) \<Rightarrow> admin_http \<Rightarrow> string \<times> string \<Rightarrow> string option \<Rightarrow> admin_exn + string" where
  "access_token render http login cached =
     (case cached of
        Some t \<Rightarrow> Inr t
      | None \<Rightarrow>
          rbind (json_request http ''POST'' ''/api/accounts/auth/login/''
                  (Some (PDict [(''username'', PStr (fst login)), (''password'', PStr (snd login))])) None) (\<lambda>v.
            case v of
              PDict d \<Rightarrow>
                let access = strip (text_of render d ''access'') in
                if access = [] then Inl (DispatcharrAuthError None) else Inr access
            | _ \<Rightarrow> Inl (DispatcharrAuthError None)))"

text \<open>The client: its base URL, its login and the cached token.\<close>

record admin_client =
  base_url :: string
  admin_login :: "string \<times> string"
  cached_token :: "string option"

definition new_client :: "string \<Rightarrow> string \<Rightarrow> string \<Rightarrow> admin_exn + admin_client" where
  "new_client url user password =
     (let base = rstrip_char (CHR ''/'') url in
      if base = [] \<or> user = [] \<or> password = [] then admin_error
      else Inr \<lparr>base_url = base, admin_login = (user, password), cached_token = None\<rparr>)"

definition client_token ::
  "(pyval \<Rightarrow> string) \<Rightarrow> admin_http \<Rightarrow> admin_client \<Rightarrow> admin_exn + string" where
  "client_token render http c = access_token render http (admin_login c) (cached_token c)"

subsection \<open>Accounts\<close>

record safe_account =
  account_id :: int
  account_name :: string
  account_type :: string
  account_enabled :: bool
  configured_connections :: int
  credentials_configured :: bool

definition account_to_mapping :: "safe_account \<Rightarrow> pyval" where
  "account_to_mapping a =
     PDict [(''account_id'', PInt (account_id a)), (''name'', PStr (account_name a)),
       (''account_type'', PStr (account_type a)), (''enabled'', PBool (account_enabled a)),
       (''configured_max_connections'', PInt (configured_connections a)),
       (''credentials_configured'', PBool (credentials_configured a))]"

definition safe_account_of :: "(pyval \<Rightarrow> string) \<Rightarrow> (string \<times> pyval) list \<Rightarrow> admin_exn + safe_account" where
  "safe_account_of render raw =
     rbind (case map_of raw ''id'' of None \<Rightarrow> admin_error | Some v \<Rightarrow> admin_int v) (\<lambda>aid.
     let name = strip (text_of render raw ''name'');
         kind = strip (text_of render raw ''account_type'') in
     if name = [] \<or> kind = [] then admin_error
     else rbind (admin_int (dict_default raw ''max_streams'' (PInt 0))) (\<lambda>n.
       Inr \<lparr>account_id = aid, account_name = name, account_type = kind,
            account_enabled = py_truthy (dict_default raw ''is_active'' (PBool False)),
            configured_connections = n,
            credentials_configured =
              strip (text_of render raw ''username'') \<noteq> [] \<and> text_of render raw ''password'' \<noteq> []\<rparr>))"

definition account_path :: "int \<Rightarrow> string" where
  "account_path n = ''/api/m3u/accounts/'' @ dec n @ ''/''"

definition require_dict :: "pyval \<Rightarrow> admin_exn + (string \<times> pyval) list" where
  "require_dict v = (case v of PDict d \<Rightarrow> Inr d | _ \<Rightarrow> admin_error)"

definition raw_account ::
  "(pyval \<Rightarrow> string) \<Rightarrow> admin_http \<Rightarrow> admin_client \<Rightarrow> int \<Rightarrow> admin_exn + (string \<times> pyval) list" where
  "raw_account render http c n =
     rbind (client_token render http c) (\<lambda>t.
     rbind (json_request http ''GET'' (account_path n) None (Some t)) require_dict)"

definition read_account ::
  "(pyval \<Rightarrow> string) \<Rightarrow> admin_http \<Rightarrow> admin_client \<Rightarrow> int \<Rightarrow> admin_exn + safe_account" where
  "read_account render http c n = rbind (raw_account render http c n) (safe_account_of render)"

definition provider_url :: "(string \<Rightarrow> bool) \<Rightarrow> string \<Rightarrow> admin_exn + url_parts" where
  "provider_url lo s =
     (case urlsplit lo s of
        None \<Rightarrow> Inl (AdminBuiltin ValueError)
      | Some u \<Rightarrow>
          if \<not> http_scheme u \<or> url_netloc u = [] \<or> truthy_text (url_username u) \<or> truthy_text (url_password u)
          then admin_error else Inr u)"

text \<open>\<open>str(v or "").strip()\<close>\<close>

definition argument_text :: "(pyval \<Rightarrow> string) \<Rightarrow> pyval \<Rightarrow> string" where
  "argument_text render v = strip (if py_truthy v then py_str render v else [])"

definition connection_limit :: "pyval \<Rightarrow> admin_exn + int" where
  "connection_limit v =
     (case v of
        PBool _ \<Rightarrow> admin_error
      | _ \<Rightarrow> rbind (admin_int v) (\<lambda>n. if n < 1 \<or> n > 1000 then admin_error else Inr n))"

definition account_body :: "string \<Rightarrow> string \<Rightarrow> string \<Rightarrow> string \<Rightarrow> int \<Rightarrow> pyval" where
  "account_body name url user password n =
     PDict [(''name'', PStr name), (''server_url'', PStr url), (''account_type'', PStr ''XC''),
       (''username'', PStr user), (''password'', PStr password), (''max_streams'', PInt n),
       (''is_active'', PBool True), (''enable_vod'', PBool False),
       (''auto_enable_new_groups_live'', PBool False), (''auto_enable_new_groups_vod'', PBool False),
       (''auto_enable_new_groups_series'', PBool False)]"

definition create_account ::
  "(pyval \<Rightarrow> string) \<Rightarrow> (string \<Rightarrow> bool) \<Rightarrow> admin_http \<Rightarrow> admin_client
   \<Rightarrow> pyval \<Rightarrow> pyval \<Rightarrow> pyval \<Rightarrow> pyval \<Rightarrow> pyval \<Rightarrow> admin_exn + safe_account" where
  "create_account render lo http c name url user password limit =
     (let name' = argument_text render name; url' = argument_text render url;
          user' = argument_text render user in
      if name' = [] \<or> url' = [] then admin_error
      else rbind (provider_url lo url') (\<lambda>_.
      if user' = [] then admin_error
      else (case password of
          PStr p \<Rightarrow>
            if p = [] then admin_error
            else rbind (connection_limit limit) (\<lambda>n.
              rbind (client_token render http c) (\<lambda>t.
              rbind (json_request http ''POST'' ''/api/m3u/accounts/''
                      (Some (account_body name' url' user' p n)) (Some t)) (\<lambda>v.
              rbind (require_dict v) (safe_account_of render))))
        | _ \<Rightarrow> admin_error)))"

definition delete_account ::
  "(pyval \<Rightarrow> string) \<Rightarrow> admin_http \<Rightarrow> admin_client \<Rightarrow> pyval \<Rightarrow> admin_exn + unit" where
  "delete_account render http c v =
     rbind (positive_admin_identifier v) (\<lambda>n.
     rbind (client_token render http c) (\<lambda>t.
     rbind (json_request http ''DELETE'' (account_path n) (Some (PDict [])) (Some t)) (\<lambda>v.
     rbind (require_dict v) (\<lambda>_. Inr ()))))"

text \<open>The arguments come from a JSON body: \<open>strip\<close> of a value that is no text raises \<open>AttributeError\<close>.\<close>

fun stripped_argument :: "pyval \<Rightarrow> admin_exn + string option" where
  "stripped_argument PNone = Inr None"
| "stripped_argument (PStr s) = (if strip s = [] then admin_error else Inr (Some (strip s)))"
| "stripped_argument _ = Inl AdminAttributeError"

definition credential_fields ::
  "(string \<Rightarrow> bool) \<Rightarrow> pyval \<Rightarrow> pyval \<Rightarrow> pyval \<Rightarrow> admin_exn + (string \<times> pyval) list" where
  "credential_fields lo url user password =
     rbind (rbind (stripped_argument url) (\<lambda>u. case u of
         None \<Rightarrow> Inr []
       | Some s \<Rightarrow> rbind (provider_url lo s) (\<lambda>_. Inr [(''server_url'', PStr s)]))) (\<lambda>a.
     rbind (rbind (stripped_argument user) (\<lambda>u. Inr (case u of
         None \<Rightarrow> [] | Some s \<Rightarrow> [(''username'', PStr s)]))) (\<lambda>b.
       Inr (a @ b @ (if password = PNone \<or> password = PStr [] then [] else [(''password'', password)]))))"

definition update_credentials ::
  "(pyval \<Rightarrow> string) \<Rightarrow> (string \<Rightarrow> bool) \<Rightarrow> admin_http \<Rightarrow> admin_client \<Rightarrow> int
   \<Rightarrow> pyval \<Rightarrow> pyval \<Rightarrow> pyval \<Rightarrow> admin_exn + safe_account" where
  "update_credentials render lo http c n url user password =
     rbind (raw_account render http c n) (\<lambda>current.
     rbind (credential_fields lo url user password) (\<lambda>body.
       if body = [] then safe_account_of render current
       else
         rbind (client_token render http c) (\<lambda>t.
         rbind (json_request http ''PATCH'' (account_path n) (Some (PDict body)) (Some t)) (\<lambda>v.
         rbind (require_dict v) (safe_account_of render)))))"


text \<open>
  Streams and channels of the Dispatcharr administration (\<open>modules/sports/src/dispatcharr_admin.py\<close>): the
  paginated lists, the identity of streams and channels, their reconciliation, the test of a provider's
  connection and the verification of a playback option with its shared, rate-limited authentication.
\<close>

subsection \<open>Pagination\<close>

fun all_dicts :: "pyval list \<Rightarrow> admin_exn + (string \<times> pyval) list list" where
  "all_dicts [] = Inr []"
| "all_dicts (v # vs) = rbind (require_dict v) (\<lambda>d. rbind (all_dicts vs) (\<lambda>ds. Inr (d # ds)))"

definition MAX_PAGES :: nat where
  "MAX_PAGES = 10000"

definition page_path :: "string \<Rightarrow> nat \<Rightarrow> string" where
  "page_path path page =
     path @ (if CHR ''?'' \<in> set path then ''&'' else ''?'') @ ''page='' @ dec (int page) @ ''&page_size=10000''"

text \<open>One page: its rows and whether another one follows. A bare list is the whole answer.\<close>

definition page_rows :: "pyval \<Rightarrow> admin_exn + (string \<times> pyval) list list \<times> bool" where
  "page_rows payload =
     (case payload of
        PList items \<Rightarrow> rbind (all_dicts items) (\<lambda>ds. Inr (ds, False))
      | PDict d \<Rightarrow>
          (case dict_value d ''results'' of
             PList items \<Rightarrow> rbind (all_dicts items) (\<lambda>ds. Inr (ds, py_truthy (dict_value d ''next'')))
           | _ \<Rightarrow> admin_error)
      | _ \<Rightarrow> admin_error)"

text \<open>The loop, with the number of pages that the bound still allows.\<close>

fun pages_from ::
  "admin_http \<Rightarrow> string \<Rightarrow> string \<Rightarrow> nat \<Rightarrow> nat \<Rightarrow> (string \<times> pyval) list list
   \<Rightarrow> admin_exn + (string \<times> pyval) list list" where
  "pages_from http token path 0 page rows = admin_error"
| "pages_from http token path (Suc left) page rows =
     rbind (json_request http ''GET'' (page_path path page) None (Some token)) (\<lambda>payload.
     rbind (page_rows payload) (\<lambda>(ds, more).
       if more then pages_from http token path left (Suc page) (rows @ ds) else Inr (rows @ ds)))"

definition paginated_get ::
  "admin_http \<Rightarrow> string \<Rightarrow> string \<Rightarrow> admin_exn + (string \<times> pyval) list list" where
  "paginated_get http token path = pages_from http token path MAX_PAGES 1 []"

subsection \<open>Streams\<close>

fun group_loop ::
  "(pyval \<Rightarrow> string) \<Rightarrow> (string \<times> pyval) list list \<Rightarrow> (int \<times> string) list
   \<Rightarrow> admin_exn + (int \<times> string) list" where
  "group_loop render [] groups = Inr groups"
| "group_loop render (raw # rows) groups =
     rbind (positive_admin_identifier (dict_value raw ''id'')) (\<lambda>g.
       let name = strip (text_of render raw ''name'') in
       if name = [] \<or> g \<in> fst ` set groups then admin_error
       else group_loop render rows (groups @ [(g, name)]))"

definition group_names ::
  "(pyval \<Rightarrow> string) \<Rightarrow> admin_http \<Rightarrow> string \<Rightarrow> admin_exn + (int \<times> string) list" where
  "group_names render http token =
     rbind (paginated_get http token ''/api/channels/groups/'') (\<lambda>rows. group_loop render rows [])"

record safe_stream =
  stream_id :: int
  stream_name :: string
  m3u_account_id :: int
  group_name :: "string option"
  is_stale :: bool

definition stream_to_mapping :: "safe_stream \<Rightarrow> pyval" where
  "stream_to_mapping s =
     PDict [(''stream_id'', PInt (stream_id s)), (''name'', PStr (stream_name s)),
       (''m3u_account_id'', PInt (m3u_account_id s)), (''group_name'', optional_json (group_name s)),
       (''is_stale'', PBool (is_stale s))]"

definition stream_group :: "(int \<times> string) list \<Rightarrow> pyval \<Rightarrow> admin_exn + string option" where
  "stream_group groups v =
     (if v = PNone then Inr None
      else rbind (positive_admin_identifier v) (\<lambda>g.
        case map_of groups g of None \<Rightarrow> admin_error | Some name \<Rightarrow> Inr (Some name)))"

definition safe_stream_of ::
  "(pyval \<Rightarrow> string) \<Rightarrow> int \<Rightarrow> (int \<times> string) list \<Rightarrow> (string \<times> pyval) list \<Rightarrow> admin_exn + safe_stream" where
  "safe_stream_of render account groups raw =
     rbind (positive_admin_identifier (dict_value raw ''id'')) (\<lambda>sid.
     rbind (positive_admin_identifier (dict_value raw ''m3u_account'')) (\<lambda>a.
     if a \<noteq> account then admin_error
     else
       let name = strip (text_of render raw ''name'') in
       if name = [] then admin_error
       else rbind (stream_group groups (dict_value raw ''channel_group'')) (\<lambda>g.
         Inr \<lparr>stream_id = sid, stream_name = name, m3u_account_id = a, group_name = g,
              is_stale = py_truthy (dict_default raw ''is_stale'' (PBool False))\<rparr>)))"

fun safe_streams ::
  "((string \<times> pyval) list \<Rightarrow> admin_exn + safe_stream) \<Rightarrow> (string \<times> pyval) list list
   \<Rightarrow> admin_exn + safe_stream list" where
  "safe_streams convert [] = Inr []"
| "safe_streams convert (raw # rows) =
     rbind (convert raw) (\<lambda>s. rbind (safe_streams convert rows) (\<lambda>ss. Inr (s # ss)))"

definition streams_path :: "int \<Rightarrow> string" where
  "streams_path account = ''/api/channels/streams/?m3u_account='' @ dec account"

definition list_streams ::
  "(pyval \<Rightarrow> string) \<Rightarrow> admin_http \<Rightarrow> admin_client \<Rightarrow> pyval \<Rightarrow> admin_exn + safe_stream list" where
  "list_streams render http c v =
     rbind (positive_admin_identifier v) (\<lambda>account.
     rbind (client_token render http c) (\<lambda>t.
     rbind (group_names render http t) (\<lambda>groups.
     rbind (paginated_get http t (streams_path account)) (\<lambda>rows.
     rbind (safe_streams (safe_stream_of render account groups) rows) (\<lambda>ss.
       if distinct (map stream_id ss) then Inr ss else admin_error)))))"

subsection \<open>Channels\<close>

fun stream_ids_loop :: "pyval list \<Rightarrow> int list \<Rightarrow> admin_exn + int list" where
  "stream_ids_loop [] ids = (if ids = [] then admin_error else Inr ids)"
| "stream_ids_loop (v # vs) ids =
     rbind (positive_admin_identifier v) (\<lambda>n.
       if n \<in> set ids then admin_error else stream_ids_loop vs (ids @ [n]))"

definition channel_stream_ids :: "pyval \<Rightarrow> admin_exn + int list" where
  "channel_stream_ids v =
     (case v of PList vs \<Rightarrow> stream_ids_loop vs [] | PTuple vs \<Rightarrow> stream_ids_loop vs [] | _ \<Rightarrow> admin_error)"

record safe_channel =
  channel_id :: int
  channel_uuid :: string
  channel_name :: string
  channel_streams :: "int list"

definition channel_to_mapping :: "safe_channel \<Rightarrow> pyval" where
  "channel_to_mapping c =
     PDict [(''channel_id'', PInt (channel_id c)), (''channel_uuid'', PStr (channel_uuid c)),
       (''name'', PStr (channel_name c)), (''stream_ids'', PList (map PInt (channel_streams c)))]"

definition named_text :: "pyval \<Rightarrow> admin_exn + string" where
  "named_text v = (case v of PStr s \<Rightarrow> if strip s = [] then admin_error else Inr (strip s) | _ \<Rightarrow> admin_error)"

definition safe_channel_of :: "pyval \<Rightarrow> admin_exn + safe_channel" where
  "safe_channel_of payload =
     rbind (require_dict payload) (\<lambda>d.
     rbind (positive_admin_identifier (dict_value d ''id'')) (\<lambda>cid.
     rbind (named_text (dict_value d ''uuid'')) (\<lambda>uuid.
     rbind (named_text (dict_value d ''name'')) (\<lambda>name.
     rbind (channel_stream_ids (dict_default d ''streams'' (PTuple []))) (\<lambda>ids.
       Inr \<lparr>channel_id = cid, channel_uuid = uuid, channel_name = name, channel_streams = ids\<rparr>)))))"

definition profile_fields :: "pyval \<Rightarrow> admin_exn + (string \<times> pyval) list" where
  "profile_fields v =
     (case v of
        PNone \<Rightarrow> Inr []
      | PInt n \<Rightarrow> if n \<le> 0 then admin_error else Inr [(''stream_profile_id'', PInt n)]
      | _ \<Rightarrow> admin_error)"

definition create_channel ::
  "(pyval \<Rightarrow> string) \<Rightarrow> admin_http \<Rightarrow> admin_client \<Rightarrow> pyval \<Rightarrow> pyval \<Rightarrow> pyval \<Rightarrow> admin_exn + safe_channel" where
  "create_channel render http c name ids profile =
     (if argument_text render name = [] then admin_error
      else rbind (channel_stream_ids ids) (\<lambda>ns.
        rbind (profile_fields profile) (\<lambda>ps.
        rbind (client_token render http c) (\<lambda>t.
        rbind (json_request http ''POST'' ''/api/channels/channels/''
                (Some (PDict ([(''name'', PStr (argument_text render name)), (''streams'', PList (map PInt ns)),
                               (''channel_profile_ids'', PList [PInt 0])] @ ps))) (Some t))
          safe_channel_of))))"

definition channel_path :: "int \<Rightarrow> string" where
  "channel_path n = ''/api/channels/channels/'' @ dec n @ ''/''"

fun channel_not_found :: "admin_exn \<Rightarrow> admin_exn" where
  "channel_not_found (DispatcharrAccountNotFoundError _) = DispatcharrChannelNotFoundError"
| "channel_not_found e = e"

definition update_channel ::
  "(pyval \<Rightarrow> string) \<Rightarrow> admin_http \<Rightarrow> admin_client \<Rightarrow> pyval \<Rightarrow> pyval \<Rightarrow> pyval \<Rightarrow> pyval
   \<Rightarrow> admin_exn + safe_channel" where
  "update_channel render http c cid name ids profile =
     rbind (positive_admin_identifier cid) (\<lambda>n.
     rbind (if name = PNone then Inr []
            else if strip (py_str render name) = [] then admin_error
            else Inr [(''name'', PStr (strip (py_str render name)))]) (\<lambda>a.
     rbind (if ids = PNone then Inr []
            else rbind (channel_stream_ids ids) (\<lambda>ns. Inr [(''streams'', PList (map PInt ns))])) (\<lambda>b.
     rbind (profile_fields profile) (\<lambda>p.
       if a @ b @ p = [] then admin_error
       else
         rbind (client_token render http c) (\<lambda>t.
         rbind (map_exn channel_not_found
                  (json_request http ''PATCH'' (channel_path n) (Some (PDict (a @ b @ p))) (Some t)))
           safe_channel_of)))))"

subsection \<open>Test of a provider connection\<close>

definition player_url :: "url_parts \<Rightarrow> string \<Rightarrow> string \<Rightarrow> string" where
  "player_url u user password =
     url_scheme u @ ''://'' @ url_netloc u @ rstrip_char (CHR ''/'') (url_path u) @ ''/player_api.php?username=''
       @ quote_plus user @ ''&password='' @ quote_plus password"

record connection_test =
  test_ok :: bool
  test_status :: string
  test_expires :: "string option"
  provider_connections :: "int option"
  active_count :: "int option"

definition test_to_mapping :: "connection_test \<Rightarrow> pyval" where
  "test_to_mapping t =
     PDict [(''ok'', PBool (test_ok t)), (''status'', PStr (test_status t)),
       (''expires_at'', optional_json (test_expires t)),
       (''provider_max_connections'', (case provider_connections t of None \<Rightarrow> PNone | Some n \<Rightarrow> PInt n)),
       (''active_connections'', (case active_count t of None \<Rightarrow> PNone | Some n \<Rightarrow> PInt n))]"

text \<open>\<open>raw_value in {None, ""}\<close> hashes the value; a number that does not convert counts as absent.\<close>

definition optional_count :: "pyval \<Rightarrow> admin_exn + int option" where
  "optional_count v =
     (case v of
        PNone \<Rightarrow> Inr None
      | PList _ \<Rightarrow> Inl (AdminBuiltin TypeError)
      | PDict _ \<Rightarrow> Inl (AdminBuiltin TypeError)
      | _ \<Rightarrow> (case py_int v of
           Inr n \<Rightarrow> Inr (Some n)
         | Inl OverflowError \<Rightarrow> Inl (AdminBuiltin OverflowError)
         | Inl _ \<Rightarrow> Inr None))"

definition connection_test_of :: "(pyval \<Rightarrow> string) \<Rightarrow> pyval \<Rightarrow> admin_exn + connection_test" where
  "connection_test_of render info =
     rbind (require_dict info) (\<lambda>d.
     rbind (case map_of d ''user_info'' of None \<Rightarrow> Inr d | Some v \<Rightarrow> require_dict v) (\<lambda>u.
     let status = strip (text_of render u ''status''); expires = dict_value u ''exp_date'' in
     rbind (optional_count (dict_value u ''max_connections'')) (\<lambda>maxc.
     rbind (optional_count (dict_value u ''active_cons'')) (\<lambda>active.
       Inr \<lparr>test_ok = lower status = ''active'', test_status = (if status = [] then ''unknown'' else status),
            test_expires = (if py_truthy expires then Some (strip (py_str render expires)) else None),
            provider_connections = maxc, active_count = active\<rparr>))))"

text \<open>\<open>player\<close> is the exchange with the provider's own interface, by URL.\<close>

definition test_connection ::
  "(pyval \<Rightarrow> string) \<Rightarrow> (string \<Rightarrow> bool) \<Rightarrow> admin_http \<Rightarrow> (string \<Rightarrow> admin_reply) \<Rightarrow> admin_client \<Rightarrow> int
   \<Rightarrow> admin_exn + connection_test" where
  "test_connection render lo http player c n =
     rbind (raw_account render http c n) (\<lambda>raw.
     let kind = strip (text_of render raw ''account_type''); url = strip (text_of render raw ''server_url'');
         user = strip (text_of render raw ''username''); password = text_of render raw ''password'' in
     if lower kind \<noteq> ''xc'' \<or> url = [] \<or> user = [] \<or> password = [] then admin_error
     else rbind (provider_url lo url) (\<lambda>u.
       case player (player_url u user password) of
         Json info \<Rightarrow> connection_test_of render info
       | _ \<Rightarrow> admin_error))"

end
