(* ===== verification/Admin_Safety.thy ===== *)
theory Admin_Safety
  imports Dispatcharr_Admin
begin

text \<open>
  The verification of a playback option against the native metadata: \<open>verify_playback_option\<close> of
  \<open>modules/sports/src/live_sources.py\<close> and \<open>verify_configured_playback_option\<close> of
  \<open>modules/sports/src/dispatcharr_admin.py\<close>, which shares one authenticated client between the calls and
  stops asking after a refusal.
\<close>

subsection \<open>One option\<close>

abbreviation catalog_error :: "admin_exn + 'a" where
  "catalog_error \<equiv> Inl AdminCatalogError"

definition option_account :: "sports_source \<Rightarrow> admin_exn + int" where
  "option_account s =
     (let r = text_or (backend_reference s) [];
          digits = (if starts_with m3u_prefix r then drop (length m3u_prefix) r else r)
      in if digits = [] \<or> \<not> list_all ascii_digit digits then catalog_error
         else if length digits > 4300 then Inl (AdminBuiltin ValueError)
         else if undec_nat digits = 0 then catalog_error
         else Inr (int (undec_nat digits)))"

definition the_source :: "string \<Rightarrow> sports_source list \<Rightarrow> admin_exn + sports_source" where
  "the_source sid sources =
     (case filter (\<lambda>s. source_id s = sid) sources of [s] \<Rightarrow> Inr s | _ \<Rightarrow> catalog_error)"

fun option_accounts :: "sports_source list \<Rightarrow> playback_option list \<Rightarrow> admin_exn + int list" where
  "option_accounts sources [] = Inr []"
| "option_accounts sources (p # ps) =
     rbind (the_source (option_resource p) sources) (\<lambda>s.
     rbind (option_account s) (\<lambda>a.
     rbind (option_accounts sources ps) (\<lambda>as. Inr (a # as))))"

definition stream_path :: "int \<Rightarrow> string" where
  "stream_path n = ''/api/channels/streams/'' @ dec n @ ''/''"

definition channel_matches :: "playback_option \<Rightarrow> safe_channel \<Rightarrow> bool" where
  "channel_matches p ch \<longleftrightarrow>
     channel_id ch = option_channel_id p \<and> channel_uuid ch = option_channel_uuid p
     \<and> channel_streams ch = [option_stream_id p]"

definition stream_matches :: "playback_option \<Rightarrow> int \<Rightarrow> pyval \<Rightarrow> bool" where
  "stream_matches p account v =
     (case v of
        PDict d \<Rightarrow> equals_int (dict_value d ''id'') (option_stream_id p)
          \<and> equals_int (dict_value d ''m3u_account'') account \<and> dict_value d ''is_stale'' = PBool False
      | _ \<Rightarrow> False)"

definition account_matches :: "sports_source \<Rightarrow> int \<Rightarrow> safe_account \<Rightarrow> bool" where
  "account_matches s account acc \<longleftrightarrow>
     account_id acc = account \<and> account_enabled acc \<and> credentials_configured acc
     \<and> 0 < max_connections s \<and> max_connections s \<le> configured_connections acc"

definition catalog_require :: "bool \<Rightarrow> admin_exn + unit" where
  "catalog_require b = require b AdminCatalogError"

definition verify_playback_option ::
  "(pyval \<Rightarrow> string) \<Rightarrow> admin_http \<Rightarrow> admin_client \<Rightarrow> live_source \<Rightarrow> string \<Rightarrow> sports_source list
   \<Rightarrow> admin_exn + pyval" where
  "verify_playback_option render http c source oid sources =
     (case filter (\<lambda>p. option_id p = oid) (live_options source) of
        [p] \<Rightarrow>
          rbind (catalog_require
            (option_url p = rstrip_char (CHR ''/'') (base_url c) @ ''/proxy/ts/stream/'' @ option_channel_uuid p)) (\<lambda>_.
          rbind (option_accounts sources (live_options source)) (\<lambda>accounts.
          rbind (catalog_require (distinct accounts)) (\<lambda>_.
          rbind (the_source (option_resource p) sources) (\<lambda>s.
          rbind (catalog_require (enabled s)) (\<lambda>_.
          rbind (option_account s) (\<lambda>account.
          rbind (client_token render http c) (\<lambda>t.
          rbind (json_request http ''GET'' (channel_path (option_channel_id p)) None (Some t)) (\<lambda>v.
          rbind (safe_channel_of v) (\<lambda>ch.
          rbind (catalog_require (channel_matches p ch)) (\<lambda>_.
          rbind (json_request http ''GET'' (stream_path (option_stream_id p)) None (Some t)) (\<lambda>sv.
          rbind (catalog_require (stream_matches p account sv)) (\<lambda>_.
          rbind (read_account render http c account) (\<lambda>acc.
          rbind (catalog_require (account_matches s account acc)) (\<lambda>_.
            Inr (option_summary (source_channel_id source) p)))))))))))))))
      | _ \<Rightarrow> catalog_error)"

subsection \<open>The shared login\<close>

text \<open>
  The module's globals. Times are readings of the monotonic clock: \<open>now\<close> at the start of a call, \<open>later\<close>
  when it ends. \<open>env\<close> is the URL, the user name and the password of the environment.
\<close>

record shared_login =
  login_identity :: "(string \<times> string \<times> string) option"
  login_client :: "admin_client option"
  login_expires :: rat
  login_blocked :: rat

text \<open>
  \<open>_token_lifetime\<close>: \<open>decode\<close> is the base64 and JSON decoding of a part of the token, \<open>wall\<close> the time of day.
\<close>

definition second_part :: "string \<Rightarrow> string option" where
  "second_part t = (case cut_at (CHR ''.'') t of (_, None) \<Rightarrow> None | (_, Some r) \<Rightarrow> Some (fst (cut_at (CHR ''.'') r)))"

definition clamp_lifetime :: "pyfloat \<Rightarrow> rat" where
  "clamp_lifetime x = (if flt x (Fin 3600) then (case x of Fin q \<Rightarrow> max 0 q | _ \<Rightarrow> 0) else 3600)"

definition token_lifetime ::
  "(string \<Rightarrow> pyval option) \<Rightarrow> rat \<Rightarrow> string \<Rightarrow> pyexn + rat" where
  "token_lifetime decode wall t =
     (case second_part t of
        None \<Rightarrow> Inr 60
      | Some part \<Rightarrow>
          if length part > 8192 then Inr 60
          else (case decode part of
              Some (PDict d) \<Rightarrow>
                (case dict_value d ''exp'' of
                   PInt n \<Rightarrow> rbind (float_of_int n) (\<lambda>x. Inr (clamp_lifetime (fsub (fsub x (Fin wall)) (Fin 30))))
                 | PFloat x \<Rightarrow> Inr (clamp_lifetime (fsub (fsub x (Fin wall)) (Fin 30)))
                 | _ \<Rightarrow> Inr 60)
            | _ \<Rightarrow> Inr 60))"

definition digit_like :: "char \<Rightarrow> bool" where
  "digit_like c \<longleftrightarrow> ascii_digit c \<or> (of_char c :: nat) \<in> {178, 179, 185}"

definition retry_delay :: "string \<Rightarrow> pyexn + rat" where
  "retry_delay retry =
     (if retry \<noteq> [] \<and> list_all digit_like retry
      then (case py_int_of_string retry of
          None \<Rightarrow> Inl ValueError | Some n \<Rightarrow> Inr (of_int (min 300 (max 1 n))))
      else Inr 60)"

fun cause_of :: "admin_exn \<Rightarrow> http_cause" where
  "cause_of (DispatcharrAdminError c) = c"
| "cause_of (DispatcharrAuthError c) = c"
| "cause_of (DispatcharrAccountNotFoundError c) = c"
| "cause_of _ = None"

text \<open>What the handler does with an error raised inside the \<open>try\<close>.\<close>

definition after_error :: "rat \<Rightarrow> admin_exn \<Rightarrow> shared_login \<Rightarrow> (admin_exn + 'a) \<times> shared_login" where
  "after_error later e st =
     (case cause_of e of
        None \<Rightarrow> (Inl e, st)
      | Some (code, retry) \<Rightarrow>
          if code = 401 \<or> code = 403 then
            (Inl e, st\<lparr>login_client := None, login_expires := 0, login_blocked := later + 10\<rparr>)
          else if code = 429 then
            (case retry_delay retry of
               Inl x \<Rightarrow> (Inl (AdminBuiltin x), st)
             | Inr d \<Rightarrow> (Inl e, st\<lparr>login_blocked := later + d\<rparr>))
          else (Inl e, st))"

definition current_login ::
  "string \<times> string \<times> string \<Rightarrow> shared_login \<Rightarrow> shared_login" where
  "current_login env st =
     (if login_identity st = Some env then st
      else \<lparr>login_identity = Some env, login_client = None, login_expires = 0, login_blocked = 0\<rparr>)"

text \<open>The client of a call: the shared one while its token lives, or a new one.\<close>

definition renewed_login :: "shared_login \<Rightarrow> admin_exn + admin_client \<times> shared_login" where
  "renewed_login st =
     (case login_identity st of
        None \<Rightarrow> admin_error
      | Some (url, user, password) \<Rightarrow>
          rbind (new_client url user password) (\<lambda>c. Inr (c, st\<lparr>login_client := Some c, login_expires := 0\<rparr>)))"

definition login_ready :: "rat \<Rightarrow> shared_login \<Rightarrow> admin_exn + admin_client \<times> shared_login" where
  "login_ready now st =
     (case login_client st of
        Some c \<Rightarrow> if now < login_expires st then Inr (c, st) else renewed_login st
      | None \<Rightarrow> renewed_login st)"

text \<open>The login of a client whose token has no known lifetime; \<open>Inl\<close> ends the call.\<close>

definition authenticated ::
  "(pyval \<Rightarrow> string) \<Rightarrow> admin_http \<Rightarrow> (string \<Rightarrow> pyval option) \<Rightarrow> rat \<Rightarrow> rat \<Rightarrow> admin_client \<Rightarrow> shared_login
   \<Rightarrow> (admin_exn + pyval) \<times> shared_login + admin_client \<times> shared_login" where
  "authenticated render http decode wall later c st =
     (if login_expires st \<noteq> 0 then Inr (c, st)
      else (case client_token render http c of
          Inl e \<Rightarrow> Inl (after_error later e st)
        | Inr t \<Rightarrow>
            let c' = c\<lparr>cached_token := Some t\<rparr>; st' = st\<lparr>login_client := Some c'\<rparr> in
            (case token_lifetime decode wall t of
               Inl x \<Rightarrow> Inl (Inl (AdminBuiltin x), st')
             | Inr life \<Rightarrow>
                 if life \<le> 0 then Inl (admin_error, st'\<lparr>login_client := None, login_blocked := later + 10\<rparr>)
                 else Inr (c', st'\<lparr>login_expires := later + life\<rparr>))))"

definition verify_configured_option ::
  "(pyval \<Rightarrow> string) \<Rightarrow> admin_http \<Rightarrow> (string \<Rightarrow> pyval option) \<Rightarrow> string \<times> string \<times> string
   \<Rightarrow> rat \<Rightarrow> rat \<Rightarrow> rat \<Rightarrow> live_source \<Rightarrow> string \<Rightarrow> sports_source list \<Rightarrow> shared_login
   \<Rightarrow> (admin_exn + pyval) \<times> shared_login" where
  "verify_configured_option render http decode env now wall later source oid sources st0 =
     (let st = current_login env st0 in
      if now < login_blocked st then (admin_error, st)
      else (case login_ready now st of
          Inl e \<Rightarrow> (Inl e, st)
        | Inr (c, st1) \<Rightarrow>
            (case authenticated render http decode wall later c st1 of
               Inl stopped \<Rightarrow> stopped
             | Inr (c', st2) \<Rightarrow>
                 (case verify_playback_option render http c' source oid sources of
                    Inl e \<Rightarrow> after_error later e st2
                  | Inr v \<Rightarrow> (Inr v, st2)))))"


text \<open>
  What the Dispatcharr administration promises: paginated lists are read to their end and no further, no
  credential decides what leaves the client beyond being present, a verified option is attested by the
  native metadata, and a refusal silences the shared client for a while.
\<close>

subsection \<open>Pagination\<close>

definition serves_pages :: "admin_http \<Rightarrow> string \<Rightarrow> string \<Rightarrow> nat \<Rightarrow> (string \<times> pyval) list list list \<Rightarrow> bool" where
  "serves_pages http token path first pages \<longleftrightarrow>
     (\<forall>i < length pages. rbind (json_request http ''GET'' (page_path path (first + i)) None (Some token)) page_rows
        = Inr (pages ! i, Suc i < length pages))"

lemma pages_from_step:
  "pages_from http token path (Suc left) page rows =
     rbind (rbind (json_request http ''GET'' (page_path path page) None (Some token)) page_rows) (\<lambda>(ds, more).
       if more then pages_from http token path left (Suc page) (rows @ ds) else Inr (rows @ ds))"
  by (cases "json_request http ''GET'' (page_path path page) None (Some token)") simp_all

lemma pages_from_served:
  "serves_pages http token path page pages \<Longrightarrow> pages \<noteq> [] \<Longrightarrow> length pages \<le> left
   \<Longrightarrow> pages_from http token path left page rows = Inr (rows @ concat pages)"
proof (induction pages arbitrary: left page rows)
  case (Cons ds pages)
  from Cons.prems(3) obtain left' where left: "left = Suc left'" "length pages \<le> left'" by (cases left) auto
  have first: "rbind (json_request http ''GET'' (page_path path page) None (Some token)) page_rows = Inr (ds, pages \<noteq> [])"
    using Cons.prems(1) by (auto simp: serves_pages_def dest: spec[of _ 0])
  have rest: "serves_pages http token path (Suc page) pages"
    using Cons.prems(1) unfolding serves_pages_def by (auto dest: spec[of _ "Suc _"])
  show ?case
  proof (cases "pages = []")
    case True
    then show ?thesis unfolding left(1) pages_from_step first by simp
  next
    case False
    then show ?thesis
      unfolding left(1) pages_from_step first using Cons.IH[OF rest False left(2)] by simp
  qed
qed simp

lemma pages_from_endless:
  "(\<And>p. p \<ge> page \<Longrightarrow> \<exists>ds. rbind (json_request http ''GET'' (page_path path p) None (Some token)) page_rows = Inr (ds, True))
   \<Longrightarrow> pages_from http token path left page rows = admin_error"
proof (induction left arbitrary: page rows)
  case (Suc left)
  from Suc.prems[of page] obtain ds where
      "rbind (json_request http ''GET'' (page_path path page) None (Some token)) page_rows = Inr (ds, True)" by auto
  moreover have "pages_from http token path left (Suc page) (rows @ ds) = admin_error"
    using Suc.prems by (intro Suc.IH) auto
  ultimately show ?case unfolding pages_from_step by simp
qed simp

text \<open>
  C9. A paginated list is read to its end: when the server has at most 10000 pages, the rows of all of them
  come back in order; and a server that always announces another page is given up with an error.
\<close>

theorem pagination_ends:
  assumes "serves_pages http token path 1 pages" and "pages \<noteq> []" and "length pages \<le> 10000"
    and "\<And>p. \<exists>ds. rbind (json_request endless ''GET'' (page_path path p) None (Some token)) page_rows = Inr (ds, True)"
  shows "paginated_get http token path = Inr (concat pages) \<and> paginated_get endless token path = admin_error"
proof -
  have "length pages \<le> MAX_PAGES" using assms(3) by (simp add: MAX_PAGES_def)
  with pages_from_served[OF assms(1,2) this, of "[]"] pages_from_endless[where page = 1 and left = MAX_PAGES and rows = "[]", OF assms(4)]
  show ?thesis unfolding paginated_get_def by simp
qed

subsection \<open>Credentials\<close>

definition account_fields :: "string list" where
  "account_fields = [''id'', ''name'', ''account_type'', ''max_streams'', ''is_active'']"

definition has_credentials :: "(pyval \<Rightarrow> string) \<Rightarrow> (string \<times> pyval) list \<Rightarrow> bool" where
  "has_credentials render raw \<longleftrightarrow>
     strip (text_of render raw ''username'') \<noteq> [] \<and> text_of render raw ''password'' \<noteq> []"

text \<open>
  No credential leaves the client: what it makes of an account of Dispatcharr is the same for any two
  responses that agree on the five public fields and on whether credentials are present, whatever the
  user name, password, server URL and every other field are.
\<close>

theorem credentials_stay_inside:
  assumes "list_all (\<lambda>k. map_of raw k = map_of raw' k) account_fields"
    and "has_credentials render raw = has_credentials render raw'"
  shows "safe_account_of render raw = safe_account_of render raw'"
proof -
  have "dict_default raw k d = dict_default raw' k d" if "k \<in> set account_fields" for k d
    using assms(1) that by (simp add: list_all_iff dict_default_def)
  then have f: "dict_default raw ''name'' d = dict_default raw' ''name'' d"
      "dict_default raw ''account_type'' d = dict_default raw' ''account_type'' d"
      "dict_default raw ''max_streams'' d = dict_default raw' ''max_streams'' d"
      "dict_default raw ''is_active'' d = dict_default raw' ''is_active'' d" for d
    by (simp_all add: account_fields_def)
  have i: "map_of raw ''id'' = map_of raw' ''id''" using assms(1) by (simp add: account_fields_def)
  have t: "text_of render raw k = text_of render raw' k" if "k \<in> {''name'', ''account_type''}" for k
    using that f by (auto simp: text_of_def)
  show ?thesis
    unfolding safe_account_of_def has_credentials_def[symmetric] assms(2) i f by (simp add: t)
qed

text \<open>
  A missing password may count as configured: a response in which the user name and the password are
  JSON null gives an account whose credentials are reported as configured, since the text of \<open>None\<close> is not
  empty.
\<close>

theorem null_credentials_count:
  assumes "map_of raw ''id'' = Some (PInt n)" and "map_of raw ''name'' = Some (PStr ''Provider'')"
    and "map_of raw ''account_type'' = Some (PStr ''XC'')" and "map_of raw ''max_streams'' = Some (PInt m)"
    and "map_of raw ''username'' = Some PNone" and "map_of raw ''password'' = Some PNone"
  shows "\<exists>a. safe_account_of render raw = Inr a \<and> credentials_configured a"
proof -
  have "strip ''Provider'' \<noteq> []" "strip ''XC'' \<noteq> []" "strip ''None'' \<noteq> []" by code_simp+
  with assms show ?thesis
    by (simp add: safe_account_of_def text_of_def dict_default_def admin_int_def Let_def)
qed

subsection \<open>Verified options\<close>

lemma the_source_Inr: "the_source sid sources = Inr s \<longleftrightarrow> filter (\<lambda>s. source_id s = sid) sources = [s]"
  by (auto simp: the_source_def split: list.splits)

lemma catalog_require_Inr [simp]: "catalog_require b = Inr u \<longleftrightarrow> b"
  by (simp add: catalog_require_def)

lemma option_accounts_length: "option_accounts sources ps = Inr as \<Longrightarrow> length as = length ps"
  by (induction ps arbitrary: as) (auto simp: rbind_Inr_iff)


subsection \<open>Backing off\<close>

lemma blocked_call:
  "login_identity st = Some env \<Longrightarrow> now < login_blocked st
   \<Longrightarrow> verify_configured_option render http decode env now wall later source oid sources st = (admin_error, st)"
  by (simp add: verify_configured_option_def current_login_def)

lemma login_ready_identity:
  "login_ready now st = Inr (c, st') \<Longrightarrow> login_identity st' = login_identity st"
  by (auto simp: login_ready_def renewed_login_def rbind_Inr_iff split: option.splits if_splits)

lemma authenticated_identity:
  "authenticated render http decode wall later c st = Inr (c', st') \<Longrightarrow> login_identity st' = login_identity st"
  by (auto simp: authenticated_def Let_def split: sum.splits if_splits)

lemma after_error_identity: "login_identity (snd (after_error later e st)) = login_identity st"
  by (auto simp: after_error_def split: option.splits sum.splits prod.splits)

lemma after_error_refused:
  assumes "after_error later e st = (Inl e', st')" and "cause_of e' = Some (code, retry)" and "code \<in> {401, 403}"
  shows "login_blocked st' = later + 10 \<and> login_client st' = None"
  using assms by (auto simp: after_error_def split: option.splits sum.splits prod.splits if_splits)

text \<open>
  A refused login is not hammered: after a call that ended in a 401 or 403 of Dispatcharr, every call with
  the same configuration in the next ten seconds fails at once, without asking Dispatcharr and without
  changing the state, whatever it would answer.
\<close>

theorem refusal_backs_off:
  assumes "verify_configured_option render http decode env now wall later source oid sources st = (Inl e, st')"
    and "cause_of e = Some (code, retry)" and "code \<in> {401, 403}" and "now' < later + 10"
  shows "verify_configured_option render' http' decode' env now' wall' later' source' oid' sources' st' = (admin_error, st')"
proof -
  let ?st = "current_login env st"
  have free: "\<not> now < login_blocked ?st" using assms(1,2) by (auto simp: verify_configured_option_def Let_def)
  have cur: "login_identity ?st = Some env" by (simp add: current_login_def)
  have ready: "\<exists>c st1. login_ready now ?st = Inr (c, st1)"
    using assms(1,2) free
    by (cases "login_ready now ?st") (auto simp: verify_configured_option_def Let_def login_ready_def renewed_login_def
        new_client_def split: option.splits if_splits)
  then obtain c st1 where r: "login_ready now ?st = Inr (c, st1)" by blast
  have id1: "login_identity st1 = Some env" using login_ready_identity[OF r] cur by simp
  have "login_blocked st' = later + 10 \<and> login_identity st' = Some env"
  proof (cases "authenticated render http decode wall later c st1")
    case (Inl stopped)
    with assms(1) free r have "stopped = (Inl e, st')" by (simp add: verify_configured_option_def Let_def)
    with Inl obtain e0 where "(after_error later e0 st1 :: (admin_exn + pyval) \<times> shared_login) = (Inl e, st')"
      using assms(2) by (auto simp: authenticated_def Let_def split: sum.splits if_splits)
    with after_error_refused[OF _ assms(2,3)] after_error_identity[of later e0 st1] id1 show ?thesis by (metis snd_conv)
  next
    case (Inr x)
    then obtain c' st2 where a: "authenticated render http decode wall later c st1 = Inr (c', st2)" by (cases x) auto
    with assms(1) free r obtain e0 where "(after_error later e0 st2 :: (admin_exn + pyval) \<times> shared_login) = (Inl e, st')"
      by (auto simp: verify_configured_option_def Let_def split: sum.splits)
    with after_error_refused[OF _ assms(2,3)] after_error_identity[of later e0 st2] authenticated_identity[OF a] id1
    show ?thesis by (metis snd_conv)
  qed
  with assms(4) show ?thesis by (intro blocked_call) auto
qed

end
