(* ===== verification/Shared_Admission.thy ===== *)
theory Shared_Admission
  imports Resource_Pool Live_Tv Admin_Safety
begin

text \<open>
  The shared admission canary: its configuration (\<open>src/atlas/sports_shared_admission_config.py\<close>), the check
  of the portal before it acquires a resource (\<open>src/atlas/sports_shared_admission.py\<close>) and the check of the
  Sports service against its registries (\<open>src/modules/sports/src/shared_admission.py\<close>). \<open>digest\<close> is SHA-256
  in hexadecimal.
\<close>

subsection \<open>Configuration\<close>

datatype shared_exn = SharedAdmissionConfigError

record shared_route =
  route_target :: string
  route_source :: string
  route_item :: string
  route_channel_id :: int
  route_channel_uuid :: string
  route_stream_id :: int
  route_account_id :: int
  route_capacity :: int
  route_viewers :: "string list"
  route_generation :: string

abbreviation config_error :: "shared_exn + 'a" where
  "config_error \<equiv> Inl SharedAdmissionConfigError"

definition route_fields :: "string list" where
  "route_fields = [''target_id'', ''resource_source_id'', ''jellyfin_item_id'', ''dispatcharr_channel_id'',
     ''dispatcharr_channel_uuid'', ''dispatcharr_stream_id'', ''dispatcharr_account_id'', ''capacity'',
     ''viewer_user_ids'', ''generation'']"

definition ident_char :: "char \<Rightarrow> bool" where
  "ident_char c \<longleftrightarrow> ascii_alnum c \<or> c = CHR ''_'' \<or> c = CHR ''-''"

definition ident_text :: "string \<Rightarrow> bool" where
  "ident_text s \<longleftrightarrow> s \<noteq> [] \<and> length s \<le> 128 \<and> list_all ident_char s"

fun text_field :: "(string \<Rightarrow> bool) \<Rightarrow> pyval \<Rightarrow> shared_exn + string" where
  "text_field ok (PStr s) = (if ok s then Inr s else config_error)"
| "text_field ok _ = config_error"

definition native_field :: "pyval \<Rightarrow> shared_exn + int" where
  "native_field v = (if int_at_least 1 v then Inr (int_value v) else config_error)"

text \<open>Two distinct viewers; \<open>set(viewers)\<close> of anything that cannot be hashed raises.\<close>

definition viewers_field :: "pyval \<Rightarrow> shared_exn + string list" where
  "viewers_field v =
     (case v of
        PList [PStr a, PStr b] \<Rightarrow> if a \<noteq> b \<and> ident_text a \<and> ident_text b then Inr [a, b] else config_error
      | _ \<Rightarrow> config_error)"

definition read_route :: "pyval \<Rightarrow> shared_exn + shared_route" where
  "read_route v =
     (case v of
        PDict e \<Rightarrow>
          if set (map fst e) \<noteq> set route_fields then config_error
          else
            rbind (text_field ident_text (dict_value e ''target_id'')) (\<lambda>target.
            rbind (text_field ident_text (dict_value e ''resource_source_id'')) (\<lambda>source.
            rbind (text_field ident_text (dict_value e ''generation'')) (\<lambda>generation.
            rbind (text_field (hex_string 32) (dict_value e ''jellyfin_item_id'')) (\<lambda>item.
            rbind (text_field canonical_uuid (dict_value e ''dispatcharr_channel_uuid'')) (\<lambda>uuid.
            rbind (native_field (dict_value e ''dispatcharr_channel_id'')) (\<lambda>channel.
            rbind (native_field (dict_value e ''dispatcharr_stream_id'')) (\<lambda>stream.
            rbind (native_field (dict_value e ''dispatcharr_account_id'')) (\<lambda>account.
            rbind (native_field (dict_value e ''capacity'')) (\<lambda>capacity.
            if capacity \<noteq> 1 then config_error
            else rbind (viewers_field (dict_value e ''viewer_user_ids'')) (\<lambda>viewers.
              Inr \<lparr>route_target = target, route_source = source, route_item = item, route_channel_id = channel,
                   route_channel_uuid = uuid, route_stream_id = stream, route_account_id = account,
                   route_capacity = capacity, route_viewers = viewers,
                   route_generation = generation\<rparr>))))))))))
      | _ \<Rightarrow> config_error)"

text \<open>What \<open>fstat\<close> says of the opened file: a regular file, its size and its mode.\<close>

record file_meta =
  is_regular :: bool
  file_size :: int
  file_mode :: nat

definition others_may_write :: "nat \<Rightarrow> bool" where
  "others_may_write mode \<longleftrightarrow> odd (mode div 2) \<or> odd (mode div 16)"

definition config_of_document :: "pyval \<Rightarrow> shared_exn + shared_route list" where
  "config_of_document v =
     (case v of
        PDict d \<Rightarrow>
          if set (map fst d) \<noteq> {''version'', ''enabled'', ''mode'', ''routes''}
             \<or> dict_value d ''version'' \<noteq> PInt 1 \<or> dict_value d ''mode'' \<noteq> PStr ''canary''
          then config_error
          else (case (dict_value d ''enabled'', dict_value d ''routes'') of
              (PBool on, PList []) \<Rightarrow> if on then config_error else Inr []
            | (PBool on, PList [row]) \<Rightarrow> rbind (read_route row) (\<lambda>r. Inr (if on then [r] else []))
            | _ \<Rightarrow> config_error)
      | _ \<Rightarrow> config_error)"

text \<open>A missing file is the empty configuration; every other trouble, duplicate keys included, is the error.\<close>

fun load_shared_admission :: "file_meta \<Rightarrow> state_file \<Rightarrow> shared_exn + shared_route list" where
  "load_shared_admission meta Absent = Inr []"
| "load_shared_admission meta Unreadable = config_error"
| "load_shared_admission meta (Document v) =
     (if \<not> is_regular meta \<or> file_size meta > 16384 \<or> others_may_write (file_mode meta) then config_error
      else config_of_document v)"

definition for_target :: "string \<Rightarrow> shared_route list \<Rightarrow> shared_route option" where
  "for_target target routes = find (\<lambda>r. route_target r = target) routes"

subsection \<open>Fingerprint\<close>

text \<open>
  \<open>json.dumps(mapping, sort_keys=True, separators=(",", ":"))\<close> of a route. The texts of a loaded route need
  no escape.
\<close>

definition json_text :: "string \<Rightarrow> string" where
  "json_text s = CHR 0x22 # s @ [CHR 0x22]"

fun comma_join :: "string list \<Rightarrow> string" where
  "comma_join [] = []"
| "comma_join [x] = x"
| "comma_join (x # xs) = x @ '','' @ comma_join xs"

definition json_texts :: "string list \<Rightarrow> string" where
  "json_texts vs = ''['' @ comma_join (map json_text vs) @ '']''"

definition json_members :: "(string \<times> string) list \<Rightarrow> string" where
  "json_members ms = ''{'' @ comma_join (map (\<lambda>(k, v). json_text k @ '':'' @ v) ms) @ ''}''"

definition route_json :: "shared_route \<Rightarrow> string" where
  "route_json r =
     json_members
       [(''capacity'', dec (route_capacity r)), (''dispatcharr_account_id'', dec (route_account_id r)),
        (''dispatcharr_channel_id'', dec (route_channel_id r)),
        (''dispatcharr_channel_uuid'', json_text (route_channel_uuid r)),
        (''dispatcharr_stream_id'', dec (route_stream_id r)), (''generation'', json_text (route_generation r)),
        (''jellyfin_item_id'', json_text (route_item r)),
        (''resource_source_id'', json_text (route_source r)), (''target_id'', json_text (route_target r)),
        (''viewer_user_ids'', json_texts (route_viewers r))]"

definition fingerprint :: "(string \<Rightarrow> string) \<Rightarrow> shared_route \<Rightarrow> string" where
  "fingerprint digest r = digest (route_json r)"

definition route_bindings :: "(string \<Rightarrow> string) \<Rightarrow> shared_route list \<Rightarrow> (pyval \<times> pyval) list" where
  "route_bindings digest routes =
     map (\<lambda>r. (PTuple [PStr (route_target r), PStr (route_source r)], PStr (fingerprint digest r))) routes"

subsection \<open>The check of the portal\<close>

text \<open>
  What the resource pool carries: a loader with what it loads, a fixed configuration or neither.
  \<open>attested\<close> is the remote verification of target and fingerprint.
\<close>

datatype admission_setting = Loader "shared_exn + shared_route list" | Fixed "shared_route list" | Unset

datatype 'e admission_exn = AdmissionPool pool_exn | AdmissionService 'e

definition admission_pool ::
  "(string \<Rightarrow> string) \<Rightarrow> admission_setting \<Rightarrow> pool \<Rightarrow> 'e admission_exn + pool \<times> shared_route list option" where
  "admission_pool digest setting P =
     (case setting of
        Unset \<Rightarrow> Inr (P, None)
      | Fixed routes \<Rightarrow> Inr (P, Some routes)
      | Loader (Inl _) \<Rightarrow> Inl (AdmissionPool PoolStateError)
      | Loader (Inr routes) \<Rightarrow>
          if routes = [] then Inr (P, Some [])
          else rbind (map_exn (\<lambda>x. AdmissionPool (PoolBuiltin x))
                 (new_pool (PInt (ttl_seconds P)) (route_bindings digest routes))) (\<lambda>P'. Inr (P', Some routes)))"

definition canary_eligible ::
  "(string \<Rightarrow> string) \<Rightarrow> pool \<Rightarrow> shared_route \<Rightarrow> string \<Rightarrow> string \<Rightarrow> string \<Rightarrow> string list \<Rightarrow> (string \<times> int) list
   \<Rightarrow> bool \<Rightarrow> bool" where
  "canary_eligible digest P r target user item candidates capacities options \<longleftrightarrow>
     user \<in> set (route_viewers r) \<and> \<not> options \<and> item = route_item r \<and> route_source r \<in> set candidates
     \<and> map_of capacities (route_source r) = Some (route_capacity r)
     \<and> binding P target (route_source r) = Some (fingerprint digest r)"

definition verify_api_shared_admission ::
  "(string \<Rightarrow> string) \<Rightarrow> (string \<Rightarrow> string \<Rightarrow> 'e + unit) \<Rightarrow> admission_setting \<Rightarrow> pool \<Rightarrow> string \<Rightarrow> string \<Rightarrow> string
   \<Rightarrow> string list \<Rightarrow> (string \<times> int) list \<Rightarrow> bool \<Rightarrow> 'e admission_exn + pool \<times> string list" where
  "verify_api_shared_admission digest attested setting P target user item candidates capacities options =
     rbind (admission_pool digest setting P) (\<lambda>(P', config).
       case config of
         None \<Rightarrow>
           if sharing_bindings P' \<noteq> [] then Inl (AdmissionPool PoolStateError) else Inr (P', candidates)
       | Some routes \<Rightarrow>
           (case for_target target routes of
              None \<Rightarrow> Inr (P', candidates)
            | Some r \<Rightarrow>
                if \<not> canary_eligible digest P' r target user item candidates capacities options
                then Inl (AdmissionPool PoolStateError)
                else rbind (map_exn AdmissionService (attested target (fingerprint digest r))) (\<lambda>_.
                  Inr (P', [route_source r]))))"

subsection \<open>The check of the Sports service\<close>

datatype route_exn =
    RouteCatalogError | RouteConfig shared_exn | RouteLive live_exn | RouteBinding binding_exn
  | RouteTv tv_exn | RouteAdmin admin_exn

definition primary_option :: "shared_route \<Rightarrow> live_source \<Rightarrow> playback_option" where
  "primary_option r source =
     \<lparr>option_id = ''primary'', option_resource = route_source r, option_url = live_url source,
      option_channel_id = route_channel_id r, option_channel_uuid = route_channel_uuid r,
      option_stream_id = route_stream_id r\<rparr>"

text \<open>\<open>verify\<close> is \<open>verify_configured_playback_option\<close> on the source, the option id and the accounts.\<close>

definition verify_shared_live_route ::
  "(string \<Rightarrow> string) \<Rightarrow> (live_source \<Rightarrow> string \<Rightarrow> sports_source list \<Rightarrow> admin_exn + pyval)
   \<Rightarrow> shared_exn + shared_route list \<Rightarrow> live_exn + live_source list \<Rightarrow> state_file \<Rightarrow> state_file
   \<Rightarrow> string \<Rightarrow> sports_source list \<Rightarrow> route_exn + pyval" where
  "verify_shared_live_route digest verify config lives bindings_file tv_file target sources =
     rbind (map_exn RouteConfig config) (\<lambda>routes.
     case for_target target routes of
       None \<Rightarrow> Inl RouteCatalogError
     | Some r \<Rightarrow>
         rbind (map_exn RouteLive lives) (\<lambda>ls.
         case filter (\<lambda>s. source_channel_id s = target) ls of
           [source] \<Rightarrow>
             if live_options source \<noteq> [] \<or> live_resources source \<noteq> [route_source r] then Inl RouteCatalogError
             else
               rbind (map_exn RouteBinding (resolve_binding (PStr target) bindings_file)) (\<lambda>b.
               if (case b of None \<Rightarrow> True | Some cb \<Rightarrow>
                    dispatcharr_channel_id cb \<noteq> route_channel_id r
                    \<or> dispatcharr_channel_uuid cb \<noteq> route_channel_uuid r)
               then Inl RouteCatalogError
               else
                 rbind (map_exn RouteTv (resolve_tv (PStr target) tv_file)) (\<lambda>item.
                 if item \<noteq> Some (route_item r) then Inl RouteCatalogError
                 else (case filter (\<lambda>s. sports_source.source_id s = route_source r) sources of
                     [s] \<Rightarrow>
                       if backend_reference s \<noteq> Some (m3u_prefix @ dec (route_account_id r))
                          \<or> max_connections s \<noteq> route_capacity r
                       then Inl RouteCatalogError
                       else
                         rbind (map_exn RouteAdmin
                           (verify (source\<lparr>live_options := [primary_option r source]\<rparr>) ''primary'' sources)) (\<lambda>_.
                           Inr (PDict [(''target_id'', PStr target), (''fingerprint'', PStr (fingerprint digest r))]))
                   | _ \<Rightarrow> Inl RouteCatalogError)))
         | _ \<Rightarrow> Inl RouteCatalogError))"

end
