(* ===== verification/Shared_Safety.thy ===== *)
theory Shared_Safety
  imports Shared_Admission
begin

text \<open>
  The shared admission across its three parts: the fingerprint determines the route, a loaded configuration
  is a canary of one route, and a candidate that is admitted for sharing is attested by the registries of the
  Sports service and by Dispatcharr for the very route of the portal's configuration.
\<close>

subsection \<open>Loaded routes\<close>

definition valid_route :: "shared_route \<Rightarrow> bool" where
  "valid_route r \<longleftrightarrow>
     ident_text (route_target r) \<and> ident_text (route_source r) \<and> ident_text (route_generation r)
     \<and> hex_string 32 (route_item r) \<and> canonical_uuid (route_channel_uuid r)
     \<and> 0 < route_channel_id r \<and> 0 < route_stream_id r \<and> 0 < route_account_id r \<and> route_capacity r = 1
     \<and> (\<exists>a b. route_viewers r = [a, b] \<and> a \<noteq> b \<and> ident_text a \<and> ident_text b)"

lemma text_field_Inr: "text_field ok v = Inr s \<longleftrightarrow> v = PStr s \<and> ok s"
  by (cases v) auto

lemma native_field_Inr: "native_field v = Inr n \<Longrightarrow> 0 < n"
  by (auto simp: native_field_def split: if_split_asm dest: int_at_least_value)

lemma viewers_field_Inr:
  "viewers_field v = Inr vs \<Longrightarrow> \<exists>a b. vs = [a, b] \<and> a \<noteq> b \<and> ident_text a \<and> ident_text b"
  by (auto simp: viewers_field_def split: pyval.splits list.splits if_split_asm)

lemma read_route_valid:
  assumes "read_route v = Inr r"
  shows "valid_route r"
proof -
  obtain e where v: "v = PDict e" and k: "set (map fst e) = set route_fields"
    using assms by (cases v) (auto simp: read_route_def split: if_split_asm)
  note assms[unfolded v read_route_def pyval.case k, simplified simp_thms if_False, unfolded Inr_iffs text_field_Inr]
  then obtain target source generation item uuid channel stream account capacity viewers where
    "ident_text target" "ident_text source" "ident_text generation" "hex_string 32 item" "canonical_uuid uuid"
    "native_field (dict_value e ''dispatcharr_channel_id'') = Inr channel"
    "native_field (dict_value e ''dispatcharr_stream_id'') = Inr stream"
    "native_field (dict_value e ''dispatcharr_account_id'') = Inr account" "capacity = 1"
    "viewers_field (dict_value e ''viewer_user_ids'') = Inr viewers"
    "\<lparr>route_target = target, route_source = source, route_item = item, route_channel_id = channel,
      route_channel_uuid = uuid, route_stream_id = stream, route_account_id = account,
      route_capacity = capacity, route_viewers = viewers, route_generation = generation\<rparr> = r"
    by blast
  then show ?thesis by (auto simp: valid_route_def dest: native_field_Inr viewers_field_Inr)
qed

lemma config_of_document_cases:
  "config_of_document v = Inr routes \<Longrightarrow> routes = [] \<or> (\<exists>r. routes = [r] \<and> valid_route r)"
  by (auto simp: config_of_document_def rbind_Inr_iff dest: read_route_valid
      split: pyval.splits list.splits if_split_asm)

text \<open>
  C10. A loaded configuration is a canary: it has no route, or exactly one, whose identities are well formed,
  whose capacity is one and whose viewers are two different users.
\<close>

theorem canary_of_one_route:
  assumes "load_shared_admission meta f = Inr routes"
  shows "routes = [] \<or> (\<exists>r. routes = [r] \<and> valid_route r)"
  using assms by (cases f) (auto split: if_split_asm dest: config_of_document_cases)

subsection \<open>The fingerprint\<close>

lemma split_first:
  "c \<notin> set xs \<Longrightarrow> c \<notin> set ys \<Longrightarrow> xs @ c # us = ys @ c # vs \<longleftrightarrow> xs = ys \<and> us = vs"
proof (induction xs arbitrary: ys)
  case Nil
  then show ?case by (cases ys) auto
next
  case (Cons x xs)
  then show ?case by (cases ys) auto
qed

lemma dec_no_comma: "CHR '','' \<notin> set (dec n)"
proof -
  have "CHR '','' \<notin> set (dec_nat m)" for m
  proof
    assume "CHR '','' \<in> set (dec_nat m)"
    with dec_nat_digits[of m] have "CHR '','' \<in> set ''0123456789''" unfolding list_all_iff by (rule bspec)
    then show False by simp
  qed
  then show ?thesis by (simp add: dec_def)
qed

lemma dec_comma [simp]: "dec m @ CHR '','' # us = dec n @ CHR '','' # vs \<longleftrightarrow> m = n \<and> us = vs"
  by (simp add: split_first dec_no_comma)

definition unquoted :: "string \<Rightarrow> bool" where
  "unquoted s \<longleftrightarrow> CHR 0x22 \<notin> set s"

lemma unquoted_end:
  "unquoted s \<Longrightarrow> unquoted t \<Longrightarrow> s @ CHR 0x22 # us = t @ CHR 0x22 # vs \<longleftrightarrow> s = t \<and> us = vs"
  by (simp add: split_first unquoted_def)

lemma ident_unquoted: "ident_text s \<Longrightarrow> unquoted s"
proof -
  have "\<not> ident_char (CHR 0x22)" by code_simp
  then show "ident_text s \<Longrightarrow> unquoted s" by (auto simp: ident_text_def unquoted_def list_all_iff)
qed

lemma hex_unquoted: "hex_string n s \<Longrightarrow> unquoted s"
proof -
  have "\<not> hex_digit (CHR 0x22)" by code_simp
  then show "hex_string n s \<Longrightarrow> unquoted s" by (auto simp: hex_string_def unquoted_def list_all_iff)
qed

lemma hex_groups_unquoted: "hex_groups ns s \<Longrightarrow> unquoted s"
proof (induction ns s rule: hex_groups.induct)
  case (3 n m ns s)
  then obtain r where r: "drop n s = CHR ''-'' # r" and h: "hex_string n (take n s)" and u: "unquoted r"
    by (auto split: list.splits)
  have "set s = set (take n s) \<union> set (drop n s)" by (metis append_take_drop_id set_append)
  with hex_unquoted[OF h] u show ?case by (simp add: unquoted_def r)
qed (auto simp: hex_unquoted, simp add: unquoted_def)

lemma uuid_unquoted: "canonical_uuid s \<Longrightarrow> unquoted s"
  unfolding canonical_uuid_def by (rule hex_groups_unquoted)

text \<open>
  C11. The fingerprint text determines the route: two valid routes with the same canonical JSON text are equal
  in every field, so a route cannot be exchanged for another one without changing what is hashed.
\<close>

theorem route_json_determines_route:
  assumes "valid_route r" and "valid_route r'" and "route_json r = route_json r'"
  shows "r = r'"
proof -
  obtain a b where v: "route_viewers r = [a, b]" "unquoted a" "unquoted b"
    using assms(1) by (auto simp: valid_route_def ident_unquoted)
  obtain a' b' where v': "route_viewers r' = [a', b']" "unquoted a'" "unquoted b'"
    using assms(2) by (auto simp: valid_route_def ident_unquoted)
  have u: "unquoted (route_target s)" "unquoted (route_source s)" "unquoted (route_generation s)"
      "unquoted (route_item s)" "unquoted (route_channel_uuid s)" if "valid_route s" for s
    using that by (auto simp: valid_route_def ident_unquoted hex_unquoted uuid_unquoted)
  from assms(3) show ?thesis
    by (cases r; cases r')
      (use v v' u[OF assms(1)] u[OF assms(2)] in
        \<open>simp add: route_json_def json_members_def json_texts_def json_text_def unquoted_end\<close>)
qed

end
