(* ===== verification/Service_Witness.thy ===== *)
theory Service_Witness
  imports Live_Tv Admin_Safety Shared_Safety Lifecycle_Safety
begin

text \<open>
  Concrete runs of the Live TV bindings, of the Dispatcharr administration and of the shared admission at
  which the hypotheses of their theorems hold.
\<close>

subsection \<open>Live TV bindings\<close>


theorem set_many_all_or_nothing_witness:
  "\<exists>new bs'. normalized_tv [(PStr ''final'', PStr ''i1''), (PStr ''cup'', PStr ''i2'')] [] = Inr new
     \<and> load_tv (snd (set_many_tv [(PStr ''final'', PStr ''i1''), (PStr ''cup'', PStr ''i2'')] Absent)) = Inr bs'
     \<and> map_of bs' = map_of new"
proof -
  let ?b = "[(PStr ''final'', PStr ''i1''), (PStr ''cup'', PStr ''i2'')]"
  have l: "load_tv Absent = Inr []" by simp
  have r: "fst (set_many_tv ?b Absent) = Inr [(''cup'', ''i2''), (''final'', ''i1'')]" by code_simp
  have s: "set_many_tv ?b Absent = (fst (set_many_tv ?b Absent), snd (set_many_tv ?b Absent))" by simp
  obtain new bs' where "normalized_tv ?b [] = Inr new" "load_tv (snd (set_many_tv ?b Absent)) = Inr bs'"
      "map_of bs' = map_of [] ++ map_of new"
    using set_many_all_or_nothing[OF l s] unfolding r by blast
  then show ?thesis by (intro exI[of _ new] exI[of _ bs'] conjI) simp_all
qed

subsection \<open>Administration\<close>

definition one_page :: admin_http where
  "one_page _ = Json (PDict [(''results'', PList [PDict []]), (''next'', PNone)])"

definition endless_pages :: admin_http where
  "endless_pages _ = Json (PDict [(''results'', PList []), (''next'', PStr ''more'')])"

theorem pagination_ends_witness:
  "paginated_get one_page ''token'' ''/api/m3u/streams/'' = Inr [[]]
   \<and> paginated_get endless_pages ''token'' ''/api/m3u/streams/'' = admin_error"
proof -
  have "serves_pages one_page ''token'' ''/api/m3u/streams/'' 1 [[[]]]"
    by (simp add: serves_pages_def json_request_def one_page_def page_rows_def dict_default_def require_dict_def)
  moreover have "\<exists>ds. rbind (json_request endless_pages ''GET'' (page_path ''/api/m3u/streams/'' p) None (Some ''token'')) page_rows
      = Inr (ds, True)" for p
    by (simp add: json_request_def endless_pages_def page_rows_def dict_default_def)
  ultimately show ?thesis using pagination_ends[of one_page _ _ "[[[]]]" endless_pages] by simp
qed

definition raw_demo_account :: "string \<Rightarrow> pyval \<Rightarrow> (string \<times> pyval) list" where
  "raw_demo_account user secret = [(''id'', PInt 7), (''name'', PStr ''Provider''), (''account_type'', PStr ''XC''),
     (''max_streams'', PInt 2), (''is_active'', PBool True), (''username'', PStr user), (''password'', secret)]"

theorem credentials_stay_inside_witness:
  "safe_account_of (\<lambda>_. []) (raw_demo_account ''ann'' (PStr ''secret''))
   = safe_account_of (\<lambda>_. []) (raw_demo_account ''bob'' (PStr ''other''))"
  by (rule credentials_stay_inside) code_simp+

theorem null_credentials_count_witness:
  "\<exists>a. safe_account_of (\<lambda>_. []) ((''username'', PNone) # raw_demo_account ''ann'' PNone) = Inr a
     \<and> credentials_configured a"
  by (rule null_credentials_count[where n = 7 and m = 2]) (simp_all add: raw_demo_account_def)

definition demo_option :: playback_option where
  "demo_option = \<lparr>option_id = ''primary'', option_resource = ''b'',
     option_url = ''http://d/proxy/ts/stream/123e4567-e89b-12d3-a456-426614174000'',
     option_channel_id = 3, option_channel_uuid = ''123e4567-e89b-12d3-a456-426614174000'', option_stream_id = 9\<rparr>"

definition demo_option_source :: live_source where
  "demo_option_source = \<lparr>live_id = ''ls1'', live_name = ''Match'', live_url = option_url demo_option,
     live_provider = None, live_event = None, live_standalone = True, live_resources = [''b''],
     live_options = [demo_option]\<rparr>"

definition demo_option_account :: sports_source where
  "demo_option_account = demo_account ''b'' 1 True"

definition demo_dispatcharr :: admin_http where
  "demo_dispatcharr q =
     (if req_path q = ''/api/accounts/auth/login/'' then Json (PDict [(''access'', PStr ''t1'')])
      else if req_path q = channel_path 3 then
        Json (PDict [(''id'', PInt 3), (''uuid'', PStr ''123e4567-e89b-12d3-a456-426614174000''),
          (''name'', PStr ''Match''), (''streams'', PList [PInt 9])])
      else if req_path q = stream_path 9 then
        Json (PDict [(''id'', PInt 9), (''m3u_account'', PInt 7), (''is_stale'', PBool False)])
      else if req_path q = account_path 7 then Json (PDict (raw_demo_account ''ann'' (PStr ''secret'')))
      else NotJson)"

definition demo_admin_client :: admin_client where
  "demo_admin_client = \<lparr>base_url = ''http://d'', admin_login = (''admin'', ''pw''), cached_token = None\<rparr>"

lemma demo_option_verified:
  "verify_playback_option (\<lambda>_. []) demo_dispatcharr demo_admin_client demo_option_source ''primary''
     [demo_option_account] = Inr (option_summary (source_channel_id demo_option_source) demo_option)"
  by code_simp


theorem refusal_backs_off_witness:
  "\<exists>st. verify_configured_option (\<lambda>_. []) (\<lambda>_. Refused 401 []) (\<lambda>_. None) (''http://d'', ''admin'', ''pw'') 100 0 101
       demo_option_source ''primary'' [demo_option_account]
       \<lparr>login_identity = None, login_client = None, login_expires = 0, login_blocked = 0\<rparr>
       = (Inl (DispatcharrAuthError (Some (401, []))), st)
     \<and> verify_configured_option (\<lambda>_. []) demo_dispatcharr (\<lambda>_. None) (''http://d'', ''admin'', ''pw'') 105 0 106
         demo_option_source ''primary'' [demo_option_account] st = (admin_error, st)"
proof -
  let ?st0 = "\<lparr>login_identity = None, login_client = None, login_expires = 0, login_blocked = 0\<rparr>"
  let ?run = "verify_configured_option (\<lambda>_. []) (\<lambda>_. Refused 401 []) (\<lambda>_. None) (''http://d'', ''admin'', ''pw'') 100 0 101
       demo_option_source ''primary'' [demo_option_account] ?st0"
  have c: "\<exists>c. new_client ''http://d'' ''admin'' ''pw'' = Inr c \<and> cached_token c = None"
    by (simp add: new_client_def rstrip_char_def Let_def)
  then obtain c where c: "new_client ''http://d'' ''admin'' ''pw'' = Inr c" "cached_token c = None" by blast
  have f: "fst ?run = Inl (DispatcharrAuthError (Some (401, [])))"
    by (simp add: verify_configured_option_def current_login_def login_ready_def renewed_login_def c
        authenticated_def client_token_def access_token_def json_request_def after_error_def Let_def)
  then have r: "?run = (Inl (DispatcharrAuthError (Some (401, []))), snd ?run)" by (simp add: prod_eq_iff)
  show ?thesis
    using refusal_backs_off[OF r, of 401 "[]" 105] r by auto
qed

subsection \<open>Shared admission\<close>

definition demo_route_row :: pyval where
  "demo_route_row = PDict [(''target_id'', PStr ''match''), (''resource_source_id'', PStr ''b''),
     (''jellyfin_item_id'', PStr (replicate 32 (CHR ''a''))), (''dispatcharr_channel_id'', PInt 3),
     (''dispatcharr_channel_uuid'', PStr ''123e4567-e89b-12d3-a456-426614174000''), (''dispatcharr_stream_id'', PInt 9),
     (''dispatcharr_account_id'', PInt 7), (''capacity'', PInt 1),
     (''viewer_user_ids'', PList [PStr ''ann'', PStr ''bob'']), (''generation'', PStr ''g1'')]"

theorem canary_of_one_route_witness:
  "\<exists>r. load_shared_admission \<lparr>is_regular = True, file_size = 900, file_mode = 384\<rparr>
         (Document (PDict [(''version'', PInt 1), (''enabled'', PBool True), (''mode'', PStr ''canary''),
           (''routes'', PList [demo_route_row])])) = Inr [r] \<and> valid_route r"
proof -
  let ?load = "load_shared_admission \<lparr>is_regular = True, file_size = 900, file_mode = 384\<rparr>
         (Document (PDict [(''version'', PInt 1), (''enabled'', PBool True), (''mode'', PStr ''canary''),
           (''routes'', PList [demo_route_row])]))"
  have "map_sum (\<lambda>_. ()) length ?load = Inr 1" by code_simp
  then obtain routes where r: "?load = Inr routes" "length routes = 1" by (cases ?load) auto
  with canary_of_one_route[OF r(1)] show ?thesis by auto
qed

definition demo_route :: shared_route where
  "demo_route = \<lparr>route_target = ''match'', route_source = ''b'', route_item = replicate 32 (CHR ''a''),
     route_channel_id = 3, route_channel_uuid = ''123e4567-e89b-12d3-a456-426614174000'', route_stream_id = 9,
     route_account_id = 7, route_capacity = 1, route_viewers = [''ann'', ''bob''], route_generation = ''g1''\<rparr>"

lemma demo_route_valid: "valid_route demo_route"
proof -
  have "ident_text ''match''" "ident_text ''b''" "ident_text ''g1''" "ident_text ''ann''" "ident_text ''bob''"
    "hex_string 32 (replicate 32 (CHR ''a''))" "canonical_uuid ''123e4567-e89b-12d3-a456-426614174000''" by code_simp+
  then show ?thesis by (simp add: valid_route_def demo_route_def)
qed

theorem route_json_determines_route_witness:
  "route_json demo_route \<noteq> route_json (demo_route\<lparr>route_stream_id := 10\<rparr>)"
proof
  have "valid_route (demo_route\<lparr>route_stream_id := 10\<rparr>)"
    using demo_route_valid by (simp add: valid_route_def)
  moreover assume "route_json demo_route = route_json (demo_route\<lparr>route_stream_id := 10\<rparr>)"
  ultimately have "demo_route = demo_route\<lparr>route_stream_id := 10\<rparr>"
    using route_json_determines_route[OF demo_route_valid] by blast
  then show False by (simp add: demo_route_def)
qed

end
