(* ===== verification/Sports_Service.thy ===== *)
theory Sports_Service
  imports Shared_Admission
begin

text \<open>
  The portal's client of the private Sports service (\<open>src/apps/api/atlas_api/services/sports.py\<close>, class
  \<open>SportsWriterBackedAPIService\<close>), as far as live playback uses it: every answer is validated again and
  normalised before the portal acts on it. \<open>service\<close> is the exchange by method, path and body.
\<close>

subsection \<open>Exchange\<close>

datatype service_exn =
    SportsWriterTransportError
  | SportsProviderAccountConflictError | SportsProviderAccountNotFoundError | SportsProviderAccountInvalidError
  | SportsLiveTvBindingNotFoundError | SportsProviderNotFoundError | SportsEventNotFoundError
  | SportsSubscriptionNotFoundError | SportsRecordingTargetUnsupportedError
  | SportsProviderRateLimitError int
  | ServiceBuiltin pyexn

abbreviation transport_error :: "service_exn + 'a" where
  "transport_error \<equiv> Inl SportsWriterTransportError"

text \<open>The subclasses of \<open>SportsWriterTransportError\<close>.\<close>

definition is_transport :: "service_exn \<Rightarrow> bool" where
  "is_transport e \<longleftrightarrow>
     e \<in> {SportsWriterTransportError, SportsProviderAccountConflictError, SportsProviderAccountNotFoundError,
          SportsProviderAccountInvalidError}"

text \<open>A reply: a status with a JSON body or with other text, and its \<open>Retry-After\<close> header, or no reply.\<close>

datatype service_reply = Reply int pyval string | PlainReply int string | NoReply

definition error_codes :: "(string \<times> service_exn) list" where
  "error_codes =
     [(''sports_source_exists'', SportsProviderAccountConflictError),
      (''sports_provider_account_enabled'', SportsProviderAccountConflictError),
      (''sports_provider_account_playback_dependency'', SportsProviderAccountConflictError),
      (''sports_source_not_found'', SportsProviderAccountNotFoundError),
      (''sports_provider_account_invalid'', SportsProviderAccountInvalidError),
      (''sports_live_tv_binding_not_found'', SportsLiveTvBindingNotFoundError),
      (''provider_not_found'', SportsProviderNotFoundError), (''event_not_found'', SportsEventNotFoundError),
      (''sports_subscription_not_found'', SportsSubscriptionNotFoundError),
      (''sports_recording_target_unsupported'', SportsRecordingTargetUnsupportedError)]"

definition retry_seconds :: "int \<Rightarrow> int" where
  "retry_seconds n = max 1 (min n 300)"

definition service_error :: "(pyval \<Rightarrow> string) \<Rightarrow> (string \<times> pyval) list \<Rightarrow> string \<Rightarrow> service_exn" where
  "service_error render body retry =
     (let code = strip (text_of render body ''code'') in
      case map_of error_codes code of
        Some e \<Rightarrow> e
      | None \<Rightarrow>
          if code = ''sports_provider_rate_limited'' then
            (case py_int (dict_default body ''retry_after_seconds'' (PStr retry)) of
               Inr n \<Rightarrow> SportsProviderRateLimitError (retry_seconds n)
             | Inl OverflowError \<Rightarrow> ServiceBuiltin OverflowError
             | Inl _ \<Rightarrow> SportsProviderRateLimitError (retry_seconds 60))
          else SportsWriterTransportError)"

definition service_request ::
  "(pyval \<Rightarrow> string) \<Rightarrow> service_reply \<Rightarrow> service_exn + (string \<times> pyval) list" where
  "service_request render reply =
     (case reply of
        NoReply \<Rightarrow> transport_error
      | PlainReply code retry \<Rightarrow>
          if 200 \<le> code \<and> code < 300 then transport_error else Inl (service_error render [] retry)
      | Reply code v retry \<Rightarrow>
          if 200 \<le> code \<and> code < 300 then (case v of PDict d \<Rightarrow> Inr d | _ \<Rightarrow> transport_error)
          else Inl (service_error render (case v of PDict d \<Rightarrow> d | _ \<Rightarrow> []) retry))"

type_synonym service = "string \<Rightarrow> string \<Rightarrow> pyval option \<Rightarrow> service_reply"

definition service_get :: "(pyval \<Rightarrow> string) \<Rightarrow> service \<Rightarrow> string \<Rightarrow> service_exn + (string \<times> pyval) list" where
  "service_get render service path = service_request render (service ''GET'' path None)"

subsection \<open>Live sources\<close>

record listed_option =
  listed_option_id :: string
  listed_channel :: string
  listed_resource :: string

record listed_source =
  listed_id :: string
  listed_name :: string
  listed_provider :: "string option"
  listed_event :: "string option"
  listed_standalone :: bool
  listed_atlas_channel :: "string option"
  listed_resources :: "string list"
  listed_options :: "listed_option list option"

definition listed_fields :: "string list" where
  "listed_fields = [''id'', ''name'', ''provider'', ''provider_event_id'', ''standalone'', ''atlas_channel_id'',
     ''resource_source_ids'', ''playback_options'']"

fun required_listed :: "pyval \<Rightarrow> service_exn + string" where
  "required_listed (PStr s) = (if strip s = [] then transport_error else Inr (strip s))"
| "required_listed _ = transport_error"

fun optional_listed :: "pyval \<Rightarrow> service_exn + string option" where
  "optional_listed PNone = Inr None"
| "optional_listed (PStr s) = (if strip s = [] then transport_error else Inr (Some (strip s)))"
| "optional_listed _ = transport_error"

fun listed_bool :: "pyval \<Rightarrow> service_exn + bool" where
  "listed_bool (PBool b) = Inr b"
| "listed_bool _ = transport_error"

fun listed_ids :: "pyval list \<Rightarrow> string list \<Rightarrow> service_exn + string list" where
  "listed_ids [] ids = Inr ids"
| "listed_ids (v # vs) ids =
     rbind (required_listed v) (\<lambda>s. if s \<in> set ids then transport_error else listed_ids vs (ids @ [s]))"

definition option_names :: "string list" where
  "option_names = [''primary'', ''backup-1'', ''backup-2'']"

definition listed_channel_of :: "string \<Rightarrow> nat \<Rightarrow> string" where
  "listed_channel_of base i = (if i = 0 then base else base @ ''--'' @ option_names ! i)"

text \<open>The row at place \<open>i < 3\<close>; \<open>base\<close> is the raw channel, which is absent only without resources.\<close>

definition read_listed_option ::
  "pyval \<Rightarrow> string list \<Rightarrow> nat \<Rightarrow> pyval \<Rightarrow> service_exn + listed_option" where
  "read_listed_option base resources i row =
     (case (row, base) of
        (PDict d, PStr channel) \<Rightarrow>
          (case dict_value d ''resource_source_id'' of
             PStr resource \<Rightarrow>
               if set (map fst d) \<noteq> {''option_id'', ''atlas_channel_id'', ''resource_source_id''}
                  \<or> dict_value d ''option_id'' \<noteq> PStr (option_names ! i)
                  \<or> dict_value d ''atlas_channel_id'' \<noteq> PStr (listed_channel_of channel i)
                  \<or> resource \<notin> set resources
               then transport_error
               else Inr \<lparr>listed_option_id = option_names ! i, listed_channel = listed_channel_of channel i,
                         listed_resource = resource\<rparr>
           | _ \<Rightarrow> transport_error)
      | _ \<Rightarrow> transport_error)"

fun read_listed_options ::
  "pyval \<Rightarrow> string list \<Rightarrow> nat \<Rightarrow> pyval list \<Rightarrow> service_exn + listed_option list" where
  "read_listed_options base resources i [] = Inr []"
| "read_listed_options base resources i (row # rows) =
     rbind (read_listed_option base resources i row) (\<lambda>p.
     rbind (read_listed_options base resources (Suc i) rows) (\<lambda>ps. Inr (p # ps)))"

definition safe_playback_options ::
  "pyval \<Rightarrow> pyval \<Rightarrow> string list \<Rightarrow> service_exn + listed_option list" where
  "safe_playback_options raw base resources =
     (case raw of
        PList rows \<Rightarrow>
          if length rows > 3 then transport_error
          else rbind (read_listed_options base resources 0 rows) (\<lambda>ps.
            if ps \<noteq> [] \<and> map listed_resource ps \<noteq> resources then transport_error else Inr ps)
      | _ \<Rightarrow> transport_error)"

definition listed_resource_ids :: "pyval \<Rightarrow> service_exn + string list" where
  "listed_resource_ids v = (case v of PList vs \<Rightarrow> listed_ids vs [] | _ \<Rightarrow> transport_error)"

definition listed_options_field ::
  "(string \<times> pyval) list \<Rightarrow> string list \<Rightarrow> service_exn + listed_option list option" where
  "listed_options_field d resources =
     (case map_of d ''playback_options'' of
        None \<Rightarrow> Inr None
      | Some raw \<Rightarrow> rbind (safe_playback_options raw (dict_value d ''atlas_channel_id'') resources) (\<lambda>ps. Inr (Some ps)))"

definition read_listed :: "pyval \<Rightarrow> service_exn + listed_source" where
  "read_listed raw =
     (case raw of
        PDict d \<Rightarrow>
          if \<not> set (map fst d) \<subseteq> set listed_fields then transport_error
          else
            rbind (required_listed (dict_value d ''id'')) (\<lambda>sid.
            rbind (required_listed (dict_value d ''name'')) (\<lambda>name.
            rbind (listed_bool (dict_value d ''standalone'')) (\<lambda>standalone.
            rbind (optional_listed (dict_value d ''provider'')) (\<lambda>provider.
            rbind (optional_listed (dict_value d ''provider_event_id'')) (\<lambda>event.
            rbind (optional_listed (dict_value d ''atlas_channel_id'')) (\<lambda>channel.
            rbind (listed_resource_ids (dict_default d ''resource_source_ids'' (PList []))) (\<lambda>resources.
            if resources \<noteq> [] \<and> channel = None then transport_error
            else rbind (listed_options_field d resources) (\<lambda>options.
              Inr \<lparr>listed_id = sid, listed_name = name, listed_provider = provider, listed_event = event,
                   listed_standalone = standalone, listed_atlas_channel = channel,
                   listed_resources = resources, listed_options = options\<rparr>))))))))
      | _ \<Rightarrow> transport_error)"

fun read_listed_all :: "pyval list \<Rightarrow> service_exn + listed_source list" where
  "read_listed_all [] = Inr []"
| "read_listed_all (v # vs) =
     rbind (read_listed v) (\<lambda>s. rbind (read_listed_all vs) (\<lambda>ss. Inr (s # ss)))"

definition list_live_sources :: "(pyval \<Rightarrow> string) \<Rightarrow> service \<Rightarrow> service_exn + listed_source list" where
  "list_live_sources render service =
     rbind (service_get render service ''/internal/v1/live-sources'') (\<lambda>d.
       case dict_value d ''live_sources'' of PList vs \<Rightarrow> read_listed_all vs | _ \<Rightarrow> transport_error)"

subsection \<open>Verification, availability and bindings\<close>

text \<open>Equality of a JSON value with a dictionary of texts.\<close>

definition is_text_dict :: "(string \<times> string) list \<Rightarrow> pyval \<Rightarrow> bool" where
  "is_text_dict texts v =
     (case v of
        PDict d \<Rightarrow> set (map fst d) = set (map fst texts) \<and> list_all (\<lambda>(k, t). dict_value d k = PStr t) texts
      | _ \<Rightarrow> False)"

definition query_of :: "(string \<times> string) list \<Rightarrow> string" where
  "query_of ps = tl (concat (map (\<lambda>(k, v). ''&'' @ k @ ''='' @ quote_plus v) ps))"

definition attest_shared_route ::
  "(pyval \<Rightarrow> string) \<Rightarrow> service \<Rightarrow> string \<Rightarrow> string \<Rightarrow> service_exn + unit" where
  "attest_shared_route render service target fp =
     rbind (service_get render service (''/internal/v1/shared-live-route?'' @ query_of [(''atlas_channel_id'', target)])) (\<lambda>d.
       if set (map fst d) = {''route''}
          \<and> is_text_dict [(''target_id'', target), (''fingerprint'', fp)] (dict_value d ''route'')
       then Inr () else transport_error)"

definition verify_live_playback_option ::
  "(pyval \<Rightarrow> string) \<Rightarrow> service \<Rightarrow> string \<Rightarrow> listed_option \<Rightarrow> service_exn + unit" where
  "verify_live_playback_option render service channel p =
     rbind (service_get render service (''/internal/v1/live-playback-option?''
         @ query_of [(''atlas_channel_id'', channel), (''option_id'', listed_option_id p)])) (\<lambda>d.
       if is_text_dict [(''option_id'', listed_option_id p), (''atlas_channel_id'', listed_channel p),
            (''resource_source_id'', listed_resource p)] (dict_value d ''option'')
       then Inr () else transport_error)"

text \<open>The available channel, or none.\<close>

definition get_live_availability ::
  "(pyval \<Rightarrow> string) \<Rightarrow> service \<Rightarrow> string \<Rightarrow> string \<Rightarrow> service_exn + string option" where
  "get_live_availability render service provider event =
     rbind (service_get render service (''/internal/v1/live/availability?''
         @ query_of [(''provider'', provider), (''provider_event_id'', event)])) (\<lambda>d.
       case dict_value d ''availability'' of
         PDict a \<Rightarrow>
           (case dict_value a ''available'' of
              PBool True \<Rightarrow>
                let c = argument_text render (dict_value a ''atlas_channel_id'') in
                if c = [] then transport_error else Inr (Some c)
            | PBool False \<Rightarrow> if dict_value a ''atlas_channel_id'' \<noteq> PNone then transport_error else Inr None
            | _ \<Rightarrow> transport_error)
       | _ \<Rightarrow> transport_error)"

definition binding_row :: "(pyval \<Rightarrow> string) \<Rightarrow> pyval \<Rightarrow> service_exn + string \<times> string" where
  "binding_row render v =
     (case v of
        PDict b \<Rightarrow>
          let c = strip (text_of render b ''atlas_channel_id''); j = strip (text_of render b ''jellyfin_item_id'') in
          if c = [] \<or> j = [] then transport_error else Inr (c, j)
      | _ \<Rightarrow> transport_error)"

definition get_live_tv_binding ::
  "(pyval \<Rightarrow> string) \<Rightarrow> service \<Rightarrow> string \<Rightarrow> service_exn + string \<times> string" where
  "get_live_tv_binding render service channel =
     rbind (service_get render service (''/internal/v1/live-tv/bindings?'' @ query_of [(''atlas_channel_id'', channel)])) (\<lambda>d.
     rbind (binding_row render (dict_value d ''binding'')) (\<lambda>(c, j).
       if c \<noteq> strip channel then transport_error else Inr (c, j)))"

fun binding_rows :: "(pyval \<Rightarrow> string) \<Rightarrow> pyval list \<Rightarrow> service_exn + (string \<times> string) list" where
  "binding_rows render [] = Inr []"
| "binding_rows render (v # vs) =
     rbind (binding_row render v) (\<lambda>b. rbind (binding_rows render vs) (\<lambda>bs. Inr (b # bs)))"

definition list_live_tv_bindings ::
  "(pyval \<Rightarrow> string) \<Rightarrow> service \<Rightarrow> service_exn + (string \<times> string) list" where
  "list_live_tv_bindings render service =
     rbind (service_get render service ''/internal/v1/live-tv/bindings'') (\<lambda>d.
       case dict_value d ''bindings'' of PList vs \<Rightarrow> binding_rows render vs | _ \<Rightarrow> transport_error)"

definition set_live_tv_binding ::
  "(pyval \<Rightarrow> string) \<Rightarrow> service \<Rightarrow> string \<Rightarrow> string \<Rightarrow> service_exn + string \<times> string" where
  "set_live_tv_binding render service channel item =
     rbind (service_request render (service ''POST'' ''/internal/v1/live-tv/bindings''
         (Some (PDict [(''atlas_channel_id'', PStr channel), (''jellyfin_item_id'', PStr item)])))) (\<lambda>d.
       binding_row render (dict_value d ''binding''))"

subsection \<open>The source registry\<close>

definition forbidden_keys :: "string list" where
  "forbidden_keys = [''password'', ''username'', ''server_url'', ''url'', ''token'', ''api_key'', ''apikey'', ''secret'']"

text \<open>\<open>assert_safe\<close> goes into dictionaries and lists.\<close>

fun safe_value :: "pyval \<Rightarrow> bool" and safe_items :: "(string \<times> pyval) list \<Rightarrow> bool" and safe_list :: "pyval list \<Rightarrow> bool" where
  "safe_value (PDict d) = safe_items d"
| "safe_value (PList vs) = safe_list vs"
| "safe_value _ = True"
| "safe_items [] = True"
| "safe_items ((k, v) # d) = (lower (strip k) \<notin> set forbidden_keys \<and> safe_value v \<and> safe_items d)"
| "safe_list [] = True"
| "safe_list (v # vs) = (safe_value v \<and> safe_list vs)"

fun safe_entries :: "pyval list \<Rightarrow> service_exn + (string \<times> pyval) list list" where
  "safe_entries [] = Inr []"
| "safe_entries (v # vs) =
     (case v of
        PDict d \<Rightarrow> if \<not> safe_value v then transport_error else rbind (safe_entries vs) (\<lambda>ds. Inr (d # ds))
      | _ \<Rightarrow> transport_error)"

definition source_registry_payload ::
  "(string \<times> pyval) list \<Rightarrow> service_exn + (string \<times> pyval) list list \<times> (string \<times> pyval) list list" where
  "source_registry_payload payload =
     (case (dict_value payload ''providers'', dict_value payload ''sources'') of
        (PList providers, PList sources) \<Rightarrow>
          rbind (safe_entries providers) (\<lambda>ps. rbind (safe_entries sources) (\<lambda>ss. Inr (ps, ss)))
      | _ \<Rightarrow> transport_error)"

definition get_source_registry ::
  "(pyval \<Rightarrow> string) \<Rightarrow> service \<Rightarrow> service_exn + (string \<times> pyval) list list \<times> (string \<times> pyval) list list" where
  "get_source_registry render service =
     rbind (service_get render service ''/internal/v1/sources'') source_registry_payload"

end
