(* ===== verification/Playback_Routes.thy ===== *)
theory Playback_Routes
  imports Prelude Session_Registry Live_Limits Stream_Ownership Sports_Service
begin

text \<open>
  The live playback routes of the portal (\<open>src/apps/api/atlas_api/routes/v1/sports_playback.py\<close>) with the
  playback service they use (\<open>src/apps/api/atlas_api/services/playback.py\<close>). A request is a sequence of
  atomic operations on three durable files: the resource pool, the session registry and the ownership of
  live streams. Between any two of them other requests may run (\<open>interfere\<close>), and each has its own instant.
  What is asked of Jellyfin is taken by its outcome.
\<close>

subsection \<open>Requests as sequences of operations\<close>

text \<open>An HTTP error with its detail, or an exception that no handler of the route catches.\<close>

datatype http_exn = HttpError int string | Unhandled

record live_state =
  pool_json :: state_file
  session_json :: state_file
  stream_json :: state_file

type_synonym 'a play = "(live_state, http_exn, 'a) exn_state"

record world =
  clock :: "nat \<Rightarrow> pyfloat"
  interfere :: "nat \<Rightarrow> live_state \<Rightarrow> live_state"
  stream_remote :: remote
  pool_of :: pool
  session_ttl :: int
  stream_ttl :: int

text \<open>Step \<open>k\<close>: one atomic operation of the request, and then the other requests until the next one.\<close>

definition pool_step ::
  "world \<Rightarrow> nat \<Rightarrow> (pool_exn \<Rightarrow> http_exn) \<Rightarrow> (state_file \<Rightarrow> (pool_exn + 'a) \<times> state_file) \<Rightarrow> 'a play" where
  "pool_step W k h operation s =
     (case operation (pool_json s) of (r, f) \<Rightarrow> (map_exn h r, interfere W k (s\<lparr>pool_json := f\<rparr>)))"

definition session_step ::
  "world \<Rightarrow> nat \<Rightarrow> (reg_exn \<Rightarrow> http_exn) \<Rightarrow> (state_file \<Rightarrow> (reg_exn + 'a) \<times> state_file) \<Rightarrow> 'a play" where
  "session_step W k h operation s =
     (case operation (session_json s) of (r, f) \<Rightarrow> (map_exn h r, interfere W k (s\<lparr>session_json := f\<rparr>)))"

definition stream_step ::
  "world \<Rightarrow> nat \<Rightarrow> ('e \<Rightarrow> http_exn) \<Rightarrow> (state_file \<Rightarrow> ('e + 'a) \<times> event list) \<Rightarrow> 'a play" where
  "stream_step W k h operation s =
     (case operation (stream_json s) of
        (r, es) \<Rightarrow> (map_exn h r, interfere W k (s\<lparr>stream_json := file_after (stream_json s) es\<rparr>)))"

subsection \<open>Candidates\<close>

definition SOURCE_KIND_ORDER :: "(string \<times> nat) list" where
  "SOURCE_KIND_ORDER = [(''licensed_subscription'', 0), (''official_free'', 1), (''user_owned_ota'', 2),
     (''community_public'', 3)]"

definition MAX_SOURCE_CANDIDATES :: nat where
  "MAX_SOURCE_CANDIDATES = 4"

datatype candidate_exn = CandidateTransport | CandidatesExhausted

fun associated_ids :: "string list \<Rightarrow> candidate_exn + string list" where
  "associated_ids [] = Inr []"
| "associated_ids (s # ss) =
     (if strip s = [] then Inl CandidateTransport
      else rbind (associated_ids ss) (\<lambda>ids. Inr (strip s # ids)))"

fun registry_by_id ::
  "(string \<times> pyval) list list \<Rightarrow> (string \<times> (string \<times> pyval) list) list
   \<Rightarrow> candidate_exn + (string \<times> (string \<times> pyval) list) list" where
  "registry_by_id [] acc = Inr acc"
| "registry_by_id (raw # rest) acc =
     (case dict_value raw ''source_id'' of
        PStr s \<Rightarrow>
          if strip s = [] \<or> strip s \<in> fst ` set acc then Inl CandidateTransport
          else registry_by_id rest (acc @ [(strip s, raw)])
      | _ \<Rightarrow> Inl CandidateTransport)"

type_synonym eligible = "(nat \<times> int \<times> string) \<times> int"

text \<open>One associated account: ineligible when it is unknown or disabled, otherwise its rank and capacity.\<close>

definition eligible_source ::
  "(string \<times> (string \<times> pyval) list) list \<Rightarrow> string \<Rightarrow> candidate_exn + eligible option" where
  "eligible_source by_id sid =
     (case map_of by_id sid of
        None \<Rightarrow> Inr None
      | Some source \<Rightarrow>
          (case dict_value source ''enabled'' of
             PBool False \<Rightarrow> Inr None
           | PBool True \<Rightarrow>
               (case dict_value source ''kind'' of
                  PStr k \<Rightarrow>
                    (case map_of SOURCE_KIND_ORDER k of
                       None \<Rightarrow> Inl CandidateTransport
                     | Some order \<Rightarrow>
                         let prio = dict_value source ''priority''; cap = dict_value source ''max_connections'' in
                         if \<not> int_at_least 0 prio \<or> int_value prio > 10000
                            \<or> \<not> int_at_least 1 cap \<or> int_value cap > 1000
                         then Inl CandidateTransport
                         else Inr (Some ((order, int_value prio, sid), int_value cap)))
                | _ \<Rightarrow> Inl CandidateTransport)
           | _ \<Rightarrow> Inl CandidateTransport))"

fun eligible_sources ::
  "(string \<times> (string \<times> pyval) list) list \<Rightarrow> string list \<Rightarrow> candidate_exn + eligible list" where
  "eligible_sources by_id [] = Inr []"
| "eligible_sources by_id (s # ss) =
     rbind (eligible_source by_id s) (\<lambda>e.
     rbind (eligible_sources by_id ss) (\<lambda>es. Inr (case e of None \<Rightarrow> es | Some x \<Rightarrow> x # es)))"

definition selected_candidates :: "eligible list \<Rightarrow> candidate_exn + string list \<times> (string \<times> int) list" where
  "selected_candidates es =
     (let selected = take MAX_SOURCE_CANDIDATES (sort_key fst es) in
      if selected = [] then Inl CandidatesExhausted
      else Inr (map (\<lambda>((_, _, s), _). s) selected,
                foldl (\<lambda>acc ((_, _, s), c). AList.update s c acc) [] selected))"

definition sports_resource_candidates ::
  "string \<Rightarrow> listed_source list \<Rightarrow> (string \<times> pyval) list list
   \<Rightarrow> candidate_exn + string list \<times> (string \<times> int) list" where
  "sports_resource_candidates channel sources registry =
     (case filter (\<lambda>s. listed_atlas_channel s = Some channel) sources of
        [s] \<Rightarrow>
          if listed_resources s = [] then Inl CandidateTransport
          else
            rbind (associated_ids (listed_resources s)) (\<lambda>ids.
            rbind (registry_by_id registry []) (\<lambda>by_id.
            rbind (eligible_sources by_id ids) selected_candidates))
      | _ \<Rightarrow> Inl CandidateTransport)"

subsection \<open>Resolution of the channel\<close>

definition unavailable_live :: http_exn where
  "unavailable_live = HttpError 503 ''Sports live availability is unavailable.''"

definition channel_missing :: http_exn where
  "channel_missing = HttpError 404 ''Sports live channel is not available.''"

text \<open>\<open>except SportsWriterTransportError\<close>: any other exception of the service is not caught.\<close>

definition service_http :: "http_exn \<Rightarrow> service_exn \<Rightarrow> http_exn" where
  "service_http h e = (if is_transport e then h else Unhandled)"

definition playback_user :: "unit + pyval \<Rightarrow> http_exn + string" where
  "playback_user profile =
     (case profile of
        Inl _ \<Rightarrow> Inl (HttpError 401 ''Authenticated Atlas user was not found.'')
      | Inr (PStr u) \<Rightarrow>
          if strip u = [] then Inl (HttpError 503 ''Playback is not configured for this user.'') else Inr u
      | Inr _ \<Rightarrow> Inl (HttpError 503 ''Playback is not configured for this user.''))"

definition live_source_of :: "string \<Rightarrow> listed_source list \<Rightarrow> http_exn + listed_source" where
  "live_source_of channel sources =
     (case filter (\<lambda>s. listed_atlas_channel s = Some channel) sources of [s] \<Rightarrow> Inr s | _ \<Rightarrow> Inl channel_missing)"

definition check_availability ::
  "(pyval \<Rightarrow> string) \<Rightarrow> service \<Rightarrow> string \<Rightarrow> listed_source \<Rightarrow> http_exn + unit" where
  "check_availability render service channel s =
     (if listed_standalone s then Inr ()
      else (case (listed_provider s, listed_event s) of
          (Some provider, Some event) \<Rightarrow>
            if strip provider = [] \<or> strip event = [] then Inl unavailable_live
            else
              rbind (map_exn (service_http unavailable_live) (get_live_availability render service provider event)) (\<lambda>a.
                if a = Some channel then Inr () else Inl channel_missing)
        | _ \<Rightarrow> Inl unavailable_live))"

record routing =
  routing_channel :: string
  routing_sources :: "listed_source list"
  routing_resource :: "string option"
  routing_configured :: bool

definition route_option ::
  "(pyval \<Rightarrow> string) \<Rightarrow> service \<Rightarrow> string \<Rightarrow> listed_source list \<Rightarrow> listed_source \<Rightarrow> string option
   \<Rightarrow> http_exn + routing" where
  "route_option render service channel sources s requested =
     (let configured = (case listed_options s of None \<Rightarrow> [] | Some ps \<Rightarrow> ps) in
      if configured = [] \<and> requested = None then
        Inr \<lparr>routing_channel = channel, routing_sources = sources, routing_resource = None, routing_configured = False\<rparr>
      else
        let name = (case requested of None \<Rightarrow> ''primary'' | Some r \<Rightarrow> if r = [] then ''primary'' else r) in
        (case filter (\<lambda>p. listed_option_id p = name) configured of
           [p] \<Rightarrow>
             rbind (map_exn (service_http (HttpError 503 ''Playback option is unavailable.''))
                     (verify_live_playback_option render service channel p)) (\<lambda>_.
               Inr \<lparr>routing_channel = listed_channel p,
                    routing_sources = [s\<lparr>listed_resources := [listed_resource p]\<rparr>],
                    routing_resource = Some (listed_resource p), routing_configured = True\<rparr>)
         | _ \<Rightarrow> Inl (HttpError 404 ''Playback option is not configured.'')))"

definition unresolved :: http_exn where
  "unresolved = HttpError 503 ''Sports live channel resolution is unavailable.''"

fun binding_http :: "service_exn \<Rightarrow> http_exn" where
  "binding_http SportsLiveTvBindingNotFoundError = channel_missing"
| "binding_http e = service_http unresolved e"

definition bound_item ::
  "(pyval \<Rightarrow> string) \<Rightarrow> service \<Rightarrow> string \<Rightarrow> http_exn + string" where
  "bound_item render service channel =
     rbind (map_exn binding_http (get_live_tv_binding render service channel)) (\<lambda>(c, j).
       if c \<noteq> channel \<or> strip j = [] then Inl unresolved else Inr (strip j))"

subsection \<open>Admission to the pool\<close>

definition admission_unavailable :: http_exn where
  "admission_unavailable = HttpError 503 ''Sports resource admission is unavailable.''"

definition limit_conflict :: http_exn where
  "limit_conflict = HttpError 409 ''Live session limit reached.''"

definition capacity_conflict :: http_exn where
  "capacity_conflict = HttpError 409 ''Sports upstream capacity is unavailable.''"

fun pool_http :: "pool_exn \<Rightarrow> http_exn" where
  "pool_http UserLimitExceeded = limit_conflict"
| "pool_http PoolExhausted = capacity_conflict"
| "pool_http PoolStateError = admission_unavailable"
| "pool_http _ = Unhandled"

fun candidate_http :: "candidate_exn \<Rightarrow> http_exn" where
  "candidate_http CandidateTransport = admission_unavailable"
| "candidate_http CandidatesExhausted = capacity_conflict"

fun admission_http :: "service_exn admission_exn \<Rightarrow> http_exn" where
  "admission_http (AdmissionPool e) = pool_http e"
| "admission_http (AdmissionService e) = service_http admission_unavailable e"

record admission =
  adm_pool :: pool
  adm_candidates :: "string list"
  adm_capacities :: "(string \<times> int) list"

definition plan_admission ::
  "(pyval \<Rightarrow> string) \<Rightarrow> service \<Rightarrow> (string \<Rightarrow> string) \<Rightarrow> admission_setting \<Rightarrow> pool \<Rightarrow> string \<Rightarrow> string \<Rightarrow> string
   \<Rightarrow> routing \<Rightarrow> http_exn + admission" where
  "plan_admission render service digest setting P channel user item rt =
     rbind (map_exn (service_http admission_unavailable) (get_source_registry render service)) (\<lambda>(_, registry).
     rbind (map_exn candidate_http (sports_resource_candidates channel (routing_sources rt) registry))
       (\<lambda>(candidates, capacities).
     rbind (map_exn admission_http (verify_api_shared_admission digest (attest_shared_route render service) setting P
              channel user item candidates capacities (routing_configured rt))) (\<lambda>(P', candidates').
       Inr \<lparr>adm_pool = P', adm_candidates = candidates', adm_capacities = capacities\<rparr>)))"

record play_request =
  req_user :: string
  req_channel :: string
  req_option :: "string option"
  req_subtitle :: "string option"
  req_profile :: "unit + pyval"
  fresh_lease :: string
  fresh_session :: string

text \<open>Everything before the first durable change: the Jellyfin user, the item, the user's limit, the routing and the admission.\<close>

definition prepare_live ::
  "(pyval \<Rightarrow> string) \<Rightarrow> service \<Rightarrow> (string \<Rightarrow> string) \<Rightarrow> admission_setting \<Rightarrow> pool \<Rightarrow> state_file \<Rightarrow> play_request
   \<Rightarrow> http_exn + string \<times> string \<times> int \<times> routing \<times> admission" where
  "prepare_live render service digest setting P limits q =
     rbind (playback_user (req_profile q)) (\<lambda>jellyfin_user.
     rbind (map_exn (service_http unavailable_live) (list_live_sources render service)) (\<lambda>sources.
     rbind (live_source_of (req_channel q) sources) (\<lambda>s.
     rbind (check_availability render service (req_channel q) s) (\<lambda>_.
     rbind (route_option render service (req_channel q) sources s (req_option q)) (\<lambda>rt.
     rbind (bound_item render service (routing_channel rt)) (\<lambda>item.
     rbind (map_exn (\<lambda>_. HttpError 503 ''Live playback policy is unavailable.'')
              (effective_limit (PStr (req_user q)) limits)) (\<lambda>limit.
     rbind (plan_admission render service digest setting P (req_channel q) (req_user q) item rt) (\<lambda>adm.
       Inr (jellyfin_user, item, limit, rt, adm)))))))))"

subsection \<open>Playback\<close>

definition subtitle_stream_index :: "string option \<Rightarrow> http_exn + int option" where
  "subtitle_stream_index v =
     (case v of
        None \<Rightarrow> Inr None
      | Some s \<Rightarrow>
          let n = lower (strip s) in
          if n = [] \<or> n = ''auto'' then Inr None
          else if n = ''off'' then Inr (Some (- 1))
          else (case py_int_of_string n of
              None \<Rightarrow> Inl (HttpError 422 ''Subtitle selection must be auto, off, or a stream index.'')
            | Some i \<Rightarrow>
                if i < 0 then Inl (HttpError 422 ''Subtitle stream index must be non-negative.'') else Inr (Some i)))"

text \<open>
  What Jellyfin makes of the item: \<open>get_item\<close> fails, it is no Live TV channel, the negotiation of the
  playback fails before a stream is opened, it needs none, or it opens one (with its identities) and then
  gives the path of the stream or fails.
\<close>

datatype jellyfin_answer =
    ItemMissing | NoLiveChannel | NotPlayable | PlaysDirectly string
  | OpensStream "string option" "string option" open_outcome "string option"

datatype play_exn = PlaybackNotFoundError | PlaybackUnavailableError | PlayOther stream_exn

text \<open>\<open>LiveStreamOwnershipError\<close> is a \<open>MediaProviderError\<close>, which the service reports as not found.\<close>

fun provider_play :: "stream_exn \<Rightarrow> play_exn" where
  "provider_play (StreamBuiltin x) = PlayOther (StreamBuiltin x)"
| "provider_play _ = PlaybackNotFoundError"

definition resolve_in_scope ::
  "int \<Rightarrow> pyfloat \<Rightarrow> pyfloat \<Rightarrow> string \<Rightarrow> string \<Rightarrow> string \<Rightarrow> string \<Rightarrow> jellyfin_answer \<Rightarrow> state_file
   \<Rightarrow> (play_exn + string) \<times> event list" where
  "resolve_in_scope ttl now later session user item jellyfin_user answer f =
     (if strip item = [] then (Inl PlaybackNotFoundError, [])
      else if strip jellyfin_user = [] then (Inl PlaybackUnavailableError, [])
      else (case answer of
          PlaysDirectly path \<Rightarrow> (Inr path, [])
        | OpensStream play media result path \<Rightarrow>
            (case open_stream ttl now later
                    \<lparr>owner_session = session, owner_user = user, owner_item = item, owner_play = play,
                     owner_media = media\<rparr> result f of
               (Inl e, es) \<Rightarrow> (Inl (provider_play e), es)
             | (Inr _, es) \<Rightarrow> (case path of None \<Rightarrow> (Inl PlaybackNotFoundError, es) | Some p \<Rightarrow> (Inr p, es)))
        | _ \<Rightarrow> (Inl PlaybackNotFoundError, [])))"

definition resolve_live_session ::
  "int \<Rightarrow> pyfloat \<Rightarrow> pyfloat \<Rightarrow> remote \<Rightarrow> string \<Rightarrow> string \<Rightarrow> string \<Rightarrow> string \<Rightarrow> jellyfin_answer \<Rightarrow> state_file
   \<Rightarrow> (play_exn + string) \<times> event list" where
  "resolve_live_session ttl now later w session user item jellyfin_user answer =
     scoped PlayOther w
       \<lparr>owner_session = session, owner_user = user, owner_item = item, owner_play = None, owner_media = None\<rparr>
       (resolve_in_scope ttl now later session user item jellyfin_user answer)"

fun play_http :: "play_exn \<Rightarrow> http_exn" where
  "play_http PlaybackNotFoundError = channel_missing"
| "play_http PlaybackUnavailableError = HttpError 503 ''Playback is not configured.''"
| "play_http (PlayOther _) = Unhandled"

subsection \<open>The session route\<close>

definition unhandled :: "'e \<Rightarrow> http_exn" where
  "unhandled _ = Unhandled"

definition drop_lease :: "world \<Rightarrow> nat \<Rightarrow> pool \<Rightarrow> lease \<Rightarrow> string \<Rightarrow> bool play" where
  "drop_lease W k P l user =
     pool_step W k unhandled (release P (clock W k) (PStr (lease.lease_id l)) (PStr user))"

definition drop_session :: "world \<Rightarrow> nat \<Rightarrow> session_record \<Rightarrow> string \<Rightarrow> bool play" where
  "drop_session W k r user =
     session_step W k unhandled (release_session (PStr (session_id r)) (PStr user))"

definition drop_stream :: "world \<Rightarrow> nat \<Rightarrow> session_record \<Rightarrow> string \<Rightarrow> bool play" where
  "drop_stream W k r user = stream_step W k unhandled (release_stream (stream_remote W) (session_id r) user)"

definition acquire_lease :: "world \<Rightarrow> play_request \<Rightarrow> int \<Rightarrow> routing \<Rightarrow> admission \<Rightarrow> lease play" where
  "acquire_lease W q limit rt adm =
     pbind (pool_step W 0 pool_http
              (acquire (adm_pool adm) (clock W 0) (PStr (fresh_lease q)) (PStr (req_user q)) (PStr (req_channel q))
                 (map PStr (adm_candidates adm)) (map (\<lambda>(s, c). (PStr s, PInt c)) (adm_capacities adm))
                 (PInt limit))) (\<lambda>l.
       if routing_resource rt \<noteq> None \<and> routing_resource rt \<noteq> Some (lease.source_id l)
       then pbind (pool_step W 1 pool_http
                     (release (adm_pool adm) (clock W 1) (PStr (lease.lease_id l)) (PStr (req_user q))))
              (\<lambda>_. pfail admission_unavailable)
       else preturn l)"

fun session_http :: "reg_exn \<Rightarrow> http_exn" where
  "session_http SessionLimitExceeded = limit_conflict"
| "session_http SessionStateError = HttpError 503 ''Live session admission is unavailable.''"
| "session_http _ = Unhandled"

definition admit_session :: "world \<Rightarrow> play_request \<Rightarrow> pool \<Rightarrow> int \<Rightarrow> lease \<Rightarrow> session_record play" where
  "admit_session W q P limit l =
     pcatch (session_step W 2 session_http
               (admit (session_ttl W) (clock W 2) (PStr (fresh_session q)) (PStr (req_user q)) (PStr (req_channel q))
                  (PInt limit) (PStr (lease.lease_id l))))
       (failing_after (drop_lease W 3 P l (req_user q)))"

definition needs_cleanup :: http_exn where
  "needs_cleanup = HttpError 503 ''Shared live playback requires cleanup reconciliation.''"

definition resolve_stream ::
  "world \<Rightarrow> play_request \<Rightarrow> pool \<Rightarrow> string \<Rightarrow> string \<Rightarrow> jellyfin_answer \<Rightarrow> lease \<Rightarrow> session_record \<Rightarrow> string play" where
  "resolve_stream W q P jellyfin_user item answer l r =
     pcatch
       (pbind (pure_play (subtitle_stream_index (req_subtitle q))) (\<lambda>_.
          stream_step W 4 play_http
            (resolve_live_session (stream_ttl W) (clock W 4) (clock W 5) (stream_remote W) (session_id r) (req_user q)
               item jellyfin_user answer)))
       (\<lambda>e. if sharing_fingerprint l \<noteq> None then pfail needs_cleanup
            else failing_after (pbind (drop_session W 6 r (req_user q)) (\<lambda>_. drop_lease W 7 P l (req_user q))) e)"

text \<open>\<open>capability\<close> is the release and bootstrap capability for the path, \<open>None\<close> when their creation raises.\<close>

definition grant_capability ::
  "world \<Rightarrow> play_request \<Rightarrow> pool \<Rightarrow> (string \<Rightarrow> 'c option) \<Rightarrow> lease \<Rightarrow> session_record \<Rightarrow> string \<Rightarrow> 'c play" where
  "grant_capability W q P capability l r path =
     (case capability path of
        Some c \<Rightarrow> preturn c
      | None \<Rightarrow>
          failing_after
            (pbind (drop_stream W 8 r (req_user q)) (\<lambda>_.
             pbind (drop_session W 9 r (req_user q)) (\<lambda>_. drop_lease W 10 P l (req_user q)))) Unhandled)"

record 'c live_response =
  resp_session :: string
  resp_lease :: string
  resp_path :: string
  resp_capability :: 'c
  resp_ttl :: int

definition read_sports_live_session ::
  "(pyval \<Rightarrow> string) \<Rightarrow> service \<Rightarrow> (string \<Rightarrow> string) \<Rightarrow> admission_setting \<Rightarrow> state_file \<Rightarrow> jellyfin_answer
   \<Rightarrow> (string \<Rightarrow> 'c option) \<Rightarrow> world \<Rightarrow> play_request \<Rightarrow> 'c live_response play" where
  "read_sports_live_session render service digest setting limits answer capability W q =
     pbind (pure_play (prepare_live render service digest setting (pool_of W) limits q))
       (\<lambda>(jellyfin_user, item, limit, rt, adm).
     pbind (acquire_lease W q limit rt adm) (\<lambda>l.
     pbind (admit_session W q (adm_pool adm) limit l) (\<lambda>r.
     pbind (resolve_stream W q (adm_pool adm) jellyfin_user item answer l r) (\<lambda>path.
     pbind (grant_capability W q (adm_pool adm) capability l r path) (\<lambda>c.
       preturn \<lparr>resp_session = session_id r, resp_lease = lease.lease_id l, resp_path = path, resp_capability = c,
                resp_ttl = session_ttl W\<rparr>)))))"

subsection \<open>Heartbeat and release\<close>

definition reconciliation_required :: http_exn where
  "reconciliation_required = HttpError 503 ''Live stream cleanup requires reconciliation.''"

fun ownership_http :: "stream_exn \<Rightarrow> http_exn" where
  "ownership_http LiveStreamOwnershipError = reconciliation_required"
| "ownership_http _ = Unhandled"

definition session_missing :: http_exn where
  "session_missing = HttpError 404 ''Live session was not found.''"

fun state_http :: "reg_exn \<Rightarrow> http_exn" where
  "state_http SessionNotFound = session_missing"
| "state_http SessionStateError = HttpError 503 ''Live session state is unavailable.''"
| "state_http _ = Unhandled"

definition lease_unavailable :: http_exn where
  "lease_unavailable = HttpError 503 ''Live session resource lease is unavailable.''"

fun lease_http :: "pool_exn \<Rightarrow> http_exn" where
  "lease_http LeaseNotFound = lease_unavailable"
| "lease_http PoolStateError = lease_unavailable"
| "lease_http _ = Unhandled"

definition heartbeat_sports_live_session :: "world \<Rightarrow> string \<Rightarrow> string \<Rightarrow> session_record play" where
  "heartbeat_sports_live_session W sid user =
     pbind (stream_step W 0 ownership_http (heartbeat_stream (stream_ttl W) (clock W 0) sid user)) (\<lambda>_.
     pbind (session_step W 1 state_http (session_heartbeat (session_ttl W) (clock W 1) (PStr sid) (PStr user))) (\<lambda>r.
       case session_lease r of
         None \<Rightarrow> preturn r
       | Some lid \<Rightarrow>
           pbind (pcatch (pool_step W 2 lease_http
                     (Resource_Pool.heartbeat (pool_of W) (clock W 2) (PStr lid) (PStr user)))
                  (\<lambda>e. if e = lease_unavailable
                       then failing_after (pbind (drop_stream W 3 r user) (\<lambda>_. drop_session W 4 r user)) e
                       else pfail e))
             (\<lambda>_. preturn r)))"

fun release_http :: "pool_exn \<Rightarrow> http_exn" where
  "release_http PoolStateError = HttpError 503 ''Live session resource release is unavailable.''"
| "release_http _ = Unhandled"

definition release_owned_session :: "world \<Rightarrow> string \<Rightarrow> string \<Rightarrow> unit play" where
  "release_owned_session W sid user =
     pbind (stream_step W 0 ownership_http (release_stream (stream_remote W) sid user)) (\<lambda>_.
     pbind (session_step W 1 state_http (release_record (PStr sid) (PStr user))) (\<lambda>released.
       case released of
         None \<Rightarrow> pfail session_missing
       | Some r \<Rightarrow>
           (case session_lease r of
              None \<Rightarrow> preturn ()
            | Some lid \<Rightarrow>
                pbind (pool_step W 2 release_http (release (pool_of W) (clock W 2) (PStr lid) (PStr user)))
                  (\<lambda>_. preturn ()))))"

text \<open>The claims of a release capability: its user, session, target and lease.\<close>

record release_claims =
  claim_sub :: string
  claim_session :: string
  claim_target :: string
  claim_lease :: string

definition release_with_capability :: "world \<Rightarrow> string \<Rightarrow> release_claims \<Rightarrow> unit play" where
  "release_with_capability W sid c =
     pbind (session_step W 3 state_http (\<lambda>f. (read_owned_record (PStr sid) (PStr (claim_sub c)) f, f))) (\<lambda>r.
       case r of
         None \<Rightarrow> pfail session_missing
       | Some rec \<Rightarrow>
           if session_target rec \<noteq> claim_target c \<or> session_lease rec \<noteq> Some (claim_lease c)
           then pfail (HttpError 401 ''Live release authorization is out of scope.'')
           else release_owned_session W sid (session_user rec))"

subsection \<open>Options\<close>

record option_choice =
  choice_id :: string
  choice_label :: string
  choice_configured :: bool

definition read_sports_live_options ::
  "(pyval \<Rightarrow> string) \<Rightarrow> service \<Rightarrow> string \<Rightarrow> http_exn + option_choice list" where
  "read_sports_live_options render service channel =
     (let unavailable = service_http (HttpError 503 ''Playback choices are temporarily unavailable.'') in
      rbind (map_exn unavailable (list_live_sources render service)) (\<lambda>sources.
      rbind (live_source_of channel sources) (\<lambda>s.
      rbind (map_exn unavailable (list_live_tv_bindings render service)) (\<lambda>bindings.
        Inr (map (\<lambda>(i, p). \<lparr>choice_id = listed_option_id p,
                            choice_label = (if i = 0 then ''Primary'' else ''Backup '' @ dec (int i)),
                            choice_configured = listed_channel p \<in> fst ` set bindings\<rparr>)
               (enumerate 0 (case listed_options s of None \<Rightarrow> [] | Some ps \<Rightarrow> ps)))))))"

definition read_sports_live_availability ::
  "(pyval \<Rightarrow> string) \<Rightarrow> service \<Rightarrow> string \<Rightarrow> string \<Rightarrow> http_exn + string option" where
  "read_sports_live_availability render service provider event =
     map_exn (service_http unavailable_live) (get_live_availability render service provider event)"

end
