(* ===== verification/Playback_Correct.thy ===== *)
theory Playback_Correct
  imports Playback_Routes Pool_Lifecycle Registry_Correct Stream_Safety
begin

text \<open>
  What the single operations of a playback request do to the lease and the session with the identifiers of
  that request, and what a run of them keeps while other requests run in between.
\<close>

lemma map_of_snoc_fresh: "k \<notin> fst ` set xs \<Longrightarrow> map_of (xs @ [(k, v)]) k = Some v"
  by (induction xs) auto

lemma ex_Inr_Bool [simp]: "Ex Not" "\<exists>b. b"
  by auto

subsection \<open>Own rows\<close>

definition lease_row :: "state_file \<Rightarrow> string \<Rightarrow> row option" where
  "lease_row f lid = (case read_state f of Inl _ \<Rightarrow> None | Inr st \<Rightarrow> map_of (pool_leases st) lid)"

definition session_entry :: "state_file \<Rightarrow> string \<Rightarrow> session_row option" where
  "session_entry f sid = (case read_registry f of Inl _ \<Rightarrow> None | Inr ss \<Rightarrow> map_of ss sid)"

text \<open>A record of the session that no release can close: its outcome is open, or it is another user's.\<close>

definition stuck_stream :: "string \<Rightarrow> string \<Rightarrow> state_file \<Rightarrow> bool" where
  "stuck_stream sid user f \<longleftrightarrow>
     (case load_streams f of
        Inl _ \<Rightarrow> True
      | Inr ss \<Rightarrow> (case map_of ss sid of None \<Rightarrow> False | Some r \<Rightarrow> own_status r \<noteq> Active \<or> own_user r \<noteq> user))"

definition sound_files :: "live_state \<Rightarrow> bool" where
  "sound_files s \<longleftrightarrow> pool_file.readable (pool_json s) \<and> registry_file.readable (session_json s)"

definition lease_mine :: "string \<Rightarrow> string \<Rightarrow> state_file \<Rightarrow> bool" where
  "lease_mine lid u f \<longleftrightarrow> (\<forall>r. lease_row f lid = Some r \<longrightarrow> row_user r = u)"

definition session_mine :: "string \<Rightarrow> string \<Rightarrow> state_file \<Rightarrow> bool" where
  "session_mine sid u f \<longleftrightarrow> (\<forall>r. session_entry f sid = Some r \<longrightarrow> srow_user r = u)"

text \<open>
  Other requests leave the state files readable and do not touch what carries the fresh identifiers of this
  request, except that they may remove its lease or session when it expires. A stuck stream stays so until
  an operator reconciles it.
\<close>

definition calm :: "world \<Rightarrow> string \<Rightarrow> string \<Rightarrow> string \<Rightarrow> bool" where
  "calm W lid sid user \<longleftrightarrow>
     (\<forall>k s. (sound_files s \<longrightarrow> sound_files (interfere W k s))
        \<and> (lease_row (pool_json (interfere W k s)) lid \<in> {None, lease_row (pool_json s) lid})
        \<and> (session_entry (session_json (interfere W k s)) sid \<in> {None, session_entry (session_json s) sid})
        \<and> (stuck_stream sid user (stream_json s) \<longrightarrow> stuck_stream sid user (stream_json (interfere W k s))))"

lemma lease_mine_calm:
  "calm W lid sid user \<Longrightarrow> lease_mine lid u (pool_json s) \<Longrightarrow> lease_mine lid u (pool_json (interfere W k s))"
  unfolding calm_def lease_mine_def by (metis empty_iff insert_iff option.distinct(1))

lemma session_mine_calm:
  "calm W lid sid user \<Longrightarrow> session_mine sid u (session_json s) \<Longrightarrow> session_mine sid u (session_json (interfere W k s))"
  unfolding calm_def session_mine_def by (metis empty_iff insert_iff option.distinct(1))

lemma gone_calm:
  "calm W lid sid user \<Longrightarrow> lease_row (pool_json s) lid = None \<Longrightarrow> lease_row (pool_json (interfere W k s)) lid = None"
  "calm W lid sid user \<Longrightarrow> session_entry (session_json s) sid = None
   \<Longrightarrow> session_entry (session_json (interfere W k s)) sid = None"
  by (metis calm_def empty_iff insert_iff)+

lemma sound_calm: "calm W lid sid user \<Longrightarrow> sound_files s \<Longrightarrow> sound_files (interfere W k s)"
  unfolding calm_def by blast

subsection \<open>The pool\<close>

lemma session_identifier_eq: "session_identifier v = required_identifier v"
  by (cases v) (simp_all add: session_identifier.simps required_identifier.simps)

lemma readable_write_state: "wf_state st \<Longrightarrow> pool_file.readable (write_state st)"
  by (rule pool_file.readable_write)

lemma lease_row_write: "wf_state st \<Longrightarrow> lease_row (write_state st) lid = map_of (pool_leases st) lid"
  by (simp add: lease_row_def read_write_state norm_state_map_of)

lemma lease_row_read: "read_state f = Inr st \<Longrightarrow> lease_row f lid = map_of (pool_leases st) lid"
  by (simp add: lease_row_def)

lemma prune_stale_map:
  assumes "wf_state st"
  shows "map_of (prune_stale P (pool_leases st) now) lid \<in> {None, map_of (pool_leases st) lid}"
  using assms unfolding prune_stale_def wf_state_def wf_leases_def
  by (subst map_of_filter_fst) (auto split: option.splits)

lemma acquire_own:
  assumes "acquire P now (PStr lid) uv tv cs caps limit f = (res, f')" and "wf_pool P"
    and "is_identifier lid" and "pool_file.readable f" and "lease_row f lid = None"
  shows "pool_file.readable f' \<and> (case res of
     Inl _ \<Rightarrow> f' = f
   | Inr l \<Rightarrow> lease.lease_id l = lid \<and> required_identifier uv = Inr (user_id l)
       \<and> lease_row f' lid = Some (lease_payload l))"
proof (cases res)
  case (Inl e)
  then have "f' = f" using assms(1) acquire_Inl by metis
  with Inl assms(4) show ?thesis by simp
next
  case (Inr l)
  then obtain a st st' where a: "acquire_args_of uv tv cs caps limit = Inr a" and st: "read_state f = Inr st"
      and c: "acquire_core P now (PStr lid) a st = Inr (l, st')" and f': "f' = write_state st'"
    using acquire_Inr assms(1) by (metis)
  note core = acquire_core_Inr[OF c]
  have wf: "wf_state st'" by (rule acquire_core_wf[OF read_state_sound[OF st] assms(2) a c])
  have lid: "lease.lease_id l = lid" using core(3) assms(3) by simp
  have "lease_row f' lid = Some (new_row P now a (lease.source_id l))"
    using core(4) unfolding f' lease_row_write[OF wf] core(5) lid by (simp add: map_of_snoc_fresh del: map_of_append)
  moreover have "lease_payload l = new_row P now a (lease.source_id l)"
    using core(7) by (metis payload_of_lease)
  moreover have "user_id l = arg_user a" using core(7) by (metis lease.simps(2) lease_from_payload_def new_row_def row.simps(1))
  ultimately show ?thesis
    using Inr lid wf acquire_args_sound(5)[OF a] by (simp add: f' readable_write_state)
qed

lemma release_own:
  assumes "release P now (PStr lid) uv f = (res, f')" and "is_identifier lid" and "required_identifier uv = Inr u"
    and "pool_file.readable f" and "lease_mine lid u f"
  shows "pool_file.readable f' \<and> (\<exists>b. res = Inr b) \<and> lease_row f' lid = None"
proof -
  obtain st where st: "read_state f = Inr st" using assms(4) by (auto simp: pool_file.readable_def)
  have args: "owner_args (PStr lid) uv = Inr (lid, u)" using assms(2,3) by (simp add: owner_args_def)
  with assms(1) st obtain b where b: "res = Inr b"
    by (auto simp: release_def Let_def split: option.splits)
  let ?leases = "prune_stale P (pool_leases st) now"
  from release_Inr[OF assms(1)[unfolded b]] args st
  have own: "b = (owned_row ?leases lid u \<noteq> None)"
    and f': "f' = write_state \<lparr>pool_version = pool_version st, pool_leases = (if b then AList.delete lid ?leases else ?leases)\<rparr>"
    by (metis Pair_inject sum.inject(2))+
  have wf: "wf_state st" by (rule read_state_sound[OF st])
  have pr: "map_of ?leases lid \<in> {None, map_of (pool_leases st) lid}" by (rule prune_stale_map[OF wf])
  have mine: "map_of ?leases lid = Some r \<Longrightarrow> row_user r = u" for r
    using assms(5) pr by (auto simp: lease_mine_def lease_row_read[OF st])
  show ?thesis
  proof (cases b)
    case True
    with wf_state_release[OF wf] b show ?thesis
      by (simp add: f' readable_write_state lease_row_write dict_simps)
  next
    case False
    then have "map_of ?leases lid = None" using own mine by (auto simp: owned_row_def split: option.splits)
    with wf_state_prune[OF wf] b False show ?thesis by (simp add: f' readable_write_state lease_row_write)
  qed
qed

subsection \<open>The session registry\<close>

lemma session_entry_write: "wf_sessions ss \<Longrightarrow> session_entry (write_registry ss) sid = map_of ss sid"
  by (simp add: session_entry_def read_write_registry registry_map_of)

lemma session_entry_read: "read_registry f = Inr ss \<Longrightarrow> session_entry f sid = map_of ss sid"
  by (simp add: session_entry_def)

lemma admit_own:
  assumes "admit ttl now (PStr sid) uv tv limit (PStr lid) f = (res, f')" and "\<not> flt now (Fin 0)"
    and "is_identifier sid" and "registry_file.readable f" and "session_entry f sid = None"
  shows "registry_file.readable f' \<and> (case res of
     Inl _ \<Rightarrow> f' = f
   | Inr r \<Rightarrow> session_id r = sid \<and> required_identifier uv = Inr (session_user r) \<and> session_lease r = Some (strip lid)
       \<and> map_option (record_of sid) (session_entry f' sid) = Some r)"
proof (cases res)
  case (Inl e)
  with assms show ?thesis by (auto simp: admit_def split: sum.splits prod.splits)
next
  case (Inr r)
  then obtain u t n l all sid' row where a: "admit_args uv tv limit (PStr lid) = Inr (u, t, n, l)"
      "read_registry f = Inr all" "session_identifier (PStr sid) = Inr sid'"
      "sid' \<notin> fst ` set (fst (prune_sessions ttl now all))"
      "row = \<lparr>srow_user = u, srow_target = t, srow_created = now, srow_seen = now, srow_lease = l\<rparr>"
      "r = record_of sid' row" "f' = write_registry (fst (prune_sessions ttl now all) @ [(sid', row)])"
    using admit_Inr assms(1) by metis
  have sid: "sid' = sid" using a(3) assms(3) by (simp add: session_identifier_eq)
  let ?ss = "fst (prune_sessions ttl now all) @ [(sid, row)]"
  have "wf_session row" using admit_row_wf[OF a(1) assms(2)] a(5) by simp
  moreover have "session_id_ok sid" using session_identifier_sound[OF a(3)] sid by simp
  ultimately have wf: "wf_sessions ?ss"
    using a(4) sid by (intro wf_sessions_snoc wf_sessions_prune read_registry_sound[OF a(2)]) simp_all
  have "map_of ?ss sid = Some row"
    using a(4) by (simp add: sid map_of_snoc_fresh del: map_of_append)
  then have e: "session_entry f' sid = Some row" unfolding a(7) sid session_entry_write[OF wf] .
  have l: "l = Some (strip lid)"
    using a(1) by (auto simp: admit_args_def reg_arg_def rbind_Inr_iff session_identifier_eq required_identifier.simps
        Let_def split: if_split_asm)
  from e l show ?thesis
    using Inr a(5,6) sid wf admit_args_sound(4)[OF a(1)] registry_file.readable_write[OF wf]
    by (simp add: a(7) record_of_def session_identifier_eq)
qed

lemma release_session_own:
  assumes "release_session (PStr sid) uv f = (res, f')" and "is_identifier sid" and "required_identifier uv = Inr u"
    and "registry_file.readable f" and "session_mine sid u f"
  shows "registry_file.readable f' \<and> (\<exists>b. res = Inr b) \<and> session_entry f' sid = None"
proof -
  obtain ss where ss: "read_registry f = Inr ss" using assms(4) by (auto simp: registry_file.readable_def)
  have args: "session_args (PStr sid) uv = Inr (sid, u)"
    using assms(2,3) by (simp add: session_args_def reg_arg_def session_identifier_eq)
  have wf: "wf_sessions (AList.delete sid ss)" by (intro wf_sessions_del read_registry_sound[OF ss])
  show ?thesis
  proof (cases "map_of ss sid")
    case None
    with assms(1) args ss have "f' = f \<and> res = Inr False"
      by (auto simp: release_session_def release_record_def owned_session_def)
    with None assms(4) show ?thesis by (simp add: session_entry_read[OF ss])
  next
    case (Some r)
    then have "srow_user r = u" using assms(5) by (simp add: session_mine_def session_entry_read[OF ss])
    with Some assms(1) args ss wf registry_file.readable_write[OF wf] show ?thesis
      by (auto simp: release_session_def release_record_def owned_session_def session_entry_write dict_simps)
  qed
qed

subsection \<open>The streams\<close>

lemma release_stream_gone:
  assumes "release_stream w sid user f = (Inr b, es)"
  shows "\<exists>ss. load_streams (file_after f es) = Inr ss \<and> map_of ss sid = None"
proof -
  obtain ss where ss: "load_streams f = Inr ss" using assms by (auto simp: release_stream_def split: sum.splits)
  show ?thesis
  proof (cases "map_of ss sid")
    case None
    with assms ss show ?thesis by (auto simp: release_stream_def)
  next
    case (Some r)
    with assms ss obtain ss' where c: "close_stream w sid r ss = (Inr ss', es)"
      by (auto simp: release_stream_def split: if_split_asm prod.splits sum.splits)
    then obtain calls where es: "es = Wrote (set_status Closing sid r ss) # calls @ [Wrote (AList.delete sid ss)]"
      by (auto simp: close_stream_def Let_def split: if_split_asm prod.splits)
    have wf: "wf_streams (AList.delete sid ss)"
      using load_streams_wf[OF ss] by (auto simp: wf_streams_def dict_simps list_all_iff set_dict_del)
    show ?thesis
      unfolding es
      by (auto simp: read_write_streams[OF wf] sorted_items_map_of wf[unfolded wf_streams_def] dict_simps
          load_streams_wf[OF ss, unfolded wf_streams_def])
  qed
qed

lemma release_stream_stuck:
  assumes "release_stream w sid user f = (Inl e, es)"
  shows "stuck_stream sid user (file_after f es)"
proof (cases "load_streams f")
  case (Inl x)
  with assms show ?thesis by (auto simp: release_stream_def stuck_stream_def)
next
  case (Inr ss)
  with assms obtain r where r: "map_of ss sid = Some r" by (auto simp: release_stream_def split: option.splits)
  show ?thesis
  proof (cases "own_user r \<noteq> user \<or> own_status r \<noteq> Active")
    case True
    with assms Inr r show ?thesis
      by (auto simp: release_stream_def stuck_stream_def close_stream_def split: if_split_asm)
  next
    case False
    with assms Inr r obtain calls where es:
        "es = Wrote (set_status Closing sid r ss) # calls @ [Wrote (set_status Blocked sid r ss)]"
      by (auto simp: release_stream_def close_stream_def Let_def split: if_split_asm prod.splits sum.splits)
    have "wf_owned r" using load_streams_wf[OF Inr] map_of_SomeD[OF r] by (auto simp: wf_streams_def list_all_iff)
    then have wf: "wf_streams (set_status Blocked sid r ss)"
      using load_streams_wf[OF Inr] map_of_SomeD[OF r]
      by (auto simp: wf_streams_def set_status_def dict_simps list_all_iff set_dict_set wf_owned_def)
    show ?thesis
      unfolding es stuck_stream_def
      by (simp add: read_write_streams[OF wf] sorted_items_map_of wf[unfolded wf_streams_def])
         (simp add: set_status_def dict_simps)
  qed
qed

end
