(* ===== verification/Playback_Safety.thy ===== *)
theory Playback_Safety
  imports Playback_Correct Shared_Safety
begin

text \<open>
  What a live playback request leaves behind, with other requests running between any two of its operations:
  a failed one gives up its lease and its session, unless an operator has to reconcile a stream first; and a
  release closes the stream before the session and the session before the lease.
\<close>

subsection \<open>The identities of a request\<close>

definition owned_request :: "world \<Rightarrow> string \<Rightarrow> string \<Rightarrow> string \<Rightarrow> string \<Rightarrow> bool" where
  "owned_request W lid sid user u \<longleftrightarrow>
     calm W lid sid user \<and> is_identifier lid \<and> is_identifier sid \<and> required_identifier (PStr user) = Inr u
     \<and> (\<forall>k. \<not> flt (clock W k) (Fin 0))"

definition mine :: "string \<Rightarrow> string \<Rightarrow> string \<Rightarrow> live_state \<Rightarrow> bool" where
  "mine lid sid u s \<longleftrightarrow> sound_files s \<and> lease_mine lid u (pool_json s) \<and> session_mine sid u (session_json s)"

definition lease_gone :: "string \<Rightarrow> live_state \<Rightarrow> bool" where
  "lease_gone lid s \<longleftrightarrow> lease_row (pool_json s) lid = None"

definition session_gone :: "string \<Rightarrow> live_state \<Rightarrow> bool" where
  "session_gone sid s \<longleftrightarrow> session_entry (session_json s) sid = None"

text \<open>What other requests keep: a property of the state that holds again after they ran.\<close>

lemma calm_keeps:
  assumes "owned_request W lid sid user u"
  shows "mine lid sid u s \<Longrightarrow> mine lid sid u (interfere W k s)"
    and "lease_gone lid s \<Longrightarrow> lease_gone lid (interfere W k s)"
    and "session_gone sid s \<Longrightarrow> session_gone sid (interfere W k s)"
    and "stuck_stream sid user (stream_json s) \<Longrightarrow> stuck_stream sid user (stream_json (interfere W k s))"
proof -
  have c: "calm W lid sid user" using assms by (simp add: owned_request_def)
  show "mine lid sid u s \<Longrightarrow> mine lid sid u (interfere W k s)"
    using c by (auto simp: mine_def intro: sound_calm lease_mine_calm session_mine_calm)
  show "lease_gone lid s \<Longrightarrow> lease_gone lid (interfere W k s)"
    using gone_calm(1)[OF c] by (simp add: lease_gone_def)
  show "session_gone sid s \<Longrightarrow> session_gone sid (interfere W k s)"
    using gone_calm(2)[OF c] by (simp add: session_gone_def)
  show "stuck_stream sid user (stream_json s) \<Longrightarrow> stuck_stream sid user (stream_json (interfere W k s))"
    using c by (simp add: calm_def)
qed

subsection \<open>The operations of a request\<close>

lemma pool_step_cases:
  assumes "pool_step W k h operation s = (res, s')"
  obtains r f where "operation (pool_json s) = (r, f)" "res = map_exn h r"
    "s' = interfere W k (s\<lparr>pool_json := f\<rparr>)"
  using assms by (auto simp: pool_step_def split: prod.splits)

lemma session_step_cases:
  assumes "session_step W k h operation s = (res, s')"
  obtains r f where "operation (session_json s) = (r, f)" "res = map_exn h r"
    "s' = interfere W k (s\<lparr>session_json := f\<rparr>)"
  using assms by (auto simp: session_step_def split: prod.splits)

lemma stream_step_cases:
  assumes "stream_step W k h operation s = (res, s')"
  obtains r es where "operation (stream_json s) = (r, es)" "res = map_exn h r"
    "s' = interfere W k (s\<lparr>stream_json := file_after (stream_json s) es\<rparr>)"
  using assms by (auto simp: stream_step_def split: prod.splits)

lemma release_step_own:
  assumes o: "owned_request W lid sid user u" and m: "mine lid sid u s" and l: "lease.lease_id l = lid"
    and r: "pool_step W k h (release P (clock W k) (PStr (lease.lease_id l)) (PStr user)) s = (res, s')"
  shows "mine lid sid u s' \<and> lease_gone lid s' \<and> (\<exists>b. res = Inr b)
    \<and> (session_gone sid s \<longrightarrow> session_gone sid s')"
proof -
  obtain r f where op: "release P (clock W k) (PStr lid) (PStr user) (pool_json s) = (r, f)"
    and res: "res = map_exn h r" and s': "s' = interfere W k (s\<lparr>pool_json := f\<rparr>)"
    using r l by (auto elim: pool_step_cases)
  have own: "pool_file.readable f \<and> (\<exists>b. r = Inr b) \<and> lease_row f lid = None"
    using release_own[OF op] o m by (auto simp: owned_request_def mine_def sound_files_def)
  let ?s = "s\<lparr>pool_json := f\<rparr>"
  have "mine lid sid u ?s" "lease_gone lid ?s" "session_gone sid s \<longrightarrow> session_gone sid ?s"
    using own m by (auto simp: mine_def sound_files_def lease_mine_def lease_gone_def session_gone_def)
  with own show ?thesis unfolding s' res by (auto intro: calm_keeps[OF o])
qed

lemma drop_lease_own:
  assumes "owned_request W lid sid user u" and "mine lid sid u s" and "lease.lease_id l = lid"
    and "drop_lease W k P l user s = (res, s')"
  shows "mine lid sid u s' \<and> lease_gone lid s' \<and> (\<exists>b. res = Inr b) \<and> (session_gone sid s \<longrightarrow> session_gone sid s')"
  using release_step_own[OF assms(1-3)] assms(4) unfolding drop_lease_def .

lemma drop_session_own:
  assumes o: "owned_request W lid sid user u" and m: "mine lid sid u s" and l: "session_id r = sid"
    and r: "drop_session W k r user s = (res, s')"
  shows "mine lid sid u s' \<and> session_gone sid s' \<and> (\<exists>b. res = Inr b)
    \<and> (lease_gone lid s \<longrightarrow> lease_gone lid s')"
proof -
  obtain x f where op: "release_session (PStr sid) (PStr user) (session_json s) = (x, f)"
    and res: "res = map_exn unhandled x" and s': "s' = interfere W k (s\<lparr>session_json := f\<rparr>)"
    using r l by (auto simp: drop_session_def elim: session_step_cases)
  have own: "registry_file.readable f \<and> (\<exists>b. x = Inr b) \<and> session_entry f sid = None"
    using release_session_own[OF op] o m by (auto simp: owned_request_def mine_def sound_files_def)
  let ?s = "s\<lparr>session_json := f\<rparr>"
  have "mine lid sid u ?s" "session_gone sid ?s" "lease_gone lid s \<longrightarrow> lease_gone lid ?s"
    using own m by (auto simp: mine_def sound_files_def session_mine_def lease_gone_def session_gone_def)
  with own show ?thesis unfolding s' res by (auto intro: calm_keeps[OF o])
qed

lemma drop_stream_own:
  assumes o: "owned_request W lid sid user u" and m: "mine lid sid u s" and l: "session_id r = sid"
    and r: "drop_stream W k r user s = (res, s')"
  shows "mine lid sid u s' \<and> (case res of Inl _ \<Rightarrow> stuck_stream sid user (stream_json s') | Inr _ \<Rightarrow> True)"
proof -
  obtain x es where op: "release_stream (stream_remote W) sid user (stream_json s) = (x, es)"
    and res: "res = map_exn unhandled x"
    and s': "s' = interfere W k (s\<lparr>stream_json := file_after (stream_json s) es\<rparr>)"
    using r l by (auto simp: drop_stream_def elim: stream_step_cases)
  let ?s = "s\<lparr>stream_json := file_after (stream_json s) es\<rparr>"
  have "mine lid sid u ?s" using m by (simp add: mine_def sound_files_def)
  moreover have "x = Inl e \<Longrightarrow> stuck_stream sid user (stream_json ?s)" for e
    using release_stream_stuck op by simp
  ultimately show ?thesis unfolding s' res by (cases x) (auto intro: calm_keeps[OF o])
qed

subsection \<open>The stages of a request\<close>

text \<open>A state in which nothing of a failed request is left to clean up, and one that waits for an operator.\<close>

definition cleaned :: "string \<Rightarrow> string \<Rightarrow> live_state \<Rightarrow> bool" where
  "cleaned lid sid s \<longleftrightarrow> lease_gone lid s \<and> session_gone sid s"

lemma acquire_lease_own:
  assumes o: "owned_request W (fresh_lease q) (fresh_session q) (req_user q) u" and "wf_pool (adm_pool adm)"
    and sound: "sound_files s" and fresh: "cleaned (fresh_lease q) (fresh_session q) s"
    and run: "acquire_lease W q limit rt adm s = (res, s')"
  shows "mine (fresh_lease q) (fresh_session q) u s' \<and> session_gone (fresh_session q) s' \<and> (case res of
      Inl e \<Rightarrow> lease_gone (fresh_lease q) s' | Inr l \<Rightarrow> lease.lease_id l = fresh_lease q)"
proof -
  let ?lid = "fresh_lease q" and ?sid = "fresh_session q" and ?P = "adm_pool adm"
  let ?acq = "acquire ?P (clock W 0) (PStr ?lid) (PStr (req_user q)) (PStr (req_channel q))
    (map PStr (adm_candidates adm)) (map (\<lambda>(s, c). (PStr s, PInt c)) (adm_capacities adm)) (PInt limit)"
  have step: "mine ?lid ?sid u s1 \<and> session_gone ?sid s1 \<and> (case r of
      Inl e \<Rightarrow> lease_gone ?lid s1 | Inr l \<Rightarrow> lease.lease_id l = ?lid)"
    if "pool_step W 0 pool_http ?acq s = (r, s1)" for r s1
    using that
  proof (rule pool_step_cases)
    fix x f
    assume op: "?acq (pool_json s) = (x, f)" and r: "r = map_exn pool_http x"
      and s1: "s1 = interfere W 0 (s\<lparr>pool_json := f\<rparr>)"
    let ?s = "s\<lparr>pool_json := f\<rparr>"
    have own: "pool_file.readable f \<and> (case x of Inl _ \<Rightarrow> f = pool_json s
        | Inr l \<Rightarrow> lease.lease_id l = ?lid \<and> required_identifier (PStr (req_user q)) = Inr (user_id l)
            \<and> lease_row f ?lid = Some (lease_payload l))"
      using acquire_own[OF op assms(2)] o sound fresh
      by (auto simp: owned_request_def sound_files_def cleaned_def lease_gone_def)
    then have "mine ?lid ?sid u ?s" "session_gone ?sid ?s"
      using o sound fresh
      by (auto simp: mine_def sound_files_def lease_mine_def session_mine_def owned_request_def cleaned_def
          lease_gone_def session_gone_def lease_payload_def split: sum.splits)
    moreover have "x = Inl e \<Longrightarrow> lease_gone ?lid ?s" for e
      using own fresh by (simp add: cleaned_def lease_gone_def)
    ultimately show "mine ?lid ?sid u s1 \<and> session_gone ?sid s1 \<and> (case r of
        Inl e \<Rightarrow> lease_gone ?lid s1 | Inr l \<Rightarrow> lease.lease_id l = ?lid)"
      unfolding s1 r using own by (cases x) (auto intro: calm_keeps[OF o])
  qed
  show ?thesis
    using run unfolding acquire_lease_def
  proof (cases rule: pbind_cases)
    case (failed e)
    then show ?thesis using step by force
  next
    case (went_on l s1)
    note st = step[OF went_on(1), unfolded sum.case]
    show ?thesis
    proof (cases "routing_resource rt \<noteq> None \<and> routing_resource rt \<noteq> Some (lease.source_id l)")
      case True
      with went_on(2) obtain x where "pool_step W 1 pool_http
            (release ?P (clock W 1) (PStr (lease.lease_id l)) (PStr (req_user q))) s1 = (x, s')" "\<exists>e. res = Inl e"
        by (auto simp: pfail_def elim!: pbind_cases)
      with release_step_own[OF o] st show ?thesis by fastforce
    next
      case False
      with went_on(2) st show ?thesis by (auto simp: preturn_def)
    qed
  qed
qed

lemma admit_session_own:
  assumes o: "owned_request W (fresh_lease q) (fresh_session q) (req_user q) u"
    and m: "mine (fresh_lease q) (fresh_session q) u s" and fresh: "session_gone (fresh_session q) s"
    and l: "lease.lease_id l = fresh_lease q" and run: "admit_session W q P limit l s = (res, s')"
  shows "mine (fresh_lease q) (fresh_session q) u s' \<and> (case res of
      Inl e \<Rightarrow> cleaned (fresh_lease q) (fresh_session q) s' | Inr r \<Rightarrow> session_id r = fresh_session q)"
proof -
  let ?lid = "fresh_lease q" and ?sid = "fresh_session q"
  let ?adm = "admit (session_ttl W) (clock W 2) (PStr ?sid) (PStr (req_user q)) (PStr (req_channel q)) (PInt limit)
    (PStr (lease.lease_id l))"
  have step: "mine ?lid ?sid u s1 \<and> (case r of
      Inl e \<Rightarrow> session_gone ?sid s1 | Inr rec \<Rightarrow> session_id rec = ?sid)"
    if "session_step W 2 session_http ?adm s = (r, s1)" for r s1
    using that
  proof (rule session_step_cases)
    fix x f
    assume op: "?adm (session_json s) = (x, f)" and r: "r = map_exn session_http x"
      and s1: "s1 = interfere W 2 (s\<lparr>session_json := f\<rparr>)"
    let ?s = "s\<lparr>session_json := f\<rparr>"
    have own: "registry_file.readable f \<and> (case x of Inl _ \<Rightarrow> f = session_json s
        | Inr rec \<Rightarrow> session_id rec = ?sid \<and> required_identifier (PStr (req_user q)) = Inr (session_user rec)
            \<and> session_lease rec = Some (strip (lease.lease_id l))
            \<and> map_option (record_of ?sid) (session_entry f ?sid) = Some rec)"
      using admit_own[OF op] o m fresh by (auto simp: owned_request_def mine_def sound_files_def session_gone_def)
    then have "mine ?lid ?sid u ?s"
      using o m fresh
      by (auto simp: mine_def sound_files_def session_mine_def owned_request_def session_gone_def record_of_def
          split: sum.splits)
    moreover have "x = Inl e \<Longrightarrow> session_gone ?sid ?s" for e using own fresh by (simp add: session_gone_def)
    ultimately show "mine ?lid ?sid u s1 \<and> (case r of
        Inl e \<Rightarrow> session_gone ?sid s1 | Inr rec \<Rightarrow> session_id rec = ?sid)"
      unfolding s1 r using own by (cases x) (auto intro: calm_keeps[OF o])
  qed
  show ?thesis
    using run unfolding admit_session_def
  proof (cases rule: pcatch_cases)
    case (handled e s1)
    then obtain x where "drop_lease W 3 P l (req_user q) s1 = (x, s')" "\<exists>e. res = Inl e"
      by (auto split: sum.splits elim!: failing_after_cases)
    with drop_lease_own[OF o _ l] step[OF handled(1)] show ?thesis by (fastforce simp: cleaned_def)
  next
    case (fine r)
    then show ?thesis using step by fastforce
  qed
qed

text \<open>The cleanup of a failed resolution gives up the session and then the lease.\<close>

lemma drop_both_own:
  assumes o: "owned_request W lid sid user u" and m: "mine lid sid u s"
    and ids: "session_id r = sid" "lease.lease_id l = lid"
    and run: "pbind (drop_session W i r user) (\<lambda>_. drop_lease W j P l user) s = (res, s')"
  shows "mine lid sid u s' \<and> cleaned lid sid s' \<and> (\<exists>b. res = Inr b)"
  using run
proof (cases rule: pbind_cases)
  case (failed e)
  with drop_session_own[OF o m ids(1)] show ?thesis by fastforce
next
  case (went_on b s1)
  from drop_session_own[OF o m ids(1) went_on(1)] have "mine lid sid u s1" "session_gone sid s1" by simp_all
  with drop_lease_own[OF o _ ids(2) went_on(2)] show ?thesis by (simp add: cleaned_def)
qed

lemma stream_step_mine:
  assumes o: "owned_request W lid sid user u" and m: "mine lid sid u s"
    and run: "stream_step W k h operation s = (res, s')"
  shows "mine lid sid u s'"
  using run
proof (rule stream_step_cases)
  fix x es
  assume "s' = interfere W k (s\<lparr>stream_json := file_after (stream_json s) es\<rparr>)"
  moreover have "mine lid sid u (s\<lparr>stream_json := f\<rparr>)" for f using m by (simp add: mine_def sound_files_def)
  ultimately show ?thesis using calm_keeps(1)[OF o] by simp
qed

lemma resolve_stream_own:
  assumes o: "owned_request W lid sid (req_user q) u" and m: "mine lid sid u s"
    and ids: "session_id r = sid" "lease.lease_id l = lid"
    and run: "resolve_stream W q P j item answer l r s = (res, s')"
  shows "mine lid sid u s' \<and> (case res of Inl e \<Rightarrow> cleaned lid sid s' \<or> e = needs_cleanup | Inr _ \<Rightarrow> True)"
  using run unfolding resolve_stream_def
proof (cases rule: pcatch_cases)
  case (handled e s1)
  have m1: "mine lid sid u s1"
    using handled(1) m by (auto simp: pure_play_def elim!: pbind_cases dest!: stream_step_mine[OF o m])
  show ?thesis
  proof (cases "sharing_fingerprint l \<noteq> None")
    case True
    with handled(2) m1 show ?thesis by (auto simp: pfail_def)
  next
    case False
    with handled(2) obtain x where
        x: "pbind (drop_session W 6 r (req_user q)) (\<lambda>_. drop_lease W 7 P l (req_user q)) s1 = (x, s')"
      and res: "res = (case x of Inl e' \<Rightarrow> Inl e' | Inr _ \<Rightarrow> Inl e)"
      by (auto elim: failing_after_cases)
    from drop_both_own[OF o m1 ids x] res show ?thesis by auto
  qed
next
  case (fine path)
  then show ?thesis using m by (auto simp: pure_play_def elim!: pbind_cases dest!: stream_step_mine[OF o m])
qed

lemma grant_capability_own:
  assumes o: "owned_request W lid sid (req_user q) u" and m: "mine lid sid u s"
    and ids: "session_id r = sid" "lease.lease_id l = lid"
    and run: "grant_capability W q P capability l r path s = (Inl e, s')"
  shows "cleaned lid sid s' \<or> stuck_stream sid (req_user q) (stream_json s')"
proof -
  let ?both = "\<lambda>_. pbind (drop_session W 9 r (req_user q)) (\<lambda>_. drop_lease W 10 P l (req_user q))"
  obtain x where "pbind (drop_stream W 8 r (req_user q)) ?both s = (x, s')"
    using run by (auto simp: grant_capability_def preturn_def split: option.splits elim: failing_after_cases)
  then show ?thesis
  proof (cases rule: pbind_cases)
    case (failed e')
    with drop_stream_own[OF o m ids(1)] show ?thesis by fastforce
  next
    case (went_on b s1)
    with drop_stream_own[OF o m ids(1)] have "mine lid sid u s1" by fastforce
    from drop_both_own[OF o this ids went_on(2)] show ?thesis by simp
  qed
qed

subsection \<open>Failed requests\<close>

lemma admission_pool_wf: "wf_pool P \<Longrightarrow> admission_pool digest setting P = Inr (P', c) \<Longrightarrow> wf_pool P'"
  by (auto simp: admission_pool_def rbind_Inr_iff dest: new_pool_wf split: admission_setting.splits sum.splits if_split_asm)

lemma verified_admission_pool:
  assumes "wf_pool P"
    and "verify_api_shared_admission digest attested setting P target user item cs caps options = Inr (P', cs')"
  shows "wf_pool P'"
proof (cases "admission_pool digest setting P :: 'a admission_exn + pool \<times> shared_route list option")
  case (Inl e)
  with assms(2) show ?thesis by (simp add: verify_api_shared_admission_def)
next
  case (Inr x)
  obtain P1 c where x: "x = (P1, c)" by (cases x)
  have "P' = P1"
    using assms(2) by (auto simp: verify_api_shared_admission_def Inr x rbind_Inr_iff split: option.splits if_split_asm)
  with admission_pool_wf[OF assms(1) Inr[unfolded x]] show ?thesis by simp
qed

lemma prepare_live_pool:
  assumes "wf_pool P" and "prepare_live render service digest setting P limits q = Inr (j, item, limit, rt, adm)"
  shows "wf_pool (adm_pool adm)"
proof -
  obtain registry candidates capacities P' candidates' where
      "verify_api_shared_admission digest (attest_shared_route render service) setting P (req_channel q) (req_user q)
         item candidates capacities (routing_configured rt) = Inr (P', candidates')" "adm_pool adm = P'"
    using assms(2) by (auto simp: prepare_live_def plan_admission_def rbind_Inr_iff)
  with verified_admission_pool[OF assms(1)] show ?thesis by metis
qed

text \<open>Where a request may end: before its lease, or at one of its stages.\<close>

lemma live_session_cases:
  assumes "read_sports_live_session render service digest setting limits answer capability W q s = (res, s')"
    and "wf_pool (pool_of W)"
  obtains (unprepared) e where "res = Inl e" "s' = s"
  | (no_lease) limit rt adm e where "wf_pool (adm_pool adm)" "acquire_lease W q limit rt adm s = (Inl e, s')" "res = Inl e"
  | (no_session) limit rt adm l s1 e where "wf_pool (adm_pool adm)" "acquire_lease W q limit rt adm s = (Inr l, s1)"
      "admit_session W q (adm_pool adm) limit l s1 = (Inl e, s')" "res = Inl e"
  | (no_stream) limit rt adm l s1 r s2 j item e where "wf_pool (adm_pool adm)"
      "acquire_lease W q limit rt adm s = (Inr l, s1)" "admit_session W q (adm_pool adm) limit l s1 = (Inr r, s2)"
      "resolve_stream W q (adm_pool adm) j item answer l r s2 = (Inl e, s')" "res = Inl e"
  | (granted) limit rt adm l s1 r s2 j item path s3 c where "wf_pool (adm_pool adm)"
      "acquire_lease W q limit rt adm s = (Inr l, s1)" "admit_session W q (adm_pool adm) limit l s1 = (Inr r, s2)"
      "resolve_stream W q (adm_pool adm) j item answer l r s2 = (Inr path, s3)"
      "grant_capability W q (adm_pool adm) capability l r path s3 = (c, s')" "isl res = isl c" "\<forall>e. c = Inl e \<longrightarrow> res = Inl e"
proof -
  from assms(1) show ?thesis
    unfolding read_sports_live_session_def
  proof (cases rule: pbind_cases)
    case (failed e)
    then show ?thesis using unprepared by (simp add: pure_play_def)
  next
    case (went_on prep s0)
    obtain j item limit rt adm where prep: "prep = (j, item, limit, rt, adm)" by (cases prep)
    have s0: "s0 = s" and wf: "wf_pool (adm_pool adm)"
      using went_on(1) prepare_live_pool[OF assms(2)] by (auto simp: pure_play_def prep)
    from went_on(2)[unfolded prep prod.case s0] show ?thesis
      by (elim pbind_cases) (auto simp: preturn_def intro: no_lease[OF wf] no_session[OF wf] no_stream[OF wf] granted[OF wf])
  qed
qed

text \<open>
  C4. A live session request that fails leaves no lease and no session of its own behind, whatever other
  requests do between its steps, with two exceptions that keep both for an operator: a shared resource whose
  playback could not be resolved (reported as such), and a stream whose outcome is open.
\<close>

theorem failed_request_leaves_nothing:
  assumes "owned_request W (fresh_lease q) (fresh_session q) (req_user q) u" and "wf_pool (pool_of W)"
    and "sound_files s" and "cleaned (fresh_lease q) (fresh_session q) s"
    and "read_sports_live_session render service digest setting limits answer capability W q s = (Inl e, s')"
  shows "cleaned (fresh_lease q) (fresh_session q) s' \<or> e = needs_cleanup
    \<or> stuck_stream (fresh_session q) (req_user q) (stream_json s')"
  using assms(5,2)
proof (cases rule: live_session_cases)
  case (unprepared e')
  with assms(4) show ?thesis by simp
next
  case (no_lease limit rt adm e')
  with acquire_lease_own[OF assms(1) no_lease(1) assms(3,4) no_lease(2)] show ?thesis by (simp add: cleaned_def)
next
  case (no_session limit rt adm l s1 e')
  from acquire_lease_own[OF assms(1) no_session(1) assms(3,4) no_session(2)]
  show ?thesis using admit_session_own[OF assms(1) _ _ _ no_session(3)] by simp
next
  case (no_stream limit rt adm l s1 r s2 j item e')
  from acquire_lease_own[OF assms(1) no_stream(1) assms(3,4) no_stream(2)]
  have l: "lease.lease_id l = fresh_lease q" and m: "mine (fresh_lease q) (fresh_session q) u s2" "session_id r = fresh_session q"
    using admit_session_own[OF assms(1) _ _ _ no_stream(3)] by simp_all
  from resolve_stream_own[OF assms(1) m l no_stream(4)] no_stream(5) show ?thesis by auto
next
  case (granted limit rt adm l s1 r s2 j item path s3 c)
  from acquire_lease_own[OF assms(1) granted(1) assms(3,4) granted(2)]
  have l: "lease.lease_id l = fresh_lease q" and m: "mine (fresh_lease q) (fresh_session q) u s2" "session_id r = fresh_session q"
    using admit_session_own[OF assms(1) _ _ _ granted(3)] by simp_all
  from resolve_stream_own[OF assms(1) m l granted(4)] have m3: "mine (fresh_lease q) (fresh_session q) u s3" by simp
  from granted(6) obtain e1 where "c = Inl e1" by (cases c) auto
  from grant_capability_own[OF assms(1) m3 m(2) l granted(5)[unfolded this]] show ?thesis by blast
qed

end
