(* ===== verification/Playback_Ranking.thy ===== *)
theory Playback_Ranking
  imports Playback_Routes Lifecycle_Safety
begin

text \<open>
  The portal and the Sports service rank the accounts of a channel by two programs: here the portal's
  selection over the published registry is shown to be the service's own ranking of the associated accounts.
\<close>

subsection \<open>Published accounts\<close>

definition entries_of :: "sports_source \<Rightarrow> (string \<times> pyval) list" where
  "entries_of s = (case source_to_mapping s of PDict entries \<Rightarrow> entries | _ \<Rightarrow> [])"

definition valid_account :: "sports_source \<Rightarrow> bool" where
  "valid_account s \<longleftrightarrow> source_id s \<noteq> [] \<and> strip (source_id s) = source_id s
     \<and> 0 \<le> priority s \<and> priority s \<le> 10000 \<and> 1 \<le> max_connections s \<and> max_connections s \<le> 1000"

definition capacity_of :: "sports_source list \<Rightarrow> string \<Rightarrow> int" where
  "capacity_of sources i = the (map_of (map (\<lambda>s. (source_id s, max_connections s)) sources) i)"

definition associated :: "sports_source list \<Rightarrow> string list \<Rightarrow> sports_source list" where
  "associated sources ids = filter (\<lambda>s. source_id s \<in> set ids) sources"

lemma entries_values:
  "dict_value (entries_of s) ''source_id'' = PStr (source_id s)"
  "dict_value (entries_of s) ''enabled'' = PBool (enabled s)"
  "dict_value (entries_of s) ''kind'' = PStr (kind_value (kind s))"
  "dict_value (entries_of s) ''priority'' = PInt (priority s)"
  "dict_value (entries_of s) ''max_connections'' = PInt (max_connections s)"
  by (simp_all add: entries_of_def source_to_mapping_def dict_default_def)

lemma associated_ids_plain: "\<forall>i \<in> set ids. i \<noteq> [] \<and> strip i = i \<Longrightarrow> associated_ids ids = Inr ids"
  by (induction ids) auto

lemma registry_by_id_accounts:
  "distinct (map fst acc @ map source_id sources) \<Longrightarrow> \<forall>s \<in> set sources. valid_account s \<Longrightarrow>
   registry_by_id (map entries_of sources) acc = Inr (acc @ map (\<lambda>s. (source_id s, entries_of s)) sources)"
  by (induction sources arbitrary: acc) (auto simp: entries_values valid_account_def)

subsection \<open>The eligible accounts\<close>

definition found :: "sports_source list \<Rightarrow> string \<Rightarrow> sports_source option" where
  "found sources i = map_of (map (\<lambda>s. (source_id s, s)) sources) i"

definition rank_key :: "sports_source \<Rightarrow> eligible" where
  "rank_key s = (candidate_rank s, max_connections s)"

definition eligible_accounts :: "sports_source list \<Rightarrow> string list \<Rightarrow> sports_source list" where
  "eligible_accounts sources ids = filter enabled (List.map_filter (found sources) ids)"

lemma found_Some: "distinct (map source_id sources) \<Longrightarrow>
   found sources i = Some s \<longleftrightarrow> s \<in> set sources \<and> source_id s = i"
  unfolding found_def by (subst map_of_eq_Some_iff) (auto simp: comp_def)

lemma kind_order_value: "map_of SOURCE_KIND_ORDER (kind_value k) = Some (kind_order k)"
  by (cases k) (simp_all add: SOURCE_KIND_ORDER_def)

lemma map_of_by_id: "map_of (map (\<lambda>s. (source_id s, g s)) xs) i = map_option g (found xs i)"
  unfolding found_def by (induction xs) auto

lemma found_set: "found xs i = Some s \<Longrightarrow> s \<in> set xs \<and> source_id s = i"
  unfolding found_def by (auto dest!: map_of_SomeD)

lemma eligible_source_found:
  assumes "\<forall>s \<in> set sources. valid_account s"
  shows "eligible_source (map (\<lambda>s. (source_id s, entries_of s)) sources) i =
    Inr (case found sources i of Some s \<Rightarrow> if enabled s then Some (rank_key s) else None | None \<Rightarrow> None)"
proof (cases "found sources i")
  case None
  then show ?thesis by (simp add: eligible_source_def map_of_by_id)
next
  case (Some s)
  with found_set[OF Some] assms have
    v: "source_id s = i" "0 \<le> priority s" "priority s \<le> 10000" "1 \<le> max_connections s" "max_connections s \<le> 1000"
    by (auto simp: valid_account_def)
  with Some show ?thesis
    by (cases "enabled s") (simp_all add: eligible_source_def map_of_by_id entries_values kind_order_value Let_def
        rank_key_def candidate_rank_def)
qed

lemma eligible_sources_found:
  assumes "\<forall>s \<in> set sources. valid_account s"
  shows "eligible_sources (map (\<lambda>s. (source_id s, entries_of s)) sources) ids =
    Inr (map rank_key (eligible_accounts sources ids))"
  by (induction ids)
     (simp_all add: eligible_source_found[OF assms] eligible_accounts_def List.map_filter_simps split: option.split)

lemma in_map_filter: "s \<in> set (List.map_filter f ids) \<longleftrightarrow> (\<exists>i \<in> set ids. f i = Some s)"
  by (induction ids) (auto simp: List.map_filter_simps split: option.splits)

lemma candidate_rank_inj: "candidate_rank s = candidate_rank t \<Longrightarrow> source_id s = source_id t"
  by (simp add: candidate_rank_def)

lemma distinct_ranks: "distinct (map source_id ss) \<Longrightarrow> distinct (map candidate_rank ss)"
  by (auto simp: distinct_map inj_on_def dest: candidate_rank_inj)

text \<open>The order in which the accounts are associated does not matter: both sides sort by the same rank.\<close>

lemma eligible_accounts_sorted:
  assumes d: "distinct (map source_id sources)" and i: "distinct ids"
  shows "sort_key candidate_rank (eligible_accounts sources ids)
    = sort_key candidate_rank (filter enabled (associated sources ids))"
proof -
  let ?xs = "eligible_accounts sources ids" and ?ys = "filter enabled (associated sources ids)"
  have set: "set ?xs = set ?ys"
    by (auto simp: eligible_accounts_def associated_def in_map_filter found_Some[OF d])
  have "map source_id (List.map_filter (found sources) js) = filter (\<lambda>j. found sources j \<noteq> None) js" for js
    by (induction js) (auto simp: List.map_filter_simps dest: found_set split: option.split)
  then have "distinct (map source_id (List.map_filter (found sources) ids))" using i by simp
  then have "distinct (map source_id ?xs)"
    unfolding eligible_accounts_def by (rule distinct_map_filter)
  moreover have "distinct (map source_id ?ys)" using d by (simp add: associated_def distinct_map_filter)
  ultimately have "distinct (map candidate_rank ?xs)" "distinct (map candidate_rank ?ys)"
    by (simp_all add: distinct_ranks)
  with set show ?thesis
    by (intro map_sorted_distinct_set_unique[of candidate_rank])
       (auto simp: distinct_map sorted_sort_key)
qed

lemma updated_pairs:
  "distinct (map fst acc @ map f ss) \<Longrightarrow>
   foldl (\<lambda>acc s. AList.update (f s) (g s) acc) acc ss = acc @ map (\<lambda>s. (f s, g s)) ss"
proof (induction ss arbitrary: acc)
  case (Cons s ss)
  have "AList.update (f s) (g s) acc = acc @ [(f s, g s)]"
    using Cons.prems by (induction acc) auto
  with Cons show ?case by simp
qed simp

text \<open>
  C7. The portal's candidates for a channel are exactly the Sports service's own ranking of the accounts
  associated with it, with the capacities the service publishes, whatever the order of the association; there
  are none exactly when that ranking is empty.
\<close>

theorem candidates_agree:
  assumes "distinct (map source_id sources)" and "\<forall>s \<in> set sources. valid_account s"
    and "filter (\<lambda>l. listed_atlas_channel l = Some channel) listed = [l]" and "listed_resources l = ids"
    and "ids \<noteq> []" and "distinct ids" and "\<forall>i \<in> set ids. i \<noteq> [] \<and> strip i = i"
  shows "sports_resource_candidates channel listed (map entries_of sources) =
    (let best = map cand_source (rank_source_candidates (associated sources ids)) in
     if best = [] then Inl CandidatesExhausted
     else Inr (best, map (\<lambda>i. (i, capacity_of sources i)) best))"
proof -
  let ?best = "chosen_sources (associated sources ids)"
  have pick: "take 4 (sort_key fst (map rank_key (eligible_accounts sources ids))) = map rank_key ?best"
  proof -
    have ins: "insort_key fst (rank_key s) (map rank_key xs) = map rank_key (insort_key candidate_rank s xs)" for s xs
      by (induction xs) (simp_all add: rank_key_def)
    have "sort_key fst (map rank_key xs) = map rank_key (sort_key candidate_rank xs)" for xs
      by (induction xs) (simp_all add: ins)
    then show ?thesis
      using eligible_accounts_sorted[OF assms(1,6)] by (simp add: take_map chosen_sources_def)
  qed
  have sub: "set ?best \<subseteq> set sources" by (auto simp: chosen_sources_def associated_def dest!: in_set_takeD)
  have "distinct (map source_id (sort_key candidate_rank (filter enabled (associated sources ids))))"
    using assms(1) by (auto simp: distinct_map associated_def inj_on_def)
  then have dist: "distinct (map source_id ?best)" by (simp add: chosen_sources_def take_map[symmetric])
  have cap: "s \<in> set ?best \<Longrightarrow> capacity_of sources (source_id s) = max_connections s" for s
    using sub found_Some[OF assms(1), of "source_id s" s] by (auto simp: capacity_of_def map_of_by_id)
  have "foldl (\<lambda>acc s. AList.update (source_id s) (max_connections s) acc) [] ?best
    = map (\<lambda>s. (source_id s, max_connections s)) ?best"
    using updated_pairs[of "[]" source_id ?best max_connections] dist by simp
  then have "selected_candidates (map rank_key (eligible_accounts sources ids)) =
    (if ?best = [] then Inl CandidatesExhausted
     else Inr (map source_id ?best, map (\<lambda>s. (source_id s, max_connections s)) ?best))"
    unfolding selected_candidates_def MAX_SOURCE_CANDIDATES_def pick Let_def
    by (simp add: rank_key_def candidate_rank_def foldl_map comp_def)
  moreover have "map (\<lambda>s. (source_id s, max_connections s)) ?best = map (\<lambda>i. (i, capacity_of sources i)) (map source_id ?best)"
    using cap by simp
  moreover have "sports_resource_candidates channel listed (map entries_of sources)
    = selected_candidates (map rank_key (eligible_accounts sources ids))"
    using assms(5) by (simp add: sports_resource_candidates_def assms(3,4) associated_ids_plain[OF assms(7)]
        registry_by_id_accounts[of "[]", simplified, OF assms(1,2)] eligible_sources_found[OF assms(2)])
  ultimately show ?thesis by (simp add: rank_chosen Let_def)
qed

end
