(* ===== verification/Playback_Links.thy ===== *)
theory Playback_Links
  imports Playback_Safety Playback_Ranking
begin

text \<open>
  A live playback request that runs undisturbed: its lease and its session exist together or not at all, and
  a release gives up the stream, the session and the lease in this order.
\<close>

subsection \<open>Links\<close>

definition undisturbed :: "world \<Rightarrow> bool" where
  "undisturbed W \<longleftrightarrow> (\<forall>k s. interfere W k s = s)"

definition linked :: "string \<Rightarrow> string \<Rightarrow> string \<Rightarrow> live_state \<Rightarrow> bool" where
  "linked lid sid u s \<longleftrightarrow>
     (case (lease_row (pool_json s) lid, session_entry (session_json s) sid) of
        (Some x, Some y) \<Rightarrow> row_user x = u \<and> srow_user y = u \<and> srow_lease y = Some lid
      | _ \<Rightarrow> False)"

definition same_rows :: "live_state \<Rightarrow> live_state \<Rightarrow> bool" where
  "same_rows s s' \<longleftrightarrow> pool_json s' = pool_json s \<and> session_json s' = session_json s"

lemma undisturbed_calm: "undisturbed W \<Longrightarrow> calm W lid sid user"
  by (simp add: undisturbed_def calm_def)

lemma same_rows_linked: "same_rows s s' \<Longrightarrow> linked lid sid u s' = linked lid sid u s"
  by (simp add: same_rows_def linked_def)

lemma undisturbed_steps:
  assumes "undisturbed W"
  shows "pool_step W k h p s = (case p (pool_json s) of (r, f) \<Rightarrow> (map_exn h r, s\<lparr>pool_json := f\<rparr>))"
    and "session_step W k g x s = (case x (session_json s) of (r, f) \<Rightarrow> (map_exn g r, s\<lparr>session_json := f\<rparr>))"
    and "stream_step W k j y s =
           (case y (stream_json s) of (r, es) \<Rightarrow> (map_exn j r, s\<lparr>stream_json := file_after (stream_json s) es\<rparr>))"
  using assms by (simp_all add: undisturbed_def pool_step_def session_step_def stream_step_def)

lemma same_rows_mine: "same_rows s s' \<Longrightarrow> mine lid sid u s' = mine lid sid u s"
  by (simp add: same_rows_def mine_def sound_files_def)

lemma stream_step_rows: "undisturbed W \<Longrightarrow> stream_step W k h y s = (res, s') \<Longrightarrow> same_rows s s'"
  by (auto simp: undisturbed_steps same_rows_def split: prod.splits)

subsection \<open>The stages\<close>

lemma acquire_lease_links:
  assumes "undisturbed W" and o: "owned_request W (fresh_lease q) (fresh_session q) (req_user q) u"
    and "wf_pool (adm_pool adm)" and sound: "sound_files s" and fresh: "cleaned (fresh_lease q) (fresh_session q) s"
    and run: "acquire_lease W q limit rt adm s = (Inr l, s')"
  shows "map_option row_user (lease_row (pool_json s') (fresh_lease q)) = Some u"
proof -
  let ?acq = "acquire (adm_pool adm) (clock W 0) (PStr (fresh_lease q)) (PStr (req_user q)) (PStr (req_channel q))
    (map PStr (adm_candidates adm)) (map (\<lambda>(s, c). (PStr s, PInt c)) (adm_capacities adm)) (PInt limit)"
  obtain f where op: "?acq (pool_json s) = (Inr l, f)" and s': "s' = s\<lparr>pool_json := f\<rparr>"
    using run by (auto simp: acquire_lease_def undisturbed_steps[OF assms(1)] preturn_def pfail_def
        split: prod.splits if_split_asm elim!: pbind_cases)
  from acquire_own[OF op assms(3)] o sound fresh
  have "lease_row f (fresh_lease q) = Some (lease_payload l)" "required_identifier (PStr (req_user q)) = Inr (user_id l)"
    by (auto simp: owned_request_def sound_files_def cleaned_def lease_gone_def)
  with o show ?thesis by (simp add: s' owned_request_def lease_payload_def)
qed

lemma admit_session_links:
  assumes "undisturbed W" and o: "owned_request W (fresh_lease q) (fresh_session q) (req_user q) u"
    and m: "mine (fresh_lease q) (fresh_session q) u s" and fresh: "session_gone (fresh_session q) s"
    and lid: "lease.lease_id l = fresh_lease q"
    and l: "map_option row_user (lease_row (pool_json s) (fresh_lease q)) = Some u"
    and run: "admit_session W q P limit l s = (Inr r, s')"
  shows "linked (fresh_lease q) (fresh_session q) u s'"
proof -
  let ?adm = "admit (session_ttl W) (clock W 2) (PStr (fresh_session q)) (PStr (req_user q)) (PStr (req_channel q))
    (PInt limit) (PStr (lease.lease_id l))"
  obtain f where op: "?adm (session_json s) = (Inr r, f)" and s': "s' = s\<lparr>session_json := f\<rparr>"
    using run by (auto simp: admit_session_def undisturbed_steps[OF assms(1)]
        split: prod.splits sum.splits elim!: pcatch_cases failing_after_cases)
  have "strip (fresh_lease q) = fresh_lease q"
    using o by (auto simp: owned_request_def is_identifier_def required_identifier.simps Let_def split: if_split_asm)
  with admit_own[OF op] o m fresh lid obtain y where
      y: "session_entry f (fresh_session q) = Some y" "srow_user y = u" "srow_lease y = Some (fresh_lease q)"
    by (auto simp: owned_request_def mine_def sound_files_def session_gone_def record_of_def)
  with l show ?thesis by (auto simp: linked_def s')
qed

lemma resolve_stream_links:
  assumes "undisturbed W" and o: "owned_request W lid sid (req_user q) u" and m: "mine lid sid u s"
    and ids: "session_id r = sid" "lease.lease_id l = lid"
    and run: "resolve_stream W q P j item answer l r s = (res, s')"
  shows "same_rows s s' \<or> cleaned lid sid s' \<and> (\<exists>e. res = Inl e)"
  using run unfolding resolve_stream_def
proof (cases rule: pcatch_cases)
  case (handled e s1)
  have same: "same_rows s s1"
    using handled(1)
    by (auto simp: pure_play_def same_rows_def elim!: pbind_cases dest!: stream_step_rows[OF assms(1)])
  with m have m1: "mine lid sid u s1" by (simp add: same_rows_mine)
  show ?thesis
  proof (cases "sharing_fingerprint l \<noteq> None")
    case True
    with handled(2) same show ?thesis by (auto simp: pfail_def)
  next
    case False
    with handled(2) obtain x where
        x: "pbind (drop_session W 6 r (req_user q)) (\<lambda>_. drop_lease W 7 P l (req_user q)) s1 = (x, s')"
      and res: "res = (case x of Inl e' \<Rightarrow> Inl e' | Inr _ \<Rightarrow> Inl e)"
      by (auto elim: failing_after_cases)
    from drop_both_own[OF o m1 ids x] res show ?thesis by auto
  qed
next
  case (fine path)
  then show ?thesis
    by (auto simp: pure_play_def elim!: pbind_cases dest!: stream_step_rows[OF assms(1)])
qed

lemma grant_capability_links:
  assumes "undisturbed W" and o: "owned_request W lid sid (req_user q) u" and m: "mine lid sid u s"
    and ids: "session_id r = sid" "lease.lease_id l = lid"
    and run: "grant_capability W q P capability l r path s = (res, s')"
  shows "same_rows s s' \<or> cleaned lid sid s' \<and> (\<exists>e. res = Inl e)"
proof (cases "capability path")
  case (Some c)
  with run show ?thesis by (simp add: grant_capability_def preturn_def same_rows_def)
next
  case None
  let ?both = "\<lambda>_. pbind (drop_session W 9 r (req_user q)) (\<lambda>_. drop_lease W 10 P l (req_user q))"
  obtain x where x: "pbind (drop_stream W 8 r (req_user q)) ?both s = (x, s')" "\<exists>e. res = Inl e"
    using run None by (auto simp: grant_capability_def split: sum.splits elim!: failing_after_cases)
  from x(1) show ?thesis
  proof (cases rule: pbind_cases)
    case (failed e')
    from stream_step_rows[OF assms(1) failed(1)[unfolded drop_stream_def]] show ?thesis by simp
  next
    case (went_on b s1)
    with drop_stream_own[OF o m ids(1)] have "mine lid sid u s1" by fastforce
    from drop_both_own[OF o this ids went_on(2)] x(2) show ?thesis by simp
  qed
qed

lemma admitted_links:
  assumes "undisturbed W" and "owned_request W (fresh_lease q) (fresh_session q) (req_user q) u"
    and "wf_pool (adm_pool adm)" and "sound_files s" and "cleaned (fresh_lease q) (fresh_session q) s"
    and "acquire_lease W q limit rt adm s = (Inr l, s1)" and "admit_session W q P limit l s1 = (Inr r, s2)"
  shows "mine (fresh_lease q) (fresh_session q) u s2 \<and> session_id r = fresh_session q
    \<and> lease.lease_id l = fresh_lease q \<and> linked (fresh_lease q) (fresh_session q) u s2"
proof -
  from acquire_lease_own[OF assms(2-6)] have a: "mine (fresh_lease q) (fresh_session q) u s1"
    "session_gone (fresh_session q) s1" "lease.lease_id l = fresh_lease q" by simp_all
  from admit_session_own[OF assms(2) a assms(7)] a(3)
    admit_session_links[OF assms(1,2) a acquire_lease_links[OF assms(1-6)] assms(7)]
  show ?thesis by simp
qed

text \<open>
  C5. The lease and the session of a live session request are all or nothing: when the request runs
  undisturbed, it ends with neither of the two or with both, of its user and linked to each other, and a
  request that succeeds ends with both.
\<close>

theorem lease_and_session_together:
  assumes "undisturbed W" and "owned_request W (fresh_lease q) (fresh_session q) (req_user q) u"
    and "wf_pool (pool_of W)" and "sound_files s" and "cleaned (fresh_lease q) (fresh_session q) s"
    and "read_sports_live_session render service digest setting limits answer capability W q s = (res, s')"
  shows "linked (fresh_lease q) (fresh_session q) u s'
    \<or> cleaned (fresh_lease q) (fresh_session q) s' \<and> (\<exists>e. res = Inl e)"
  using assms(6,3)
proof (cases rule: live_session_cases)
  case (unprepared e')
  with assms(5) show ?thesis by simp
next
  case (no_lease limit rt adm e')
  with acquire_lease_own[OF assms(2) no_lease(1) assms(4,5) no_lease(2)] show ?thesis by (simp add: cleaned_def)
next
  case (no_session limit rt adm l s1 e')
  from acquire_lease_own[OF assms(2) no_session(1) assms(4,5) no_session(2)]
  show ?thesis using admit_session_own[OF assms(2) _ _ _ no_session(3)] no_session(4) by simp
next
  case (no_stream limit rt adm l s1 r s2 j item e')
  from admitted_links[OF assms(1,2) no_stream(1) assms(4,5) no_stream(2,3)]
  have a: "mine (fresh_lease q) (fresh_session q) u s2" "session_id r = fresh_session q" "lease.lease_id l = fresh_lease q"
    "linked (fresh_lease q) (fresh_session q) u s2" by simp_all
  from resolve_stream_links[OF assms(1,2) a(1-3) no_stream(4)] a(4) no_stream(5) same_rows_linked show ?thesis by blast
next
  case (granted limit rt adm l s1 r s2 j item path s3 c)
  from admitted_links[OF assms(1,2) granted(1) assms(4,5) granted(2,3)]
  have a: "mine (fresh_lease q) (fresh_session q) u s2" "session_id r = fresh_session q" "lease.lease_id l = fresh_lease q"
    "linked (fresh_lease q) (fresh_session q) u s2" by simp_all
  from resolve_stream_own[OF assms(2) a(1-3) granted(4)] have c: "mine (fresh_lease q) (fresh_session q) u s3" by simp
  from resolve_stream_links[OF assms(1,2) a(1-3) granted(4)] a(4) same_rows_linked
  have "linked (fresh_lease q) (fresh_session q) u s3" by blast
  with grant_capability_links[OF assms(1,2) c a(2,3) granted(5)] granted(6,7) same_rows_linked show ?thesis
    by (metis)
qed

subsection \<open>Release\<close>

definition stream_gone :: "string \<Rightarrow> live_state \<Rightarrow> bool" where
  "stream_gone sid s \<longleftrightarrow> (\<exists>ss. load_streams (stream_json s) = Inr ss \<and> map_of ss sid = None)"

lemma release_record_step:
  assumes "release_record (PStr sid) (PStr user) f = (Inr (Some rec), f')" and "is_identifier sid"
  shows "session_entry f' sid = None
    \<and> (\<exists>row. session_entry f sid = Some row \<and> rec = record_of sid row \<and> wf_session row)"
proof -
  obtain u ss where a: "session_args (PStr sid) (PStr user) = Inr (sid, u)" "read_registry f = Inr ss"
      and o: "owned_session ss sid u = map_of ss sid" "map_of ss sid \<noteq> None"
      "rec = record_of sid (the (map_of ss sid))" "f' = write_registry (AList.delete sid ss)"
    using assms
    by (auto simp: release_record_def session_args_def reg_arg_def rbind_Inr_iff session_identifier_eq is_identifier_def
        owned_session_def split: sum.splits option.splits if_split_asm)
  have wf: "wf_sessions ss" by (rule read_registry_sound[OF a(2)])
  then have "wf_sessions (AList.delete sid ss)" by (rule wf_sessions_del)
  moreover have "map_of ss sid = Some row \<Longrightarrow> wf_session row" for row
    using wf by (auto simp: wf_sessions_def dest!: map_of_SomeD)
  ultimately show ?thesis using o a(2) by (auto simp: session_entry_write session_entry_read dict_simps)
qed

lemma release_lease_step:
  assumes "release P now (PStr lid) (PStr user) f = (Inr b, f')" and "is_identifier lid"
    and "required_identifier (PStr user) = Inr u"
  shows "\<forall>x. lease_row f' lid = Some x \<longrightarrow> row_user x \<noteq> u"
proof -
  let ?leases = "\<lambda>st. prune_stale P (pool_leases st) now"
  have args: "owner_args (PStr lid) (PStr user) = Inr (lid, u)"
    using assms(2,3) by (simp add: owner_args_def is_identifier_def)
  obtain l' u' st where a: "owner_args (PStr lid) (PStr user) = Inr (l', u')" and st: "read_state f = Inr st"
      and b': "b = (owned_row (?leases st) l' u' \<noteq> None)"
      and f'': "f' = write_state \<lparr>pool_version = pool_version st,
                 pool_leases = (if b then AList.delete l' (?leases st) else ?leases st)\<rparr>"
    by (rule release_Inr[OF assms(1)])
  have b: "b = (owned_row (?leases st) lid u \<noteq> None)"
    and f': "f' = write_state \<lparr>pool_version = pool_version st,
               pool_leases = (if b then AList.delete lid (?leases st) else ?leases st)\<rparr>"
    using a b' f'' args by simp_all
  have wf: "wf_state st" by (rule read_state_sound[OF st])
  show ?thesis
  proof (cases b)
    case True
    have "wf_state \<lparr>pool_version = pool_version st, pool_leases = AList.delete lid (?leases st)\<rparr>"
      by (rule wf_state_release[OF wf])
    from lease_row_write[OF this] True show ?thesis by (simp add: f' dict_simps)
  next
    case False
    have "wf_state \<lparr>pool_version = pool_version st, pool_leases = ?leases st\<rparr>" by (rule wf_state_prune[OF wf])
    from lease_row_write[OF this] False b show ?thesis
      by (auto simp: f' owned_row_def split: option.splits if_split_asm)
  qed
qed

text \<open>The rest of a release once the stream is gone.\<close>

lemma release_rest:
  assumes und: "undisturbed W" and sid: "is_identifier sid" and user: "required_identifier (PStr user) = Inr u"
    and op: "release_record (PStr sid) (PStr user) (session_json s1) = (Inr (Some rec), f)"
    and run: "(case session_lease rec of
        None \<Rightarrow> preturn ()
      | Some lid \<Rightarrow> pbind (pool_step W 2 release_http (release (pool_of W) (clock W 2) (PStr lid) (PStr user)))
                      (\<lambda>_. preturn ())) (s1\<lparr>session_json := f\<rparr>) = (res, s')"
  shows "stream_json s' = stream_json s1 \<and> session_gone sid s' \<and> (\<exists>row. session_entry (session_json s1) sid = Some row
    \<and> (res = Inr () \<longrightarrow> (\<forall>lid x. srow_lease row = Some lid \<longrightarrow> lease_row (pool_json s') lid = Some x
         \<longrightarrow> row_user x \<noteq> u)))"
proof -
  obtain row where row: "session_entry f sid = None" "session_entry (session_json s1) sid = Some row"
      "rec = record_of sid row" "wf_session row"
    using release_record_step[OF op sid] by auto
  show ?thesis
  proof (cases "srow_lease row")
    case None
    with run row(3) have "s' = s1\<lparr>session_json := f\<rparr>" by (simp add: preturn_def record_of_def)
    with None row show ?thesis by (simp add: session_gone_def)
  next
    case lid: (Some lid)
    have idl: "is_identifier lid"
      using row(4) lid by (simp add: wf_session_def session_id_ok_def session_identifier_eq is_identifier_def)
    let ?rel = "release (pool_of W) (clock W 2) (PStr lid) (PStr user)"
    obtain x g where rel: "?rel (pool_json s1) = (x, g)" by (cases "?rel (pool_json s1)")
    have s': "s' = s1\<lparr>session_json := f, pool_json := g\<rparr>" and ok: "res = Inr () \<Longrightarrow> \<exists>b. x = Inr b"
      using run row(3) lid rel by (auto simp: record_of_def undisturbed_steps[OF und] preturn_def elim!: pbind_cases)
    have "res = Inr () \<Longrightarrow> \<forall>y. lease_row g lid = Some y \<longrightarrow> row_user y \<noteq> u"
      using release_lease_step[OF _ idl user] rel ok by blast
    with row lid show ?thesis by (simp add: s' session_gone_def)
  qed
qed



text \<open>
  A concrete portal: one channel with two associated accounts and a third that is disabled, an empty state,
  and a request that succeeds, fails after its stream was opened, and is released.
\<close>

subsection \<open>The portal\<close>

definition demo_live_row :: pyval where
  "demo_live_row = PDict [(''id'', PStr ''ls1''), (''name'', PStr ''Match''), (''standalone'', PBool True),
     (''atlas_channel_id'', PStr ''match''), (''resource_source_ids'', PList [PStr ''b'', PStr ''a''])]"

definition demo_service :: service where
  "demo_service method path body =
     (if path = ''/internal/v1/live-sources'' then Reply 200 (PDict [(''live_sources'', PList [demo_live_row])]) ''''
      else if path = ''/internal/v1/sources'' then
        Reply 200 (PDict [(''providers'', PList []), (''sources'', PList (map source_to_mapping demo_accounts))]) ''''
      else if path = ''/internal/v1/live-tv/bindings?atlas_channel_id=match'' then
        Reply 200 (PDict [(''binding'', PDict [(''atlas_channel_id'', PStr ''match''),
          (''jellyfin_item_id'', PStr ''item1'')])]) ''''
      else NoReply)"

definition demo_plain_pool :: pool where
  "demo_plain_pool = \<lparr>ttl_seconds = 90, sharing_bindings = []\<rparr>"

definition demo_world :: world where
  "demo_world = \<lparr>clock = (\<lambda>_. Fin 100), interfere = (\<lambda>_ s. s),
     stream_remote = \<lparr>stop_ok = None, close_ok = (\<lambda>_. True)\<rparr>, pool_of = demo_plain_pool,
     session_ttl = 90, stream_ttl = 90\<rparr>"

definition demo_play_request :: play_request where
  "demo_play_request = \<lparr>req_user = ''ann'', req_channel = ''match'', req_option = None, req_subtitle = None,
     req_profile = Inr (PStr ''jelly''), fresh_lease = ''l1'', fresh_session = ''s1''\<rparr>"

definition empty_state :: live_state where
  "empty_state = \<lparr>pool_json = Absent, session_json = Absent, stream_json = Absent\<rparr>"

definition demo_run :: "(string \<Rightarrow> nat option) \<Rightarrow> (http_exn + nat live_response) \<times> live_state" where
  "demo_run capability =
     read_sports_live_session (\<lambda>_. ''text'') demo_service (\<lambda>s. s) Unset Absent (PlaysDirectly ''path'') capability
       demo_world demo_play_request empty_state"

lemma demo_prepared:
  "prepare_live (\<lambda>_. ''text'') demo_service (\<lambda>s. s) Unset demo_plain_pool Absent demo_play_request = Inr
     (''jelly'', ''item1'', 5,
      \<lparr>routing_channel = ''match'', routing_sources = [\<lparr>listed_id = ''ls1'', listed_name = ''Match'',
         listed_provider = None, listed_event = None, listed_standalone = True, listed_atlas_channel = Some ''match'',
         listed_resources = [''b'', ''a''], listed_options = None\<rparr>], routing_resource = None,
       routing_configured = False\<rparr>,
      \<lparr>adm_pool = demo_plain_pool, adm_candidates = [''a'', ''b''], adm_capacities = [(''a'', 2), (''b'', 2)]\<rparr>)"
  by code_simp

lemma demo_state:
  "sound_files empty_state" "cleaned ''l1'' ''s1'' empty_state" "wf_pool demo_plain_pool" "undisturbed demo_world"
  "owned_request demo_world ''l1'' ''s1'' ''ann'' ''ann''"
proof -
  show u: "undisturbed demo_world" by (simp add: undisturbed_def demo_world_def)
  have "is_identifier ''l1''" "is_identifier ''s1''" "required_identifier (PStr ''ann'') = Inr ''ann''" by code_simp+
  then show "owned_request demo_world ''l1'' ''s1'' ''ann'' ''ann''"
    using undisturbed_calm[OF u] by (simp add: owned_request_def demo_world_def)
  show "sound_files empty_state" "cleaned ''l1'' ''s1'' empty_state"
    by (simp_all add: sound_files_def cleaned_def lease_gone_def session_gone_def lease_row_def session_entry_def
        empty_state_def pool_file.readable_def registry_file.readable_def)
  show "wf_pool demo_plain_pool" by (simp add: wf_pool_def demo_plain_pool_def)
qed

lemma demo_success:
  "fst (demo_run (\<lambda>p. Some 7)) = Inr \<lparr>resp_session = ''s1'', resp_lease = ''l1'', resp_path = ''path'',
     resp_capability = 7, resp_ttl = 90\<rparr>"
  by code_simp

lemma demo_failure: "fst (demo_run (\<lambda>p. None)) = Inl Unhandled"
  by code_simp

lemma demo_run_eq:
  "read_sports_live_session (\<lambda>_. ''text'') demo_service (\<lambda>s. s) Unset Absent (PlaysDirectly ''path'') capability
     demo_world demo_play_request empty_state = (fst (demo_run capability), snd (demo_run capability))"
  by (simp add: demo_run_def)

lemma demo_ids:
  "fresh_lease demo_play_request = ''l1''" "fresh_session demo_play_request = ''s1''"
  "req_user demo_play_request = ''ann''" "pool_of demo_world = demo_plain_pool"
  by (simp_all add: demo_play_request_def demo_world_def)

theorem lease_and_session_together_witness:
  "linked ''l1'' ''s1'' ''ann'' (snd (demo_run (\<lambda>p. Some 7)))"
  using lease_and_session_together[OF demo_state(4) _ _ demo_state(1) _ demo_run_eq[of "\<lambda>p. Some 7"], unfolded demo_ids,
      OF demo_state(5,3,2)] demo_success
  by simp

theorem failed_request_leaves_nothing_witness:
  "cleaned ''l1'' ''s1'' (snd (demo_run (\<lambda>p. None)))
   \<or> stuck_stream ''s1'' ''ann'' (stream_json (snd (demo_run (\<lambda>p. None))))"
  using failed_request_leaves_nothing[OF _ _ demo_state(1) _ demo_run_eq[of "\<lambda>p. None", unfolded demo_failure],
      unfolded demo_ids, OF demo_state(5,3,2)]
  by (simp add: needs_cleanup_def)

definition demo_live_state :: live_state where
  "demo_live_state = snd (demo_run (\<lambda>p. Some 7))"

lemma demo_released: "fst (release_owned_session demo_world ''s1'' ''ann'' demo_live_state) = Inr ()"
  by code_simp


definition demo_listed :: listed_source where
  "demo_listed = \<lparr>listed_id = ''ls1'', listed_name = ''Match'', listed_provider = None, listed_event = None,
     listed_standalone = True, listed_atlas_channel = Some ''match'', listed_resources = [''b'', ''a''],
     listed_options = None\<rparr>"

theorem candidates_agree_witness:
  "sports_resource_candidates ''match'' [demo_listed] (map entries_of demo_accounts)
   = Inr ([''a'', ''b''], [(''a'', 2), (''b'', 2)])"
proof -
  have "distinct (map source_id demo_accounts)" by code_simp
  moreover have "\<forall>s \<in> set demo_accounts. valid_account s" by code_simp
  moreover have "filter (\<lambda>l. listed_atlas_channel l = Some ''match'') [demo_listed] = [demo_listed]"
    "listed_resources demo_listed = [''b'', ''a'']" by (simp_all add: demo_listed_def)
  moreover have "\<forall>i \<in> set [''b'', ''a'']. i \<noteq> [] \<and> strip i = i" by code_simp
  moreover have "map cand_source (rank_source_candidates (associated demo_accounts [''b'', ''a''])) = [''a'', ''b'']"
    "capacity_of demo_accounts ''a'' = 2" "capacity_of demo_accounts ''b'' = 2" by code_simp+
  ultimately show ?thesis
    using candidates_agree[of demo_accounts "''match''" "[demo_listed]" demo_listed "[''b'', ''a'']"] by simp
qed

end
