(* ===== verification/Subscriptions.thy ===== *)
theory Subscriptions
  imports Source_Lifecycle
begin

text \<open>
  The subscriptions of the sports module (\<open>modules/sports/src/subscriptions.py\<close>): what a user follows, and
  whether an event is recorded. Rows of the file that do not validate are skipped by the readers and kept
  by the writers. The order of keys in a row is never read, so the sorted keys of the written file are left
  out. \<open>render\<close> is the text of floats and containers.
\<close>

subsection \<open>Rows\<close>

type_synonym dict = "(string \<times> pyval) list"

text \<open>\<open>ValueError\<close>: with its text where a caller shows it.\<close>

datatype sub_exn = InvalidSubscription | RecordingRefused string

record subscription =
  sub_id :: string
  sub_type :: string
  sub_provider :: string
  sub_target :: string
  sub_name :: string
  sub_user :: string
  sub_enabled :: bool
  sub_record :: bool
  sub_created :: pyval

text \<open>\<open>str(d.get(k, default))\<close>\<close>

definition str_field :: "(pyval \<Rightarrow> string) \<Rightarrow> dict \<Rightarrow> string \<Rightarrow> string \<Rightarrow> string" where
  "str_field render d k fallback = py_str render (dict_default d k (PStr fallback))"

definition VALID_SUBSCRIPTION_TYPES :: "string list" where
  "VALID_SUBSCRIPTION_TYPES = [''event'', ''team'', ''league'', ''channel'']"

definition channel_identity :: "string \<Rightarrow> bool" where
  "channel_identity s \<longleftrightarrow>
     starts_with ''sports-live-'' s \<and> drop 12 s \<noteq> [] \<and> list_all token_tail_char (drop 12 s)"

definition normalize_subscription :: "(pyval \<Rightarrow> string) \<Rightarrow> dict \<Rightarrow> sub_exn + subscription" where
  "normalize_subscription render d =
     (let t = lower (strip (str_field render d ''type'' []));
          p = strip (str_field render d ''provider'' []);
          i = strip (str_field render d ''id'' []) in
      if t \<notin> set VALID_SUBSCRIPTION_TYPES \<or> p = [] \<or> i = []
         \<or> t = ''channel'' \<and> (p \<noteq> ''atlas'' \<or> \<not> channel_identity i)
      then Inl InvalidSubscription
      else Inr \<lparr>sub_id = str_field render d ''subscription_id'' [], sub_type = t, sub_provider = p, sub_target = i,
                sub_name = str_field render d ''name'' i, sub_user = str_field render d ''user'' ''system'',
                sub_enabled = py_truthy (dict_default d ''enabled'' (PBool True)),
                sub_record = (t \<noteq> ''channel'' \<and> py_truthy (dict_default d ''record'' (PBool False))),
                sub_created = dict_value d ''created_at''\<rparr>)"

definition subscription_dict :: "subscription \<Rightarrow> dict" where
  "subscription_dict s =
     [(''subscription_id'', PStr (sub_id s)), (''type'', PStr (sub_type s)), (''provider'', PStr (sub_provider s)),
      (''id'', PStr (sub_target s)), (''name'', PStr (sub_name s)), (''user'', PStr (sub_user s)),
      (''enabled'', PBool (sub_enabled s)), (''record'', PBool (sub_record s)), (''created_at'', sub_created s)]"

subsection \<open>The file\<close>

fun only_dicts :: "pyval list \<Rightarrow> dict list" where
  "only_dicts [] = []"
| "only_dicts (PDict d # vs) = d # only_dicts vs"
| "only_dicts (_ # vs) = only_dicts vs"

text \<open>A missing, unreadable or malformed file is an empty list.\<close>

fun load_subscriptions :: "state_file \<Rightarrow> dict list" where
  "load_subscriptions (Document (PDict p)) =
     (case dict_default p ''subscriptions'' (PList []) of PList vs \<Rightarrow> only_dicts vs | _ \<Rightarrow> [])"
| "load_subscriptions _ = []"

definition write_subscriptions :: "dict list \<Rightarrow> state_file" where
  "write_subscriptions ds = Document (PDict [(''subscriptions'', PList (map PDict ds))])"

lemma only_dicts_dicts [simp]: "only_dicts (map PDict ds) = ds"
  by (induction ds) auto

lemma load_write_subscriptions [simp]: "load_subscriptions (write_subscriptions ds) = ds"
  by (simp add: write_subscriptions_def dict_default_def)

subsection \<open>Operations\<close>

text \<open>The row a subscription of the same user for the same target is recognised by.\<close>

definition same_follow :: "(pyval \<Rightarrow> string) \<Rightarrow> subscription \<Rightarrow> dict \<Rightarrow> bool" where
  "same_follow render s d \<longleftrightarrow>
     lower (str_field render d ''type'' []) = sub_type s \<and> str_field render d ''provider'' [] = sub_provider s
     \<and> str_field render d ''id'' [] = sub_target s \<and> str_field render d ''user'' [] = sub_user s"

text \<open>\<open>fresh\<close> is the text of the drawn UUID, \<open>now\<close> the ISO text of the current time.\<close>

definition create_subscription ::
  "(pyval \<Rightarrow> string) \<Rightarrow> string \<Rightarrow> string \<Rightarrow> string \<Rightarrow> string \<Rightarrow> string \<Rightarrow> string \<Rightarrow> string \<Rightarrow> state_file
   \<Rightarrow> (sub_exn + subscription \<times> bool) \<times> state_file" where
  "create_subscription render fresh now t p i name user f =
     (case normalize_subscription render
             [(''type'', PStr t), (''provider'', PStr p), (''id'', PStr i), (''name'', PStr name),
              (''user'', PStr user), (''enabled'', PBool True), (''record'', PBool False)] of
        Inl e \<Rightarrow> (Inl e, f)
      | Inr s0 \<Rightarrow>
          let s = s0\<lparr>sub_id := ''sub-'' @ fresh, sub_created := PStr now\<rparr>; rows = load_subscriptions f in
          (case find (same_follow render s) rows of
             Some existing \<Rightarrow> (rbind (normalize_subscription render existing) (\<lambda>e. Inr (e, False)), f)
           | None \<Rightarrow> (Inr (s, True), write_subscriptions (rows @ [subscription_dict s]))))"

definition remove_subscription :: "(pyval \<Rightarrow> string) \<Rightarrow> string \<Rightarrow> state_file \<Rightarrow> bool \<times> state_file" where
  "remove_subscription render i f =
     (let rows = load_subscriptions f;
          remaining = filter (\<lambda>d. str_field render d ''subscription_id'' [] \<noteq> i) rows in
      if length remaining = length rows then (False, f) else (True, write_subscriptions remaining))"

text \<open>
  One row of \<open>update_subscription_recording\<close>: whether it is the row asked for and the recording may be set.
\<close>

definition recording_row ::
  "(pyval \<Rightarrow> string) \<Rightarrow> string \<Rightarrow> string \<Rightarrow> bool \<Rightarrow> dict \<Rightarrow> sub_exn + subscription option" where
  "recording_row render i user rec d =
     (case normalize_subscription render d of
        Inl _ \<Rightarrow> Inr None
      | Inr s \<Rightarrow>
          if strip (sub_id s) \<noteq> i \<or> strip (sub_user s) \<noteq> user then Inr None
          else if lower (strip (sub_type s)) \<noteq> ''event'' then
            Inl (RecordingRefused ''Recording intent is only supported for event subscriptions.'')
          else if rec \<and> lower (strip (sub_provider s)) = ''espn'' then
            Inl (RecordingRefused ''Recording is not supported for independent metadata events.'')
          else Inr (Some (s\<lparr>sub_record := rec\<rparr>)))"

fun recording_loop ::
  "(pyval \<Rightarrow> string) \<Rightarrow> string \<Rightarrow> string \<Rightarrow> bool \<Rightarrow> dict list \<Rightarrow> subscription option \<Rightarrow> dict list
   \<Rightarrow> sub_exn + subscription option \<times> dict list" where
  "recording_loop render i user rec [] found acc = Inr (found, acc)"
| "recording_loop render i user rec (d # ds) found acc =
     rbind (recording_row render i user rec d) (\<lambda>r.
       case r of
         None \<Rightarrow> recording_loop render i user rec ds found (acc @ [d])
       | Some s \<Rightarrow> recording_loop render i user rec ds (Some s) (acc @ [subscription_dict s]))"

definition update_subscription_recording ::
  "(pyval \<Rightarrow> string) \<Rightarrow> string \<Rightarrow> string \<Rightarrow> bool \<Rightarrow> state_file
   \<Rightarrow> (sub_exn + subscription option) \<times> state_file" where
  "update_subscription_recording render i user rec f =
     (case recording_loop render i user rec (load_subscriptions f) None [] of
        Inl e \<Rightarrow> (Inl e, f)
      | Inr (None, _) \<Rightarrow> (Inr None, f)
      | Inr (Some s, rows) \<Rightarrow> (Inr (Some s), write_subscriptions rows))"

fun valid_subscriptions :: "(pyval \<Rightarrow> string) \<Rightarrow> dict list \<Rightarrow> subscription list" where
  "valid_subscriptions render [] = []"
| "valid_subscriptions render (d # ds) =
     (case normalize_subscription render d of
        Inl _ \<Rightarrow> valid_subscriptions render ds
      | Inr s \<Rightarrow> s # valid_subscriptions render ds)"

definition active_subscriptions :: "(pyval \<Rightarrow> string) \<Rightarrow> state_file \<Rightarrow> subscription list" where
  "active_subscriptions render f = filter sub_enabled (valid_subscriptions render (load_subscriptions f))"

subsection \<open>Games\<close>

definition game_matches_subscription :: "(pyval \<Rightarrow> string) \<Rightarrow> dict \<Rightarrow> subscription \<Rightarrow> bool" where
  "game_matches_subscription render game s =
     (if dict_value game ''provider'' \<noteq> PStr (sub_provider s) then False
      else if sub_type s = ''event'' then str_field render game ''provider_event_id'' [] = sub_target s
      else if sub_type s = ''league'' then str_field render game ''provider_league_id'' [] = sub_target s
      else if sub_type s = ''team'' then
        sub_target s \<in> {str_field render game ''home_team_id'' [], str_field render game ''away_team_id'' []}
      else False)"

definition filter_subscribed_games :: "(pyval \<Rightarrow> string) \<Rightarrow> dict list \<Rightarrow> subscription list \<Rightarrow> dict list" where
  "filter_subscribed_games render games subs =
     filter (\<lambda>g. list_ex (game_matches_subscription render g) subs) games"

record discovery_targets =
  target_events :: "string list"
  target_teams :: "string list"
  target_leagues :: "string list"

definition targets_of :: "subscription list \<Rightarrow> string \<Rightarrow> string \<Rightarrow> string list" where
  "targets_of subs p t =
     sort (remdups (map sub_target (filter (\<lambda>s. sub_provider s = p \<and> sub_type s = t) subs)))"

definition provider_discovery_targets :: "subscription list \<Rightarrow> string \<Rightarrow> discovery_targets" where
  "provider_discovery_targets subs p =
     \<lparr>target_events = targets_of subs p ''event'', target_teams = targets_of subs p ''team'',
      target_leagues = targets_of subs p ''league''\<rparr>"


text \<open>
  Following is idempotent, a stored row reads back as the subscription it was made from, and the recording
  switch changes the rows of its user and nothing else.
\<close>

subsection \<open>Rows read back\<close>

definition wf_subscription :: "subscription \<Rightarrow> bool" where
  "wf_subscription s \<longleftrightarrow>
     sub_type s \<in> set VALID_SUBSCRIPTION_TYPES \<and> lower (strip (sub_type s)) = sub_type s
     \<and> sub_provider s \<noteq> [] \<and> strip (sub_provider s) = sub_provider s
     \<and> sub_target s \<noteq> [] \<and> strip (sub_target s) = sub_target s
     \<and> (sub_type s = ''channel'' \<longrightarrow>
          sub_provider s = ''atlas'' \<and> channel_identity (sub_target s) \<and> \<not> sub_record s)"

lemma normalize_wf: "normalize_subscription render d = Inr s \<Longrightarrow> wf_subscription s"
proof -
  have "strip ''atlas'' = ''atlas''" by code_simp
  then show "normalize_subscription render d = Inr s \<Longrightarrow> wf_subscription s"
    by (auto simp: normalize_subscription_def wf_subscription_def Let_def split: if_split_asm)
qed

lemma str_field_row [simp]:
  "str_field render (subscription_dict s) ''type'' x = sub_type s"
  "str_field render (subscription_dict s) ''provider'' x = sub_provider s"
  "str_field render (subscription_dict s) ''id'' x = sub_target s"
  "str_field render (subscription_dict s) ''user'' x = sub_user s"
  "str_field render (subscription_dict s) ''name'' x = sub_name s"
  "str_field render (subscription_dict s) ''subscription_id'' x = sub_id s"
  by (simp_all add: str_field_def subscription_dict_def dict_default_def)

lemma normalize_row:
  assumes "wf_subscription s"
  shows "normalize_subscription render (subscription_dict s) = Inr s"
proof -
  have f: "dict_default (subscription_dict s) ''enabled'' x = PBool (sub_enabled s)"
    "dict_default (subscription_dict s) ''record'' x = PBool (sub_record s)"
    "dict_value (subscription_dict s) ''created_at'' = sub_created s" for x
    by (simp_all add: subscription_dict_def dict_default_def)
  show ?thesis using assms unfolding normalize_subscription_def f str_field_row wf_subscription_def Let_def by auto
qed

subsection \<open>Following\<close>

abbreviation follow_row :: "string \<Rightarrow> string \<Rightarrow> string \<Rightarrow> string \<Rightarrow> string \<Rightarrow> dict" where
  "follow_row t p i name user \<equiv>
     [(''type'', PStr t), (''provider'', PStr p), (''id'', PStr i), (''name'', PStr name), (''user'', PStr user),
      (''enabled'', PBool True), (''record'', PBool False)]"

lemma follow_row_key:
  assumes "normalize_subscription render (follow_row t p i name user) = Inr s"
  shows "sub_type s = lower (strip t)" "sub_provider s = strip p" "sub_target s = strip i" "sub_user s = user"
    "\<exists>s'. normalize_subscription render (follow_row t p i name' user) = Inr s'"
  using assms by (auto simp: normalize_subscription_def str_field_def dict_default_def Let_def split: if_split_asm)

lemma same_follow_key:
  assumes "sub_type s = sub_type s'" "sub_provider s = sub_provider s'" "sub_target s = sub_target s'" "sub_user s = sub_user s'"
  shows "same_follow render s = same_follow render s'"
  using assms by (simp add: same_follow_def fun_eq_iff)

lemma find_append_None: "find P xs = None \<Longrightarrow> find P (xs @ ys) = find P ys"
  by (induction xs) (auto split: if_splits)

text \<open>
  Following is idempotent: once a target is followed, following it again gives back the stored
  subscription, whatever identifier, time and name the second request brings, and leaves the file as it is.
\<close>

theorem follow_idempotent:
  assumes "create_subscription render fresh now t p i name user f = (Inr (s, b), f1)"
  shows "create_subscription render fresh' now' t p i name' user f1 = (Inr (s, False), f1)"
proof -
  obtain s0 where s0: "normalize_subscription render (follow_row t p i name user) = Inr s0"
    using assms by (auto simp: create_subscription_def split: sum.splits)
  obtain s1 where s1: "normalize_subscription render (follow_row t p i name' user) = Inr s1"
    using follow_row_key(5)[OF s0] by blast
  let ?s = "s0\<lparr>sub_id := ''sub-'' @ fresh, sub_created := PStr now\<rparr>"
  let ?s' = "s1\<lparr>sub_id := ''sub-'' @ fresh', sub_created := PStr now'\<rparr>"
  have key: "same_follow render ?s' = same_follow render ?s"
    using follow_row_key(1-4)[OF s0] follow_row_key(1-4)[OF s1] by (intro same_follow_key) simp_all
  show ?thesis
  proof (cases "find (same_follow render ?s) (load_subscriptions f)")
    case None
    with assms s0 have s: "s = ?s" "f1 = write_subscriptions (load_subscriptions f @ [subscription_dict ?s])"
      by (auto simp: create_subscription_def Let_def)
    have wf: "wf_subscription ?s" using normalize_wf[OF s0] by (simp add: wf_subscription_def)
    then have "same_follow render ?s (subscription_dict ?s)"
      using follow_row_key(1)[OF s0] by (simp add: same_follow_def)
    then have "find (same_follow render ?s') (load_subscriptions f1) = Some (subscription_dict ?s)"
      unfolding key s(2) load_write_subscriptions find_append_None[OF None] by simp
    then show ?thesis using s1 normalize_row[OF wf] by (simp add: create_subscription_def Let_def s(1))
  next
    case (Some existing)
    with assms s0 have "normalize_subscription render existing = Inr s" "f1 = f"
      by (auto simp: create_subscription_def Let_def rbind_Inr_iff)
    with Some key s1 show ?thesis by (simp add: create_subscription_def Let_def)
  qed
qed

subsection \<open>Recording\<close>

definition recording_target :: "(pyval \<Rightarrow> string) \<Rightarrow> string \<Rightarrow> string \<Rightarrow> dict \<Rightarrow> bool" where
  "recording_target render i user d \<longleftrightarrow>
     (case normalize_subscription render d of Inl _ \<Rightarrow> False | Inr s \<Rightarrow> strip (sub_id s) = i \<and> strip (sub_user s) = user)"

definition recorded_row :: "(pyval \<Rightarrow> string) \<Rightarrow> string \<Rightarrow> string \<Rightarrow> bool \<Rightarrow> dict \<Rightarrow> dict" where
  "recorded_row render i user rec d =
     (case recording_row render i user rec d of Inr (Some s) \<Rightarrow> subscription_dict s | _ \<Rightarrow> d)"

lemma recording_row_target: "recording_row render i user rec d = Inr (Some s) \<Longrightarrow> recording_target render i user d
    \<and> sub_type s = ''event'' \<and> sub_record s = rec \<and> (rec \<longrightarrow> lower (sub_provider s) \<noteq> ''espn'')
    \<and> (\<exists>s0. normalize_subscription render d = Inr s0 \<and> s = s0\<lparr>sub_record := rec\<rparr>)"
  using normalize_wf[of render d]
  by (auto simp: recording_row_def recording_target_def wf_subscription_def split: sum.splits if_split_asm)

lemma recording_loop_rows:
  "recording_loop render i user rec ds found acc = Inr (r, rows) \<Longrightarrow>
   rows = acc @ map (recorded_row render i user rec) ds
   \<and> (\<forall>d \<in> set ds. \<exists>x. recording_row render i user rec d = Inr x)
   \<and> (r = found \<or> (\<exists>d \<in> set ds. \<exists>s. r = Some s \<and> recording_row render i user rec d = Inr (Some s)))"
proof (induction ds arbitrary: found acc)
  case (Cons d ds)
  then obtain x where x: "recording_row render i user rec d = Inr x" by (auto simp: rbind_Inr_iff)
  show ?case
  proof (cases x)
    case None
    with Cons.prems x Cons.IH[of found "acc @ [d]"] show ?thesis by (auto simp: recorded_row_def)
  next
    case (Some s)
    with Cons.prems x Cons.IH[of "Some s" "acc @ [subscription_dict s]"] show ?thesis
      by (auto simp: recorded_row_def)
  qed
qed simp

text \<open>
  C20. The recording switch is scoped: it changes exactly the event subscriptions of the user with the given
  identifier, there only the recording flag; every other row of the file stays as it is; it never sets a
  recording of an independent metadata event; and when it fails or finds nothing the file is untouched.
\<close>

theorem recording_scoped:
  assumes "update_subscription_recording render i user rec f = (r, f')"
  shows "f' = f \<and> (\<forall>s. r \<noteq> Inr (Some s))
    \<or> (\<exists>s. r = Inr (Some s) \<and> sub_record s = rec \<and> sub_type s = ''event'' \<and> (rec \<longrightarrow> lower (sub_provider s) \<noteq> ''espn''))
      \<and> list_all2 (\<lambda>d d'. if recording_target render i user d
           then \<exists>s0. normalize_subscription render d = Inr s0 \<and> d' = subscription_dict (s0\<lparr>sub_record := rec\<rparr>)
           else d' = d) (load_subscriptions f) (load_subscriptions f')"
proof (cases "recording_loop render i user rec (load_subscriptions f) None []")
  case (Inl e)
  with assms show ?thesis by (auto simp: update_subscription_recording_def)
next
  case (Inr x)
  obtain found rows where x: "x = (found, rows)" by (cases x)
  note loop = recording_loop_rows[OF Inr[unfolded x]]
  show ?thesis
  proof (cases found)
    case None
    with assms Inr x show ?thesis by (auto simp: update_subscription_recording_def)
  next
    case (Some s)
    with assms Inr x have r: "r = Inr (Some s)" "f' = write_subscriptions rows"
      by (auto simp: update_subscription_recording_def)
    from loop Some obtain d where "recording_row render i user rec d = Inr (Some s)" by auto
    from recording_row_target[OF this] have s: "sub_record s = rec \<and> sub_type s = ''event'' \<and> (rec \<longrightarrow> lower (sub_provider s) \<noteq> ''espn'')"
      by simp
    have row: "if recording_target render i user d
        then \<exists>s0. normalize_subscription render d = Inr s0 \<and> recorded_row render i user rec d = subscription_dict (s0\<lparr>sub_record := rec\<rparr>)
        else recorded_row render i user rec d = d" if "d \<in> set (load_subscriptions f)" for d
    proof -
      from loop that obtain x where x: "recording_row render i user rec d = Inr x" by auto
      then show ?thesis
        using recording_row_target[of render i user rec d]
        by (cases x) (auto simp: recorded_row_def recording_row_def recording_target_def split: sum.splits if_split_asm)
    qed
    have rows: "load_subscriptions f' = map (recorded_row render i user rec) (load_subscriptions f)" using loop r by simp
    have "list_all2 (\<lambda>d d'. if recording_target render i user d
        then \<exists>s0. normalize_subscription render d = Inr s0 \<and> d' = subscription_dict (s0\<lparr>sub_record := rec\<rparr>)
        else d' = d) (load_subscriptions f) (load_subscriptions f')"
      unfolding rows list.rel_map(2) using row by (intro list.rel_refl_strong)
    with s r(1) show ?thesis by blast
  qed
qed

end
