(* ===== verification/Api_Requests.thy ===== *)
theory Api_Requests
  imports Prelude Live_Claims Live_Tv Dispatcharr_Admin Subscriptions
begin

text \<open>
  The private Sports API (\<open>modules/sports/src/private_api.py\<close>): requests and answers, the two bearer
  checks, the body and the query of a request, and the steps in which a handler reads and writes the state
  files. The server runs every request in a thread of its own and a handler holds no lock between two
  steps, so other requests may change the files there (\<open>w_others\<close>).
\<close>

subsection \<open>Requests\<close>

record api_call =
  call_method :: string
  call_url :: string
  call_authorization :: string
  call_length :: string
  call_body :: "pyval option"

text \<open>The configured tokens; an unset variable is the empty text.\<close>

record api_tokens =
  writer_token :: string
  policy_token :: string
  curated_token :: string

text \<open>\<open>hmac.compare_digest\<close> on texts: \<open>TypeError\<close> unless both are ASCII.\<close>

definition same_digest :: "string \<Rightarrow> string \<Rightarrow> pyexn + bool" where
  "same_digest a b = (if ascii_text a \<and> ascii_text b then Inr (a = b) else Inl TypeError)"

definition authorized :: "api_tokens \<Rightarrow> api_call \<Rightarrow> pyexn + bool" where
  "authorized tokens call =
     (let expected = strip (writer_token tokens); supplied = call_authorization call in
      if expected = [] \<or> \<not> starts_with ''Bearer '' supplied then Inr False
      else same_digest (strip (drop 7 supplied)) expected)"

definition curated_paths :: "string list" where
  "curated_paths = [''/internal/v1/curated/teams'', ''/internal/v1/curated/schedule'']"

definition curated_read_authorized :: "api_tokens \<Rightarrow> api_call \<Rightarrow> url_parts \<Rightarrow> pyexn + bool" where
  "curated_read_authorized tokens call parsed =
     (let expected = curated_token tokens; supplied = call_authorization call in
      if call_method call \<noteq> ''GET'' \<or> url_path parsed \<notin> set curated_paths \<or> length expected < 32
         \<or> expected = strip (writer_token tokens) \<or> expected = policy_token tokens
         \<or> \<not> starts_with ''Bearer '' supplied
      then Inr False
      else same_digest (drop 7 supplied) expected)"

text \<open>\<open>_require_auth\<close>\<close>

definition require_auth :: "api_tokens \<Rightarrow> api_call \<Rightarrow> url_parts \<Rightarrow> pyexn + bool" where
  "require_auth tokens call parsed =
     rbind (authorized tokens call) (\<lambda>ok. if ok then Inr True else curated_read_authorized tokens call parsed)"

subsection \<open>Queries\<close>

definition unplus :: "string \<Rightarrow> string" where
  "unplus s = map (\<lambda>c. if c = CHR ''+'' then CHR '' '' else c) s"

fun split_char :: "char \<Rightarrow> string \<Rightarrow> string list" where
  "split_char c [] = [[]]"
| "split_char c (x # xs) =
     (if x = c then [] # split_char c xs
      else (case split_char c xs of p # ps \<Rightarrow> (x # p) # ps | [] \<Rightarrow> [[x]]))"

text \<open>\<open>parse_qs\<close> without blank values: the fields in order, each with its values.\<close>

fun query_fields :: "string list \<Rightarrow> (string \<times> string list) list \<Rightarrow> (string \<times> string list) list" where
  "query_fields [] acc = acc"
| "query_fields (part # parts) acc =
     (case cut_at (CHR ''='') part of
        (name, Some value) \<Rightarrow>
          if value = [] then query_fields parts acc
          else
            let k = unquote (unplus name); v = unquote (unplus value) in
            query_fields parts (AList.update k ((case map_of acc k of None \<Rightarrow> [] | Some vs \<Rightarrow> vs) @ [v]) acc)
      | (name, None) \<Rightarrow> query_fields parts acc)"

definition parse_qs :: "string \<Rightarrow> (string \<times> string list) list" where
  "parse_qs query = query_fields (split_char (CHR ''&'') query) []"

definition query_values :: "(string \<times> string list) list \<Rightarrow> string \<Rightarrow> string list" where
  "query_values params k = (case map_of params k of None \<Rightarrow> [] | Some vs \<Rightarrow> vs)"

text \<open>\<open>params.get(k, [default])[0]\<close>\<close>

definition first_value :: "(string \<times> string list) list \<Rightarrow> string \<Rightarrow> string \<Rightarrow> string" where
  "first_value params k fallback = (case map_of params k of Some (v # _) \<Rightarrow> v | _ \<Rightarrow> fallback)"

text \<open>The argument between a prefix and a suffix of the path.\<close>

definition path_argument :: "string \<Rightarrow> string \<Rightarrow> string \<Rightarrow> string" where
  "path_argument prefix suffix path =
     strip (unquote (take (length path - length suffix - length prefix) (drop (length prefix) path)))"

subsection \<open>Answers\<close>

definition error_answer :: "int \<Rightarrow> string \<Rightarrow> http_answer" where
  "error_answer status text = Answer status (PDict [(''error'', PStr text)])"

definition coded_answer :: "int \<Rightarrow> string \<Rightarrow> string \<Rightarrow> http_answer" where
  "coded_answer status code text = Answer status (PDict [(''code'', PStr code), (''error'', PStr text)])"

text \<open>The \<open>Retry-After\<close> header repeats the number of the body.\<close>

definition rate_limited_answer :: "int \<Rightarrow> http_answer" where
  "rate_limited_answer n =
     (let retry = max 1 (min n 300) in
      Answer 429 (PDict [(''code'', PStr ''sports_provider_rate_limited''),
        (''error'', PStr ''Sports provider is temporarily rate limited.''), (''retry_after_seconds'', PInt retry)]))"

subsection \<open>The state and the steps of a handler\<close>

record api_store =
  lifecycle_json :: state_file
  live_json :: state_file
  tv_json :: state_file
  channel_json :: state_file
  subs_json :: state_file
  games :: dict

text \<open>
  A handler ends early with an answer, or with an exception that nothing catches (\<open>None\<close>: the connection
  is closed without an answer).
\<close>

type_synonym 'a api = "(api_store, http_answer option, 'a) exn_state"

definition answering :: "http_answer \<Rightarrow> 'a api" where
  "answering a = pfail (Some a)"

definition uncaught :: "'a api" where
  "uncaught = pfail None"

definition check :: "bool \<Rightarrow> http_answer \<Rightarrow> unit api" where
  "check b a = (if b then preturn () else answering a)"

definition answered :: "http_answer api \<Rightarrow> api_store \<Rightarrow> http_answer option \<times> api_store" where
  "answered m s = (case m s of (Inl r, s') \<Rightarrow> (r, s') | (Inr a, s') \<Rightarrow> (Some a, s'))"

text \<open>A provider of sports metadata: \<open>KeyError\<close> is a \<open>LookupError\<close>, a rate limit carries its seconds.\<close>

datatype provider_exn = ProviderLookup | ProviderKey | ProviderValue | ProviderRateLimited int | ProviderFailed

record metadata_provider =
  metadata_name :: string
  search_targets :: "string \<Rightarrow> string \<Rightarrow> provider_exn + pyval list"
  fetch_target :: "string \<Rightarrow> string \<Rightarrow> provider_exn + dict option"
  normalize_event :: "dict \<Rightarrow> provider_exn + dict"
  fetch_games :: "string list \<Rightarrow> string list \<Rightarrow> string list \<Rightarrow> provider_exn + dict list"

text \<open>
  What surrounds a request: the Python text of values (\<open>w_render\<close>), IP literals and dates, whether the
  lifecycle file can be written at a step, whether the live catalog is configured by its variable, the
  Dispatcharr client's environment and its exchange in each of its uses, the provider interfaces, the metadata endpoints
  (which consult external services only), the verifications of the two attestation endpoints, a drawn UUID
  and the time.
\<close>

record api_world =
  w_tokens :: api_tokens
  w_render :: "pyval \<Rightarrow> string"
  w_lo :: "string \<Rightarrow> bool"
  w_utc :: "string \<Rightarrow> string option"
  w_regular :: bool
  w_disk :: "nat \<Rightarrow> bool"
  w_catalog :: bool
  w_admin :: "string \<times> string \<times> string"
  w_http :: "nat \<Rightarrow> admin_http"
  w_player :: "string \<Rightarrow> admin_reply"
  w_others :: "nat \<Rightarrow> api_store \<Rightarrow> api_store"
  w_espn :: "provider_exn + metadata_provider"
  w_enabled :: "metadata_provider list"
  w_metadata :: "string \<Rightarrow> string \<Rightarrow> http_answer option"
  w_option :: "live_source \<Rightarrow> string \<Rightarrow> sports_source list \<Rightarrow> admin_exn + pyval"
  w_route :: "string \<Rightarrow> sports_source list \<Rightarrow> api_store \<Rightarrow> pyval option"
  w_fresh :: string
  w_now :: string

text \<open>Step \<open>k\<close>: one access to a file, and then the other requests until the next step.\<close>

definition reading :: "api_world \<Rightarrow> nat \<Rightarrow> (api_store \<Rightarrow> 'e + 'a) \<Rightarrow> ('e \<Rightarrow> http_answer option) \<Rightarrow> 'a api" where
  "reading W k get h s = (map_exn h (get s), w_others W k s)"

definition updating ::
  "api_world \<Rightarrow> nat \<Rightarrow> (api_store \<Rightarrow> state_file) \<Rightarrow> ((state_file \<Rightarrow> state_file) \<Rightarrow> api_store \<Rightarrow> api_store)
   \<Rightarrow> (state_file \<Rightarrow> ('e + 'a) \<times> state_file) \<Rightarrow> ('e \<Rightarrow> http_answer option) \<Rightarrow> 'a api" where
  "updating W k get put operation h s =
     (case operation (get s) of (r, f) \<Rightarrow> (map_exn h r, w_others W k (put (\<lambda>_. f) s)))"

text \<open>\<open>except SourceLifecycleError\<close> and its like: any other exception is not caught.\<close>

fun lifecycle_caught :: "http_answer \<Rightarrow> source_exn \<Rightarrow> http_answer option" where
  "lifecycle_caught a SourceLifecycleError = Some a"
| "lifecycle_caught a _ = None"

fun live_caught :: "http_answer \<Rightarrow> live_exn \<Rightarrow> http_answer option" where
  "live_caught a LiveSourceCatalogError = Some a"
| "live_caught a _ = None"

definition tv_caught :: "http_answer \<Rightarrow> tv_exn \<Rightarrow> http_answer option" where
  "tv_caught a e = Some a"

fun admin_caught :: "http_answer \<Rightarrow> http_answer \<Rightarrow> admin_exn \<Rightarrow> http_answer option" where
  "admin_caught missing a (DispatcharrAccountNotFoundError _) = Some missing"
| "admin_caught missing a (DispatcharrAdminError _) = Some a"
| "admin_caught missing a (DispatcharrAuthError _) = Some a"
| "admin_caught missing a DispatcharrChannelNotFoundError = Some a"
| "admin_caught missing a _ = None"

definition parse_account :: "api_world \<Rightarrow> pyval \<Rightarrow> source_exn + sports_source" where
  "parse_account W = source_from_mapping (w_render W) (w_lo W) (w_utc W)"

definition load_accounts :: "api_world \<Rightarrow> nat \<Rightarrow> http_answer \<Rightarrow> sports_source list api" where
  "load_accounts W k a = reading W k (\<lambda>s. load_lifecycle (parse_account W) (lifecycle_json s)) (lifecycle_caught a)"

datatype write_exn = WriteRefused source_exn | WriteOSError

definition store_accounts ::
  "api_world \<Rightarrow> nat \<Rightarrow> sports_source list \<Rightarrow> state_file \<Rightarrow> (write_exn + unit) \<times> state_file" where
  "store_accounts W k ss f =
     (case write_lifecycle (w_regular W) ss f of
        (Inl e, f') \<Rightarrow> (Inl (WriteRefused e), f')
      | (Inr _, f') \<Rightarrow> if w_disk W k then (Inr (), f') else (Inl WriteOSError, f))"

fun write_caught :: "http_answer \<Rightarrow> write_exn \<Rightarrow> http_answer option" where
  "write_caught a (WriteRefused e) = lifecycle_caught a e"
| "write_caught a WriteOSError = None"

definition write_accounts :: "api_world \<Rightarrow> nat \<Rightarrow> sports_source list \<Rightarrow> (write_exn \<Rightarrow> http_answer option) \<Rightarrow> unit api" where
  "write_accounts W k ss h = updating W k lifecycle_json lifecycle_json_update (store_accounts W k ss) h"

subsection \<open>The body\<close>

definition MAX_BODY_BYTES :: int where
  "MAX_BODY_BYTES = 16 * 1024"

definition read_payload :: "api_call \<Rightarrow> dict api" where
  "read_payload call =
     (case py_int_of_string (call_length call) of
        None \<Rightarrow> answering (error_answer 413 ''Request body is too large.'')
      | Some n \<Rightarrow>
          if n < 0 \<or> n > MAX_BODY_BYTES then answering (error_answer 413 ''Request body is too large.'')
          else (case call_body call of
              None \<Rightarrow> answering (error_answer 400 ''Invalid JSON.'')
            | Some (PDict d) \<Rightarrow> preturn d
            | Some _ \<Rightarrow> answering (error_answer 400 ''JSON object required.'')))"

definition authorize :: "api_world \<Rightarrow> api_call \<Rightarrow> url_parts \<Rightarrow> unit api" where
  "authorize W call parsed =
     (case require_auth (w_tokens W) call parsed of
        Inl _ \<Rightarrow> uncaught
      | Inr ok \<Rightarrow> check ok unauthorized_answer)"

end
