(* ===== verification/Api_Sources.thy ===== *)
theory Api_Sources
  imports Api_Requests
begin

text \<open>
  The account endpoints of the private Sports API: the lifecycle sources, their providers and the remote
  accounts behind them. Every handler loads the whole registry in one step and writes the whole registry in
  a later one.
\<close>

subsection \<open>Shared parts\<close>

text \<open>\<open>{**d, **updates}\<close> and \<open>d.update(updates)\<close>\<close>

definition dict_merge :: "dict \<Rightarrow> dict \<Rightarrow> dict" where
  "dict_merge d updates = foldl (\<lambda>acc (k, v). AList.update k v acc) d updates"

fun mapping_of :: "pyval \<Rightarrow> dict" where
  "mapping_of (PDict d) = d"
| "mapping_of _ = []"

definition provider_to_mapping :: "source_provider \<Rightarrow> pyval" where
  "provider_to_mapping p =
     PDict [(''provider_id'', PStr (prov_id p)), (''display_name'', PStr (prov_name p)),
       (''account_count'', PInt (int (account_count p))),
       (''enabled_account_count'', PInt (int (enabled_account_count p))),
       (''configured_max_connections'', PInt (configured_max_connections p)),
       (''enabled_max_connections'', PInt (enabled_max_connections p)),
       (''source_ids'', PList (map PStr (prov_source_ids p)))]"

definition candidate_to_mapping :: "source_candidate \<Rightarrow> pyval" where
  "candidate_to_mapping c =
     PDict [(''source_id'', PStr (cand_source c)), (''slot'', PInt (int (cand_slot c))),
       (''priority'', PInt (cand_priority c)), (''kind'', PStr (kind_value (cand_kind c)))]"

text \<open>\<open>_source_response\<close>: outside the \<open>try\<close> blocks of its callers.\<close>

definition source_response :: "sports_source list \<Rightarrow> dict api" where
  "source_response ss =
     pure_play (map_exn (\<lambda>_. None) (rbind (group_source_providers ss) (\<lambda>ps.
       Inr [(''sources'', PList (map source_to_mapping ss)),
            (''providers'', PList (map provider_to_mapping ps)),
            (''candidates'', PList (map candidate_to_mapping (rank_source_candidates ss)))])))"

definition dispatcharr_account_id :: "sports_source \<Rightarrow> source_exn + int" where
  "dispatcharr_account_id s =
     (let reference = strip (text_or (backend_reference s) []) in
      if \<not> starts_with m3u_prefix reference then lifecycle_error
      else (case py_int_of_string (drop (length m3u_prefix) reference) of
          None \<Rightarrow> lifecycle_error
        | Some n \<Rightarrow> if n < 1 then lifecycle_error else Inr n))"

definition from_environment :: "api_world \<Rightarrow> admin_exn + admin_client" where
  "from_environment W = (case w_admin W of (url, user, password) \<Rightarrow> new_client url user password)"

definition find_account :: "string \<Rightarrow> sports_source list \<Rightarrow> sports_source option" where
  "find_account sid ss = find (\<lambda>s. source_id s = sid) ss"

definition present :: "'a option \<Rightarrow> http_answer \<Rightarrow> 'a api" where
  "present x a = (case x of None \<Rightarrow> answering a | Some v \<Rightarrow> preturn v)"

definition account_absent :: http_answer where
  "account_absent = coded_answer 404 ''sports_source_not_found'' ''Sports source was not found.''"

definition remote_absent :: http_answer where
  "remote_absent = coded_answer 404 ''dispatcharr_account_not_found'' ''Dispatcharr account was not found.''"

definition backend_invalid :: http_answer where
  "backend_invalid = coded_answer 422 ''sports_source_invalid'' ''Sports source backend configuration is invalid.''"

definition source_invalid :: http_answer where
  "source_invalid = coded_answer 422 ''sports_source_invalid'' ''Sports source configuration is invalid.''"

definition required_argument :: "string \<Rightarrow> string \<Rightarrow> unit api" where
  "required_argument v name = check (v \<noteq> []) (error_answer 400 (name @ '' is required.''))"

text \<open>A value of the handler's own code, and one of the remote administration at step \<open>k\<close>.\<close>

definition computed :: "('e \<Rightarrow> http_answer option) \<Rightarrow> 'e + 'a \<Rightarrow> 'a api" where
  "computed h r = pure_play (map_exn h r)"

definition remote :: "api_world \<Rightarrow> nat \<Rightarrow> ('e \<Rightarrow> http_answer option) \<Rightarrow> 'e + 'a \<Rightarrow> 'a api" where
  "remote W k h r = reading W k (\<lambda>_. r) h"

definition removed_answer :: "string \<Rightarrow> dict \<Rightarrow> http_answer" where
  "removed_answer sid d = Answer 200 (PDict ([(''removed'', PBool True), (''source_id'', PStr sid)] @ d))"

subsection \<open>Reading and testing an account\<close>

text \<open>The account a request names, and the number of its remote account.\<close>

definition named_account :: "api_world \<Rightarrow> string \<Rightarrow> int api" where
  "named_account W sid =
     pbind (load_accounts W 0 backend_invalid) (\<lambda>ss.
     pbind (present (find_account sid ss) account_absent) (\<lambda>s.
       computed (lifecycle_caught backend_invalid) (dispatcharr_account_id s)))"

definition get_remote_account :: "api_world \<Rightarrow> string \<Rightarrow> http_answer api" where
  "get_remote_account W sid =
     pbind (required_argument sid ''source_id'') (\<lambda>_.
     pbind (named_account W sid) (\<lambda>n.
     pbind (remote W 1 (admin_caught remote_absent
              (coded_answer 503 ''dispatcharr_admin_unavailable'' ''Dispatcharr administration is unavailable.''))
            (rbind (from_environment W) (\<lambda>c. read_account (w_render W) (w_http W 0) c n))) (\<lambda>a.
       preturn (Answer 200 (PDict [(''account'', account_to_mapping a)])))))"

definition post_test_connection :: "api_world \<Rightarrow> string \<Rightarrow> http_answer api" where
  "post_test_connection W sid =
     (let unavailable = coded_answer 503 ''dispatcharr_test_unavailable''
            ''Provider connection test is unavailable.'' in
      pbind (required_argument sid ''source_id'') (\<lambda>_.
      pbind (named_account W sid) (\<lambda>n.
      pbind (remote W 1 (admin_caught unavailable unavailable)
             (rbind (from_environment W) (\<lambda>c.
                test_connection (w_render W) (w_lo W) (w_http W 0) (w_player W) c n))) (\<lambda>t.
        preturn (Answer 200 (PDict [(''connection'', test_to_mapping t)]))))))"

definition get_sources :: "api_world \<Rightarrow> http_answer api" where
  "get_sources W =
     pbind (load_accounts W 0 unavailable_answer) (\<lambda>ss.
     pbind (source_response ss) (\<lambda>d. preturn (Answer 200 (PDict d))))"

subsection \<open>Creating a provider account\<close>

definition account_fields :: "string list" where
  "account_fields = [''source_id'', ''provider_id'', ''credential_realm'', ''provider_display_name'',
     ''account_display_name'', ''server_url'', ''username'', ''password'', ''max_connections'', ''priority'']"

definition account_text_fields :: "string list" where
  "account_text_fields = take 7 account_fields"

definition account_invalid :: http_answer where
  "account_invalid = coded_answer 422 ''sports_provider_account_invalid'' ''Provider account configuration is invalid.''"

fun account_texts :: "dict \<Rightarrow> string list \<Rightarrow> (string \<times> string) list api" where
  "account_texts payload [] = preturn []"
| "account_texts payload (k # ks) =
     (case dict_value payload k of
        PStr v \<Rightarrow>
          if strip v = [] then answering account_invalid
          else pbind (account_texts payload ks) (\<lambda>rest. preturn ((k, strip v) # rest))
      | _ \<Rightarrow> answering account_invalid)"

definition account_text :: "(string \<times> string) list \<Rightarrow> string \<Rightarrow> string" where
  "account_text texts k = (case map_of texts k of None \<Rightarrow> [] | Some v \<Rightarrow> v)"

definition account_mapping :: "(string \<times> string) list \<Rightarrow> dict \<Rightarrow> pyval" where
  "account_mapping texts payload =
     (let t = (\<lambda>k. PStr (account_text texts k)) in
      PDict [(''source_id'', t ''source_id''), (''display_name'', t ''account_display_name''),
        (''provider_id'', t ''provider_id''), (''credential_realm'', t ''credential_realm''),
        (''provider_display_name'', t ''provider_display_name''),
        (''account_display_name'', t ''account_display_name''), (''kind'', PStr ''licensed_subscription''),
        (''enabled'', PBool False), (''priority'', dict_default payload ''priority'' (PInt 100)),
        (''max_connections'', dict_value payload ''max_connections'')])"

text \<open>Everything that is checked before the remote account is created.\<close>

definition checked_account :: "api_world \<Rightarrow> dict \<Rightarrow> ((string \<times> string) list \<times> string \<times> sports_source \<times> sports_source list) api" where
  "checked_account W payload =
     pbind (check (set (map fst payload) \<subseteq> set account_fields)
              (coded_answer 422 ''sports_provider_account_invalid'' ''Unsupported provider account fields.'')) (\<lambda>_.
     pbind (account_texts payload account_text_fields) (\<lambda>texts.
     pbind (case dict_value payload ''password'' of
              PStr p \<Rightarrow> pbind (check (p \<noteq> []) account_invalid) (\<lambda>_. preturn p)
            | _ \<Rightarrow> answering account_invalid) (\<lambda>password.
     pbind (computed (lifecycle_caught account_invalid) (parse_account W (account_mapping texts payload))) (\<lambda>source.
     pbind (load_accounts W 0 account_invalid) (\<lambda>ss.
     pbind (check (find_account (source_id source) ss = None)
              (coded_answer 409 ''sports_source_exists'' ''Sports source already exists.'')) (\<lambda>_.
     pbind (computed (lifecycle_caught account_invalid) (group_source_providers (ss @ [source]))) (\<lambda>_.
       preturn (texts, password, source, ss))))))))"

definition reference_of :: "int \<Rightarrow> string" where
  "reference_of n = m3u_prefix @ dec n"

text \<open>The row that is persisted: the checked account with the reference of the remote one.\<close>

definition referenced_account :: "api_world \<Rightarrow> sports_source \<Rightarrow> int \<Rightarrow> source_exn + sports_source" where
  "referenced_account W source n =
     parse_account W (PDict (AList.update ''backend_reference'' (PStr (reference_of n))
       (mapping_of (source_to_mapping source))))"

definition logged_in :: "api_world \<Rightarrow> nat \<Rightarrow> admin_client \<Rightarrow> admin_client" where
  "logged_in W k c =
     (case client_token (w_render W) (w_http W k) c of
        Inl _ \<Rightarrow> c | Inr t \<Rightarrow> c\<lparr>cached_token := Some t\<rparr>)"

definition create_failed :: http_answer where
  "create_failed = coded_answer 503 ''sports_provider_account_create_failed''
     ''Provider account creation could not be persisted.''"

definition create_unreconciled :: http_answer where
  "create_unreconciled = coded_answer 503 ''sports_provider_account_reconciliation_required''
     ''Provider account creation requires operator reconciliation.''"

text \<open>The compensation: \<open>SourceLifecycleError\<close> and \<open>OSError\<close> of the persistence lead here.\<close>

definition compensate :: "api_world \<Rightarrow> admin_client \<Rightarrow> int \<Rightarrow> 'a api" where
  "compensate W c n =
     pbind (remote W 3 (admin_caught create_unreconciled create_unreconciled)
              (delete_account (w_render W) (w_http W 1) c (PInt n))) (\<lambda>_. answering create_failed)"

fun persist_caught :: "write_exn \<Rightarrow> bool" where
  "persist_caught (WriteRefused SourceLifecycleError) = True"
| "persist_caught (WriteRefused _) = False"
| "persist_caught WriteOSError = True"

definition persist_account ::
  "api_world \<Rightarrow> nat \<Rightarrow> write_exn + sports_source list \<Rightarrow> (write_exn + sports_source list) api" where
  "persist_account W k rows =
     (case rows of
        Inl e \<Rightarrow> preturn (Inl e)
      | Inr ss \<Rightarrow> (\<lambda>s. case store_accounts W k ss (lifecycle_json s) of
          (r, f) \<Rightarrow> (Inr (rbind r (\<lambda>_. Inr ss)), w_others W k (s\<lparr>lifecycle_json := f\<rparr>))))"

definition remote_invalid :: http_answer where
  "remote_invalid = coded_answer 503 ''dispatcharr_admin_invalid_response''
     ''Dispatcharr returned invalid account metadata.''"

definition creation_unavailable :: http_answer where
  "creation_unavailable = coded_answer 503 ''dispatcharr_admin_unavailable''
     ''Dispatcharr account creation is unavailable.''"

text \<open>The remote account, with the checked account it is for; then its persistence.\<close>

type_synonym creation = "admin_client \<times> safe_account \<times> sports_source \<times> sports_source list"

definition created_remote :: "api_world \<Rightarrow> dict \<Rightarrow> creation api" where
  "created_remote W payload =
     pbind (checked_account W payload) (\<lambda>(texts, password, source, ss).
     pbind (computed (\<lambda>_. None) (from_environment W)) (\<lambda>c.
     pbind (remote W 1 (admin_caught creation_unavailable creation_unavailable)
              (create_account (w_render W) (w_lo W) (w_http W 0) c (PStr (source_id source))
                 (PStr (account_text texts ''server_url'')) (PStr (account_text texts ''username''))
                 (PStr password) (PInt (max_connections source)))) (\<lambda>account.
     pbind (check (account_id account \<ge> 1) remote_invalid) (\<lambda>_.
       preturn (logged_in W 0 c, account, source, ss)))))"

definition persisted_creation :: "api_world \<Rightarrow> creation \<Rightarrow> http_answer api" where
  "persisted_creation W created = (case created of (c, account, source, ss) \<Rightarrow>
     pbind (persist_account W 2 (rbind (map_exn WriteRefused (referenced_account W source (account_id account)))
              (\<lambda>new. Inr (ss @ [new])))) (\<lambda>r.
     case r of
       Inl e \<Rightarrow> if persist_caught e then compensate W c (account_id account) else uncaught
     | Inr rows \<Rightarrow>
         preturn (Answer 201 (PDict [(''source'', source_to_mapping (last rows)),
           (''account'', account_to_mapping account)]))))"

definition post_provider_account :: "api_world \<Rightarrow> dict \<Rightarrow> http_answer api" where
  "post_provider_account W payload = pbind (created_remote W payload) (persisted_creation W)"


text \<open>
  The endpoints of the private Sports API that change or remove an account: \<open>PATCH\<close> of a provider, of an
  account and of its credentials, \<open>DELETE\<close> of an account with and without its remote account.
\<close>

subsection \<open>Changes\<close>

definition provider_invalid :: http_answer where
  "provider_invalid =
     coded_answer 422 ''sports_source_provider_invalid'' ''Sports source provider configuration is invalid.''"

text \<open>The rows of a provider, rewritten one after the other.\<close>

fun renamed_accounts :: "api_world \<Rightarrow> string \<Rightarrow> pyval \<Rightarrow> sports_source list \<Rightarrow> source_exn + sports_source list" where
  "renamed_accounts W pid name [] = Inr []"
| "renamed_accounts W pid name (s # ss) =
     rbind (if provider_id s = Some pid
            then parse_account W (PDict (AList.update ''provider_display_name'' name (mapping_of (source_to_mapping s))))
            else Inr s) (\<lambda>s'.
     rbind (renamed_accounts W pid name ss) (\<lambda>ss'. Inr (s' # ss')))"

definition patch_provider :: "api_world \<Rightarrow> string \<Rightarrow> api_call \<Rightarrow> http_answer api" where
  "patch_provider W pid call =
     pbind (required_argument pid ''provider_id'') (\<lambda>_.
     pbind (read_payload call) (\<lambda>payload.
     pbind (check (set (map fst payload) \<subseteq> {''provider_display_name''}
                   \<and> map_of payload ''provider_display_name'' \<noteq> None) provider_invalid) (\<lambda>_.
     pbind (load_accounts W 0 provider_invalid) (\<lambda>ss.
     pbind (check (list_ex (\<lambda>s. provider_id s = Some pid) ss)
              (coded_answer 404 ''sports_source_provider_not_found'' ''Sports source provider was not found.'')) (\<lambda>_.
     pbind (computed (lifecycle_caught provider_invalid)
              (renamed_accounts W pid (dict_value payload ''provider_display_name'') ss)) (\<lambda>updated.
     pbind (write_accounts W 1 updated (write_caught provider_invalid)) (\<lambda>_.
     pbind (source_response updated) (\<lambda>d. preturn (Answer 200 (PDict d))))))))))"

definition connection_fields :: "string list" where
  "connection_fields = [''server_url'', ''username'', ''password'']"

definition connection_invalid :: "string \<Rightarrow> http_answer" where
  "connection_invalid text = coded_answer 422 ''sports_provider_connection_invalid'' text"

definition patch_credentials :: "api_world \<Rightarrow> string \<Rightarrow> api_call \<Rightarrow> http_answer api" where
  "patch_credentials W sid call =
     pbind (required_argument sid ''source_id'') (\<lambda>_.
     pbind (read_payload call) (\<lambda>payload.
     pbind (check (set (map fst payload) \<subseteq> set connection_fields)
              (connection_invalid ''Unsupported provider connection fields.'')) (\<lambda>_.
     pbind (check (payload \<noteq> [])
              (connection_invalid ''At least one provider connection field is required.'')) (\<lambda>_.
     pbind (named_account W sid) (\<lambda>n.
     pbind (remote W 1 (admin_caught remote_absent
              (connection_invalid ''Provider connection settings are invalid or unavailable.''))
            (rbind (from_environment W) (\<lambda>c.
               update_credentials (w_render W) (w_lo W) (w_http W 0) c n (dict_value payload ''server_url'')
                 (dict_value payload ''username'') (dict_value payload ''password'')))) (\<lambda>a.
       preturn (Answer 200 (PDict [(''account'', account_to_mapping a)]))))))))"

text \<open>The identity of an account is fixed; a realm is assigned once, while the account is disabled.\<close>

definition realm_change_ok :: "sports_source \<Rightarrow> dict \<Rightarrow> bool" where
  "realm_change_ok current payload =
     (case map_of payload ''credential_realm'' of
        None \<Rightarrow> True
      | Some requested \<Rightarrow>
          (case credential_realm current of
             Some realm \<Rightarrow> requested = PStr realm
           | None \<Rightarrow> \<not> (enabled current \<or> requested = PNone)))"

definition optional_text :: "string option \<Rightarrow> string" where
  "optional_text x = (case x of None \<Rightarrow> ''None'' | Some s \<Rightarrow> s)"

definition identity_kept :: "api_world \<Rightarrow> sports_source \<Rightarrow> dict \<Rightarrow> bool" where
  "identity_kept W current payload =
     ((case map_of payload ''source_id'' of
         None \<Rightarrow> True | Some v \<Rightarrow> strip (py_str (w_render W) v) = source_id current)
      \<and> (case map_of payload ''provider_id'' of
           None \<Rightarrow> True
         | Some v \<Rightarrow> strip (py_str (w_render W) v) = strip (optional_text (provider_id current))))"

definition patched_account :: "api_world \<Rightarrow> sports_source \<Rightarrow> dict \<Rightarrow> source_exn + sports_source" where
  "patched_account W current payload =
     (if \<not> identity_kept W current payload \<or> \<not> realm_change_ok current payload then lifecycle_error
      else parse_account W (PDict (AList.update ''source_id'' (PStr (source_id current))
             (dict_merge (mapping_of (source_to_mapping current)) payload))))"

definition patch_source :: "api_world \<Rightarrow> string \<Rightarrow> api_call \<Rightarrow> http_answer api" where
  "patch_source W sid call =
     pbind (required_argument sid ''source_id'') (\<lambda>_.
     pbind (read_payload call) (\<lambda>payload.
     pbind (load_accounts W 0 source_invalid) (\<lambda>ss.
     pbind (present (find_account sid ss) account_absent) (\<lambda>current.
     pbind (computed (lifecycle_caught source_invalid) (patched_account W current payload)) (\<lambda>new.
     let updated = map (\<lambda>s. if source_id s = sid then new else s) ss in
     pbind (write_accounts W 1 updated (write_caught source_invalid)) (\<lambda>_.
     pbind (source_response updated) (\<lambda>d.
       preturn (Answer 200 (PDict ((''source'', source_to_mapping new) # d))))))))))"

subsection \<open>Removals\<close>

definition removal_invalid :: http_answer where
  "removal_invalid =
     coded_answer 422 ''sports_provider_account_invalid'' ''Provider account backend configuration is invalid.''"

definition account_enabled_answer :: http_answer where
  "account_enabled_answer =
     coded_answer 409 ''sports_provider_account_enabled'' ''Provider account must be disabled before removal.''"

definition playback_dependency :: http_answer where
  "playback_dependency =
     coded_answer 409 ''sports_provider_account_playback_dependency''
       ''Provider account cannot be removed while Sports LiveSource playback dependencies exist.''"

definition removal_unavailable :: http_answer where
  "removal_unavailable =
     coded_answer 503 ''dispatcharr_admin_unavailable'' ''Dispatcharr account removal is unavailable.''"

definition removal_unreconciled :: http_answer where
  "removal_unreconciled =
     coded_answer 503 ''sports_provider_account_reconciliation_required''
       ''Provider account removal requires operator reconciliation.''"

definition without_account :: "string \<Rightarrow> sports_source list \<Rightarrow> sports_source list" where
  "without_account sid ss = filter (\<lambda>s. source_id s \<noteq> sid) ss"

fun removal_write_caught :: "write_exn \<Rightarrow> http_answer option" where
  "removal_write_caught e = (if persist_caught e then Some removal_unreconciled else None)"

text \<open>What \<open>DELETE\<close> of a provider account checks before it reaches the remote administration.\<close>

definition removable_account :: "api_world \<Rightarrow> string \<Rightarrow> (sports_source list \<times> int) api" where
  "removable_account W sid =
     pbind (load_accounts W 0 removal_invalid) (\<lambda>ss.
     pbind (present (find_account sid ss) account_absent) (\<lambda>s.
     pbind (check (\<not> enabled s) account_enabled_answer) (\<lambda>_.
     pbind (computed (lifecycle_caught removal_invalid) (dispatcharr_account_id s)) (\<lambda>n.
     pbind (reading W 1 (\<lambda>st. load_sources (w_lo W) (live_json st)) (live_caught unavailable_answer)) (\<lambda>lives.
     pbind (check (lives = []) playback_dependency) (\<lambda>_. preturn (ss, n)))))))"

definition delete_provider_account :: "api_world \<Rightarrow> string \<Rightarrow> http_answer api" where
  "delete_provider_account W sid =
     pbind (required_argument sid ''source_id'') (\<lambda>_.
     pbind (removable_account W sid) (\<lambda>(ss, n).
     pbind (computed (\<lambda>_. None) (from_environment W)) (\<lambda>c.
     pbind (remote W 2 (admin_caught removal_unavailable removal_unavailable)
              (delete_account (w_render W) (w_http W 0) c (PInt n))) (\<lambda>_.
     pbind (write_accounts W 3 (without_account sid ss) removal_write_caught) (\<lambda>_.
       preturn (removed_answer sid []))))))"

definition delete_source_row :: "api_world \<Rightarrow> string \<Rightarrow> http_answer api" where
  "delete_source_row W sid =
     pbind (required_argument sid ''source_id'') (\<lambda>_.
     pbind (load_accounts W 0 unavailable_answer) (\<lambda>ss.
     pbind (check (length (without_account sid ss) \<noteq> length ss) account_absent) (\<lambda>_.
     pbind (write_accounts W 1 (without_account sid ss) (write_caught unavailable_answer)) (\<lambda>_.
     pbind (source_response (without_account sid ss)) (\<lambda>d. preturn (removed_answer sid d))))))"

end
