(* ===== verification/Api_Live.thy ===== *)
theory Api_Live
  imports Api_Sources
begin

text \<open>
  The live endpoints of the private Sports API: live sources, Live TV bindings, the availability of an
  event, and the two verifications the portal asks for.
\<close>

subsection \<open>Availability\<close>

text \<open>The catalog of the availability check must exist; an unset path is an empty catalog.\<close>

fun read_catalog :: "(string \<Rightarrow> bool) \<Rightarrow> state_file \<Rightarrow> live_exn + live_source list" where
  "read_catalog lo Absent = live_error"
| "read_catalog lo f = load_sources lo f"

definition event_catalog :: "api_world \<Rightarrow> state_file \<Rightarrow> live_exn + live_source list" where
  "event_catalog W f = (if w_catalog W then read_catalog (w_lo W) f else Inr [])"

definition game_of_event :: "(pyval \<Rightarrow> string) \<Rightarrow> string \<Rightarrow> string \<Rightarrow> dict \<Rightarrow> bool" where
  "game_of_event render provider event g \<longleftrightarrow>
     lower (strip (str_field render g ''provider'' [])) = provider
     \<and> strip (str_field render g ''provider_event_id'' []) = event"

definition event_finished :: "(pyval \<Rightarrow> string) \<Rightarrow> string \<Rightarrow> string \<Rightarrow> dict \<Rightarrow> bool" where
  "event_finished render provider event gs =
     (case find (game_of_event render (lower (strip provider)) (strip event)) (only_dicts (map snd gs)) of
        None \<Rightarrow> False
      | Some g \<Rightarrow> lower (strip (str_field render g ''lifecycle_state'' [])) = ''finished'')"

definition availability_of :: "string option \<Rightarrow> pyval" where
  "availability_of channel =
     PDict [(''available'', PBool (channel \<noteq> None)), (''atlas_channel_id'', optional_json channel)]"

definition availability_unavailable :: http_answer where
  "availability_unavailable =
     coded_answer 503 ''sports_live_availability_unavailable'' ''Sports live availability is unavailable.''"

text \<open>\<open>_live_availability\<close>\<close>

definition live_availability :: "api_world \<Rightarrow> string \<Rightarrow> string \<Rightarrow> string option api" where
  "live_availability W provider event =
     pbind (reading W 0 (\<lambda>s. Inr (event_finished (w_render W) provider event (games s)) :: unit + bool)
              (\<lambda>_. None)) (\<lambda>finished.
     if finished then preturn None
     else
       pbind (reading W 1 (\<lambda>s. rbind (event_catalog W (live_json s)) (\<lambda>ss.
                for_event ss (PStr provider) (PStr event))) (live_caught availability_unavailable)) (\<lambda>source.
       case source of
         None \<Rightarrow> preturn None
       | Some l \<Rightarrow>
           pbind (reading W 2 (\<lambda>s. resolve_tv (PStr (source_channel_id l)) (tv_json s))
                    (tv_caught availability_unavailable)) (\<lambda>item.
             preturn (if item = None then None else Some (source_channel_id l)))))"

definition get_availability :: "api_world \<Rightarrow> string \<Rightarrow> string \<Rightarrow> http_answer api" where
  "get_availability W provider event =
     pbind (check (provider \<noteq> [] \<and> event \<noteq> [])
              (error_answer 400 ''provider and provider_event_id are required.'')) (\<lambda>_.
     pbind (live_availability W provider event) (\<lambda>channel.
       preturn (Answer 200 (PDict [(''availability'', availability_of channel)]))))"

subsection \<open>Verifications\<close>

definition option_unavailable :: http_answer where
  "option_unavailable = error_answer 503 ''Playback option is unavailable.''"

definition list_lives :: "api_world \<Rightarrow> nat \<Rightarrow> (live_exn \<Rightarrow> http_answer option) \<Rightarrow> live_source list api" where
  "list_lives W k h = reading W k (\<lambda>s. load_sources (w_lo W) (live_json s)) h"

text \<open>\<open>except Exception\<close> answers every failure alike.\<close>

definition get_playback_option :: "api_world \<Rightarrow> string \<Rightarrow> http_answer api" where
  "get_playback_option W query =
     (let params = parse_qs query; target = first_value params ''atlas_channel_id'' [];
          oid = first_value params ''option_id'' []; refuse = (\<lambda>_. Some option_unavailable) in
      pbind (list_lives W 0 refuse) (\<lambda>lives.
        case filter (\<lambda>l. source_channel_id l = target) lives of
          [live] \<Rightarrow>
            pbind (reading W 1 (\<lambda>s. load_lifecycle (parse_account W) (lifecycle_json s))
                     (\<lambda>_. Some option_unavailable)) (\<lambda>ss.
            pbind (remote W 2 (\<lambda>_. Some option_unavailable) (w_option W live oid ss)) (\<lambda>p.
              preturn (Answer 200 (PDict [(''option'', p)]))))
        | _ \<Rightarrow> answering option_unavailable))"

definition route_unavailable :: http_answer where
  "route_unavailable = error_answer 503 ''Shared route verification is unavailable.''"

definition get_shared_route :: "api_world \<Rightarrow> string \<Rightarrow> http_answer api" where
  "get_shared_route W query =
     (let params = parse_qs query in
      case params of
        [(k, [target])] \<Rightarrow>
          if k \<noteq> ''atlas_channel_id'' then answering route_unavailable
          else
            pbind (reading W 0 (\<lambda>s. load_lifecycle (parse_account W) (lifecycle_json s))
                     (\<lambda>_. Some route_unavailable)) (\<lambda>ss.
            pbind (reading W 1 (\<lambda>s. case w_route W target ss s of None \<Rightarrow> Inl () | Some r \<Rightarrow> Inr r)
                     (\<lambda>_. Some route_unavailable)) (\<lambda>r.
              preturn (Answer 200 (PDict [(''route'', r)]))))
      | _ \<Rightarrow> answering route_unavailable)"

subsection \<open>Live sources\<close>

definition live_invalid :: http_answer where
  "live_invalid = coded_answer 422 ''sports_live_source_invalid'' ''Sports live source is invalid.''"

definition live_absent :: http_answer where
  "live_absent = coded_answer 404 ''sports_live_source_not_found'' ''Sports live source was not found.''"

definition live_answer :: "int \<Rightarrow> live_source \<Rightarrow> http_answer" where
  "live_answer status l = Answer status (PDict [(''live_source'', safe_source_summary l)])"

definition get_live_sources :: "api_world \<Rightarrow> http_answer api" where
  "get_live_sources W =
     pbind (list_lives W 0 (live_caught unavailable_answer)) (\<lambda>ls.
       preturn (Answer 200 (PDict [(''live_sources'', PList (map safe_source_summary ls))])))"

definition post_live_source :: "api_world \<Rightarrow> dict \<Rightarrow> http_answer api" where
  "post_live_source W payload =
     pbind (computed (live_caught live_invalid) (parse_source (w_lo W) (PDict payload))) (\<lambda>l.
     pbind (list_lives W 0 (live_caught live_invalid)) (\<lambda>existing.
     pbind (check (\<not> list_ex (\<lambda>x. live_id x = live_id l) existing)
              (coded_answer 409 ''sports_live_source_exists'' ''Sports live source already exists.'')) (\<lambda>_.
     pbind (updating W 1 live_json live_json_update (add_source (w_lo W) l) (live_caught live_invalid)) (\<lambda>created.
       preturn (live_answer 201 created)))))"

definition patch_live_source :: "api_world \<Rightarrow> string \<Rightarrow> api_call \<Rightarrow> http_answer api" where
  "patch_live_source W sid call =
     pbind (required_argument sid ''source_id'') (\<lambda>_.
     pbind (read_payload call) (\<lambda>payload.
     pbind (check (set (map fst payload) = {''resource_source_ids''}) live_invalid) (\<lambda>_.
     pbind (list_lives W 0 (live_caught live_invalid)) (\<lambda>ls.
     pbind (present (find (\<lambda>l. live_id l = sid) ls) live_absent) (\<lambda>current.
     pbind (computed (live_caught live_invalid) (parse_source (w_lo W)
              (PDict (AList.update ''id'' (PStr sid) (dict_merge (mapping_of (source_dict current)) payload))))) (\<lambda>new.
     pbind (updating W 1 live_json live_json_update (set_source (w_lo W) new) (live_caught live_invalid)) (\<lambda>_.
       preturn (live_answer 200 new))))))))"

definition delete_live_source :: "api_world \<Rightarrow> string \<Rightarrow> http_answer api" where
  "delete_live_source W sid =
     pbind (required_argument sid ''source_id'') (\<lambda>_.
     pbind (updating W 0 live_json live_json_update (delete_source (w_lo W) (PStr sid))
              (live_caught unavailable_answer)) (\<lambda>removed.
     pbind (check removed live_absent) (\<lambda>_. preturn (removed_answer sid []))))"

subsection \<open>Live TV bindings\<close>

definition tv_state_invalid :: http_answer where
  "tv_state_invalid = coded_answer 503 ''sports_live_tv_binding_state_invalid'' ''Live TV binding state is invalid.''"

definition tv_invalid :: http_answer where
  "tv_invalid = coded_answer 422 ''sports_live_tv_binding_invalid'' ''Live TV binding is invalid.''"

definition tv_absent :: http_answer where
  "tv_absent = coded_answer 404 ''sports_live_tv_binding_not_found'' ''Live TV binding was not found.''"

definition tv_dict :: "string \<times> string \<Rightarrow> pyval" where
  "tv_dict b = PDict [(''atlas_channel_id'', PStr (fst b)), (''jellyfin_item_id'', PStr (snd b))]"

definition get_tv_bindings :: "api_world \<Rightarrow> string \<Rightarrow> http_answer api" where
  "get_tv_bindings W channel =
     (if channel \<noteq> [] then
        pbind (reading W 0 (\<lambda>s. resolve_tv (PStr channel) (tv_json s)) (tv_caught tv_state_invalid)) (\<lambda>item.
        pbind (present item tv_absent) (\<lambda>i. preturn (Answer 200 (PDict [(''binding'', tv_dict (channel, i))]))))
      else
        pbind (reading W 0 (\<lambda>s. list_tv (tv_json s)) (tv_caught tv_state_invalid)) (\<lambda>bs.
          preturn (Answer 200 (PDict [(''bindings'', PList (map tv_dict bs))]))))"

definition payload_text :: "api_world \<Rightarrow> dict \<Rightarrow> string \<Rightarrow> string" where
  "payload_text W payload k = strip (str_field (w_render W) payload k [])"

definition post_tv_binding :: "api_world \<Rightarrow> dict \<Rightarrow> http_answer api" where
  "post_tv_binding W payload =
     (let channel = payload_text W payload ''atlas_channel_id''; item = payload_text W payload ''jellyfin_item_id'' in
      pbind (check (channel \<noteq> [] \<and> item \<noteq> [])
               (error_answer 400 ''atlas_channel_id and jellyfin_item_id are required.'')) (\<lambda>_.
      pbind (updating W 0 tv_json tv_json_update (set_tv (PStr channel) (PStr item)) (tv_caught tv_invalid)) (\<lambda>b.
        preturn (Answer 200 (PDict [(''binding'', tv_dict b)])))))"

definition delete_tv_binding :: "api_world \<Rightarrow> string \<Rightarrow> http_answer api" where
  "delete_tv_binding W channel =
     pbind (required_argument channel ''atlas_channel_id'') (\<lambda>_.
     pbind (updating W 0 tv_json tv_json_update (delete_tv (PStr channel)) (tv_caught tv_invalid)) (\<lambda>removed.
     pbind (check removed tv_absent) (\<lambda>_. preturn (Answer 200 (PDict [(''removed'', PBool True)])))))"


text \<open>
  The endpoints of the private Sports API for what users follow: subscriptions, the search of targets and
  the events of a provider.
\<close>

subsection \<open>Providers\<close>

text \<open>\<open>_provider\<close>: a later provider of the same name hides an earlier one.\<close>

definition provider_named :: "api_world \<Rightarrow> string \<Rightarrow> provider_exn + metadata_provider" where
  "provider_named W name =
     (let n = lower (strip name) in
      if n = ''espn'' then w_espn W
      else (case find (\<lambda>p. metadata_name p = n) (rev (w_enabled W)) of
          None \<Rightarrow> Inl ProviderLookup | Some p \<Rightarrow> Inr p))"

definition provider_absent :: http_answer where
  "provider_absent = coded_answer 404 ''provider_not_found'' ''Sports provider is unavailable.''"

definition target_absent :: http_answer where
  "target_absent = coded_answer 404 ''sports_target_not_found'' ''Sports target was not found.''"

text \<open>How the reading endpoints and the two that create a subscription answer a provider's failure.\<close>

fun search_caught :: "provider_exn \<Rightarrow> http_answer option" where
  "search_caught ProviderLookup = Some provider_absent"
| "search_caught ProviderKey = Some provider_absent"
| "search_caught (ProviderRateLimited n) = Some (rate_limited_answer n)"
| "search_caught _ = Some unavailable_answer"

fun target_caught :: "provider_exn \<Rightarrow> http_answer option" where
  "target_caught ProviderKey = Some target_absent"
| "target_caught ProviderLookup = Some provider_absent"
| "target_caught ProviderValue =
     Some (error_answer 502 ''Sports provider returned an invalid target.'')"
| "target_caught _ = Some unavailable_answer"

subsection \<open>Safe views\<close>

text \<open>\<open>str(d.get(k, d.get(k', ""))).strip()\<close>\<close>

definition either_field :: "(pyval \<Rightarrow> string) \<Rightarrow> dict \<Rightarrow> string \<Rightarrow> string \<Rightarrow> string" where
  "either_field render d k k' = strip (py_str render (dict_default d k (dict_default d k' (PStr []))))"

definition safe_team :: "(pyval \<Rightarrow> string) \<Rightarrow> dict \<Rightarrow> (string \<times> string) list" where
  "safe_team render d =
     [(''id'', either_field render d ''id'' ''idTeam''), (''name'', either_field render d ''name'' ''strTeam''),
      (''sport'', either_field render d ''sport'' ''strSport''),
      (''league'', either_field render d ''league'' ''strLeague'')]"

definition safe_league :: "(pyval \<Rightarrow> string) \<Rightarrow> dict \<Rightarrow> (string \<times> string) list" where
  "safe_league render d =
     [(''id'', either_field render d ''id'' ''idLeague''), (''name'', either_field render d ''name'' ''strLeague''),
      (''sport'', either_field render d ''sport'' ''strSport'')]"

definition text_dict :: "(string \<times> string) list \<Rightarrow> pyval" where
  "text_dict d = PDict (map (\<lambda>(k, v). (k, PStr v)) d)"

definition text_at :: "(string \<times> string) list \<Rightarrow> string \<Rightarrow> string" where
  "text_at d k = (case map_of d k of None \<Rightarrow> [] | Some v \<Rightarrow> v)"

text \<open>\<open>str(event.get(k, "") or "").strip()\<close>, and the same with \<open>or None\<close>.\<close>

definition truthy_field :: "(pyval \<Rightarrow> string) \<Rightarrow> dict \<Rightarrow> string \<Rightarrow> string" where
  "truthy_field render d k = argument_text render (dict_default d k (PStr []))"

definition optional_field :: "(pyval \<Rightarrow> string) \<Rightarrow> dict \<Rightarrow> string \<Rightarrow> pyval" where
  "optional_field render d k = (let t = truthy_field render d k in if t = [] then PNone else PStr t)"

definition safe_event :: "(pyval \<Rightarrow> string) \<Rightarrow> dict \<Rightarrow> pyval" where
  "safe_event render e =
     (let t = (\<lambda>k. PStr (strip (str_field render e k []))) in
      PDict [(''provider'', t ''provider''), (''provider_event_id'', t ''provider_event_id''), (''name'', t ''name''),
        (''sport'', PStr (truthy_field render e ''sport'')), (''league'', PStr (truthy_field render e ''league'')),
        (''start_at'', dict_value e ''start_at''), (''status'', t ''status''),
        (''requested'', PBool (py_truthy (dict_default e ''requested'' (PBool False)))),
        (''provider_league_id'', optional_field render e ''provider_league_id''),
        (''home_team_id'', optional_field render e ''home_team_id''),
        (''away_team_id'', optional_field render e ''away_team_id''),
        (''metadata_observed_at'', dict_value e ''metadata_observed_at''),
        (''metadata_expires_at'', dict_value e ''metadata_expires_at'')])"

subsection \<open>Reading\<close>

definition user_subscriptions :: "(pyval \<Rightarrow> string) \<Rightarrow> string \<Rightarrow> state_file \<Rightarrow> subscription list" where
  "user_subscriptions render user f =
     filter (\<lambda>s. strip (sub_user s) = user) (valid_subscriptions render (load_subscriptions f))"

definition reading_subscriptions :: "api_world \<Rightarrow> nat \<Rightarrow> string \<Rightarrow> subscription list api" where
  "reading_subscriptions W k user =
     reading W k (\<lambda>s. Inr (user_subscriptions (w_render W) user (subs_json s)) :: unit + subscription list)
       (\<lambda>_. Some unavailable_answer)"

definition get_subscriptions :: "api_world \<Rightarrow> string \<Rightarrow> http_answer api" where
  "get_subscriptions W user =
     pbind (check (user \<noteq> []) (error_answer 400 ''user_id is required.'')) (\<lambda>_.
     pbind (reading_subscriptions W 0 user) (\<lambda>ss.
       preturn (Answer 200 (PDict [(''subscriptions'', PList (map (PDict \<circ> subscription_dict) ss))]))))"

definition requested_events :: "string \<Rightarrow> subscription list \<Rightarrow> string list" where
  "requested_events provider ss =
     map (strip \<circ> sub_target) (filter (\<lambda>s. lower (strip (sub_type s)) = ''event''
       \<and> lower (strip (sub_provider s)) = provider \<and> sub_enabled s) ss)"

text \<open>Events without an identifier are left out; the others say whether the user asked for them.\<close>

definition marked_events :: "(pyval \<Rightarrow> string) \<Rightarrow> string list \<Rightarrow> dict list \<Rightarrow> pyval list" where
  "marked_events render requested es =
     map (\<lambda>e. safe_event render (AList.update ''requested''
            (PBool (strip (str_field render e ''provider_event_id'' []) \<in> set requested)) e))
       (filter (\<lambda>e. strip (str_field render e ''provider_event_id'' []) \<noteq> []) es)"

definition named_targets :: "(dict \<Rightarrow> (string \<times> string) list) \<Rightarrow> pyval list \<Rightarrow> pyval" where
  "named_targets safe raw =
     PList (map text_dict (filter (\<lambda>t. text_at t ''id'' \<noteq> [] \<and> text_at t ''name'' \<noteq> []) (map safe (only_dicts raw))))"

definition get_search :: "api_world \<Rightarrow> string \<Rightarrow> string \<Rightarrow> string \<Rightarrow> string \<Rightarrow> http_answer api" where
  "get_search W what provider user query =
     pbind (check (query \<noteq> [] \<and> provider \<noteq> []) (error_answer 400 ''query and provider are required.'')) (\<lambda>_.
     pbind (check (what \<noteq> ''events'' \<or> user \<noteq> []) (error_answer 400 ''user_id is required for event search.'')) (\<lambda>_.
     pbind (computed search_caught (provider_named W provider)) (\<lambda>p.
     if what = ''events'' then
       pbind (reading_subscriptions W 0 user) (\<lambda>ss.
       pbind (remote W 1 search_caught (search_targets p what query)) (\<lambda>raw.
         preturn (Answer 200 (PDict [(''events'', PList (marked_events (w_render W)
           (requested_events (metadata_name p) ss) (only_dicts raw)))]))))
     else
       pbind (remote W 1 search_caught (search_targets p what query)) (\<lambda>raw.
         preturn (Answer 200 (PDict [(what, named_targets
           ((if what = ''teams'' then safe_team else safe_league) (w_render W)) raw)]))))))"

definition stripped_values :: "(string \<times> string list) list \<Rightarrow> string \<Rightarrow> string list" where
  "stripped_values params k = filter (\<lambda>v. v \<noteq> []) (map strip (query_values params k))"

definition get_events :: "api_world \<Rightarrow> string \<Rightarrow> string \<Rightarrow> (string \<times> string list) list \<Rightarrow> http_answer api" where
  "get_events W provider user params =
     pbind (check (user \<noteq> [] \<and> provider \<noteq> []) (error_answer 400 ''user_id and provider are required.'')) (\<lambda>_.
     pbind (computed search_caught (provider_named W provider)) (\<lambda>p.
     pbind (reading_subscriptions W 0 user) (\<lambda>ss.
     pbind (remote W 1 search_caught (fetch_games p (stripped_values params ''event_id'')
              (stripped_values params ''team_id'') (stripped_values params ''league_id''))) (\<lambda>es.
       preturn (Answer 200 (PDict [(''events'', PList (marked_events (w_render W)
         (requested_events (metadata_name p) ss) es))]))))))"

subsection \<open>Following\<close>

definition target_name :: "api_world \<Rightarrow> metadata_provider \<Rightarrow> string \<Rightarrow> dict \<Rightarrow> provider_exn + string" where
  "target_name W p what raw =
     (if what = ''event'' then
        rbind (normalize_event p raw) (\<lambda>e. Inr (strip (str_field (w_render W) e ''name'' [])))
      else if what = ''team'' then Inr (text_at (safe_team (w_render W) raw) ''name'')
      else Inr (text_at (safe_league (w_render W) raw) ''name''))"

definition named_target :: "api_world \<Rightarrow> metadata_provider \<Rightarrow> string \<Rightarrow> string \<Rightarrow> provider_exn + string" where
  "named_target W p what target =
     rbind (fetch_target p what target) (\<lambda>raw.
     rbind (case raw of None \<Rightarrow> Inl ProviderKey | Some d \<Rightarrow> target_name W p what d) (\<lambda>name.
       if name = [] then Inl ProviderValue else Inr name))"

definition following ::
  "api_world \<Rightarrow> string \<Rightarrow> string \<Rightarrow> string \<Rightarrow> string \<Rightarrow> string \<Rightarrow> http_answer \<Rightarrow> http_answer api" where
  "following W what provider target name user a =
     pbind (updating W 2 subs_json subs_json_update
              (create_subscription (w_render W) (w_fresh W) (w_now W) what provider target name user)
              (\<lambda>_. Some a)) (\<lambda>(s, created).
       preturn (Answer 200 (PDict [(''subscription'', PDict (subscription_dict s)), (''created'', PBool created)])))"

definition follow_channel :: "api_world \<Rightarrow> string \<Rightarrow> string \<Rightarrow> string \<Rightarrow> http_answer api" where
  "follow_channel W provider target user =
     pbind (check (provider = ''atlas'') (error_answer 400 ''Channel follows require the Atlas catalog.'')) (\<lambda>_.
     pbind (list_lives W 0 (\<lambda>_. Some unavailable_answer)) (\<lambda>ls.
       case filter (\<lambda>l. live_standalone l \<and> source_channel_id l = target) ls of
         [l] \<Rightarrow> following W ''channel'' ''atlas'' target (live_name l) user unavailable_answer
       | _ \<Rightarrow> answering (coded_answer 404 ''sports_target_not_found'' ''Live channel was not found.'')))"

definition follow_target :: "api_world \<Rightarrow> string \<Rightarrow> string \<Rightarrow> string \<Rightarrow> string \<Rightarrow> http_answer api" where
  "follow_target W what provider target user =
     pbind (computed target_caught (provider_named W provider)) (\<lambda>p.
     pbind (remote W 0 target_caught (named_target W p what target)) (\<lambda>name.
       following W what (metadata_name p) target name user
         (error_answer 502 ''Sports provider returned an invalid target.'')))"

text \<open>\<open>POST\<close> of a subscription, or of the request of an event.\<close>

definition post_subscription :: "api_world \<Rightarrow> bool \<Rightarrow> dict \<Rightarrow> http_answer api" where
  "post_subscription W event payload =
     (let t = payload_text W payload; user = t ''user_id''; provider = t ''provider'';
          what = (if event then ''event'' else lower (t ''type''));
          target = (if event then t ''provider_event_id'' else t ''provider_id'') in
      pbind (check (user \<noteq> [] \<and> provider \<noteq> [] \<and> what \<in> set VALID_SUBSCRIPTION_TYPES \<and> target \<noteq> [])
               (error_answer 400 ''user_id, provider, valid type, and provider id are required.'')) (\<lambda>_.
        if what = ''channel'' then follow_channel W provider target user
        else follow_target W what provider target user))"

subsection \<open>Recording and unfollowing\<close>

definition subscription_absent :: http_answer where
  "subscription_absent = coded_answer 404 ''sports_subscription_not_found'' ''Sports subscription was not found.''"

fun recording_caught :: "sub_exn \<Rightarrow> http_answer option" where
  "recording_caught (RecordingRefused text) = Some (coded_answer 422 ''sports_recording_target_unsupported'' text)"
| "recording_caught InvalidSubscription = Some (coded_answer 422 ''sports_recording_target_unsupported'' [])"

definition patch_recording :: "api_world \<Rightarrow> string \<Rightarrow> api_call \<Rightarrow> http_answer api" where
  "patch_recording W sid call =
     pbind (read_payload call) (\<lambda>payload.
     let user = payload_text W payload ''user_id'';
         bad = error_answer 400 ''subscription id, user_id, and boolean record are required.'' in
     pbind (case dict_value payload ''record'' of PBool b \<Rightarrow> preturn b | _ \<Rightarrow> answering bad) (\<lambda>rec.
     pbind (check (sid \<noteq> [] \<and> user \<noteq> []) bad) (\<lambda>_.
     pbind (updating W 0 subs_json subs_json_update (update_subscription_recording (w_render W) sid user rec)
              recording_caught) (\<lambda>r.
     pbind (present r subscription_absent) (\<lambda>s.
       preturn (Answer 200 (PDict [(''subscription'', PDict (subscription_dict s))])))))))"

definition subscription_gone :: http_answer where
  "subscription_gone = error_answer 404 ''Sports subscription was not found.''"

definition delete_subscription :: "api_world \<Rightarrow> string \<Rightarrow> string \<Rightarrow> http_answer api" where
  "delete_subscription W sid user =
     pbind (check (sid \<noteq> [] \<and> user \<noteq> []) (error_answer 400 ''subscription id and user_id are required.'')) (\<lambda>_.
     pbind (reading_subscriptions W 0 user) (\<lambda>ss.
     pbind (check (list_ex (\<lambda>s. strip (sub_id s) = sid) ss) subscription_gone) (\<lambda>_.
     pbind (updating W 1 subs_json subs_json_update
              (\<lambda>f. case remove_subscription (w_render W) sid f of (r, f') \<Rightarrow> (Inr r :: unit + bool, f'))
              (\<lambda>_. Some unavailable_answer)) (\<lambda>removed.
     pbind (check removed subscription_gone) (\<lambda>_. preturn (Answer 200 (PDict [(''removed'', PBool True)])))))))"

end
