(* ===== verification/Api_Dispatch.thy ===== *)
theory Api_Dispatch
  imports Api_Sources Api_Live
begin

text \<open>
  The dispatch of the private Sports API: \<open>do_GET\<close>, \<open>do_POST\<close>, \<open>do_PATCH\<close> and \<open>do_DELETE\<close>, with the
  order of their path tests, their bearer checks and the reading of the body.
\<close>

definition not_found :: http_answer where
  "not_found = error_answer 404 ''Not found.''"

definition between :: "string \<Rightarrow> string \<Rightarrow> string \<Rightarrow> bool" where
  "between prefix suffix path \<longleftrightarrow> starts_with prefix path \<and> ends_with suffix path"

definition sources_prefix :: string where
  "sources_prefix = ''/internal/v1/sources/''"

subsection \<open>GET\<close>

definition policy_bearer :: "api_world \<Rightarrow> api_call \<Rightarrow> unit api" where
  "policy_bearer W call =
     (case live_policy_authorized (policy_token (w_tokens W)) (writer_token (w_tokens W)) (call_authorization call) of
        Inl _ \<Rightarrow> uncaught
      | Inr ok \<Rightarrow> check ok unauthorized_answer)"

text \<open>A read whose failure is a value for the handler.\<close>

definition peek :: "api_world \<Rightarrow> nat \<Rightarrow> (api_store \<Rightarrow> 'a) \<Rightarrow> 'a api" where
  "peek W k get s = (Inr (get s), w_others W k s)"

definition classification_request :: "api_world \<Rightarrow> url_parts \<Rightarrow> api_call \<Rightarrow> http_answer api" where
  "classification_request W parsed call =
     pbind (policy_bearer W call) (\<lambda>_.
     pbind (peek W 0 channel_json) (\<lambda>f. preturn (get_classification True parsed f)))"

definition policy_request :: "api_world \<Rightarrow> url_parts \<Rightarrow> api_call \<Rightarrow> http_answer api" where
  "policy_request W parsed call =
     pbind (policy_bearer W call) (\<lambda>_.
     pbind (peek W 0 (\<lambda>s. load_lifecycle (parse_account W) (lifecycle_json s))) (\<lambda>ss.
     pbind (peek W 1 (\<lambda>s. list_bindings (channel_json s))) (\<lambda>bs.
     pbind (peek W 2 (\<lambda>s. load_sources (w_lo W) (live_json s))) (\<lambda>ls.
       computed (\<lambda>_. None) (get_live_policy (w_lo W) True parsed ss bs ls)))))"

definition metadata_paths :: "string list" where
  "metadata_paths = [''/internal/v1/curated/catalog'', ''/internal/v1/curated/teams'', ''/internal/v1/curated/schedule'',
     ''/internal/v1/discovery/providers'', ''/internal/v1/metadata/refresh-status'', ''/internal/v1/metadata/day'',
     ''/internal/v1/metadata/teams'', ''/internal/v1/metadata/schedule'']"

definition search_paths :: "(string \<times> string) list" where
  "search_paths = [(''/internal/v1/search/teams'', ''teams''), (''/internal/v1/search/leagues'', ''leagues''),
     (''/internal/v1/search/events'', ''events'')]"

definition reading_request :: "api_world \<Rightarrow> url_parts \<Rightarrow> http_answer api" where
  "reading_request W parsed =
     (let path = url_path parsed; params = parse_qs (url_query parsed);
          field = (\<lambda>k fallback. strip (first_value params k fallback));
          user = field ''user_id'' []; provider = field ''provider'' ''thesportsdb'' in
      if path = ''/internal/v1/shared-live-route'' then get_shared_route W (url_query parsed)
      else if path = ''/internal/v1/live-playback-option'' then get_playback_option W (url_query parsed)
      else if between sources_prefix ''/dispatcharr-account'' path
      then get_remote_account W (path_argument sources_prefix ''/dispatcharr-account'' path)
      else if path = ''/internal/v1/live-sources'' then get_live_sources W
      else if path = ''/internal/v1/sources'' then get_sources W
      else if path = ''/internal/v1/live/availability''
      then get_availability W provider (field ''provider_event_id'' [])
      else if path = ''/internal/v1/live-tv/bindings'' then get_tv_bindings W (field ''atlas_channel_id'' [])
      else if path = ''/internal/v1/subscriptions'' then get_subscriptions W user
      else (case map_of search_paths path of
          Some what \<Rightarrow> get_search W what provider user (field ''query'' [])
        | None \<Rightarrow>
            if path = ''/internal/v1/events'' then get_events W provider user params else answering not_found))"

definition do_GET :: "api_world \<Rightarrow> url_parts \<Rightarrow> api_call \<Rightarrow> http_answer api" where
  "do_GET W parsed call =
     (let path = url_path parsed in
      if path = ''/health'' then preturn (Answer 200 (PDict [(''status'', PStr ''ok'')]))
      else if starts_with classification_prefix path then classification_request W parsed call
      else if starts_with live_policy_prefix path then policy_request W parsed call
      else
        pbind (authorize W call parsed) (\<lambda>_.
          if path \<in> set metadata_paths
          then (case w_metadata W path (url_query parsed) of None \<Rightarrow> uncaught | Some a \<Rightarrow> preturn a)
          else reading_request W parsed))"

subsection \<open>POST, PATCH and DELETE\<close>

definition posting_paths :: "string list" where
  "posting_paths = [''/internal/v1/events/request'', ''/internal/v1/subscriptions'',
     ''/internal/v1/live-tv/bindings'', ''/internal/v1/live-sources'', ''/internal/v1/sources'']"

definition do_POST :: "api_world \<Rightarrow> url_parts \<Rightarrow> api_call \<Rightarrow> http_answer api" where
  "do_POST W parsed call =
     (let path = url_path parsed in
      if between sources_prefix ''/test-connection'' path
      then pbind (authorize W call parsed) (\<lambda>_.
             post_test_connection W (path_argument sources_prefix ''/test-connection'' path))
      else if path = ''/internal/v1/provider-accounts''
      then pbind (authorize W call parsed) (\<lambda>_. pbind (read_payload call) (post_provider_account W))
      else if path \<notin> set posting_paths then answering not_found
      else
        pbind (authorize W call parsed) (\<lambda>_.
        pbind (read_payload call) (\<lambda>payload.
          if path = ''/internal/v1/live-sources'' then post_live_source W payload
          else if path = ''/internal/v1/live-tv/bindings'' then post_tv_binding W payload
          else post_subscription W (path = ''/internal/v1/events/request'') payload)))"

definition live_sources_prefix :: string where
  "live_sources_prefix = ''/internal/v1/live-sources/''"

definition providers_prefix :: string where
  "providers_prefix = ''/internal/v1/providers/''"

definition subscriptions_prefix :: string where
  "subscriptions_prefix = ''/internal/v1/subscriptions/''"

definition do_PATCH :: "api_world \<Rightarrow> url_parts \<Rightarrow> api_call \<Rightarrow> http_answer api" where
  "do_PATCH W parsed call =
     (let path = url_path parsed; argument = (\<lambda>prefix suffix. path_argument prefix suffix path) in
      if starts_with live_sources_prefix path
      then pbind (authorize W call parsed) (\<lambda>_. patch_live_source W (argument live_sources_prefix []) call)
      else if starts_with providers_prefix path
      then pbind (authorize W call parsed) (\<lambda>_. patch_provider W (argument providers_prefix []) call)
      else if between sources_prefix ''/credentials'' path
      then pbind (authorize W call parsed) (\<lambda>_. patch_credentials W (argument sources_prefix ''/credentials'') call)
      else if starts_with sources_prefix path
      then pbind (authorize W call parsed) (\<lambda>_. patch_source W (argument sources_prefix []) call)
      else if between subscriptions_prefix ''/recording'' path
      then pbind (authorize W call parsed) (\<lambda>_. patch_recording W (argument subscriptions_prefix ''/recording'') call)
      else answering not_found)"

definition provider_accounts_prefix :: string where
  "provider_accounts_prefix = ''/internal/v1/provider-accounts/''"

definition bindings_prefix :: string where
  "bindings_prefix = ''/internal/v1/live-tv/bindings/''"

definition do_DELETE :: "api_world \<Rightarrow> url_parts \<Rightarrow> api_call \<Rightarrow> http_answer api" where
  "do_DELETE W parsed call =
     (let path = url_path parsed; argument = (\<lambda>prefix. path_argument prefix [] path);
          user = strip (first_value (parse_qs (url_query parsed)) ''user_id'' []) in
      if starts_with live_sources_prefix path
      then pbind (authorize W call parsed) (\<lambda>_. delete_live_source W (argument live_sources_prefix))
      else if starts_with provider_accounts_prefix path
      then pbind (authorize W call parsed) (\<lambda>_. delete_provider_account W (argument provider_accounts_prefix))
      else if starts_with sources_prefix path
      then pbind (authorize W call parsed) (\<lambda>_. delete_source_row W (argument sources_prefix))
      else if starts_with bindings_prefix path
      then pbind (authorize W call parsed) (\<lambda>_. delete_tv_binding W (argument bindings_prefix))
      else if starts_with subscriptions_prefix path
      then pbind (authorize W call parsed) (\<lambda>_. delete_subscription W (argument subscriptions_prefix) user)
      else answering not_found)"

subsection \<open>A request\<close>

text \<open>
  The answer of one request, \<open>None\<close> when the handler ends with an exception: a URL that \<open>urlsplit\<close>
  refuses, or a method the class does not define, is not answered by these handlers.
\<close>

definition handler_of :: "string \<Rightarrow> (api_world \<Rightarrow> url_parts \<Rightarrow> api_call \<Rightarrow> http_answer api) option" where
  "handler_of what =
     (if what = ''GET'' then Some do_GET else if what = ''POST'' then Some do_POST
      else if what = ''PATCH'' then Some do_PATCH else if what = ''DELETE'' then Some do_DELETE else None)"

definition handle :: "api_world \<Rightarrow> api_call \<Rightarrow> api_store \<Rightarrow> http_answer option \<times> api_store" where
  "handle W call s =
     (case (handler_of (call_method call), urlsplit (w_lo W) (call_url call)) of
        (Some h, Some parsed) \<Rightarrow> answered (h W parsed call) s
      | _ \<Rightarrow> (None, s))"


text \<open>
  What the steps of a handler keep. \<open>keeps I m Q\<close>: from a state with \<open>I\<close> the computation \<open>m\<close> ends in one
  with \<open>I\<close>, and a result has \<open>Q\<close>. A property is stable when the other requests keep it.
\<close>

definition keeps :: "('s \<Rightarrow> bool) \<Rightarrow> ('s, 'e, 'a) exn_state \<Rightarrow> ('a \<Rightarrow> bool) \<Rightarrow> bool" where
  "keeps I m Q \<longleftrightarrow> (\<forall>s r s'. I s \<longrightarrow> m s = (r, s') \<longrightarrow> I s' \<and> (\<forall>x. r = Inr x \<longrightarrow> Q x))"

abbreviation keeps_any :: "('s \<Rightarrow> bool) \<Rightarrow> ('s, 'e, 'a) exn_state \<Rightarrow> bool" where
  "keeps_any I m \<equiv> keeps I m (\<lambda>_. True)"

definition stable :: "api_world \<Rightarrow> (api_store \<Rightarrow> bool) \<Rightarrow> bool" where
  "stable W I \<longleftrightarrow> (\<forall>k s. I s \<longrightarrow> I (w_others W k s))"

named_theorems step_rules

lemma keepsD: "keeps I m Q \<Longrightarrow> I s \<Longrightarrow> m s = (r, s') \<Longrightarrow> I s'"
  by (auto simp: keeps_def)

lemma keeps_bind:
  "keeps I m Q \<Longrightarrow> (\<And>x. Q x \<Longrightarrow> keeps I (f x) R) \<Longrightarrow> keeps I (pbind m f) R"
  unfolding keeps_def by (blast elim: pbind_cases)

lemma keeps_seq [step_rules]: "keeps_any I m \<Longrightarrow> (\<And>x. keeps I (f x) R) \<Longrightarrow> keeps I (pbind m f) R"
  by (rule keeps_bind)

lemma keeps_weaken: "keeps I m Q \<Longrightarrow> (\<And>x. Q x \<Longrightarrow> R x) \<Longrightarrow> keeps I m R"
  by (auto simp: keeps_def)

lemma keeps_return: "Q x \<Longrightarrow> keeps I (preturn x) Q"
  by (simp add: keeps_def preturn_def)

lemma keeps_return_any [step_rules]: "keeps_any I (preturn x)"
  by (rule keeps_return) simp

lemma keeps_answering [step_rules]: "keeps I (answering a) Q"
  by (simp add: keeps_def answering_def pfail_def)

lemma keeps_uncaught [step_rules]: "keeps I uncaught Q"
  by (simp add: keeps_def uncaught_def pfail_def)

lemma keeps_check: "keeps I (check b a) (\<lambda>_. b)"
  by (simp add: check_def keeps_return keeps_answering)

lemma keeps_found: "keeps I (present x a) (\<lambda>v. x = Some v)"
  by (cases x) (simp_all add: present_def keeps_return keeps_answering)

lemma keeps_computed: "keeps I (computed h r) (\<lambda>x. r = Inr x)"
  by (auto simp: keeps_def computed_def pure_play_def)

lemma keeps_read_payload: "keeps I (read_payload call) (\<lambda>d. call_body call = Some (PDict d))"
  by (auto simp: read_payload_def keeps_answering keeps_return split: option.splits pyval.splits)

lemma keeps_reading: "stable W I \<Longrightarrow> (\<And>s x. I s \<Longrightarrow> get s = Inr x \<Longrightarrow> Q x) \<Longrightarrow> keeps I (reading W k get h) Q"
  by (auto simp: keeps_def reading_def stable_def)

lemma keeps_updating:
  assumes "stable W I"
    and "\<And>s r f. I s \<Longrightarrow> operation (get s) = (r, f) \<Longrightarrow> I (put (\<lambda>_. f) s) \<and> (\<forall>x. r = Inr x \<longrightarrow> Q x)"
  shows "keeps I (updating W k get put operation h) Q"
  using assms by (auto simp: keeps_def updating_def stable_def split: prod.splits)

text \<open>The same rules where nothing is asked of the result.\<close>

lemma keeps_forget: "keeps I m Q \<Longrightarrow> keeps_any I m"
  by (simp add: keeps_def)

lemmas keeps_any_rules [step_rules] =
  keeps_check[THEN keeps_forget] keeps_found[THEN keeps_forget] keeps_computed[THEN keeps_forget]
  keeps_read_payload[THEN keeps_forget]

lemma keeps_plain [step_rules]: "keeps_any I (required_argument v n)" "keeps_any I (source_response ss)"
  by (simp_all only: required_argument_def source_response_def computed_def[symmetric] keeps_any_rules)

lemma keeps_any_reading [step_rules]: "stable W I \<Longrightarrow> keeps_any I (reading W k get h)"
  by (rule keeps_reading) simp_all

lemma keeps_any_remote [step_rules]: "stable W I \<Longrightarrow> keeps_any I (remote W k h r)"
  by (simp add: remote_def keeps_any_reading)

lemma keeps_any_peek [step_rules]: "stable W I \<Longrightarrow> keeps_any I (peek W k get)"
  by (auto simp: keeps_def peek_def stable_def)

lemma keeps_any_authorize [step_rules]: "keeps_any I (authorize W call parsed)"
  by (auto simp: authorize_def keeps_uncaught keeps_any_rules split: sum.splits)

lemma keeps_answered: "keeps_any I m \<Longrightarrow> I s \<Longrightarrow> I (snd (answered m s))"
  by (auto simp: answered_def split: prod.splits sum.splits dest: keepsD)

subsection \<open>Handlers that only read\<close>

text \<open>Every step of these handlers keeps every stable property.\<close>

lemma keeps_load_accounts [step_rules]: "stable W I \<Longrightarrow> keeps_any I (load_accounts W k a)"
  by (simp add: load_accounts_def keeps_any_reading)

lemma keeps_named_account [step_rules]: "stable W I \<Longrightarrow> keeps_any I (named_account W sid)"
  unfolding named_account_def by (intro step_rules)

lemma keeps_list_lives [step_rules]: "stable W I \<Longrightarrow> keeps_any I (list_lives W k h)"
  by (simp add: list_lives_def keeps_any_reading)

lemma keeps_reading_subscriptions [step_rules]: "stable W I \<Longrightarrow> keeps_any I (reading_subscriptions W k user)"
  by (simp add: reading_subscriptions_def keeps_any_reading)

lemma keeps_account_reads [step_rules]:
  assumes "stable W I"
  shows "keeps_any I (get_remote_account W sid)" "keeps_any I (post_test_connection W sid)"
    "keeps_any I (get_sources W)" "keeps_any I (patch_credentials W sid call)"
  unfolding get_remote_account_def post_test_connection_def get_sources_def patch_credentials_def Let_def
  by (intro step_rules assms)+

lemma keeps_availability [step_rules]:
  "stable W I \<Longrightarrow> keeps_any I (get_availability W provider event)"
  unfolding get_availability_def live_availability_def
  by (intro step_rules) (auto intro!: step_rules split: option.splits)

lemma keeps_live_reads [step_rules]:
  assumes "stable W I"
  shows "keeps_any I (get_playback_option W q)" "keeps_any I (get_shared_route W q)"
    "keeps_any I (get_live_sources W)" "keeps_any I (get_tv_bindings W c)"
  using assms unfolding get_playback_option_def get_shared_route_def get_live_sources_def get_tv_bindings_def Let_def
  by (auto intro!: step_rules split: list.splits)

lemma keeps_subscription_reads [step_rules]:
  assumes "stable W I"
  shows "keeps_any I (get_subscriptions W user)" "keeps_any I (get_search W what provider user q)"
    "keeps_any I (get_events W provider user params)"
  using assms unfolding get_subscriptions_def get_search_def get_events_def
  by (auto intro!: step_rules)

lemma keeps_reading_request [step_rules]: "stable W I \<Longrightarrow> keeps_any I (reading_request W parsed)"
  unfolding reading_request_def Let_def by (auto intro!: step_rules split: option.splits)

lemma keeps_do_GET [step_rules]: "stable W I \<Longrightarrow> keeps_any I (do_GET W parsed call)"
  unfolding do_GET_def classification_request_def policy_request_def policy_bearer_def Let_def
  by (auto intro!: step_rules split: option.splits sum.splits)

end
