(* ===== verification/Api_Safety.thy ===== *)
theory Api_Safety
  imports Api_Dispatch Live_Safety Lifecycle_Safety
begin

text \<open>
  Properties of the private Sports API as a whole: who may change its state, and that its state files stay
  loadable under any request.
\<close>

subsection \<open>Refused requests\<close>

definition alone :: "api_world \<Rightarrow> bool" where
  "alone W \<longleftrightarrow> (\<forall>k s. w_others W k s = s)"

lemma alone_stable: "alone W \<Longrightarrow> stable W I"
  by (simp add: alone_def stable_def)

lemma require_auth_not_GET:
  "authorized tokens call \<noteq> Inr True \<Longrightarrow> call_method call \<noteq> ''GET'' \<Longrightarrow> require_auth tokens call parsed \<noteq> Inr True"
  by (auto simp: require_auth_def curated_read_authorized_def Let_def rbind_Inr_iff)

lemma keeps_if: "keeps I m Q \<Longrightarrow> keeps I m' Q \<Longrightarrow> keeps I (if b then m else m') Q"
  by simp

definition refusal :: "api_world \<Rightarrow> api_call \<Rightarrow> url_parts \<Rightarrow> http_answer option" where
  "refusal W call parsed =
     (case require_auth (w_tokens W) call parsed of Inl _ \<Rightarrow> None | Inr _ \<Rightarrow> Some unauthorized_answer)"

lemma refused_bind:
  assumes "require_auth (w_tokens W) call parsed \<noteq> Inr True"
  shows "pbind (authorize W call parsed) f s = (Inl (refusal W call parsed), s)"
  using assms by (auto simp: pbind_def authorize_def refusal_def uncaught_def check_def answering_def pfail_def
      split: sum.splits)

lemma refused_handlers:
  assumes "require_auth (w_tokens W) call parsed \<noteq> Inr True"
  shows "do_POST W parsed call s \<in> {(Inl (refusal W call parsed), s), (Inl (Some not_found), s)}"
    "do_PATCH W parsed call s \<in> {(Inl (refusal W call parsed), s), (Inl (Some not_found), s)}"
    "do_DELETE W parsed call s \<in> {(Inl (refusal W call parsed), s), (Inl (Some not_found), s)}"
  unfolding do_POST_def do_PATCH_def do_DELETE_def Let_def
  by (simp_all add: refused_bind[OF assms] answering_def pfail_def)

lemma refused_answer:
  assumes "authorized (w_tokens W) call = Inr False" and "call_method call \<noteq> ''GET''"
  shows "refusal W call parsed = Some unauthorized_answer"
  using assms by (simp add: refusal_def require_auth_def curated_read_authorized_def)

lemma get_unchanged: "alone W \<Longrightarrow> snd (answered (do_GET W parsed call) s) = s"
  using keeps_answered[OF keeps_do_GET[OF alone_stable], where I = "\<lambda>x. x = s"] by blast

lemma refused_request:
  assumes "authorized (w_tokens W) call \<noteq> Inr True" and "call_method call \<noteq> ''GET''"
    and "handler_of (call_method call) = Some h"
  shows "answered (h W parsed call) s \<in> {(refusal W call parsed, s), (Some not_found, s)}"
proof -
  have "h W parsed call s \<in> {(Inl (refusal W call parsed), s), (Inl (Some not_found), s)}"
    using assms(3) refused_handlers[OF require_auth_not_GET[OF assms(1,2)], where s = s and parsed = parsed] assms(2)
    by (auto simp: handler_of_def split: if_splits)
  then show ?thesis by (auto simp: answered_def)
qed

text \<open>
  C16. Only the writer changes the state: a request that does not carry the writer token, and any \<open>GET\<close>,
  leaves every state file as it was; a \<open>POST\<close>, \<open>PATCH\<close> or \<open>DELETE\<close> with another token is answered 401,
  or 404 for an unknown path. The policy token and the curated token therefore read only.
\<close>

theorem only_the_writer_changes_state:
  assumes "alone W" and "authorized (w_tokens W) call \<noteq> Inr True \<or> call_method call = ''GET''"
  shows "snd (handle W call s) = s
    \<and> (authorized (w_tokens W) call = Inr False \<and> call_method call \<in> {''POST'', ''PATCH'', ''DELETE''}
       \<and> urlsplit (w_lo W) (call_url call) \<noteq> None \<longrightarrow>
         fst (handle W call s) \<in> {Some unauthorized_answer, Some not_found})"
proof (cases "call_method call = ''GET''")
  case True
  then show ?thesis using get_unchanged[OF assms(1)]
    by (auto simp: handle_def handler_of_def split: option.splits)
next
  case False
  with assms(2) have no: "authorized (w_tokens W) call \<noteq> Inr True" by simp
  show ?thesis
  proof (cases "handler_of (call_method call)")
    case None
    then show ?thesis by (auto simp: handle_def handler_of_def split: if_splits)
  next
    case (Some h)
    note r = refused_request[OF no False Some]
    show ?thesis
    proof (cases "urlsplit (w_lo W) (call_url call)")
      case None
      then show ?thesis using Some by (simp add: handle_def)
    next
      case u: (Some parsed)
      then have "handle W call s = answered (h W parsed call) s" using Some by (simp add: handle_def)
      with r[of parsed s] show ?thesis using refused_answer[OF _ False, of W parsed] by auto
    qed
  qed
qed

subsection \<open>The state files stay loadable\<close>

abbreviation wf_accounts :: "api_world \<Rightarrow> sports_source list \<Rightarrow> bool" where
  "wf_accounts W \<equiv> list_all (wf_sports_source (w_render W) (w_lo W) (w_utc W))"

definition loadable :: "api_world \<Rightarrow> api_store \<Rightarrow> bool" where
  "loadable W s \<longleftrightarrow>
     (\<exists>ss. load_lifecycle (parse_account W) (lifecycle_json s) = Inr ss)
     \<and> (\<exists>ls. load_sources (w_lo W) (live_json s) = Inr ls) \<and> (\<exists>bs. load_tv (tv_json s) = Inr bs)"

lemma load_accounts_wf:
  "utc_law (w_utc W) \<Longrightarrow> load_lifecycle (parse_account W) f = Inr ss \<Longrightarrow> wf_lifecycle (w_render W) (w_lo W) (w_utc W) ss"
  unfolding parse_account_def by (rule load_lifecycle_Inr)

lemma parse_account_wf:
  "utc_law (w_utc W) \<Longrightarrow> parse_account W v = Inr s \<Longrightarrow> wf_sports_source (w_render W) (w_lo W) (w_utc W) s"
  unfolding parse_account_def by (rule source_from_mapping_Inr)

lemma keeps_load_accounts_wf:
  assumes "stable W I" "utc_law (w_utc W)"
  shows "keeps I (load_accounts W k a) (wf_accounts W)"
  unfolding load_accounts_def
  by (rule keeps_reading[OF assms(1)]) (use load_accounts_wf[OF assms(2)] in \<open>auto simp: wf_lifecycle_def\<close>)

lemma store_accounts_cases:
  assumes "store_accounts W k ss f = (r, f')"
  obtains (kept) e where "r = Inl e" "f' = f"
  | (stored) "r = Inr ()" "f' = lifecycle_document ss" "distinct (map source_id ss)"
  using assms by (auto simp: store_accounts_def write_lifecycle_def split: prod.splits sum.splits if_splits)

lemma store_accounts_loadable:
  assumes "store_accounts W k ss (lifecycle_json s) = (r, f)" "loadable W s" "wf_accounts W ss"
  shows "loadable W (s\<lparr>lifecycle_json := f\<rparr>)"
  using assms(1)
proof (cases rule: store_accounts_cases)
  case kept
  with assms(2) show ?thesis by simp
next
  case stored
  with assms(2,3) show ?thesis
    using load_lifecycle_document[of "w_render W" "w_lo W" "w_utc W" ss]
    by (auto simp: loadable_def wf_lifecycle_def parse_account_def)
qed

lemma keeps_write_accounts:
  assumes "stable W (loadable W)" "wf_accounts W ss"
  shows "keeps_any (loadable W) (write_accounts W k ss h)"
  unfolding write_accounts_def
  by (rule keeps_updating[OF assms(1)]) (auto dest: store_accounts_loadable[OF _ _ assms(2)])

lemma keeps_persist_account:
  assumes "stable W (loadable W)" "\<And>ss. rows = Inr ss \<Longrightarrow> wf_accounts W ss"
  shows "keeps_any (loadable W) (persist_account W k rows)"
proof (cases rows)
  case (Inl e)
  then show ?thesis by (simp add: persist_account_def keeps_return_any)
next
  case (Inr ss)
  with assms show ?thesis
    by (auto simp: persist_account_def keeps_def stable_def split: prod.splits
        dest: store_accounts_loadable[OF _ _ assms(2)])
qed

lemma write_sources_loadable:
  assumes "write_sources ss r f = (q, f')" "list_all (wf_source lo) ss" "load_sources lo f = Inr ls"
  shows "\<exists>ls'. load_sources lo f' = Inr ls'"
proof (cases q)
  case (Inl e)
  with assms show ?thesis by (auto dest: write_sources_unchanged)
next
  case (Inr x)
  with write_sources_Inr[OF _ assms(2), of r f x f'] assms(1) show ?thesis by (auto simp: load_sources_document)
qed

lemma live_writes_loadable:
  assumes l: "load_sources lo f = Inr ls"
  shows "set_source lo l f = (r, f') \<Longrightarrow> \<exists>ls'. load_sources lo f' = Inr ls'"
    "add_source lo l f = (r, f') \<Longrightarrow> \<exists>ls'. load_sources lo f' = Inr ls'"
    "delete_source lo v f = (q, f') \<Longrightarrow> \<exists>ls'. load_sources lo f' = Inr ls'"
proof -
  show "set_source lo l f = (r, f') \<Longrightarrow> \<exists>ls'. load_sources lo f' = Inr ls'"
    using l by (cases r) (auto dest: operations_unchanged elim: set_source_Inr)
  then show "add_source lo l f = (r, f') \<Longrightarrow> \<exists>ls'. load_sources lo f' = Inr ls'"
    using l by (cases r) (auto dest: operations_unchanged(2) add_is_set)
  have w: "list_all (wf_source lo) (filter P ls)" for P
    using wf_catalogD(1)[OF load_sources_Inr[OF l]] by (auto simp: list_all_iff)
  assume "delete_source lo v f = (q, f')"
  then consider "f' = f" | P where "write_sources (filter P ls) True f = (q, f')"
    using l by (auto simp: delete_source_def Let_def rbind_Inr_iff split: sum.splits if_splits)
  then show "\<exists>ls'. load_sources lo f' = Inr ls'"
    using l write_sources_loadable[OF _ w l] by cases blast+
qed

lemma tv_writes_loadable:
  assumes "load_tv f = Inr bs"
  shows "\<exists>bs'. load_tv (snd (set_tv channel item f)) = Inr bs'" "\<exists>bs'. load_tv (snd (delete_tv channel f)) = Inr bs'"
  using tv_after_readable[of f "SetTv channel item"] tv_after_readable[of f "DeleteTv channel"] assms
  by (auto simp: tv_file.readable_def)

lemma loadable_updates [simp]:
  "loadable W (s\<lparr>subs_json := f\<rparr>) = loadable W s" "loadable W (s\<lparr>channel_json := f\<rparr>) = loadable W s"
  "loadable W (s\<lparr>games := g\<rparr>) = loadable W s"
  by (simp_all add: loadable_def)

lemma keeps_live_write:
  assumes "stable W (loadable W)"
    and "\<And>f r f' ls. operation f = (r, f') \<Longrightarrow> load_sources (w_lo W) f = Inr ls \<Longrightarrow> \<exists>ls'. load_sources (w_lo W) f' = Inr ls'"
  shows "keeps_any (loadable W) (updating W k live_json live_json_update operation h)"
  by (rule keeps_updating[OF assms(1)]) (auto simp: loadable_def dest!: assms(2))

lemma keeps_tv_write:
  assumes "stable W (loadable W)"
    and "\<And>f bs. load_tv f = Inr bs \<Longrightarrow> \<exists>bs'. load_tv (snd (operation f)) = Inr bs'"
  shows "keeps_any (loadable W) (updating W k tv_json tv_json_update operation h)"
proof (rule keeps_updating[OF assms(1)])
  fix s r f
  assume "loadable W s" "operation (tv_json s) = (r, f)"
  then show "loadable W (tv_json_update (\<lambda>_. f) s) \<and> (\<forall>x. r = Inr x \<longrightarrow> True)"
    using assms(2)[of "tv_json s"] by (auto simp: loadable_def)
qed

lemma keeps_subs_write:
  "stable W (loadable W) \<Longrightarrow> keeps_any (loadable W) (updating W k subs_json subs_json_update operation h)"
  by (rule keeps_updating) auto

subsection \<open>Every handler keeps the files loadable\<close>

lemma renamed_accounts_wf:
  "utc_law (w_utc W) \<Longrightarrow> wf_accounts W ss \<Longrightarrow> renamed_accounts W pid name ss = Inr ss' \<Longrightarrow> wf_accounts W ss'"
  by (induction ss arbitrary: ss') (auto simp: rbind_Inr_iff dest: parse_account_wf split: if_splits)

lemma patched_account_Inr:
  "patched_account W current payload = Inr new \<Longrightarrow>
     identity_kept W current payload \<and> realm_change_ok current payload
     \<and> parse_account W (PDict (AList.update ''source_id'' (PStr (source_id current))
          (dict_merge (mapping_of (source_to_mapping current)) payload))) = Inr new"
  by (auto simp: patched_account_def split: if_splits)

lemma wf_without_account: "wf_accounts W ss \<Longrightarrow> wf_accounts W (without_account sid ss)"
  by (auto simp: without_account_def list_all_iff)

lemma keeps_patch_provider:
  assumes "stable W (loadable W)" "utc_law (w_utc W)"
  shows "keeps_any (loadable W) (patch_provider W pid call)"
  unfolding patch_provider_def
  by (rule keeps_seq, rule step_rules, rule keeps_seq, rule step_rules, rule keeps_seq, rule step_rules,
      rule keeps_bind[OF keeps_load_accounts_wf[OF assms]], rule keeps_seq, rule step_rules,
      rule keeps_bind[OF keeps_computed], rule keeps_seq, rule keeps_write_accounts[OF assms(1)],
      erule renamed_accounts_wf[OF assms(2)], assumption) (intro step_rules)

lemma keeps_patch_source:
  assumes "stable W (loadable W)" "utc_law (w_utc W)"
  shows "keeps_any (loadable W) (patch_source W sid call)"
  unfolding patch_source_def Let_def
proof (rule keeps_seq, rule step_rules, rule keeps_seq, rule step_rules,
    rule keeps_bind[OF keeps_load_accounts_wf[OF assms]], rule keeps_seq, rule step_rules,
    rule keeps_bind[OF keeps_computed], rule keeps_seq, rule keeps_write_accounts[OF assms(1)])
  fix payload ss current new
  assume "wf_accounts W ss" and "patched_account W current payload = Inr new"
  then show "wf_accounts W (map (\<lambda>s. if source_id s = sid then new else s) ss)"
    using parse_account_wf[OF assms(2)] by (auto simp: list_all_iff dest: patched_account_Inr)
qed (intro step_rules)

lemma keeps_removable_account:
  assumes "stable W (loadable W)" "utc_law (w_utc W)"
  shows "keeps (loadable W) (removable_account W sid) (\<lambda>(ss, n). wf_accounts W ss)"
  unfolding removable_account_def
  by (rule keeps_bind[OF keeps_load_accounts_wf[OF assms]])
     (auto intro!: step_rules keeps_seq keeps_return assms)

lemma keeps_removals:
  assumes "stable W (loadable W)" "utc_law (w_utc W)"
  shows "keeps_any (loadable W) (delete_provider_account W sid)" "keeps_any (loadable W) (delete_source_row W sid)"
proof -
  note w = keeps_write_accounts[OF assms(1) wf_without_account]
  show "keeps_any (loadable W) (delete_source_row W sid)"
    unfolding delete_source_row_def
    by (rule keeps_seq, rule step_rules, rule keeps_bind[OF keeps_load_accounts_wf[OF assms]])
       (auto intro!: step_rules w)
  show "keeps_any (loadable W) (delete_provider_account W sid)"
    unfolding delete_provider_account_def
    by (rule keeps_seq, rule step_rules, rule keeps_bind[OF keeps_removable_account[OF assms]])
       (auto intro!: step_rules w assms)
qed

lemma keeps_checked_account:
  assumes "stable W (loadable W)" "utc_law (w_utc W)"
  shows "keeps (loadable W) (checked_account W payload) (\<lambda>(texts, password, source, ss). wf_accounts W ss)"
proof -
  have texts: "keeps_any (loadable W) (account_texts payload ks)" for ks
    by (induction ks) (auto intro!: step_rules split: pyval.splits)
  show ?thesis unfolding checked_account_def
    by (rule keeps_seq, rule step_rules, rule keeps_seq, rule texts, rule keeps_seq)
       (auto intro!: step_rules keeps_seq keeps_bind[OF keeps_load_accounts_wf[OF assms]] keeps_return
         split: pyval.splits)
qed

lemma keeps_compensate [step_rules]: "stable W I \<Longrightarrow> keeps I (compensate W c n) Q"
  unfolding compensate_def by (intro step_rules keeps_answering)

lemma keeps_created_remote:
  assumes "stable W (loadable W)" "utc_law (w_utc W)"
  shows "keeps (loadable W) (created_remote W payload) (\<lambda>(c, account, source, ss). wf_accounts W ss)"
  unfolding created_remote_def
  by (rule keeps_bind[OF keeps_checked_account[OF assms]])
     (auto intro!: step_rules keeps_seq keeps_return assms)

lemma keeps_persisted_creation:
  assumes "stable W (loadable W)" "utc_law (w_utc W)" "wf_accounts W ss"
  shows "keeps_any (loadable W) (persisted_creation W (c, account, source, ss))"
  unfolding persisted_creation_def prod.case
proof (rule keeps_seq)
  show "keeps_any (loadable W) (persist_account W 2 (rbind (map_exn WriteRefused
      (referenced_account W source (account_id account))) (\<lambda>new. Inr (ss @ [new]))))"
    using assms(3) parse_account_wf[OF assms(2)]
    by (intro keeps_persist_account[OF assms(1)]) (auto simp: rbind_Inr_iff referenced_account_def)
qed (auto intro!: step_rules assms split: sum.splits)

lemma keeps_post_provider_account:
  assumes "stable W (loadable W)" "utc_law (w_utc W)"
  shows "keeps_any (loadable W) (post_provider_account W payload)"
  unfolding post_provider_account_def
  by (rule keeps_bind[OF keeps_created_remote[OF assms]]) (auto intro: keeps_persisted_creation[OF assms])

lemma keeps_live_handlers:
  assumes "stable W (loadable W)"
  shows "keeps_any (loadable W) (post_live_source W payload)" "keeps_any (loadable W) (patch_live_source W sid call)"
    "keeps_any (loadable W) (delete_live_source W sid)" "keeps_any (loadable W) (post_tv_binding W payload)"
    "keeps_any (loadable W) (delete_tv_binding W c)"
  unfolding post_live_source_def patch_live_source_def delete_live_source_def post_tv_binding_def
    delete_tv_binding_def Let_def
  by (auto intro!: step_rules keeps_live_write[OF assms] keeps_tv_write[OF assms] assms
      elim: live_writes_loadable[rotated] tv_writes_loadable)

lemma keeps_subscription_handlers:
  assumes "stable W (loadable W)"
  shows "keeps_any (loadable W) (post_subscription W event payload)" "keeps_any (loadable W) (patch_recording W sid call)"
    "keeps_any (loadable W) (delete_subscription W sid user)"
  unfolding post_subscription_def follow_channel_def follow_target_def following_def patch_recording_def
    delete_subscription_def Let_def
  by (auto intro!: step_rules keeps_subs_write[OF assms] assms split: pyval.splits list.splits prod.splits)

lemma keeps_handlers:
  assumes "stable W (loadable W)" "utc_law (w_utc W)" "handler_of what = Some h"
  shows "keeps_any (loadable W) (h W parsed call)"
proof -
  note rules = keeps_if step_rules keeps_account_reads(4)[OF assms(1)] keeps_account_reads(2)[OF assms(1)]
    keeps_patch_provider[OF assms(1,2)] keeps_patch_source[OF assms(1,2)] keeps_removals[OF assms(1,2)]
    keeps_post_provider_account[OF assms(1,2)] keeps_live_handlers[OF assms(1)]
    keeps_subscription_handlers[OF assms(1)]
  have "keeps_any (loadable W) (do_POST W parsed call)"
    unfolding do_POST_def Let_def by (intro rules)
  moreover have "keeps_any (loadable W) (do_PATCH W parsed call)"
    unfolding do_PATCH_def Let_def by (intro rules)
  moreover have "keeps_any (loadable W) (do_DELETE W parsed call)"
    unfolding do_DELETE_def Let_def by (intro rules)
  ultimately show ?thesis using assms(3) keeps_do_GET[OF assms(1)] by (auto simp: handler_of_def split: if_splits)
qed

lemma handle_loadable:
  assumes "stable W (loadable W)" "utc_law (w_utc W)" "loadable W s"
  shows "loadable W (snd (handle W call s))"
  using assms(3) keeps_answered[OF keeps_handlers[OF assms(1,2)] assms(3)]
  by (simp add: handle_def split: option.splits)

text \<open>The store after a sequence of requests, each under its own surroundings.\<close>

definition served :: "(api_world \<times> api_call) list \<Rightarrow> api_store \<Rightarrow> api_store" where
  "served requests s = foldl (\<lambda>st (W, call). snd (handle W call st)) s requests"

text \<open>
  C15. Whatever the requests, in whatever order, and whatever the other threads do between two steps of a
  handler, as long as they keep the files loadable too: after a sequence of requests the lifecycle registry,
  the live catalog and the Live TV bindings can all be loaded, so no request can bring the service into a state
  in which its readers fail for good. The time stamps obey their documented law.
\<close>

theorem state_files_stay_loadable:
  assumes "loadable W s"
    and "\<forall>(V, call) \<in> set requests. loadable V = loadable W \<and> stable V (loadable V) \<and> utc_law (w_utc V)"
  shows "loadable W (served requests s)"
  using assms
proof (induction requests arbitrary: s)
  case (Cons x requests)
  obtain V call where x: "x = (V, call)" by force
  with Cons.prems have "loadable W (snd (handle V call s))" using handle_loadable[of V s call] by auto
  with Cons x show ?case by (simp add: served_def)
qed (simp add: served_def)

end
