(* ===== verification/Api_Accounts.thy ===== *)
theory Api_Accounts
  imports Api_Safety
begin

text \<open>
  Properties of the account endpoints of the private Sports API: what a change keeps, how the creation and
  the removal of a provider account agree with the remote administration, and what the missing lock costs.
\<close>

subsection \<open>Steps of a handler that runs alone\<close>

lemma unchanged:
  "alone W \<Longrightarrow> keeps (\<lambda>x. x = s) m Q \<Longrightarrow> m s = (r, s') \<Longrightarrow> s' = s \<and> (\<forall>x. r = Inr x \<longrightarrow> Q x)"
  by (auto simp: keeps_def)

lemma load_accounts_Inr:
  "load_accounts W k a s = (Inr ss, s') \<Longrightarrow>
     load_lifecycle (parse_account W) (lifecycle_json s) = Inr ss \<and> s' = w_others W k s"
  by (simp add: load_accounts_def reading_def)

lemma found_Inr: "present x a s = (Inr v, s') \<Longrightarrow> x = Some v \<and> s' = s"
  by (cases x) (auto simp: present_def answering_def pfail_def preturn_def)

lemma check_Inr: "check b a s = (Inr u, s') \<Longrightarrow> b \<and> s' = s"
  by (auto simp: check_def answering_def pfail_def preturn_def split: if_splits)

lemma computed_Inr: "computed h r s = (Inr x, s') \<Longrightarrow> r = Inr x \<and> s' = s"
  by (simp add: computed_def pure_play_def)

lemma read_payload_Inr: "read_payload call s = (Inr d, s') \<Longrightarrow> call_body call = Some (PDict d) \<and> s' = s"
  by (auto simp: read_payload_def answering_def pfail_def preturn_def split: option.splits if_splits pyval.splits)

lemma remote_Inr: "remote W k h r s = (Inr x, s') \<Longrightarrow> r = Inr x \<and> s' = w_others W k s"
  by (simp add: remote_def reading_def)

lemma source_response_Inr: "source_response ss s = (Inr d, s') \<Longrightarrow> s' = s"
  by (simp add: source_response_def pure_play_def)

lemma write_accounts_Inr:
  assumes "write_accounts W k ss h s = (Inr u, s')"
  shows "s' = w_others W k (s\<lparr>lifecycle_json := lifecycle_document ss\<rparr>) \<and> distinct (map source_id ss)"
proof -
  obtain r f where o: "store_accounts W k ss (lifecycle_json s) = (r, f)" by force
  then show ?thesis using assms
    by (auto simp: write_accounts_def updating_def elim!: store_accounts_cases)
qed

lemmas step_results = load_accounts_Inr found_Inr check_Inr computed_Inr read_payload_Inr remote_Inr
  source_response_Inr write_accounts_Inr

lemma bind_Inr: "pbind m f s = (Inr x, s') \<longleftrightarrow> (\<exists>y s1. m s = (Inr y, s1) \<and> f y s1 = (Inr x, s'))"
  by (auto simp: pbind_def split: prod.splits sum.splits)

subsection \<open>The identity of an account\<close>

lemma dict_merge_map: "distinct (map fst u) \<Longrightarrow> map_of (dict_merge d u) = map_of d ++ map_of u"
proof (induction u arbitrary: d)
  case (Cons x u)
  obtain k v where x: "x = (k, v)" by force
  with Cons have "map_of u k = None" by (simp add: map_of_eq_None_iff)
  then have "(map_of d)(k \<mapsto> v) ++ map_of u = map_of d ++ map_of (x # u)"
    by (auto simp: x map_add_def split: option.splits)
  moreover have "dict_merge d (x # u) = dict_merge (AList.update k v d) u" by (simp add: dict_merge_def x)
  ultimately show ?case using Cons by (simp add: update_conv' del: map_of.simps)
qed (simp add: dict_merge_def)

lemma source_from_mapping_fields:
  assumes "source_from_mapping render lo utc (PDict e) = Inr s"
  shows "required_text_field render 64 (dict_value e ''source_id'') = Inr (source_id s)"
    "\<exists>p. provider_id s = Some p \<and> required_text_field render 64 (dict_default e ''provider_id'' (PStr (source_id s))) = Inr p"
    "realm_field (dict_value e ''credential_realm'') = Inr (credential_realm s)"
    "enabled_field (dict_default e ''enabled'' (PBool True)) = Inr (enabled s)"
    "optional_text_field render 128 (dict_value e ''backend_reference'') = Inr (backend_reference s)"
  using assms by (auto simp: source_from_mapping_def rbind_Inr_iff split: if_splits)

lemma required_text_kept:
  assumes "required_text_field render n v = Inr t"
  shows "strip (py_str render v) = t"
  using assms by (auto simp: required_text_field_def Let_def strip_no_space split: if_splits)

lemma patched_identity:
  assumes "utc_law (w_utc W)" and wf: "wf_sports_source (w_render W) (w_lo W) (w_utc W) current"
    and "distinct (map fst payload)" and p: "patched_account W current payload = Inr new"
  shows "source_id new = source_id current" and "provider_id new = provider_id current"
    and "credential_realm current \<noteq> None \<or> enabled current \<Longrightarrow> credential_realm new = credential_realm current"
proof -
  define e where "e = AList.update ''source_id'' (PStr (source_id current))
    (dict_merge (mapping_of (source_to_mapping current)) payload)"
  obtain d where d: "source_to_mapping current = PDict d"
    and l: "\<And>v. dict_default d ''provider_id'' v = optional_json (provider_id current)"
      "dict_value d ''credential_realm'' = optional_json (credential_realm current)"
    by (rule source_to_mapping_fields[of current]) blast
  note k = patched_account_Inr[OF p, unfolded e_def[symmetric] parse_account_def]
  note f = source_from_mapping_fields[OF k[THEN conjunct2, THEN conjunct2]]
  have m: "map_of e = (map_of d ++ map_of payload)(''source_id'' \<mapsto> PStr (source_id current))"
    using assms(3) by (simp add: e_def d update_conv' dict_merge_map)
  show sid: "source_id new = source_id current"
    using f(1) wf by (simp add: dict_default_def m wf_sports_source_def)
  obtain q where q: "provider_id current = Some q" "kept_text 64 q" using wf by (auto simp: wf_sports_source_def)
  obtain t where t: "provider_id new = Some t"
    "required_text_field (w_render W) 64 (dict_default e ''provider_id'' (PStr (source_id new))) = Inr t"
    using f(2) by blast
  have "t = q"
  proof (cases "map_of payload ''provider_id''")
    case None
    then have "dict_default e ''provider_id'' v = optional_json (provider_id current)" for v
      using l(1)[of v] by (simp add: dict_default_def m map_add_def)
    with t(2) q show ?thesis by simp
  next
    case (Some v)
    then have "dict_default e ''provider_id'' u = v" for u by (simp add: dict_default_def m)
    with required_text_kept[OF t(2)] k Some q show ?thesis
      by (simp add: identity_kept_def optional_text_def kept_text_def)
  qed
  with t q show "provider_id new = provider_id current" by simp
  assume "credential_realm current \<noteq> None \<or> enabled current"
  then have "dict_value e ''credential_realm'' = optional_json (credential_realm current)"
    using k l(2) by (cases "map_of payload ''credential_realm''")
      (auto simp: realm_change_ok_def dict_default_def m map_add_def split: option.splits)
  with f(3) wf show "credential_realm new = credential_realm current" by (simp add: wf_sports_source_def)
qed


subsection \<open>Updates without a lock\<close>

text \<open>
  C18. The lifecycle store has no lock around reading and writing: when another request adds an account after
  a \<open>PATCH\<close> has loaded the registry and before it writes it back, the \<open>PATCH\<close> is answered with success
  and the added account is no longer in the registry.
\<close>

theorem stale_patch_drops_account:
  assumes "utc_law (w_utc W)" and "load_lifecycle (parse_account W) (lifecycle_json s) = Inr ss"
    and "load_lifecycle (parse_account W) (lifecycle_json (w_others W 0 s)) = Inr mid"
    and "added \<in> set mid" and "source_id added \<notin> source_id ` set ss"
    and "\<forall>x. w_others W 1 x = x" and "call_body call = Some (PDict payload)" and "distinct (map fst payload)"
    and "patch_source W sid call s = (Inr a, s')"
  shows "\<exists>rows. load_lifecycle (parse_account W) (lifecycle_json s') = Inr rows
    \<and> source_id added \<notin> source_id ` set rows"
proof -
  obtain current new where c: "find_account sid ss = Some current" and p: "patched_account W current payload = Inr new"
    and w: "lifecycle_json s' = lifecycle_document (map (\<lambda>x. if source_id x = sid then new else x) ss)"
      "distinct (map source_id (map (\<lambda>x. if source_id x = sid then new else x) ss))"
    using assms(2,6,7,9) unfolding patch_source_def Let_def required_argument_def bind_Inr
    by (auto dest!: step_results simp: preturn_def)
  have c': "current \<in> set ss" "source_id current = sid"
    using c unfolding find_account_def by (auto simp: find_Some_iff)
  have wf: "wf_lifecycle (w_render W) (w_lo W) (w_utc W) ss" using load_accounts_wf[OF assms(1,2)] .
  with c' have wc: "wf_sports_source (w_render W) (w_lo W) (w_utc W) current"
    by (auto simp: wf_lifecycle_def list_all_iff)
  have n: "source_id new = sid" using patched_identity(1)[OF assms(1) wc assms(8) p] c' by simp
  have "wf_sports_source (w_render W) (w_lo W) (w_utc W) new"
    using parse_account_wf[OF assms(1)] patched_account_Inr[OF p] by blast
  with wf w(2) have "wf_lifecycle (w_render W) (w_lo W) (w_utc W) (map (\<lambda>x. if source_id x = sid then new else x) ss)"
    by (auto simp: wf_lifecycle_def list_all_iff)
  from load_lifecycle_document[OF this] w(1) assms(5) c' n show ?thesis
    by (auto simp: parse_account_def image_iff)
qed

subsection \<open>Creating a provider account\<close>

lemma strip_reference:
  assumes "0 \<le> n"
  shows "strip (reference_of n) = reference_of n"
proof -
  have "list_all (\<lambda>c. \<not> py_space c) (dec_nat m)" for m
  proof (induction m rule: dec_nat.induct)
    case (1 m)
    have "\<not> py_space (digit_char d)" if "d < 10" for d using that by (simp add: py_space_def digit_char_def)
    with 1 show ?case by (subst dec_nat.simps) simp
  qed
  moreover have "list_all (\<lambda>c. \<not> py_space c) m3u_prefix" by code_simp
  ultimately show ?thesis using assms by (intro strip_no_space) (simp add: reference_of_def dec_def)
qed

lemma reference_field:
  assumes "0 \<le> n"
  shows "optional_text_field render 128 (PStr (reference_of n)) =
    (if length (reference_of n) \<le> 128 then Inr (Some (reference_of n)) else lifecycle_error)"
  using strip_reference[OF assms]
  by (auto simp: optional_text_field_def Let_def reference_of_def m3u_prefix_def)

lemma referenced_account_cases:
  assumes "wf_sports_source (w_render W) (w_lo W) (w_utc W) source" "0 \<le> n"
  shows "referenced_account W source n =
    (if length (reference_of n) \<le> 128 then Inr (source\<lparr>backend_reference := Some (reference_of n)\<rparr>)
     else lifecycle_error)"
proof -
  let ?s = "source\<lparr>backend_reference := Some (reference_of n)\<rparr>"
  have "wf_sports_source (w_render W) (w_lo W) (w_utc W) (?s\<lparr>backend_reference := None\<rparr>)"
    using assms(1) by (simp add: wf_sports_source_def kept_optional_def)
  note r = source_with_backend[OF this]
  have "PDict (AList.update ''backend_reference'' (PStr (reference_of n)) (mapping_of (source_to_mapping source)))
      = source_to_mapping ?s"
    by (simp add: source_to_mapping_def)
  then show ?thesis using r by (simp add: referenced_account_def parse_account_def reference_field[OF assms(2)])
qed

lemma group_source_providers_Inl: "group_source_providers ss = Inl e \<Longrightarrow> e = SourceLifecycleError"
proof -
  have "group_providers ss ps = Inl e \<Longrightarrow> e = SourceLifecycleError" for ps
    by (induction ps) (auto simp: group_provider_def Let_def rbind_def split: sum.splits list.splits)
  then show "group_source_providers ss = Inl e \<Longrightarrow> e = SourceLifecycleError"
    by (simp add: group_source_providers_def)
qed

lemma store_accounts_caught: "store_accounts W k ss f = (Inl e, f') \<Longrightarrow> persist_caught e \<and> f' = f"
  by (auto simp: store_accounts_def write_lifecycle_def dest: group_source_providers_Inl
      split: prod.splits sum.splits if_splits)

lemma checked_account_Inr:
  assumes "alone W" "utc_law (w_utc W)" "checked_account W payload s = (Inr (texts, password, source, ss), s1)"
  shows "s1 = s \<and> load_lifecycle (parse_account W) (lifecycle_json s) = Inr ss
    \<and> wf_sports_source (w_render W) (w_lo W) (w_utc W) source \<and> \<not> enabled source
    \<and> find_account (source_id source) ss = None"
proof -
  have texts: "keeps_any I (account_texts payload ks)" for I ks
    by (induction ks) (auto intro!: step_rules split: pyval.splits)
  have "account_texts payload ks x = (r, x') \<Longrightarrow> x' = x" for ks x r x'
    using texts[of "\<lambda>y. y = x" ks] unfolding keeps_def by blast
  then have "s1 = s \<and> load_lifecycle (parse_account W) (lifecycle_json s) = Inr ss
      \<and> parse_account W (account_mapping texts payload) = Inr source \<and> find_account (source_id source) ss = None"
    using assms(1,3) unfolding checked_account_def bind_Inr
    by (auto dest!: step_results simp: alone_def preturn_def answering_def pfail_def bind_Inr split: pyval.splits)
  moreover have "\<not> enabled source" if "parse_account W (account_mapping texts payload) = Inr source"
    using source_from_mapping_fields(4)[OF that[unfolded parse_account_def account_mapping_def Let_def]]
    by (simp add: dict_default_def)
  ultimately show ?thesis using parse_account_wf[OF assms(2)] by blast
qed

lemma keeps_created_any: "stable W I \<Longrightarrow> keeps_any I (created_remote W payload)"
proof -
  assume st: "stable W I"
  have texts: "keeps_any I (account_texts payload ks)" for ks
    by (induction ks) (auto intro!: step_rules split: pyval.splits)
  show ?thesis unfolding created_remote_def checked_account_def
    using st by (auto intro!: step_rules texts split: pyval.splits prod.splits)
qed

lemma created_remote_Inr:
  assumes "alone W" "utc_law (w_utc W)" "created_remote W payload s = (Inr (c, account, source, ss), s1)"
  shows "s1 = s \<and> load_lifecycle (parse_account W) (lifecycle_json s) = Inr ss
    \<and> wf_sports_source (w_render W) (w_lo W) (w_utc W) source \<and> \<not> enabled source
    \<and> find_account (source_id source) ss = None \<and> 1 \<le> account_id account"
proof -
  obtain texts password where "checked_account W payload s = (Inr (texts, password, source, ss), s)"
    and "s1 = s" "1 \<le> account_id account"
    using assms(3) checked_account_Inr[OF assms(1,2)] assms(1) unfolding created_remote_def bind_Inr
    by (auto dest!: step_results simp: alone_def preturn_def bind_Inr)
  with checked_account_Inr[OF assms(1,2)] show ?thesis by blast
qed

lemma compensate_result:
  assumes "alone W"
  shows "compensate W c n s = (Inl (case delete_account (w_render W) (w_http W 1) c (PInt n) of
      Inl e \<Rightarrow> admin_caught create_unreconciled create_unreconciled e | Inr _ \<Rightarrow> Some create_failed), s)"
  using assms by (simp add: compensate_def pbind_def remote_def reading_def alone_def answering_def pfail_def
      split: sum.splits)

text \<open>The outcome of persisting a created account.\<close>

definition create_undone :: "api_world \<Rightarrow> admin_client \<Rightarrow> int \<Rightarrow> http_answer option" where
  "create_undone W c n =
     (case delete_account (w_render W) (w_http W 1) c (PInt n) of
        Inl e \<Rightarrow> admin_caught create_unreconciled create_unreconciled e
      | Inr _ \<Rightarrow> Some create_failed)"

lemma persisted_creation_result:
  assumes "alone W" "wf_sports_source (w_render W) (w_lo W) (w_utc W) source" "1 \<le> account_id account"
    and "persisted_creation W (c, account, source, ss) s = (res, s')"
  defines "new \<equiv> source\<lparr>backend_reference := Some (reference_of (account_id account))\<rparr>"
  shows "res = Inl (create_undone W c (account_id account)) \<and> s' = s
    \<or> length (reference_of (account_id account)) \<le> 128 \<and> (\<exists>a. res = Inr a)
      \<and> s' = s\<lparr>lifecycle_json := lifecycle_document (ss @ [new])\<rparr> \<and> distinct (map source_id (ss @ [new]))"
proof (cases "length (reference_of (account_id account)) \<le> 128")
  case False
  then have r: "referenced_account W source (account_id account) = lifecycle_error"
    using referenced_account_cases[OF assms(2)] assms(3) by simp
  show ?thesis using assms(1,4)
    by (simp add: persisted_creation_def r persist_account_def pbind_def preturn_def compensate_result create_undone_def)
next
  case True
  then have r: "referenced_account W source (account_id account) = Inr new"
    using referenced_account_cases[OF assms(2)] assms(3) by (simp add: new_def)
  obtain q f where q: "store_accounts W 2 (ss @ [new]) (lifecycle_json s) = (q, f)" by force
  show ?thesis
  proof (cases q)
    case (Inl e)
    with q store_accounts_caught[of W 2 "ss @ [new]" "lifecycle_json s" e f] assms(1,4) show ?thesis
      by (simp add: persisted_creation_def r persist_account_def pbind_def preturn_def compensate_result
          create_undone_def alone_def)
  next
    case (Inr u)
    with q have "f = lifecycle_document (ss @ [new])" "distinct (map source_id (ss @ [new]))"
      by (auto elim: store_accounts_cases)
    with q Inr assms(1,4) True show ?thesis
      by (auto simp: persisted_creation_def r persist_account_def pbind_def preturn_def alone_def)
  qed
qed


subsection \<open>Removing a provider account\<close>

lemma removable_account_Inr:
  assumes "alone W" "removable_account W sid s = (Inr (ss, n), s1)"
  shows "s1 = s \<and> load_lifecycle (parse_account W) (lifecycle_json s) = Inr ss
    \<and> load_sources (w_lo W) (live_json s) = Inr []
    \<and> (\<exists>account \<in> set ss. source_id account = sid \<and> \<not> enabled account \<and> dispatcharr_account_id account = Inr n)"
proof -
  obtain account where f: "find_account sid ss = Some account" and r: "\<not> enabled account"
    "dispatcharr_account_id account = Inr n" "s1 = s" "load_lifecycle (parse_account W) (lifecycle_json s) = Inr ss"
    "load_sources (w_lo W) (live_json s) = Inr []"
    using assms unfolding removable_account_def bind_Inr
    by (auto dest!: step_results simp: alone_def preturn_def reading_def)
  from f have "account \<in> set ss \<and> source_id account = sid" by (auto simp: find_account_def find_Some_iff)
  with r show ?thesis by blast
qed

lemma keeps_removable_any: "stable W I \<Longrightarrow> keeps_any I (removable_account W sid)"
  unfolding removable_account_def by (intro step_rules)

lemma lifecycle_caught_Some: "lifecycle_caught a e = Some b \<Longrightarrow> b = a"
  by (cases e) auto

lemma live_caught_Some: "live_caught a e = Some b \<Longrightarrow> b = a"
  by (cases e) auto

lemma admin_caught_Some: "admin_caught missing a e = Some b \<Longrightarrow> b = missing \<or> b = a"
  by (cases e) auto

lemma removal_answers:
  "removal_invalid \<noteq> removal_unreconciled" "account_absent \<noteq> removal_unreconciled"
  "account_enabled_answer \<noteq> removal_unreconciled" "unavailable_answer \<noteq> removal_unreconciled"
  "playback_dependency \<noteq> removal_unreconciled" "removal_unavailable \<noteq> removal_unreconciled"
  "error_answer n t \<noteq> removal_unreconciled"
  by (simp_all add: removal_invalid_def account_absent_def account_enabled_answer_def unavailable_answer_def
      playback_dependency_def removal_unavailable_def removal_unreconciled_def coded_answer_def error_answer_def)

lemma removal_caught:
  "lifecycle_caught removal_invalid e \<noteq> Some removal_unreconciled"
  "live_caught unavailable_answer e' \<noteq> Some removal_unreconciled"
  "admin_caught removal_unavailable removal_unavailable e'' \<noteq> Some removal_unreconciled"
  using removal_answers
  by (auto dest: lifecycle_caught_Some live_caught_Some admin_caught_Some)

lemma pbind_Inl: "pbind m f s = (Inl e, s') \<longleftrightarrow> m s = (Inl e, s') \<or> (\<exists>x s1. m s = (Inr x, s1) \<and> f x s1 = (Inl e, s'))"
  by (auto simp: pbind_def split: prod.splits sum.splits)

lemma step_failures:
  "check b a s = (Inl r, s') \<Longrightarrow> r = Some a \<and> s' = s" "present x a s = (Inl r, s') \<Longrightarrow> r = Some a \<and> s' = s"
  "computed h (q :: 'e + 'a) s = (Inl r, s') \<Longrightarrow> \<exists>e. r = h e"
  "reading W k (get :: _ \<Rightarrow> 'f + 'b) h' s = (Inl r, s') \<Longrightarrow> \<exists>e. r = h' e"
  by (auto simp: check_def present_def computed_def pure_play_def reading_def answering_def pfail_def preturn_def
      map_exn_def split: if_splits option.splits sum.splits)

lemma removable_account_refusal:
  "removable_account W sid s = (Inl r, s1) \<Longrightarrow> r \<noteq> Some removal_unreconciled"
  unfolding removable_account_def pbind_Inl load_accounts_def
  by (auto dest!: step_failures simp: preturn_def removal_answers removal_answers[symmetric] removal_caught
      removal_caught[symmetric])

text \<open>The handler when it runs alone, from the account that may be removed on.\<close>

lemma delete_provider_account_alone:
  assumes "alone W"
  shows "delete_provider_account W sid s =
    (case required_argument sid ''source_id'' s of (Inl r, _) \<Rightarrow> (Inl r, s) | (Inr _, _) \<Rightarrow>
     (case removable_account W sid s of (Inl r, _) \<Rightarrow> (Inl r, s) | (Inr (ss, n), _) \<Rightarrow>
     (case from_environment W of Inl _ \<Rightarrow> (Inl None, s) | Inr c \<Rightarrow>
     (case delete_account (w_render W) (w_http W 0) c (PInt n) of
        Inl e \<Rightarrow> (Inl (admin_caught removal_unavailable removal_unavailable e), s)
      | Inr _ \<Rightarrow> (case store_accounts W 3 (without_account sid ss) (lifecycle_json s) of
          (Inl e, f) \<Rightarrow> (Inl (removal_write_caught e), s\<lparr>lifecycle_json := f\<rparr>)
        | (Inr _, f) \<Rightarrow> (Inr (removed_answer sid []), s\<lparr>lifecycle_json := f\<rparr>))))))"
proof -
  have "snd (required_argument sid ''source_id'' s) = s"
    by (simp add: required_argument_def check_def answering_def pfail_def preturn_def)
  moreover have "snd (removable_account W sid s) = s"
    using keeps_removable_any[OF alone_stable[OF assms], of "\<lambda>x. x = s" sid]
    unfolding keeps_def by (metis prod.collapse)
  ultimately show ?thesis using assms
    by (auto simp: delete_provider_account_def pbind_def alone_def computed_def pure_play_def remote_def reading_def
        write_accounts_def updating_def preturn_def split: prod.splits sum.splits)
qed


subsection \<open>The endpoint that creates no source\<close>

text \<open>
  C19. \<open>POST /internal/v1/sources\<close> is accepted but no branch of \<open>do_POST\<close> creates a source: the block
  that would stands in \<open>do_GET\<close>, behind a return. The request is handled exactly as a \<open>POST\<close> to the
  subscriptions, with the same answer and the same change of the state.
\<close>

theorem post_sources_is_a_subscription:
  assumes "call_method call = ''POST''" and "url_path parsed = ''/internal/v1/sources''"
  shows "do_POST W parsed call = do_POST W (parsed\<lparr>url_path := ''/internal/v1/subscriptions''\<rparr>) call"
proof -
  have "curated_read_authorized (w_tokens W) call q = Inr False" for q
    using assms(1) by (simp add: curated_read_authorized_def)
  then have a: "authorize W call (parsed\<lparr>url_path := p\<rparr>) = authorize W call parsed" for p
    unfolding authorize_def require_auth_def by presburger
  have "\<not> between sources_prefix ''/test-connection'' ''/internal/v1/sources''"
    "\<not> between sources_prefix ''/test-connection'' ''/internal/v1/subscriptions''"
    "''/internal/v1/sources'' \<in> set posting_paths" "''/internal/v1/subscriptions'' \<in> set posting_paths"
    by code_simp+
  then show ?thesis using assms(2) by (simp add: do_POST_def a)
qed

end
