(* ===== verification/Api_Witness.thy ===== *)
theory Api_Witness
  imports Api_Accounts Subscriptions
begin

text \<open>Concrete requests to the private Sports API at which the hypotheses of its theorems hold.\<close>

subsection \<open>Subscriptions\<close>

definition demo_follow :: "state_file \<Rightarrow> (sub_exn + subscription \<times> bool) \<times> state_file" where
  "demo_follow = create_subscription no_render ''1'' ''t0'' ''event'' ''thesportsdb'' ''e1'' ''Final'' ''u1''"

theorem follow_idempotent_witness:
  "\<exists>s. demo_follow Absent = (Inr (s, True), snd (demo_follow Absent))
     \<and> demo_follow (snd (demo_follow Absent)) = (Inr (s, False), snd (demo_follow Absent))"
proof -
  have "map_sum id snd (fst (demo_follow Absent)) = Inr True" by code_simp
  then obtain s where s: "demo_follow Absent = (Inr (s, True), snd (demo_follow Absent))"
    by (cases "demo_follow Absent"; cases "fst (demo_follow Absent)") auto
  from follow_idempotent[OF this[unfolded demo_follow_def]] s show ?thesis unfolding demo_follow_def by blast
qed

definition followed_file :: state_file where
  "followed_file = snd (demo_follow Absent)"

theorem recording_scoped_witness:
  "\<exists>s f. update_subscription_recording no_render ''sub-1'' ''u1'' True followed_file = (Inr (Some s), f) \<and> sub_record s"
proof -
  obtain r f where u: "update_subscription_recording no_render ''sub-1'' ''u1'' True followed_file = (r, f)" by force
  have "map_sum id (map_option sub_id) (fst (update_subscription_recording no_render ''sub-1'' ''u1'' True followed_file))
      = Inr (Some ''sub-1'')" by code_simp
  with u obtain s where "r = Inr (Some s)" by (cases r) auto
  with recording_scoped[OF u] u show ?thesis by blast
qed

subsection \<open>A service\<close>

text \<open>The remote administration answers every exchange; an account it creates has the number 7.\<close>

definition remote_account :: "(string \<times> pyval) list" where
  "remote_account = [(''access'', PStr ''token''), (''id'', PInt 7), (''name'', PStr ''a''),
     (''account_type'', PStr ''XC''), (''max_streams'', PInt 2), (''is_active'', PBool True)]"

definition demo_http :: admin_http where
  "demo_http _ = Json (PDict remote_account)"

definition no_provider :: "provider_exn + metadata_provider" where
  "no_provider = Inl ProviderFailed"

definition demo_world :: "(nat \<Rightarrow> api_store \<Rightarrow> api_store) \<Rightarrow> api_world" where
  "demo_world others =
     \<lparr>w_tokens = \<lparr>writer_token = ''writer'', policy_token = ''policy'', curated_token = ''curated''\<rparr>,
      w_render = no_render, w_lo = no_url_literals, w_utc = demo_utc, w_regular = True, w_disk = (\<lambda>_. True),
      w_catalog = True, w_admin = (''http://d'', ''u'', ''p''), w_http = (\<lambda>_. demo_http),
      w_player = (\<lambda>_. Unreachable), w_others = others, w_espn = no_provider, w_enabled = [],
      w_metadata = (\<lambda>_ _. None), w_option = (\<lambda>_ _ _. admin_error), w_route = (\<lambda>_ _ _. None),
      w_fresh = ''1'', w_now = ''t0''\<rparr>"

definition quiet :: "nat \<Rightarrow> api_store \<Rightarrow> api_store" where
  "quiet k s = s"

definition demo_call :: "string \<Rightarrow> string \<Rightarrow> string \<Rightarrow> (string \<times> pyval) list \<Rightarrow> api_call" where
  "demo_call what url token body =
     \<lparr>call_method = what, call_url = url, call_authorization = ''Bearer '' @ token, call_length = ''50'',
      call_body = Some (PDict body)\<rparr>"

definition empty_store :: api_store where
  "empty_store = \<lparr>lifecycle_json = Absent, live_json = Absent, tv_json = Absent, channel_json = Absent,
     subs_json = Absent, games = []\<rparr>"

definition demo_store :: api_store where
  "demo_store = empty_store\<lparr>lifecycle_json := demo_lifecycle_file\<rparr>"

lemma demo_alone: "alone (demo_world quiet)"
  by (simp add: alone_def demo_world_def quiet_def)

lemma demo_world_law: "utc_law (w_utc (demo_world others))"
  by (simp add: demo_world_def demo_utc_law)

theorem only_the_writer_changes_state_witness:
  "fst (handle (demo_world quiet) (demo_call ''DELETE'' ''/internal/v1/sources/a'' ''curated'' []) demo_store)
     = Some unauthorized_answer
   \<and> snd (handle (demo_world quiet) (demo_call ''DELETE'' ''/internal/v1/sources/a'' ''curated'' []) demo_store) = demo_store"
proof -
  let ?W = "demo_world quiet" and ?c = "demo_call ''DELETE'' ''/internal/v1/sources/a'' ''curated'' []"
  have a: "authorized (w_tokens ?W) ?c = Inr False" by code_simp
  have u: "urlsplit (w_lo ?W) (call_url ?c) \<noteq> None" by code_simp
  have m: "call_method ?c = ''DELETE''" by (simp add: demo_call_def)
  have "fst (handle ?W ?c demo_store) \<noteq> Some not_found" by code_simp
  with only_the_writer_changes_state[OF demo_alone, of ?c demo_store] a u m show ?thesis by simp
qed

lemma ran:
  assumes "\<not> isl (fst p)"
  obtains a where "p = (Inr a, snd p)"
  using assms by (cases p; cases "fst p") auto

definition priority_call :: api_call where
  "priority_call = demo_call ''PATCH'' ''/internal/v1/sources/a'' ''writer'' [(''priority'', PInt 1)]"

lemma priority_body: "call_body priority_call = Some (PDict [(''priority'', PInt 1)])"
  by (simp add: priority_call_def demo_call_def)

lemma patch_run: "\<not> isl (fst (patch_source (demo_world quiet) ''a'' priority_call demo_store))"
  by code_simp


text \<open>Another request adds the account \<open>z\<close> while a \<open>PATCH\<close> is between its two steps.\<close>

definition added_file :: state_file where
  "added_file = snd (write_lifecycle True (demo_account ''z'' 5 False # demo_accounts) Absent)"

definition adding :: "nat \<Rightarrow> api_store \<Rightarrow> api_store" where
  "adding k s = (if k = 0 then s\<lparr>lifecycle_json := added_file\<rparr> else s)"

lemma stale_run: "\<not> isl (fst (patch_source (demo_world adding) ''a'' priority_call demo_store))"
  by code_simp

lemma added_wf: "wf_accounts (demo_world adding) (demo_account ''z'' 5 False # demo_accounts)"
proof -
  have "source_from_mapping no_render no_url_literals demo_utc (source_to_mapping (demo_account ''z'' 5 False))
      = Inr (demo_account ''z'' 5 False)" by code_simp
  from source_from_mapping_Inr[OF demo_utc_law this] demo_accounts_wf show ?thesis
    by (simp add: demo_world_def wf_lifecycle_def)
qed

lemma added_loads:
  "load_lifecycle (parse_account (demo_world adding)) added_file
     = Inr (sort_key source_id (demo_account ''z'' 5 False # demo_accounts))"
proof -
  have "fst (write_lifecycle True (demo_account ''z'' 5 False # demo_accounts) Absent) = Inr ()" by code_simp
  then have "write_lifecycle True (demo_account ''z'' 5 False # demo_accounts) Absent = (Inr (), added_file)"
    by (simp add: added_file_def prod_eq_iff)
  then have "distinct (map source_id (demo_account ''z'' 5 False # demo_accounts))"
    and "added_file = lifecycle_document (demo_account ''z'' 5 False # demo_accounts)"
    by (auto simp: write_lifecycle_def split: sum.splits if_splits)
  with added_wf show ?thesis
    using load_lifecycle_document[of no_render no_url_literals demo_utc "demo_account ''z'' 5 False # demo_accounts"]
    by (simp add: wf_lifecycle_def demo_world_def parse_account_def)
qed

lemma api_demo_loads:
  "load_lifecycle (parse_account (demo_world others)) demo_lifecycle_file = Inr (sort_key source_id demo_accounts)"
  using load_lifecycle_document[OF demo_accounts_wf] demo_write_run
  by (auto simp: parse_account_def demo_world_def write_lifecycle_def split: sum.splits if_splits)

theorem stale_patch_drops_account_witness:
  "\<exists>rows. load_lifecycle (parse_account (demo_world adding))
       (lifecycle_json (snd (patch_source (demo_world adding) ''a'' priority_call demo_store))) = Inr rows
     \<and> ''z'' \<notin> source_id ` set rows"
proof -
  let ?W = "demo_world adding" and ?z = "demo_account ''z'' 5 False"
  obtain a where run: "patch_source ?W ''a'' priority_call demo_store
      = (Inr a, snd (patch_source ?W ''a'' priority_call demo_store))"
    by (rule ran[OF stale_run])
  have l: "load_lifecycle (parse_account ?W) (lifecycle_json demo_store) = Inr (sort_key source_id demo_accounts)"
    by (simp add: api_demo_loads demo_store_def)
  have m: "load_lifecycle (parse_account ?W) (lifecycle_json (w_others ?W 0 demo_store))
      = Inr (sort_key source_id (?z # demo_accounts))"
    using added_loads by (simp add: demo_world_def adding_def)
  have z: "?z \<in> set (sort_key source_id (?z # demo_accounts))" "source_id ?z \<notin> source_id ` set (sort_key source_id demo_accounts)"
    by (simp_all add: demo_accounts_def demo_account_def)
  have o: "\<forall>x. w_others ?W 1 x = x" by (simp add: demo_world_def adding_def)
  from stale_patch_drops_account[OF demo_world_law l m z o priority_body _ run] show ?thesis
    by (simp add: demo_account_def)
qed

definition account_payload :: "(string \<times> pyval) list" where
  "account_payload = [(''source_id'', PStr ''n''), (''provider_id'', PStr ''new''), (''credential_realm'', PStr ''realm-2''),
     (''provider_display_name'', PStr ''New''), (''account_display_name'', PStr ''N''),
     (''server_url'', PStr ''http://p''), (''username'', PStr ''u''), (''password'', PStr ''p''),
     (''max_connections'', PInt 2)]"

lemma creation_run: "\<not> isl (fst (post_provider_account (demo_world quiet) account_payload empty_store))"
  by code_simp


text \<open>An account that is disabled, the only one, while no live source exists.\<close>

definition removal_store :: api_store where
  "removal_store = empty_store\<lparr>lifecycle_json := snd (write_lifecycle True [demo_account ''c'' 1 False] Absent)\<rparr>"

lemma removal_run: "fst (delete_provider_account (demo_world quiet) ''c'' removal_store) = Inr (removed_answer ''c'' [])"
  by code_simp


definition sources_parts :: url_parts where
  "sources_parts = \<lparr>url_scheme = [], url_netloc = [], url_path = ''/internal/v1/sources'', url_query = [], url_fragment = []\<rparr>"

theorem post_sources_is_a_subscription_witness:
  "do_POST (demo_world quiet) sources_parts (demo_call ''POST'' ''/internal/v1/sources'' ''writer'' account_payload)
     = do_POST (demo_world quiet) (sources_parts\<lparr>url_path := ''/internal/v1/subscriptions''\<rparr>)
         (demo_call ''POST'' ''/internal/v1/sources'' ''writer'' account_payload)"
  by (rule post_sources_is_a_subscription) (simp_all add: demo_call_def sources_parts_def)

theorem state_files_stay_loadable_witness:
  "loadable (demo_world quiet) (served [(demo_world quiet, priority_call), (demo_world quiet, priority_call)] demo_store)"
proof (rule state_files_stay_loadable)
  show "loadable (demo_world quiet) demo_store"
    using api_demo_loads by (simp add: loadable_def demo_store_def empty_store_def)
  show "\<forall>(V, call) \<in> set [(demo_world quiet, priority_call), (demo_world quiet, priority_call)].
      loadable V = loadable (demo_world quiet) \<and> stable V (loadable V) \<and> utc_law (w_utc V)"
    by (simp only: list.set ball_simps prod.case demo_world_law alone_stable[OF demo_alone] simp_thms)
qed

end
